(* ===== verification/Prelude.thy ===== *)
theory Prelude
  imports Main "HOL-Library.Word"
begin

text \<open>
  What every component of the development shares: the collections of rewrite rules the
  component proofs draw on, Go's strings as lists of bytes with the functions of Go's
  \<^verbatim>\<open>strings\<close>, \<^verbatim>\<open>slices\<close> and \<^verbatim>\<open>fmt\<close> packages that the sources call, and the generic
  lemmas on lists that the proofs about those functions need.

  A Go string is a sequence of bytes, and an Isabelle \<^typ>\<open>char\<close> is a byte, so a Go
  string is a \<^typ>\<open>string\<close>.  A Go function that returns a value and an error is a
  function into a sum: \<^term>\<open>Inl e\<close> is the error return, \<^term>\<open>Inr v\<close> the other one.
\<close>

section \<open>Collections of facts\<close>

named_theorems go_strings \<open>equations of the string functions of Go's library\<close>
named_theorems char_classes \<open>definitions of the character classes of the sources' regular expressions\<close>

section \<open>Types shared by the components\<close>

type_synonym gostring = string

text \<open>An object key, \<^verbatim>\<open>types.NamespacedName\<close>: the namespace and the name.\<close>

type_synonym object_key = "string \<times> string"

section \<open>Character classes\<close>

definition byte_in :: "char \<Rightarrow> char \<Rightarrow> char \<Rightarrow> bool" where
  "byte_in lo hi c \<longleftrightarrow> (of_char lo :: nat) \<le> of_char c \<and> (of_char c :: nat) \<le> of_char hi"

definition is_lower :: "char \<Rightarrow> bool" where
  "is_lower c \<longleftrightarrow> byte_in CHR ''a'' CHR ''z'' c"

definition is_upper :: "char \<Rightarrow> bool" where
  "is_upper c \<longleftrightarrow> byte_in CHR ''A'' CHR ''Z'' c"

definition is_digit :: "char \<Rightarrow> bool" where
  "is_digit c \<longleftrightarrow> byte_in CHR ''0'' CHR ''9'' c"

definition is_alnum :: "char \<Rightarrow> bool" where
  "is_alnum c \<longleftrightarrow> is_lower c \<or> is_upper c \<or> is_digit c"

text \<open>The class \<^verbatim>\<open>[a-zA-Z0-9_]\<close>, which is also RE2's \<^verbatim>\<open>\w\<close>.\<close>

definition is_word :: "char \<Rightarrow> bool" where
  "is_word c \<longleftrightarrow> is_alnum c \<or> c = CHR ''_''"

lemmas char_class_defs [char_classes] =
  byte_in_def is_lower_def is_upper_def is_digit_def is_alnum_def is_word_def

section \<open>Go's strings package\<close>

definition HasPrefix :: "string \<Rightarrow> string \<Rightarrow> bool" where
  "HasPrefix s p \<longleftrightarrow> take (length p) s = p"

text \<open>\<^verbatim>\<open>strings.Index\<close>: the first position of a substring; \<^term>\<open>None\<close> is Go's -1.\<close>

fun strings_Index :: "string \<Rightarrow> string \<Rightarrow> nat option" where
  "strings_Index [] p = (if p = [] then Some 0 else None)"
| "strings_Index (c # cs) p =
     (if HasPrefix (c # cs) p then Some 0 else map_option Suc (strings_Index cs p))"

definition strings_Contains :: "string \<Rightarrow> string \<Rightarrow> bool" where
  "strings_Contains s p \<longleftrightarrow> strings_Index s p \<noteq> None"

text \<open>\<^verbatim>\<open>strings.Replace(s, old, new, 1)\<close>: the first occurrence only.\<close>

fun strings_Replace1 :: "string \<Rightarrow> string \<Rightarrow> string \<Rightarrow> string" where
  "strings_Replace1 [] old new = (if old = [] then new else [])"
| "strings_Replace1 (c # cs) old new =
     (if HasPrefix (c # cs) old then new @ drop (length old) (c # cs)
      else c # strings_Replace1 cs old new)"

text \<open>\<^verbatim>\<open>strings.LastIndex\<close> for a one-byte pattern.\<close>

fun strings_LastIndexByte :: "string \<Rightarrow> char \<Rightarrow> nat option" where
  "strings_LastIndexByte [] c = None"
| "strings_LastIndexByte (x # xs) c =
     (case strings_LastIndexByte xs c of
        Some i \<Rightarrow> Some (Suc i)
      | None \<Rightarrow> if x = c then Some 0 else None)"

text \<open>\<^verbatim>\<open>strings.TrimRight\<close> for a one-byte cutset.\<close>

definition strings_TrimRight :: "string \<Rightarrow> char \<Rightarrow> string" where
  "strings_TrimRight s c = rev (dropWhile (\<lambda>x. x = c) (rev s))"

fun strings_Join :: "string list \<Rightarrow> string \<Rightarrow> string" where
  "strings_Join [] sep = []"
| "strings_Join [x] sep = x"
| "strings_Join (x # y # xs) sep = x @ sep @ strings_Join (y # xs) sep"

section \<open>Formatting numbers\<close>

definition dec_digit :: "nat \<Rightarrow> char" where
  "dec_digit n = char_of (n mod 10 + 48)"

fun dec_string :: "nat \<Rightarrow> string" where
  "dec_string n = (if n < 10 then [dec_digit n] else dec_string (n div 10) @ [dec_digit n])"

declare dec_string.simps [simp del]

text \<open>\<^verbatim>\<open>%x\<close> writes lower-case hexadecimal digits.\<close>

definition hex_digit :: "nat \<Rightarrow> char" where
  "hex_digit n = (if n mod 16 < 10 then char_of (n mod 16 + 48) else char_of (n mod 16 + 87))"

section \<open>Lemmas on the string functions\<close>

lemma HasPrefix_iff: "HasPrefix s p \<longleftrightarrow> (\<exists>r. s = p @ r)"
  by (metis HasPrefix_def append_eq_conv_conj append_take_drop_id)

lemma HasPrefix_Nil [simp, go_strings]: "HasPrefix s []"
  by (simp add: HasPrefix_def)

lemma HasPrefix_append [simp, go_strings]: "HasPrefix (p @ r) p"
  by (simp add: HasPrefix_def)

lemma HasPrefix_Cons [simp, go_strings]:
  "HasPrefix (x # s) (y # p) \<longleftrightarrow> x = y \<and> HasPrefix s p"
  by (auto simp: HasPrefix_def)

lemma HasPrefix_empty [simp, go_strings]: "HasPrefix [] p \<longleftrightarrow> p = []"
  by (auto simp: HasPrefix_def)

lemma HasPrefix_hd: "HasPrefix s (y # p) \<Longrightarrow> \<exists>r. s = y # r"
  by (auto simp: HasPrefix_iff)

text \<open>
  Replacing the first occurrence: when the text in front of an occurrence does not hold
  the first byte of the pattern, that occurrence is the first one.
\<close>

lemma strings_Replace1_at [go_strings]:
  "c \<notin> set p \<Longrightarrow>
   strings_Replace1 (p @ (c # old) @ r) (c # old) new = p @ new @ r"
  by (induction p) auto

lemma strings_Replace1_first:
  assumes "strings_Index s old = Some i" and "old \<noteq> []"
  shows "strings_Replace1 s old new = take i s @ new @ drop (i + length old) s"
  using assms
  by (induction s arbitrary: i) (auto split: if_splits)

lemma strings_Index_Some_iff_contains:
  "strings_Index s p \<noteq> None \<longleftrightarrow> (\<exists>a b. s = a @ p @ b)"
proof (induction s)
  case Nil
  then show ?case by auto
next
  case (Cons c s)
  have "(\<exists>a b. c # s = a @ p @ b) \<longleftrightarrow> HasPrefix (c # s) p \<or> (\<exists>a b. s = a @ p @ b)"
  proof
    assume "\<exists>a b. c # s = a @ p @ b"
    then obtain a b where ab: "c # s = a @ p @ b" by blast
    then show "HasPrefix (c # s) p \<or> (\<exists>a b. s = a @ p @ b)"
      by (cases a) auto
  next
    assume "HasPrefix (c # s) p \<or> (\<exists>a b. s = a @ p @ b)"
    then show "\<exists>a b. c # s = a @ p @ b"
    proof
      assume "HasPrefix (c # s) p"
      then obtain r where "c # s = [] @ p @ r" by (auto simp: HasPrefix_iff)
      then show ?thesis by blast
    next
      assume "\<exists>a b. s = a @ p @ b"
      then obtain a b where "c # s = (c # a) @ p @ b" by auto
      then show ?thesis by blast
    qed
  qed
  with Cons.IH show ?case by auto
qed

lemma strings_TrimRight_last:
  "strings_TrimRight s c = [] \<or> last (strings_TrimRight s c) \<noteq> c"
proof (cases "dropWhile (\<lambda>x. x = c) (rev s)")
  case Nil
  then show ?thesis by (simp add: strings_TrimRight_def)
next
  case (Cons y ys)
  then have "y \<noteq> c"
    by (metis (full_types) hd_dropWhile list.distinct(1) list.sel(1))
  with Cons show ?thesis by (simp add: strings_TrimRight_def)
qed

lemma strings_TrimRight_prefix: "\<exists>n. s = strings_TrimRight s c @ replicate n c"
proof -
  let ?t = "takeWhile (\<lambda>x. x = c) (rev s)"
  have "rev s = ?t @ dropWhile (\<lambda>x. x = c) (rev s)" by simp
  then have "s = strings_TrimRight s c @ rev ?t"
    by (metis rev_append rev_rev_ident strings_TrimRight_def)
  moreover have "?t = replicate (length ?t) c"
    by (metis (mono_tags, lifting) replicate_length_same set_takeWhileD)
  ultimately show ?thesis by (metis rev_replicate)
qed

lemma strings_TrimRight_length: "length (strings_TrimRight s c) \<le> length s"
  by (simp add: strings_TrimRight_def) (metis length_dropWhile_le length_rev)

lemma set_strings_TrimRight: "set (strings_TrimRight s c) \<subseteq> set s"
  by (auto simp: strings_TrimRight_def dest: set_dropWhileD)

lemma strings_TrimRight_hd:
  assumes "s \<noteq> []" and "hd s \<noteq> c"
  shows "strings_TrimRight s c \<noteq> [] \<and> hd (strings_TrimRight s c) = hd s"
proof -
  obtain n where n: "s = strings_TrimRight s c @ replicate n c"
    using strings_TrimRight_prefix by blast
  have "strings_TrimRight s c \<noteq> []"
  proof
    assume "strings_TrimRight s c = []"
    with n have "s = replicate n c" by simp
    with assms show False by (cases n) auto
  qed
  moreover from this n have "hd s = hd (strings_TrimRight s c)" by (metis hd_append2)
  ultimately show ?thesis by simp
qed

lemma strings_TrimRight_id:
  assumes "s \<noteq> []" and "last s \<noteq> c"
  shows "strings_TrimRight s c = s"
proof -
  from assms have "rev s \<noteq> []" and "hd (rev s) \<noteq> c" by (simp_all add: hd_rev)
  then have "dropWhile (\<lambda>x. x = c) (rev s) = rev s" by (cases "rev s") auto
  then show ?thesis by (simp add: strings_TrimRight_def)
qed

lemma list_all2_set2: "list_all2 P xs ys \<Longrightarrow> y \<in> set ys \<Longrightarrow> \<exists>x \<in> set xs. P x y"
  by (induction rule: list_all2_induct) auto

lemma list_all2_set1: "list_all2 P xs ys \<Longrightarrow> x \<in> set xs \<Longrightarrow> \<exists>y \<in> set ys. P x y"
  by (induction rule: list_all2_induct) auto

lemma takeWhile_stop: "list_all p xs \<Longrightarrow> \<not> p y \<Longrightarrow> takeWhile p (xs @ y # ys) = xs"
  by (induction xs) auto

lemma dropWhile_stop: "list_all p xs \<Longrightarrow> \<not> p y \<Longrightarrow> dropWhile p (xs @ y # ys) = y # ys"
  by (induction xs) auto

text \<open>The digits \<^const>\<open>hex_digit\<close> writes are lower-case hexadecimal ones.\<close>

lemma hex_digit_class: "is_lower (hex_digit n) \<or> is_digit (hex_digit n)"
proof -
  have "n mod 16 < 16" by simp
  then show ?thesis
    by (auto simp: hex_digit_def char_classes)
qed

end
