(* ===== verification/Go_Regexp.thy ===== *)
theory Go_Regexp
  imports Prelude
begin

text \<open>
  The part of Go's \<^verbatim>\<open>regexp\<close> package the sources use.  A pattern is a value of
  \<open>gre\<close>; \<open>rmatch\<close> lists the ways a pattern matches at one position in the order in
  which a leftmost-first (Perl-like) matcher prefers them, so the first element is the
  match Go reports there.  \<open>find_from\<close> moves the position to the right until there is a
  match, and \<open>find_all\<close> repeats that behind each match.

  The patterns of the sources use byte classes, their greedy repetition, sequences,
  alternatives, capture groups and the anchors \<^verbatim>\<open>^\<close> and \<^verbatim>\<open>$\<close> (start and end of the
  text, since no pattern sets the multi-line flag), which is what \<open>gre\<close> has.
\<close>

section \<open>Patterns and matching\<close>

datatype gre =
    REps
  | RClass "char \<Rightarrow> bool"
  | RStar "char \<Rightarrow> bool"
  | RSeq gre gre
  | RAlt gre gre
  | RGroup nat gre
  | RBot
  | REot

abbreviation RLit :: "char \<Rightarrow> gre" where
  "RLit c \<equiv> RClass (\<lambda>x. x = c)"

abbreviation RPlus :: "(char \<Rightarrow> bool) \<Rightarrow> gre" where
  "RPlus p \<equiv> RSeq (RClass p) (RStar p)"

abbreviation ROpt :: "gre \<Rightarrow> gre" where
  "ROpt r \<equiv> RAlt r REps"

text \<open>The text matched, the captures by group number, and the text behind the match.\<close>

type_synonym hit = "string \<times> (nat \<times> string) list \<times> string"

text \<open>A greedy repetition of a class: the longest split first.\<close>

fun star_splits :: "(char \<Rightarrow> bool) \<Rightarrow> string \<Rightarrow> (string \<times> string) list" where
  "star_splits p [] = [([], [])]"
| "star_splits p (c # cs) =
     (if p c then map (\<lambda>(a, b). (c # a, b)) (star_splits p cs) else []) @ [([], c # cs)]"

text \<open>The flag says whether the position is the start of the text.\<close>

fun rmatch :: "gre \<Rightarrow> bool \<Rightarrow> string \<Rightarrow> hit list" where
  "rmatch REps b s = [([], [], s)]"
| "rmatch (RClass p) b s =
     (case s of [] \<Rightarrow> [] | c # cs \<Rightarrow> if p c then [([c], [], cs)] else [])"
| "rmatch (RStar p) b s = map (\<lambda>(m, r). (m, [], r)) (star_splits p s)"
| "rmatch (RSeq r1 r2) b s =
     concat (map (\<lambda>(m1, c1, s1).
       map (\<lambda>(m2, c2, s2). (m1 @ m2, c1 @ c2, s2)) (rmatch r2 (b \<and> m1 = []) s1))
       (rmatch r1 b s))"
| "rmatch (RAlt r1 r2) b s = rmatch r1 b s @ rmatch r2 b s"
| "rmatch (RGroup n r) b s = map (\<lambda>(m, c, s'). (m, (n, m) # c, s')) (rmatch r b s)"
| "rmatch RBot b s = (if b then [([], [], s)] else [])"
| "rmatch REot b s = (if s = [] then [([], [], s)] else [])"

text \<open>The text in front of the match, then the match.\<close>

fun find_from :: "gre \<Rightarrow> bool \<Rightarrow> string \<Rightarrow> (string \<times> hit) option" where
  "find_from r b [] =
     (case rmatch r b [] of [] \<Rightarrow> None | h # _ \<Rightarrow> Some ([], h))"
| "find_from r b (c # cs) =
     (case rmatch r b (c # cs) of
        h # _ \<Rightarrow> Some ([], h)
      | [] \<Rightarrow> map_option (\<lambda>(p, h). (c # p, h)) (find_from r False cs))"

lemma star_splits_append: "(m, r) \<in> set (star_splits p s) \<Longrightarrow> m @ r = s"
  by (induction s arbitrary: m r) (auto split: if_splits)

lemma rmatch_append: "(m, c, s') \<in> set (rmatch r b s) \<Longrightarrow> m @ s' = s"
proof (induction r arbitrary: b s m c s')
  case (RStar p)
  then show ?case by (auto dest: star_splits_append)
next
  case (RSeq r1 r2)
  then show ?case by fastforce
qed (auto split: list.splits if_splits)

lemma rmatch_append_hd: "rmatch r b s = (m, c, s') # hs \<Longrightarrow> s = m @ s'"
  by (metis list.set_intros(1) rmatch_append)

lemma find_from_append:
  "find_from r b s = Some (p, m, c, s') \<Longrightarrow> s = p @ m @ s'"
proof (induction r b s arbitrary: p rule: find_from.induct)
  case (1 r b)
  then show ?case
    by (auto split: list.splits dest: rmatch_append_hd)
next
  case (2 r b ch cs)
  then show ?case
    by (auto split: list.splits dest: rmatch_append_hd)
qed

text \<open>
  \<^verbatim>\<open>FindAllStringSubmatch(s, -1)\<close>.  The list ends at an empty match, which no pattern of
  the sources has: each of them starts with a byte it must match.
\<close>

function find_all :: "gre \<Rightarrow> bool \<Rightarrow> string \<Rightarrow> (string \<times> string \<times> (nat \<times> string) list) list" where
  "find_all r b s =
     (case find_from r b s of
        None \<Rightarrow> []
      | Some (p, m, c, s') \<Rightarrow> if m = [] then [] else (p, m, c) # find_all r False s')"
  by pat_completeness auto
termination
  by (relation "measure (\<lambda>(r, b, s). length s)") (auto dest: find_from_append)

declare find_all.simps [simp del]

section \<open>The functions of the package\<close>

definition MatchString :: "gre \<Rightarrow> string \<Rightarrow> bool" where
  "MatchString r s \<longleftrightarrow> find_from r True s \<noteq> None"

text \<open>\<^verbatim>\<open>match[n]\<close>: the empty string for a group that took no part.\<close>

definition capture :: "nat \<Rightarrow> (nat \<times> string) list \<Rightarrow> string" where
  "capture n c = (case map_of c n of None \<Rightarrow> [] | Some v \<Rightarrow> v)"

text \<open>\<^verbatim>\<open>match[0]\<close> and \<^verbatim>\<open>match[1]\<close> of the first match.\<close>

definition FindStringSubmatch :: "gre \<Rightarrow> string \<Rightarrow> (string \<times> string) option" where
  "FindStringSubmatch r s =
     (case find_from r True s of
        None \<Rightarrow> None
      | Some (p, m, c, s') \<Rightarrow> Some (m, capture 1 c))"

text \<open>\<^verbatim>\<open>match[0]\<close> and \<^verbatim>\<open>match[1]\<close> of every match.\<close>

definition FindAllStringSubmatch :: "gre \<Rightarrow> string \<Rightarrow> (string \<times> string) list" where
  "FindAllStringSubmatch r s = map (\<lambda>(p, m, c). (m, capture 1 c)) (find_all r True s)"

text \<open>\<^verbatim>\<open>FindStringIndex\<close>: the start and the end of the first match.\<close>

definition FindStringIndex :: "gre \<Rightarrow> string \<Rightarrow> (nat \<times> nat) option" where
  "FindStringIndex r s =
     (case find_from r True s of
        None \<Rightarrow> None
      | Some (p, m, c, s') \<Rightarrow> Some (length p, length p + length m))"

section \<open>Lemmas on matching\<close>

text \<open>
  A greedy class repetition followed by a byte outside the class has one way to match:
  every shorter split is followed by a byte of the class.
\<close>

lemma star_then_other:
  assumes "\<not> p d"
  shows "concat (map (\<lambda>(a, b). case b of [] \<Rightarrow> [] | x # xs \<Rightarrow> if x = d then f a xs else [])
           (star_splits p s)) =
         (case dropWhile p s of [] \<Rightarrow> [] | x # xs \<Rightarrow> if x = d then f (takeWhile p s) xs else [])"
proof (induction s arbitrary: f)
  case Nil
  then show ?case by simp
next
  case (Cons c cs)
  show ?case
  proof (cases "p c")
    case True
    with assms have "c \<noteq> d" by auto
    have "concat (map (\<lambda>(a, b). case b of [] \<Rightarrow> [] | x # xs \<Rightarrow> if x = d then f a xs else [])
            (map (\<lambda>(a, b). (c # a, b)) (star_splits p cs))) =
          concat (map (\<lambda>(a, b). case b of [] \<Rightarrow> [] | x # xs \<Rightarrow> if x = d then f (c # a) xs else [])
            (star_splits p cs))"
      by (rule arg_cong [where f = concat]) (auto intro!: map_cong)
    also have "\<dots> = (case dropWhile p cs of [] \<Rightarrow> []
        | x # xs \<Rightarrow> if x = d then f (c # takeWhile p cs) xs else [])"
      by (rule Cons.IH)
    finally have *: "concat (map (\<lambda>(a, b). case b of [] \<Rightarrow> [] | x # xs \<Rightarrow> if x = d then f a xs else [])
            (star_splits p (c # cs))) = \<dots>"
      using True \<open>c \<noteq> d\<close> by (simp del: map_map)
    from True have "takeWhile p (c # cs) = c # takeWhile p cs" and "dropWhile p (c # cs) = dropWhile p cs"
      by simp_all
    then show ?thesis unfolding * by (simp only:)
  next
    case False
    with assms show ?thesis by auto
  qed
qed

lemma rmatch_class_seq:
  "rmatch (RSeq (RClass p) r) b s =
     (case s of [] \<Rightarrow> []
      | c # cs \<Rightarrow> if p c then map (\<lambda>(m, cs, s'). (c # m, cs, s')) (rmatch r False cs) else [])"
  by (cases s) auto

lemma rmatch_group_plus_seq:
  assumes "\<not> p d" and lit: "\<And>b s. rmatch r b s = (case s of [] \<Rightarrow> [] | x # xs \<Rightarrow> if x = d then g xs else [])"
  shows "rmatch (RSeq (RGroup n (RPlus p)) r) b s =
     (if takeWhile p s = [] then []
      else case dropWhile p s of [] \<Rightarrow> []
      | x # xs \<Rightarrow> if x = d
          then map (\<lambda>(m, c, s'). (takeWhile p s @ m, (n, takeWhile p s) # c, s')) (g xs) else [])"
proof (cases "s \<noteq> [] \<and> p (hd s)")
  case False
  then show ?thesis by (cases s) auto
next
  case True
  then obtain c cs where s: "s = c # cs" "p c" by (cases s) auto
  define f where "f a xs = map (\<lambda>(m, k, s'). ((c # a) @ m, (n, c # a) # k, s')) (g xs)" for a xs
  have "rmatch (RSeq (RGroup n (RPlus p)) r) b s =
      concat (map (\<lambda>(a, y). map (\<lambda>(m, k, s'). (c # a @ m, (n, c # a) # k, s')) (rmatch r False y))
        (star_splits p cs))"
    using s by (simp add: comp_def case_prod_unfold)
  also have "(\<lambda>(a, y). map (\<lambda>(m, k, s'). (c # a @ m, (n, c # a) # k, s')) (rmatch r False y)) =
      (\<lambda>(a, y). case y of [] \<Rightarrow> [] | x # xs \<Rightarrow> if x = d then f a xs else [])"
    by (intro ext) (auto simp: lit f_def split: list.split prod.split)
  also have "concat (map \<dots> (star_splits p cs)) =
      (case dropWhile p cs of [] \<Rightarrow> [] | x # xs \<Rightarrow> if x = d then f (takeWhile p cs) xs else [])"
    using assms(1) by (rule star_then_other)
  finally have eq: "rmatch (RSeq (RGroup n (RPlus p)) r) b s =
      (case dropWhile p cs of [] \<Rightarrow> [] | x # xs \<Rightarrow> if x = d then f (takeWhile p cs) xs else [])" .
  have tw: "takeWhile p s = c # takeWhile p cs" "dropWhile p s = dropWhile p cs" using s by simp_all
  show ?thesis unfolding eq tw f_def by (simp only: list.distinct if_False)
qed

lemma rmatch_lit: "rmatch (RLit d) b s = (case s of [] \<Rightarrow> [] | x # xs \<Rightarrow> if x = d then [([d], [], xs)] else [])"
  by (simp split: list.split)

lemma rmatch_lit_seq:
  "rmatch (RSeq (RLit d) r) b s =
     (case s of [] \<Rightarrow> []
      | x # xs \<Rightarrow> if x = d then map (\<lambda>(m, c, s'). (d # m, c, s')) (rmatch r False xs) else [])"
  by (cases s) auto

lemma star_splits_hd: "hd (star_splits p s) = (takeWhile p s, dropWhile p s)"
proof (induction s)
  case Nil
  then show ?case by simp
next
  case (Cons c cs)
  have "star_splits p cs \<noteq> []" by (cases cs) auto
  with Cons show ?case by (simp add: hd_append hd_map)
qed

lemma star_splits_mem:
  "(m, r) \<in> set (star_splits p s) \<longleftrightarrow> m @ r = s \<and> list_all p m"
proof (induction s arbitrary: m)
  case Nil
  then show ?case by auto
next
  case (Cons c cs)
  show ?case
  proof (cases m)
    case (Cons x xs)
    have "(m, r) \<in> set (star_splits p (c # cs)) \<longleftrightarrow> p c \<and> x = c \<and> (xs, r) \<in> set (star_splits p cs)"
      using Cons by (auto simp: image_iff split: prod.splits)
    also have "\<dots> \<longleftrightarrow> m @ r = c # cs \<and> list_all p m"
      using Cons Cons.IH [of xs] by auto
    finally show ?thesis .
  qed auto
qed

lemma rmatch_RSeqI:
  assumes "(m1, c1, s1) \<in> set (rmatch r1 b s)"
    and "(m2, c2, s2) \<in> set (rmatch r2 (b \<and> m1 = []) s1)"
  shows "(m1 @ m2, c1 @ c2, s2) \<in> set (rmatch (RSeq r1 r2) b s)"
  unfolding rmatch.simps set_concat set_map
  by (rule UN_I [OF imageI [OF assms(1)]]) (use assms(2) in force)

lemma rmatch_RStarI: "list_all p m \<Longrightarrow> (m, [], r) \<in> set (rmatch (RStar p) b (m @ r))"
proof -
  assume "list_all p m"
  then have "(m, r) \<in> set (star_splits p (m @ r))" by (simp add: star_splits_mem)
  then show ?thesis by force
qed

lemma rmatch_RPlusI:
  "m \<noteq> [] \<Longrightarrow> list_all p m \<Longrightarrow> (m, [], r) \<in> set (rmatch (RPlus p) b (m @ r))"
proof -
  assume a: "m \<noteq> []" "list_all p m"
  then obtain c cs where m: "m = c # cs" "p c" "list_all p cs" by (cases m) auto
  have "([c] @ cs, [] @ [], r) \<in> set (rmatch (RPlus p) b (m @ r))"
    using m by (intro rmatch_RSeqI [OF _ rmatch_RStarI]) simp_all
  with m show ?thesis by (simp only: append_Cons append_Nil)
qed

lemma rmatch_RGroupI: "(m, c, s') \<in> set (rmatch r b s) \<Longrightarrow> (m, (n, m) # c, s') \<in> set (rmatch (RGroup n r) b s)"
  unfolding rmatch.simps set_map by (rule image_eqI [rotated]) auto

lemma rmatch_RGroup_Nil: "rmatch (RGroup n r) b s = [] \<longleftrightarrow> rmatch r b s = []"
  by simp

lemma rmatch_RSeq_nonempty:
  assumes "(m1, c1, s1) \<in> set (rmatch r1 b s)" and "rmatch r2 (b \<and> m1 = []) s1 \<noteq> []"
  shows "rmatch (RSeq r1 r2) b s \<noteq> []"
proof -
  obtain m2 c2 s2 where "(m2, c2, s2) \<in> set (rmatch r2 (b \<and> m1 = []) s1)"
    using assms(2) by (metis list.set_intros(1) neq_Nil_conv prod_cases3)
  from rmatch_RSeqI [OF assms(1) this] show ?thesis by (metis length_greater_0_conv length_pos_if_in_set)
qed

text \<open>What the members of the list of matches look like.\<close>

lemma hit_RSeq:
  "(m, c, s') \<in> set (rmatch (RSeq r1 r2) b s) \<longleftrightarrow>
   (\<exists>m1 c1 s1 m2 c2. (m1, c1, s1) \<in> set (rmatch r1 b s) \<and>
      (m2, c2, s') \<in> set (rmatch r2 (b \<and> m1 = []) s1) \<and> m = m1 @ m2 \<and> c = c1 @ c2)"
  (is "?L \<longleftrightarrow> ?R")
proof
  assume ?L
  then obtain m1 c1 s1 m2 c2 where "(m1, c1, s1) \<in> set (rmatch r1 b s)"
    "(m2, c2, s') \<in> set (rmatch r2 (b \<and> m1 = []) s1)" "m = m1 @ m2" "c = c1 @ c2"
    by (auto simp: image_iff split: prod.splits)
  then show ?R by blast
next
  assume ?R
  then show ?L by (blast intro: rmatch_RSeqI)
qed

lemma hit_RGroup:
  "(m, c, s') \<in> set (rmatch (RGroup n r) b s) \<longleftrightarrow> (\<exists>c'. (m, c', s') \<in> set (rmatch r b s) \<and> c = (n, m) # c')"
  by (auto simp: image_iff split: prod.splits)

lemma hit_RClass: "(m, c, s') \<in> set (rmatch (RClass p) b s) \<longleftrightarrow> (\<exists>x. s = x # s' \<and> p x \<and> m = [x] \<and> c = [])"
  by (auto split: list.splits)

lemma hit_RStar: "(m, c, s') \<in> set (rmatch (RStar p) b s) \<longleftrightarrow> m @ s' = s \<and> list_all p m \<and> c = []"
proof -
  have "(m, c, s') \<in> set (rmatch (RStar p) b s) \<longleftrightarrow> (m, s') \<in> set (star_splits p s) \<and> c = []"
    by (force simp: image_iff)
  then show ?thesis by (auto simp: star_splits_mem)
qed

lemma hit_RAlt:
  "h \<in> set (rmatch (RAlt r1 r2) b s) \<longleftrightarrow> h \<in> set (rmatch r1 b s) \<or> h \<in> set (rmatch r2 b s)"
  by simp

lemmas hit_simps = hit_RSeq hit_RGroup hit_RClass hit_RStar hit_RAlt

text \<open>An anchored pattern matches at the start of the text or nowhere.\<close>

lemma find_from_no_match:
  "(\<And>s'. rmatch r False s' = []) \<Longrightarrow> find_from r False s = None"
  by (induction s) auto

lemma MatchString_anchored:
  "MatchString (RSeq RBot r) s \<longleftrightarrow> rmatch r True s \<noteq> []"
proof -
  have at: "rmatch (RSeq RBot r) True s = rmatch r True s"
    by (simp add: case_prod_unfold)
  have no: "rmatch (RSeq RBot r) False s' = []" for s' by simp
  show ?thesis
    using at by (cases s) (auto simp: MatchString_def find_from_no_match [OF no] simp del: rmatch.simps(4)
        split: list.splits)
qed

lemma rmatch_to_end: "rmatch (RSeq r REot) b s \<noteq> [] \<longleftrightarrow> (\<exists>m c. (m, c, []) \<in> set (rmatch r b s))"
  by (auto simp: concat_eq_Nil_conv intro!: bexI split: if_splits)

lemma find_from_None_iff:
  "find_from r False s = None \<longleftrightarrow> (\<forall>p q. s = p @ q \<longrightarrow> rmatch r False q = [])"
proof (induction s)
  case Nil
  then show ?case by (auto split: list.splits)
next
  case (Cons c cs)
  have "(\<forall>p q. c # cs = p @ q \<longrightarrow> rmatch r False q = []) \<longleftrightarrow>
        rmatch r False (c # cs) = [] \<and> (\<forall>p q. cs = p @ q \<longrightarrow> rmatch r False q = [])"
    by (auto simp: Cons_eq_append_conv)
  with Cons.IH show ?case by (auto split: list.splits)
qed

lemma find_from_hit:
  "find_from r b s = Some (p, m, c, s') \<Longrightarrow> (m, c, s') \<in> set (rmatch r (b \<and> p = []) (m @ s'))"
proof (induction r b s arbitrary: p rule: find_from.induct)
  case (1 r b)
  then show ?case using rmatch_append_hd [of r b "[]" m c s'] by (auto split: list.splits)
next
  case (2 r b ch cs)
  show ?case
  proof (cases "rmatch r b (ch # cs)")
    case Nil
    with "2.prems" obtain p' where "find_from r False cs = Some (p', m, c, s')" and "p = ch # p'"
      by auto
    with "2.IH" [OF Nil] show ?thesis by auto
  next
    case (Cons h hs)
    with "2.prems" have "h = (m, c, s')" and "p = []" by auto
    with Cons rmatch_append_hd [of r b "ch # cs" m c s' hs] show ?thesis by simp
  qed
qed

text \<open>The match is the leftmost one: no earlier position has a match.\<close>

lemma find_from_leftmost:
  "find_from r b s = Some (p, m, c, s') \<Longrightarrow> p = p1 @ p2 \<Longrightarrow> p2 \<noteq> [] \<Longrightarrow>
   rmatch r (b \<and> p1 = []) (p2 @ m @ s') = []"
proof (induction r b s arbitrary: p p1 rule: find_from.induct)
  case (1 r b)
  then show ?case by (auto split: list.splits)
next
  case (2 r b ch cs)
  from "2.prems"(1) have s: "ch # cs = p @ m @ s'" by (rule find_from_append)
  show ?case
  proof (cases "rmatch r b (ch # cs)")
    case Nil
    with "2.prems" obtain p' where p': "find_from r False cs = Some (p', m, c, s')" "p = ch # p'"
      by auto
    show ?thesis
    proof (cases p1)
      case Nil2: Nil
      with Nil s "2.prems" show ?thesis by simp
    next
      case (Cons x xs)
      with p' "2.prems" have "p' = xs @ p2" by simp
      with "2.IH" [OF Nil p'(1) this] "2.prems"(3) Cons show ?thesis by simp
    qed
  next
    case (Cons h hs)
    with "2.prems" show ?thesis by auto
  qed
qed

text \<open>
  Replacing the text of the first match of a pattern that does not depend on what stands
  before it, and matches its text whatever follows, replaces the match itself.
\<close>

lemma strings_Index_leftmost:
  assumes "\<And>p1 p2. p = p1 @ p2 \<Longrightarrow> p2 \<noteq> [] \<Longrightarrow> \<not> HasPrefix (p2 @ m @ s') m"
    and "m \<noteq> []"
  shows "strings_Index (p @ m @ s') m = Some (length p)"
  using assms(1)
proof (induction p)
  case Nil
  from assms(2) show ?case by (cases m) auto
next
  case (Cons c cs)
  from Cons.prems [of "[]" "c # cs"] have "\<not> HasPrefix (c # cs @ m @ s') m" by simp
  moreover have "strings_Index (cs @ m @ s') m = Some (length cs)"
    by (rule Cons.IH) (metis Cons.prems append_Cons)
  ultimately show ?case by simp
qed

text \<open>
  Skipping: text in which no position starts a match, whatever follows, is passed over.
\<close>

lemma find_from_skip:
  assumes "\<And>a b. p = a @ b \<Longrightarrow> b \<noteq> [] \<Longrightarrow> rmatch r False (b @ s) = []"
  shows "find_from r False (p @ s) = map_option (\<lambda>(q, h). (p @ q, h)) (find_from r False s)"
  using assms
proof (induction p)
  case Nil
  show ?case by (cases "find_from r False s") auto
next
  case (Cons c cs)
  from Cons.prems [of "[]" "c # cs"] have "rmatch r False (c # cs @ s) = []" by simp
  moreover have "find_from r False (cs @ s) =
      map_option (\<lambda>(q, h). (cs @ q, h)) (find_from r False s)"
    using Cons.prems by (intro Cons.IH) (metis append_Cons)
  ultimately show ?case
    by (cases "find_from r False s") auto
qed

text \<open>A pattern without the start anchor matches alike at every position.\<close>

fun unanchored :: "gre \<Rightarrow> bool" where
  "unanchored (RSeq r1 r2) = (unanchored r1 \<and> unanchored r2)"
| "unanchored (RAlt r1 r2) = (unanchored r1 \<and> unanchored r2)"
| "unanchored (RGroup n r) = unanchored r"
| "unanchored RBot = False"
| "unanchored _ = True"

lemma rmatch_unanchored: "unanchored r \<Longrightarrow> rmatch r b s = rmatch r False s"
proof (induction r arbitrary: b s)
  case (RSeq r1 r2)
  then have "rmatch r1 b s = rmatch r1 False s" by simp
  moreover have "rmatch r2 (b \<and> m1 = []) s1 = rmatch r2 False s1" for m1 :: string and s1
    using RSeq.IH(2) [of "b \<and> m1 = []" s1] RSeq.prems by (simp only: unanchored.simps)
  then have "(\<lambda>(m1, c1, s1). map (\<lambda>(m2, c2, s2). (m1 @ m2, c1 @ c2, s2)) (rmatch r2 (b \<and> m1 = []) s1)) =
      (\<lambda>(m1, c1, s1). map (\<lambda>(m2, c2, s2). (m1 @ m2, c1 @ c2, s2)) (rmatch r2 False s1))"
    by (intro ext) (auto split: prod.split)
  ultimately show ?case by simp
next
  case (RAlt r1 r2)
  show ?case using RAlt.prems RAlt.IH(1) [of b s] RAlt.IH(2) [of b s] by simp
next
  case (RGroup n r)
  show ?case using RGroup.prems RGroup.IH [of b s] by simp
qed simp_all

lemma find_from_unanchored: "unanchored r \<Longrightarrow> find_from r b s = find_from r False s"
  by (cases s) (simp_all add: rmatch_unanchored [of r b])

lemma find_all_unanchored: "unanchored r \<Longrightarrow> find_all r b s = find_all r False s"
  by (simp add: find_all.simps [of r b] find_all.simps [of r False] find_from_unanchored [of r b])

end
