(* ===== verification/Naming.thy ===== *)
theory Naming
  imports Go_Regexp
begin

unbundle bit_operations_syntax

text \<open>
  \<^verbatim>\<open>internal/apimachinery/naming.go\<close>: stable names for the snapshots and the data volumes
  a template request creates.  A name is a base string and the FNV-1a hash of the base and
  further inputs.  The lemmas show that every name is a DNS-1035 label, that equal names
  have equal hashes, that a short label is kept in front of the hash, and that inputs which
  differ in a single byte have different hashes.
\<close>

section \<open>FNV-1a with 32 bits\<close>

text \<open>Go's \<^verbatim>\<open>hash/fnv\<close>: \<^verbatim>\<open>sum32a\<close> starts at the offset basis; \<^verbatim>\<open>Write\<close> folds the bytes in.\<close>

definition fnv_offset32 :: "32 word" where
  "fnv_offset32 = 2166136261"

definition fnv_prime32 :: "32 word" where
  "fnv_prime32 = 16777619"

definition fnv_step :: "32 word \<Rightarrow> char \<Rightarrow> 32 word" where
  "fnv_step h c = (h XOR of_char c) * fnv_prime32"

definition fnv_Write :: "32 word \<Rightarrow> string \<Rightarrow> 32 word" where
  "fnv_Write h s = foldl fnv_step h s"

text \<open>\<^verbatim>\<open>%08x\<close> of an unsigned 32-bit integer: eight digits, the highest first.\<close>

definition hex08 :: "32 word \<Rightarrow> string" where
  "hex08 w = map (\<lambda>i. hex_digit (unat (drop_bit (4 * i) w) mod 16)) [7, 6, 5, 4, 3, 2, 1, 0]"

definition computeHash :: "string \<Rightarrow> string list \<Rightarrow> string" where
  "computeHash base inputs = hex08 (foldl fnv_Write (fnv_Write fnv_offset32 base) inputs)"

section \<open>DNS-1035 labels\<close>

definition DNS1035LabelMaxLength :: nat where
  "DNS1035LabelMaxLength = 63"

text \<open>The class \<^verbatim>\<open>[-a-z0-9]\<close> and the class \<^verbatim>\<open>[a-z0-9]\<close>.\<close>

definition is_label_mid :: "char \<Rightarrow> bool" where
  "is_label_mid c \<longleftrightarrow> c = CHR ''-'' \<or> is_lower c \<or> is_digit c"

definition is_label_end :: "char \<Rightarrow> bool" where
  "is_label_end c \<longleftrightarrow> is_lower c \<or> is_digit c"

text \<open>\<^verbatim>\<open>^[a-z]([-a-z0-9]*[a-z0-9])?$\<close>\<close>

definition dns1035LabelRegexp :: gre where
  "dns1035LabelRegexp =
     RSeq RBot (RSeq (RClass is_lower)
       (RSeq (ROpt (RGroup 1 (RSeq (RStar is_label_mid) (RClass is_label_end)))) REot))"

datatype label_error = MaxLenError nat | RegexError

definition IsDNS1035Label :: "string \<Rightarrow> label_error list" where
  "IsDNS1035Label value =
     (if length value > DNS1035LabelMaxLength then [MaxLenError DNS1035LabelMaxLength] else []) @
     (if \<not> MatchString dns1035LabelRegexp value then [RegexError] else [])"

section \<open>Stable names\<close>

definition HashLength :: nat where
  "HashLength = 8"

definition MaxGeneratedNameLength :: nat where
  "MaxGeneratedNameLength = DNS1035LabelMaxLength - HashLength - 1"

text \<open>The base as it goes into the name: a letter in front, cut, no hyphen at the end.\<close>

definition stable_base :: "string \<Rightarrow> string" where
  "stable_base base =
     (let base1 = (if base = [] \<or> \<not> is_lower (hd base) then ''x-'' @ base else base);
          base2 = (if length base1 > MaxGeneratedNameLength
                   then take MaxGeneratedNameLength base1 else base1)
      in strings_TrimRight base2 CHR ''-'')"

definition GetStableName :: "string \<Rightarrow> string list \<Rightarrow> string" where
  "GetStableName base inputs =
     (let hash = computeHash base inputs;
          name = stable_base base @ ''-'' @ hash
      in if IsDNS1035Label name \<noteq> [] then ''obj-'' @ hash else name)"

section \<open>The hash\<close>

lemma length_hex08 [simp]: "length (hex08 w) = 8"
  by (simp add: hex08_def)

lemma hex08_class: "list_all is_label_end (hex08 w)"
  using hex_digit_class by (simp add: hex08_def is_label_end_def)

lemma hex_digit_inj: "a < 16 \<Longrightarrow> b < 16 \<Longrightarrow> hex_digit a = hex_digit b \<Longrightarrow> a = b"
proof -
  assume ab: "a < 16" "b < 16" and eq: "hex_digit a = hex_digit b"
  have val: "(of_char (hex_digit n) :: nat) = (if n < 10 then n + 48 else n + 87)" if "n < 16" for n
    using that by (simp add: hex_digit_def)
  from eq have "(of_char (hex_digit a) :: nat) = of_char (hex_digit b)" by simp
  with val ab show "a = b" by (auto split: if_splits)
qed

lemma hex08_inj: "hex08 v = hex08 w \<Longrightarrow> v = w"
proof -
  assume eq: "hex08 v = hex08 w"
  have nib: "unat (drop_bit (4 * i) v) mod 16 = unat (drop_bit (4 * i) w) mod 16" if "i < 8" for i
  proof -
    from that have "i \<in> set [7, 6, 5, 4, 3, 2, 1, 0::nat]" by auto
    with eq have "hex_digit (unat (drop_bit (4 * i) v) mod 16) = hex_digit (unat (drop_bit (4 * i) w) mod 16)"
      unfolding hex08_def map_eq_conv by blast
    then show ?thesis by (rule hex_digit_inj [rotated 2]) simp_all
  qed
  have tb: "take_bit 4 (drop_bit (4 * i) v) = take_bit 4 (drop_bit (4 * i) w)" if "i < 8" for i
  proof -
    have "unat (take_bit 4 (drop_bit (4 * i) u)) = unat (drop_bit (4 * i) u) mod 16" for u :: "32 word"
      using unat_mod [of "drop_bit (4 * i) u" 16] by (simp add: take_bit_eq_mod)
    with nib [OF that] show ?thesis by (metis unsigned_word_eqI)
  qed
  show "v = w"
  proof (rule bit_word_eqI)
    fix n assume "n < LENGTH(32)"
    then have i: "n div 4 < 8" by simp
    have b: "bit u n \<longleftrightarrow> bit (take_bit 4 (drop_bit (4 * (n div 4)) u)) (n mod 4)" for u :: "32 word"
      by (simp add: bit_take_bit_iff bit_drop_bit_eq)
    show "bit v n \<longleftrightarrow> bit w n"
      using tb [OF i] b [of v] b [of w] by simp
  qed
qed

lemma length_computeHash [simp]: "length (computeHash base inputs) = HashLength"
  by (simp add: computeHash_def HashLength_def)

lemma computeHash_class: "list_all is_label_end (computeHash base inputs)"
  by (simp add: computeHash_def hex08_class)

lemma foldl_fnv_Write: "foldl fnv_Write h inputs = fnv_Write h (concat inputs)"
  by (induction inputs arbitrary: h) (simp_all add: fnv_Write_def)

text \<open>The hash depends on the concatenation of its inputs only.\<close>

lemma computeHash_concat: "computeHash base inputs = hex08 (fnv_Write fnv_offset32 (base @ concat inputs))"
  by (simp add: computeHash_def foldl_fnv_Write) (simp add: fnv_Write_def)

text \<open>The prime is odd, so multiplication by it has an inverse modulo \<open>2 ^ 32\<close>.\<close>

lemma fnv_prime_inverse: "fnv_prime32 * 899433627 = 1"
  by (simp add: fnv_prime32_def)

lemma fnv_step_inj_state: "fnv_step h c = fnv_step h' c \<Longrightarrow> h = h'"
proof -
  assume "fnv_step h c = fnv_step h' c"
  then have "(h XOR of_char c) * fnv_prime32 * 899433627 = (h' XOR of_char c) * fnv_prime32 * 899433627"
    by (simp add: fnv_step_def)
  then have "h XOR of_char c = h' XOR of_char c"
    by (simp only: mult.assoc fnv_prime_inverse mult_1_right)
  then have "(h XOR of_char c) XOR of_char c = (h' XOR of_char c) XOR of_char c" by (simp only:)
  then show "h = h'" by (simp add: xor.assoc)
qed

lemma of_char_word_inj: "(of_char c :: 32 word) = of_char d \<Longrightarrow> c = d"
proof -
  assume eq: "(of_char c :: 32 word) = of_char d"
  have "unat (of_char e :: 32 word) = of_char e" for e :: char
  proof -
    have "(of_char e :: nat) < 256" by simp
    then have "(of_char e :: nat) mod 4294967296 = of_char e" by (simp only: mod_less)
    moreover have "(of_char e :: 32 word) = of_nat (of_char e)" by (simp add: of_nat_of_char)
    ultimately show ?thesis by (simp add: unat_of_nat)
  qed
  with eq have "(of_char c :: nat) = of_char d" by metis
  then show "c = d" by simp
qed

lemma fnv_step_inj_byte: "fnv_step h c = fnv_step h d \<Longrightarrow> c = d"
proof -
  assume "fnv_step h c = fnv_step h d"
  then have "(h XOR of_char c) * fnv_prime32 * 899433627 = (h XOR of_char d) * fnv_prime32 * 899433627"
    by (simp add: fnv_step_def)
  then have "h XOR of_char c = h XOR of_char d"
    by (simp only: mult.assoc fnv_prime_inverse mult_1_right)
  then have "h XOR (h XOR of_char c) = h XOR (h XOR of_char d)" by (simp only:)
  then have "(of_char c :: 32 word) = of_char d" by (simp add: xor.assoc [symmetric])
  then show "c = d" by (rule of_char_word_inj)
qed

lemma fnv_Write_inj_state: "fnv_Write h s = fnv_Write h' s \<Longrightarrow> h = h'"
  by (induction s arbitrary: h h') (auto simp: fnv_Write_def dest: fnv_step_inj_state)

lemma fnv_Write_one_byte:
  assumes "c \<noteq> d"
  shows "fnv_Write h (xs @ c # ys) \<noteq> fnv_Write h (xs @ d # ys)"
proof
  assume "fnv_Write h (xs @ c # ys) = fnv_Write h (xs @ d # ys)"
  then have "fnv_Write (fnv_step (fnv_Write h xs) c) ys = fnv_Write (fnv_step (fnv_Write h xs) d) ys"
    by (simp add: fnv_Write_def)
  then have "fnv_step (fnv_Write h xs) c = fnv_step (fnv_Write h xs) d"
    by (rule fnv_Write_inj_state)
  with assms show False by (auto dest: fnv_step_inj_byte)
qed

section \<open>Labels\<close>

text \<open>What the regular expression accepts, without the matcher.\<close>

definition is_dns1035 :: "string \<Rightarrow> bool" where
  "is_dns1035 s \<longleftrightarrow> s \<noteq> [] \<and> is_lower (hd s) \<and> list_all is_label_mid s \<and> is_label_end (last s)"

lemma label_end_mid: "is_label_end c \<Longrightarrow> is_label_mid c"
  by (auto simp: is_label_end_def is_label_mid_def)

lemma lower_end: "is_lower c \<Longrightarrow> is_label_end c"
  by (simp add: is_label_end_def)

lemma dns1035_tail:
  "(\<exists>m c. (m, c, []) \<in> set (rmatch (ROpt (RGroup 1 (RSeq (RStar is_label_mid) (RClass is_label_end)))) False s)) \<longleftrightarrow>
   s = [] \<or> (list_all is_label_mid s \<and> is_label_end (last s))" (is "?L \<longleftrightarrow> ?R")
proof
  assume ?L
  then consider "s = []"
    | m c where "(m, [c]) \<in> set (star_splits is_label_mid s)" and "is_label_end c"
    by (auto split: list.splits if_splits)
  then show ?R
  proof cases
    case 2
    then have "s = m @ [c]" and "list_all is_label_mid m" by (auto simp: star_splits_mem)
    with 2(2) show ?thesis by (simp add: label_end_mid)
  qed simp
next
  assume ?R
  then show ?L
  proof
    assume "s = []"
    then show ?L by simp
  next
    assume a: "list_all is_label_mid s \<and> is_label_end (last s)"
    show ?L
    proof (cases s rule: rev_cases)
      case Nil
      then show ?thesis by simp
    next
      case (snoc m c)
      with a have "list_all is_label_mid m" and "is_label_end c" by simp_all
      then have "(m @ [c], [] @ [], []) \<in> set (rmatch (RSeq (RStar is_label_mid) (RClass is_label_end)) False (m @ [c]))"
        by (intro rmatch_RSeqI [OF rmatch_RStarI]) simp_all
      with snoc have "(s, [], []) \<in> set (rmatch (RSeq (RStar is_label_mid) (RClass is_label_end)) False s)"
        by (simp only: append_Nil)
      then have "(s, [(1, s)], []) \<in> set (rmatch (ROpt (RGroup 1 (RSeq (RStar is_label_mid) (RClass is_label_end)))) False s)"
        by (simp only: rmatch.simps(5,6) set_append set_map Un_iff) (force simp del: rmatch.simps)
      then show ?thesis by blast
    qed
  qed
qed

lemma MatchString_dns1035: "MatchString dns1035LabelRegexp s \<longleftrightarrow> is_dns1035 s"
proof -
  let ?tl = "ROpt (RGroup 1 (RSeq (RStar is_label_mid) (RClass is_label_end)))"
  have cls: "rmatch (RSeq (RClass is_lower) (RSeq ?tl REot)) True s \<noteq> [] \<longleftrightarrow>
      (\<exists>c t. s = c # t \<and> is_lower c \<and> rmatch (RSeq ?tl REot) False t \<noteq> [])"
    by (cases s) (simp_all del: rmatch.simps(4,5) add: rmatch.simps(4) [of "RClass is_lower"])
  have "MatchString dns1035LabelRegexp s \<longleftrightarrow>
      (\<exists>c t. s = c # t \<and> is_lower c \<and>
         (t = [] \<or> (list_all is_label_mid t \<and> is_label_end (last t))))"
    unfolding dns1035LabelRegexp_def MatchString_anchored cls rmatch_to_end dns1035_tail ..
  also have "\<dots> \<longleftrightarrow> is_dns1035 s"
    by (cases s) (auto simp: is_dns1035_def lower_end label_end_mid)
  finally show ?thesis .
qed

lemma IsDNS1035Label_ok: "IsDNS1035Label s = [] \<longleftrightarrow> length s \<le> 63 \<and> is_dns1035 s"
  by (auto simp: IsDNS1035Label_def MatchString_dns1035 DNS1035LabelMaxLength_def)

section \<open>Stable names are labels\<close>

lemma is_dns1035_hash:
  assumes "b \<noteq> []" and "is_lower (hd b)" and "list_all is_label_mid b"
  shows "is_dns1035 (b @ ''-'' @ computeHash base inputs)"
proof -
  have h: "list_all is_label_end (computeHash base inputs)" by (rule computeHash_class)
  have ne: "computeHash base inputs \<noteq> []"
    by (metis HashLength_def length_computeHash list.size(3) zero_neq_numeral)
  from h ne have "is_label_end (last (computeHash base inputs))"
    by (simp add: list_all_iff)
  moreover from h have "list_all is_label_mid (computeHash base inputs)"
    by (simp add: list_all_iff label_end_mid)
  ultimately show ?thesis
    using assms ne by (auto simp: is_dns1035_def is_label_mid_def)
qed

lemma stable_base_length: "length (stable_base base) \<le> 54"
  using strings_TrimRight_length [of "take 54 base" "CHR ''-''"]
    strings_TrimRight_length [of "take 54 (''x-'' @ base)" "CHR ''-''"]
    strings_TrimRight_length [of base "CHR ''-''"] strings_TrimRight_length [of "''x-'' @ base" "CHR ''-''"]
  by (auto simp: stable_base_def Let_def MaxGeneratedNameLength_def DNS1035LabelMaxLength_def
      HashLength_def)

lemma stable_base_starts: "stable_base base \<noteq> [] \<and> is_lower (hd (stable_base base))"
proof -
  let ?b1 = "if base = [] \<or> \<not> is_lower (hd base) then ''x-'' @ base else base"
  let ?b2 = "if length ?b1 > MaxGeneratedNameLength then take MaxGeneratedNameLength ?b1 else ?b1"
  have lower1: "?b1 \<noteq> []" "is_lower (hd ?b1)" by (auto simp: char_classes)
  then have lower: "?b2 \<noteq> []" "is_lower (hd ?b2)"
    by (auto simp: MaxGeneratedNameLength_def DNS1035LabelMaxLength_def HashLength_def hd_take)
  from lower(2) have "hd ?b2 \<noteq> CHR ''-''" by (auto simp: char_classes)
  with lower show ?thesis
    using strings_TrimRight_hd [of ?b2 "CHR ''-''"] by (simp add: stable_base_def Let_def)
qed

lemma stable_base_id:
  assumes "is_dns1035 base" and "length base \<le> 54"
  shows "stable_base base = base"
proof -
  from assms have "last base \<noteq> CHR ''-''" by (auto simp: is_dns1035_def is_label_end_def char_classes)
  with assms show ?thesis
    by (auto simp: stable_base_def Let_def is_dns1035_def MaxGeneratedNameLength_def
        DNS1035LabelMaxLength_def HashLength_def strings_TrimRight_id)
qed

lemma GetStableName_cases:
  obtains (label) "GetStableName base inputs = stable_base base @ ''-'' @ computeHash base inputs"
      "IsDNS1035Label (stable_base base @ ''-'' @ computeHash base inputs) = []"
  | (fallback) "GetStableName base inputs = ''obj'' @ ''-'' @ computeHash base inputs"
proof (cases "IsDNS1035Label (stable_base base @ ''-'' @ computeHash base inputs) = []")
  case True
  then show ?thesis by (intro label) (simp_all add: GetStableName_def Let_def)
next
  case False
  then show ?thesis by (intro fallback) (simp add: GetStableName_def Let_def)
qed

lemma GetStableName_suffix: "\<exists>p. GetStableName base inputs = p @ computeHash base inputs"
  by (cases rule: GetStableName_cases [of base inputs]) (metis append.assoc)+

lemma GetStableName_label: "IsDNS1035Label (GetStableName base inputs) = []"
proof (cases rule: GetStableName_cases [of base inputs])
  case fallback
  have "is_dns1035 (''obj'' @ ''-'' @ computeHash base inputs)"
    by (rule is_dns1035_hash) (simp_all add: is_label_mid_def char_classes)
  with fallback show ?thesis
    by (simp add: IsDNS1035Label_ok HashLength_def)
qed simp

lemma GetStableName_no_dollar: "CHR ''$'' \<notin> set (GetStableName base inputs)"
proof
  assume d: "CHR ''$'' \<in> set (GetStableName base inputs)"
  have "is_dns1035 (GetStableName base inputs)" using GetStableName_label by (simp add: IsDNS1035Label_ok)
  then have "\<forall>c \<in> set (GetStableName base inputs). is_label_mid c"
    by (auto simp: is_dns1035_def list_all_iff label_end_mid lower_end dest: in_set_butlastD split: list.splits)
  with d have "is_label_mid CHR ''$''" by blast
  then show False by (simp add: is_label_mid_def char_classes)
qed

section \<open>Properties\<close>

text \<open>
  C31.  Whatever the base and the inputs are, the generated name is a valid DNS-1035 label:
  it is accepted by the validation of Kubernetes, which also bounds its length by 63.
\<close>

theorem stable_name_is_label: "IsDNS1035Label (GetStableName base inputs) = []"
  by (rule GetStableName_label)

text \<open>
  A base that is itself a DNS-1035 label of at most 54 bytes is kept in front of the
  hash, so the name of the request stays readable in the name of what it creates.
\<close>

theorem stable_name_keeps_label:
  assumes "IsDNS1035Label base = []" and "length base \<le> MaxGeneratedNameLength"
  shows "GetStableName base inputs = base @ ''-'' @ computeHash base inputs"
proof -
  from assms have l: "is_dns1035 base" "length base \<le> 54"
    by (simp_all add: IsDNS1035Label_ok MaxGeneratedNameLength_def DNS1035LabelMaxLength_def HashLength_def)
  then have "is_dns1035 (base @ ''-'' @ computeHash base inputs)"
    by (intro is_dns1035_hash) (simp_all add: is_dns1035_def)
  with l show ?thesis
    by (simp add: GetStableName_def Let_def stable_base_id IsDNS1035Label_ok HashLength_def)
qed

theorem stable_name_keeps_label_witness:
  "GetStableName ''my-vm'' [''uid''] = ''my-vm-'' @ computeHash ''my-vm'' [''uid'']"
proof -
  have "IsDNS1035Label ''my-vm'' = []"
    by (simp add: IsDNS1035Label_ok is_dns1035_def is_label_mid_def is_label_end_def char_classes)
  then show ?thesis
    using stable_name_keeps_label [of "''my-vm''" "[''uid'']"]
    by (simp add: MaxGeneratedNameLength_def DNS1035LabelMaxLength_def HashLength_def)
qed

text \<open>
  Two names are equal only if their hashes are: since FNV-1a is injective in every
  single byte, inputs that differ in exactly one byte (the data volumes of the volumes
  \<^verbatim>\<open>disk0\<close> and \<^verbatim>\<open>disk1\<close>, say) get different names.
\<close>

theorem stable_name_one_byte:
  assumes "c \<noteq> d"
  shows "GetStableName base (ins @ [xs @ c # ys]) \<noteq> GetStableName base (ins @ [xs @ d # ys])"
proof
  assume eq: "GetStableName base (ins @ [xs @ c # ys]) = GetStableName base (ins @ [xs @ d # ys])"
  have "computeHash base (ins @ [xs @ c # ys]) = computeHash base (ins @ [xs @ d # ys])"
    using GetStableName_suffix [of base "ins @ [xs @ c # ys]"]
      GetStableName_suffix [of base "ins @ [xs @ d # ys]"] eq
    by (metis append_eq_append_conv length_computeHash)
  then have "fnv_Write fnv_offset32 ((base @ concat ins @ xs) @ c # ys) =
      fnv_Write fnv_offset32 ((base @ concat ins @ xs) @ d # ys)"
    by (auto simp: computeHash_concat dest!: hex08_inj)
  with assms show False by (blast dest: fnv_Write_one_byte)
qed

theorem stable_name_one_byte_witness:
  "GetStableName ''tpl'' [''uid'', ''disk0''] \<noteq> GetStableName ''tpl'' [''uid'', ''disk1'']"
  using stable_name_one_byte [of "CHR ''0''" "CHR ''1''" "''tpl''" "[''uid'']" "''disk''" "[]"] by simp

end
