(* ===== verification/Expression_Generator.thy ===== *)
theory Expression_Generator
  imports Go_Regexp "HOL-Library.Sublist"
begin

text \<open>
  \<^verbatim>\<open>virt-template-engine/template/generator\<close>: \<^verbatim>\<open>ExpressionValue\<close> replaces each expression
  of the form \<^verbatim>\<open>[ranges]{length}\<close> in a string by random characters.

  The random source \<^verbatim>\<open>crypto/rand\<close> is a parameter of the model, a stream \<open>src\<close> of numbers
  or read errors; the draw at position \<open>i\<close> of a number below \<open>n\<close> is the \<open>i\<close>-th number
  modulo \<open>n\<close>, so that every sequence of draws in the range is the outcome of some stream,
  and a theorem for all streams is one for all random outcomes.

  \<^verbatim>\<open>GenerateValue\<close> searches the string again after each replacement, the generated text
  included.  It is a \<^theory_text>\<open>partial_function (option)\<close>, where \<^term>\<open>None\<close> means that the loop
  does not end.  The lemmas show when it ends (no backslash in the input), that a stream
  exists for which it does not, what it returns, and the alphabets of the ranges.
\<close>

section \<open>Constants and patterns\<close>

definition letterCharacters :: string where
  "letterCharacters = ''abcdefghijklmnopqrstuvwxyzABCDEFGHIJKLMNOPQRSTUVWXYZ''"

definition digitCharacters :: string where
  "digitCharacters = ''0123456789''"

definition alphanumericCharacters :: string where
  "alphanumericCharacters = letterCharacters @ digitCharacters"

text \<open>The 32 punctuation characters of ASCII, in the order of their codes.\<close>

definition symbolCharacters :: string where
  "symbolCharacters = map char_of ([33..<48] @ [58..<65] @ [91..<97] @ [123..<127 :: nat])"

definition minLength :: int where "minLength = 1"
definition maxLength :: int where "maxLength = 255"

abbreviation backslash :: char where
  "backslash \<equiv> CHR 0x5C"

text \<open>The class \<^verbatim>\<open>[a-zA-Z0-9\-\\]\<close>.\<close>

definition is_range_char :: "char \<Rightarrow> bool" where
  "is_range_char c \<longleftrightarrow> is_alnum c \<or> c = CHR ''-'' \<or> c = backslash"

text \<open>\<^verbatim>\<open>\[([a-zA-Z0-9\-\\]+)\](\{(\w+)\})\<close>\<close>

definition exprPattern :: gre where
  "exprPattern =
     RSeq (RLit CHR ''['') (RSeq (RGroup 1 (RPlus is_range_char)) (RSeq (RLit CHR '']'')
       (RGroup 2 (RSeq (RLit CHR ''{'') (RSeq (RGroup 3 (RPlus is_word)) (RLit CHR ''}''))))))"

text \<open>\<^verbatim>\<open>(\\w)|(\\d)|(\\a)|(\\A)|(.-.)|([a-zA-Z0-9]+)\<close>; a dot is any byte but a newline.\<close>

definition not_newline :: "char \<Rightarrow> bool" where
  "not_newline c \<longleftrightarrow> c \<noteq> CHR 0x0A"

definition rangePattern :: gre where
  "rangePattern =
     RAlt (RGroup 1 (RSeq (RLit backslash) (RLit CHR ''w'')))
    (RAlt (RGroup 2 (RSeq (RLit backslash) (RLit CHR ''d'')))
    (RAlt (RGroup 3 (RSeq (RLit backslash) (RLit CHR ''a'')))
    (RAlt (RGroup 4 (RSeq (RLit backslash) (RLit CHR ''A'')))
    (RAlt (RGroup 5 (RSeq (RClass not_newline) (RSeq (RLit CHR ''-'') (RClass not_newline))))
          (RGroup 6 (RPlus is_alnum))))))"

datatype gen_error =
    MalformedRanges string
  | MalformedLength string
  | LengthOutOfRange int
  | InvalidStart char
  | InvalidEnd char
  | InvalidRange char char
  | EmptyAlphabet string
  | RandError string
  | SlicePanic

section \<open>Operations\<close>

text \<open>\<^verbatim>\<open>strconv.Atoi\<close>: an optional sign and decimal digits within 64 bits, else an error.\<close>

definition dec_value :: "string \<Rightarrow> nat" where
  "dec_value s = foldl (\<lambda>n c. 10 * n + (of_char c - 48)) 0 s"

definition strconv_Atoi :: "string \<Rightarrow> int option" where
  "strconv_Atoi s =
     (let neg = (s \<noteq> [] \<and> hd s = CHR ''-'');
          ds = (if s \<noteq> [] \<and> (hd s = CHR ''-'' \<or> hd s = CHR ''+'') then tl s else s);
          v = (if neg then - int (dec_value ds) else int (dec_value ds))
      in if ds \<noteq> [] \<and> list_all is_digit ds \<and> - (2 ^ 63) \<le> v \<and> v < 2 ^ 63 then Some v else None)"

definition extractRangesAndLength :: "string \<Rightarrow> gen_error + (string \<times> int)" where
  "extractRangesAndLength expr =
     (case strings_LastIndexByte expr CHR ''{'' of
        None \<Rightarrow> Inl SlicePanic
      | Some lengthStart \<Rightarrow>
          if lengthStart < 2 then Inl SlicePanic
          else let ranges = drop 1 (take (lengthStart - 1) expr) in
            if \<not> MatchString rangePattern ranges then Inl (MalformedRanges ranges)
            else if length expr - 1 < lengthStart + 1 then Inl SlicePanic
            else let digits = drop (lengthStart + 1) (take (length expr - 1) expr) in
              (case strconv_Atoi digits of
                 None \<Rightarrow> Inl (MalformedLength digits)
               | Some n \<Rightarrow>
                   if n < minLength \<or> n > maxLength then Inl (LengthOutOfRange n)
                   else Inr (ranges, n)))"

text \<open>\<^verbatim>\<open>subAlphabet\<close>: the alphanumeric characters from one to another, in the order a-z, A-Z, 0-9.\<close>

definition subAlphabet :: "char \<Rightarrow> char \<Rightarrow> gen_error + string" where
  "subAlphabet from to =
     (case strings_Index alphanumericCharacters [from] of
        None \<Rightarrow> Inl (InvalidStart from)
      | Some left \<Rightarrow>
          (case strings_Index alphanumericCharacters [to] of
             None \<Rightarrow> Inl (InvalidEnd to)
           | Some right \<Rightarrow>
               if left > right then Inl (InvalidRange from to)
               else Inr (drop left (take (right + 1) alphanumericCharacters))))"

definition removeDuplicates :: "string \<Rightarrow> string" where
  "removeDuplicates s = remdups_adj (sort_key (\<lambda>c. of_char c :: nat) s)"

text \<open>One iteration of the loop over the matches: what is written to the builder.\<close>

definition range_chars :: "string \<Rightarrow> gen_error + string" where
  "range_chars rangeStr =
     (if rangeStr = [backslash, CHR ''w''] then Inr (letterCharacters @ digitCharacters @ ''_'')
      else if rangeStr = [backslash, CHR ''d''] then Inr digitCharacters
      else if rangeStr = [backslash, CHR ''a''] then Inr (letterCharacters @ digitCharacters)
      else if rangeStr = [backslash, CHR ''A''] then Inr symbolCharacters
      else if length rangeStr = 3 \<and> rangeStr ! 1 = CHR ''-''
      then subAlphabet (rangeStr ! 0) (rangeStr ! 2)
      else Inr rangeStr)"

fun write_ranges :: "string list \<Rightarrow> string \<Rightarrow> gen_error + string" where
  "write_ranges [] b = Inr b"
| "write_ranges (m # ms) b =
     (case range_chars m of Inl e \<Rightarrow> Inl e | Inr cs \<Rightarrow> write_ranges ms (b @ cs))"

definition getAlphabetFromRanges :: "string \<Rightarrow> gen_error + string" where
  "getAlphabetFromRanges ranges =
     (let matches = map fst (FindAllStringSubmatch rangePattern ranges) in
      if matches = [] then Inl (MalformedRanges ranges)
      else (case write_ranges matches [] of
              Inl e \<Rightarrow> Inl e
            | Inr b \<Rightarrow> Inr (removeDuplicates b)))"

text \<open>\<^verbatim>\<open>rand.Int(rand.Reader, n)\<close> at position \<open>i\<close> of the stream, for \<open>n > 0\<close>.\<close>

type_synonym rand_source = "nat \<Rightarrow> string + nat"

definition rand_Int :: "rand_source \<Rightarrow> nat \<Rightarrow> nat \<Rightarrow> string + nat" where
  "rand_Int src i n = (case src i of Inl e \<Rightarrow> Inl e | Inr k \<Rightarrow> Inr (k mod n))"

fun draw_chars :: "rand_source \<Rightarrow> nat \<Rightarrow> string \<Rightarrow> nat \<Rightarrow> gen_error + string" where
  "draw_chars src i alphabet 0 = Inr []"
| "draw_chars src i alphabet (Suc n) =
     (case rand_Int src i (length alphabet) of
        Inl e \<Rightarrow> Inl (RandError e)
      | Inr k \<Rightarrow>
          (case draw_chars src (Suc i) alphabet n of
             Inl e \<Rightarrow> Inl e
           | Inr cs \<Rightarrow> Inr (alphabet ! k # cs)))"

definition replaceWithGeneratedValue ::
  "rand_source \<Rightarrow> nat \<Rightarrow> string \<Rightarrow> string \<Rightarrow> string \<Rightarrow> int \<Rightarrow> gen_error + string" where
  "replaceWithGeneratedValue src i s expr alphabet n =
     (if length alphabet < 1 then Inl (EmptyAlphabet expr)
      else (case draw_chars src i alphabet (nat n) of
              Inl e \<Rightarrow> Inl e
            | Inr val \<Rightarrow> Inr (strings_Replace1 s expr val)))"

text \<open>One pass of the loop: \<open>Inl\<close> when the function returns, \<open>Inr\<close> the next string and position.\<close>

definition generate_step ::
  "rand_source \<Rightarrow> nat \<Rightarrow> string \<Rightarrow> (gen_error + string) + (nat \<times> string)" where
  "generate_step src i s =
     (case FindStringIndex exprPattern s of
        None \<Rightarrow> Inl (Inr s)
      | Some (a, b) \<Rightarrow>
          (let expr = drop a (take b s) in
           case extractRangesAndLength expr of
             Inl e \<Rightarrow> Inl (Inl e)
           | Inr (ranges, n) \<Rightarrow>
               (case getAlphabetFromRanges ranges of
                  Inl e \<Rightarrow> Inl (Inl e)
                | Inr alphabet \<Rightarrow>
                    (case replaceWithGeneratedValue src i s expr alphabet n of
                       Inl e \<Rightarrow> Inl (Inl e)
                     | Inr s' \<Rightarrow> Inr (i + nat n, s')))))"

partial_function (option) GenerateValue ::
  "rand_source \<Rightarrow> nat \<Rightarrow> string \<Rightarrow> (gen_error + string) option" where
  "GenerateValue src i s =
     (case generate_step src i s of
        Inl r \<Rightarrow> Some r
      | Inr (i', s') \<Rightarrow> GenerateValue src i' s')"

section \<open>Matches of the patterns\<close>

definition is_expr :: "string \<Rightarrow> string \<Rightarrow> string \<Rightarrow> bool" where
  "is_expr m r w \<longleftrightarrow> m = ''['' @ r @ '']{'' @ w @ ''}'' \<and> r \<noteq> [] \<and> list_all is_range_char r \<and>
     w \<noteq> [] \<and> list_all is_word w"

lemma not_range_char [simp]:
  "\<not> is_range_char CHR ''[''" "\<not> is_range_char CHR '']''" "\<not> is_range_char CHR ''{''"
  "\<not> is_range_char CHR ''}''"
  by (simp_all add: is_range_char_def char_classes)

lemma not_word_char [simp]:
  "\<not> is_word CHR ''[''" "\<not> is_word CHR '']''" "\<not> is_word CHR ''{''" "\<not> is_word CHR ''}''"
  "\<not> is_word CHR ''$''"
  by (simp_all add: char_classes)

lemma exprPattern_sound:
  assumes "(m, c, s') \<in> set (rmatch exprPattern b s)"
  shows "\<exists>r w. is_expr m r w"
proof -
  from assms obtain r1 r2 w1 w2 where
    "m = CHR ''['' # (r1 # r2) @ CHR '']'' # CHR ''{'' # (w1 # w2) @ [CHR ''}'']"
    "is_range_char r1" "list_all is_range_char r2" "is_word w1" "list_all is_word w2"
    unfolding exprPattern_def hit_simps by force
  then have "is_expr m (r1 # r2) (w1 # w2)" by (simp add: is_expr_def)
  then show ?thesis by blast
qed

lemma exprPattern_complete:
  assumes "is_expr m r w"
  shows "rmatch exprPattern b (m @ s) \<noteq> []"
proof -
  from assms have m: "m = ''['' @ r @ '']{'' @ w @ ''}''" and r: "r \<noteq> []" "list_all is_range_char r"
    and w: "w \<noteq> []" "list_all is_word w" by (simp_all add: is_expr_def)
  have 1: "rmatch (RSeq (RGroup 3 (RPlus is_word)) (RLit CHR ''}'')) False (w @ ''}'' @ s) \<noteq> []"
    by (rule rmatch_RSeq_nonempty [OF rmatch_RGroupI [OF rmatch_RPlusI [OF w]]]) simp
  have 2: "rmatch (RSeq (RLit CHR '']'') (RGroup 2 (RSeq (RLit CHR ''{'') (RSeq (RGroup 3 (RPlus is_word)) (RLit CHR ''}'')))))
      False ('']{'' @ w @ ''}'' @ s) \<noteq> []"
    using 1 by (simp add: rmatch_lit_seq rmatch_RGroup_Nil del: rmatch.simps(4))
  have "rmatch (RSeq (RGroup 1 (RPlus is_range_char)) (RSeq (RLit CHR '']'')
     (RGroup 2 (RSeq (RLit CHR ''{'') (RSeq (RGroup 3 (RPlus is_word)) (RLit CHR ''}'')))))) False (r @ '']{'' @ w @ ''}'' @ s) \<noteq> []"
    using 2 by (intro rmatch_RSeq_nonempty [OF rmatch_RGroupI [OF rmatch_RPlusI [OF r]]]) simp
  then show ?thesis
    unfolding exprPattern_def m by (simp add: rmatch_lit_seq del: rmatch.simps(4))
qed

text \<open>A match of the range pattern: a class, a range, or a run of alphanumeric characters.\<close>

lemma rangePattern_sound:
  assumes "(m, c, s') \<in> set (rmatch rangePattern b s)"
  shows "m \<in> {[backslash, CHR ''w''], [backslash, CHR ''d''], [backslash, CHR ''a''], [backslash, CHR ''A'']} \<or>
     (\<exists>x y. m = [x, CHR ''-'', y]) \<or> (m \<noteq> [] \<and> list_all is_alnum m)"
  using assms unfolding rangePattern_def hit_simps by force

section \<open>One pass of the loop\<close>

lemma find_exprD:
  assumes "FindStringIndex exprPattern s = Some (a, b)"
  obtains p m q r w where "s = p @ m @ q" "a = length p" "b = length p + length m" "is_expr m r w"
    "strings_Index s m = Some (length p)"
proof -
  from assms obtain p m c q where f: "find_from exprPattern True s = Some (p, m, c, q)"
    and ab: "a = length p" "b = length p + length m"
    by (auto simp: FindStringIndex_def split: option.splits prod.splits)
  from f have s: "s = p @ m @ q" by (rule find_from_append)
  from find_from_hit [OF f] obtain r w where e: "is_expr m r w"
    using exprPattern_sound by blast
  have un: "unanchored exprPattern" by (simp add: exprPattern_def)
  have "strings_Index (p @ m @ q) m = Some (length p)"
  proof (rule strings_Index_leftmost)
    fix p1 p2 assume p: "p = p1 @ p2" "p2 \<noteq> []"
    then have no: "rmatch exprPattern (True \<and> p1 = []) (p2 @ m @ q) = []"
      by (rule find_from_leftmost [OF f])
    show "\<not> HasPrefix (p2 @ m @ q) m"
    proof
      assume "HasPrefix (p2 @ m @ q) m"
      then obtain t where "p2 @ m @ q = m @ t" by (auto simp: HasPrefix_iff)
      with no exprPattern_complete [OF e, of "True \<and> p1 = []" t] show False by simp
    qed
  qed (use e in \<open>simp add: is_expr_def\<close>)
  with that s ab e show ?thesis by blast
qed

lemma LastIndexByte_append:
  "c \<notin> set ys \<Longrightarrow> strings_LastIndexByte (xs @ c # ys) c = Some (length xs)"
proof (induction xs)
  case Nil
  then have "strings_LastIndexByte ys c = None" by (induction ys) auto
  then show ?case by simp
qed simp

lemma extract_expr:
  assumes "is_expr m r w"
  shows "extractRangesAndLength m =
    (if \<not> MatchString rangePattern r then Inl (MalformedRanges r)
     else case strconv_Atoi w of
       None \<Rightarrow> Inl (MalformedLength w)
     | Some n \<Rightarrow> if n < minLength \<or> n > maxLength then Inl (LengthOutOfRange n) else Inr (r, n))"
proof -
  have m: "m = (''['' @ r @ '']'') @ CHR ''{'' # (w @ ''}'')" and rw: "r \<noteq> []" "w \<noteq> []" "list_all is_word w"
    using assms by (simp_all add: is_expr_def)
  have "CHR ''{'' \<notin> set (w @ ''}'')" using rw(3) by (auto simp: list_all_iff)
  then have last: "strings_LastIndexByte m CHR ''{'' = Some (length r + 2)"
    unfolding m by (subst LastIndexByte_append) simp_all
  have len: "length m = length r + length w + 4" by (simp add: m)
  have ranges: "drop 1 (take (length r + 2 - 1) m) = r" by (simp add: m)
  have "take (length m - 1) m = (''['' @ r @ '']{'') @ w" by (simp add: m)
  then have digits: "drop (length r + 2 + 1) (take (length m - 1) m) = w" by simp
  show ?thesis
    unfolding extractRangesAndLength_def last option.case Let_def ranges digits
    by (simp add: len)
qed

lemma draw_chars_length: "draw_chars src i a n = Inr v \<Longrightarrow> length v = n"
  by (induction n arbitrary: i v) (auto split: sum.splits)

lemma draw_chars_set: "a \<noteq> [] \<Longrightarrow> draw_chars src i a n = Inr v \<Longrightarrow> set v \<subseteq> set a"
proof (induction n arbitrary: i v)
  case (Suc n)
  then obtain k cs where "rand_Int src i (length a) = Inr k" "draw_chars src (Suc i) a n = Inr cs"
    "v = a ! k # cs" by (auto split: sum.splits)
  moreover from this Suc.prems(1) have "k < length a" by (auto simp: rand_Int_def split: sum.splits)
  ultimately show ?case using Suc.IH [OF Suc.prems(1)] by auto
qed simp

text \<open>A pass that continues has replaced the first expression by characters of its alphabet.\<close>

lemma generate_step_continues:
  assumes "generate_step src i s = Inr (i', s')"
  obtains p m q r w n alphabet v where "s = p @ m @ q" "is_expr m r w" "MatchString rangePattern r"
    "strconv_Atoi w = Some n" "minLength \<le> n" "n \<le> maxLength"
    "getAlphabetFromRanges r = Inr alphabet" "alphabet \<noteq> []" "s' = p @ v @ q" "length v = nat n"
    "set v \<subseteq> set alphabet" "draw_chars src i alphabet (nat n) = Inr v" "i' = i + nat n"
proof -
  from assms obtain a b where ab: "FindStringIndex exprPattern s = Some (a, b)"
    by (auto simp: generate_step_def split: option.splits prod.splits)
  then obtain p m q r w where s: "s = p @ m @ q" and abp: "a = length p" "b = length p + length m"
    and e: "is_expr m r w" and idx: "strings_Index s m = Some (length p)"
    by (rule find_exprD)
  have expr: "drop a (take b s) = m" by (simp add: s abp)
  from assms ab obtain n alphabet where ex: "extractRangesAndLength m = Inr (r, n)"
    and al: "getAlphabetFromRanges r = Inr alphabet"
    and rp: "replaceWithGeneratedValue src i s m alphabet n = Inr s'" and i': "i' = i + nat n"
    unfolding generate_step_def
    by (auto simp: expr extract_expr [OF e] Let_def split: sum.splits option.splits prod.splits if_splits)
  from ex have n: "MatchString rangePattern r" "strconv_Atoi w = Some n" "minLength \<le> n" "n \<le> maxLength"
    by (auto simp: extract_expr [OF e] split: if_splits option.splits)
  from rp obtain v where ne: "alphabet \<noteq> []" and v: "draw_chars src i alphabet (nat n) = Inr v"
    and s': "s' = strings_Replace1 s m v"
    by (auto simp: replaceWithGeneratedValue_def split: if_splits sum.splits)
  from e have "m \<noteq> []" by (simp add: is_expr_def)
  with strings_Replace1_first [OF idx this, of v] have sv: "s' = p @ v @ q" by (simp add: s' s)
  show ?thesis
    by (rule that [OF s e n al ne sv draw_chars_length [OF v] draw_chars_set [OF ne v] v i'])
qed

section \<open>Alphabets\<close>

lemma find_all_member:
  assumes "(p, m, c) \<in> set (find_all r b s)"
  shows "\<exists>b' u s'. (m, c, s') \<in> set (rmatch r b' (m @ s')) \<and> m \<noteq> [] \<and> set m \<subseteq> set s \<and> s = u @ m @ s'"
  using assms
proof (induction r b s rule: find_all.induct)
  case (1 r b s)
  obtain p0 m0 c0 s0 where f: "find_from r b s = Some (p0, m0, c0, s0)" and ne: "m0 \<noteq> []"
    using "1.prems" by (cases "find_from r b s") (auto simp: find_all.simps [of r b] split: if_splits)
  have s: "s = p0 @ m0 @ s0" using f by (rule find_from_append)
  from "1.prems" f ne consider "(p, m, c) = (p0, m0, c0)" | "(p, m, c) \<in> set (find_all r False s0)"
    by (auto simp: find_all.simps [of r b])
  then show ?case
  proof cases
    case 1
    with f ne s find_from_hit [OF f] show ?thesis by auto
  next
    case 2
    from "1.IH" [OF f refl refl refl ne this] obtain b' u s' where
      "(m, c, s') \<in> set (rmatch r b' (m @ s'))" "m \<noteq> []" "set m \<subseteq> set s0" "s0 = u @ m @ s'" by blast
    moreover from this s have "s = (p0 @ m0 @ u) @ m @ s'" by simp
    ultimately show ?thesis using s by (metis Un_iff set_append subsetI)
  qed
qed

lemma range_match_cases:
  assumes "m \<in> fst ` set (FindAllStringSubmatch rangePattern r)"
  shows "(m \<in> {[backslash, CHR ''w''], [backslash, CHR ''d''], [backslash, CHR ''a''], [backslash, CHR ''A'']} \<or>
     (\<exists>x y. m = [x, CHR ''-'', y]) \<or> (m \<noteq> [] \<and> list_all is_alnum m)) \<and> set m \<subseteq> set r"
proof -
  from assms obtain p c where "(p, m, c) \<in> set (find_all rangePattern True r)"
    by (auto simp: FindAllStringSubmatch_def)
  from find_all_member [OF this] obtain b' u s' where
    "(m, c, s') \<in> set (rmatch rangePattern b' (m @ s'))" "set m \<subseteq> set r" by blast
  with rangePattern_sound show ?thesis by blast
qed

lemma alphanumericCharacters_alnum: "list_all is_alnum alphanumericCharacters"
  by (simp add: alphanumericCharacters_def letterCharacters_def digitCharacters_def char_classes)

lemma subAlphabet_chars:
  assumes "subAlphabet x y = Inr a"
  shows "set a \<subseteq> set alphanumericCharacters" and "a \<noteq> []"
proof -
  from assms obtain l r where l: "strings_Index alphanumericCharacters [x] = Some l"
    and r: "strings_Index alphanumericCharacters [y] = Some r" and lr: "l \<le> r"
    and a: "a = drop l (take (r + 1) alphanumericCharacters)"
    by (auto simp: subAlphabet_def split: option.splits if_splits)
  show "set a \<subseteq> set alphanumericCharacters"
    by (auto simp: a dest: in_set_dropD in_set_takeD)
  have "strings_Index s [y] = Some k \<Longrightarrow> k < length s" for s k
    by (induction s arbitrary: k) (auto split: if_splits)
  with r have "r < length alphanumericCharacters" by blast
  with lr show "a \<noteq> []" by (simp add: a)
qed

lemma range_chars_nonempty:
  assumes "m \<in> fst ` set (FindAllStringSubmatch rangePattern r)" and "range_chars m = Inr cs"
  shows "cs \<noteq> []"
proof -
  have "letterCharacters \<noteq> []" "digitCharacters \<noteq> []" "symbolCharacters \<noteq> []"
    by (simp_all add: letterCharacters_def digitCharacters_def symbolCharacters_def)
  moreover have "m \<noteq> []" using range_match_cases [OF assms(1)] by auto
  ultimately show ?thesis
    using assms(2) unfolding range_chars_def
    by (auto dest: subAlphabet_chars(2) simp del: append_is_Nil_conv split: if_splits)
qed

lemma write_ranges_append:
  "write_ranges ms b = Inr a \<Longrightarrow> \<exists>css. list_all2 (\<lambda>m cs. range_chars m = Inr cs) ms css \<and> a = b @ concat css"
proof (induction ms arbitrary: b)
  case (Cons m ms)
  then obtain cs where cs: "range_chars m = Inr cs" "write_ranges ms (b @ cs) = Inr a"
    by (auto split: sum.splits)
  from Cons.IH [OF cs(2)] obtain css where
    "list_all2 (\<lambda>m cs. range_chars m = Inr cs) ms css" "a = (b @ cs) @ concat css" by blast
  with cs(1) show ?case by (intro exI [of _ "cs # css"]) simp
qed simp

lemma set_removeDuplicates: "set (removeDuplicates s) = set s"
  by (simp add: removeDuplicates_def)

lemma getAlphabetFromRanges_chars:
  assumes "getAlphabetFromRanges r = Inr a"
  obtains css where "list_all2 (\<lambda>m cs. range_chars m = Inr cs) (map fst (FindAllStringSubmatch rangePattern r)) css"
    "set a = \<Union> (set ` set css)" "map fst (FindAllStringSubmatch rangePattern r) \<noteq> []"
    "a = removeDuplicates (concat css)"
proof -
  from assms obtain b where ne: "map fst (FindAllStringSubmatch rangePattern r) \<noteq> []"
    and b: "write_ranges (map fst (FindAllStringSubmatch rangePattern r)) [] = Inr b"
    and a: "a = removeDuplicates b"
    by (auto simp: getAlphabetFromRanges_def Let_def split: if_splits sum.splits)
  from write_ranges_append [OF b] obtain css where
    "list_all2 (\<lambda>m cs. range_chars m = Inr cs) (map fst (FindAllStringSubmatch rangePattern r)) css"
    "b = concat css" by auto
  with ne a that show ?thesis by (auto simp: set_removeDuplicates)
qed

lemma sorted_distinct_adj: "sorted xs \<Longrightarrow> distinct_adj xs \<Longrightarrow> sorted_wrt (<) (xs :: nat list)"
  by (induction xs rule: induct_list012) (auto intro: order_less_le_trans)

lemma sorted_removeDuplicates: "sorted_wrt (<) (map (\<lambda>c. of_char c :: nat) (removeDuplicates s))"
proof -
  let ?k = "\<lambda>c. of_char c :: nat"
  have inj: "inj_on ?k A" for A by (auto intro: inj_onI)
  have "sorted (map ?k (sort_key ?k s))" by simp
  moreover have "map ?k (remdups_adj (sort_key ?k s)) = remdups_adj (map ?k (sort_key ?k s))"
    by (rule remdups_adj_map_injective [symmetric]) (auto intro: injI)
  ultimately show ?thesis
    unfolding removeDuplicates_def
    by (simp add: sorted_distinct_adj sorted_remdups_adj)
qed

section \<open>The loop\<close>

lemma alphabet_alnum:
  assumes "backslash \<notin> set r" and "getAlphabetFromRanges r = Inr a"
  shows "list_all is_alnum a"
proof -
  from assms(2) obtain css where
    css: "list_all2 (\<lambda>m cs. range_chars m = Inr cs) (map fst (FindAllStringSubmatch rangePattern r)) css"
    and a: "set a = \<Union> (set ` set css)" by (rule getAlphabetFromRanges_chars)
  have "list_all is_alnum cs" if "cs \<in> set css" for cs
  proof -
    from list_all2_set2 [OF css that] obtain m where m: "m \<in> set (map fst (FindAllStringSubmatch rangePattern r))"
      and cs: "range_chars m = Inr cs" by blast
    then have c: "(\<exists>x y. m = [x, CHR ''-'', y]) \<or> (m \<noteq> [] \<and> list_all is_alnum m)" "backslash \<notin> set m"
      using range_match_cases [of m r] assms(1) by auto
    from c(2) have "\<And>x. m \<noteq> [backslash, x]" by auto
    then have "range_chars m = (if length m = 3 \<and> m ! 1 = CHR ''-'' then subAlphabet (m ! 0) (m ! 2) else Inr m)"
      by (simp add: range_chars_def)
    then have rc: "Inr cs = (if length m = 3 \<and> m ! 1 = CHR ''-'' then subAlphabet (m ! 0) (m ! 2) else Inr m)"
      by (simp only: cs)
    show ?thesis
    proof (cases "length m = 3 \<and> m ! 1 = CHR ''-''")
      case True
      with rc have "subAlphabet (m ! 0) (m ! 2) = Inr cs" by simp
      then have "set cs \<subseteq> set alphanumericCharacters" by (rule subAlphabet_chars)
      then show ?thesis using alphanumericCharacters_alnum by (auto simp: list_all_iff)
    next
      case False
      with rc have "cs = m" by (simp only: if_False sum.inject)
      moreover from False have "\<not> (\<exists>x y. m = [x, CHR ''-'', y])" by auto
      ultimately show ?thesis using c(1) by blast
    qed
  qed
  with a show ?thesis by (auto simp: list_all_iff)
qed

lemma alnum_not_special: "is_alnum c \<Longrightarrow> c \<noteq> CHR ''['' \<and> c \<noteq> backslash"
  by (auto simp: char_classes)

lemma generate_step_decreases:
  assumes "generate_step src i s = Inr (i', s')" and "backslash \<notin> set s"
  shows "count_list s' CHR ''['' < count_list s CHR ''[''" and "backslash \<notin> set s'"
proof -
  from assms(1) obtain p m q r w n alphabet v where s: "s = p @ m @ q" and e: "is_expr m r w"
    and al: "getAlphabetFromRanges r = Inr alphabet" and s': "s' = p @ v @ q" and v: "set v \<subseteq> set alphabet"
    by (rule generate_step_continues)
  from s e assms(2) have "backslash \<notin> set r" by (auto simp: is_expr_def)
  then have "list_all is_alnum alphabet" using al by (rule alphabet_alnum)
  with v have no: "CHR ''['' \<notin> set v" "backslash \<notin> set v"
    using alnum_not_special by (auto simp: list_all_iff)
  then have "count_list v CHR ''['' = 0" by (simp add: count_list_0_iff)
  moreover have "0 < count_list m CHR ''[''" using e by (simp add: is_expr_def)
  ultimately show "count_list s' CHR ''['' < count_list s CHR ''[''" by (simp add: s s')
  show "backslash \<notin> set s'" using no(2) assms(2) s s' by auto
qed

lemma find_expr_None: "CHR ''['' \<notin> set s \<Longrightarrow> FindStringIndex exprPattern s = None"
proof (rule ccontr)
  assume no: "CHR ''['' \<notin> set s" and "FindStringIndex exprPattern s \<noteq> None"
  then obtain a b where "FindStringIndex exprPattern s = Some (a, b)" by auto
  then obtain p m q r w where "s = p @ m @ q" "is_expr m r w" by (rule find_exprD)
  with no show False by (simp add: is_expr_def)
qed


lemma is_expr_unique:
  assumes "is_expr m r w" and "is_expr m' r' w'" and "m @ q = m' @ q'"
  shows "m = m' \<and> r = r' \<and> w = w' \<and> q = q'"
proof -
  from assms have eq: "r @ CHR '']'' # CHR ''{'' # w @ CHR ''}'' # q = r' @ CHR '']'' # CHR ''{'' # w' @ CHR ''}'' # q'"
    and all: "list_all is_range_char r" "list_all is_range_char r'" "list_all is_word w" "list_all is_word w'"
    by (simp_all add: is_expr_def)
  from eq have r: "r = r'"
    using takeWhile_stop [OF all(1), of "CHR '']''"] takeWhile_stop [OF all(2), of "CHR '']''"]
    by (metis not_range_char(2))
  with eq have "w @ CHR ''}'' # q = w' @ CHR ''}'' # q'" by simp
  then have w: "w = w'"
    using takeWhile_stop [OF all(3), of "CHR ''}''"] takeWhile_stop [OF all(4), of "CHR ''}''"]
    by (metis not_word_char(4))
  from r w assms show ?thesis by (simp add: is_expr_def)
qed

lemma find_expr_single:
  assumes e: "is_expr m r w" and no: "CHR ''['' \<notin> set p"
  shows "FindStringIndex exprPattern (p @ m @ q) = Some (length p, length p + length m)"
proof -
  have skip: "rmatch exprPattern False (b @ m @ q) = []" if "p = a @ b" "b \<noteq> []" for a b
  proof -
    from that no obtain x xs where "b = x # xs" "x \<noteq> CHR ''[''" by (cases b) auto
    then show ?thesis by (simp add: exprPattern_def rmatch_lit_seq del: rmatch.simps(4))
  qed
  obtain h hs where h: "rmatch exprPattern False (m @ q) = h # hs"
    using exprPattern_complete [OF e, of False q] by (cases "rmatch exprPattern False (m @ q)") auto
  obtain m' c' q' where h': "h = (m', c', q')" by (cases h)
  from h h' have mq: "m @ q = m' @ q'" by (auto dest: rmatch_append_hd)
  obtain r' w' where e': "is_expr m' r' w'" using exprPattern_sound h h' by (metis list.set_intros(1))
  have m': "m' = m" using is_expr_unique [OF e e' mq] by simp
  have "find_from exprPattern False (m @ q) = Some ([], h)"
    using h by (cases "m @ q") simp_all
  then have "find_from exprPattern False (p @ m @ q) = Some (p, m, c', q')"
    using find_from_skip [of p exprPattern "m @ q", OF skip] h' m' by simp
  then have "find_from exprPattern True (p @ m @ q) = Some (p, m, c', q')"
    by (subst find_from_unanchored) (simp_all add: exprPattern_def)
  then show ?thesis by (simp add: FindStringIndex_def)
qed

lemma draw_chars_total:
  assumes "\<And>k. \<exists>x. src k = Inr x"
  shows "\<exists>v. draw_chars src i a n = Inr v"
proof (induction n arbitrary: i)
  case (Suc n)
  from assms obtain x where "src i = Inr x" by blast
  moreover from Suc.IH obtain v where "draw_chars src (Suc i) a n = Inr v" by blast
  ultimately show ?case by (simp add: rand_Int_def)
qed simp

lemma generate_step_single:
  assumes e: "is_expr m r w" and "CHR ''['' \<notin> set p"
    and ex: "extractRangesAndLength m = Inr (r, n)" and al: "getAlphabetFromRanges r = Inr a" and ne: "a \<noteq> []"
    and dr: "draw_chars src i a (nat n) = Inr v"
  shows "generate_step src i (p @ m @ q) = Inr (i + nat n, p @ v @ q)"
proof -
  have f: "FindStringIndex exprPattern (p @ m @ q) = Some (length p, length p + length m)"
    using assms(1,2) by (rule find_expr_single)
  obtain m1 where m: "m = CHR ''['' # m1" using e by (auto simp: is_expr_def)
  have "strings_Replace1 (p @ m @ q) m v = p @ v @ q"
    using strings_Replace1_at [OF assms(2), of m1 q v] by (simp add: m)
  moreover have "drop (length p) (take (length p + length m) (p @ m @ q)) = m" by simp
  ultimately show ?thesis
    using ex al ne dr
    by (simp add: generate_step_def f replaceWithGeneratedValue_def Let_def length_greater_0_conv
        Suc_le_eq del: take_append)
qed

text \<open>An expression that can generate itself.\<close>

definition self_ranges :: string where
  "self_ranges = [backslash, CHR ''A'', CHR ''A'', CHR ''1'', CHR ''1'']"

definition self_expr :: string where
  "self_expr = ''['' @ self_ranges @ '']{11}''"

definition self_alphabet :: string where
  "self_alphabet = map char_of ([33..<48] @ [49] @ [58..<66] @ [91..<97] @ [123..<127 :: nat])"

definition self_source :: rand_source where
  "self_source k = Inr (the (strings_Index self_alphabet [self_expr ! (k mod 11)]))"

lemma draw_chars_periodic:
  assumes "\<And>k. src (k + d) = src k"
  shows "draw_chars src (i + d) a n = draw_chars src i a n"
proof (induction n arbitrary: i)
  case (Suc n)
  from Suc.IH [of "Suc i"] have "draw_chars src (Suc (i + d)) a n = draw_chars src (Suc i) a n" by simp
  then show ?case by (simp add: rand_Int_def assms split: sum.split)
qed simp

lemma self_source_periodic: "self_source (k + 11 * j) = self_source k"
  by (simp add: self_source_def)

lemma self_expr_step: "generate_step self_source (11 * j) self_expr = Inr (11 * Suc j, self_expr)"
proof -
  have e: "is_expr self_expr self_ranges ''11''"
    by (simp add: is_expr_def self_expr_def self_ranges_def is_range_char_def char_classes)
  have ex: "extractRangesAndLength self_expr = Inr (self_ranges, 11)" by code_simp
  have al: "getAlphabetFromRanges self_ranges = Inr self_alphabet" by code_simp
  have ne: "self_alphabet \<noteq> []" by code_simp
  have "draw_chars self_source 0 self_alphabet 11 = Inr self_expr" by code_simp
  then have "draw_chars self_source (11 * j) self_alphabet 11 = Inr self_expr"
    using draw_chars_periodic [where src = self_source and d = "11 * j" and i = 0] self_source_periodic by simp
  then show ?thesis
    using generate_step_single [OF e _ ex al ne, where p = "[]" and q = "[]" and i = "11 * j"] by simp
qed

lemma self_expr_diverges:
  assumes ret: "GenerateValue self_source 0 self_expr = Some r"
  shows False
proof -
  have "\<not> (self_source = self_source \<and> (\<exists>j. (0 :: nat) = 11 * j) \<and> self_expr = self_expr)"
  proof (rule GenerateValue.raw_induct [where P = "\<lambda>src i s r.
      \<not> (src = self_source \<and> (\<exists>j. i = 11 * j) \<and> s = self_expr)", OF _ ret])
    fix f :: "rand_source \<Rightarrow> nat \<Rightarrow> string \<Rightarrow> (gen_error + string) option" and src i s r
    assume IH: "\<And>src i s r. f src i s = Some r \<Longrightarrow> \<not> (src = self_source \<and> (\<exists>j. i = 11 * j) \<and> s = self_expr)"
      and eq: "(case generate_step src i s of Inl r \<Rightarrow> Some r | Inr (i', s') \<Rightarrow> f src i' s') = Some r"
    show "\<not> (src = self_source \<and> (\<exists>j. i = 11 * j) \<and> s = self_expr)"
    proof
      assume src: "src = self_source \<and> (\<exists>j. i = 11 * j) \<and> s = self_expr"
      then obtain j where "generate_step src i s = Inr (11 * Suc j, self_expr)"
        using self_expr_step by blast
      with eq have "f src (11 * Suc j) self_expr = Some r" by simp
      with IH src show False by blast
    qed
  qed
  then show False by simp
qed

lemma GenerateValue_returns:
  assumes "backslash \<notin> set s"
  shows "\<exists>res. GenerateValue src i s = Some res"
  using assms
proof (induction "count_list s CHR ''[''" arbitrary: s i rule: less_induct)
  case less
  show ?case
  proof (cases "generate_step src i s")
    case (Inl r)
    then show ?thesis by (simp add: GenerateValue.simps)
  next
    case (Inr x)
    then obtain i' s' where x: "generate_step src i s = Inr (i', s')" by (cases x) simp
    from generate_step_decreases [OF x less.prems] have "\<exists>res. GenerateValue src i' s' = Some res"
      by (rule less.hyps)
    with x show ?thesis by (simp add: GenerateValue.simps [of src i s])
  qed
qed

lemma GenerateValue_one:
  assumes src: "\<And>k. \<exists>x. src k = Inr x"
    and r: "r \<noteq> []" "list_all is_range_char r" "CHR ''['' \<notin> set a"
    and w: "w \<noteq> []" "list_all is_word w" "strconv_Atoi w = Some n" "minLength \<le> n" "n \<le> maxLength"
    and alphabet: "MatchString rangePattern r" "getAlphabetFromRanges r = Inr a" "a \<noteq> []"
    and around: "CHR ''['' \<notin> set p" "CHR ''['' \<notin> set q"
  shows "\<exists>v. GenerateValue src i (p @ ''['' @ r @ '']{'' @ w @ ''}'' @ q) = Some (Inr (p @ v @ q)) \<and>
     int (length v) = n \<and> set v \<subseteq> set a"
proof -
  let ?m = "''['' @ r @ '']{'' @ w @ ''}''"
  have e: "is_expr ?m r w" using r w by (simp add: is_expr_def)
  have ex: "extractRangesAndLength ?m = Inr (r, n)"
    using w alphabet by (simp only: extract_expr [OF e]) simp
  obtain v where v: "draw_chars src i a (nat n) = Inr v" using draw_chars_total [of src, OF src] by blast
  have step: "generate_step src i (p @ ?m @ q) = Inr (i + nat n, p @ v @ q)"
    by (rule generate_step_single [OF e around(1) ex alphabet(2,3) v])
  have va: "set v \<subseteq> set a" using draw_chars_set [OF alphabet(3) v] .
  with r(3) have "CHR ''['' \<notin> set v" by blast
  with around have "generate_step src (i + nat n) (p @ v @ q) = Inl (Inr (p @ v @ q))"
    by (simp add: generate_step_def find_expr_None)
  then have "GenerateValue src (i + nat n) (p @ v @ q) = Some (Inr (p @ v @ q))"
    by (simp add: GenerateValue.simps [of src "i + nat n"])
  with step have "GenerateValue src i (p @ ?m @ q) = Some (Inr (p @ v @ q))"
    by (simp only: GenerateValue.simps [of src i] sum.case prod.case)
  moreover have "int (length v) = n" using draw_chars_length [OF v] w(4) by (simp add: minLength_def)
  ultimately show ?thesis using va by (intro exI [of _ v]) (simp only: append_assoc simp_thms)
qed

lemma GenerateValue_single:
  assumes src: "\<And>k. \<exists>x. src k = Inr x"
    and r: "r \<noteq> []" "list_all is_range_char r" "backslash \<notin> set r"
    and w: "w \<noteq> []" "list_all is_word w" "strconv_Atoi w = Some n" "minLength \<le> n" "n \<le> maxLength"
    and alphabet: "MatchString rangePattern r" "getAlphabetFromRanges r = Inr a" "a \<noteq> []"
    and around: "CHR ''['' \<notin> set p" "CHR ''['' \<notin> set q"
  shows "\<exists>v. GenerateValue src i (p @ ''['' @ r @ '']{'' @ w @ ''}'' @ q) = Some (Inr (p @ v @ q)) \<and>
     int (length v) = n \<and> set v \<subseteq> set a"
proof -
  have "list_all is_alnum a" using r(3) alphabet(2) by (rule alphabet_alnum)
  then have "CHR ''['' \<notin> set a" using alnum_not_special by (auto simp: list_all_iff)
  with r(1,2) show ?thesis by (rule GenerateValue_one [OF src _ _ _ w alphabet around])
qed

section \<open>Properties\<close>

text \<open>
  C27.  On an input without a backslash the loop of \<^verbatim>\<open>GenerateValue\<close> ends, whatever the random
  source delivers: every pass removes an opening bracket and the generated characters are
  alphanumeric, although the search starts over on the whole string.
\<close>

theorem generate_value_terminates:
  assumes "backslash \<notin> set s"
  shows "\<exists>res. GenerateValue src i s = Some res"
  using assms by (rule GenerateValue_returns)

theorem generate_value_terminates_witness:
  "\<exists>res. GenerateValue (\<lambda>k. Inr k) 0 ''[[0-9]{1}]{2}'' = Some res"
  by (rule generate_value_terminates) simp

text \<open>
  C28.  Without that restriction the loop may run forever: the eleven bytes of the expression
  with the ranges \<^verbatim>\<open>\AA11\<close> and the length 11 all belong to its own alphabet, so there is a
  sequence of random draws, none of them an error, that produces the expression again and
  again.
\<close>

theorem generate_value_may_diverge:
  "\<exists>src. (\<forall>k. \<exists>n. src k = Inr n) \<and> GenerateValue src 0 self_expr = None"
proof -
  have "GenerateValue self_source 0 self_expr = None"
    using self_expr_diverges by (cases "GenerateValue self_source 0 self_expr") auto
  moreover have "\<forall>k. \<exists>n. self_source k = Inr n" by (simp add: self_source_def)
  ultimately show ?thesis by blast
qed

text \<open>
  C26.  A string with one well-formed expression: the ranges and the length are accepted, neither the text around the
  expression nor its alphabet has an opening bracket, and the random source delivers.  Then the result is the text in front,
  exactly as many characters of the alphabet as the length asks for, and the text behind.  The condition on the alphabet
  excludes the class \<^verbatim>\<open>\A\<close> of all symbols (generated text is searched again), but not \<^verbatim>\<open>\w\<close>, \<^verbatim>\<open>\d\<close>, \<^verbatim>\<open>\a\<close> and ranges
  of letters and digits.
\<close>

theorem generate_value_single:
  assumes src: "\<And>k. \<exists>x. src k = Inr x"
    and r: "r \<noteq> []" "list_all is_range_char r"
    and w: "w \<noteq> []" "list_all is_word w" "strconv_Atoi w = Some n" "minLength \<le> n" "n \<le> maxLength"
    and alphabet: "MatchString rangePattern r" "getAlphabetFromRanges r = Inr a" "a \<noteq> []" "CHR ''['' \<notin> set a"
    and around: "CHR ''['' \<notin> set p" "CHR ''['' \<notin> set q"
  shows "\<exists>v. GenerateValue src i (p @ ''['' @ r @ '']{'' @ w @ ''}'' @ q) = Some (Inr (p @ v @ q)) \<and>
     int (length v) = n \<and> set v \<subseteq> set a"
  by (rule GenerateValue_one [OF src r alphabet(4) w alphabet(1-3) around])

theorem generate_value_single_witness:
  "(\<exists>v. GenerateValue (\<lambda>k. Inr (7 * k)) 0 ''vm-[a-c0-3]{5}'' = Some (Inr (''vm-'' @ v)) \<and>
     int (length v) = 5 \<and> set v \<subseteq> set ''0123abc'') \<and>
   (\<exists>v. GenerateValue (\<lambda>k. Inr (7 * k)) 0 (''pin-['' @ [backslash] @ ''d]{4}'') = Some (Inr (''pin-'' @ v)) \<and>
     int (length v) = 4 \<and> set v \<subseteq> set ''0123456789'')"
proof (rule conjI)
  have "getAlphabetFromRanges ''a-c0-3'' = Inr ''0123abc''" by code_simp
  moreover have "MatchString rangePattern ''a-c0-3''" by code_simp
  moreover have "strconv_Atoi ''5'' = Some 5" by code_simp
  moreover have "list_all is_range_char ''a-c0-3''" "list_all is_word ''5''" by code_simp+
  ultimately show "\<exists>v. GenerateValue (\<lambda>k. Inr (7 * k)) 0 ''vm-[a-c0-3]{5}'' = Some (Inr (''vm-'' @ v)) \<and>
     int (length v) = 5 \<and> set v \<subseteq> set ''0123abc''"
    using generate_value_single [of "\<lambda>k. Inr (7 * k)" "''a-c0-3''" "''5''" 5 "''0123abc''" "''vm-''" "[]" 0]
    by (simp add: minLength_def maxLength_def)
  have "getAlphabetFromRanges (backslash # ''d'') = Inr ''0123456789''" by code_simp
  moreover have "MatchString rangePattern (backslash # ''d'')" by code_simp
  moreover have "strconv_Atoi ''4'' = Some 4" by code_simp
  moreover have "list_all is_range_char (backslash # ''d'')" "list_all is_word ''4''" by code_simp+
  ultimately show "\<exists>v. GenerateValue (\<lambda>k. Inr (7 * k)) 0 (''pin-['' @ [backslash] @ ''d]{4}'') = Some (Inr (''pin-'' @ v)) \<and>
     int (length v) = 4 \<and> set v \<subseteq> set ''0123456789''"
    using generate_value_single [of "\<lambda>k. Inr (7 * k)" "backslash # ''d''" "''4''" 4 "''0123456789''" "''pin-''" "[]" 0]
    by (simp add: minLength_def maxLength_def)
qed

text \<open>
  A string that is returned without an error has no expression left in it, whatever
  the input and the random source.
\<close>

theorem generate_value_exhausts:
  assumes "GenerateValue src i s = Some (Inr v)"
  shows "FindStringIndex exprPattern v = None"
proof -
  have "\<forall>u. (Inr v :: gen_error + string) = Inr u \<longrightarrow> FindStringIndex exprPattern u = None"
  proof (rule GenerateValue.raw_induct [where P = "\<lambda>src i s res. \<forall>u. res = Inr u \<longrightarrow>
      FindStringIndex exprPattern u = None", OF _ assms])
    fix f :: "rand_source \<Rightarrow> nat \<Rightarrow> string \<Rightarrow> (gen_error + string) option" and src i s res
    assume IH: "\<And>src i s res. f src i s = Some res \<Longrightarrow> \<forall>u. res = Inr u \<longrightarrow> FindStringIndex exprPattern u = None"
      and eq: "(case generate_step src i s of Inl r \<Rightarrow> Some r | Inr (i', s') \<Rightarrow> f src i' s') = Some res"
    show "\<forall>u. res = Inr u \<longrightarrow> FindStringIndex exprPattern u = None"
    proof (cases "generate_step src i s")
      case (Inl r)
      with eq have "res = r" by simp
      with Inl show ?thesis
        by (auto simp: generate_step_def Let_def split: option.splits prod.splits sum.splits)
    next
      case (Inr x)
      with eq IH show ?thesis by (cases x) auto
    qed
  qed
  then show ?thesis by simp
qed

theorem generate_value_exhausts_witness:
  "GenerateValue (\<lambda>k. Inr 0) 0 ''abc'' = Some (Inr ''abc'') \<and> FindStringIndex exprPattern ''abc'' = None"
proof -
  have "generate_step (\<lambda>k. Inr 0) 0 ''abc'' = Inl (Inr ''abc'')" by code_simp
  then have "GenerateValue (\<lambda>k. Inr 0) 0 ''abc'' = Some (Inr ''abc'')"
    by (simp add: GenerateValue.simps)
  with generate_value_exhausts [OF this] show ?thesis by simp
qed

text \<open>
  The alphabet of a range list is never empty, strictly ascending (so sorted and
  without duplicates), and holds exactly the characters the matches of the range pattern
  stand for.
\<close>

theorem alphabet_sorted_distinct:
  assumes "getAlphabetFromRanges r = Inr a"
  shows "a \<noteq> [] \<and> sorted_wrt (<) (map (\<lambda>c. of_char c :: nat) a) \<and>
     set a = {c. \<exists>m cs. m \<in> fst ` set (FindAllStringSubmatch rangePattern r) \<and>
       range_chars m = Inr cs \<and> c \<in> set cs}"
proof -
  from assms obtain css where
    css: "list_all2 (\<lambda>m cs. range_chars m = Inr cs) (map fst (FindAllStringSubmatch rangePattern r)) css"
    and a: "set a = \<Union> (set ` set css)" and ne: "map fst (FindAllStringSubmatch rangePattern r) \<noteq> []"
    and rd: "a = removeDuplicates (concat css)" by (rule getAlphabetFromRanges_chars)
  have dir: "\<exists>m \<in> fst ` set (FindAllStringSubmatch rangePattern r). range_chars m = Inr cs" if "cs \<in> set css" for cs
    using list_all2_set2 [OF css that] by simp
  have inv: "\<exists>cs \<in> set css. range_chars m = Inr cs" if "m \<in> fst ` set (FindAllStringSubmatch rangePattern r)" for m
    using list_all2_set1 [OF css] that by simp
  have sets: "set a = {c. \<exists>m cs. m \<in> fst ` set (FindAllStringSubmatch rangePattern r) \<and>
       range_chars m = Inr cs \<and> c \<in> set cs}"
  proof (intro equalityI subsetI CollectI)
    fix c assume "c \<in> set a"
    then obtain cs where cs: "cs \<in> set css" "c \<in> set cs" by (auto simp: a)
    with dir show "\<exists>m cs. m \<in> fst ` set (FindAllStringSubmatch rangePattern r) \<and> range_chars m = Inr cs \<and> c \<in> set cs"
      by blast
  next
    fix c assume "c \<in> {c. \<exists>m cs. m \<in> fst ` set (FindAllStringSubmatch rangePattern r) \<and>
      range_chars m = Inr cs \<and> c \<in> set cs}"
    then obtain m cs where m: "m \<in> fst ` set (FindAllStringSubmatch rangePattern r)" "range_chars m = Inr cs"
      and c: "c \<in> set cs" by blast
    with inv [OF m(1)] have "cs \<in> set css" by auto
    with c show "c \<in> set a" by (auto simp: a)
  qed
  obtain cs where "cs \<in> set css" using css ne by (metis list_all2_Nil2 neq_Nil_conv list.set_intros(1))
  with dir range_chars_nonempty have "cs \<noteq> []" by blast
  with \<open>cs \<in> set css\<close> a have "set a \<noteq> {}" by (metis UN_I empty_iff last_in_set)
  then have "a \<noteq> []" by auto
  with sets show ?thesis using sorted_removeDuplicates rd by blast
qed

theorem alphabet_sorted_distinct_witness:
  "\<exists>a. getAlphabetFromRanges ''c-e0-1'' = Inr a \<and> sorted_wrt (<) (map (\<lambda>c. of_char c :: nat) a)"
proof -
  have "getAlphabetFromRanges ''c-e0-1'' = Inr ''01cde''" by code_simp
  with alphabet_sorted_distinct [OF this] show ?thesis by blast
qed

end
