(* ===== verification/Api_Types.thy ===== *)
theory Api_Types
  imports Prelude
begin

text \<open>
  The objects of the API group \<^verbatim>\<open>template.kubevirt.io\<close>, version v1beta1, and what the sources
  use of the metadata of Kubernetes objects.

  A time is the number of nanoseconds since the zero time of Go, an \<^typ>\<open>int\<close>; the zero time
  itself is 0, and a nil pointer to a time is \<^term>\<open>None\<close>.  Labels and annotations are
  maps; a nil map and an empty one are the same value.  The status of a condition, a
  phase, a uid and a resource version are strings, as in Go.  What a template holds as an
  object in memory is the type parameter of \<open>RawExtension\<close>.
\<close>

section \<open>Constants\<close>

definition GroupName :: string where
  "GroupName = ''template.kubevirt.io''"

definition SubresourceGroupName :: string where
  "SubresourceGroupName = ''subresources.template.kubevirt.io''"

definition SingularResourceName :: string where "SingularResourceName = ''virtualmachinetemplate''"
definition PluralResourceName :: string where "PluralResourceName = SingularResourceName @ ''s''"
definition SingularRequestResourceName :: string where
  "SingularRequestResourceName = ''virtualmachinetemplaterequest''"
definition PluralRequestResourceName :: string where
  "PluralRequestResourceName = SingularRequestResourceName @ ''s''"

definition FinalizerSnapshotCleanup :: string where
  "FinalizerSnapshotCleanup = GroupName @ ''/SnapshotCleanup''"

definition LabelRequestUID :: string where
  "LabelRequestUID = GroupName @ ''/RequestUID''"

definition ConditionReady :: string where "ConditionReady = ''Ready''"
definition ConditionProgressing :: string where "ConditionProgressing = ''Progressing''"
definition ReasonReconciled :: string where "ReasonReconciled = ''Reconciled''"
definition ReasonReconciling :: string where "ReasonReconciling = ''Reconciling''"
definition ReasonInvalidConfiguration :: string where
  "ReasonInvalidConfiguration = ''InvalidConfiguration''"
definition ReasonFailed :: string where "ReasonFailed = ''Failed''"
definition ReasonWaiting :: string where "ReasonWaiting = ''Waiting''"

definition ConditionTrue :: string where "ConditionTrue = ''True''"
definition ConditionFalse :: string where "ConditionFalse = ''False''"
definition ConditionUnknown :: string where "ConditionUnknown = ''Unknown''"

named_theorems api_consts \<open>the string constants of the API\<close>

lemmas api_const_defs [api_consts] =
  GroupName_def FinalizerSnapshotCleanup_def LabelRequestUID_def ConditionReady_def
  ConditionProgressing_def ReasonReconciled_def ReasonReconciling_def
  ReasonInvalidConfiguration_def ReasonFailed_def ReasonWaiting_def ConditionTrue_def
  ConditionFalse_def ConditionUnknown_def

text \<open>The group versions of the four packages of the API: a group and a version.\<close>

record GroupVersion =
  gv_Group :: string
  gv_Version :: string

definition GroupVersion_String :: "GroupVersion \<Rightarrow> string" where
  "GroupVersion_String gv = (if gv_Group gv = [] then gv_Version gv else gv_Group gv @ ''/'' @ gv_Version gv)"

definition coreV1alpha1 :: GroupVersion where "coreV1alpha1 = \<lparr>gv_Group = GroupName, gv_Version = ''v1alpha1''\<rparr>"
definition coreV1beta1 :: GroupVersion where "coreV1beta1 = \<lparr>gv_Group = GroupName, gv_Version = ''v1beta1''\<rparr>"
definition subresourcesV1alpha1 :: GroupVersion where
  "subresourcesV1alpha1 = \<lparr>gv_Group = SubresourceGroupName, gv_Version = ''v1alpha1''\<rparr>"
definition subresourcesV1beta1 :: GroupVersion where
  "subresourcesV1beta1 = \<lparr>gv_Group = SubresourceGroupName, gv_Version = ''v1beta1''\<rparr>"

section \<open>Metadata\<close>

type_synonym time = int

record TypeMeta =
  tm_Kind :: string
  tm_APIVersion :: string

definition empty_type :: TypeMeta where
  "empty_type = \<lparr>tm_Kind = [], tm_APIVersion = []\<rparr>"

record OwnerReference =
  o_APIVersion :: string
  o_Kind :: string
  o_Name :: string
  o_UID :: string
  o_Controller :: "bool option"
  o_BlockOwnerDeletion :: "bool option"

record ObjectMeta =
  m_Name :: string
  m_Namespace :: string
  m_UID :: string
  m_ResourceVersion :: string
  m_Generation :: int
  m_DeletionTimestamp :: "time option"
  m_Labels :: "string \<rightharpoonup> string"
  m_Annotations :: "string \<rightharpoonup> string"
  m_OwnerReferences :: "OwnerReference list"
  m_Finalizers :: "string list"

definition empty_meta :: ObjectMeta where
  "empty_meta = \<lparr>m_Name = [], m_Namespace = [], m_UID = [], m_ResourceVersion = [], m_Generation = 0,
     m_DeletionTimestamp = None, m_Labels = Map.empty, m_Annotations = Map.empty,
     m_OwnerReferences = [], m_Finalizers = []\<rparr>"

record Condition =
  c_Type :: string
  c_Status :: string
  c_ObservedGeneration :: int
  c_LastTransitionTime :: time
  c_Reason :: string
  c_Message :: string

section \<open>Templates\<close>

record Parameter =
  p_Name :: string
  p_DisplayName :: string
  p_Description :: string
  p_Value :: string
  p_Generate :: string
  p_From :: string
  p_Required :: bool

record 'o RawExtension =
  re_Raw :: string
  re_Object :: "'o option"

record 'o VirtualMachineTemplateSpec =
  ts_VirtualMachine :: "'o RawExtension option"
  ts_Parameters :: "Parameter list"
  ts_Message :: string

record 'o VirtualMachineTemplate =
  t_TypeMeta :: TypeMeta
  t_Meta :: ObjectMeta
  t_Spec :: "'o VirtualMachineTemplateSpec"
  t_Conditions :: "Condition list"

section \<open>Template requests\<close>

record VirtualMachineTemplateRequestSpec =
  rs_VMNamespace :: string
  rs_VMName :: string
  rs_TemplateName :: string
  rs_TemplateLabels :: "string \<rightharpoonup> string"
  rs_TTLSecondsAfterFinished :: "32 word option"

record VirtualMachineTemplateRequest =
  r_Meta :: ObjectMeta
  r_Spec :: VirtualMachineTemplateRequestSpec
  r_Conditions :: "Condition list"
  r_TemplateRef :: "string option"

section \<open>Subresources\<close>

text \<open>
  The types of \<^verbatim>\<open>api/core/subresourcesv1beta1\<close>: the parent resource that only has metadata, and what the
  subresources take and return, with the VirtualMachine as the type parameter.
\<close>

record SubresourceTemplate =
  sr_TypeMeta :: TypeMeta
  sr_Meta :: ObjectMeta

record ObjectReference =
  or_Kind :: string
  or_Namespace :: string
  or_Name :: string
  or_UID :: string
  or_APIVersion :: string
  or_ResourceVersion :: string
  or_FieldPath :: string

definition empty_reference :: ObjectReference where
  "empty_reference = \<lparr>or_Kind = [], or_Namespace = [], or_Name = [], or_UID = [], or_APIVersion = [],
     or_ResourceVersion = [], or_FieldPath = []\<rparr>"

record 'v ProcessedVirtualMachineTemplate =
  pt_TypeMeta :: TypeMeta
  pt_Meta :: ObjectMeta
  pt_TemplateRef :: "ObjectReference option"
  pt_VirtualMachine :: "'v option"
  pt_Message :: string

record ProcessOptions =
  po_TypeMeta :: TypeMeta
  po_Meta :: ObjectMeta
  po_Parameters :: "string \<rightharpoonup> string"

end
