(* ===== verification/Go_Values.thy ===== *)
theory Go_Values
  imports Prelude
begin

text \<open>
  Go values as the \<^verbatim>\<open>reflect\<close> package shows them, and Go's \<^verbatim>\<open>encoding/json\<close> decoder into an
  empty interface.

  A value of \<open>gval\<close> is a tree: pointers own what they point to.  This is so for what the
  template engine visits, a JSON document just decoded or a deep copy of an object.  A value
  of interface kind is \<open>GIface\<close>, with \<^term>\<open>None\<close> for nil; its type is the empty interface, the
  only interface type the visited values have.  The kinds the engine ignores (booleans,
  numbers, channels, functions) are \<open>GOther\<close> with the text they print as; a \<^verbatim>\<open>float64\<close> from
  JSON is identified with its literal.
\<close>

section \<open>Types and values\<close>

datatype gtype =
    TBool
  | TFloat64
  | TString
  | TAny
  | TBasic string
  | TNamed string gtype
  | TPtr gtype
  | TSlice gtype
  | TArray gtype
  | TMap gtype gtype
  | TStruct string

datatype gval =
    GString gtype string
  | GOther gtype string
  | GIface "gval option"
  | GPtr gtype "gval option"
  | GSlice gtype "gval list option"
  | GArray gtype "gval list"
  | GStruct string "(string \<times> bool \<times> gval) list"
  | GMap gtype "(gval \<times> gval) list option"

fun typ_of :: "gval \<Rightarrow> gtype" where
  "typ_of (GString t s) = t"
| "typ_of (GOther t s) = t"
| "typ_of (GIface v) = TAny"
| "typ_of (GPtr t v) = TPtr t"
| "typ_of (GSlice t vs) = t"
| "typ_of (GArray t vs) = t"
| "typ_of (GStruct n fs) = TStruct n"
| "typ_of (GMap t es) = t"

fun underlying :: "gtype \<Rightarrow> gtype" where
  "underlying (TNamed n t) = underlying t"
| "underlying t = t"

text \<open>Whether a type has a name of its own; type literals do not.\<close>

fun has_name :: "gtype \<Rightarrow> bool" where
  "has_name (TPtr t) = False"
| "has_name (TSlice t) = False"
| "has_name (TArray t) = False"
| "has_name (TMap k v) = False"
| "has_name TAny = False"
| "has_name _ = True"

text \<open>
  \<^verbatim>\<open>Type.AssignableTo\<close>: identical types, any type to the empty interface, and types with
  the same underlying type of which one is a type literal.
\<close>

definition assignable :: "gtype \<Rightarrow> gtype \<Rightarrow> bool" where
  "assignable v t \<longleftrightarrow>
     v = t \<or> t = TAny \<or> (underlying v = underlying t \<and> \<not> (has_name v \<and> has_name t))"

text \<open>The element type of a slice or array type, the key and the value type of a map type.\<close>

definition elem_type :: "gtype \<Rightarrow> gtype" where
  "elem_type t = (case underlying t of TSlice e \<Rightarrow> e | TArray e \<Rightarrow> e | TMap k v \<Rightarrow> v | _ \<Rightarrow> TAny)"

definition key_type :: "gtype \<Rightarrow> gtype" where
  "key_type t = (case underlying t of TMap k v \<Rightarrow> k | _ \<Rightarrow> TAny)"

text \<open>
  Storing a value in a slot of type \<open>t\<close>: a slot of interface type holds the value under
  \<open>GIface\<close>, any other slot gives the value its own type.  \<^term>\<open>None\<close> is the panic of
  \<^verbatim>\<open>reflect\<close> on a value that is not assignable.
\<close>

fun retype :: "gtype \<Rightarrow> gval \<Rightarrow> gval" where
  "retype t (GString t' s) = GString t s"
| "retype t (GOther t' s) = GOther t s"
| "retype t (GSlice t' vs) = GSlice t vs"
| "retype t (GArray t' vs) = GArray t vs"
| "retype t (GMap t' es) = GMap t es"
| "retype t v = v"

definition assign_to :: "gtype \<Rightarrow> gval \<Rightarrow> gval option" where
  "assign_to t v =
     (if \<not> assignable (typ_of v) t then None
      else if t = TAny then (case v of GIface w \<Rightarrow> Some v | _ \<Rightarrow> Some (GIface (Some v)))
      else Some (retype t v))"

text \<open>\<^verbatim>\<open>Value.Interface\<close>: what an interface holds, else the value itself; \<^term>\<open>None\<close> is the zero Value.\<close>

fun interface_of :: "gval \<Rightarrow> gval option" where
  "interface_of (GIface v) = v"
| "interface_of v = Some v"

text \<open>Whether a value may be the key of a map; a Go map panics on the others.\<close>

fun hashable :: "gval \<Rightarrow> bool" where
  "hashable (GSlice t vs) = False"
| "hashable (GMap t es) = False"
| "hashable (GIface (Some v)) = hashable v"
| "hashable (GArray t vs) = list_all hashable vs"
| "hashable (GStruct n fs) = list_all (\<lambda>(f, e, v). hashable v) fs"
| "hashable _ = True"

text \<open>The entries of a Go map, one per key, in the order of some iteration over it.\<close>

fun map_set :: "'k \<Rightarrow> 'v \<Rightarrow> ('k \<times> 'v) list \<Rightarrow> ('k \<times> 'v) list" where
  "map_set k v [] = [(k, v)]"
| "map_set k v ((k', v') # es) = (if k' = k then (k, v) # es else (k', v') # map_set k v es)"

definition map_delete :: "'k \<Rightarrow> ('k \<times> 'v) list \<Rightarrow> ('k \<times> 'v) list" where
  "map_delete k es = filter (\<lambda>e. fst e \<noteq> k) es"

section \<open>JSON\<close>

datatype json =
    JNull
  | JBool bool
  | JNum string
  | JStr string
  | JArr "json list"
  | JObj "(string \<times> json) list"

abbreviation code :: "char \<Rightarrow> nat" where
  "code c \<equiv> of_char c"

definition is_ws :: "char \<Rightarrow> bool" where
  "is_ws c \<longleftrightarrow> code c \<in> {32, 9, 13, 10}"

definition skip_ws :: "string \<Rightarrow> string" where
  "skip_ws s = dropWhile is_ws s"

subsection \<open>Strings\<close>

text \<open>UTF-8: the encoding of a code point, and the size of a valid multi-byte rune at the start.\<close>

definition utf8_encode :: "nat \<Rightarrow> string" where
  "utf8_encode n = map char_of
     (if n < 128 then [n]
      else if n < 2048 then [192 + n div 64, 128 + n mod 64]
      else if n < 65536 then [224 + n div 4096, 128 + n div 64 mod 64, 128 + n mod 64]
      else [240 + n div 262144, 128 + n div 4096 mod 64, 128 + n div 64 mod 64, 128 + n mod 64])"

definition rune_error :: string where
  "rune_error = utf8_encode 65533"

definition cont_byte :: "nat \<Rightarrow> bool" where
  "cont_byte n \<longleftrightarrow> 128 \<le> n \<and> n \<le> 191"

definition utf8_size :: "string \<Rightarrow> nat option" where
  "utf8_size s =
     (case map code (take 4 s) of
        [] \<Rightarrow> None
      | b0 # bs \<Rightarrow>
          if 194 \<le> b0 \<and> b0 \<le> 223 then
            (case bs of b1 # _ \<Rightarrow> if cont_byte b1 then Some 2 else None | _ \<Rightarrow> None)
          else if 224 \<le> b0 \<and> b0 \<le> 239 then
            (case bs of
               b1 # b2 # _ \<Rightarrow>
                 if cont_byte b1 \<and> cont_byte b2 \<and> (b0 = 224 \<longrightarrow> 160 \<le> b1) \<and> (b0 = 237 \<longrightarrow> b1 \<le> 159)
                 then Some 3 else None
             | _ \<Rightarrow> None)
          else if 240 \<le> b0 \<and> b0 \<le> 244 then
            (case bs of
               b1 # b2 # b3 # _ \<Rightarrow>
                 if cont_byte b1 \<and> cont_byte b2 \<and> cont_byte b3 \<and> (b0 = 240 \<longrightarrow> 144 \<le> b1) \<and>
                   (b0 = 244 \<longrightarrow> b1 \<le> 143)
                 then Some 4 else None
             | _ \<Rightarrow> None)
          else None)"

definition hex_value :: "char \<Rightarrow> nat option" where
  "hex_value c =
     (if is_digit c then Some (code c - 48)
      else if byte_in CHR ''a'' CHR ''f'' c then Some (code c - 87)
      else if byte_in CHR ''A'' CHR ''F'' c then Some (code c - 55)
      else None)"

definition get_u4 :: "string \<Rightarrow> nat option" where
  "get_u4 s =
     (case s of
        a # b # c # d # _ \<Rightarrow>
          (case (hex_value a, hex_value b, hex_value c, hex_value d) of
             (Some w, Some x, Some y, Some z) \<Rightarrow> Some (4096 * w + 256 * x + 16 * y + z)
           | _ \<Rightarrow> None)
      | _ \<Rightarrow> None)"

definition is_surrogate :: "nat \<Rightarrow> bool" where
  "is_surrogate n \<longleftrightarrow> 55296 \<le> n \<and> n < 57344"

text \<open>The code point of a surrogate pair whose second half follows as an escape.\<close>

definition surrogate_pair :: "nat \<Rightarrow> string \<Rightarrow> nat option" where
  "surrogate_pair hi s =
     (if take 2 s = [CHR 0x5C, CHR ''u''] then
        (case get_u4 (drop 2 s) of
           Some lo \<Rightarrow>
             if hi < 56320 \<and> 56320 \<le> lo \<and> lo < 57344
             then Some ((hi - 55296) * 1024 + (lo - 56320) + 65536) else None
         | None \<Rightarrow> None)
      else None)"

definition simple_escape :: "char \<Rightarrow> char option" where
  "simple_escape c =
     (if c = CHR 0x22 \<or> c = CHR 0x5C \<or> c = CHR ''/'' then Some c
      else if c = CHR ''b'' then Some (CHR 0x08)
      else if c = CHR ''f'' then Some (CHR 0x0C)
      else if c = CHR ''n'' then Some (CHR 0x0A)
      else if c = CHR ''r'' then Some (CHR 0x0D)
      else if c = CHR ''t'' then Some (CHR 0x09)
      else None)"

definition prepend :: "string \<Rightarrow> (string \<times> string) option \<Rightarrow> (string \<times> string) option" where
  "prepend p r = map_option (\<lambda>(s, rest). (p @ s, rest)) r"

text \<open>The rest of a string literal behind its opening quote: its value and what follows it.\<close>

function json_string_body :: "string \<Rightarrow> (string \<times> string) option" where
  "json_string_body [] = None"
| "json_string_body (c # cs) =
     (if c = CHR 0x22 then Some ([], cs)
      else if c = CHR 0x5C then
        (case cs of
           [] \<Rightarrow> None
         | e # r \<Rightarrow>
             if e = CHR ''u'' then
               (case get_u4 r of
                  None \<Rightarrow> None
                | Some u \<Rightarrow>
                    if is_surrogate u then
                      (case surrogate_pair u (drop 4 r) of
                         Some v \<Rightarrow> prepend (utf8_encode v) (json_string_body (drop 10 r))
                       | None \<Rightarrow> prepend rune_error (json_string_body (drop 4 r)))
                    else prepend (utf8_encode u) (json_string_body (drop 4 r)))
             else
               (case simple_escape e of
                  None \<Rightarrow> None
                | Some x \<Rightarrow> prepend [x] (json_string_body r)))
      else if code c < 32 then None
      else if code c < 128 then prepend [c] (json_string_body cs)
      else
        (case utf8_size (c # cs) of
           Some n \<Rightarrow> prepend (take n (c # cs)) (json_string_body (drop (n - 1) cs))
         | None \<Rightarrow> prepend rune_error (json_string_body cs)))"
  by pat_completeness auto
termination by (relation "measure length") auto

subsection \<open>Numbers\<close>

definition split_digits :: "string \<Rightarrow> string \<times> string" where
  "split_digits s = (takeWhile is_digit s, dropWhile is_digit s)"

definition json_int_part :: "string \<Rightarrow> (string \<times> string) option" where
  "json_int_part s =
     (case s of
        [] \<Rightarrow> None
      | c # cs \<Rightarrow>
          if c = CHR ''0'' then Some ([c], cs)
          else if is_digit c then Some (split_digits s)
          else None)"

definition json_frac_part :: "string \<Rightarrow> (string \<times> string) option" where
  "json_frac_part s =
     (case s of
        c # cs \<Rightarrow>
          if c = CHR ''.'' then
            (case split_digits cs of (ds, r) \<Rightarrow> if ds = [] then None else Some (c # ds, r))
          else Some ([], s)
      | [] \<Rightarrow> Some ([], []))"

definition json_exp_part :: "string \<Rightarrow> (string \<times> string) option" where
  "json_exp_part s =
     (case s of
        c # cs \<Rightarrow>
          if c = CHR ''e'' \<or> c = CHR ''E'' then
            (let sg = (if cs \<noteq> [] \<and> (hd cs = CHR ''+'' \<or> hd cs = CHR ''-'') then [hd cs] else []) in
             case split_digits (drop (length sg) cs) of
               (ds, r) \<Rightarrow> if ds = [] then None else Some (c # sg @ ds, r))
          else Some ([], s)
      | [] \<Rightarrow> Some ([], []))"

definition json_number :: "string \<Rightarrow> (string \<times> string) option" where
  "json_number s =
     (let sg = (if s \<noteq> [] \<and> hd s = CHR ''-'' then ''-'' else []) in
      case json_int_part (drop (length sg) s) of
        None \<Rightarrow> None
      | Some (ip, r1) \<Rightarrow>
          (case json_frac_part r1 of
             None \<Rightarrow> None
           | Some (fp, r2) \<Rightarrow>
               (case json_exp_part r2 of
                  None \<Rightarrow> None
                | Some (ep, r3) \<Rightarrow> Some (sg @ ip @ fp @ ep, r3))))"

lemma json_string_body_length: "json_string_body s = Some (v, r) \<Longrightarrow> length r < length s"
  by (induction s arbitrary: v rule: json_string_body.induct)
     (fastforce simp: prepend_def split: if_splits list.splits option.splits)+

lemma skip_ws_length: "length (skip_ws s) \<le> length s"
  by (simp add: skip_ws_def length_dropWhile_le)

lemma skip_ws_Cons_length: "skip_ws s = c # cs \<Longrightarrow> length cs < length s"
  using skip_ws_length [of s] by simp

subsection \<open>Documents\<close>

text \<open>
  The depth is the number of open objects and arrays, at most 10000.  The tests on the
  length of the rest always succeed: a value that was read took at least one byte.
\<close>

definition max_nesting_depth :: nat where
  "max_nesting_depth = 10000"

definition json_keyword :: "string \<Rightarrow> json option" where
  "json_keyword s =
     (if HasPrefix s ''null'' then Some JNull
      else if HasPrefix s ''true'' then Some (JBool True)
      else if HasPrefix s ''false'' then Some (JBool False)
      else None)"

definition json_keyword_length :: "json \<Rightarrow> nat" where
  "json_keyword_length j = (if j = JBool False then 5 else 4)"

function (sequential) json_value :: "nat \<Rightarrow> string \<Rightarrow> (json \<times> string) option"
  and json_elems :: "nat \<Rightarrow> string \<Rightarrow> (json list \<times> string) option"
  and json_members :: "nat \<Rightarrow> string \<Rightarrow> ((string \<times> json) list \<times> string) option"
where
  "json_value d s =
     (case skip_ws s of
        [] \<Rightarrow> None
      | c # cs \<Rightarrow>
          if c = CHR ''{'' then
            (if d \<ge> max_nesting_depth then None
             else if take 1 (skip_ws cs) = ''}'' then Some (JObj [], drop 1 (skip_ws cs))
             else map_option (\<lambda>(ms, r). (JObj ms, r)) (json_members (d + 1) cs))
          else if c = CHR ''['' then
            (if d \<ge> max_nesting_depth then None
             else if take 1 (skip_ws cs) = '']'' then Some (JArr [], drop 1 (skip_ws cs))
             else map_option (\<lambda>(es, r). (JArr es, r)) (json_elems (d + 1) cs))
          else if c = CHR 0x22 then map_option (\<lambda>(v, r). (JStr v, r)) (json_string_body cs)
          else
            (case json_keyword (c # cs) of
               Some j \<Rightarrow> Some (j, drop (json_keyword_length j) (c # cs))
             | None \<Rightarrow> map_option (\<lambda>(n, r). (JNum n, r)) (json_number (c # cs))))"
| "json_elems d s =
     (case json_value d s of
        None \<Rightarrow> None
      | Some (v, r) \<Rightarrow>
          (case skip_ws r of
             [] \<Rightarrow> None
           | c # cs \<Rightarrow>
               if c = CHR '']'' then Some ([v], cs)
               else if c = CHR '','' \<and> length cs < length s
               then map_option (\<lambda>(es, r'). (v # es, r')) (json_elems d cs)
               else None))"
| "json_members d s =
     (case skip_ws s of
        [] \<Rightarrow> None
      | q # ks \<Rightarrow>
          if q \<noteq> CHR 0x22 then None
          else
            (case json_string_body ks of
               None \<Rightarrow> None
             | Some (k, r1) \<Rightarrow>
                 (case skip_ws r1 of
                    [] \<Rightarrow> None
                  | c1 # r2 \<Rightarrow>
                      if c1 \<noteq> CHR '':'' then None
                      else
                        (case json_value d r2 of
                           None \<Rightarrow> None
                         | Some (v, r3) \<Rightarrow>
                             (case skip_ws r3 of
                                [] \<Rightarrow> None
                              | c2 # r4 \<Rightarrow>
                                  if c2 = CHR ''}'' then Some ([(k, v)], r4)
                                  else if c2 = CHR '','' \<and> length r4 < length s
                                  then map_option (\<lambda>(ms, r'). ((k, v) # ms, r')) (json_members d r4)
                                  else None)))))"
  by pat_completeness auto

termination
  by (relation "measure (\<lambda>x. case x of Inl (d, s) \<Rightarrow> 2 * length s
      | Inr (Inl (d, s)) \<Rightarrow> 2 * length s + 1 | Inr (Inr (d, s)) \<Rightarrow> 2 * length s + 1)")
     (auto dest!: skip_ws_Cons_length json_string_body_length)

text \<open>A document: one value with nothing but white space around it.\<close>

definition json_syntax :: "string \<Rightarrow> json option" where
  "json_syntax s =
     (case json_value 0 s of
        Some (j, r) \<Rightarrow> if skip_ws r = [] then Some j else None
      | None \<Rightarrow> None)"

text \<open>
  Whether \<^verbatim>\<open>strconv.ParseFloat\<close> reports that a number is out of the range of a float64: the value of
  the digits, scaled by the exponent, rounds to more than the largest one.
\<close>

definition digits_value :: "string \<Rightarrow> nat" where
  "digits_value ds = foldl (\<lambda>n c. 10 * n + (code c - 48)) 0 ds"

definition number_overflows :: "string \<Rightarrow> bool" where
  "number_overflows t =
     (let mantissa = takeWhile (\<lambda>c. c \<noteq> CHR ''e'' \<and> c \<noteq> CHR ''E'') t;
          exponent = drop (length mantissa) t;
          fraction = tl (dropWhile (\<lambda>c. c \<noteq> CHR ''.'') (mantissa @ ''.''));
          m = digits_value (filter is_digit mantissa);
          e = int (digits_value (filter is_digit exponent));
          e10 = (if CHR ''-'' \<in> set exponent then - e else e) - int (length (filter is_digit fraction));
          bound = 2 ^ 1024 - 2 ^ 970
      in m \<noteq> 0 \<and> (if 0 \<le> e10 then bound \<le> m * 10 ^ nat e10 else bound * 10 ^ nat (- e10) \<le> m))"

fun in_range :: "json \<Rightarrow> bool" where
  "in_range (JNum t) = (\<not> number_overflows t)"
| "in_range (JArr js) = list_all in_range js"
| "in_range (JObj ms) = list_all (\<lambda>(k, j). in_range j) ms"
| "in_range j = True"

text \<open>\<^verbatim>\<open>json.Unmarshal\<close> into an empty interface checks the syntax first and then converts the numbers.\<close>

definition json_decode :: "string \<Rightarrow> json option" where
  "json_decode s =
     (case json_syntax s of Some j \<Rightarrow> if in_range j then Some j else None | None \<Rightarrow> None)"

text \<open>
  What \<^verbatim>\<open>json.Unmarshal\<close> stores in an empty interface.  A later member of an object replaces an
  earlier one of the same name.
\<close>

abbreviation any_slice :: gtype where
  "any_slice \<equiv> TSlice TAny"

abbreviation any_map :: gtype where
  "any_map \<equiv> TMap TString TAny"

definition members_map :: "(string \<times> gval) list \<Rightarrow> (gval \<times> gval) list" where
  "members_map ms = foldl (\<lambda>es (k, v). map_set (GString TString k) v es) [] ms"

fun any_of_json :: "json \<Rightarrow> gval" where
  "any_of_json JNull = GIface None"
| "any_of_json (JBool b) = GIface (Some (GOther TBool (if b then ''true'' else ''false'')))"
| "any_of_json (JNum n) = GIface (Some (GOther TFloat64 n))"
| "any_of_json (JStr s) = GIface (Some (GString TString s))"
| "any_of_json (JArr js) = GIface (Some (GSlice any_slice (Some (map any_of_json js))))"
| "any_of_json (JObj ms) =
     GIface (Some (GMap any_map (Some (members_map (map (\<lambda>(k, j). (k, any_of_json j)) ms)))))"

definition json_Unmarshal :: "string \<Rightarrow> gval option" where
  "json_Unmarshal s = map_option any_of_json (json_decode s)"

section \<open>Go maps\<close>

text \<open>What a client of a Go map relies on, and what it may conclude for loops of updates and deletions.\<close>

locale go_map =
  fixes lookup :: "'m \<Rightarrow> 'k \<Rightarrow> 'v option"
    and put :: "'k \<Rightarrow> 'v \<Rightarrow> 'm \<Rightarrow> 'm"
    and del :: "'k \<Rightarrow> 'm \<Rightarrow> 'm"
  assumes lookup_put: "lookup (put k v m) = (lookup m)(k \<mapsto> v)"
    and lookup_del: "lookup (del k m) = (lookup m)(k := None)"
begin

lemma lookup_puts: "lookup (foldl (\<lambda>m (k, v). put k v m) m kvs) = lookup m ++ map_of (rev kvs)"
  by (induction kvs arbitrary: m)
     (auto simp: lookup_put map_add_def fun_eq_iff split: option.splits)

lemma lookup_dels: "lookup (fold del ks m) k = (if k \<in> set ks then None else lookup m k)"
  by (induction ks arbitrary: m) (auto simp: lookup_del)

end

lemma map_of_map_set: "map_of (map_set k v es) = (map_of es)(k \<mapsto> v)"
  by (induction es) (auto simp: fun_eq_iff)

lemma map_of_map_delete: "map_of (map_delete k es) = (map_of es)(k := None)"
  by (induction es) (auto simp: map_delete_def fun_eq_iff)

interpretation gomap: go_map map_of map_set map_delete
  by unfold_locales (simp_all add: map_of_map_set map_of_map_delete)

lemma map_fst_map_set:
  "map fst (map_set k v es) = (if k \<in> set (map fst es) then map fst es else map fst es @ [k])"
  by (induction es) (auto simp del: set_map)

lemma keys_map_set: "set (map fst (map_set k v es)) = insert k (set (map fst es))"
  by (simp add: map_fst_map_set insert_absorb del: set_map)

lemma distinct_map_set: "distinct (map fst es) \<Longrightarrow> distinct (map fst (map_set k v es))"
  by (simp add: map_fst_map_set del: set_map)

lemma distinct_map_sets:
  "distinct (map fst es) \<Longrightarrow> distinct (map fst (foldl (\<lambda>m (k, v). map_set k v m) es kvs))"
  by (induction kvs arbitrary: es) (auto simp: distinct_map_set)

lemma distinct_map_deletes: "distinct (map fst es) \<Longrightarrow> distinct (map fst (fold map_delete ks es))"
  by (induction ks arbitrary: es) (auto simp: map_delete_def distinct_map_filter)

lemma keys_map_sets:
  "set (map fst (foldl (\<lambda>m (k, v). map_set k v m) es kvs)) = set (map fst es) \<union> set (map fst kvs)"
proof (induction kvs arbitrary: es)
  case (Cons kv kvs)
  obtain k v where "kv = (k, v)" by (cases kv)
  with Cons show ?case by (simp add: keys_map_set del: set_map)
qed simp

end
