(* ===== verification/Visit.thy ===== *)
theory Visit
  imports Go_Values
begin

text \<open>
  The walk over a value that \<^verbatim>\<open>visit.go\<close> does with the \<^verbatim>\<open>reflect\<close> package: every string of the
  value goes through a transformer, whose result is stored in place of the string.

  A transformer passes a state along (the set of references seen so far, for the one that
  collects them), and returns the new text with the flag that says whether it is to be
  stored as a string.  The walk returns the changed value; after an error the caller drops
  the value it walked over, so an error has no value.

  The flags \<open>addr\<close> and \<open>ro\<close> are those of a \<^verbatim>\<open>reflect.Value\<close>: whether it is addressable, and
  whether it was reached through an unexported field.  \<^verbatim>\<open>CanSet\<close> is \<open>addr \<and> \<not> ro\<close>.  A panic
  of \<^verbatim>\<open>reflect\<close> or of a Go map is the error \<open>VPanic\<close>.
\<close>

section \<open>Errors and transformers\<close>

datatype visit_error =
    VTransform string
  | VUnsettable string
  | VNonString string
  | VNil gtype
  | VNotAssignable gtype gtype
  | VPanic

type_synonym 's transformer = "string \<Rightarrow> 's \<Rightarrow> visit_error + (string \<times> bool) \<times> 's"

section \<open>The walk\<close>

text \<open>
  The value that replaces a string of a slice, an array or a map: the text itself, or
  what its JSON stands for when the transformer asks for a value that is not a string.
\<close>

definition replacement :: "gtype \<Rightarrow> string \<Rightarrow> bool \<Rightarrow> visit_error + gval" where
  "replacement typeOf t asString =
     (if asString then Inr (GString TString t)
      else
        (case json_Unmarshal t of
           None \<Rightarrow> Inr (GString TString t)
         | Some data \<Rightarrow>
             (case interface_of data of
                None \<Rightarrow> Inl (VNil typeOf)
              | Some d \<Rightarrow>
                  if assignable (typ_of d) typeOf then Inr d
                  else Inl (VNotAssignable (typ_of d) typeOf))))"

text \<open>
  \<^verbatim>\<open>val.Index(i).Set(newVal)\<close>, where \<open>settable\<close> is \<^verbatim>\<open>CanSet\<close> of the element, and the loop of
  \<^verbatim>\<open>SetMapIndex\<close> calls over the updates of a map.
\<close>

definition set_slot :: "bool \<Rightarrow> gtype \<Rightarrow> gval \<Rightarrow> visit_error + gval" where
  "set_slot settable t v =
     (if \<not> settable then Inl VPanic
      else (case assign_to t v of None \<Rightarrow> Inl VPanic | Some w \<Rightarrow> Inr w))"

fun set_updates :: "gtype \<Rightarrow> gtype \<Rightarrow> (gval option \<times> gval) list \<Rightarrow> (gval \<times> gval) list
    \<Rightarrow> visit_error + (gval \<times> gval) list" where
  "set_updates kt vt [] es = Inr es"
| "set_updates kt vt ((None, v) # us) es = Inl VPanic"
| "set_updates kt vt ((Some k, v) # us) es =
     (case (assign_to kt k, assign_to vt v) of
        (Some k', Some v') \<Rightarrow> set_updates kt vt us (map_set k' v' es)
      | _ \<Rightarrow> Inl VPanic)"

text \<open>
  \<^verbatim>\<open>updates[newKey.Interface()] = newValue\<close>, which panics on a key that cannot be hashed;
  \<^term>\<open>None\<close> is the nil interface as a key.
\<close>

definition add_update :: "gval \<Rightarrow> gval \<Rightarrow> (gval option \<times> gval) list
    \<Rightarrow> visit_error + (gval option \<times> gval) list" where
  "add_update newKey newValue updates =
     (if hashable newKey then Inr (map_set (interface_of newKey) newValue updates) else Inl VPanic)"

function (sequential)
      visitValue :: "'s transformer \<Rightarrow> bool \<Rightarrow> bool \<Rightarrow> gval \<Rightarrow> 's \<Rightarrow> visit_error + gval \<times> 's"
  and visitUnsettableValues ::
    "'s transformer \<Rightarrow> gtype \<Rightarrow> bool \<Rightarrow> gval \<Rightarrow> 's \<Rightarrow> visit_error + gval \<times> 's"
  and visitSliceArray ::
    "'s transformer \<Rightarrow> gtype \<Rightarrow> bool \<Rightarrow> bool \<Rightarrow> gval list \<Rightarrow> 's \<Rightarrow> visit_error + gval list \<times> 's"
  and visitStruct ::
    "'s transformer \<Rightarrow> bool \<Rightarrow> bool \<Rightarrow> (string \<times> bool \<times> gval) list \<Rightarrow> 's
      \<Rightarrow> visit_error + (string \<times> bool \<times> gval) list \<times> 's"
  and visitMapKeys ::
    "'s transformer \<Rightarrow> gtype \<Rightarrow> gtype \<Rightarrow> bool \<Rightarrow> (gval \<times> gval) list
      \<Rightarrow> (gval option \<times> gval) list \<Rightarrow> gval list \<Rightarrow> 's
      \<Rightarrow> visit_error + ((gval option \<times> gval) list \<times> gval list) \<times> 's"
where
  "visitValue tf addr ro (GString t x) s =
     (if \<not> (addr \<and> \<not> ro) then Inl (VUnsettable x)
      else
        (case tf x s of
           Inl e \<Rightarrow> Inl e
         | Inr ((y, asString), s') \<Rightarrow>
             if asString then Inr (GString t y, s') else Inl (VNonString y)))"
| "visitValue tf addr ro (GOther t x) s = Inr (GOther t x, s)"
| "visitValue tf addr ro (GIface None) s = Inr (GIface None, s)"
| "visitValue tf addr ro (GIface (Some v)) s =
     (case visitValue tf False ro v s of
        Inl e \<Rightarrow> Inl e
      | Inr (v', s') \<Rightarrow> Inr (GIface (Some v'), s'))"
| "visitValue tf addr ro (GPtr t None) s = Inr (GPtr t None, s)"
| "visitValue tf addr ro (GPtr t (Some v)) s =
     (case visitValue tf True ro v s of
        Inl e \<Rightarrow> Inl e
      | Inr (v', s') \<Rightarrow> Inr (GPtr t (Some v'), s'))"
| "visitValue tf addr ro (GSlice t None) s = Inr (GSlice t None, s)"
| "visitValue tf addr ro (GSlice t (Some vs)) s =
     (case visitSliceArray tf (elem_type t) True ro vs s of
        Inl e \<Rightarrow> Inl e
      | Inr (vs', s') \<Rightarrow> Inr (GSlice t (Some vs'), s'))"
| "visitValue tf addr ro (GArray t vs) s =
     (case visitSliceArray tf (elem_type t) addr ro vs s of
        Inl e \<Rightarrow> Inl e
      | Inr (vs', s') \<Rightarrow> Inr (GArray t vs', s'))"
| "visitValue tf addr ro (GStruct n fs) s =
     (case visitStruct tf addr ro fs s of
        Inl e \<Rightarrow> Inl e
      | Inr (fs', s') \<Rightarrow> Inr (GStruct n fs', s'))"
| "visitValue tf addr ro (GMap t None) s = Inr (GMap t None, s)"
| "visitValue tf addr ro (GMap t (Some es)) s =
     (case visitMapKeys tf (key_type t) (elem_type t) ro es [] [] s of
        Inl e \<Rightarrow> Inl e
      | Inr ((updates, deletes), s') \<Rightarrow>
          (case set_updates (key_type t) (elem_type t) updates (fold map_delete deletes es) of
             Inl e \<Rightarrow> Inl e
           | Inr es' \<Rightarrow> Inr (GMap t (Some es'), s')))"
| "visitUnsettableValues tf typeOf ro existing s =
     (case (if ro then Some existing else interface_of existing) of
        Some (GString t x) \<Rightarrow>
          (case tf x s of
             Inl e \<Rightarrow> Inl e
           | Inr ((y, asString), s') \<Rightarrow>
               (case replacement typeOf y asString of
                  Inl e \<Rightarrow> Inl e
                | Inr v \<Rightarrow> Inr (v, s')))
      | _ \<Rightarrow> if ro then Inl VPanic else visitValue tf True False existing s)"
| "visitSliceArray tf elementType addr ro [] s = Inr ([], s)"
| "visitSliceArray tf elementType addr ro (v # vs) s =
     (case visitUnsettableValues tf elementType ro v s of
        Inl e \<Rightarrow> Inl e
      | Inr (newVal, s') \<Rightarrow>
          (case set_slot (addr \<and> \<not> ro) elementType newVal of
             Inl e \<Rightarrow> Inl e
           | Inr v' \<Rightarrow>
               (case visitSliceArray tf elementType addr ro vs s' of
                  Inl e \<Rightarrow> Inl e
                | Inr (vs', s'') \<Rightarrow> Inr (v' # vs', s''))))"
| "visitStruct tf addr ro [] s = Inr ([], s)"
| "visitStruct tf addr ro ((n, exported, v) # fs) s =
     (let ro' = (ro \<or> \<not> exported);
          field =
            (if (case v of GPtr t w \<Rightarrow> False | GIface w \<Rightarrow> False | _ \<Rightarrow> True) \<and> \<not> (addr \<and> \<not> ro')
             then Inr (v, s)
             else visitValue tf addr ro' v s)
      in case field of
           Inl e \<Rightarrow> Inl e
         | Inr (v', s') \<Rightarrow>
             (case visitStruct tf addr ro fs s' of
                Inl e \<Rightarrow> Inl e
              | Inr (fs', s'') \<Rightarrow> Inr ((n, exported, v') # fs', s'')))"
| "visitMapKeys tf keyType valueType ro [] updates deletes s = Inr ((updates, deletes), s)"
| "visitMapKeys tf keyType valueType ro ((oldKey, oldValue) # es) updates deletes s =
     (case visitUnsettableValues tf keyType ro oldKey s of
        Inl e \<Rightarrow> Inl e
      | Inr (newKey, s') \<Rightarrow>
          (case visitUnsettableValues tf valueType ro oldValue s' of
             Inl e \<Rightarrow> Inl e
           | Inr (newValue, s'') \<Rightarrow>
               (case add_update newKey newValue updates of
                  Inl e \<Rightarrow> Inl e
                | Inr updates' \<Rightarrow>
                    if ro then Inl VPanic
                    else visitMapKeys tf keyType valueType ro es updates'
                      (if interface_of oldKey = interface_of newKey then deletes else deletes @ [oldKey])
                      s'')))"
  by pat_completeness auto

termination
  by (relation "measure (\<lambda>x. case x of
        Inl (Inl (tf, a, r, v, s)) \<Rightarrow> 2 * size v
      | Inl (Inr (tf, t, r, v, s)) \<Rightarrow> 2 * size v + 1
      | Inr (Inl (tf, t, a, r, vs, s)) \<Rightarrow> 2 * size_list size vs
      | Inr (Inr (Inl (tf, a, r, fs, s))) \<Rightarrow> 2 * size_list (size_prod (\<lambda>x. 0) (size_prod (\<lambda>x. 0) size)) fs
      | Inr (Inr (Inr (tf, kt, vt, r, es, us, ds, s))) \<Rightarrow> 2 * size_list (size_prod size size) es)") auto

section \<open>Plain values\<close>

text \<open>
  The values of a decoded JSON document and of an unstructured object: what an empty
  interface holds is a string, a scalar, a slice of empty interfaces or a map from strings
  to empty interfaces.
\<close>

definition string_key :: "gval \<Rightarrow> bool" where
  "string_key k \<longleftrightarrow> (case k of GString t x \<Rightarrow> t = TString | _ \<Rightarrow> False)"

fun plain :: "gval \<Rightarrow> bool" where
  "plain (GIface None) = True"
| "plain (GIface (Some (GString t x))) = (t = TString)"
| "plain (GIface (Some (GOther t x))) = True"
| "plain (GIface (Some (GSlice t None))) = (t = any_slice)"
| "plain (GIface (Some (GSlice t (Some vs)))) = (t = any_slice \<and> (\<forall>v \<in> set vs. plain v))"
| "plain (GIface (Some (GMap t None))) = (t = any_map)"
| "plain (GIface (Some (GMap t (Some es)))) =
     (t = any_map \<and> distinct (map fst es) \<and> (\<forall>(k, v) \<in> set es. string_key k \<and> plain v))"
| "plain _ = False"

text \<open>The strings of a plain value, keys included, in the order of the walk.\<close>

definition key_text :: "gval \<Rightarrow> string" where
  "key_text k = (case k of GString t x \<Rightarrow> x | _ \<Rightarrow> [])"

fun strings_of :: "gval \<Rightarrow> string list" where
  "strings_of (GIface (Some (GString t x))) = [x]"
| "strings_of (GIface (Some (GSlice t (Some vs)))) = concat (map strings_of vs)"
| "strings_of (GIface (Some (GMap t (Some es)))) = concat (map (\<lambda>(k, v). key_text k # strings_of v) es)"
| "strings_of _ = []"

text \<open>The same strings, each with the type that a value at its place must have: keys of maps are strings, values of any type.\<close>

fun places :: "gval \<Rightarrow> (gtype \<times> string) list" where
  "places (GIface (Some (GString t x))) = [(TAny, x)]"
| "places (GIface (Some (GSlice t (Some vs)))) = concat (map places vs)"
| "places (GIface (Some (GMap t (Some es)))) = concat (map (\<lambda>(k, v). (TString, key_text k) # places v) es)"
| "places _ = []"

lemma snd_places: "map snd (places v) = strings_of v"
proof (induction v rule: places.induct)
  case (3 t es)
  then have "map snd (places v) = strings_of v" if "(k, v) \<in> set es" for k v using that by blast
  then show ?case by (auto simp: map_concat comp_def case_prod_unfold intro!: arg_cong [where f = concat])
qed (auto simp: map_concat comp_def intro!: arg_cong [where f = concat])

lemma places_strings: "snd ` set (places v) = set (strings_of v)"
  by (simp flip: snd_places)

lemma string_key_eq: "string_key k \<longleftrightarrow> k = GString TString (key_text k)"
  by (cases k) (auto simp: string_key_def key_text_def)

lemma members_map_sets:
  "members_map ms = foldl (\<lambda>m (k, v). map_set k v m) [] (map (\<lambda>(k, v). (GString TString k, v)) ms)"
  by (simp add: members_map_def foldl_map case_prod_unfold)

lemma set_map_set: "set (map_set k v es) \<subseteq> insert (k, v) (set es)"
  by (induction es) (auto split: if_splits)

lemma set_map_sets: "set (foldl (\<lambda>m (k, v). map_set k v m) es kvs) \<subseteq> set es \<union> set kvs"
proof (induction kvs arbitrary: es)
  case (Cons kv kvs)
  obtain k v where "kv = (k, v)" by (cases kv)
  with Cons [of "map_set k v es"] set_map_set [of k v es] show ?case by auto
qed simp

lemma plain_members:
  assumes "\<And>k v. (k, v) \<in> set ms \<Longrightarrow> plain v"
  shows "plain (GIface (Some (GMap any_map (Some (members_map ms)))))"
proof -
  let ?kvs = "map (\<lambda>(k, v). (GString TString k, v)) ms"
  have "string_key k \<and> plain v" if "(k, v) \<in> set (members_map ms)" for k v
  proof -
    from that have "(k, v) \<in> set ?kvs"
      using set_map_sets [of "[]" ?kvs] unfolding members_map_sets by auto
    with assms show ?thesis by (auto simp: string_key_def)
  qed
  moreover have "distinct (map fst (members_map ms))"
    unfolding members_map_sets by (rule distinct_map_sets) simp
  ultimately show ?thesis by auto
qed

lemma plain_any_of_json: "plain (any_of_json j)"
proof (induction j)
  case (JObj ms)
  then show ?case unfolding any_of_json.simps by (intro plain_members) fastforce
qed auto

lemma any_of_json_iface: "\<exists>w. any_of_json j = GIface w \<and> (\<forall>v. w \<noteq> Some (GIface v))"
  by (cases j) auto

lemma json_Unmarshal_plain: "json_Unmarshal t = Some d \<Longrightarrow> plain d"
  by (auto simp: json_Unmarshal_def plain_any_of_json)

section \<open>What the walk computes\<close>

text \<open>
  A relation between a plain value and what the walk makes of it.  \<open>f\<close> is what the
  transformer returns for a string.  Two keys of a map may become the same key; then one of
  the entries is kept.
\<close>

definition key_image :: "(string \<Rightarrow> visit_error + string \<times> bool) \<Rightarrow> gval \<Rightarrow> gval \<Rightarrow> bool" where
  "key_image f k k' \<longleftrightarrow>
     (case f (key_text k) of
        Inl e \<Rightarrow> False
      | Inr (y, b) \<Rightarrow> replacement TString y b = Inr k')"

inductive rendered :: "(string \<Rightarrow> visit_error + string \<times> bool) \<Rightarrow> gval \<Rightarrow> gval \<Rightarrow> bool"
  for f where
  nil: "rendered f (GIface None) (GIface None)"
| other: "rendered f (GIface (Some (GOther t x))) (GIface (Some (GOther t x)))"
| str: "f x = Inr (y, b) \<Longrightarrow> replacement TAny y b = Inr w \<Longrightarrow>
    rendered f (GIface (Some (GString t x))) (GIface (Some w))"
| nil_slice: "rendered f (GIface (Some (GSlice t None))) (GIface (Some (GSlice t None)))"
| slice: "list_all2 (rendered f) vs vs' \<Longrightarrow>
    rendered f (GIface (Some (GSlice t (Some vs)))) (GIface (Some (GSlice t (Some vs'))))"
| nil_map: "rendered f (GIface (Some (GMap t None))) (GIface (Some (GMap t None)))"
| map: "distinct (map fst es') \<Longrightarrow>
    \<forall>(k, v) \<in> set es. \<exists>k' v'. key_image f k k' \<and> rendered f v v' \<and> k' \<in> set (map fst es') \<Longrightarrow>
    \<forall>(k', v') \<in> set es'. \<exists>k v. (k, v) \<in> set es \<and> key_image f k k' \<and> rendered f v v' \<Longrightarrow>
    rendered f (GIface (Some (GMap t (Some es)))) (GIface (Some (GMap t (Some es'))))"

inductive_simps rendered_simps:
  "rendered f (GIface None) v'"
  "rendered f (GIface (Some (GOther t x))) v'"
  "rendered f (GIface (Some (GString t x))) v'"
  "rendered f (GIface (Some (GSlice t (Some vs)))) v'"
  "rendered f (GIface (Some (GMap t (Some es)))) v'"

text \<open>Why a walk fails: a string on which the transformer fails, or whose result does not fit its place.\<close>

definition blamed :: "(string \<Rightarrow> visit_error + string \<times> bool) \<Rightarrow> visit_error \<Rightarrow> gtype \<times> string \<Rightarrow> bool" where
  "blamed f e p \<longleftrightarrow>
     (case f (snd p) of
        Inl e' \<Rightarrow> e = e'
      | Inr (y, b) \<Rightarrow> replacement (fst p) y b = Inl e)"

lemma replacement_plain: "replacement TAny y b = Inr w \<Longrightarrow> plain (GIface (Some w))"
  by (auto simp: replacement_def split: if_splits option.splits
      dest!: json_Unmarshal_plain) (metis interface_of.simps(1) plain.simps option.exhaust gval.exhaust)

lemma any_of_json_string:
  "any_of_json j = GIface (Some d) \<Longrightarrow> assignable (typ_of d) TString \<Longrightarrow> string_key d"
  by (cases j) (auto simp: assignable_def string_key_def)

lemma replacement_key: "replacement TString y b = Inr w \<Longrightarrow> string_key w"
proof -
  assume r: "replacement TString y b = Inr w"
  show ?thesis
  proof (cases "b \<or> json_Unmarshal y = None")
    case True
    with r show ?thesis by (cases b) (auto simp: replacement_def string_key_def)
  next
    case False
    then obtain j where "json_Unmarshal y = Some (any_of_json j)" "\<not> b"
      by (auto simp: json_Unmarshal_def)
    with r show ?thesis
      using any_of_json_iface [of j] any_of_json_string [of j]
      by (auto simp: replacement_def split: option.splits if_splits)
  qed
qed

lemma assign_any: "\<forall>v. w \<noteq> GIface v \<Longrightarrow> assign_to TAny w = Some (GIface (Some w))"
  by (cases w) (auto simp: assign_to_def assignable_def)

lemma assign_key: "string_key k \<Longrightarrow> assign_to TString k = Some k"
  by (cases k) (auto simp: assign_to_def assignable_def string_key_def)

lemma replacement_slot: "replacement TAny y b = Inr w \<Longrightarrow> assign_to TAny w = Some (GIface (Some w))"
  by (rule assign_any) (auto dest!: replacement_plain)

text \<open>
  The loops of a map whose keys are strings: the keys of the result are those of the
  updates, and each has the value of its last update.
\<close>

lemma set_updates_strings:
  assumes "\<And>k v. (k, v) \<in> set us \<Longrightarrow> \<exists>k' v'. k = Some k' \<and> string_key k' \<and> assign_to TAny v = Some v'"
  shows "set_updates TString TAny us es =
     Inr (foldl (\<lambda>m (k, v). map_set k v m) es (map (\<lambda>(k, v). (the k, the (assign_to TAny v))) us))"
  using assms
proof (induction us arbitrary: es)
  case (Cons u us)
  obtain k v where u: "u = (Some k, v)" "string_key k" "assign_to TAny v \<noteq> None"
    using Cons.prems [of "fst u" "snd u"] by (cases u) auto
  with Cons show ?case by (auto simp: assign_key)
qed simp

lemma map_add_dominated: "dom m \<subseteq> dom n \<Longrightarrow> m ++ n = n"
  by (auto simp: map_add_def fun_eq_iff dom_def split: option.split)

lemma set_updates_lookup:
  fixes us :: "(gval \<times> gval) list" and es :: "(gval \<times> gval) list"
  assumes us: "\<And>k v. (k, v) \<in> set us \<Longrightarrow> string_key k \<and> (\<exists>v'. assign_to TAny v = Some v')"
    and es: "distinct (map fst es)" "set (map fst es) \<subseteq> set (map fst us)"
    and dist: "distinct (map fst us)"
  shows "\<exists>es'. set_updates TString TAny (map (\<lambda>(k, v). (Some k, v)) us) es = Inr es' \<and>
     distinct (map fst es') \<and> set es' = (\<lambda>(k, v). (k, the (assign_to TAny v))) ` set us"
proof -
  let ?vs = "map (\<lambda>(k, v). (k, the (assign_to TAny v))) us"
  let ?es' = "foldl (\<lambda>m (k, v). map_set k v m) es ?vs"
  have "set_updates TString TAny (map (\<lambda>(k, v). (Some k, v)) us) es = Inr ?es'"
    using us by (subst set_updates_strings) (fastforce simp: case_prod_unfold comp_def)+
  moreover have d: "distinct (map fst ?es')" using es(1) by (rule distinct_map_sets)
  moreover have "set ?es' = set ?vs"
  proof -
    have dv: "distinct (map fst ?vs)" using dist by (simp add: case_prod_unfold comp_def)
    have "map_of ?es' = map_of es ++ map_of (rev ?vs)" by (rule gomap.lookup_puts)
    also have "map_of (rev ?vs) = map_of ?vs"
      using dv by (simp add: map_of_inject_set rev_map [symmetric])
    also have "map_of es ++ map_of ?vs = map_of ?vs"
    proof (rule map_add_dominated)
      have "dom (map_of ?vs) = set (map fst us)"
        unfolding dom_map_of_conv_image_fst by (force simp: case_prod_unfold)
      with es(2) show "dom (map_of es) \<subseteq> dom (map_of ?vs)" by (simp add: dom_map_of_conv_image_fst)
    qed
    finally have "map_of ?es' = map_of ?vs" .
    with d dv show ?thesis by (simp add: map_of_inject_set)
  qed
  ultimately show ?thesis by auto
qed

section \<open>Walks over plain values\<close>

text \<open>The outcome of visiting a slot that holds a plain value.\<close>

definition slot_outcome :: "'s transformer \<Rightarrow> (string \<Rightarrow> visit_error + string \<times> bool)
    \<Rightarrow> (string \<Rightarrow> 's \<Rightarrow> 's) \<Rightarrow> gval \<Rightarrow> bool" where
  "slot_outcome tf f acc v \<longleftrightarrow>
     (\<forall>s. case visitUnsettableValues tf TAny False v s of
            Inl e \<Rightarrow> \<exists>p \<in> set (places v). blamed f e p
          | Inr (w, s') \<Rightarrow>
              s' = fold acc (strings_of v) s \<and>
              (\<exists>v'. assign_to TAny w = Some v' \<and> rendered f v v' \<and> plain v'))"

definition entry_image :: "(string \<Rightarrow> visit_error + string \<times> bool) \<Rightarrow> gval \<times> gval \<Rightarrow> gval \<times> gval \<Rightarrow> bool" where
  "entry_image f e e' \<longleftrightarrow>
     key_image f (fst e) (fst e') \<and> string_key (fst e') \<and>
     (\<exists>v'. assign_to TAny (snd e') = Some v' \<and> rendered f (snd e) v' \<and> plain v')"

definition changed_keys :: "(gval \<times> gval) list \<Rightarrow> (gval \<times> gval) list \<Rightarrow> gval list" where
  "changed_keys es kws = map (fst \<circ> fst) (filter (\<lambda>(e, e'). fst e \<noteq> fst e') (zip es kws))"

abbreviation some_keys :: "(gval \<times> gval) list \<Rightarrow> (gval option \<times> gval) list" where
  "some_keys us \<equiv> map (\<lambda>(k, v). (Some k, v)) us"

lemma map_set_some_keys: "map_set (Some k) v (some_keys us) = some_keys (map_set k v us)"
  by (induction us) auto

lemma string_key_facts:
  "string_key k \<Longrightarrow> interface_of k = Some k" "string_key k \<Longrightarrow> hashable k"
  by (cases k; simp add: string_key_def)+

text \<open>
  The interface a transformer gives to the walk: what it returns for a string does not
  depend on the state, and the state it passes on is determined by the string.
\<close>

locale visitor =
  fixes tf :: "'s transformer"
    and f :: "string \<Rightarrow> visit_error + string \<times> bool"
    and acc :: "string \<Rightarrow> 's \<Rightarrow> 's"
  assumes tf_law: "tf x s = (case f x of Inl e \<Rightarrow> Inl e | Inr r \<Rightarrow> Inr (r, acc x s))"
begin

lemma visit_key:
  assumes "string_key k"
  shows "case visitUnsettableValues tf TString False k s of
      Inl e \<Rightarrow> blamed f e (TString, key_text k)
    | Inr (k', s') \<Rightarrow> key_image f k k' \<and> string_key k' \<and> s' = acc (key_text k) s"
proof -
  obtain x where k: "k = GString TString x" "key_text k = x"
    using assms by (metis string_key_eq)
  show ?thesis
    by (auto simp: k key_text_def tf_law blamed_def key_image_def
        split: sum.splits dest: replacement_key)
qed

lemma visit_map_keys:
  assumes "\<forall>(k, v) \<in> set es. string_key k \<and> slot_outcome tf f acc v"
  shows "case visitMapKeys tf TString TAny False es (some_keys us) ds s of
      Inl e \<Rightarrow> \<exists>p \<in> set (places (GIface (Some (GMap any_map (Some es))))). blamed f e p
    | Inr ((us', ds'), s') \<Rightarrow>
        s' = fold acc (strings_of (GIface (Some (GMap any_map (Some es))))) s \<and>
        (\<exists>kws. list_all2 (entry_image f) es kws \<and>
           us' = some_keys (foldl (\<lambda>m (k, v). map_set k v m) us kws) \<and>
           ds' = ds @ changed_keys es kws)"
  using assms
proof (induction es arbitrary: us ds s)
  case Nil
  then show ?case by (simp add: changed_keys_def)
next
  case (Cons e es)
  obtain k v where e: "e = (k, v)" by (cases e)
  with Cons.prems have k: "string_key k" and v: "slot_outcome tf f acc v" by auto
  show ?case
  proof (cases "visitUnsettableValues tf TString False k s")
    case (Inl er)
    with visit_key [OF k, of s] show ?thesis by (auto simp: e)
  next
    case (Inr r1)
    obtain k' s1 where r1: "r1 = (k', s1)" by (cases r1)
    with Inr visit_key [OF k, of s] have k': "key_image f k k'" "string_key k'" "s1 = acc (key_text k) s"
      by auto
    note v1 = v [unfolded slot_outcome_def, rule_format, of s1]
    show ?thesis
    proof (cases "visitUnsettableValues tf TAny False v s1")
      case Inl2: (Inl er)
      with v1 Inr r1 show ?thesis by (auto simp: e)
    next
      case Inr2: (Inr r2)
      obtain w s2 where r2: "r2 = (w, s2)" by (cases r2)
      with Inr2 v1 obtain v' where v': "assign_to TAny w = Some v'" "rendered f v v'" "plain v'"
        and s2: "s2 = fold acc (strings_of v) s1" by auto
      have ei: "entry_image f (k, v) (k', w)" using k' v' by (auto simp: entry_image_def)
      let ?ds = "if interface_of k = interface_of k' then ds else ds @ [k]"
      have step: "visitMapKeys tf TString TAny False (e # es) (some_keys us) ds s =
          visitMapKeys tf TString TAny False es (some_keys (map_set k' w us)) ?ds s2"
        using Inr r1 Inr2 r2 k' by (simp add: e add_update_def string_key_facts map_set_some_keys)
      have IH: "case visitMapKeys tf TString TAny False es (some_keys (map_set k' w us)) ?ds s2 of
            Inl e \<Rightarrow> \<exists>p \<in> set (places (GIface (Some (GMap any_map (Some es))))). blamed f e p
          | Inr ((us', ds'), s') \<Rightarrow>
              s' = fold acc (strings_of (GIface (Some (GMap any_map (Some es))))) s2 \<and>
              (\<exists>kws. list_all2 (entry_image f) es kws \<and>
                 us' = some_keys (foldl (\<lambda>m (k, v). map_set k v m) (map_set k' w us) kws) \<and>
                 ds' = ?ds @ changed_keys es kws)"
        by (rule Cons.IH) (use Cons.prems in auto)
      show ?thesis
      proof (cases "visitMapKeys tf TString TAny False es (some_keys (map_set k' w us)) ?ds s2")
        case (Inl er)
        with IH step show ?thesis by (auto simp: e simp del: visitMapKeys.simps)
      next
        case (Inr r3)
        obtain us' ds' s' where r3: "r3 = ((us', ds'), s')" by (cases r3) auto
        with Inr IH obtain kws where kws: "list_all2 (entry_image f) es kws"
          "us' = some_keys (foldl (\<lambda>m (k, v). map_set k v m) (map_set k' w us) kws)"
          "ds' = ?ds @ changed_keys es kws"
          and s': "s' = fold acc (strings_of (GIface (Some (GMap any_map (Some es))))) s2"
          by auto
        have "list_all2 (entry_image f) (e # es) ((k', w) # kws)" using ei kws(1) e by simp
        moreover have "ds' = ds @ changed_keys (e # es) ((k', w) # kws)"
          using kws(3) k k' by (simp add: changed_keys_def e string_key_facts)
        moreover have "us' = some_keys (foldl (\<lambda>m (k, v). map_set k v m) us ((k', w) # kws))"
          using kws(2) by simp
        moreover have "s' = fold acc (strings_of (GIface (Some (GMap any_map (Some (e # es)))))) s"
          using s' s2 k'(3) by (simp add: e)
        ultimately show ?thesis unfolding step Inr r3 sum.case prod.case by blast
      qed
    qed
  qed
qed

end

lemma in_keys_iff: "k \<in> set (map fst es) \<longleftrightarrow> map_of es k \<noteq> None"
  by (simp add: map_of_eq_None_iff)

lemma keys_deletes: "set (map fst (fold map_delete ds es)) = set (map fst es) - set ds"
  by (rule set_eqI) (simp only: in_keys_iff gomap.lookup_dels Diff_iff, simp)

lemma entry_image_of:
  assumes "list_all2 (entry_image f) es kws" and "(k, v) \<in> set es"
  shows "\<exists>k' v'. k' \<in> set (map fst kws) \<and> key_image f k k' \<and> rendered f v v'"
  using list_all2_set1 [OF assms] by (force simp: entry_image_def)

lemma entry_image_from:
  assumes "list_all2 (entry_image f) es kws" and "(k', w) \<in> set kws"
  shows "string_key k' \<and> (\<exists>k v v'. (k, v) \<in> set es \<and> key_image f k k' \<and>
      assign_to TAny w = Some v' \<and> rendered f v v' \<and> plain v')"
  using list_all2_set2 [OF assms] by (force simp: entry_image_def)

lemma changed_keys_rest:
  "list_all2 (entry_image f) es kws \<Longrightarrow> set (map fst es) - set (changed_keys es kws) \<subseteq> set (map fst kws)"
  by (induction rule: list_all2_induct) (auto simp: changed_keys_def split: if_splits)

lemma rendered_map:
  assumes kws: "list_all2 (entry_image f) es kws" and es: "distinct (map fst es)"
  shows "\<exists>es'. set_updates TString TAny (some_keys (foldl (\<lambda>m (k, v). map_set k v m) [] kws))
      (fold map_delete (changed_keys es kws) es) = Inr es' \<and>
     rendered f (GIface (Some (GMap any_map (Some es)))) (GIface (Some (GMap any_map (Some es')))) \<and>
     plain (GIface (Some (GMap any_map (Some es'))))"
proof -
  let ?us = "foldl (\<lambda>m (k, v). map_set k v m) [] kws"
  let ?slot = "\<lambda>(k, v). (k, the (assign_to TAny v))"
  note of_es = entry_image_of [OF kws] and from_kws = entry_image_from [OF kws]
  have sub: "set ?us \<subseteq> set kws" using set_map_sets [of "[]" kws] by simp
  have keys: "set (map fst ?us) = set (map fst kws)" using keys_map_sets [of "[]" kws] by simp
  obtain es' where es': "set_updates TString TAny (some_keys ?us) (fold map_delete (changed_keys es kws) es) = Inr es'"
    "distinct (map fst es')" "set es' = ?slot ` set ?us"
  proof -
    have "\<exists>es'. set_updates TString TAny (some_keys ?us) (fold map_delete (changed_keys es kws) es) = Inr es' \<and>
        distinct (map fst es') \<and> set es' = ?slot ` set ?us"
    proof (rule set_updates_lookup)
      fix k v assume "(k, v) \<in> set ?us"
      with sub from_kws show "string_key k \<and> (\<exists>v'. assign_to TAny v = Some v')" by blast
    next
      show "set (map fst (fold map_delete (changed_keys es kws) es)) \<subseteq> set (map fst ?us)"
        using changed_keys_rest [OF kws] by (simp only: keys_deletes keys)
    qed (use es distinct_map_deletes distinct_map_sets [of "[]" kws] in simp_all)
    with that show ?thesis by blast
  qed
  have from_es: "string_key k' \<and> plain v' \<and> (\<exists>k v. (k, v) \<in> set es \<and> key_image f k k' \<and> rendered f v v')"
    if "(k', v') \<in> set es'" for k' v'
  proof -
    from that es'(3) obtain w where w: "(k', w) \<in> set ?us" "v' = the (assign_to TAny w)" by auto
    with sub have "(k', w) \<in> set kws" by blast
    from from_kws [OF this] w(2) show ?thesis by (metis option.sel)
  qed
  have "set (map fst es') = set (map fst kws)"
    using es'(3) keys by (force simp: image_image case_prod_unfold)
  then have to_es: "\<exists>k' v'. key_image f k k' \<and> rendered f v v' \<and> k' \<in> set (map fst es')" if "(k, v) \<in> set es" for k v
    using of_es [OF that] by auto
  have "rendered f (GIface (Some (GMap any_map (Some es)))) (GIface (Some (GMap any_map (Some es'))))"
    using es'(2) from_es to_es by (intro rendered.map) auto
  moreover have "plain (GIface (Some (GMap any_map (Some es'))))"
    using es'(2) from_es by auto
  ultimately show ?thesis using es'(1) by blast
qed

context visitor
begin

lemma visit_slots:
  assumes "\<forall>v \<in> set vs. slot_outcome tf f acc v"
  shows "case visitSliceArray tf TAny True False vs s of
      Inl e \<Rightarrow> \<exists>p \<in> set (concat (map places vs)). blamed f e p
    | Inr (vs', s') \<Rightarrow> s' = fold acc (concat (map strings_of vs)) s \<and>
        list_all2 (rendered f) vs vs' \<and> list_all plain vs'"
  using assms
proof (induction vs arbitrary: s)
  case (Cons v vs)
  from Cons.prems have v: "slot_outcome tf f acc v" by simp
  note v1 = v [unfolded slot_outcome_def, rule_format, of s]
  show ?case
  proof (cases "visitUnsettableValues tf TAny False v s")
    case (Inl e)
    with v1 show ?thesis by auto
  next
    case (Inr r)
    obtain w s1 where r: "r = (w, s1)" by (cases r)
    with Inr v1 obtain v' where v': "assign_to TAny w = Some v'" "rendered f v v'" "plain v'"
      and s1: "s1 = fold acc (strings_of v) s" by auto
    have "case visitSliceArray tf TAny True False vs s1 of
      Inl e \<Rightarrow> \<exists>p \<in> set (concat (map places vs)). blamed f e p
    | Inr (vs', s') \<Rightarrow> s' = fold acc (concat (map strings_of vs)) s1 \<and>
        list_all2 (rendered f) vs vs' \<and> list_all plain vs'"
      using Cons by simp
    with Inr r v' s1 show ?thesis
      by (auto simp: set_slot_def simp del: visitUnsettableValues.simps split: sum.splits)
  qed
qed simp

theorem visit_plain: "plain v \<Longrightarrow> slot_outcome tf f acc v"
proof (induction v rule: plain.induct)
  case (2 t x)
  then show ?case
    by (auto simp: slot_outcome_def tf_law blamed_def rendered_simps replacement_slot
        split: sum.splits dest: replacement_plain)
next
  case (5 t vs)
  then have "\<forall>v \<in> set vs. slot_outcome tf f acc v" and t: "t = any_slice" by auto
  note vs = visit_slots [OF this(1)]
  show ?case
    unfolding slot_outcome_def
  proof
    fix s
    show "case visitUnsettableValues tf TAny False (GIface (Some (GSlice t (Some vs)))) s of
        Inl e \<Rightarrow> \<exists>p \<in> set (places (GIface (Some (GSlice t (Some vs))))). blamed f e p
      | Inr (w, s') \<Rightarrow> s' = fold acc (strings_of (GIface (Some (GSlice t (Some vs))))) s \<and>
          (\<exists>v'. assign_to TAny w = Some v' \<and> rendered f (GIface (Some (GSlice t (Some vs)))) v' \<and> plain v')"
      using vs [of s]
      by (cases "visitSliceArray tf TAny True False vs s")
         (auto simp: t elem_type_def assign_to_def assignable_def list_all_iff intro: rendered.slice)
  qed
next
  case (7 t es)
  then have t: "t = any_map" and d: "distinct (map fst es)"
    and es: "\<forall>(k, v) \<in> set es. string_key k \<and> slot_outcome tf f acc v" by auto
  show ?case
    unfolding slot_outcome_def
  proof
    fix s
    show "case visitUnsettableValues tf TAny False (GIface (Some (GMap t (Some es)))) s of
        Inl e \<Rightarrow> \<exists>p \<in> set (places (GIface (Some (GMap t (Some es))))). blamed f e p
      | Inr (w, s') \<Rightarrow> s' = fold acc (strings_of (GIface (Some (GMap t (Some es))))) s \<and>
          (\<exists>v'. assign_to TAny w = Some v' \<and> rendered f (GIface (Some (GMap t (Some es)))) v' \<and> plain v')"
    proof (cases "visitMapKeys tf TString TAny False es [] [] s")
      case (Inl e)
      with visit_map_keys [OF es, where us = "[]" and ds = "[]" and s = s] show ?thesis
        by (auto simp: t elem_type_def key_type_def)
    next
      case (Inr r)
      obtain us ds s' where r: "r = ((us, ds), s')" by (cases r) auto
      with Inr visit_map_keys [OF es, where us = "[]" and ds = "[]" and s = s] obtain kws where
        kws: "list_all2 (entry_image f) es kws" "us = some_keys (foldl (\<lambda>m (k, v). map_set k v m) [] kws)"
          "ds = changed_keys es kws"
        and s': "s' = fold acc (strings_of (GIface (Some (GMap any_map (Some es))))) s" by auto
      from rendered_map [OF kws(1) d] Inr r kws s' show ?thesis
        by (auto simp: t elem_type_def key_type_def assign_to_def assignable_def)
    qed
  qed
qed (auto simp: slot_outcome_def assign_to_def assignable_def intro: rendered.intros)

end

end
