(* ===== verification/Template_Engine.thy ===== *)
theory Template_Engine
  imports Api_Types Visit Expression_Generator
begin

text \<open>
  The functions of \<^verbatim>\<open>template.go\<close>: generating the values of the parameters, extracting the
  VirtualMachine of a template, and substituting or collecting the parameter references in
  the strings of an object.

  The error of a validation is the record \<open>field_error\<close>: its type, the field path, and
  instead of the text of the message the datatype of its causes.  A random source is given
  per parameter, since each call of a generator draws from the system's source afresh.
  \<^term>\<open>None\<close> as a result says that a generator does not return.
\<close>

section \<open>Field errors\<close>

datatype error_type = ErrorTypeInvalid | ErrorTypeDuplicate | ErrorTypeRequired | ErrorTypeInternal

datatype field_cause =
    EmptyParameterName
  | DuplicateParameter string
  | UnknownGenerator string string
  | EmptyFrom string string
  | GenerateFailed string gen_error
  | ValueRequired string
  | EmptyVirtualMachine
  | DecodeFailed
  | RemoveNamespaceFailed
  | SubstituteFailed visit_error
  | ConvertFailed string
  | NotAVirtualMachine
  | MessageFailed string
  | CollectFailed visit_error
  | UndefinedReference string

record field_error =
  fe_type :: error_type
  fe_field :: string
  fe_cause :: field_cause

definition field_Invalid :: "string \<Rightarrow> field_cause \<Rightarrow> field_error" where
  "field_Invalid path c = \<lparr>fe_type = ErrorTypeInvalid, fe_field = path, fe_cause = c\<rparr>"

text \<open>\<^verbatim>\<open>field.NewPath("spec", "parameters").Index(i)\<close>\<close>

definition parameter_path :: "nat \<Rightarrow> string" where
  "parameter_path i = ''spec.parameters['' @ dec_string i @ '']''"

section \<open>Patterns\<close>

text \<open>\<^verbatim>\<open>\$\{([a-zA-Z0-9_]+)\}\<close>\<close>

definition stringParamExpr :: gre where
  "stringParamExpr =
     RSeq (RLit CHR ''$'') (RSeq (RLit CHR ''{'') (RSeq (RGroup 1 (RPlus is_word)) (RLit CHR ''}'')))"

text \<open>\<^verbatim>\<open>^\$\{\{([a-zA-Z0-9_]+)\}\}$\<close>\<close>

definition nonStringParamExpr :: gre where
  "nonStringParamExpr =
     RSeq RBot (RSeq (RLit CHR ''$'') (RSeq (RLit CHR ''{'') (RSeq (RLit CHR ''{'')
       (RSeq (RGroup 1 (RPlus is_word)) (RSeq (RLit CHR ''}'') (RSeq (RLit CHR ''}'') REot))))))"

section \<open>Parameter values\<close>

type_synonym generator = "rand_source \<Rightarrow> string \<Rightarrow> (gen_error + string) option"
type_synonym generators = "string \<rightharpoonup> generator"
type_synonym param_map = "string \<rightharpoonup> Parameter"

text \<open>The part of the loop body that fills in the value of one parameter.\<close>

definition generate_value_of ::
  "rand_source \<Rightarrow> generators \<Rightarrow> string \<Rightarrow> Parameter \<Rightarrow> (field_error + Parameter) option" where
  "generate_value_of src gens path param =
     (if p_Value param = [] \<and> p_Generate param \<noteq> [] then
        (case gens (p_Generate param) of
           None \<Rightarrow>
             Some (Inl (field_Invalid (path @ ''.generate'') (UnknownGenerator (p_Generate param) (p_Name param))))
         | Some g \<Rightarrow>
             if p_From param = [] then
               Some (Inl (field_Invalid (path @ ''.from'') (EmptyFrom (p_Name param) (p_Generate param))))
             else
               (case g src (p_From param) of
                  None \<Rightarrow> None
                | Some (Inl e) \<Rightarrow>
                    Some (Inl (field_Invalid (path @ ''.from'') (GenerateFailed (p_From param) e)))
                | Some (Inr v) \<Rightarrow> Some (Inr (param\<lparr>p_Value := v\<rparr>))))
      else Some (Inr param))"

fun generate_loop ::
  "(nat \<Rightarrow> rand_source) \<Rightarrow> generators \<Rightarrow> nat \<Rightarrow> Parameter list \<Rightarrow> string set \<Rightarrow> param_map
    \<Rightarrow> (field_error + param_map) option" where
  "generate_loop srcs gens i [] visited params = Some (Inr params)"
| "generate_loop srcs gens i (param # ps) visited params =
     (let path = parameter_path i in
      if p_Name param = [] then Some (Inl (field_Invalid (path @ ''.name'') EmptyParameterName))
      else if p_Name param \<in> visited then
        Some (Inl \<lparr>fe_type = ErrorTypeDuplicate, fe_field = path @ ''.name'',
          fe_cause = DuplicateParameter (p_Name param)\<rparr>)
      else
        (case generate_value_of (srcs i) gens path param of
           None \<Rightarrow> None
         | Some (Inl e) \<Rightarrow> Some (Inl e)
         | Some (Inr newParam) \<Rightarrow>
             if p_Value newParam = [] \<and> p_Required newParam then
               Some (Inl \<lparr>fe_type = ErrorTypeRequired, fe_field = path @ ''.value'',
                 fe_cause = ValueRequired (p_Name param)\<rparr>)
             else
               generate_loop srcs gens (Suc i) ps (insert (p_Name param) visited)
                 (params(p_Name newParam \<mapsto> newParam))))"

definition generateParameterValues ::
  "(nat \<Rightarrow> rand_source) \<Rightarrow> Parameter list \<Rightarrow> generators \<Rightarrow> (field_error + param_map) option" where
  "generateParameterValues srcs parameters gens = generate_loop srcs gens 0 parameters {} Map.empty"

section \<open>Objects\<close>

text \<open>
  A \<^verbatim>\<open>runtime.Object\<close>: an unstructured object with its \<^verbatim>\<open>Object\<close> map, a pointer to a typed
  VirtualMachine, or a pointer to a value of another type, with the flag that says whether
  the type has object metadata.
\<close>

datatype runtime_object =
    Unstructured "(gval \<times> gval) list option"
  | TypedVM gval
  | OtherObject bool gval

type_synonym Spec = "runtime_object VirtualMachineTemplateSpec"
type_synonym Template = "runtime_object VirtualMachineTemplate"

text \<open>\<^verbatim>\<open>json.Unmarshal\<close> into a \<^verbatim>\<open>map[string]interface{}\<close>: an object, or null, which leaves the nil map.\<close>

definition decode :: "string \<Rightarrow> runtime_object option" where
  "decode raw =
     (case json_Unmarshal raw of
        Some (GIface None) \<Rightarrow> Some (Unstructured None)
      | Some (GIface (Some (GMap t es))) \<Rightarrow> Some (Unstructured es)
      | _ \<Rightarrow> None)"

definition getVirtualMachineObject :: "Spec \<Rightarrow> field_error + runtime_object" where
  "getVirtualMachineObject tplSpec =
     (case ts_VirtualMachine tplSpec of
        None \<Rightarrow> Inl (field_Invalid ''spec.virtualMachine'' EmptyVirtualMachine)
      | Some ext \<Rightarrow>
          if re_Raw ext = [] then
            (case re_Object ext of
               None \<Rightarrow> Inl (field_Invalid ''spec.virtualMachine'' EmptyVirtualMachine)
             | Some obj \<Rightarrow> Inr obj)
          else
            (case decode (re_Raw ext) of
               None \<Rightarrow> Inl (field_Invalid ''spec.virtualMachine.raw'' DecodeFailed)
             | Some obj \<Rightarrow> Inr obj))"

text \<open>Fields of a struct behind pointers, by their names.\<close>

fun field_get :: "string list \<Rightarrow> gval \<Rightarrow> gval option" where
  "field_get [] v = Some v"
| "field_get (n # ns) (GPtr t (Some v)) = field_get (n # ns) v"
| "field_get (n # ns) (GStruct s fs) =
     (case map_of (map (\<lambda>(m, e, v). (m, v)) fs) n of None \<Rightarrow> None | Some v \<Rightarrow> field_get ns v)"
| "field_get (n # ns) v = None"

fun field_set :: "string list \<Rightarrow> gval \<Rightarrow> gval \<Rightarrow> gval" where
  "field_set [] x v = x"
| "field_set (n # ns) x (GPtr t (Some v)) = GPtr t (Some (field_set (n # ns) x v))"
| "field_set (n # ns) x (GStruct s fs) =
     GStruct s (map (\<lambda>(m, e, v). if m = n then (m, e, field_set ns x v) else (m, e, v)) fs)"
| "field_set (n # ns) x v = v"

text \<open>The namespace of an object: \<^verbatim>\<open>metadata.namespace\<close> of an unstructured one when it is a string.\<close>

definition unstructured_namespace :: "(gval \<times> gval) list option \<Rightarrow> string" where
  "unstructured_namespace obj =
     (case obj of
        None \<Rightarrow> []
      | Some es \<Rightarrow>
          (case map_of es (GString TString ''metadata'') of
             Some (GIface (Some (GMap t (Some ms)))) \<Rightarrow>
               if t = any_map then
                 (case map_of ms (GString TString ''namespace'') of
                    Some (GIface (Some (GString u ns))) \<Rightarrow> if u = TString then ns else []
                  | _ \<Rightarrow> [])
               else []
           | _ \<Rightarrow> []))"

definition remove_unstructured_namespace ::
  "(gval \<times> gval) list option \<Rightarrow> (gval \<times> gval) list option" where
  "remove_unstructured_namespace obj =
     (case obj of
        None \<Rightarrow> None
      | Some es \<Rightarrow>
          (case map_of es (GString TString ''metadata'') of
             Some (GIface (Some (GMap t (Some ms)))) \<Rightarrow>
               if t = any_map then
                 Some (map_set (GString TString ''metadata'')
                   (GIface (Some (GMap t (Some (map_delete (GString TString ''namespace'') ms))))) es)
               else Some es
           | _ \<Rightarrow> Some es))"

definition typed_namespace :: "gval \<Rightarrow> string" where
  "typed_namespace v =
     (case field_get [''ObjectMeta'', ''Namespace''] v of Some (GString t ns) \<Rightarrow> ns | _ \<Rightarrow> [])"

definition hardcoded_namespace :: "string \<Rightarrow> bool" where
  "hardcoded_namespace ns \<longleftrightarrow> ns \<noteq> [] \<and> \<not> MatchString stringParamExpr ns"

fun removeHardcodedNamespace :: "runtime_object \<Rightarrow> runtime_object option" where
  "removeHardcodedNamespace (Unstructured obj) =
     Some (Unstructured
       (if hardcoded_namespace (unstructured_namespace obj) then remove_unstructured_namespace obj else obj))"
| "removeHardcodedNamespace (TypedVM v) =
     Some (TypedVM
       (if hardcoded_namespace (typed_namespace v)
        then field_set [''ObjectMeta'', ''Namespace''] (GString TString []) v else v))"
| "removeHardcodedNamespace (OtherObject accessor v) =
     (if \<not> accessor then None
      else Some (OtherObject accessor
       (if hardcoded_namespace (typed_namespace v)
        then field_set [''ObjectMeta'', ''Namespace''] (GString TString []) v else v)))"

section \<open>References\<close>

text \<open>
  \<^verbatim>\<open>substituteParameters\<close>: the new text and whether it is a string; the error is the name of the
  parameter that is not defined.
\<close>

fun substitute_matches :: "(string \<times> string) list \<Rightarrow> param_map \<Rightarrow> string \<Rightarrow> string + string" where
  "substitute_matches [] params out = Inr out"
| "substitute_matches ((m0, m1) # ms) params out =
     (case params m1 of
        Some param \<Rightarrow> substitute_matches ms params (strings_Replace1 out m0 (p_Value param))
      | None \<Rightarrow> Inl m1)"

definition substituteParameters :: "string \<Rightarrow> param_map \<Rightarrow> string + string \<times> bool" where
  "substituteParameters x params =
     (case FindStringSubmatch nonStringParamExpr x of
        Some (m0, m1) \<Rightarrow>
          (case params m1 of
             Some param \<Rightarrow> Inr (strings_Replace1 x m0 (p_Value param), False)
           | None \<Rightarrow> Inl m1)
      | None \<Rightarrow>
          (case substitute_matches (FindAllStringSubmatch stringParamExpr x) params x of
             Inl n \<Rightarrow> Inl n
           | Inr out \<Rightarrow> Inr (out, True)))"

definition collectReferencedParameters :: "string \<Rightarrow> string set" where
  "collectReferencedParameters x =
     (case FindStringSubmatch nonStringParamExpr x of Some (m0, m1) \<Rightarrow> {m1} | None \<Rightarrow> {}) \<union>
     snd ` set (FindAllStringSubmatch stringParamExpr x)"

text \<open>The walk over an object: \<^verbatim>\<open>reflect.ValueOf\<close> of its pointer is not addressable.\<close>

definition unstructured_value :: "(gval \<times> gval) list option \<Rightarrow> gval" where
  "unstructured_value obj =
     GPtr (TStruct ''Unstructured'') (Some (GStruct ''Unstructured'' [(''Object'', True, GMap any_map obj)]))"

definition object_of_value :: "gval \<Rightarrow> runtime_object" where
  "object_of_value v =
     (case field_get [''Object''] v of Some (GMap t obj) \<Rightarrow> Unstructured obj | _ \<Rightarrow> Unstructured None)"

fun visit_object :: "'s transformer \<Rightarrow> runtime_object \<Rightarrow> 's \<Rightarrow> visit_error + runtime_object \<times> 's" where
  "visit_object tf (Unstructured obj) s =
     (case visitValue tf False False (unstructured_value obj) s of
        Inl e \<Rightarrow> Inl e | Inr (v, s') \<Rightarrow> Inr (object_of_value v, s'))"
| "visit_object tf (TypedVM v) s =
     (case visitValue tf False False v s of Inl e \<Rightarrow> Inl e | Inr (v', s') \<Rightarrow> Inr (TypedVM v', s'))"
| "visit_object tf (OtherObject a v) s =
     (case visitValue tf False False v s of Inl e \<Rightarrow> Inl e | Inr (v', s') \<Rightarrow> Inr (OtherObject a v', s'))"

definition substitute_tf :: "param_map \<Rightarrow> unit transformer" where
  "substitute_tf params x s =
     (case substituteParameters x params of
        Inl n \<Rightarrow> Inl (VTransform n) | Inr r \<Rightarrow> Inr (r, s))"

definition substituteAllParameters :: "runtime_object \<Rightarrow> param_map \<Rightarrow> visit_error + runtime_object" where
  "substituteAllParameters obj params =
     (case visit_object (substitute_tf params) obj () of Inl e \<Rightarrow> Inl e | Inr (obj', s) \<Rightarrow> Inr obj')"

definition collect_tf :: "string set transformer" where
  "collect_tf x s = Inr ((x, True), s \<union> collectReferencedParameters x)"

definition collectAllReferencedParameters :: "runtime_object \<Rightarrow> visit_error + string set" where
  "collectAllReferencedParameters obj =
     (case visit_object collect_tf obj {} of Inl e \<Rightarrow> Inl e | Inr (obj', params) \<Rightarrow> Inr params)"

section \<open>Matches of the reference patterns\<close>

definition param_name :: "string \<Rightarrow> bool" where
  "param_name n \<longleftrightarrow> n \<noteq> [] \<and> list_all is_word n"

definition reference :: "string \<Rightarrow> string" where
  "reference n = ''${'' @ n @ ''}''"

definition value_reference :: "string \<Rightarrow> string" where
  "value_reference n = ''${{'' @ n @ ''}}''"

lemma not_word_braces [simp]: "\<not> is_word CHR ''}''" "\<not> is_word CHR ''{''" "\<not> is_word CHR ''$''"
  by (simp_all add: char_classes)

lemma param_name_split:
  assumes "param_name n" "\<not> is_word d"
  shows "takeWhile is_word (n @ d # r) = n" "dropWhile is_word (n @ d # r) = d # r"
  using assms by (simp_all add: param_name_def takeWhile_stop dropWhile_stop)

lemma rmatch_name_close:
  "rmatch (RSeq (RGroup (Suc 0) (RPlus is_word)) (RLit CHR ''}'')) b s =
     (if takeWhile is_word s = [] then []
      else case dropWhile is_word s of [] \<Rightarrow> []
      | x # xs \<Rightarrow> if x = CHR ''}''
          then [(takeWhile is_word s @ ''}'', [(Suc 0, takeWhile is_word s)], xs)] else [])"
proof -
  have "rmatch (RLit CHR ''}'') b s =
      (case s of [] \<Rightarrow> [] | x # xs \<Rightarrow> if x = CHR ''}'' then [(''}'', [], xs)] else [])" for b s
    by (rule rmatch_lit)
  from rmatch_group_plus_seq [where p = is_word and d = "CHR ''}''" and g = "\<lambda>xs. [(''}'', [], xs)]",
      OF not_word_braces(1) this, of "Suc 0" b s] show ?thesis
    by (simp only: list.map prod.case append_Nil2 cong: list.case_cong)
qed

lemma rmatch_reference:
  assumes "param_name n"
  shows "rmatch stringParamExpr b (reference n @ r) = [(reference n, [(Suc 0, n)], r)]"
proof -
  have "n \<noteq> []" using assms by (simp add: param_name_def)
  then have "rmatch (RSeq (RGroup (Suc 0) (RPlus is_word)) (RLit CHR ''}'')) False (n @ CHR ''}'' # r) =
      [(n @ ''}'', [(Suc 0, n)], r)]"
    unfolding rmatch_name_close param_name_split [OF assms not_word_braces(1)] by simp
  then show ?thesis
    unfolding stringParamExpr_def reference_def
    by (simp add: rmatch_lit_seq del: rmatch.simps(4))
qed

lemma rmatch_reference_sound:
  assumes "(m, c, r) \<in> set (rmatch stringParamExpr b s)"
  shows "\<exists>n. param_name n \<and> m = reference n \<and> c = [(Suc 0, n)] \<and> s = reference n @ r"
proof -
  from assms obtain x xs where "m = CHR ''$'' # CHR ''{'' # (x # xs) @ [CHR ''}'']" "is_word x" "list_all is_word xs"
    "c = [(1, x # xs)]"
    unfolding stringParamExpr_def hit_simps by fastforce
  moreover from assms have "m @ r = s" by (rule rmatch_append)
  ultimately show ?thesis by (intro exI [of _ "x # xs"]) (auto simp: param_name_def reference_def)
qed

lemma rmatch_no_dollar: "c \<noteq> CHR ''$'' \<Longrightarrow> rmatch stringParamExpr b (c # cs) = []"
  by (simp add: stringParamExpr_def rmatch_lit_seq del: rmatch.simps(4))

lemma stringParamExpr_unanchored [simp]: "unanchored stringParamExpr"
  by (simp add: stringParamExpr_def)

lemma find_from_plain_text: "CHR ''$'' \<notin> set l \<Longrightarrow>
    find_from stringParamExpr False (l @ s) = map_option (\<lambda>(q, h). (l @ q, h)) (find_from stringParamExpr False s)"
proof (rule find_from_skip)
  fix a b assume "CHR ''$'' \<notin> set l" "l = a @ b" "b \<noteq> []"
  then show "rmatch stringParamExpr False (b @ s) = []"
    by (cases b) (auto simp: rmatch_no_dollar)
qed

lemma find_from_reference:
  assumes "CHR ''$'' \<notin> set l" "param_name n"
  shows "find_from stringParamExpr False (l @ reference n @ r) = Some (l, reference n, [(Suc 0, n)], r)"
proof -
  have "find_from stringParamExpr False (reference n @ r) = Some ([], reference n, [(Suc 0, n)], r)"
    using rmatch_reference [OF assms(2), of False r] by (simp add: reference_def)
  with assms(1) show ?thesis by (simp add: find_from_plain_text)
qed

lemma find_all_reference:
  assumes "CHR ''$'' \<notin> set l" "param_name n"
  shows "find_all stringParamExpr False (l @ reference n @ r) =
     (l, reference n, [(Suc 0, n)]) # find_all stringParamExpr False r"
proof -
  have "reference n \<noteq> []" by (simp add: reference_def)
  then show ?thesis
    by (subst find_all.simps) (simp add: find_from_reference [OF assms])
qed

lemma find_all_plain_text: "CHR ''$'' \<notin> set l \<Longrightarrow> find_all stringParamExpr False l = []"
  using find_from_plain_text [of l "[]"]
  by (subst find_all.simps) (simp add: stringParamExpr_def)

lemma references_sound:
  assumes "(m0, m1) \<in> set (FindAllStringSubmatch stringParamExpr s)"
  shows "param_name m1 \<and> m0 = reference m1"
proof -
  from assms obtain p c where "(p, m0, c) \<in> set (find_all stringParamExpr True s)" "m1 = capture 1 c"
    by (auto simp: FindAllStringSubmatch_def)
  then show ?thesis
    using find_all_member rmatch_reference_sound by (fastforce simp: capture_def)
qed

lemma find_from_anchored:
  "find_from (RSeq RBot r) True s = (case rmatch r True s of [] \<Rightarrow> None | h # hs \<Rightarrow> Some ([], h))"
proof -
  have at: "rmatch (RSeq RBot r) True s = rmatch r True s" for s by (simp add: case_prod_unfold)
  have no: "find_from (RSeq RBot r) False s' = None" for s' by (rule find_from_no_match) simp
  show ?thesis
    by (cases s) (simp_all only: find_from.simps at no option.map split: list.split)
qed

lemma rmatch_value_end:
  "rmatch (RSeq (RLit CHR ''}'') (RSeq (RLit CHR ''}'') REot)) b s =
     (case s of [] \<Rightarrow> [] | x # xs \<Rightarrow> if x = CHR ''}'' then (if xs = ''}'' then [(''}}'', [], [])] else []) else [])"
  by (auto simp: rmatch_lit_seq split: list.split simp del: rmatch.simps(4))

lemma rmatch_value_name:
  assumes "param_name n"
  shows "rmatch (RSeq (RGroup (Suc 0) (RPlus is_word)) (RSeq (RLit CHR ''}'') (RSeq (RLit CHR ''}'') REot))) b
      (n @ ''}}'') = [(n @ ''}}'', [(Suc 0, n)], [])]"
proof -
  have "n \<noteq> []" using assms by (simp add: param_name_def)
  then show ?thesis
    unfolding rmatch_group_plus_seq [where p = is_word and d = "CHR ''}''" and
        g = "\<lambda>xs. if xs = ''}'' then [(''}}'', [], [])] else []", OF not_word_braces(1) rmatch_value_end]
      param_name_split [OF assms not_word_braces(1)] by simp
qed

lemma nonStringParamExpr_match:
  assumes "param_name n"
  shows "FindStringSubmatch nonStringParamExpr (value_reference n) = Some (value_reference n, n)"
proof -
  have "rmatch (RSeq (RLit CHR ''$'') (RSeq (RLit CHR ''{'') (RSeq (RLit CHR ''{'')
       (RSeq (RGroup (Suc 0) (RPlus is_word)) (RSeq (RLit CHR ''}'') (RSeq (RLit CHR ''}'') REot)))))) True
      (value_reference n) = [(value_reference n, [(Suc 0, n)], [])]"
    unfolding value_reference_def using rmatch_value_name [OF assms, of False]
    by (simp add: rmatch_lit_seq del: rmatch.simps(4))
  then show ?thesis
    by (simp add: FindStringSubmatch_def nonStringParamExpr_def find_from_anchored capture_def del: rmatch.simps)
qed

lemma nonStringParamExpr_sound:
  assumes "FindStringSubmatch nonStringParamExpr s = Some r"
  shows "\<exists>n. param_name n \<and> s = value_reference n"
proof -
  from assms obtain p m c q where f: "find_from nonStringParamExpr True s = Some (p, m, c, q)"
    by (auto simp: FindStringSubmatch_def split: option.splits)
  then have p: "p = []"
    by (auto simp: nonStringParamExpr_def find_from_anchored split: list.splits simp del: rmatch.simps)
  have s: "s = m @ q" using find_from_append [OF f] p by simp
  from find_from_hit [OF f] have "(m, c, q) \<in> set (rmatch nonStringParamExpr True (m @ q))" by (simp add: p)
  then obtain x xs where x: "is_word x" "list_all is_word xs"
    and s': "m @ q = value_reference (x # xs)"
    unfolding nonStringParamExpr_def hit_simps value_reference_def by (fastforce split: if_splits)
  then show ?thesis by (intro exI [of _ "x # xs"]) (simp add: s s' param_name_def)
qed

lemma nonStringParamExpr_iff:
  "FindStringSubmatch nonStringParamExpr s = Some (m0, m1) \<longleftrightarrow>
     param_name m1 \<and> m0 = s \<and> s = value_reference m1"
  using nonStringParamExpr_match nonStringParamExpr_sound by (fastforce simp: value_reference_def)

text \<open>A reference to a value is no reference to a string.\<close>

lemma no_references_in_value_reference:
  assumes "param_name n"
  shows "FindAllStringSubmatch stringParamExpr (value_reference n) = []"
proof -
  have l: "CHR ''$'' \<notin> set (''{{'' @ n @ ''}}'')"
    using assms by (auto simp: param_name_def list_all_iff)
  have "find_from stringParamExpr False (''{{'' @ n @ ''}}'') = None"
    using find_from_plain_text [OF l, of "[]"] by (simp add: stringParamExpr_def)
  moreover have "rmatch stringParamExpr False (''${{'' @ n @ ''}}'') = []"
    by (simp add: stringParamExpr_def rmatch_lit_seq rmatch_name_close del: rmatch.simps(4))
  ultimately have "find_all stringParamExpr False (value_reference n) = []"
    by (subst find_all.simps) (simp add: value_reference_def)
  then show ?thesis
    by (simp add: FindAllStringSubmatch_def find_all_unanchored [of stringParamExpr True])
qed

section \<open>Substitution and collection agree\<close>

lemma substitute_matches_error:
  "substitute_matches ms params out = Inl n \<Longrightarrow> n \<in> snd ` set ms \<and> params n = None"
  by (induction ms params out rule: substitute_matches.induct) (auto split: option.splits)

lemma substitute_matches_defined:
  "substitute_matches ms params out = Inr r \<Longrightarrow> snd ` set ms \<subseteq> dom params"
  by (induction ms params out rule: substitute_matches.induct) (auto split: option.splits)

lemma collect_cases:
  obtains (value_ref) n where "param_name n" "x = value_reference n"
      "FindStringSubmatch nonStringParamExpr x = Some (x, n)" "collectReferencedParameters x = {n}"
  | (string_ref) "FindStringSubmatch nonStringParamExpr x = None"
      "collectReferencedParameters x = snd ` set (FindAllStringSubmatch stringParamExpr x)"
proof (cases "FindStringSubmatch nonStringParamExpr x")
  case None
  then show ?thesis by (intro string_ref) (simp_all add: collectReferencedParameters_def)
next
  case (Some r)
  obtain m0 n where r: "r = (m0, n)" by (cases r)
  with Some have n: "param_name n" "x = value_reference n" "m0 = x" by (simp_all add: nonStringParamExpr_iff)
  then show ?thesis
    using Some r no_references_in_value_reference [OF n(1)]
    by (intro value_ref [of n]) (simp_all add: collectReferencedParameters_def)
qed

lemma substitute_error:
  assumes "substituteParameters x params = Inl n"
  shows "n \<in> collectReferencedParameters x \<and> params n = None"
proof (cases rule: collect_cases [of x])
  case (value_ref k)
  with assms show ?thesis by (auto simp: substituteParameters_def split: option.splits)
next
  case string_ref
  with assms show ?thesis
    by (auto simp: substituteParameters_def split: sum.splits dest: substitute_matches_error)
qed

lemma substitute_defined:
  assumes "substituteParameters x params = Inr r"
  shows "collectReferencedParameters x \<subseteq> dom params"
proof (cases rule: collect_cases [of x])
  case (value_ref k)
  with assms show ?thesis by (auto simp: substituteParameters_def split: option.splits)
next
  case string_ref
  with assms show ?thesis
    using substitute_matches_defined
    by (auto simp: substituteParameters_def split: sum.splits)
qed

interpretation substitution: visitor "substitute_tf params"
    "\<lambda>x. case substituteParameters x params of Inl n \<Rightarrow> Inl (VTransform n) | Inr r \<Rightarrow> Inr r" "\<lambda>x s. s"
  for params
  by unfold_locales (simp add: substitute_tf_def split: sum.split)

interpretation collection: visitor collect_tf "\<lambda>x. Inr (x, True)" "\<lambda>x s. s \<union> collectReferencedParameters x"
  by unfold_locales (simp add: collect_tf_def)

lemma fold_collect: "fold (\<lambda>x s. s \<union> collectReferencedParameters x) xs s =
    s \<union> (\<Union>x \<in> set xs. collectReferencedParameters x)"
  by (induction xs arbitrary: s) auto

section \<open>Unstructured objects\<close>

abbreviation object_slot :: "(gval \<times> gval) list option \<Rightarrow> gval" where
  "object_slot obj \<equiv> GIface (Some (GMap any_map obj))"

definition object_references :: "(gval \<times> gval) list option \<Rightarrow> string set" where
  "object_references obj = (\<Union>x \<in> set (strings_of (object_slot obj)). collectReferencedParameters x)"

definition substitution_result :: "param_map \<Rightarrow> string \<Rightarrow> visit_error + string \<times> bool" where
  "substitution_result params x =
     (case substituteParameters x params of Inl n \<Rightarrow> Inl (VTransform n) | Inr r \<Rightarrow> Inr r)"

lemma visit_map_slot:
  "visitUnsettableValues tf TAny False (object_slot obj) s =
     (case visitValue tf True False (GMap any_map obj) s of
        Inl e \<Rightarrow> Inl e | Inr (v, s') \<Rightarrow> Inr (GIface (Some v), s'))"
  by (cases obj) (auto split: sum.splits)

lemma visit_map_shape:
  "visitValue tf a r (GMap t obj) s = Inr (v, s') \<Longrightarrow> \<exists>obj'. v = GMap t obj'"
  by (cases obj) (auto split: sum.splits)

lemma visit_object_unstructured:
  "visit_object tf (Unstructured obj) s =
     (case visitValue tf True False (GMap any_map obj) s of
        Inl e \<Rightarrow> Inl e
      | Inr (v, s') \<Rightarrow> Inr (object_of_value (GStruct ''Unstructured'' [(''Object'', True, v)]), s'))"
  by (auto simp: unstructured_value_def object_of_value_def split: sum.splits)

context visitor
begin

lemma visit_object_plain:
  assumes "plain (object_slot obj)"
  shows "case visit_object tf (Unstructured obj) s of
      Inl e \<Rightarrow> \<exists>p \<in> set (places (object_slot obj)). blamed f e p
    | Inr (v, s') \<Rightarrow> s' = fold acc (strings_of (object_slot obj)) s \<and>
        (\<exists>obj'. v = Unstructured obj' \<and> rendered f (object_slot obj) (object_slot obj') \<and> plain (object_slot obj'))"
proof -
  note v = visit_plain [OF assms, unfolded slot_outcome_def visit_map_slot, rule_format, of s]
  show ?thesis
  proof (cases "visitValue tf True False (GMap any_map obj) s")
    case (Inl e)
    with v show ?thesis unfolding visit_object_unstructured by (simp only: sum.case)
  next
    case (Inr r)
    obtain w s' where r: "r = (w, s')" by (cases r)
    from visit_map_shape [OF Inr [unfolded r]] obtain obj' where w: "w = GMap any_map obj'" ..
    have "assign_to TAny (GIface (Some w)) = Some (GIface (Some w))"
      by (simp add: assign_to_def assignable_def)
    moreover have "object_of_value (GStruct ''Unstructured'' [(''Object'', True, w)]) = Unstructured obj'"
      by (simp add: object_of_value_def w)
    ultimately show ?thesis
      using v unfolding visit_object_unstructured Inr r sum.case prod.case
      by (auto simp: w simp del: rendered_simps plain.simps strings_of.simps places.simps)
  qed
qed

end

text \<open>
  What keeps a string from being rendered at a place of type \<open>t\<close>: it refers to an undefined parameter, or it is one
  \<^verbatim>\<open>${{NAME}}\<close> whose value is JSON that does not fit the place.
\<close>

definition unrendered :: "param_map \<Rightarrow> visit_error \<Rightarrow> gtype \<Rightarrow> string \<Rightarrow> bool" where
  "unrendered params e t x \<longleftrightarrow>
     (\<exists>n. e = VTransform n \<and> n \<in> collectReferencedParameters x \<and> n \<notin> dom params \<and> substituteParameters x params = Inl n) \<or>
     (\<exists>y. substituteParameters x params = Inr (y, False) \<and> json_Unmarshal y = Some (GIface None) \<and> e = VNil t) \<or>
     (\<exists>y d. substituteParameters x params = Inr (y, False) \<and> json_Unmarshal y = Some (GIface (Some d)) \<and>
        \<not> assignable (typ_of d) t \<and> e = VNotAssignable (typ_of d) t)"

lemma json_Unmarshal_iface: "json_Unmarshal y = Some v \<Longrightarrow> \<exists>w. v = GIface w \<and> interface_of v = w"
proof -
  assume "json_Unmarshal y = Some v"
  then obtain j where "v = any_of_json j" by (auto simp: json_Unmarshal_def)
  then show ?thesis using any_of_json_iface [of j] by auto
qed

lemma blamed_substitution: "blamed (substitution_result params) e (t, x) \<longleftrightarrow> unrendered params e t x"
proof (cases "substituteParameters x params")
  case (Inl n)
  then show ?thesis using substitute_error [OF Inl] by (auto simp: blamed_def unrendered_def substitution_result_def)
next
  case (Inr r)
  obtain y b where r: "r = (y, b)" by (cases r)
  show ?thesis
  proof (cases "b \<or> json_Unmarshal y = None")
    case True
    then show ?thesis using Inr r by (auto simp: blamed_def unrendered_def substitution_result_def replacement_def)
  next
    case False
    then obtain w where "json_Unmarshal y = Some (GIface w)" "interface_of (GIface w) = w" "\<not> b"
      using json_Unmarshal_iface by blast
    then show ?thesis using Inr r
      by (cases w) (auto simp: blamed_def unrendered_def substitution_result_def replacement_def split: if_splits)
  qed
qed

lemma rendered_not_blamed: "rendered f v v' \<Longrightarrow> plain v \<Longrightarrow> p \<in> set (places v) \<Longrightarrow> \<not> blamed f e p"
proof (induction arbitrary: p rule: rendered.induct)
  case (slice vs vs' t)
  then obtain v where v: "v \<in> set vs" "p \<in> set (places v)" by auto
  from list_all2_set1 [OF slice.IH v(1)] slice.prems(1) v show ?case by (cases p) auto
next
  case (map es' es t)
  from map.prems(2) obtain k v where kv: "(k, v) \<in> set es" "p = (TString, key_text k) \<or> p \<in> set (places v)" by auto
  from bspec [OF map.IH(1) kv(1)] obtain k' where "key_image f k k'" by blast
  then have "\<not> blamed f e (TString, key_text k)" by (auto simp: key_image_def blamed_def split: sum.splits)
  moreover have "\<not> blamed f e p" if "p \<in> set (places v)"
  proof -
    have "plain v" using map.prems(1) kv(1) by auto
    with bspec [OF map.IH(1) kv(1)] that show ?thesis by blast
  qed
  ultimately show ?case using kv(2) by blast
qed (auto simp: blamed_def)

lemma rendered_defined:
  "rendered (substitution_result params) v v' \<Longrightarrow> plain v \<Longrightarrow>
   (\<Union>x \<in> set (strings_of v). collectReferencedParameters x) \<subseteq> dom params"
proof (induction rule: rendered.induct)
  case (str x y b w t)
  then show ?case
    using substitute_defined [of x params] by (auto simp: substitution_result_def split: sum.splits)
next
  case (slice vs vs' t)
  show ?case
  proof -
    have "(\<Union>x \<in> set (strings_of v). collectReferencedParameters x) \<subseteq> dom params" if "v \<in> set vs" for v
      using list_all2_set1 [OF slice.IH that] slice.prems that by auto
    then show ?thesis by auto
  qed
next
  case (map es' es t)
  show ?case
  proof -
    have "collectReferencedParameters (key_text k) \<subseteq> dom params \<and>
        (\<Union>x \<in> set (strings_of v). collectReferencedParameters x) \<subseteq> dom params" if "(k, v) \<in> set es" for k v
    proof -
      from that map obtain k' where k': "key_image (substitution_result params) k k'"
        and v: "(\<Union>x \<in> set (strings_of v). collectReferencedParameters x) \<subseteq> dom params"
        by fastforce
      from k' have "collectReferencedParameters (key_text k) \<subseteq> dom params"
        using substitute_defined [of "key_text k" params]
        by (auto simp: key_image_def substitution_result_def split: sum.splits)
      with v show ?thesis by blast
    qed
    note entries = this
    show ?thesis
    proof (rule UN_least)
      fix x assume "x \<in> set (strings_of (GIface (Some (GMap t (Some es)))))"
      then obtain k v where kv: "(k, v) \<in> set es" and x: "x = key_text k \<or> x \<in> set (strings_of v)" by auto
      from entries [OF kv] x show "collectReferencedParameters x \<subseteq> dom params" by auto
    qed
  qed
qed auto

section \<open>Text made of literals and references\<close>

datatype segment = Lit string | Ref string

fun wf_segment :: "segment \<Rightarrow> bool" where
  "wf_segment (Lit l) = (CHR ''$'' \<notin> set l)"
| "wf_segment (Ref n) = param_name n"

fun segment_text :: "segment \<Rightarrow> string" where
  "segment_text (Lit l) = l"
| "segment_text (Ref n) = reference n"

fun segment_value :: "param_map \<Rightarrow> segment \<Rightarrow> string" where
  "segment_value params (Lit l) = l"
| "segment_value params (Ref n) = (case params n of Some p \<Rightarrow> p_Value p | None \<Rightarrow> reference n)"

fun segment_names :: "segment list \<Rightarrow> string list" where
  "segment_names [] = []"
| "segment_names (Lit l # segs) = segment_names segs"
| "segment_names (Ref n # segs) = n # segment_names segs"

abbreviation segments_text :: "segment list \<Rightarrow> string" where
  "segments_text segs \<equiv> concat (map segment_text segs)"

lemma references_of_segments:
  "\<forall>g \<in> set segs. wf_segment g \<Longrightarrow> CHR ''$'' \<notin> set l \<Longrightarrow>
   map (\<lambda>(p, m, c). (m, capture 1 c)) (find_all stringParamExpr False (l @ segments_text segs)) =
     map (\<lambda>n. (reference n, n)) (segment_names segs)"
proof (induction segs arbitrary: l)
  case Nil
  then show ?case by (simp add: find_all_plain_text)
next
  case (Cons g segs)
  show ?case
  proof (cases g)
    case (Lit k)
    with Cons.prems Cons.IH [of "l @ k"] show ?thesis by simp
  next
    case (Ref n)
    with Cons.prems Cons.IH [of "[]"] show ?thesis
      by (simp add: find_all_reference capture_def)
  qed
qed

lemma FindAll_segments:
  assumes "\<forall>g \<in> set segs. wf_segment g"
  shows "FindAllStringSubmatch stringParamExpr (segments_text segs) = map (\<lambda>n. (reference n, n)) (segment_names segs)"
  using references_of_segments [OF assms, of "[]"]
  by (simp add: FindAllStringSubmatch_def find_all_unanchored [of stringParamExpr True])

lemma segments_text_no_value_reference:
  assumes "\<forall>g \<in> set segs. wf_segment g"
  shows "FindStringSubmatch nonStringParamExpr (segments_text segs) = None"
proof (cases "FindStringSubmatch nonStringParamExpr (segments_text segs)")
  case (Some r)
  then obtain n where n: "param_name n" and t: "segments_text segs = value_reference n"
    using nonStringParamExpr_sound by blast
  have "segment_names segs = []"
    using FindAll_segments [OF assms] no_references_in_value_reference [OF n] t by simp
  then have "CHR ''$'' \<notin> set (segments_text segs)" using assms
    by (induction segs rule: segment_names.induct) auto
  with t show ?thesis by (simp add: value_reference_def)
qed

lemma substitute_matches_segments:
  "\<forall>g \<in> set segs. wf_segment g \<Longrightarrow> CHR ''$'' \<notin> set l \<Longrightarrow> set (segment_names segs) \<subseteq> dom params \<Longrightarrow>
   \<forall>n \<in> set (segment_names segs). CHR ''$'' \<notin> set (segment_value params (Ref n)) \<Longrightarrow>
   substitute_matches (map (\<lambda>n. (reference n, n)) (segment_names segs)) params (l @ segments_text segs) =
     Inr (l @ concat (map (segment_value params) segs))"
proof (induction segs arbitrary: l)
  case (Cons g segs)
  show ?case
  proof (cases g)
    case (Lit k)
    with Cons.prems Cons.IH [of "l @ k"] show ?thesis by simp
  next
    case (Ref n)
    with Cons.prems obtain p where p: "params n = Some p" "CHR ''$'' \<notin> set (p_Value p)" by auto
    have "strings_Replace1 (l @ reference n @ segments_text segs) (reference n) (p_Value p) =
        (l @ p_Value p) @ segments_text segs"
      using strings_Replace1_at [of "CHR ''$''" l "''{'' @ n @ ''}''"] Cons.prems(2) by (simp add: reference_def)
    with Ref p Cons.prems Cons.IH [of "l @ p_Value p"] show ?thesis by simp
  qed
qed simp

text \<open>A parameter with a fixed value.\<close>

definition example_parameter :: "string \<Rightarrow> string \<Rightarrow> Parameter" where
  "example_parameter n v = \<lparr>p_Name = n, p_DisplayName = [], p_Description = [], p_Value = v,
     p_Generate = [], p_From = [], p_Required = False\<rparr>"

section \<open>Properties\<close>

text \<open>
  C16.  On a text in which every dollar sign starts a reference, substitution is what the
  documentation says: every reference to a parameter is replaced by the value of the
  parameter, all at once, as long as the values hold no dollar sign themselves; the result
  is a string.  The code replaces the references one after the other, each time the first
  occurrence in the text so far.
\<close>

theorem substitute_simultaneous:
  assumes segs: "\<forall>g \<in> set segs. wf_segment g"
    and dfd: "set (segment_names segs) \<subseteq> dom params"
    and vals: "\<forall>n \<in> set (segment_names segs). CHR ''$'' \<notin> set (segment_value params (Ref n))"
  shows "substituteParameters (segments_text segs) params =
     Inr (concat (map (segment_value params) segs), True)"
  using substitute_matches_segments [OF segs _ dfd vals, of "[]"]
  by (simp add: substituteParameters_def segments_text_no_value_reference [OF segs] FindAll_segments [OF segs])

theorem substitute_simultaneous_witness:
  "substituteParameters ''disk-${A}-${B}'' [''A'' \<mapsto> example_parameter ''A'' ''x'', ''B'' \<mapsto> example_parameter ''B'' ''y''] =
     Inr (''disk-x-y'', True)"
  using substitute_simultaneous [of "[Lit ''disk-'', Ref ''A'', Lit ''-'', Ref ''B'']"
      "[''A'' \<mapsto> example_parameter ''A'' ''x'', ''B'' \<mapsto> example_parameter ''B'' ''y'']"]
  by (simp add: reference_def param_name_def char_classes example_parameter_def)

text \<open>
  Substitution fails exactly when the text refers to a parameter that is not defined,
  and the references are the ones that the collector reports; the error names one of them.
\<close>

theorem substitute_fails_iff_undefined:
  "(\<exists>n. substituteParameters x params = Inl n \<and> n \<in> collectReferencedParameters x \<and> n \<notin> dom params)
     \<longleftrightarrow> \<not> collectReferencedParameters x \<subseteq> dom params"
proof (cases "substituteParameters x params")
  case (Inl n)
  with substitute_error [OF Inl] show ?thesis by auto
next
  case (Inr r)
  with substitute_defined [OF Inr] show ?thesis by simp
qed

text \<open>
  The replacement is not simultaneous in general, contrary to what the comments say of
  it: a value that holds a reference takes the place of a later reference to the same
  parameter, which then stays in the output, and a reference inside braces is treated
  alike.
\<close>

theorem substitute_sequential:
  "substituteParameters ''${A}${B}'' [''A'' \<mapsto> example_parameter ''A'' ''${B}'', ''B'' \<mapsto> example_parameter ''B'' ''x''] =
     Inr (''x${B}'', True)"
proof -
  have ref: "''${A}${B}'' = segments_text [Ref ''A'', Ref ''B'']" by (simp add: reference_def)
  have wf: "\<forall>g \<in> set [Ref ''A'', Ref ''B'']. wf_segment g" by (simp add: param_name_def char_classes)
  show ?thesis
    unfolding substituteParameters_def ref segments_text_no_value_reference [OF wf] FindAll_segments [OF wf]
    by (simp add: reference_def example_parameter_def)
qed

lemma substitute_places:
  assumes "plain (object_slot obj)"
  shows "case substituteAllParameters (Unstructured obj) params of
      Inl e \<Rightarrow> \<exists>(t, x) \<in> set (places (object_slot obj)). unrendered params e t x
    | Inr v \<Rightarrow> (\<forall>(t, x) \<in> set (places (object_slot obj)). \<forall>e. \<not> unrendered params e t x) \<and>
        (\<exists>obj'. v = Unstructured obj' \<and> plain (object_slot obj') \<and>
           rendered (substitution_result params) (object_slot obj) (object_slot obj'))"
proof -
  have v: "case visit_object (substitute_tf params) (Unstructured obj) () of
      Inl e \<Rightarrow> \<exists>p \<in> set (places (object_slot obj)). blamed (substitution_result params) e p
    | Inr (v, s') \<Rightarrow> s' = fold (\<lambda>x s. s) (strings_of (object_slot obj)) () \<and>
        (\<exists>obj'. v = Unstructured obj' \<and> rendered (substitution_result params) (object_slot obj) (object_slot obj') \<and>
          plain (object_slot obj'))"
    using substitution.visit_object_plain [OF assms, of params "()"]
    unfolding substitution_result_def [abs_def] .
  have not: "\<forall>(t, x) \<in> set (places (object_slot obj)). \<forall>e. \<not> unrendered params e t x"
    if "rendered (substitution_result params) (object_slot obj) v'" for v'
    using rendered_not_blamed [OF that assms] by (fastforce simp flip: blamed_substitution)
  show ?thesis
  proof (cases "visit_object (substitute_tf params) (Unstructured obj) ()")
    case (Inl e)
    from v [unfolded Inl sum.case] show ?thesis
      unfolding substituteAllParameters_def Inl sum.case by (metis (no_types, lifting) blamed_substitution case_prodI surj_pair)
  next
    case (Inr r)
    obtain w s where r: "r = (w, s)" by (cases r)
    from v [unfolded Inr r sum.case prod.case] not show ?thesis
      unfolding substituteAllParameters_def Inr r sum.case prod.case by blast
  qed
qed

lemma substitute_plain:
  assumes "plain (object_slot obj)"
  shows "case substituteAllParameters (Unstructured obj) params of
      Inl e \<Rightarrow> (\<exists>n. e = VTransform n \<and> n \<in> object_references obj \<and> n \<notin> dom params) \<or>
        (\<exists>t. e = VNil t) \<or> (\<exists>t u. e = VNotAssignable t u)
    | Inr v \<Rightarrow> object_references obj \<subseteq> dom params \<and>
        (\<exists>obj'. v = Unstructured obj' \<and> plain (object_slot obj') \<and>
           rendered (substitution_result params) (object_slot obj) (object_slot obj'))"
proof (cases "substituteAllParameters (Unstructured obj) params")
  case (Inl e)
  with substitute_places [OF assms, of params] obtain t x where tx: "(t, x) \<in> set (places (object_slot obj))" "unrendered params e t x"
    by auto
  then have "x \<in> set (strings_of (object_slot obj))" using places_strings by force
  then have "collectReferencedParameters x \<subseteq> object_references obj" unfolding object_references_def by (rule UN_upper)
  with tx(2) show ?thesis unfolding Inl sum.case unrendered_def by blast
next
  case (Inr v)
  with substitute_places [OF assms, of params] obtain obj' where o': "v = Unstructured obj'" "plain (object_slot obj')"
    "rendered (substitution_result params) (object_slot obj) (object_slot obj')" by auto
  with rendered_defined [OF o'(3) assms] show ?thesis unfolding Inr sum.case object_references_def by blast
qed

text \<open>
  C15.  Substitution over an unstructured object, such as the decoded JSON of a template.  It never panics.  It fails exactly
  when a value or key of the object cannot be rendered, and the error is that of such a string: the string refers to an
  undefined parameter, which the error names, or it is one \<^verbatim>\<open>${{NAME}}\<close> whose value is JSON that does not fit the place of the
  string (null anywhere, anything but a string as a key).  Otherwise the object is again unstructured, and every value and
  key of it is the one that substitution makes of the value or key at its place; all references of the object are defined.
\<close>

theorem substitute_unstructured:
  assumes "plain (object_slot obj)"
  shows "case substituteAllParameters (Unstructured obj) params of
      Inl e \<Rightarrow> \<exists>(t, x) \<in> set (places (object_slot obj)). unrendered params e t x
    | Inr v \<Rightarrow> (\<forall>(t, x) \<in> set (places (object_slot obj)). \<forall>e. \<not> unrendered params e t x) \<and>
        object_references obj \<subseteq> dom params \<and>
        (\<exists>obj'. v = Unstructured obj' \<and> plain (object_slot obj') \<and>
           rendered (substitution_result params) (object_slot obj) (object_slot obj'))"
  using substitute_places [OF assms, of params] substitute_plain [OF assms, of params]
  by (auto split: sum.splits)

lemma decode_plain: "decode raw = Some (Unstructured obj) \<Longrightarrow> plain (object_slot obj)"
  by (auto simp: decode_def split: option.splits gval.splits dest!: json_Unmarshal_plain)
     (metis plain.simps(6,7) option.exhaust)

lemma decode_unstructured: "decode raw = Some v \<Longrightarrow> \<exists>obj. v = Unstructured obj"
  by (auto simp: decode_def split: option.splits gval.splits)

definition example_object :: "(gval \<times> gval) list option" where
  "example_object = Some [(GString TString ''metadata'', GIface (Some (GMap any_map (Some
     [(GString TString ''name'', GIface (Some (GString TString ''vm-${NAME}''))),
      (GString TString ''namespace'', GIface (Some (GString TString ''prod'')))]))))]"

lemma plain_example_object: "plain (object_slot example_object)"
  by (simp add: example_object_def string_key_def)

theorem substitute_unstructured_witness:
  "substituteAllParameters (Unstructured example_object) Map.empty = Inl (VTransform ''NAME'')"
proof -
  have refs: "map collectReferencedParameters [''metadata'', ''name'', ''vm-${NAME}'', ''namespace'', ''prod''] = [{}, {}, {''NAME''}, {}, {}]"
    by code_simp
  then have "collectReferencedParameters x \<subseteq> {''NAME''}" if "(t, x) \<in> set (places (object_slot example_object))" for t x
    using that by (auto simp: example_object_def key_text_def)
  moreover have "\<exists>n. substituteParameters x Map.empty = Inl n \<or> (\<exists>y. substituteParameters x Map.empty = Inr (y, True))"
    if "(t, x) \<in> set (places (object_slot example_object))" for t x
  proof -
    have "map (\<lambda>x. case substituteParameters x Map.empty of Inl n \<Rightarrow> True | Inr (y, b) \<Rightarrow> b)
        [''metadata'', ''name'', ''vm-${NAME}'', ''namespace'', ''prod''] = [True, True, True, True, True]" by code_simp
    then have "case substituteParameters x Map.empty of Inl n \<Rightarrow> True | Inr (y, b) \<Rightarrow> b"
      using that by (auto simp: example_object_def key_text_def)
    then show ?thesis by (auto split: sum.splits)
  qed
  ultimately have e: "e = VTransform ''NAME''"
    if "(t, x) \<in> set (places (object_slot example_object))" "unrendered Map.empty e t x" for e t x
    using that by (fastforce simp: unrendered_def)
  have "\<not> object_references example_object \<subseteq> dom (Map.empty :: param_map)"
    using refs by (simp add: object_references_def example_object_def key_text_def)
  then show ?thesis
    using substitute_unstructured [OF plain_example_object, of Map.empty] e by (fastforce split: sum.splits)
qed

lemma collect_plain:
  assumes "plain (object_slot obj)"
  shows "collectAllReferencedParameters (Unstructured obj) = Inr (object_references obj)"
proof -
  note v = collection.visit_object_plain [OF assms, of "{}"]
  show ?thesis
  proof (cases "visit_object collect_tf (Unstructured obj) {}")
    case (Inl e)
    from v [unfolded Inl sum.case] have False by (simp add: blamed_def replacement_def)
    then show ?thesis ..
  next
    case (Inr r)
    obtain w s where r: "r = (w, s)" by (cases r)
    from v [unfolded Inr r sum.case prod.case] have "s = object_references obj"
      by (simp add: fold_collect object_references_def)
    then show ?thesis unfolding collectAllReferencedParameters_def Inr r by simp
  qed
qed

text \<open>
  Collecting the references of an unstructured object always succeeds and returns the
  references of all its strings, the keys of its maps included.
\<close>

theorem collect_unstructured:
  assumes "plain (object_slot obj)"
  shows "collectAllReferencedParameters (Unstructured obj) = Inr (object_references obj)"
  using assms by (rule collect_plain)

theorem collect_unstructured_witness:
  "collectAllReferencedParameters (Unstructured example_object) = Inr (object_references example_object)"
  by (rule collect_unstructured [OF plain_example_object])

section \<open>Namespaces\<close>

lemma unstructured_namespace_nonempty:
  assumes "unstructured_namespace obj \<noteq> []"
  obtains es ms where "obj = Some es"
    "map_of es (GString TString ''metadata'') = Some (GIface (Some (GMap any_map (Some ms))))"
    "map_of ms (GString TString ''namespace'') = Some (GIface (Some (GString TString (unstructured_namespace obj))))"
  using assms that
  by (cases obj) (auto simp: unstructured_namespace_def split: option.splits gval.splits if_splits)

text \<open>
  A namespace that holds no parameter reference is removed from an unstructured object,
  and nothing else of the object changes; an object without a namespace, or with a
  parametrized one, is left as it is.
\<close>

theorem hardcoded_namespace_removed:
  "\<exists>obj'. removeHardcodedNamespace (Unstructured obj) = Some (Unstructured obj') \<and>
     (if unstructured_namespace obj = [] \<or> MatchString stringParamExpr (unstructured_namespace obj) then obj' = obj
      else unstructured_namespace obj' = [] \<and>
        (\<exists>es ms es' ms'. obj = Some es \<and> obj' = Some es' \<and>
           map_of es (GString TString ''metadata'') = Some (GIface (Some (GMap any_map (Some ms)))) \<and>
           map_of es' = (map_of es)(GString TString ''metadata'' \<mapsto> GIface (Some (GMap any_map (Some ms')))) \<and>
           map_of ms' = (map_of ms)(GString TString ''namespace'' := None)))"
proof (cases "hardcoded_namespace (unstructured_namespace obj)")
  case False
  then show ?thesis by (auto simp: hardcoded_namespace_def)
next
  case True
  then have ne: "unstructured_namespace obj \<noteq> []" by (simp add: hardcoded_namespace_def)
  obtain es ms where es: "obj = Some es"
    "map_of es (GString TString ''metadata'') = Some (GIface (Some (GMap any_map (Some ms))))"
    using ne by (rule unstructured_namespace_nonempty)
  let ?ms = "map_delete (GString TString ''namespace'') ms"
  let ?es = "map_set (GString TString ''metadata'') (GIface (Some (GMap any_map (Some ?ms)))) es"
  have "removeHardcodedNamespace (Unstructured obj) = Some (Unstructured (Some ?es))"
    using True es by (simp add: remove_unstructured_namespace_def)
  moreover have "unstructured_namespace (Some ?es) = []"
    by (simp add: unstructured_namespace_def map_of_map_set map_of_map_delete)
  ultimately show ?thesis
    using True es by (auto simp: hardcoded_namespace_def map_of_map_set map_of_map_delete)
qed

section \<open>Values of the parameters\<close>

lemma generate_value_of_fields:
  assumes "generate_value_of src gens path param = Some (Inr q)"
  shows "q = param\<lparr>p_Value := p_Value q\<rparr>" and "p_Name q = p_Name param" and "p_Required q = p_Required param"
    and "p_Value param \<noteq> [] \<or> p_Generate param = [] \<Longrightarrow> q = param"
  using assms by (auto simp: generate_value_of_def split: if_splits option.splits sum.splits)

lemma generate_loop_Cons:
  assumes "generate_loop srcs gens i (param # ps) visited params = Some (Inr res)"
  obtains q where "p_Name param \<noteq> []" "p_Name param \<notin> visited"
    "generate_value_of (srcs i) gens (parameter_path i) param = Some (Inr q)"
    "\<not> (p_Value q = [] \<and> p_Required q)"
    "generate_loop srcs gens (Suc i) ps (insert (p_Name param) visited) (params(p_Name param \<mapsto> q)) = Some (Inr res)"
proof -
  from assms obtain q where q: "p_Name param \<noteq> []" "p_Name param \<notin> visited"
    "generate_value_of (srcs i) gens (parameter_path i) param = Some (Inr q)"
    "\<not> (p_Value q = [] \<and> p_Required q)"
    "generate_loop srcs gens (Suc i) ps (insert (p_Name param) visited) (params(p_Name q \<mapsto> q)) = Some (Inr res)"
    by (auto simp: Let_def split: if_splits option.splits sum.splits)
  with generate_value_of_fields(2) [OF q(3)] show ?thesis by (intro that) simp_all
qed

lemma generate_loop_result:
  assumes "generate_loop srcs gens i ps visited params = Some (Inr res)"
  shows "distinct (map p_Name ps)" and "[] \<notin> set (map p_Name ps)"
    and "visited \<inter> set (map p_Name ps) = {}"
    and "\<forall>n. n \<notin> set (map p_Name ps) \<longrightarrow> res n = params n"
    and "\<forall>j < length ps. \<exists>q. res (p_Name (ps ! j)) = Some q \<and>
      generate_value_of (srcs (i + j)) gens (parameter_path (i + j)) (ps ! j) = Some (Inr q) \<and>
      \<not> (p_Value q = [] \<and> p_Required q)"
  using assms
proof (induction ps arbitrary: i visited params)
  case (Cons param ps)
  {
    case 1
    from 1 show ?case by (rule generate_loop_Cons) (use Cons.IH(1,3) in fastforce)
  next
    case 2
    from 2 show ?case by (rule generate_loop_Cons) (use Cons.IH(2) in fastforce)
  next
    case 3
    from 3 show ?case by (rule generate_loop_Cons) (use Cons.IH(3) in fastforce)
  next
    case 4
    from 4 show ?case by (rule generate_loop_Cons) (use Cons.IH(4) in fastforce)
  next
    case 5
    from 5 obtain q where q: "generate_value_of (srcs i) gens (parameter_path i) param = Some (Inr q)"
      "\<not> (p_Value q = [] \<and> p_Required q)"
      and rest: "generate_loop srcs gens (Suc i) ps (insert (p_Name param) visited) (params(p_Name param \<mapsto> q)) = Some (Inr res)"
      by (rule generate_loop_Cons)
    have first: "res (p_Name param) = Some q" using Cons.IH(3,4) [OF rest] by auto
    show ?case
    proof (intro allI impI)
      fix j assume j: "j < length (param # ps)"
      show "\<exists>q. res (p_Name ((param # ps) ! j)) = Some q \<and>
        generate_value_of (srcs (i + j)) gens (parameter_path (i + j)) ((param # ps) ! j) = Some (Inr q) \<and>
        \<not> (p_Value q = [] \<and> p_Required q)"
        using first q j Cons.IH(5) [OF rest] by (cases j) auto
    qed
  }
qed simp_all

text \<open>Conversely, the loop returns when every parameter gets a value.\<close>

lemma generate_loop_succeeds:
  assumes "distinct (map p_Name ps)" "[] \<notin> set (map p_Name ps)" "visited \<inter> set (map p_Name ps) = {}"
    and "\<forall>n. n \<notin> set (map p_Name ps) \<longrightarrow> res n = params n"
    and "\<forall>j < length ps. \<exists>q. res (p_Name (ps ! j)) = Some q \<and>
      generate_value_of (srcs (i + j)) gens (parameter_path (i + j)) (ps ! j) = Some (Inr q) \<and>
      \<not> (p_Value q = [] \<and> p_Required q)"
  shows "generate_loop srcs gens i ps visited params = Some (Inr res)"
  using assms
proof (induction ps arbitrary: i visited params)
  case Nil
  then show ?case by (auto simp: fun_eq_iff)
next
  case (Cons param ps)
  from Cons.prems(5) [rule_format, of 0] obtain q where q: "res (p_Name param) = Some q"
    "generate_value_of (srcs i) gens (parameter_path i) param = Some (Inr q)" "\<not> (p_Value q = [] \<and> p_Required q)" by auto
  have name: "p_Name q = p_Name param" using q(2) by (rule generate_value_of_fields)
  have "generate_loop srcs gens (Suc i) ps (insert (p_Name param) visited) (params(p_Name param \<mapsto> q)) = Some (Inr res)"
  proof (rule Cons.IH)
    show "\<forall>j < length ps. \<exists>q. res (p_Name (ps ! j)) = Some q \<and>
        generate_value_of (srcs (Suc i + j)) gens (parameter_path (Suc i + j)) (ps ! j) = Some (Inr q) \<and>
        \<not> (p_Value q = [] \<and> p_Required q)"
      using Cons.prems(5) by (metis Suc_less_eq add_Suc add_Suc_right length_Cons nth_Cons_Suc)
    show "\<forall>n. n \<notin> set (map p_Name ps) \<longrightarrow> res n = (params(p_Name param \<mapsto> q)) n" using Cons.prems(4) q(1) by auto
  qed (use Cons.prems(1-3) in auto)
  then show ?case using q name Cons.prems(2,3) by (auto simp: Let_def)
qed

text \<open>A parameter and the value that it gets from generation.\<close>

definition gets_value :: "rand_source \<Rightarrow> generators \<Rightarrow> Parameter \<Rightarrow> string \<Rightarrow> bool" where
  "gets_value src gens param v \<longleftrightarrow>
     (if p_Value param \<noteq> [] \<or> p_Generate param = [] then v = p_Value param
      else \<exists>g. gens (p_Generate param) = Some g \<and> p_From param \<noteq> [] \<and> g src (p_From param) = Some (Inr v)) \<and>
     (p_Required param \<longrightarrow> v \<noteq> [])"

lemma generate_value_of_gets:
  "(generate_value_of src gens path param = Some (Inr q) \<and> \<not> (p_Value q = [] \<and> p_Required q)) \<longleftrightarrow>
   (\<exists>v. q = param\<lparr>p_Value := v\<rparr> \<and> gets_value src gens param v)"
  by (auto simp: generate_value_of_def gets_value_def split: if_splits option.splits sum.splits)

lemma generated_names:
  assumes "generateParameterValues srcs ps gens = Some (Inr params)"
  shows "dom params = set (map p_Name ps)"
proof -
  note r = generate_loop_result [OF assms [unfolded generateParameterValues_def]]
  show ?thesis
  proof
    show "dom params \<subseteq> set (map p_Name ps)" using r(4) by fastforce
    show "set (map p_Name ps) \<subseteq> dom params" using r(5) by (fastforce simp: in_set_conv_nth)
  qed
qed

lemma generate_loop_error:
  "generate_loop srcs gens i ps visited params = Some (Inl e) \<Longrightarrow>
   (\<forall>x. fe_cause e \<noteq> SubstituteFailed x) \<and> (\<forall>n. fe_cause e \<noteq> MessageFailed n)"
  by (induction srcs gens i ps visited params rule: generate_loop.induct)
     (auto simp: Let_def generate_value_of_def field_Invalid_def split: if_splits option.splits sum.splits)

lemma generate_error_cause:
  "generateParameterValues srcs ps gens = Some (Inl e) \<Longrightarrow>
   (\<forall>x. fe_cause e \<noteq> SubstituteFailed x) \<and> (\<forall>n. fe_cause e \<noteq> MessageFailed n)"
  unfolding generateParameterValues_def by (rule generate_loop_error)



end
