(* ===== verification/Processor.thy ===== *)
theory Processor
  imports Template_Engine "HOL-Library.List_Lexorder" "HOL-Library.Char_ord"
begin

text \<open>
  Processing a template (\<^verbatim>\<open>processor.go\<close>), and merging and validating its parameters
  (\<^verbatim>\<open>parameters.go\<close>).

  A call either returns a value, or panics, or does not return at all.  The order in which
  Go ranges over a map is the parameter \<open>iter\<close>, which lists the keys of a map in some order.
  The converter of \<^verbatim>\<open>apimachinery\<close> from an unstructured object to a typed VirtualMachine is
  the parameter \<open>conv\<close>.
\<close>

datatype 'a run = Returns 'a | Panics | Diverges

section \<open>Merging\<close>

text \<open>The inner loop of \<^verbatim>\<open>MergeParameters\<close>: the first parameter with the name gets the value.\<close>

fun set_first_value :: "string \<Rightarrow> string \<Rightarrow> Parameter list \<Rightarrow> Parameter list option" where
  "set_first_value k v [] = None"
| "set_first_value k v (p # ps) =
     (if p_Name p = k then Some (p\<lparr>p_Value := v\<rparr> # ps)
      else map_option ((#) p) (set_first_value k v ps))"

text \<open>The outer loop; the values are listed in the order of the iteration over the map.\<close>

fun MergeParameters :: "Parameter list \<Rightarrow> (string \<times> string) list \<Rightarrow> string + Parameter list" where
  "MergeParameters ps [] = Inr ps"
| "MergeParameters ps ((k, v) # kvs) =
     (case set_first_value k v ps of
        None \<Rightarrow> Inl k
      | Some ps' \<Rightarrow> MergeParameters ps' kvs)"

section \<open>Validation of the references\<close>

definition defined_params :: "Parameter list \<Rightarrow> (string \<rightharpoonup> nat)" where
  "defined_params ps = map_of (rev (zip (map p_Name ps) [0..<length ps]))"

definition unused_warning :: "nat \<Rightarrow> string \<Rightarrow> string" where
  "unused_warning i n = parameter_path i @ ''.name: '' @ n @ '' is defined but never referenced''"

definition ValidateParameterReferences ::
  "(string set \<Rightarrow> string list) \<Rightarrow> Template \<Rightarrow> (string list \<times> field_error list) run" where
  "ValidateParameterReferences iter tpl =
     (case getVirtualMachineObject (t_Spec tpl) of
        Inl e \<Rightarrow> Returns ([], [e])
      | Inr obj \<Rightarrow>
          (case collectAllReferencedParameters obj of
             Inl VPanic \<Rightarrow> Panics
           | Inl e \<Rightarrow> Returns ([], [field_Invalid ''spec.virtualMachine'' (CollectFailed e)])
           | Inr refs \<Rightarrow>
               (let referencedParams = refs \<union> collectReferencedParameters (ts_Message (t_Spec tpl));
                    definedParams = defined_params (ts_Parameters (t_Spec tpl));
                    warnings = map (\<lambda>n. unused_warning (the (definedParams n)) n)
                      (filter (\<lambda>n. n \<notin> referencedParams) (iter (dom definedParams)));
                    errs = map (\<lambda>n. field_Invalid ''spec.virtualMachine'' (UndefinedReference n))
                      (filter (\<lambda>n. definedParams n = None) (iter referencedParams))
                in Returns (warnings, errs))))"

section \<open>Processing\<close>

record processor =
  generators_of :: generators

text \<open>The default processor is created once; the state is the variable that holds it.\<close>

definition GetDefaultProcessor :: "processor option \<Rightarrow> processor \<times> processor option" where
  "GetDefaultProcessor defaultProcessor =
     (case defaultProcessor of
        Some p \<Rightarrow> (p, Some p)
      | None \<Rightarrow>
          (let p = \<lparr>generators_of = [''expression'' \<mapsto> (\<lambda>src s. GenerateValue src 0 s)]\<rparr>
           in (p, Some p)))"

definition VirtualMachineGVK :: "string \<times> string \<times> string" where
  "VirtualMachineGVK = (''kubevirt.io'', ''v1'', ''VirtualMachine'')"

definition SetGroupVersionKind :: "string \<times> string \<times> string \<Rightarrow> gval \<Rightarrow> gval" where
  "SetGroupVersionKind gvk vm =
     (case gvk of (g, v, k) \<Rightarrow>
        field_set [''TypeMeta'', ''Kind''] (GString TString k)
          (field_set [''TypeMeta'', ''APIVersion''] (GString TString (g @ ''/'' @ v)) vm))"

type_synonym converter = "(gval \<times> gval) list option \<Rightarrow> string + gval"

fun to_virtual_machine :: "converter \<Rightarrow> runtime_object \<Rightarrow> field_error + gval" where
  "to_virtual_machine conv (TypedVM vm) = Inr vm"
| "to_virtual_machine conv (Unstructured obj) =
     (case conv obj of
        Inl e \<Rightarrow> Inl (field_Invalid ''spec.virtualMachine'' (ConvertFailed e))
      | Inr vm \<Rightarrow> Inr vm)"
| "to_virtual_machine conv (OtherObject a v) =
     Inl (field_Invalid ''spec.virtualMachine'' NotAVirtualMachine)"

text \<open>The part of \<^verbatim>\<open>Process\<close> behind the generation of the values.\<close>

definition process_with ::
  "converter \<Rightarrow> param_map \<Rightarrow> Template \<Rightarrow> (field_error + gval \<times> string) run" where
  "process_with conv params tpl =
     (case getVirtualMachineObject (t_Spec tpl) of
        Inl e \<Rightarrow> Returns (Inl e)
      | Inr obj \<Rightarrow>
          (case removeHardcodedNamespace obj of
             None \<Rightarrow> Returns (Inl \<lparr>fe_type = ErrorTypeInternal, fe_field = ''spec.virtualMachine'',
               fe_cause = RemoveNamespaceFailed\<rparr>)
           | Some obj1 \<Rightarrow>
               (case substituteAllParameters obj1 params of
                  Inl VPanic \<Rightarrow> Panics
                | Inl e \<Rightarrow> Returns (Inl (field_Invalid ''spec.parameters'' (SubstituteFailed e)))
                | Inr obj2 \<Rightarrow>
                    (case to_virtual_machine conv obj2 of
                       Inl e \<Rightarrow> Returns (Inl e)
                     | Inr vm \<Rightarrow>
                         (case substituteParameters (ts_Message (t_Spec tpl)) params of
                            Inl n \<Rightarrow> Returns (Inl (field_Invalid ''spec.message'' (MessageFailed n)))
                          | Inr (msg, b) \<Rightarrow> Returns (Inr (SetGroupVersionKind VirtualMachineGVK vm, msg)))))))"

definition Process ::
  "converter \<Rightarrow> (nat \<Rightarrow> rand_source) \<Rightarrow> processor \<Rightarrow> Template \<Rightarrow> (field_error + gval \<times> string) run" where
  "Process conv srcs p tpl =
     (case generateParameterValues srcs (ts_Parameters (t_Spec tpl)) (generators_of p) of
        None \<Rightarrow> Diverges
      | Some (Inl e) \<Rightarrow> Returns (Inl e)
      | Some (Inr params) \<Rightarrow> process_with conv params tpl)"

section \<open>Ranging over maps\<close>

text \<open>What Go promises of an iteration over a map: every key once, in an unknown order.\<close>

locale map_range =
  fixes iter :: "'k set \<Rightarrow> 'k list"
  assumes iter_set: "finite S \<Longrightarrow> set (iter S) = S"
    and iter_distinct: "finite S \<Longrightarrow> distinct (iter S)"
begin

lemma filter_iter_empty: "finite S \<Longrightarrow> filter P (iter S) = [] \<longleftrightarrow> (\<forall>x \<in> S. \<not> P x)"
  using iter_set [of S] by (auto simp: filter_empty_conv)

lemma set_filter_iter: "finite S \<Longrightarrow> set (filter P (iter S)) = {x \<in> S. P x}"
  using iter_set [of S] by auto

end

interpretation sorted_range: map_range "sorted_list_of_set :: string set \<Rightarrow> string list"
  by unfold_locales simp_all

lemma dom_defined_params: "dom (defined_params ps) = set (map p_Name ps)"
  by (simp add: defined_params_def dom_map_of_conv_image_fst flip: set_map)

lemma finite_collect: "finite (collectReferencedParameters x)"
  by (simp add: collectReferencedParameters_def split: option.split)

lemma finite_object_references: "finite (object_references obj)"
  by (simp add: object_references_def finite_collect)

section \<open>Merging\<close>

text \<open>Whether a parameter is the first of its name in the list.\<close>

definition first_named :: "Parameter list \<Rightarrow> nat \<Rightarrow> bool" where
  "first_named ps j \<longleftrightarrow> (\<forall>i < j. p_Name (ps ! i) \<noteq> p_Name (ps ! j))"

definition merged_value :: "Parameter list \<Rightarrow> (string \<rightharpoonup> string) \<Rightarrow> nat \<Rightarrow> Parameter" where
  "merged_value ps m j =
     (case m (p_Name (ps ! j)) of
        Some v \<Rightarrow> if first_named ps j then (ps ! j)\<lparr>p_Value := v\<rparr> else ps ! j
      | None \<Rightarrow> ps ! j)"

lemma set_first_value_None: "set_first_value k v ps = None \<longleftrightarrow> k \<notin> set (map p_Name ps)"
  by (induction ps) auto

lemma set_first_value_names: "set_first_value k v ps = Some ps' \<Longrightarrow> map p_Name ps' = map p_Name ps"
  by (induction ps arbitrary: ps') (auto split: if_splits)

lemma first_named_Cons:
  "first_named (p # ps) (Suc j) \<longleftrightarrow> p_Name p \<noteq> p_Name (ps ! j) \<and> first_named ps j"
  unfolding first_named_def by (auto simp: less_Suc_eq_0_disj)

lemma set_first_value_nth:
  "set_first_value k v ps = Some ps' \<Longrightarrow> j < length ps \<Longrightarrow>
   ps' ! j = (if p_Name (ps ! j) = k \<and> first_named ps j then (ps ! j)\<lparr>p_Value := v\<rparr> else ps ! j)"
proof (induction ps arbitrary: ps' j)
  case (Cons p ps)
  show ?case
  proof (cases "p_Name p = k")
    case True
    with Cons.prems show ?thesis
      by (cases j) (auto simp: first_named_Cons first_named_def)
  next
    case False
    with Cons.prems obtain qs where qs: "set_first_value k v ps = Some qs" "ps' = p # qs" by auto
    from False Cons.prems(2) Cons.IH [OF qs(1)] qs(2) show ?thesis
      by (cases j) (auto simp: first_named_Cons)
  qed
qed simp

lemma merged_value_step:
  assumes names: "map p_Name ps' = map p_Name ps" and j: "j < length ps"
    and step: "ps' ! j = (if p_Name (ps ! j) = k \<and> first_named ps j then (ps ! j)\<lparr>p_Value := v\<rparr> else ps ! j)"
    and k: "m k = None"
  shows "merged_value ps' m j = merged_value ps (m(k \<mapsto> v)) j"
proof -
  have len: "length ps' = length ps" using names by (metis length_map)
  have name: "p_Name (ps' ! i) = p_Name (ps ! i)" if "i < length ps" for i
    using names that len by (metis nth_map)
  then have "first_named ps' j = first_named ps j" using j by (simp add: first_named_def)
  with name [OF j] step k show ?thesis
    by (auto simp: merged_value_def split: option.split)
qed

lemma MergeParameters_result:
  "distinct (map fst kvs) \<Longrightarrow> MergeParameters ps kvs = Inr qs \<Longrightarrow>
   map p_Name qs = map p_Name ps \<and> (\<forall>j < length ps. qs ! j = merged_value ps (map_of kvs) j)"
proof (induction ps kvs rule: MergeParameters.induct)
  case (1 ps)
  then show ?case by (simp add: merged_value_def)
next
  case (2 ps k v kvs)
  from "2.prems" obtain ps' where ps': "set_first_value k v ps = Some ps'" "MergeParameters ps' kvs = Inr qs"
    by (auto split: option.splits)
  from "2.IH" [OF ps'(1)] "2.prems" ps'(2) have IH: "map p_Name qs = map p_Name ps'"
    "\<forall>j < length ps'. qs ! j = merged_value ps' (map_of kvs) j" by auto
  have names: "map p_Name ps' = map p_Name ps" using ps'(1) by (rule set_first_value_names)
  then have len: "length ps' = length ps" by (metis length_map)
  have none: "map_of kvs k = None" using "2.prems"(1) by (simp add: map_of_eq_None_iff)
  have "qs ! j = merged_value ps (map_of ((k, v) # kvs)) j" if "j < length ps" for j
    using IH(2) len that merged_value_step [OF names that set_first_value_nth [OF ps'(1) that], of "map_of kvs"] none
    by simp
  with IH(1) names show ?case by (metis)
qed

lemma MergeParameters_error:
  "case MergeParameters ps kvs of
     Inl k \<Rightarrow> k \<in> set (map fst kvs) \<and> k \<notin> set (map p_Name ps)
   | Inr qs \<Rightarrow> set (map fst kvs) \<subseteq> set (map p_Name ps)"
proof (induction ps kvs rule: MergeParameters.induct)
  case (2 ps k v kvs)
  show ?case
  proof (cases "set_first_value k v ps")
    case None
    then have "MergeParameters ps ((k, v) # kvs) = Inl k" by simp
    with None [unfolded set_first_value_None] show ?thesis by simp
  next
    case (Some ps')
    then have "k \<in> set (map p_Name ps)" using set_first_value_None [of k v ps] by auto
    moreover from Some have "set (map p_Name ps') = set (map p_Name ps)"
      by (metis set_first_value_names)
    ultimately show ?thesis
      using "2.IH" [OF Some] Some by (auto simp del: set_map split: sum.splits)
  qed
qed simp

lemma MergeParameters_exact:
  assumes "distinct (map fst kvs)"
  shows "if set (map fst kvs) \<subseteq> set (map p_Name ps)
    then MergeParameters ps kvs = Inr (map (merged_value ps (map_of kvs)) [0..<length ps])
    else \<exists>k. MergeParameters ps kvs = Inl k \<and> k \<in> set (map fst kvs) \<and> k \<notin> set (map p_Name ps)"
proof (cases "set (map fst kvs) \<subseteq> set (map p_Name ps)")
  case True
  then obtain qs where qs: "MergeParameters ps kvs = Inr qs"
    using MergeParameters_error [where ps = ps and kvs = kvs] by (cases "MergeParameters ps kvs") auto
  from MergeParameters_result [OF assms qs] have names: "map p_Name qs = map p_Name ps"
    and nth: "\<forall>j < length ps. qs ! j = merged_value ps (map_of kvs) j" by auto
  from names have "length qs = length ps" by (metis length_map)
  with nth have "qs = map (merged_value ps (map_of kvs)) [0..<length ps]" by (intro nth_equalityI) auto
  with True qs show ?thesis by simp
next
  case False
  with MergeParameters_error [where ps = ps and kvs = kvs] show ?thesis by (cases "MergeParameters ps kvs") auto
qed

section \<open>Properties\<close>

text \<open>
  C25.  Merging the values of a request into the parameters of a template does not depend on
  the order in which Go ranges over the values: every parameter whose name is given, and
  that is the first one of its name, has the given value, and everything else is kept; it
  fails exactly when a name is given that no parameter has, and the error names it.
\<close>

theorem merge_parameters:
  assumes "distinct (map fst kvs)"
  shows "if set (map fst kvs) \<subseteq> set (map p_Name ps)
    then MergeParameters ps kvs = Inr (map (merged_value ps (map_of kvs)) [0..<length ps])
    else \<exists>k. MergeParameters ps kvs = Inl k \<and> k \<in> set (map fst kvs) \<and> k \<notin> set (map p_Name ps)"
  using assms by (rule MergeParameters_exact)

theorem merge_parameters_witness:
  "MergeParameters [example_parameter ''A'' ''x'', example_parameter ''B'' ''y''] [(''B'', ''z'')] =
     Inr [example_parameter ''A'' ''x'', example_parameter ''B'' ''z'']"
  using merge_parameters [of "[(''B'', ''z'')]" "[example_parameter ''A'' ''x'', example_parameter ''B'' ''y'']"]
  by (simp add: merged_value_def first_named_def example_parameter_def upt_rec numeral_2_eq_2)

section \<open>References and the removed namespace\<close>

lemma strings_of_entry:
  "(k, v) \<in> set es \<Longrightarrow> insert (key_text k) (set (strings_of v)) \<subseteq> set (strings_of (object_slot (Some es)))"
  by fastforce

lemma plain_map_set:
  assumes "plain (object_slot (Some es))" "string_key k" "plain v"
  shows "plain (object_slot (Some (map_set k v es)))"
proof -
  have "string_key k' \<and> plain v'" if "(k', v') \<in> set (map_set k v es)" for k' v'
  proof -
    from that have "(k', v') = (k, v) \<or> (k', v') \<in> set es" using set_map_set [of k v es] by blast
    with assms show ?thesis by auto
  qed
  with assms(1) distinct_map_set [of es k v] show ?thesis by auto
qed

lemma remove_namespace_strings:
  assumes "plain (object_slot obj)" and "removeHardcodedNamespace (Unstructured obj) = Some (Unstructured obj')"
  shows "plain (object_slot obj') \<and> set (strings_of (object_slot obj')) \<subseteq> set (strings_of (object_slot obj))"
proof (cases "hardcoded_namespace (unstructured_namespace obj)")
  case False
  with assms show ?thesis by simp
next
  case True
  then obtain es ms where es: "obj = Some es"
    "map_of es (GString TString ''metadata'') = Some (GIface (Some (GMap any_map (Some ms))))"
    using unstructured_namespace_nonempty [of obj] by (metis hardcoded_namespace_def)
  let ?k = "GString TString ''metadata''"
  let ?ms = "map_delete (GString TString ''namespace'') ms"
  let ?v = "GIface (Some (GMap any_map (Some ?ms)))"
  have mem: "(?k, object_slot (Some ms)) \<in> set es" using es(2) by (rule map_of_SomeD)
  from assms(1) es(1) have "\<forall>(k, v) \<in> set es. string_key k \<and> plain v" by simp
  from bspec [OF this mem] have pm: "plain (object_slot (Some ms))" by (simp only: prod.case)
  then have pv: "plain ?v" by (auto simp: map_delete_def distinct_map_filter)
  have sub: "set (strings_of ?v) \<subseteq> set (strings_of (object_slot (Some ms)))" by (auto simp: map_delete_def)
  have obj': "obj' = Some (map_set ?k ?v es)"
    using True es assms(2) by (simp add: remove_unstructured_namespace_def)
  have entry: "(k, v) = (?k, ?v) \<or> (k, v) \<in> set es" if "(k, v) \<in> set (map_set ?k ?v es)" for k v
    using set_map_set [of ?k ?v es] that by blast
  have "plain (object_slot obj')"
    unfolding obj' using assms(1) es(1) pv by (intro plain_map_set) (simp_all add: string_key_def)
  moreover have "set (strings_of (object_slot obj')) \<subseteq> set (strings_of (object_slot obj))"
  proof
    fix x assume "x \<in> set (strings_of (object_slot obj'))"
    then obtain k v where kv: "(k, v) \<in> set (map_set ?k ?v es)" "x = key_text k \<or> x \<in> set (strings_of v)"
      by (auto simp: obj')
    from entry [OF kv(1)] show "x \<in> set (strings_of (object_slot obj))"
    proof
      assume "(k, v) = (?k, ?v)"
      then have "x \<in> insert (key_text ?k) (set (strings_of (object_slot (Some ms))))"
        using kv(2) sub by blast
      with strings_of_entry [OF mem] es(1) show ?thesis by blast
    next
      assume "(k, v) \<in> set es"
      with kv(2) strings_of_entry es(1) show ?thesis by blast
    qed
  qed
  ultimately show ?thesis by blast
qed

lemma remove_namespace_plain:
  assumes "plain (object_slot obj)" and "removeHardcodedNamespace (Unstructured obj) = Some (Unstructured obj')"
  shows "plain (object_slot obj') \<and> object_references obj' \<subseteq> object_references obj"
  using remove_namespace_strings [OF assms] unfolding object_references_def by blast

text \<open>A template whose VirtualMachine is a decoded document or another plain object.\<close>

definition plain_template :: "Template \<Rightarrow> (gval \<times> gval) list option \<Rightarrow> bool" where
  "plain_template tpl obj \<longleftrightarrow>
     getVirtualMachineObject (t_Spec tpl) = Inr (Unstructured obj) \<and> plain (object_slot obj)"

definition template_references :: "Template \<Rightarrow> (gval \<times> gval) list option \<Rightarrow> string set" where
  "template_references tpl obj = object_references obj \<union> collectReferencedParameters (ts_Message (t_Spec tpl))"

definition template_names :: "Template \<Rightarrow> string set" where
  "template_names tpl = set (map p_Name (ts_Parameters (t_Spec tpl)))"

lemma raw_template_plain:
  assumes "ts_VirtualMachine (t_Spec tpl) = Some ext" "re_Raw ext \<noteq> []" "decode (re_Raw ext) = Some obj"
  shows "\<exists>o'. plain_template tpl o'"
  using assms decode_unstructured [OF assms(3)] decode_plain
  by (auto simp: plain_template_def getVirtualMachineObject_def)

lemma validate_plain:
  assumes "plain_template tpl obj"
  shows "ValidateParameterReferences iter tpl = Returns
     (map (\<lambda>n. unused_warning (the (defined_params (ts_Parameters (t_Spec tpl)) n)) n)
        (filter (\<lambda>n. n \<notin> template_references tpl obj) (iter (template_names tpl))),
      map (\<lambda>n. field_Invalid ''spec.virtualMachine'' (UndefinedReference n))
        (filter (\<lambda>n. n \<notin> template_names tpl) (iter (template_references tpl obj))))"
proof -
  have d: "defined_params (ts_Parameters (t_Spec tpl)) n = None \<longleftrightarrow> n \<notin> template_names tpl" for n
    using dom_defined_params [of "ts_Parameters (t_Spec tpl)"] by (auto simp: template_names_def simp del: set_map)
  have "collectAllReferencedParameters (Unstructured obj) = Inr (object_references obj)"
    using assms collect_plain by (simp add: plain_template_def)
  with assms show ?thesis
    by (simp add: ValidateParameterReferences_def plain_template_def Let_def template_references_def d
        dom_defined_params template_names_def del: set_map)
qed

lemma finite_template_references: "finite (template_references tpl obj)"
  by (simp add: template_references_def finite_object_references finite_collect)

lemma defined_params_last:
  assumes "n \<in> set (map p_Name ps)"
  shows "\<exists>i. defined_params ps n = Some i \<and> i < length ps \<and> p_Name (ps ! i) = n \<and> (\<forall>j < length ps. i < j \<longrightarrow> p_Name (ps ! j) \<noteq> n)"
  using assms
proof (induction ps rule: rev_induct)
  case (snoc p ps)
  have zip: "defined_params (ps @ [p]) = (defined_params ps)(p_Name p \<mapsto> length ps)" by (simp add: defined_params_def)
  show ?case
  proof (cases "p_Name p = n")
    case False
    with snoc obtain i where "defined_params ps n = Some i" "i < length ps" "p_Name (ps ! i) = n" "\<forall>j < length ps. i < j \<longrightarrow> p_Name (ps ! j) \<noteq> n"
      by auto
    with False show ?thesis unfolding zip by (intro exI [of _ i]) (auto simp: nth_append less_Suc_eq)
  qed (auto simp: zip nth_append)
qed simp

text \<open>
  C23.  Validation of a template whose VirtualMachine is plain: it neither panics nor fails to return.  Its errors are, each once,
  that the VirtualMachine has a reference to \<open>n\<close>, for the names \<open>n\<close> that the VirtualMachine or the message refers to and no parameter
  has.  Its warnings are, each once, that the parameter \<open>n\<close> is defined but never referenced, for the names \<open>n\<close> of the parameters
  that neither refers to; the warning gives the position of the last parameter of that name.
\<close>

theorem validation_exact:
  assumes "map_range iter" and "plain_template tpl obj"
  shows "\<exists>unused undefined. ValidateParameterReferences iter tpl = Returns
       (map (\<lambda>n. unused_warning (GREATEST i. i < length (ts_Parameters (t_Spec tpl)) \<and> p_Name (ts_Parameters (t_Spec tpl) ! i) = n) n) unused,
        map (\<lambda>n. field_Invalid ''spec.virtualMachine'' (UndefinedReference n)) undefined) \<and>
     distinct unused \<and> set unused = template_names tpl - template_references tpl obj \<and>
     distinct undefined \<and> set undefined = template_references tpl obj - template_names tpl"
proof -
  let ?ps = "ts_Parameters (t_Spec tpl)"
  have fin: "finite (template_names tpl)" "finite (template_references tpl obj)"
    by (simp_all add: template_names_def finite_template_references)
  note sets = map_range.set_filter_iter [OF assms(1)] and dist = map_range.iter_distinct [OF assms(1)]
  let ?unused = "filter (\<lambda>n. n \<notin> template_references tpl obj) (iter (template_names tpl))"
  let ?undefined = "filter (\<lambda>n. n \<notin> template_names tpl) (iter (template_references tpl obj))"
  have "the (defined_params ?ps n) = (GREATEST i. i < length ?ps \<and> p_Name (?ps ! i) = n)" if n: "n \<in> template_names tpl" for n
  proof -
    obtain i where i: "defined_params ?ps n = Some i" "i < length ?ps" "p_Name (?ps ! i) = n" "\<forall>j < length ?ps. i < j \<longrightarrow> p_Name (?ps ! j) \<noteq> n"
      using defined_params_last [OF n [unfolded template_names_def]] by blast
    have "(GREATEST i. i < length ?ps \<and> p_Name (?ps ! i) = n) = i"
      by (rule Greatest_equality) (use i(2-4) in \<open>auto simp: not_less [symmetric]\<close>)
    with i(1) show ?thesis by simp
  qed
  then have "map (\<lambda>n. unused_warning (the (defined_params ?ps n)) n) ?unused =
      map (\<lambda>n. unused_warning (GREATEST i. i < length ?ps \<and> p_Name (?ps ! i) = n) n) ?unused"
    using sets [OF fin(1)] by (intro map_cong) auto
  then have "ValidateParameterReferences iter tpl = Returns
      (map (\<lambda>n. unused_warning (GREATEST i. i < length ?ps \<and> p_Name (?ps ! i) = n) n) ?unused,
       map (\<lambda>n. field_Invalid ''spec.virtualMachine'' (UndefinedReference n)) ?undefined)"
    unfolding validate_plain [OF assms(2)] by simp
  moreover have "set ?unused = template_names tpl - template_references tpl obj" "set ?undefined = template_references tpl obj - template_names tpl"
    unfolding sets [OF fin(1)] sets [OF fin(2)] by auto
  ultimately show ?thesis using dist [OF fin(1)] dist [OF fin(2)] by (intro exI conjI) (assumption | simp)+
qed

lemma process_references:
  assumes tpl: "plain_template tpl obj" and dfd: "template_references tpl obj \<subseteq> dom params"
  shows "process_with conv params tpl \<noteq> Panics \<and> process_with conv params tpl \<noteq> Diverges \<and>
    (\<forall>e. process_with conv params tpl = Returns (Inl e) \<longrightarrow>
       (\<exists>s. fe_cause e = ConvertFailed s) \<or> (\<exists>t. fe_cause e = SubstituteFailed (VNil t)) \<or>
       (\<exists>t u. fe_cause e = SubstituteFailed (VNotAssignable t u)))"
proof -
  from tpl have get: "getVirtualMachineObject (t_Spec tpl) = Inr (Unstructured obj)" and pl: "plain (object_slot obj)"
    by (simp_all add: plain_template_def)
  obtain obj1 where rm: "removeHardcodedNamespace (Unstructured obj) = Some (Unstructured obj1)" by simp
  from remove_namespace_plain [OF pl rm] dfd have pl1: "plain (object_slot obj1)"
    and refs: "object_references obj1 \<subseteq> dom params" by (auto simp: template_references_def)
  obtain msg b where msg: "substituteParameters (ts_Message (t_Spec tpl)) params = Inr (msg, b)"
    using dfd substitute_error [of "ts_Message (t_Spec tpl)" params]
    by (cases "substituteParameters (ts_Message (t_Spec tpl)) params") (auto simp: template_references_def)
  note sub = substitute_plain [OF pl1, of params]
  show ?thesis
  proof (cases "substituteAllParameters (Unstructured obj1) params")
    case (Inl e)
    with sub refs have "(\<exists>t. e = VNil t) \<or> (\<exists>t u. e = VNotAssignable t u)" by auto
    then show ?thesis using get rm Inl by (auto simp: process_with_def field_Invalid_def)
  next
    case (Inr v)
    with sub obtain obj2 where "v = Unstructured obj2" by auto
    with get rm Inr msg show ?thesis
      by (cases "conv obj2") (auto simp: process_with_def field_Invalid_def)
  qed
qed

text \<open>
  C12.  What validation promises for processing: when a template with a plain VirtualMachine
  is validated without an error, processing it (with whatever values of the parameters)
  never panics and never fails on an undefined parameter, neither in the VirtualMachine nor
  in the message.  It may still fail on the parameters themselves (an empty or duplicate
  name, a generator, a required value), on a value whose JSON does not fit, or in the
  conversion.
\<close>

theorem validated_template_processes:
  assumes "map_range iter" and "plain_template tpl obj"
    and "ValidateParameterReferences iter tpl = Returns (warnings, [])"
  shows "Process conv srcs p tpl \<noteq> Panics \<and>
    (\<forall>e n. Process conv srcs p tpl = Returns (Inl e) \<longrightarrow>
       fe_cause e \<noteq> SubstituteFailed (VTransform n) \<and> fe_cause e \<noteq> MessageFailed n)"
proof -
  from assms(3) have "filter (\<lambda>n. n \<notin> template_names tpl) (iter (template_references tpl obj)) = []"
    unfolding validate_plain [OF assms(2)] by simp
  then have sub: "template_references tpl obj \<subseteq> template_names tpl"
    unfolding map_range.filter_iter_empty [OF assms(1) finite_template_references] by auto
  show ?thesis
  proof (cases "generateParameterValues srcs (ts_Parameters (t_Spec tpl)) (generators_of p)")
    case (Some r)
    show ?thesis
    proof (cases r)
      case (Inr params)
      with Some have "dom params = template_names tpl"
        using generated_names by (simp add: template_names_def del: set_map)
      with sub process_references [OF assms(2), of params conv] Some Inr show ?thesis
        by (auto simp: Process_def)
    next
      case (Inl e)
      with Some generate_error_cause show ?thesis by (auto simp: Process_def)
    qed
  qed (simp add: Process_def)
qed

definition example_template :: "Parameter list \<Rightarrow> Template" where
  "example_template ps = \<lparr>t_TypeMeta = empty_type, t_Meta = empty_meta,
     t_Spec = \<lparr>ts_VirtualMachine = Some \<lparr>re_Raw = [], re_Object = Some (Unstructured example_object)\<rparr>,
       ts_Parameters = ps, ts_Message = ''see ${NAME}''\<rparr>,
     t_Conditions = []\<rparr>"

lemma plain_example_template: "plain_template (example_template ps) example_object"
  using plain_example_object
  by (simp add: plain_template_def example_template_def getVirtualMachineObject_def)

lemma example_references: "template_references (example_template ps) example_object = {''NAME''}"
proof -
  have "map collectReferencedParameters [''metadata'', ''name'', ''vm-${NAME}'', ''namespace'', ''prod'', ''see ${NAME}''] =
      [{}, {}, {''NAME''}, {}, {}, {''NAME''}]" by code_simp
  then show ?thesis
    by (simp add: template_references_def object_references_def example_object_def example_template_def key_text_def)
qed

theorem validation_exact_witness:
  "ValidateParameterReferences sorted_list_of_set (example_template [example_parameter ''A'' ''x'', example_parameter ''A'' ''y'']) =
     Returns ([unused_warning 1 ''A''], [field_Invalid ''spec.virtualMachine'' (UndefinedReference ''NAME'')])"
proof -
  let ?ps = "[example_parameter ''A'' ''x'', example_parameter ''A'' ''y'']"
  have ps: "ts_Parameters (t_Spec (example_template ?ps)) = ?ps" by (simp add: example_template_def)
  have names: "template_names (example_template ?ps) = {''A''}" by (simp add: template_names_def ps) (simp add: example_parameter_def)
  have single: "xs = [x]" if "distinct xs" "set xs = {x}" for xs and x :: string
    using that by (cases xs rule: remdups_adj.cases) auto
  have "(GREATEST i. i < length ?ps \<and> p_Name (?ps ! i) = ''A'') = 1"
    by (rule Greatest_equality) (simp_all add: example_parameter_def)
  moreover obtain unused undefined where r: "ValidateParameterReferences sorted_list_of_set (example_template ?ps) = Returns
      (map (\<lambda>n. unused_warning (GREATEST i. i < length ?ps \<and> p_Name (?ps ! i) = n) n) unused,
       map (\<lambda>n. field_Invalid ''spec.virtualMachine'' (UndefinedReference n)) undefined)"
    and sets: "distinct unused" "set unused = {''A''} - {''NAME''}" "distinct undefined" "set undefined = {''NAME''} - {''A''}"
    using validation_exact [OF sorted_range.map_range_axioms plain_example_template, of ?ps]
    unfolding ps names example_references by (elim exE conjE) (rule that)
  moreover have "unused = [''A'']" "undefined = [''NAME'']" using sets by (auto intro!: single)
  ultimately show ?thesis by (simp del: length_Cons nth_Cons_Suc nth_Cons_0)
qed

lemma example_validated:
  "ValidateParameterReferences sorted_list_of_set (example_template [example_parameter ''NAME'' ''x'']) = Returns ([], [])"
proof -
  have names: "template_names (example_template [example_parameter ''NAME'' ''x'']) = {''NAME''}"
    by (simp add: template_names_def example_template_def example_parameter_def)
  show ?thesis unfolding validate_plain [OF plain_example_template] example_references names by simp
qed

theorem validated_template_processes_witness:
  "ValidateParameterReferences sorted_list_of_set (example_template [example_parameter ''NAME'' ''x'']) = Returns ([], []) \<and>
   Process (\<lambda>obj. Inl ''no'') (\<lambda>i k. Inr 0) (fst (GetDefaultProcessor None)) (example_template [example_parameter ''NAME'' ''x'']) \<noteq> Panics"
  using example_validated validated_template_processes [OF sorted_range.map_range_axioms plain_example_template example_validated]
  by blast

lemma generate_value_of_returns:
  assumes "backslash \<notin> set (p_From param)"
  shows "generate_value_of src (generators_of (fst (GetDefaultProcessor None))) path param \<noteq> None"
  using GenerateValue_returns [OF assms, of src 0]
  by (auto simp: generate_value_of_def GetDefaultProcessor_def Let_def split: option.splits sum.splits)

lemma generate_loop_returns:
  assumes "\<forall>param \<in> set ps. backslash \<notin> set (p_From param)"
  shows "generate_loop srcs (generators_of (fst (GetDefaultProcessor None))) i ps visited params \<noteq> None"
  using assms
proof (induction ps arbitrary: i visited params)
  case (Cons param ps)
  then have "generate_value_of (srcs i) (generators_of (fst (GetDefaultProcessor None))) (parameter_path i) param \<noteq> None"
    by (intro generate_value_of_returns) simp
  with Cons show ?case
    by (auto simp: Let_def split: option.split sum.split)
qed simp

text \<open>
  Processing with the default processor always returns when no expression of a parameter
  holds a backslash, that is, when none uses a character class: whatever the random source
  delivers and the VirtualMachine is.
\<close>

theorem processing_returns:
  assumes "\<forall>param \<in> set (ts_Parameters (t_Spec tpl)). backslash \<notin> set (p_From param)"
  shows "Process conv srcs (fst (GetDefaultProcessor None)) tpl \<noteq> Diverges"
proof -
  have "process_with conv params tpl \<noteq> Diverges" for params
    by (auto simp: process_with_def split: sum.split option.split visit_error.split)
  with generate_loop_returns [OF assms, of srcs 0 "{}" Map.empty] show ?thesis
    by (auto simp: Process_def generateParameterValues_def split: option.split sum.split)
qed

theorem processing_returns_witness:
  "Process (\<lambda>obj. Inl ''no'') (\<lambda>i k. Inr (i * k)) (fst (GetDefaultProcessor None))
     (example_template [(example_parameter ''NAME'' [])\<lparr>p_Generate := ''expression'', p_From := ''[a-z0-9]{5}''\<rparr>]) \<noteq> Diverges"
  by (rule processing_returns) (simp add: example_template_def example_parameter_def)

text \<open>
  A VirtualMachine that processing returns for a template with a plain VirtualMachine is
  the conversion of the object in which the hard-coded namespace is removed and every
  string is substituted with the generated values, with the group, version and kind of a
  VirtualMachine; the message is the substituted message.
\<close>

theorem processed_virtual_machine:
  assumes "plain_template tpl obj" and "Process conv srcs p tpl = Returns (Inr (vm, msg))"
  shows "\<exists>params obj1 obj2 vm0 b.
    generateParameterValues srcs (ts_Parameters (t_Spec tpl)) (generators_of p) = Some (Inr params) \<and>
    removeHardcodedNamespace (Unstructured obj) = Some (Unstructured obj1) \<and>
    rendered (substitution_result params) (object_slot obj1) (object_slot obj2) \<and> plain (object_slot obj2) \<and>
    conv obj2 = Inr vm0 \<and> vm = SetGroupVersionKind VirtualMachineGVK vm0 \<and>
    substituteParameters (ts_Message (t_Spec tpl)) params = Inr (msg, b)"
proof -
  from assms(1) have get: "getVirtualMachineObject (t_Spec tpl) = Inr (Unstructured obj)"
    and pl: "plain (object_slot obj)" by (simp_all add: plain_template_def)
  from assms(2) obtain params where gen: "generateParameterValues srcs (ts_Parameters (t_Spec tpl)) (generators_of p) = Some (Inr params)"
    and run: "process_with conv params tpl = Returns (Inr (vm, msg))"
    by (auto simp: Process_def split: option.splits sum.splits)
  obtain obj1 where rm: "removeHardcodedNamespace (Unstructured obj) = Some (Unstructured obj1)" by simp
  from run get rm obtain v vm0 b where sub: "substituteAllParameters (Unstructured obj1) params = Inr v"
    and vm: "to_virtual_machine conv v = Inr vm0" "vm = SetGroupVersionKind VirtualMachineGVK vm0"
    and msg: "substituteParameters (ts_Message (t_Spec tpl)) params = Inr (msg, b)"
    by (auto simp: process_with_def split: sum.splits visit_error.splits)
  have pl1: "plain (object_slot obj1)" using remove_namespace_plain [OF pl rm] ..
  obtain obj2 where obj2: "v = Unstructured obj2" "plain (object_slot obj2)"
    "rendered (substitution_result params) (object_slot obj1) (object_slot obj2)"
    using substitute_plain [OF pl1, of params] unfolding sub by auto
  have "conv obj2 = Inr vm0" using vm(1) obj2(1) by (auto split: sum.splits)
  then show ?thesis using gen rm obj2(2,3) vm(2) msg by blast
qed

definition example_converter :: converter where
  "example_converter obj = Inr (GPtr (TStruct ''VirtualMachine'') None)"

lemma example_run:
  "Process example_converter (\<lambda>i k. Inr 0) (fst (GetDefaultProcessor None)) (example_template [example_parameter ''NAME'' ''x'']) =
     Returns (Inr (GPtr (TStruct ''VirtualMachine'') None, ''see x''))"
  by code_simp

theorem processed_virtual_machine_witness:
  "\<exists>params obj1 obj2.
    generateParameterValues (\<lambda>i k. Inr 0) [example_parameter ''NAME'' ''x''] (generators_of (fst (GetDefaultProcessor None))) =
      Some (Inr params) \<and>
    removeHardcodedNamespace (Unstructured example_object) = Some (Unstructured obj1) \<and>
    rendered (substitution_result params) (object_slot obj1) (object_slot obj2) \<and>
    substituteParameters ''see ${NAME}'' params = Inr (''see x'', True)"
proof -
  let ?tpl = "example_template [example_parameter ''NAME'' ''x'']"
  have "b" if "substituteParameters ''see ${NAME}'' params = Inr (''see x'', b)" for params :: param_map and b
  proof -
    have "FindStringSubmatch nonStringParamExpr ''see ${NAME}'' = None" by code_simp
    with that show ?thesis by (auto simp: substituteParameters_def split: sum.splits)
  qed
  moreover have "ts_Parameters (t_Spec ?tpl) = [example_parameter ''NAME'' ''x'']" "ts_Message (t_Spec ?tpl) = ''see ${NAME}''"
    by (simp_all add: example_template_def)
  ultimately show ?thesis
    using processed_virtual_machine [OF plain_example_template example_run] by (metis (full_types))
qed

end
