(* ===== verification/Conditions.thy ===== *)
theory Conditions
  imports Api_Types
begin

text \<open>
  Status conditions: the functions of \<^verbatim>\<open>k8s.io/apimachinery/pkg/api/meta\<close> that the controllers
  call on the conditions of an object, the interface the controllers rely on as a locale, and
  the proof that the functions provide it.  The clock is the argument \<open>now\<close>.
\<close>

section \<open>Operations\<close>

fun FindStatusCondition :: "Condition list \<Rightarrow> string \<Rightarrow> Condition option" where
  "FindStatusCondition [] t = None"
| "FindStatusCondition (c # cs) t = (if c_Type c = t then Some c else FindStatusCondition cs t)"

text \<open>The update of the existing condition in \<^verbatim>\<open>SetStatusCondition\<close>, with the flag whether it changed.\<close>

definition update_condition :: "time \<Rightarrow> Condition \<Rightarrow> Condition \<Rightarrow> Condition \<times> bool" where
  "update_condition now newCondition c =
     (let c1 = (if c_Status c \<noteq> c_Status newCondition
                then c\<lparr>c_Status := c_Status newCondition,
                       c_LastTransitionTime :=
                         (if c_LastTransitionTime newCondition \<noteq> 0 then c_LastTransitionTime newCondition else now)\<rparr>
                else c);
          c2 = c1\<lparr>c_Reason := c_Reason newCondition\<rparr>;
          c3 = c2\<lparr>c_Message := c_Message newCondition\<rparr>;
          c4 = c3\<lparr>c_ObservedGeneration := c_ObservedGeneration newCondition\<rparr>
      in (c4, c_Status c \<noteq> c_Status newCondition \<or> c_Reason c1 \<noteq> c_Reason newCondition \<or>
            c_Message c2 \<noteq> c_Message newCondition \<or>
            c_ObservedGeneration c3 \<noteq> c_ObservedGeneration newCondition))"

fun replace_condition :: "(Condition \<Rightarrow> Condition) \<Rightarrow> string \<Rightarrow> Condition list \<Rightarrow> Condition list" where
  "replace_condition f t [] = []"
| "replace_condition f t (c # cs) = (if c_Type c = t then f c # cs else c # replace_condition f t cs)"

definition SetStatusCondition :: "time \<Rightarrow> Condition list \<Rightarrow> Condition \<Rightarrow> Condition list \<times> bool" where
  "SetStatusCondition now conditions newCondition =
     (case FindStatusCondition conditions (c_Type newCondition) of
        None \<Rightarrow>
          (conditions @ [if c_LastTransitionTime newCondition = 0
             then newCondition\<lparr>c_LastTransitionTime := now\<rparr> else newCondition], True)
      | Some existing \<Rightarrow>
          (replace_condition (\<lambda>c. fst (update_condition now newCondition c)) (c_Type newCondition) conditions,
           snd (update_condition now newCondition existing)))"

definition RemoveStatusCondition :: "Condition list \<Rightarrow> string \<Rightarrow> Condition list \<times> bool" where
  "RemoveStatusCondition conditions t =
     (let newConditions = filter (\<lambda>c. c_Type c \<noteq> t) conditions
      in (newConditions, length conditions \<noteq> length newConditions))"

section \<open>The interface of a set of conditions\<close>

text \<open>
  What a controller relies on: after setting a condition it is found with the new status,
  reason, message and generation; the time of its last transition is kept unless the status
  changes; the other conditions stay as they are; a removed condition is gone.
\<close>

locale condition_set =
  fixes find :: "'s \<Rightarrow> string \<Rightarrow> Condition option"
    and put :: "time \<Rightarrow> Condition \<Rightarrow> 's \<Rightarrow> 's"
    and remove :: "string \<Rightarrow> 's \<Rightarrow> 's"
  assumes find_type: "find cs t = Some c \<Longrightarrow> c_Type c = t"
    and put_same: "\<exists>c. find (put now new cs) (c_Type new) = Some c \<and> c_Status c = c_Status new \<and>
      c_Reason c = c_Reason new \<and> c_Message c = c_Message new \<and>
      c_ObservedGeneration c = c_ObservedGeneration new \<and>
      (c_LastTransitionTime new = 0 \<longrightarrow> c_LastTransitionTime c =
        (case find cs (c_Type new) of
           Some old \<Rightarrow> if c_Status old = c_Status new then c_LastTransitionTime old else now
         | None \<Rightarrow> now))"
    and put_other: "t \<noteq> c_Type new \<Longrightarrow> find (put now new cs) t = find cs t"
    and remove_same: "find (remove t cs) t = None"
    and remove_other: "t \<noteq> u \<Longrightarrow> find (remove t cs) u = find cs u"
begin

definition status :: "'s \<Rightarrow> string \<Rightarrow> string option" where
  "status cs t = map_option c_Status (find cs t)"

definition reason :: "'s \<Rightarrow> string \<Rightarrow> string option" where
  "reason cs t = map_option c_Reason (find cs t)"

lemma status_put: "status (put now new cs) t = (if t = c_Type new then Some (c_Status new) else status cs t)"
  using put_same [of now new cs] by (auto simp: status_def put_other)

lemma reason_put: "reason (put now new cs) t = (if t = c_Type new then Some (c_Reason new) else reason cs t)"
  using put_same [of now new cs] by (auto simp: reason_def put_other)

lemma status_remove: "status (remove u cs) t = (if t = u then None else status cs t)"
  by (auto simp: status_def remove_same remove_other)

lemma reason_remove: "reason (remove u cs) t = (if t = u then None else reason cs t)"
  by (auto simp: reason_def remove_same remove_other)

lemma find_None_status: "find cs t = None \<longleftrightarrow> status cs t = None"
  by (simp add: status_def)

lemma find_status: "find cs t = Some c \<Longrightarrow> status cs t = Some (c_Status c) \<and> reason cs t = Some (c_Reason c)"
  by (simp add: status_def reason_def)

text \<open>Setting a condition again to the status it has keeps the time of the last transition.\<close>

lemma put_keeps_transition:
  assumes "find cs (c_Type new) = Some old" "c_Status old = c_Status new" "c_LastTransitionTime new = 0"
  shows "\<exists>c. find (put now new cs) (c_Type new) = Some c \<and> c_LastTransitionTime c = c_LastTransitionTime old"
  using put_same [of now new cs] assms by auto

end

section \<open>The functions provide the interface\<close>

lemma find_type_list: "FindStatusCondition cs t = Some c \<Longrightarrow> c_Type c = t"
  by (induction cs) (auto split: if_splits)

lemma find_append:
  "FindStatusCondition (cs @ ds) t =
     (case FindStatusCondition cs t of None \<Rightarrow> FindStatusCondition ds t | Some c \<Rightarrow> Some c)"
  by (induction cs) auto

lemma find_replace:
  assumes "\<And>c. c_Type (f c) = c_Type c"
  shows "FindStatusCondition (replace_condition f u cs) t =
     (if t = u then map_option f (FindStatusCondition cs u) else FindStatusCondition cs t)"
  by (induction cs) (auto simp: assms)

lemma update_condition_fields:
  "c_Type (fst (update_condition now new c)) = c_Type c"
  "c_Status (fst (update_condition now new c)) = c_Status new"
  "c_Reason (fst (update_condition now new c)) = c_Reason new"
  "c_Message (fst (update_condition now new c)) = c_Message new"
  "c_ObservedGeneration (fst (update_condition now new c)) = c_ObservedGeneration new"
  "c_LastTransitionTime (fst (update_condition now new c)) =
     (if c_Status c = c_Status new then c_LastTransitionTime c
      else if c_LastTransitionTime new = 0 then now else c_LastTransitionTime new)"
  by (simp_all add: update_condition_def Let_def)

lemma find_remove: "FindStatusCondition (fst (RemoveStatusCondition cs u)) t =
    (if t = u then None else FindStatusCondition cs t)"
  by (induction cs) (auto simp: RemoveStatusCondition_def Let_def)

lemma find_set:
  "FindStatusCondition (fst (SetStatusCondition now cs new)) t =
     (if t = c_Type new then
        Some (case FindStatusCondition cs t of
                None \<Rightarrow> if c_LastTransitionTime new = 0 then new\<lparr>c_LastTransitionTime := now\<rparr> else new
              | Some c \<Rightarrow> fst (update_condition now new c))
      else FindStatusCondition cs t)"
  by (auto simp: SetStatusCondition_def find_append find_replace update_condition_fields split: option.split)

interpretation conds: condition_set FindStatusCondition "\<lambda>now new cs. fst (SetStatusCondition now cs new)"
    "\<lambda>t cs. fst (RemoveStatusCondition cs t)"
proof
  fix now new cs
  show "\<exists>c. FindStatusCondition (fst (SetStatusCondition now cs new)) (c_Type new) = Some c \<and>
      c_Status c = c_Status new \<and> c_Reason c = c_Reason new \<and> c_Message c = c_Message new \<and>
      c_ObservedGeneration c = c_ObservedGeneration new \<and>
      (c_LastTransitionTime new = 0 \<longrightarrow> c_LastTransitionTime c =
        (case FindStatusCondition cs (c_Type new) of
           Some old \<Rightarrow> if c_Status old = c_Status new then c_LastTransitionTime old else now
         | None \<Rightarrow> now))"
    by (auto simp: find_set update_condition_fields split: option.split)
qed (auto simp: find_type_list find_set find_remove)

text \<open>The types of the conditions stay distinct.\<close>

lemma types_replace: "(\<And>c. c_Type (f c) = c_Type c) \<Longrightarrow> map c_Type (replace_condition f t cs) = map c_Type cs"
  by (induction cs) auto

lemma find_None_types: "FindStatusCondition cs t = None \<longleftrightarrow> t \<notin> set (map c_Type cs)"
  by (induction cs) auto

lemma distinct_types_set:
  "distinct (map c_Type cs) \<Longrightarrow> distinct (map c_Type (fst (SetStatusCondition now cs new)))"
  by (auto simp: SetStatusCondition_def types_replace update_condition_fields find_None_types
      split: option.split simp del: set_map)

lemma distinct_types_remove:
  "distinct (map c_Type cs) \<Longrightarrow> distinct (map c_Type (fst (RemoveStatusCondition cs t)))"
  by (simp add: RemoveStatusCondition_def Let_def distinct_map_filter)

lemmas condition_simps = conds.status_put conds.reason_put conds.status_remove conds.reason_remove

lemma replace_condition_id:
  "FindStatusCondition cs t = Some c \<Longrightarrow> replace_condition f t cs = cs \<longleftrightarrow> f c = c"
  by (induction cs) (auto split: if_splits)

lemma update_condition_id: "fst (update_condition now new c) = c \<longleftrightarrow> \<not> snd (update_condition now new c)"
  by (cases c) (auto simp: update_condition_def Let_def)

text \<open>
  Setting a condition reports a change exactly when the list of conditions is not what it
  was before.
\<close>

theorem set_condition_reports_change:
  "snd (SetStatusCondition now conditions new) \<longleftrightarrow> fst (SetStatusCondition now conditions new) \<noteq> conditions"
  by (auto simp: SetStatusCondition_def replace_condition_id update_condition_id split: option.split)

end
