(* ===== verification/Owner_References.thy ===== *)
theory Owner_References
  imports Api_Types
begin

text \<open>
  Owner references and finalizers: the functions of \<^verbatim>\<open>controllerutil\<close> and of the metadata package
  that the controllers call.  The owner of an object is given by its metadata and by the group,
  version and kind that the scheme has for its type.
\<close>

section \<open>Owner references\<close>

type_synonym gvk = "string \<times> string \<times> string"

datatype owner_error =
    ClusterScopedObject string
  | CrossNamespaceOwner string string
  | AlreadyOwned ObjectMeta OwnerReference
  | NoControllerReference
  | NoReferenceToOwner
  | NotTheController

definition gv_string :: "gvk \<Rightarrow> string" where
  "gv_string gvk = (case gvk of (g, v, k) \<Rightarrow> if g = [] then v else g @ ''/'' @ v)"

definition gvk_kind :: "gvk \<Rightarrow> string" where
  "gvk_kind gvk = snd (snd gvk)"

text \<open>\<^verbatim>\<open>schema.ParseGroupVersion\<close>, of which only the group is used; \<^term>\<open>None\<close> is its error.\<close>

definition parse_group :: "string \<Rightarrow> string option" where
  "parse_group gv =
     (if gv = [] \<or> gv = ''/'' then Some []
      else if count_list gv CHR ''/'' = 0 then Some []
      else if count_list gv CHR ''/'' = 1 then Some (takeWhile (\<lambda>c. c \<noteq> CHR ''/'') gv)
      else None)"

definition referSameObject :: "OwnerReference \<Rightarrow> OwnerReference \<Rightarrow> bool" where
  "referSameObject a b \<longleftrightarrow>
     (case (parse_group (o_APIVersion a), parse_group (o_APIVersion b)) of
        (Some g, Some h) \<Rightarrow> g = h \<and> o_Kind a = o_Kind b \<and> o_Name a = o_Name b
      | _ \<Rightarrow> False)"

fun indexOwnerRef :: "OwnerReference list \<Rightarrow> OwnerReference \<Rightarrow> nat option" where
  "indexOwnerRef [] ref = None"
| "indexOwnerRef (r # rs) ref = (if referSameObject r ref then Some 0 else map_option Suc (indexOwnerRef rs ref))"

definition upsertOwnerRef :: "OwnerReference \<Rightarrow> ObjectMeta \<Rightarrow> ObjectMeta" where
  "upsertOwnerRef ref object =
     (case indexOwnerRef (m_OwnerReferences object) ref of
        None \<Rightarrow> object\<lparr>m_OwnerReferences := m_OwnerReferences object @ [ref]\<rparr>
      | Some i \<Rightarrow> object\<lparr>m_OwnerReferences := (m_OwnerReferences object)[i := ref]\<rparr>)"

definition is_controller :: "OwnerReference \<Rightarrow> bool" where
  "is_controller r \<longleftrightarrow> o_Controller r = Some True"

definition GetControllerOf :: "ObjectMeta \<Rightarrow> OwnerReference option" where
  "GetControllerOf object = List.find is_controller (m_OwnerReferences object)"

definition IsControlledBy :: "ObjectMeta \<Rightarrow> ObjectMeta \<Rightarrow> bool" where
  "IsControlledBy object owner \<longleftrightarrow>
     (case GetControllerOf object of None \<Rightarrow> False | Some ref \<Rightarrow> o_UID ref = m_UID owner)"

text \<open>\<^term>\<open>None\<close> when the owner may own the object.\<close>

definition validateOwner :: "ObjectMeta \<Rightarrow> ObjectMeta \<Rightarrow> owner_error option" where
  "validateOwner owner object =
     (if m_Namespace owner \<noteq> [] then
        (if m_Namespace object = [] then Some (ClusterScopedObject (m_Namespace owner))
         else if m_Namespace owner \<noteq> m_Namespace object then
           Some (CrossNamespaceOwner (m_Namespace owner) (m_Namespace object))
         else None)
      else None)"

lemma validateOwner_None [simp]:
  "validateOwner owner object = None \<longleftrightarrow> m_Namespace owner = [] \<or> m_Namespace owner = m_Namespace object"
  by (auto simp: validateOwner_def)

definition controller_ref :: "ObjectMeta \<Rightarrow> gvk \<Rightarrow> OwnerReference" where
  "controller_ref owner gvk = \<lparr>o_APIVersion = gv_string gvk, o_Kind = gvk_kind gvk, o_Name = m_Name owner,
     o_UID = m_UID owner, o_Controller = Some True, o_BlockOwnerDeletion = Some True\<rparr>"

definition SetControllerReference :: "ObjectMeta \<Rightarrow> gvk \<Rightarrow> ObjectMeta \<Rightarrow> owner_error + ObjectMeta" where
  "SetControllerReference owner gvk object =
     (case validateOwner owner object of
        Some e \<Rightarrow> Inl e
      | None \<Rightarrow>
          (let ref = controller_ref owner gvk in
           case GetControllerOf object of
             Some existing \<Rightarrow>
               if \<not> referSameObject existing ref then Inl (AlreadyOwned object existing)
               else Inr (upsertOwnerRef ref object)
           | None \<Rightarrow> Inr (upsertOwnerRef ref object)))"

definition RemoveControllerReference :: "ObjectMeta \<Rightarrow> gvk \<Rightarrow> ObjectMeta \<Rightarrow> owner_error + ObjectMeta" where
  "RemoveControllerReference owner gvk object =
     (if GetControllerOf object = None then Inl NoControllerReference
      else
        (case indexOwnerRef (m_OwnerReferences object)
           \<lparr>o_APIVersion = gv_string gvk, o_Kind = gvk_kind gvk, o_Name = m_Name owner, o_UID = [],
            o_Controller = None, o_BlockOwnerDeletion = None\<rparr> of
           None \<Rightarrow> Inl NoReferenceToOwner
         | Some i \<Rightarrow>
             if \<not> is_controller (m_OwnerReferences object ! i) then Inl NotTheController
             else Inr (object\<lparr>m_OwnerReferences :=
               take i (m_OwnerReferences object) @ drop (Suc i) (m_OwnerReferences object)\<rparr>)))"

section \<open>Finalizers\<close>

definition ContainsFinalizer :: "ObjectMeta \<Rightarrow> string \<Rightarrow> bool" where
  "ContainsFinalizer object finalizer \<longleftrightarrow> finalizer \<in> set (m_Finalizers object)"

definition AddFinalizer :: "ObjectMeta \<Rightarrow> string \<Rightarrow> ObjectMeta" where
  "AddFinalizer object finalizer =
     (if finalizer \<in> set (m_Finalizers object) then object
      else object\<lparr>m_Finalizers := m_Finalizers object @ [finalizer]\<rparr>)"

definition RemoveFinalizer :: "ObjectMeta \<Rightarrow> string \<Rightarrow> ObjectMeta" where
  "RemoveFinalizer object finalizer =
     object\<lparr>m_Finalizers := filter (\<lambda>f. f \<noteq> finalizer) (m_Finalizers object)\<rparr>"

section \<open>Lemmas\<close>

text \<open>The interface of a set of finalizers, and the functions as its implementation.\<close>

locale finalizer_set =
  fixes contains :: "'m \<Rightarrow> string \<Rightarrow> bool"
    and add :: "'m \<Rightarrow> string \<Rightarrow> 'm"
    and remove :: "'m \<Rightarrow> string \<Rightarrow> 'm"
  assumes contains_add: "contains (add m f) g \<longleftrightarrow> g = f \<or> contains m g"
    and contains_remove: "contains (remove m f) g \<longleftrightarrow> g \<noteq> f \<and> contains m g"
begin

lemma add_contains [simp]: "contains (add m f) f"
  by (simp add: contains_add)

lemma remove_contains [simp]: "\<not> contains (remove m f) f"
  by (simp add: contains_remove)

lemma others_kept: "f \<noteq> g \<Longrightarrow> contains (remove (add m f) f) g = contains m g"
  by (simp add: contains_add contains_remove)

end

interpretation finalizers: finalizer_set ContainsFinalizer AddFinalizer RemoveFinalizer
  by unfold_locales (auto simp: ContainsFinalizer_def AddFinalizer_def RemoveFinalizer_def)

lemma indexOwnerRef_Some:
  "indexOwnerRef rs ref = Some i \<Longrightarrow> i < length rs \<and> referSameObject (rs ! i) ref"
  by (induction rs arbitrary: i) (auto split: if_splits)

lemma find_controller_None: "List.find is_controller rs = None \<longleftrightarrow> (\<forall>r \<in> set rs. \<not> is_controller r)"
  by (auto simp: find_None_iff)

lemma find_controller_update:
  assumes "\<forall>r \<in> set rs. \<not> is_controller r" "is_controller ref"
  shows "List.find is_controller (rs @ [ref]) = Some ref"
    and "i < length rs \<Longrightarrow> List.find is_controller (rs[i := ref]) = Some ref"
proof -
  show "List.find is_controller (rs @ [ref]) = Some ref" using assms by (induction rs) auto
  show "List.find is_controller (rs[i := ref]) = Some ref" if "i < length rs"
    using assms(1) that
  proof (induction rs arbitrary: i)
    case (Cons r rs)
    then show ?case using assms(2) by (cases i) auto
  qed simp
qed

text \<open>The first controller of a list stays the first one when a reference at or before it becomes a controller.\<close>

lemma find_controller_before:
  assumes "List.find is_controller rs = Some r" "referSameObject r ref" "indexOwnerRef rs ref = Some i" "is_controller ref"
  shows "List.find is_controller (rs[i := ref]) = Some ref"
  using assms by (induction rs arbitrary: i) (auto split: if_splits)

lemma indexOwnerRef_None: "indexOwnerRef rs ref = None \<longleftrightarrow> (\<forall>r \<in> set rs. \<not> referSameObject r ref)"
  by (induction rs) auto

lemma controller_ref_is_controller [simp]: "is_controller (controller_ref owner gvk)"
  by (simp add: controller_ref_def is_controller_def)

lemma SetControllerReference_upsert:
  "SetControllerReference owner gvk object = Inr object1 \<Longrightarrow> object1 = upsertOwnerRef (controller_ref owner gvk) object"
  by (auto simp: SetControllerReference_def Let_def split: option.splits if_splits)

text \<open>Setting a controller reference makes the owner the controller, whatever the references were before.\<close>

lemma SetControllerReference_controls:
  assumes "SetControllerReference owner gvk object = Inr object1"
  shows "GetControllerOf object1 = Some (controller_ref owner gvk)"
proof (cases "GetControllerOf object")
  case None
  then have "\<forall>r \<in> set (m_OwnerReferences object). \<not> is_controller r"
    by (simp add: GetControllerOf_def find_controller_None)
  from find_controller_update [OF this controller_ref_is_controller] show ?thesis
    using SetControllerReference_upsert [OF assms] indexOwnerRef_Some
    by (auto simp: upsertOwnerRef_def GetControllerOf_def split: option.split)
next
  case (Some r)
  with assms have same: "referSameObject r (controller_ref owner gvk)"
    by (auto simp: SetControllerReference_def Let_def split: option.splits if_splits)
  have r: "List.find is_controller (m_OwnerReferences object) = Some r" using Some by (simp add: GetControllerOf_def)
  then have "r \<in> set (m_OwnerReferences object)" by (auto simp: find_Some_iff)
  with same obtain i where "indexOwnerRef (m_OwnerReferences object) (controller_ref owner gvk) = Some i"
    using indexOwnerRef_None by fastforce
  with find_controller_before [OF r same this controller_ref_is_controller] show ?thesis
    using SetControllerReference_upsert [OF assms] by (simp add: upsertOwnerRef_def GetControllerOf_def)
qed

lemma SetControllerReference_controlled:
  "SetControllerReference owner gvk object = Inr object1 \<Longrightarrow> IsControlledBy object1 owner"
  by (simp add: IsControlledBy_def SetControllerReference_controls controller_ref_def)

section \<open>Properties\<close>

lemma indexOwnerRef_split:
  "referSameObject r ref \<Longrightarrow> \<forall>x \<in> set rs1. \<not> referSameObject x ref \<Longrightarrow> indexOwnerRef (rs1 @ r # rs2) ref = Some (length rs1)"
  by (induction rs1) auto

text \<open>The reference that \<^verbatim>\<open>RemoveControllerReference\<close> looks for; references are compared by group, kind and name.\<close>

definition owner_ref :: "ObjectMeta \<Rightarrow> gvk \<Rightarrow> OwnerReference" where
  "owner_ref owner gvk = \<lparr>o_APIVersion = gv_string gvk, o_Kind = gvk_kind gvk, o_Name = m_Name owner, o_UID = [],
     o_Controller = None, o_BlockOwnerDeletion = None\<rparr>"

lemma RemoveControllerReference_exact:
  assumes "m_OwnerReferences object = rs1 @ r # rs2" "referSameObject r (owner_ref owner gvk)" "is_controller r"
    and "\<forall>x \<in> set rs1. \<not> referSameObject x (owner_ref owner gvk)"
  shows "RemoveControllerReference owner gvk object = Inr (object\<lparr>m_OwnerReferences := rs1 @ rs2\<rparr>)"
proof -
  have "List.find is_controller (rs1 @ r # rs2) \<noteq> None" using assms(3) by (auto simp: find_None_iff)
  then show ?thesis
    using indexOwnerRef_split [OF assms(2,4), of rs2] assms(1,3)
    by (simp add: RemoveControllerReference_def GetControllerOf_def owner_ref_def nth_append)
qed

lemma SetControllerReference_exact:
  assumes "validateOwner owner object = None" "\<forall>x \<in> set (m_OwnerReferences object). \<not> is_controller x"
  shows "SetControllerReference owner gvk object = Inr (upsertOwnerRef (controller_ref owner gvk) object)"
  using assms find_controller_None [of "m_OwnerReferences object"]
  by (simp add: SetControllerReference_def GetControllerOf_def Let_def del: validateOwner_None)

lemma upsertOwnerRef_exact:
  "\<forall>x \<in> set (m_OwnerReferences object). \<not> referSameObject x ref \<Longrightarrow>
     upsertOwnerRef ref object = object\<lparr>m_OwnerReferences := m_OwnerReferences object @ [ref]\<rparr>"
  "m_OwnerReferences object = ss1 @ s # ss2 \<Longrightarrow> referSameObject s ref \<Longrightarrow> \<forall>x \<in> set ss1. \<not> referSameObject x ref \<Longrightarrow>
     upsertOwnerRef ref object = object\<lparr>m_OwnerReferences := ss1 @ ref # ss2\<rparr>"
  by (simp_all add: upsertOwnerRef_def indexOwnerRef_None [THEN iffD2] indexOwnerRef_split list_update_append)

text \<open>
  C38.  Handing an object over from one controller to another, as the controller does with the data volumes of a
  request when the template exists.  Let the first reference of the object to the old owner be its one controller
  reference, and let the new owner be allowed to own it (it has no namespace, or that of the object).  Then the
  removal succeeds, and removes exactly that reference; setting the new controller succeeds on what is left; the new
  controller reference takes the place of the first reference to the new owner if there is one, and is appended if
  not; every other reference is kept, in its order, and no other field of the object changes; and the controller
  of the object is the new owner.
\<close>

theorem ownership_handed_over:
  assumes "m_OwnerReferences object = rs1 @ r # rs2" "referSameObject r (owner_ref old oldGVK)" "is_controller r"
    and "\<forall>x \<in> set rs1. \<not> referSameObject x (owner_ref old oldGVK)" "\<forall>x \<in> set (rs1 @ rs2). \<not> is_controller x"
    and "m_Namespace new = [] \<or> m_Namespace new = m_Namespace object"
  shows "\<exists>rs. RemoveControllerReference old oldGVK object = Inr (object\<lparr>m_OwnerReferences := rs1 @ rs2\<rparr>) \<and>
    SetControllerReference new newGVK (object\<lparr>m_OwnerReferences := rs1 @ rs2\<rparr>) = Inr (object\<lparr>m_OwnerReferences := rs\<rparr>) \<and>
    (if \<forall>x \<in> set (rs1 @ rs2). \<not> referSameObject x (controller_ref new newGVK)
     then rs = rs1 @ rs2 @ [controller_ref new newGVK]
     else \<exists>ss1 s ss2. rs1 @ rs2 = ss1 @ s # ss2 \<and> referSameObject s (controller_ref new newGVK) \<and>
       (\<forall>x \<in> set ss1. \<not> referSameObject x (controller_ref new newGVK)) \<and> rs = ss1 @ controller_ref new newGVK # ss2) \<and>
    GetControllerOf (object\<lparr>m_OwnerReferences := rs\<rparr>) = Some (controller_ref new newGVK) \<and>
    IsControlledBy (object\<lparr>m_OwnerReferences := rs\<rparr>) new"
proof -
  let ?ref = "controller_ref new newGVK" and ?o1 = "object\<lparr>m_OwnerReferences := rs1 @ rs2\<rparr>"
  have removed: "RemoveControllerReference old oldGVK object = Inr ?o1" using assms(1-4) by (rule RemoveControllerReference_exact)
  have upsert: "SetControllerReference new newGVK ?o1 = Inr (upsertOwnerRef ?ref ?o1)"
    by (rule SetControllerReference_exact) (use assms(5,6) in simp_all)
  define rs where "rs = m_OwnerReferences (upsertOwnerRef ?ref ?o1)"
  have "upsertOwnerRef ?ref ?o1 = object\<lparr>m_OwnerReferences := rs\<rparr>"
    by (simp add: rs_def upsertOwnerRef_def split: option.split)
  with upsert have set: "SetControllerReference new newGVK ?o1 = Inr (object\<lparr>m_OwnerReferences := rs\<rparr>)" by simp
  have "if \<forall>x \<in> set (rs1 @ rs2). \<not> referSameObject x ?ref then rs = rs1 @ rs2 @ [?ref]
     else \<exists>ss1 s ss2. rs1 @ rs2 = ss1 @ s # ss2 \<and> referSameObject s ?ref \<and>
       (\<forall>x \<in> set ss1. \<not> referSameObject x ?ref) \<and> rs = ss1 @ ?ref # ss2"
  proof (cases "\<forall>x \<in> set (rs1 @ rs2). \<not> referSameObject x ?ref")
    case True
    then show ?thesis using upsertOwnerRef_exact(1) [of ?o1 ?ref] by (simp add: rs_def)
  next
    case False
    then have "\<exists>x \<in> set (rs1 @ rs2). referSameObject x ?ref" by blast
    then obtain ss1 s ss2 where s: "rs1 @ rs2 = ss1 @ s # ss2" "referSameObject s ?ref" "\<forall>x \<in> set ss1. \<not> referSameObject x ?ref"
      by (rule split_list_first_propE)
    then have "rs = ss1 @ ?ref # ss2" using upsertOwnerRef_exact(2) [of ?o1 ss1 s ss2 ?ref] by (simp add: rs_def)
    with False s show ?thesis by auto
  qed
  with removed set SetControllerReference_controls [OF set] SetControllerReference_controlled [OF set] show ?thesis by blast
qed

theorem ownership_handed_over_witness:
  "\<exists>o1 o2. RemoveControllerReference (empty_meta\<lparr>m_Name := ''req'', m_UID := ''1''\<rparr>) (''g'', ''v'', ''R'')
      (empty_meta\<lparr>m_OwnerReferences := [controller_ref (empty_meta\<lparr>m_Name := ''req'', m_UID := ''1''\<rparr>) (''g'', ''v'', ''R'')]\<rparr>) = Inr o1 \<and>
    SetControllerReference (empty_meta\<lparr>m_Name := ''tpl'', m_UID := ''2''\<rparr>) (''g'', ''v'', ''T'') o1 = Inr o2 \<and>
    m_OwnerReferences o2 = [controller_ref (empty_meta\<lparr>m_Name := ''tpl'', m_UID := ''2''\<rparr>) (''g'', ''v'', ''T'')] \<and>
    IsControlledBy o2 (empty_meta\<lparr>m_Name := ''tpl'', m_UID := ''2''\<rparr>)"
proof -
  let ?req = "empty_meta\<lparr>m_Name := ''req'', m_UID := ''1''\<rparr>" and ?tpl = "empty_meta\<lparr>m_Name := ''tpl'', m_UID := ''2''\<rparr>"
  let ?r = "controller_ref ?req (''g'', ''v'', ''R'')"
  let ?o = "empty_meta\<lparr>m_OwnerReferences := [?r]\<rparr>"
  have "m_OwnerReferences ?o = [] @ ?r # []" "referSameObject ?r (owner_ref ?req (''g'', ''v'', ''R''))"
      "m_Namespace ?tpl = [] \<or> m_Namespace ?tpl = m_Namespace ?o"
    by (simp_all add: referSameObject_def controller_ref_def owner_ref_def parse_group_def gv_string_def gvk_kind_def)
  from ownership_handed_over [OF this(1,2) _ _ _ this(3), of "(''g'', ''v'', ''T'')"] show ?thesis by fastforce
qed

end
