(* ===== verification/Request_Objects.thy ===== *)
theory Request_Objects
  imports Api_Types Conditions Naming Processor
begin

text \<open>
  The objects that the controller of template requests reads and writes, and the functions of
  \<^verbatim>\<open>virtualmachinetemplaterequest_controller.go\<close> that compute on them without calling the API
  server: the names of the objects, the objects to create, the transformation of the volumes,
  and the predicates on the status of snapshots and data volumes.

  The records hold the fields that the controller reads or writes; what it only passes along
  is a field of type \<^typ>\<open>string\<close> that stands for the rest.
\<close>

section \<open>Objects\<close>

record SnapshotCondition =
  k_Type :: string
  k_Status :: string
  k_Reason :: string

record SnapshotStatus =
  ss_Phase :: string
  ss_ContentName :: "string option"
  ss_Conditions :: "SnapshotCondition list"

record VirtualMachineSnapshot =
  s_Meta :: ObjectMeta
  s_SourceGroup :: "string option"
  s_SourceKind :: string
  s_SourceName :: string
  s_Status :: "SnapshotStatus option"

datatype dv_source = NoSource | SnapshotSource string string | PVCSource string string | OtherSource string

record DataVolume =
  d_Meta :: ObjectMeta
  d_Source :: dv_source
  d_Storage :: bool
  d_Phase :: string
  d_Conditions :: "SnapshotCondition list"

record DataVolumeRef =
  dr_Name :: string
  dr_Hotpluggable :: bool

record Volume =
  v_Name :: string
  v_DataVolume :: "DataVolumeRef option"
  v_OtherSource :: string

record DataVolumeTemplate =
  dt_Meta :: ObjectMeta
  dt_Source :: dv_source
  dt_Storage :: bool
  dt_Rest :: string

record Interface =
  i_Name :: string
  i_MacAddress :: string
  i_Rest :: string

record Firmware =
  f_UUID :: string
  f_Serial :: string
  f_Rest :: string

record VMITemplate =
  vt_Volumes :: "Volume list"
  vt_Interfaces :: "Interface list"
  vt_Firmware :: "Firmware option"
  vt_Rest :: string

record VirtualMachineSpec =
  vs_Template :: "VMITemplate option"
  vs_DataVolumeTemplates :: "DataVolumeTemplate list"
  vs_Rest :: string

record VirtualMachine =
  vm_Meta :: ObjectMeta
  vm_Spec :: VirtualMachineSpec
  vm_Status :: string

record VolumeBackup =
  vb_VolumeName :: string
  vb_VolumeSnapshotName :: "string option"

record VirtualMachineSnapshotContent =
  sc_Meta :: ObjectMeta
  sc_SourceVM :: "VirtualMachine option"
  sc_VolumeBackups :: "VolumeBackup list"
  sc_Status :: "bool option option"

type_synonym RequestTemplate = "VirtualMachine VirtualMachineTemplate"

section \<open>Constants\<close>

definition paramNameName :: string where "paramNameName = ''NAME''"
definition paramName :: string where "paramName = ''${'' @ paramNameName @ ''}''"
definition paramNameSuffix :: string where "paramNameSuffix = ''-'' @ paramName"
definition annImmediateBinding :: string where
  "annImmediateBinding = ''cdi.kubevirt.io/storage.bind.immediate.requested''"
definition snapshotErrorReasons :: "string list" where
  "snapshotErrorReasons = [''In error state'', ''Source does not exist'']"

definition SnapshotReady :: string where "SnapshotReady = ''Ready''"
definition SnapshotProgressing :: string where "SnapshotProgressing = ''Progressing''"
definition SnapshotFailure :: string where "SnapshotFailure = ''Failure''"
definition PhaseUnset :: string where "PhaseUnset = ''''"
definition InProgress :: string where "InProgress = ''InProgress''"
definition DataVolumeReady :: string where "DataVolumeReady = ''Ready''"
definition DataVolumeRunning :: string where "DataVolumeRunning = ''Running''"
definition DataVolumeFailed :: string where "DataVolumeFailed = ''Failed''"

section \<open>Names\<close>

definition getTemplateName :: "VirtualMachineTemplateRequest \<Rightarrow> string" where
  "getTemplateName tplReq =
     (if rs_TemplateName (r_Spec tplReq) \<noteq> [] then rs_TemplateName (r_Spec tplReq) else m_Name (r_Meta tplReq))"

definition getDvName :: "VirtualMachineTemplateRequest \<Rightarrow> string \<Rightarrow> string" where
  "getDvName tplReq volumeName = GetStableName (getTemplateName tplReq) [m_UID (r_Meta tplReq), volumeName]"

section \<open>Objects to create\<close>

definition emptySnapshot :: "VirtualMachineTemplateRequest \<Rightarrow> VirtualMachineSnapshot" where
  "emptySnapshot tplReq = \<lparr>
     s_Meta = empty_meta\<lparr>m_Namespace := rs_VMNamespace (r_Spec tplReq),
       m_Name := GetStableName (m_Name (r_Meta tplReq)) [m_UID (r_Meta tplReq)]\<rparr>,
     s_SourceGroup = None, s_SourceKind = [], s_SourceName = [], s_Status = None\<rparr>"

definition newSnapshot :: "VirtualMachineTemplateRequest \<Rightarrow> VirtualMachineSnapshot" where
  "newSnapshot tplReq =
     (let snap = emptySnapshot tplReq in
      snap\<lparr>s_Meta := (s_Meta snap)\<lparr>m_Labels := [LabelRequestUID \<mapsto> m_UID (r_Meta tplReq)]\<rparr>,
           s_SourceGroup := Some (fst VirtualMachineGVK),
           s_SourceKind := snd (snd VirtualMachineGVK),
           s_SourceName := rs_VMName (r_Spec tplReq)\<rparr>)"

definition emptyDv :: "string \<Rightarrow> string \<Rightarrow> DataVolume" where
  "emptyDv namespace name = \<lparr>d_Meta = empty_meta\<lparr>m_Namespace := namespace, m_Name := name\<rparr>,
     d_Source = NoSource, d_Storage = False, d_Phase = [], d_Conditions = []\<rparr>"

definition newDv :: "string \<Rightarrow> string \<Rightarrow> string \<Rightarrow> string \<Rightarrow> string \<Rightarrow> DataVolume" where
  "newDv dvNamespace dvName tplReqUID snapNamespace snapName =
     (let dv = emptyDv dvNamespace dvName in
      dv\<lparr>d_Meta := (d_Meta dv)\<lparr>m_Annotations := [annImmediateBinding \<mapsto> []],
           m_Labels := [LabelRequestUID \<mapsto> tplReqUID]\<rparr>,
         d_Source := SnapshotSource snapNamespace snapName,
         d_Storage := True\<rparr>)"

definition emptyTemplate :: "VirtualMachineTemplateRequest \<Rightarrow> RequestTemplate" where
  "emptyTemplate tplReq = \<lparr>t_TypeMeta = empty_type,
     t_Meta = empty_meta\<lparr>m_Name := getTemplateName tplReq, m_Namespace := m_Namespace (r_Meta tplReq)\<rparr>,
     t_Spec = \<lparr>ts_VirtualMachine = None, ts_Parameters = [], ts_Message = []\<rparr>,
     t_Conditions = []\<rparr>"

definition template_labels :: "VirtualMachineTemplateRequest \<Rightarrow> (string \<rightharpoonup> string)" where
  "template_labels tplReq =
     (\<lambda>k. if HasPrefix k (GroupName @ ''/'') then None else rs_TemplateLabels (r_Spec tplReq) k)
       (LabelRequestUID \<mapsto> m_UID (r_Meta tplReq))"

definition name_parameter :: Parameter where
  "name_parameter = \<lparr>p_Name = paramNameName, p_DisplayName = [], p_Description = [], p_Value = [],
     p_Generate = ''expression'', p_From = ''vm-[a-z0-9]{5}'', p_Required = True\<rparr>"

definition newTemplate :: "VirtualMachineTemplateRequest \<Rightarrow> VirtualMachineSpec \<Rightarrow> RequestTemplate" where
  "newTemplate tplReq vmSpec =
     (let tpl = emptyTemplate tplReq in
      tpl\<lparr>t_Meta := (t_Meta tpl)\<lparr>m_Labels := template_labels tplReq\<rparr>,
          t_Spec := \<lparr>ts_VirtualMachine = Some \<lparr>re_Raw = [], re_Object = Some
              \<lparr>vm_Meta = empty_meta\<lparr>m_Name := paramName\<rparr>, vm_Spec = vmSpec, vm_Status = []\<rparr>\<rparr>,
            ts_Parameters = [name_parameter], ts_Message = []\<rparr>\<rparr>)"

section \<open>Transformation of the VirtualMachine\<close>

definition data_volume :: "string \<Rightarrow> string \<Rightarrow> Volume" where
  "data_volume volName dvName = \<lparr>v_Name = volName,
     v_DataVolume = Some \<lparr>dr_Name = dvName @ paramNameSuffix, dr_Hotpluggable = False\<rparr>, v_OtherSource = []\<rparr>"

fun transformVolume :: "Volume list \<Rightarrow> string \<Rightarrow> Volume list \<times> string" where
  "transformVolume [] volName = ([], [])"
| "transformVolume (vol # vols) volName =
     (if v_Name vol \<noteq> volName then (case transformVolume vols volName of (vols', dvName) \<Rightarrow> (vol # vols', dvName))
      else
        (let dvName = (case v_DataVolume vol of Some dv \<Rightarrow> dr_Name dv | None \<Rightarrow> volName)
         in (data_volume volName dvName # vols, dvName)))"

definition dvt_spec :: "string \<Rightarrow> string \<Rightarrow> string \<Rightarrow> DataVolumeTemplate" where
  "dvt_spec volName pvcNamespace pvcName = \<lparr>dt_Meta = empty_meta\<lparr>m_Name := volName @ paramNameSuffix\<rparr>,
     dt_Source = PVCSource pvcNamespace pvcName, dt_Storage = True, dt_Rest = []\<rparr>"

fun transformOrAddDVT :: "DataVolumeTemplate list \<Rightarrow> string \<Rightarrow> string \<Rightarrow> string \<Rightarrow> DataVolumeTemplate list" where
  "transformOrAddDVT [] volName pvcNamespace pvcName = [dvt_spec volName pvcNamespace pvcName]"
| "transformOrAddDVT (dvt # dvts) volName pvcNamespace pvcName =
     (if m_Name (dt_Meta dvt) = volName then dvt_spec volName pvcNamespace pvcName # dvts
      else dvt # transformOrAddDVT dvts volName pvcNamespace pvcName)"

definition stripUniqueIdentifiers :: "VirtualMachineSpec \<Rightarrow> VirtualMachineSpec" where
  "stripUniqueIdentifiers vmSpec =
     (case vs_Template vmSpec of
        None \<Rightarrow> vmSpec
      | Some t \<Rightarrow>
          vmSpec\<lparr>vs_Template := Some (t\<lparr>vt_Interfaces := map (\<lambda>i. i\<lparr>i_MacAddress := []\<rparr>) (vt_Interfaces t),
            vt_Firmware := map_option (\<lambda>f. f\<lparr>f_Serial := [], f_UUID := []\<rparr>) (vt_Firmware t)\<rparr>)\<rparr>)"

definition getBackendStoragePVCName :: "VirtualMachineSnapshotContent \<Rightarrow> string" where
  "getBackendStoragePVCName snapContent =
     (case List.find (\<lambda>vol. strings_Contains (vb_VolumeName vol) ''persistent-state-for'') (sc_VolumeBackups snapContent) of
        Some vol \<Rightarrow> vb_VolumeName vol
      | None \<Rightarrow> [])"

text \<open>The loop of \<^verbatim>\<open>createTemplate\<close> over the volume backups.\<close>

fun transform_backups ::
  "VirtualMachineTemplateRequest \<Rightarrow> string \<Rightarrow> VolumeBackup list \<Rightarrow> Volume list \<times> DataVolumeTemplate list
    \<Rightarrow> Volume list \<times> DataVolumeTemplate list" where
  "transform_backups tplReq backend [] st = st"
| "transform_backups tplReq backend (vb # vbs) (vols, dvts) =
     (if vb_VolumeName vb = backend then transform_backups tplReq backend vbs (vols, dvts)
      else
        (case transformVolume vols (vb_VolumeName vb) of
           (vols', dvName) \<Rightarrow>
             transform_backups tplReq backend vbs
               (vols', transformOrAddDVT dvts (if dvName = [] then vb_VolumeName vb else dvName)
                  (m_Namespace (r_Meta tplReq)) (getDvName tplReq (vb_VolumeName vb)))))"

text \<open>The spec of the VirtualMachine in the new template; \<^term>\<open>None\<close> when it has no template spec.\<close>

definition template_spec ::
  "VirtualMachineTemplateRequest \<Rightarrow> VirtualMachineSnapshotContent \<Rightarrow> VirtualMachineSpec \<Rightarrow> VirtualMachineSpec option" where
  "template_spec tplReq snapContent vmSpec =
     (case vs_Template (stripUniqueIdentifiers vmSpec) of
        None \<Rightarrow> None
      | Some t \<Rightarrow>
          (case transform_backups tplReq (getBackendStoragePVCName snapContent) (sc_VolumeBackups snapContent)
             (vt_Volumes t, vs_DataVolumeTemplates vmSpec) of
             (vols, dvts) \<Rightarrow>
               Some ((stripUniqueIdentifiers vmSpec)\<lparr>vs_Template := Some (t\<lparr>vt_Volumes := vols\<rparr>),
                 vs_DataVolumeTemplates := dvts\<rparr>)))"

section \<open>Predicates\<close>

definition validateRequest :: "VirtualMachineTemplateRequest \<Rightarrow> string option" where
  "validateRequest tplReq =
     (if rs_VMNamespace (r_Spec tplReq) = [] then Some ''virtualMachineRef.namespace cannot be empty''
      else if rs_VMName (r_Spec tplReq) = [] then Some ''virtualMachineRef.name cannot be empty''
      else None)"

definition shouldReconcile :: "VirtualMachineTemplateRequest \<Rightarrow> bool" where
  "shouldReconcile tplReq \<longleftrightarrow>
     (case FindStatusCondition (r_Conditions tplReq) ConditionProgressing of
        None \<Rightarrow> True | Some c \<Rightarrow> c_Status c \<noteq> ConditionFalse)"

definition findSnapshotStatusCondition :: "VirtualMachineSnapshot \<Rightarrow> string \<Rightarrow> SnapshotCondition option" where
  "findSnapshotStatusCondition snap condType =
     (case s_Status snap of
        None \<Rightarrow> None
      | Some st \<Rightarrow> List.find (\<lambda>c. k_Type c = condType) (ss_Conditions st))"

definition isSnapshotStatusConditionTrue :: "VirtualMachineSnapshot \<Rightarrow> string \<Rightarrow> bool \<times> bool" where
  "isSnapshotStatusConditionTrue snap condType =
     (case findSnapshotStatusCondition snap condType of
        None \<Rightarrow> (False, False) | Some c \<Rightarrow> (k_Status c = ConditionTrue, True))"

text \<open>\<^term>\<open>None\<close> is the panic on a snapshot without a status.\<close>

definition isSnapshotProgressing :: "VirtualMachineSnapshot \<Rightarrow> bool option" where
  "isSnapshotProgressing snap =
     (case findSnapshotStatusCondition snap SnapshotProgressing of
        None \<Rightarrow> Some True
      | Some c \<Rightarrow>
          if k_Status c = ConditionTrue then Some True
          else
            (case s_Status snap of
               None \<Rightarrow> None
             | Some st \<Rightarrow>
                 Some ((ss_Phase st = PhaseUnset \<or> ss_Phase st = InProgress) \<and>
                   k_Reason c \<notin> set snapshotErrorReasons)))"

definition isDataVolumeStatusConditionTrue :: "DataVolume \<Rightarrow> string \<Rightarrow> bool \<times> bool" where
  "isDataVolumeStatusConditionTrue dv condType =
     (case List.find (\<lambda>c. k_Type c = condType) (d_Conditions dv) of
        None \<Rightarrow> (False, False) | Some c \<Rightarrow> (k_Status c = ConditionTrue, True))"

text \<open>\<^term>\<open>Inl\<close> is the name of the volume whose snapshot is missing.\<close>

definition isSnapshotContentReady :: "VirtualMachineSnapshotContent \<Rightarrow> string + bool" where
  "isSnapshotContentReady snapContent =
     (if sc_Status snapContent \<noteq> Some (Some True) then Inr False
      else
        (case List.find (\<lambda>vol. vb_VolumeSnapshotName vol = None \<or> vb_VolumeSnapshotName vol = Some [])
           (sc_VolumeBackups snapContent) of
           Some vol \<Rightarrow> Inl (vb_VolumeName vol)
         | None \<Rightarrow> Inr True))"

section \<open>Conditions of a request\<close>

definition setReadyCondition ::
  "time \<Rightarrow> string \<Rightarrow> string \<Rightarrow> string \<Rightarrow> VirtualMachineTemplateRequest \<Rightarrow> VirtualMachineTemplateRequest" where
  "setReadyCondition now status reason message tplReq =
     tplReq\<lparr>r_Conditions := fst (SetStatusCondition now (r_Conditions tplReq)
       \<lparr>c_Type = ConditionReady, c_Status = status, c_ObservedGeneration = m_Generation (r_Meta tplReq),
        c_LastTransitionTime = 0, c_Reason = reason, c_Message = message\<rparr>)\<rparr>"

definition setProgressingCondition ::
  "time \<Rightarrow> string \<Rightarrow> string \<Rightarrow> VirtualMachineTemplateRequest \<Rightarrow> VirtualMachineTemplateRequest" where
  "setProgressingCondition now status reason tplReq =
     tplReq\<lparr>r_Conditions := fst (SetStatusCondition now (r_Conditions tplReq)
       \<lparr>c_Type = ConditionProgressing, c_Status = status, c_ObservedGeneration = m_Generation (r_Meta tplReq),
        c_LastTransitionTime = 0, c_Reason = reason, c_Message = []\<rparr>)\<rparr>"

definition setTemplateRef :: "VirtualMachineTemplateRequest \<Rightarrow> RequestTemplate \<Rightarrow> VirtualMachineTemplateRequest" where
  "setTemplateRef tplReq tpl = tplReq\<lparr>r_TemplateRef := Some (m_Name (t_Meta tpl))\<rparr>"

definition object_name :: "ObjectMeta \<Rightarrow> string" where
  "object_name m = m_Namespace m @ ''/'' @ m_Name m"

definition setStatusConditions ::
  "time \<Rightarrow> string option \<Rightarrow> VirtualMachineTemplateRequest \<Rightarrow> VirtualMachineTemplateRequest" where
  "setStatusConditions now retErr tplReq =
     (case retErr of
        Some e \<Rightarrow>
          (let tplReq1 = setReadyCondition now ConditionFalse ReasonFailed e tplReq in
           if FindStatusCondition (r_Conditions tplReq1) ConditionProgressing = None
           then setProgressingCondition now ConditionTrue ReasonReconciling tplReq1 else tplReq1)
      | None \<Rightarrow>
          (let (tplReq1, progressingStatus, progressingReason) =
             (case FindStatusCondition (r_Conditions tplReq) ConditionReady of
                None \<Rightarrow> (setReadyCondition now ConditionFalse ReasonReconciling [] tplReq, ConditionTrue, ReasonReconciling)
              | Some c \<Rightarrow>
                  if c_Status c = ConditionTrue then (tplReq, ConditionFalse, ReasonReconciled)
                  else (tplReq, ConditionTrue, ReasonReconciling))
           in if FindStatusCondition (r_Conditions tplReq1) ConditionProgressing = None
              then setProgressingCondition now progressingStatus progressingReason tplReq1 else tplReq1))"

text \<open>\<^term>\<open>None\<close> is a panic, as above.\<close>

definition syncSnapshotStatusConditions ::
  "time \<Rightarrow> VirtualMachineTemplateRequest \<Rightarrow> VirtualMachineSnapshot \<Rightarrow> VirtualMachineTemplateRequest option" where
  "syncSnapshotStatusConditions now tplReq snap =
     (let failed = fst (isSnapshotStatusConditionTrue snap SnapshotFailure);
          stopped = setProgressingCondition now ConditionFalse ReasonFailed
            (setReadyCondition now ConditionFalse ReasonFailed
              (''VirtualMachineSnapshot '' @ object_name (s_Meta snap) @ '' failed'') tplReq)
      in if failed then Some stopped
         else
           (case isSnapshotProgressing snap of
              None \<Rightarrow> None
            | Some True \<Rightarrow>
                Some (setReadyCondition now ConditionFalse ReasonWaiting
                  (''Waiting for VirtualMachineSnapshot '' @ object_name (s_Meta snap) @ '' to be ready'') tplReq)
            | Some False \<Rightarrow> Some stopped))"

definition syncDataVolumeStatusConditions ::
  "time \<Rightarrow> VirtualMachineTemplateRequest \<Rightarrow> DataVolume \<Rightarrow> VirtualMachineTemplateRequest" where
  "syncDataVolumeStatusConditions now tplReq dv =
     (let (running, present) = isDataVolumeStatusConditionTrue dv DataVolumeRunning;
          progressing = (if \<not> running \<and> present \<and> d_Phase dv \<noteq> DataVolumeFailed then True else running)
      in if progressing \<or> \<not> present then
           setProgressingCondition now ConditionTrue ReasonWaiting
             (setReadyCondition now ConditionFalse ReasonWaiting
               (''Waiting for DataVolume '' @ object_name (d_Meta dv) @ '' to be ready'') tplReq)
         else
           setProgressingCondition now ConditionFalse ReasonFailed
             (setReadyCondition now ConditionFalse ReasonFailed
               (''DataVolume '' @ object_name (d_Meta dv) @ '' failed'') tplReq))"

definition syncTemplateStatusConditions ::
  "time \<Rightarrow> VirtualMachineTemplateRequest \<Rightarrow> RequestTemplate \<Rightarrow> VirtualMachineTemplateRequest" where
  "syncTemplateStatusConditions now tplReq tpl =
     (case FindStatusCondition (t_Conditions tpl) ConditionReady of
        None \<Rightarrow>
          setReadyCondition now ConditionFalse ReasonWaiting
            (''Waiting for VirtualMachineTemplate '' @ object_name (t_Meta tpl) @ '' to be ready'') tplReq
      | Some c \<Rightarrow>
          if c_Status c \<noteq> ConditionTrue then
            setReadyCondition now ConditionFalse ReasonWaiting
              (''Waiting for VirtualMachineTemplate '' @ object_name (t_Meta tpl) @ '' to be ready'') tplReq
          else setReadyCondition now ConditionTrue ReasonReconciled (c_Message c) tplReq)"

section \<open>The volumes of a template\<close>

definition find_volume :: "Volume list \<Rightarrow> string \<Rightarrow> Volume option" where
  "find_volume vols n = List.find (\<lambda>v. v_Name v = n) vols"

text \<open>The name of the data volume of a volume, or the name of the volume when it has none.\<close>

definition source_dv :: "Volume list \<Rightarrow> string \<Rightarrow> string" where
  "source_dv vols n =
     (case find_volume vols n of
        Some vol \<Rightarrow> (case v_DataVolume vol of Some dv \<Rightarrow> dr_Name dv | None \<Rightarrow> n)
      | None \<Rightarrow> n)"

definition named_data_volumes :: "Volume list \<Rightarrow> bool" where
  "named_data_volumes vols \<longleftrightarrow> (\<forall>vol \<in> set vols. \<forall>dv. v_DataVolume vol = Some dv \<longrightarrow> dr_Name dv \<noteq> [])"

lemma transformVolume_find:
  "transformVolume vols n = (vols', dvName) \<Longrightarrow>
   find_volume vols' m = (if m = n then map_option (\<lambda>v. data_volume n (source_dv vols n)) (find_volume vols n)
     else find_volume vols m)"
proof (induction vols arbitrary: vols')
  case (Cons vol vols)
  show ?case
  proof (cases "v_Name vol = n")
    case True
    with Cons.prems show ?thesis
      by (auto simp: find_volume_def source_dv_def data_volume_def Let_def split: option.splits)
  next
    case False
    with Cons.prems obtain ws where ws: "transformVolume vols n = (ws, dvName)" "vols' = vol # ws"
      by (auto split: prod.splits)
    from Cons.IH [OF ws(1)] False ws(2) show ?thesis
      by (auto simp: find_volume_def source_dv_def split: option.splits)
  qed
qed (simp add: find_volume_def)

lemma transformVolume_name:
  assumes "transformVolume vols n = (vols', dvName)" "named_data_volumes vols"
  shows "(if dvName = [] then n else dvName) = source_dv vols n"
  using assms
proof (induction vols arbitrary: vols')
  case (Cons vol vols)
  show ?case
  proof (cases "v_Name vol = n")
    case True
    with Cons.prems show ?thesis
      by (auto simp: find_volume_def source_dv_def named_data_volumes_def Let_def split: option.splits)
  next
    case False
    with Cons.prems obtain ws where "transformVolume vols n = (ws, dvName)" by (auto split: prod.splits)
    with Cons False show ?thesis by (auto simp: find_volume_def source_dv_def named_data_volumes_def)
  qed
qed (simp add: find_volume_def source_dv_def)

lemma transformVolume_named:
  "transformVolume vols n = (vols', dvName) \<Longrightarrow> named_data_volumes vols \<Longrightarrow> named_data_volumes vols'"
  by (induction vols arbitrary: vols')
     (auto simp: named_data_volumes_def data_volume_def Let_def paramNameSuffix_def split: if_splits prod.splits)

lemma transformOrAddDVT_set:
  "set (transformOrAddDVT dvts n ns pvc) \<subseteq> insert (dvt_spec n ns pvc) (set dvts)"
  "dvt_spec n ns pvc \<in> set (transformOrAddDVT dvts n ns pvc)"
  "d \<in> set dvts \<Longrightarrow> m_Name (dt_Meta d) \<noteq> n \<Longrightarrow> d \<in> set (transformOrAddDVT dvts n ns pvc)"
  by (induction dvts) auto

lemma dvt_spec_name [simp]: "m_Name (dt_Meta (dvt_spec n ns pvc)) = n @ paramNameSuffix"
  by (simp add: dvt_spec_def)

lemma dollar_suffix: "CHR ''$'' \<in> set paramNameSuffix"
  by (simp add: paramNameSuffix_def paramName_def)

text \<open>The backups that the loop works on.\<close>

definition backed_up :: "string \<Rightarrow> VolumeBackup list \<Rightarrow> string list" where
  "backed_up backend vbs = filter (\<lambda>n. n \<noteq> backend) (map vb_VolumeName vbs)"

text \<open>
  What the loop does for the names \<open>ns\<close>: the data volume templates with a parametrized name are
  kept, the volumes of the names refer to the parametrized data volume, the template of each
  of these is there, and no other template is new.
\<close>

definition backup_dvt :: "VirtualMachineTemplateRequest \<Rightarrow> Volume list \<Rightarrow> string \<Rightarrow> DataVolumeTemplate" where
  "backup_dvt tplReq vols n = dvt_spec (source_dv vols n) (m_Namespace (r_Meta tplReq)) (getDvName tplReq n)"

definition transformed :: "VirtualMachineTemplateRequest \<Rightarrow> string list \<Rightarrow> Volume list \<Rightarrow> DataVolumeTemplate list
    \<Rightarrow> Volume list \<Rightarrow> DataVolumeTemplate list \<Rightarrow> bool" where
  "transformed tplReq ns vols dvts vols' dvts' \<longleftrightarrow>
     (\<forall>d \<in> set dvts. CHR ''$'' \<in> set (m_Name (dt_Meta d)) \<longrightarrow> d \<in> set dvts') \<and>
     (\<forall>n. find_volume vols' n = (if n \<in> set ns
        then map_option (\<lambda>v. data_volume n (source_dv vols n)) (find_volume vols n) else find_volume vols n)) \<and>
     (\<forall>n \<in> set ns. backup_dvt tplReq vols n \<in> set dvts') \<and>
     (\<forall>d \<in> set dvts'. d \<in> set dvts \<or> (\<exists>n \<in> set ns. d = backup_dvt tplReq vols n))"

lemma transformed_one:
  assumes tv: "transformVolume vols n = (vols1, dvName)" and nod: "CHR ''$'' \<notin> set (source_dv vols n)"
  shows "transformed tplReq [n] vols dvts vols1
    (transformOrAddDVT dvts (source_dv vols n) (m_Namespace (r_Meta tplReq)) (getDvName tplReq n))"
proof -
  have "m_Name (dt_Meta d) \<noteq> source_dv vols n" if "CHR ''$'' \<in> set (m_Name (dt_Meta d))" for d
    using that nod by auto
  then show ?thesis
    using transformVolume_find [OF tv] transformOrAddDVT_set(1,2) [where dvts = dvts and n = "source_dv vols n" and
      ns = "m_Namespace (r_Meta tplReq)" and pvc = "getDvName tplReq n"]
    by (auto simp: transformed_def backup_dvt_def intro: transformOrAddDVT_set(3))
qed

lemma backup_dvt_dollar: "CHR ''$'' \<in> set (m_Name (dt_Meta (backup_dvt tplReq vols n)))"
  using dollar_suffix by (simp add: backup_dvt_def)

lemma transformed_Cons:
  assumes one: "transformed tplReq [n] vols dvts vols1 dvts1" and rest: "transformed tplReq ns vols1 dvts1 vols' dvts'"
    and n: "n \<notin> set ns"
  shows "transformed tplReq (n # ns) vols dvts vols' dvts'"
proof -
  have find1: "find_volume vols1 m = find_volume vols m" if "m \<noteq> n" for m
    using one that by (auto simp: transformed_def)
  have src: "source_dv vols1 m = source_dv vols m" if "m \<in> set ns" for m
  proof -
    from that n have "m \<noteq> n" by auto
    then show ?thesis by (simp add: source_dv_def find1)
  qed
  then have dvt: "backup_dvt tplReq vols1 m = backup_dvt tplReq vols m" if "m \<in> set ns" for m
    using that by (simp add: backup_dvt_def)
  have keep: "d \<in> set dvts'" if "d \<in> set dvts1" "CHR ''$'' \<in> set (m_Name (dt_Meta d))" for d
    using rest that by (auto simp: transformed_def)
  have "find_volume vols' m = (if m \<in> set (n # ns)
      then map_option (\<lambda>v. data_volume m (source_dv vols m)) (find_volume vols m) else find_volume vols m)" for m
    using one rest n src [of m] find1 [of m] by (auto simp: transformed_def)
  moreover have "backup_dvt tplReq vols m \<in> set dvts'" if "m \<in> set (n # ns)" for m
  proof (cases "m = n")
    case True
    with one have "backup_dvt tplReq vols m \<in> set dvts1" by (simp add: transformed_def)
    then show ?thesis by (rule keep) (rule backup_dvt_dollar)
  next
    case False
    with that rest dvt [of m] show ?thesis by (auto simp: transformed_def)
  qed
  moreover have "d \<in> set dvts \<or> (\<exists>m \<in> set (n # ns). d = backup_dvt tplReq vols m)" if "d \<in> set dvts'" for d
  proof -
    from rest that consider "d \<in> set dvts1" | m where "m \<in> set ns" "d = backup_dvt tplReq vols1 m"
      unfolding transformed_def by blast
    then show ?thesis
    proof cases
      case 1
      with one show ?thesis unfolding transformed_def by auto
    next
      case 2
      with dvt show ?thesis by auto
    qed
  qed
  moreover have "d \<in> set dvts'" if "d \<in> set dvts" "CHR ''$'' \<in> set (m_Name (dt_Meta d))" for d
    using one that by (intro keep) (auto simp: transformed_def)
  ultimately show ?thesis unfolding transformed_def by blast
qed

lemma transform_backups_result:
  "transform_backups tplReq backend vbs (vols, dvts) = (vols', dvts') \<Longrightarrow>
   distinct (backed_up backend vbs) \<Longrightarrow> named_data_volumes vols \<Longrightarrow>
   \<forall>n \<in> set (backed_up backend vbs). CHR ''$'' \<notin> set (source_dv vols n) \<Longrightarrow>
   transformed tplReq (backed_up backend vbs) vols dvts vols' dvts'"
proof (induction vbs arbitrary: vols dvts)
  case Nil
  then show ?case by (simp add: backed_up_def transformed_def)
next
  case (Cons vb vbs)
  let ?n = "vb_VolumeName vb"
  show ?case
  proof (cases "?n = backend")
    case True
    with Cons show ?thesis by (simp add: backed_up_def)
  next
    case False
    then have bu: "backed_up backend (vb # vbs) = ?n # backed_up backend vbs" by (simp add: backed_up_def)
    obtain vols1 dvName where tv: "transformVolume vols ?n = (vols1, dvName)" by (cases "transformVolume vols ?n")
    let ?dvts1 = "transformOrAddDVT dvts (source_dv vols ?n) (m_Namespace (r_Meta tplReq)) (getDvName tplReq ?n)"
    have one: "transformed tplReq [?n] vols dvts vols1 ?dvts1"
      using tv Cons.prems(4) by (intro transformed_one) (auto simp: bu)
    have "source_dv vols1 n = source_dv vols n" if "n \<in> set (backed_up backend vbs)" for n
    proof -
      from that Cons.prems(2) have "n \<noteq> ?n" by (auto simp: bu)
      then show ?thesis by (simp add: source_dv_def transformVolume_find [OF tv])
    qed
    then have nod1: "\<forall>n \<in> set (backed_up backend vbs). CHR ''$'' \<notin> set (source_dv vols1 n)"
      using Cons.prems(4) by (simp add: bu)
    have "transform_backups tplReq backend vbs (vols1, ?dvts1) = (vols', dvts')"
      using Cons.prems(1)
      by (simp only: transform_backups.simps tv prod.case False if_False transformVolume_name [OF tv Cons.prems(3)])
    then have rest: "transformed tplReq (backed_up backend vbs) vols1 ?dvts1 vols' dvts'"
    proof (rule Cons.IH)
      show "distinct (backed_up backend vbs)" using Cons.prems(2) by (simp add: bu)
    qed (rule transformVolume_named [OF tv Cons.prems(3)], rule nod1)
    have "?n \<notin> set (backed_up backend vbs)" using Cons.prems(2) by (simp add: bu)
    with one rest show ?thesis unfolding bu by (rule transformed_Cons)
  qed
qed

section \<open>Properties\<close>

lemma template_spec_fields:
  assumes "vs_Template vmSpec = Some t"
    and "transform_backups tplReq (getBackendStoragePVCName sc) (sc_VolumeBackups sc)
      (vt_Volumes t, vs_DataVolumeTemplates vmSpec) = (vols, dvts)"
  shows "template_spec tplReq sc vmSpec = Some (vmSpec\<lparr>
    vs_Template := Some (t\<lparr>vt_Volumes := vols, vt_Interfaces := map (\<lambda>i. i\<lparr>i_MacAddress := []\<rparr>) (vt_Interfaces t),
      vt_Firmware := map_option (\<lambda>f. f\<lparr>f_Serial := [], f_UUID := []\<rparr>) (vt_Firmware t)\<rparr>),
    vs_DataVolumeTemplates := dvts\<rparr>)"
  using assms by (simp add: template_spec_def stripUniqueIdentifiers_def)


text \<open>
  The identifiers that must be unique to a machine are not taken over into the template:
  no interface has a MAC address, and the firmware has neither a serial number nor a UUID;
  everything else of the interfaces and the firmware is.
\<close>

theorem template_identifiers_stripped:
  assumes "template_spec tplReq sc vmSpec = Some spec"
  shows "\<exists>t t'. vs_Template vmSpec = Some t \<and> vs_Template spec = Some t' \<and>
    list_all2 (\<lambda>i j. j = i\<lparr>i_MacAddress := []\<rparr>) (vt_Interfaces t) (vt_Interfaces t') \<and>
    (case vt_Firmware t of
       None \<Rightarrow> vt_Firmware t' = None
     | Some f \<Rightarrow> vt_Firmware t' = Some \<lparr>f_UUID = [], f_Serial = [], f_Rest = f_Rest f\<rparr>) \<and>
    vt_Rest t' = vt_Rest t \<and> vs_Rest spec = vs_Rest vmSpec"
proof -
  from assms obtain t where t: "vs_Template vmSpec = Some t"
    by (auto simp: template_spec_def stripUniqueIdentifiers_def split: option.splits)
  obtain vols dvts where "transform_backups tplReq (getBackendStoragePVCName sc) (sc_VolumeBackups sc)
      (vt_Volumes t, vs_DataVolumeTemplates vmSpec) = (vols, dvts)" by (metis surj_pair)
  from assms template_spec_fields [OF t this] t show ?thesis
    by (cases "vt_Firmware t") (auto simp: list_all2_conv_all_nth)
qed

text \<open>
  The labels of a new template: the label of the request has the request's uid, whatever
  labels the request asks for, so the controller recognizes the template as its own; no
  other label has the reserved prefix; and every label without it is taken over.
\<close>

theorem template_labels_reserved:
  "m_Labels (t_Meta (newTemplate tplReq spec)) LabelRequestUID = Some (m_UID (r_Meta tplReq)) \<and>
   (\<forall>k. k \<noteq> LabelRequestUID \<longrightarrow> m_Labels (t_Meta (newTemplate tplReq spec)) k =
      (if HasPrefix k ''template.kubevirt.io/'' then None else rs_TemplateLabels (r_Spec tplReq) k))"
  by (simp add: newTemplate_def template_labels_def Let_def GroupName_def)


definition example_request :: VirtualMachineTemplateRequest where
  "example_request = \<lparr>
     r_Meta = empty_meta\<lparr>m_Name := ''golden'', m_Namespace := ''ns'', m_UID := ''u1''\<rparr>,
     r_Spec = \<lparr>rs_VMNamespace = ''ns'', rs_VMName = ''vm'', rs_TemplateName = [], rs_TemplateLabels = Map.empty,
       rs_TTLSecondsAfterFinished = None\<rparr>,
     r_Conditions = [], r_TemplateRef = None\<rparr>"

definition example_vm_template :: VMITemplate where
  "example_vm_template = \<lparr>vt_Volumes =
       [\<lparr>v_Name = ''disk0'', v_DataVolume = Some \<lparr>dr_Name = ''dv0'', dr_Hotpluggable = False\<rparr>, v_OtherSource = []\<rparr>],
     vt_Interfaces = [\<lparr>i_Name = ''eth0'', i_MacAddress = ''02:00'', i_Rest = []\<rparr>],
     vt_Firmware = Some \<lparr>f_UUID = ''u'', f_Serial = ''s'', f_Rest = []\<rparr>, vt_Rest = []\<rparr>"

definition example_vm_spec :: VirtualMachineSpec where
  "example_vm_spec = \<lparr>vs_Template = Some example_vm_template, vs_DataVolumeTemplates = [], vs_Rest = []\<rparr>"

definition example_content :: VirtualMachineSnapshotContent where
  "example_content = \<lparr>sc_Meta = empty_meta\<lparr>m_Namespace := ''ns'', m_Name := ''content''\<rparr>,
     sc_SourceVM = Some \<lparr>vm_Meta = empty_meta, vm_Spec = example_vm_spec, vm_Status = []\<rparr>,
     sc_VolumeBackups = [\<lparr>vb_VolumeName = ''disk0'', vb_VolumeSnapshotName = Some ''vs0''\<rparr>],
     sc_Status = Some (Some True)\<rparr>"

lemma example_backed_up:
  "backed_up (getBackendStoragePVCName example_content) (sc_VolumeBackups example_content) = [''disk0'']"
  by (simp add: example_content_def backed_up_def getBackendStoragePVCName_def strings_Contains_def)

lemma example_source_dv: "source_dv (vt_Volumes example_vm_template) ''disk0'' = ''dv0''"
  by (simp add: source_dv_def find_volume_def example_vm_template_def)

text \<open>A volume \<open>x\<close> without a data volume beside a volume with the data volume \<open>x\<close>.\<close>

definition colliding_template :: VMITemplate where
  "colliding_template = \<lparr>vt_Volumes =
       [\<lparr>v_Name = ''x'', v_DataVolume = None, v_OtherSource = ''pvc''\<rparr>,
        \<lparr>v_Name = ''y'', v_DataVolume = Some \<lparr>dr_Name = ''x'', dr_Hotpluggable = False\<rparr>, v_OtherSource = []\<rparr>],
     vt_Interfaces = [], vt_Firmware = None, vt_Rest = []\<rparr>"

definition colliding_content :: VirtualMachineSnapshotContent where
  "colliding_content = example_content\<lparr>sc_VolumeBackups :=
     [\<lparr>vb_VolumeName = ''x'', vb_VolumeSnapshotName = Some ''vs0''\<rparr>, \<lparr>vb_VolumeName = ''y'', vb_VolumeSnapshotName = Some ''vs1''\<rparr>]\<rparr>"

lemma colliding_backed_up:
  "backed_up (getBackendStoragePVCName colliding_content) (sc_VolumeBackups colliding_content) = [''x'', ''y'']"
  by (simp add: colliding_content_def backed_up_def getBackendStoragePVCName_def strings_Contains_def)

lemma colliding_source_dv:
  "source_dv (vt_Volumes colliding_template) ''x'' = ''x''" "source_dv (vt_Volumes colliding_template) ''y'' = ''x''"
  by (simp_all add: source_dv_def find_volume_def colliding_template_def)


theorem template_identifiers_stripped_witness:
  "\<exists>spec t'. template_spec example_request example_content example_vm_spec = Some spec \<and>
     vs_Template spec = Some t' \<and> map i_MacAddress (vt_Interfaces t') = [[]]"
proof -
  obtain vols dvts where "transform_backups example_request (getBackendStoragePVCName example_content)
      (sc_VolumeBackups example_content) (vt_Volumes example_vm_template, vs_DataVolumeTemplates example_vm_spec) = (vols, dvts)"
    by (metis surj_pair)
  then obtain spec where spec: "template_spec example_request example_content example_vm_spec = Some spec"
    using template_spec_fields [of example_vm_spec example_vm_template] by (simp add: example_vm_spec_def)
  from template_identifiers_stripped [OF spec] obtain t' where "vs_Template spec = Some t'"
    "list_all2 (\<lambda>i j. j = i\<lparr>i_MacAddress := []\<rparr>) (vt_Interfaces example_vm_template) (vt_Interfaces t')"
    by (auto simp: example_vm_spec_def)
  with spec show ?thesis by (auto simp: example_vm_template_def list_all2_Cons1)
qed

theorem template_labels_reserved_witness:
  "m_Labels (t_Meta (newTemplate example_request example_vm_spec)) ''template.kubevirt.io/RequestUID'' = Some ''u1'' \<and>
   m_Labels (t_Meta (newTemplate example_request example_vm_spec)) ''template.kubevirt.io/other'' = None"
  using template_labels_reserved [of example_request example_vm_spec]
  by (auto simp: example_request_def LabelRequestUID_def GroupName_def)

text \<open>
  A VirtualMachine made from a new template without a name of the user's own gets a name
  that is a valid DNS label: the parameter NAME of the template is generated as \<^verbatim>\<open>vm-\<close> followed by
  five lower-case letters or digits, as long as the random source delivers.
\<close>

theorem default_name_generated:
  assumes "\<forall>i k. \<exists>x. srcs i k = Inr x"
  shows "\<exists>params q v. generateParameterValues srcs (ts_Parameters (t_Spec (newTemplate tplReq spec)))
      (generators_of (fst (GetDefaultProcessor None))) = Some (Inr params) \<and>
    params paramNameName = Some q \<and> p_Value q = ''vm-'' @ v \<and> length v = 5 \<and>
    (\<forall>c \<in> set v. is_lower c \<or> is_digit c) \<and> IsDNS1035Label (p_Value q) = []"
proof -
  have al: "getAlphabetFromRanges ''a-z0-9'' = Inr ''0123456789abcdefghijklmnopqrstuvwxyz''" by code_simp
  moreover have "MatchString rangePattern ''a-z0-9''" by code_simp
  moreover have "strconv_Atoi ''5'' = Some 5" by code_simp
  moreover have "list_all is_range_char ''a-z0-9''" "list_all is_word ''5''" by code_simp+
  ultimately obtain v where v: "GenerateValue (srcs 0) 0 ''vm-[a-z0-9]{5}'' = Some (Inr (''vm-'' @ v))"
    "length v = 5" "set v \<subseteq> set ''0123456789abcdefghijklmnopqrstuvwxyz''"
    using GenerateValue_single [of "srcs 0" "''a-z0-9''" "''5''" 5 "''0123456789abcdefghijklmnopqrstuvwxyz''" "''vm-''" "[]" 0]
      assms by (auto simp: minLength_def maxLength_def)
  have "list_all (\<lambda>c. is_lower c \<or> is_digit c) ''0123456789abcdefghijklmnopqrstuvwxyz''"
    by (simp add: char_classes)
  with v(3) have cls: "\<forall>c \<in> set v. is_lower c \<or> is_digit c" unfolding list_all_iff by blast
  have "generateParameterValues srcs (ts_Parameters (t_Spec (newTemplate tplReq spec)))
      (generators_of (fst (GetDefaultProcessor None))) =
      Some (Inr [paramNameName \<mapsto> name_parameter\<lparr>p_Value := ''vm-'' @ v\<rparr>])"
    using v(1) by (simp add: newTemplate_def Let_def generateParameterValues_def generate_value_of_def name_parameter_def
        GetDefaultProcessor_def paramNameName_def)
  moreover have "IsDNS1035Label (''vm-'' @ v) = []"
  proof -
    have "v \<noteq> []" using v(2) by auto
    then have "last v \<in> set v" by simp
    with cls have "is_label_end (last v)" by (auto simp: is_label_end_def)
    moreover have "\<forall>c \<in> set v. is_label_mid c" using cls by (auto simp: is_label_mid_def)
    ultimately show ?thesis
      using v(2) \<open>v \<noteq> []\<close> by (simp add: IsDNS1035Label_ok is_dns1035_def is_label_mid_def list_all_iff) (simp add: char_classes)
  qed
  ultimately show ?thesis using v(2) cls by auto
qed

theorem default_name_generated_witness:
  "\<exists>params q v. generateParameterValues (\<lambda>i k. Inr (3 * k)) (ts_Parameters (t_Spec (newTemplate example_request example_vm_spec)))
      (generators_of (fst (GetDefaultProcessor None))) = Some (Inr params) \<and>
    params paramNameName = Some q \<and> p_Value q = ''vm-'' @ v \<and> length v = 5"
  using default_name_generated [of "\<lambda>i k. Inr (3 * k)" example_request example_vm_spec] by auto

end
