(* ===== verification/Kube_Client.thy ===== *)
theory Kube_Client
  imports Request_Objects Owner_References "HOL-Library.State_Monad"
begin

text \<open>
  The API server as the controllers see it.  A client is a record of functions on a world of
  any type: what a call returns and how it changes the world is not fixed, so that what is
  proved of a controller holds for every behaviour of the cluster, failures and concurrent
  changes included.

  A controller runs in the state \<open>env\<close>, which holds the world, the request that the controller
  works on (the Go code changes it through a pointer), and the trace of the calls with what
  they returned.  A call that fails returns \<^term>\<open>Inl\<close>.
\<close>

section \<open>Client\<close>

datatype api_error = NotFound string | AlreadyExists string | OtherApiError string

fun IsNotFound :: "api_error \<Rightarrow> bool" where
  "IsNotFound (NotFound m) = True"
| "IsNotFound _ = False"

fun IsAlreadyExists :: "api_error \<Rightarrow> bool" where
  "IsAlreadyExists (AlreadyExists m) = True"
| "IsAlreadyExists _ = False"

fun api_message :: "api_error \<Rightarrow> string" where
  "api_message (NotFound m) = m"
| "api_message (AlreadyExists m) = m"
| "api_message (OtherApiError m) = m"

type_synonym ('w, 'a) api = "'w \<Rightarrow> (api_error + 'a) \<times> 'w"

record 'w client =
  cl_Now :: "'w \<Rightarrow> time \<times> 'w"
  cl_GetRequest :: "object_key \<Rightarrow> ('w, VirtualMachineTemplateRequest) api"
  cl_PatchRequest :: "VirtualMachineTemplateRequest \<Rightarrow> VirtualMachineTemplateRequest \<Rightarrow> ('w, VirtualMachineTemplateRequest) api"
  cl_DeleteRequest :: "object_key \<Rightarrow> ('w, unit) api"
  cl_NewHelper :: "VirtualMachineTemplateRequest \<Rightarrow> ('w, unit) api"
  cl_HelperPatch :: "VirtualMachineTemplateRequest \<Rightarrow> VirtualMachineTemplateRequest \<Rightarrow> ('w, unit) api"
  cl_GetTemplate :: "object_key \<Rightarrow> ('w, RequestTemplate) api"
  cl_CreateTemplate :: "RequestTemplate \<Rightarrow> ('w, RequestTemplate) api"
  cl_GetSnapshot :: "object_key \<Rightarrow> ('w, VirtualMachineSnapshot) api"
  cl_CreateSnapshot :: "VirtualMachineSnapshot \<Rightarrow> ('w, VirtualMachineSnapshot) api"
  cl_DeleteSnapshot :: "object_key \<Rightarrow> ('w, unit) api"
  cl_GetContent :: "object_key \<Rightarrow> ('w, VirtualMachineSnapshotContent) api"
  cl_GetDV :: "object_key \<Rightarrow> ('w, DataVolume) api"
  cl_CreateDV :: "DataVolume \<Rightarrow> ('w, DataVolume) api"
  cl_ListDVs :: "string \<Rightarrow> ('w, DataVolume list) api"
  cl_PatchDV :: "DataVolume \<Rightarrow> DataVolume \<Rightarrow> ('w, DataVolume) api"
  cl_ExpandVM :: "string \<Rightarrow> VirtualMachine \<Rightarrow> ('w, VirtualMachine) api"

section \<open>Events and the state of a run\<close>

datatype event =
    EvGetRequest object_key "api_error + VirtualMachineTemplateRequest"
  | EvPatchRequest VirtualMachineTemplateRequest VirtualMachineTemplateRequest "api_error + VirtualMachineTemplateRequest"
  | EvDeleteRequest object_key "api_error + unit"
  | EvNewHelper VirtualMachineTemplateRequest "api_error + unit"
  | EvHelperPatch VirtualMachineTemplateRequest VirtualMachineTemplateRequest "api_error + unit"
  | EvGetTemplate object_key "api_error + RequestTemplate"
  | EvCreateTemplate RequestTemplate "api_error + RequestTemplate"
  | EvGetSnapshot object_key "api_error + VirtualMachineSnapshot"
  | EvCreateSnapshot VirtualMachineSnapshot "api_error + VirtualMachineSnapshot"
  | EvDeleteSnapshot object_key "api_error + unit"
  | EvGetContent object_key "api_error + VirtualMachineSnapshotContent"
  | EvGetDV object_key "api_error + DataVolume"
  | EvCreateDV DataVolume "api_error + DataVolume"
  | EvListDVs string "api_error + DataVolume list"
  | EvPatchDV DataVolume DataVolume "api_error + DataVolume"
  | EvExpandVM string VirtualMachine "api_error + VirtualMachine"

record 'w env =
  e_world :: 'w
  e_req :: VirtualMachineTemplateRequest
  e_trace :: "event list"

type_synonym ('w, 'a) run_of = "('w env, 'a) state"

definition call :: "('w \<Rightarrow> 'r \<times> 'w) \<Rightarrow> ('r \<Rightarrow> event) \<Rightarrow> ('w, 'r) run_of" where
  "call f ev = State (\<lambda>s. case f (e_world s) of (r, w) \<Rightarrow> (r, s\<lparr>e_world := w, e_trace := e_trace s @ [ev r]\<rparr>))"

definition time_Now :: "'w client \<Rightarrow> ('w, time) run_of" where
  "time_Now c = State (\<lambda>s. case cl_Now c (e_world s) of (t, w) \<Rightarrow> (t, s\<lparr>e_world := w\<rparr>))"

definition request :: "('w, VirtualMachineTemplateRequest) run_of" where
  "request = State (\<lambda>s. (e_req s, s))"

definition update_request ::
  "(VirtualMachineTemplateRequest \<Rightarrow> VirtualMachineTemplateRequest) \<Rightarrow> ('w, unit) run_of" where
  "update_request f = State (\<lambda>s. ((), s\<lparr>e_req := f (e_req s)\<rparr>))"

text \<open>The key of an object, \<^verbatim>\<open>client.ObjectKeyFromObject\<close>, and the value of a label, empty when it is missing.\<close>

definition object_key :: "ObjectMeta \<Rightarrow> object_key" where
  "object_key m = (m_Namespace m, m_Name m)"

definition label_value :: "ObjectMeta \<Rightarrow> string \<Rightarrow> string" where
  "label_value m k = (case m_Labels m k of Some v \<Rightarrow> v | None \<Rightarrow> [])"

section \<open>Reasoning about runs\<close>

named_theorems run_simps \<open>equations of the operations of a run\<close>

lemma run_bind [run_simps]: "run_state (m \<bind> f) s = (case run_state m s of (a, s') \<Rightarrow> run_state (f a) s')"
  by simp

lemma run_return [run_simps]: "run_state (State_Monad.return x) s = (x, s)"
  by simp

lemma run_call [run_simps]:
  "run_state (call f ev) s =
     (fst (f (e_world s)), s\<lparr>e_world := snd (f (e_world s)), e_trace := e_trace s @ [ev (fst (f (e_world s)))]\<rparr>)"
  by (simp add: call_def case_prod_unfold)

lemma run_time [run_simps]:
  "run_state (time_Now c) s = (fst (cl_Now c (e_world s)), s\<lparr>e_world := snd (cl_Now c (e_world s))\<rparr>)"
  by (simp add: time_Now_def case_prod_unfold)

lemma run_request [run_simps]: "run_state request s = (e_req s, s)"
  by (simp add: request_def)

lemma run_update_request [run_simps]: "run_state (update_request f) s = ((), s\<lparr>e_req := f (e_req s)\<rparr>)"
  by (simp add: update_request_def)

text \<open>
  The condition that a run establishes \<open>K\<close> of its result, of the request and of the trace, from
  a request \<open>q\<close> and a trace \<open>t\<close>, whatever the world is.
\<close>

definition wp :: "('w, 'a) run_of \<Rightarrow> ('a \<Rightarrow> VirtualMachineTemplateRequest \<Rightarrow> event list \<Rightarrow> bool)
    \<Rightarrow> VirtualMachineTemplateRequest \<Rightarrow> event list \<Rightarrow> bool" where
  "wp m K q t \<longleftrightarrow>
     (\<forall>s. e_req s = q \<longrightarrow> e_trace s = t \<longrightarrow> (case run_state m s of (a, s') \<Rightarrow> K a (e_req s') (e_trace s')))"

named_theorems wp_rules \<open>introduction rules for the conditions of runs\<close>

lemma wpD: "wp m K (e_req s) (e_trace s) \<Longrightarrow> run_state m s = (a, s') \<Longrightarrow> K a (e_req s') (e_trace s')"
  by (fastforce simp: wp_def)

lemma wp_mono: "wp m K q t \<Longrightarrow> (\<And>a q t. K a q t \<Longrightarrow> K' a q t) \<Longrightarrow> wp m K' q t"
  by (fastforce simp: wp_def split: prod.splits)

lemma wp_conj: "wp m K q t \<Longrightarrow> wp m K' q t \<Longrightarrow> wp m (\<lambda>a q t. K a q t \<and> K' a q t) q t"
  by (fastforce simp: wp_def split: prod.splits)

lemma wp_bind [wp_rules]: "wp m (\<lambda>a. wp (f a) K) q t \<Longrightarrow> wp (m \<bind> f) K q t"
  by (fastforce simp: wp_def split: prod.splits)

lemma wp_return [wp_rules]: "K x q t \<Longrightarrow> wp (State_Monad.return x) K q t"
  by (simp add: wp_def)

lemma wp_return_iff: "wp (State_Monad.return x) K q t \<longleftrightarrow> K x q t"
  by (auto simp: wp_def intro: exI [of _ "\<lparr>e_world = undefined, e_req = q, e_trace = t\<rparr>"])
     (metis env.select_convs(2,3))

lemma wp_call [wp_rules]: "(\<And>r. K r q (t @ [ev r])) \<Longrightarrow> wp (call f ev) K q t"
  by (simp add: wp_def run_call)

lemma wp_time [wp_rules]: "(\<And>now. K now q t) \<Longrightarrow> wp (time_Now c) K q t"
  by (simp add: wp_def run_time)

lemma wp_request [wp_rules]: "K q q t \<Longrightarrow> wp request K q t"
  by (simp add: wp_def run_request)

lemma wp_update_request [wp_rules]: "K () (f q) t \<Longrightarrow> wp (update_request f) K q t"
  by (simp add: wp_def run_update_request)

lemma wp_if [wp_rules]: "(b \<Longrightarrow> wp m K q t) \<Longrightarrow> (\<not> b \<Longrightarrow> wp n K q t) \<Longrightarrow> wp (if b then m else n) K q t"
  by simp

lemma wp_sum [wp_rules]:
  "(\<And>e. r = Inl e \<Longrightarrow> wp (f e) K q t) \<Longrightarrow> (\<And>a. r = Inr a \<Longrightarrow> wp (g a) K q t) \<Longrightarrow>
   wp (case r of Inl e \<Rightarrow> f e | Inr a \<Rightarrow> g a) K q t"
  by (cases r) simp_all

lemma wp_option [wp_rules]:
  "(r = None \<Longrightarrow> wp m K q t) \<Longrightarrow> (\<And>a. r = Some a \<Longrightarrow> wp (g a) K q t) \<Longrightarrow>
   wp (case r of None \<Rightarrow> m | Some a \<Rightarrow> g a) K q t"
  by (cases r) simp_all

lemma wp_Let [wp_rules]: "wp (f x) K q t \<Longrightarrow> wp (let y = x in f y) K q t"
  by simp

lemma wp_bool [wp_rules]:
  "(b \<Longrightarrow> wp m K q t) \<Longrightarrow> (\<not> b \<Longrightarrow> wp n K q t) \<Longrightarrow> wp (case b of True \<Rightarrow> m | False \<Rightarrow> n) K q t"
  by (cases b) simp_all

end
