(* ===== verification/Request_Controller.thy ===== *)
theory Request_Controller
  imports Kube_Client
begin

text \<open>
  The reconciler of template requests, \<^verbatim>\<open>virtualmachinetemplaterequest_controller.go\<close>: it takes a
  snapshot of the VirtualMachine of a request, clones the volumes of the snapshot into data
  volumes, creates the template, hands the data volumes over to it and deletes the snapshot.

  Every function of the source that calls the API server is a run over the state \<open>env\<close>; the
  logging is left out.  A reconcile returns the result together with the list of the joined
  errors, which is empty for nil.
\<close>

section \<open>Errors\<close>

datatype rec_error =
    ApiErr api_error
  | ForeignTemplate string
  | ForeignSnapshot string
  | ForeignDataVolume string
  | NoContentName string
  | MissingVolumeSnapshot string string
  | NoSourceVM string
  | NoTemplateSpec string
  | OwnerErr owner_error
  | NilDereference

text \<open>The messages, with the types of the objects that this controller passes.\<close>

fun owner_error_text :: "owner_error \<Rightarrow> string" where
  "owner_error_text (ClusterScopedObject ns) =
     ''cluster-scoped resource must not have a namespace-scoped owner, owner's namespace '' @ ns"
| "owner_error_text (CrossNamespaceOwner ns ons) =
     ''cross-namespace owner references are disallowed, owner's namespace '' @ ns @ '', obj's namespace '' @ ons"
| "owner_error_text (AlreadyOwned m r) =
     ''Object '' @ m_Namespace m @ ''/'' @ m_Name m @ '' is already owned by another '' @ o_Kind r @ '' controller '' @ o_Name r"
| "owner_error_text NoControllerReference =
     ''*v1beta1.DataVolume does not have a owner reference with controller equals true''"
| "owner_error_text NoReferenceToOwner =
     ''*v1beta1.DataVolume does not have an controller reference for *v1beta1.VirtualMachineTemplateRequest''"
| "owner_error_text NotTheController =
     ''*v1beta1.VirtualMachineTemplateRequest owner is not the controller reference for *v1beta1.DataVolume''"

fun error_text :: "rec_error \<Rightarrow> string" where
  "error_text (ApiErr e) = api_message e"
| "error_text (ForeignTemplate n) = ''existing VirtualMachineTemplate '' @ n @ '' was not created by this request''"
| "error_text (ForeignSnapshot n) = ''virtualMachineSnapshot '' @ n @ '' does not belong to this request''"
| "error_text (ForeignDataVolume n) = ''dataVolume '' @ n @ '' does not belong to this request''"
| "error_text (NoContentName n) = ''virtualMachineSnapshot '' @ n @ '' does not have a VirtualMachineSnapshotContentName''"
| "error_text (MissingVolumeSnapshot n v) =
     ''virtualMachineSnapshotContent '' @ n @ '' is missing a VolumeSnapshotName for volume '' @ v"
| "error_text (NoSourceVM n) = ''virtualMachineSnapshotContent '' @ n @ '' has no source VirtualMachine''"
| "error_text (NoTemplateSpec n) = ''source VirtualMachine '' @ n @ '' has no template spec''"
| "error_text (OwnerErr e) = owner_error_text e"
| "error_text NilDereference = ''invalid memory address or nil pointer dereference''"

text \<open>\<^verbatim>\<open>ctrl.Result\<close>: the delay in nanoseconds, 0 when it is not set.\<close>

record ctrl_result =
  requeue_after :: int

definition no_result :: ctrl_result where "no_result = \<lparr>requeue_after = 0\<rparr>"

definition time_Second :: int where "time_Second = 1000000000"
definition requeueAfterSnapshotContentNotReady :: int where
  "requeueAfterSnapshotContentNotReady = 10 * time_Second"

definition RequestGVK :: gvk where "RequestGVK = (GroupName, ''v1beta1'', ''VirtualMachineTemplateRequest'')"
definition TemplateGVK :: gvk where "TemplateGVK = (GroupName, ''v1beta1'', ''VirtualMachineTemplate'')"

type_synonym ('w, 'a) fallible = "('w, rec_error + 'a) run_of"

text \<open>\<^verbatim>\<open>if err != nil { return err }\<close>\<close>

definition and_then :: "('w, 'a) fallible \<Rightarrow> ('a \<Rightarrow> ('w, 'b) fallible) \<Rightarrow> ('w, 'b) fallible" where
  "and_then m f = do { r \<leftarrow> m; case r of Inl e \<Rightarrow> State_Monad.return (Inl e) | Inr a \<Rightarrow> f a }"

abbreviation ok :: "'a \<Rightarrow> ('w, 'a) fallible" where
  "ok a \<equiv> State_Monad.return (Inr a)"

abbreviation fail :: "rec_error \<Rightarrow> ('w, 'a) fallible" where
  "fail e \<equiv> State_Monad.return (Inl e)"

definition api :: "('w, 'a) api \<Rightarrow> (api_error + 'a \<Rightarrow> event) \<Rightarrow> ('w, 'a) fallible" where
  "api f ev = do { r \<leftarrow> call f ev; case r of Inl e \<Rightarrow> fail (ApiErr e) | Inr a \<Rightarrow> ok a }"

text \<open>\<^verbatim>\<open>client.IgnoreNotFound\<close>\<close>

definition ignore_not_found :: "('w, unit) fallible \<Rightarrow> ('w, unit) fallible" where
  "ignore_not_found m = do { r \<leftarrow> m;
     case r of
       Inl (ApiErr e) \<Rightarrow> if IsNotFound e then ok () else fail (ApiErr e)
     | Inl e \<Rightarrow> fail e
     | Inr a \<Rightarrow> ok a }"

definition set_ready :: "'w client \<Rightarrow> string \<Rightarrow> string \<Rightarrow> string \<Rightarrow> ('w, unit) run_of" where
  "set_ready c status reason message =
     do { now \<leftarrow> time_Now c; update_request (setReadyCondition now status reason message) }"

definition set_progressing :: "'w client \<Rightarrow> string \<Rightarrow> string \<Rightarrow> ('w, unit) run_of" where
  "set_progressing c status reason =
     do { now \<leftarrow> time_Now c; update_request (setProgressingCondition now status reason) }"

section \<open>Finalizer, deletion and time to live\<close>

definition addFinalizer :: "'w client \<Rightarrow> ('w, unit) fallible" where
  "addFinalizer c = do {
     tplReq \<leftarrow> request;
     if \<not> ContainsFinalizer (r_Meta tplReq) FinalizerSnapshotCleanup then do {
       let tplReq1 = tplReq\<lparr>r_Meta := AddFinalizer (r_Meta tplReq) FinalizerSnapshotCleanup\<rparr>;
       update_request (\<lambda>r. tplReq1);
       and_then (api (cl_PatchRequest c tplReq tplReq1) (EvPatchRequest tplReq tplReq1)) (\<lambda>tplReq2. do {
         update_request (\<lambda>r. tplReq2);
         ok () })
     } else ok () }"

definition deleteSnapshot :: "'w client \<Rightarrow> ('w, unit) fallible" where
  "deleteSnapshot c = do {
     tplReq \<leftarrow> request;
     let key = object_key (s_Meta (emptySnapshot tplReq));
     ignore_not_found (api (cl_DeleteSnapshot c key) (EvDeleteSnapshot key)) }"

definition handleDeletion :: "'w client \<Rightarrow> ('w, unit) fallible" where
  "handleDeletion c = do {
     tplReq \<leftarrow> request;
     if ContainsFinalizer (r_Meta tplReq) FinalizerSnapshotCleanup then
       and_then (if validateRequest tplReq = None then deleteSnapshot c else ok ()) (\<lambda>u. do {
         let tplReq1 = tplReq\<lparr>r_Meta := RemoveFinalizer (r_Meta tplReq) FinalizerSnapshotCleanup\<rparr>;
         update_request (\<lambda>r. tplReq1);
         and_then (api (cl_PatchRequest c tplReq tplReq1) (EvPatchRequest tplReq tplReq1)) (\<lambda>tplReq2. do {
           update_request (\<lambda>r. tplReq2);
           ok () }) })
     else ok () }"

text \<open>
  \<^verbatim>\<open>time.Duration(ttl) * time.Second\<close> in 64 bits, and \<^verbatim>\<open>time.Until\<close>, which saturates at the bounds
  of a duration.
\<close>

definition ttl_duration :: "32 word \<Rightarrow> 64 word" where
  "ttl_duration ttl = (signed ttl :: 64 word) * word_of_int time_Second"

definition saturate :: "int \<Rightarrow> int" where
  "saturate d = max (- (2 ^ 63)) (min (2 ^ 63 - 1) d)"

definition handleTTL :: "'w client \<Rightarrow> ('w, ctrl_result) fallible" where
  "handleTTL c = do {
     tplReq \<leftarrow> request;
     case rs_TTLSecondsAfterFinished (r_Spec tplReq) of
       None \<Rightarrow> ok no_result
     | Some ttl \<Rightarrow>
         (case FindStatusCondition (r_Conditions tplReq) ConditionReady of
            None \<Rightarrow> ok no_result
          | Some readyCond \<Rightarrow>
              if c_Status readyCond \<noteq> ConditionTrue then ok no_result
              else do {
                now \<leftarrow> time_Now c;
                let expiresAt = c_LastTransitionTime readyCond + sint (ttl_duration ttl);
                let remaining = saturate (expiresAt - now);
                if remaining > 0 then ok \<lparr>requeue_after = remaining\<rparr>
                else and_then (api (cl_DeleteRequest c (object_key (r_Meta tplReq)))
                       (EvDeleteRequest (object_key (r_Meta tplReq)))) (\<lambda>u. ok no_result) }) }"

section \<open>Processing a request\<close>

definition getTemplate :: "'w client \<Rightarrow> ('w, RequestTemplate option) fallible" where
  "getTemplate c = do {
     tplReq \<leftarrow> request;
     let key = object_key (t_Meta (emptyTemplate tplReq));
     r \<leftarrow> call (cl_GetTemplate c key) (EvGetTemplate key);
     case r of
       Inl e \<Rightarrow> if IsNotFound e then ok None else fail (ApiErr e)
     | Inr tpl \<Rightarrow>
         if label_value (t_Meta tpl) LabelRequestUID \<noteq> m_UID (r_Meta tplReq) then do {
           set_progressing c ConditionFalse ReasonFailed;
           fail (ForeignTemplate (object_name (t_Meta tpl))) }
         else do {
           update_request (\<lambda>r. setTemplateRef r tpl);
           ok (Some tpl) } }"

definition createSnapshot :: "'w client \<Rightarrow> ('w, VirtualMachineSnapshot) fallible" where
  "createSnapshot c = do {
     tplReq \<leftarrow> request;
     api (cl_CreateSnapshot c (newSnapshot tplReq)) (EvCreateSnapshot (newSnapshot tplReq)) }"

definition get_or_create_snapshot :: "'w client \<Rightarrow> ('w, VirtualMachineSnapshot) fallible" where
  "get_or_create_snapshot c = do {
     tplReq \<leftarrow> request;
     let key = object_key (s_Meta (emptySnapshot tplReq));
     r \<leftarrow> call (cl_GetSnapshot c key) (EvGetSnapshot key);
     case r of
       Inl e \<Rightarrow> if IsNotFound e then createSnapshot c else fail (ApiErr e)
     | Inr snap \<Rightarrow> ok snap }"

definition getSnapshotContent :: "'w client \<Rightarrow> VirtualMachineSnapshot \<Rightarrow> ('w, VirtualMachineSnapshotContent) fallible" where
  "getSnapshotContent c snap =
     (case s_Status snap of
        None \<Rightarrow> fail NilDereference
      | Some st \<Rightarrow>
          (case ss_ContentName st of
             Some (x # xs) \<Rightarrow>
               api (cl_GetContent c (m_Namespace (s_Meta snap), x # xs)) (EvGetContent (m_Namespace (s_Meta snap), x # xs))
           | _ \<Rightarrow> do {
               set_progressing c ConditionFalse ReasonFailed;
               fail (NoContentName (object_name (s_Meta snap))) }))"

fun clone_volumes :: "'w client \<Rightarrow> string \<Rightarrow> string \<Rightarrow> VolumeBackup list \<Rightarrow> ('w, unit) fallible" where
  "clone_volumes c contentNamespace backend [] = ok ()"
| "clone_volumes c contentNamespace backend (vol # vols) =
     (if vb_VolumeName vol = backend then clone_volumes c contentNamespace backend vols
      else do {
        tplReq \<leftarrow> request;
        let key = (m_Namespace (r_Meta tplReq), getDvName tplReq (vb_VolumeName vol));
        r \<leftarrow> call (cl_GetDV c key) (EvGetDV key);
        case r of
          Inr dv \<Rightarrow>
            if label_value (d_Meta dv) LabelRequestUID \<noteq> m_UID (r_Meta tplReq) then do {
              set_progressing c ConditionFalse ReasonFailed;
              fail (ForeignDataVolume (object_name (d_Meta dv))) }
            else clone_volumes c contentNamespace backend vols
        | Inl e \<Rightarrow>
            if \<not> IsNotFound e then fail (ApiErr e)
            else
              (case vb_VolumeSnapshotName vol of
                 None \<Rightarrow> fail NilDereference
               | Some snapName \<Rightarrow>
                   (let dv = newDv (fst key) (snd key) (m_UID (r_Meta tplReq)) contentNamespace snapName in
                    case SetControllerReference (r_Meta tplReq) RequestGVK (d_Meta dv) of
                      Inl oe \<Rightarrow> fail (OwnerErr oe)
                    | Inr m \<Rightarrow>
                        and_then (api (cl_CreateDV c (dv\<lparr>d_Meta := m\<rparr>)) (EvCreateDV (dv\<lparr>d_Meta := m\<rparr>)))
                          (\<lambda>dv'. clone_volumes c contentNamespace backend vols))) })"

definition cloneSnapshotContent :: "'w client \<Rightarrow> VirtualMachineSnapshotContent \<Rightarrow> ('w, unit) fallible" where
  "cloneSnapshotContent c snapContent =
     clone_volumes c (m_Namespace (sc_Meta snapContent)) (getBackendStoragePVCName snapContent)
       (sc_VolumeBackups snapContent)"

fun volumes_ready :: "'w client \<Rightarrow> string \<Rightarrow> VolumeBackup list \<Rightarrow> ('w, bool) fallible" where
  "volumes_ready c backend [] = ok True"
| "volumes_ready c backend (vol # vols) =
     (if vb_VolumeName vol = backend then volumes_ready c backend vols
      else do {
        tplReq \<leftarrow> request;
        let key = (m_Namespace (r_Meta tplReq), getDvName tplReq (vb_VolumeName vol));
        r \<leftarrow> call (cl_GetDV c key) (EvGetDV key);
        case r of
          Inl e \<Rightarrow> if IsNotFound e then ok False else fail (ApiErr e)
        | Inr dv \<Rightarrow>
            if \<not> fst (isDataVolumeStatusConditionTrue dv DataVolumeReady) then do {
              now \<leftarrow> time_Now c;
              update_request (\<lambda>r. syncDataVolumeStatusConditions now r dv);
              ok False }
            else volumes_ready c backend vols })"

definition isSnapshotContentCloneReady :: "'w client \<Rightarrow> VirtualMachineSnapshotContent \<Rightarrow> ('w, bool) fallible" where
  "isSnapshotContentCloneReady c snapContent =
     volumes_ready c (getBackendStoragePVCName snapContent) (sc_VolumeBackups snapContent)"

definition getExpandedVM :: "'w client \<Rightarrow> VirtualMachineSnapshotContent \<Rightarrow> ('w, VirtualMachine) fallible" where
  "getExpandedVM c snapContent =
     (case sc_SourceVM snapContent of
        None \<Rightarrow> do {
          set_progressing c ConditionFalse ReasonFailed;
          fail (NoSourceVM (object_name (sc_Meta snapContent))) }
      | Some vm \<Rightarrow>
          api (cl_ExpandVM c (m_Namespace (sc_Meta snapContent)) vm) (EvExpandVM (m_Namespace (sc_Meta snapContent)) vm))"

definition createTemplate :: "'w client \<Rightarrow> VirtualMachineSnapshotContent \<Rightarrow> ('w, RequestTemplate) fallible" where
  "createTemplate c snapContent =
     and_then (getExpandedVM c snapContent) (\<lambda>vm. do {
       tplReq \<leftarrow> request;
       case template_spec tplReq snapContent (vm_Spec vm) of
         None \<Rightarrow> do {
           set_progressing c ConditionFalse ReasonFailed;
           fail (NoTemplateSpec (object_name (vm_Meta vm))) }
       | Some spec \<Rightarrow> do {
           let tpl = newTemplate tplReq spec;
           r \<leftarrow> call (cl_CreateTemplate c tpl) (EvCreateTemplate tpl);
           case r of
             Inl e \<Rightarrow>
               if IsAlreadyExists e then do {
                 set_ready c ConditionFalse ReasonFailed (api_message e);
                 set_progressing c ConditionFalse ReasonFailed;
                 fail (ApiErr e) }
               else fail (ApiErr e)
           | Inr tpl' \<Rightarrow> do {
               update_request (\<lambda>r. setTemplateRef r tpl');
               ok tpl' } } })"

text \<open>The template, or the result with which to stop.\<close>

datatype proceed = Proceed RequestTemplate | Stop ctrl_result

definition process_content :: "'w client \<Rightarrow> VirtualMachineSnapshotContent \<Rightarrow> ('w, proceed) fallible" where
  "process_content c snapContent =
     and_then (cloneSnapshotContent c snapContent) (\<lambda>u.
     and_then (isSnapshotContentCloneReady c snapContent) (\<lambda>ready.
       if \<not> ready then ok (Stop no_result)
       else and_then (createTemplate c snapContent) (\<lambda>tpl. ok (Proceed tpl))))"

definition process_ready_snapshot :: "'w client \<Rightarrow> VirtualMachineSnapshot \<Rightarrow> ('w, proceed) fallible" where
  "process_ready_snapshot c snap =
     and_then (getSnapshotContent c snap) (\<lambda>snapContent.
       case isSnapshotContentReady snapContent of
         Inl v \<Rightarrow> do {
           let e = MissingVolumeSnapshot (object_name (sc_Meta snapContent)) v;
           set_ready c ConditionFalse ReasonFailed (error_text e);
           set_progressing c ConditionFalse ReasonFailed;
           fail e }
       | Inr False \<Rightarrow> do {
           set_ready c ConditionFalse ReasonWaiting
             (''Waiting for VirtualMachineSnapshotContent '' @ object_name (sc_Meta snapContent) @ '' to be ready'');
           set_progressing c ConditionTrue ReasonWaiting;
           ok (Stop \<lparr>requeue_after = requeueAfterSnapshotContentNotReady\<rparr>) }
       | Inr True \<Rightarrow> process_content c snapContent)"

definition processRequest :: "'w client \<Rightarrow> ('w, proceed) fallible" where
  "processRequest c =
     and_then (get_or_create_snapshot c) (\<lambda>snap. do {
       tplReq \<leftarrow> request;
       if label_value (s_Meta snap) LabelRequestUID \<noteq> m_UID (r_Meta tplReq) then do {
         set_progressing c ConditionFalse ReasonFailed;
         fail (ForeignSnapshot (object_name (s_Meta snap))) }
       else if \<not> fst (isSnapshotStatusConditionTrue snap SnapshotReady) then do {
         now \<leftarrow> time_Now c;
         case syncSnapshotStatusConditions now tplReq snap of
           None \<Rightarrow> fail NilDereference
         | Some tplReq1 \<Rightarrow> do {
             update_request (\<lambda>r. tplReq1);
             ok (Stop no_result) } }
       else process_ready_snapshot c snap })"

section \<open>Ownership of the data volumes\<close>

fun hand_over :: "'w client \<Rightarrow> RequestTemplate \<Rightarrow> DataVolume list \<Rightarrow> ('w, unit) fallible" where
  "hand_over c tpl [] = ok ()"
| "hand_over c tpl (dv # dvs) =
     (if IsControlledBy (d_Meta dv) (t_Meta tpl) then hand_over c tpl dvs
      else do {
        tplReq \<leftarrow> request;
        case RemoveControllerReference (r_Meta tplReq) RequestGVK (d_Meta dv) of
          Inl e \<Rightarrow> fail (OwnerErr e)
        | Inr m1 \<Rightarrow>
            (case SetControllerReference (t_Meta tpl) TemplateGVK m1 of
               Inl e \<Rightarrow> fail (OwnerErr e)
             | Inr m2 \<Rightarrow>
                 and_then (api (cl_PatchDV c dv (dv\<lparr>d_Meta := m2\<rparr>)) (EvPatchDV dv (dv\<lparr>d_Meta := m2\<rparr>)))
                   (\<lambda>dv'. hand_over c tpl dvs)) })"

definition setDataVolumeOwnerReferences :: "'w client \<Rightarrow> RequestTemplate \<Rightarrow> ('w, unit) fallible" where
  "setDataVolumeOwnerReferences c tpl = do {
     tplReq \<leftarrow> request;
     and_then (api (cl_ListDVs c (m_UID (r_Meta tplReq))) (EvListDVs (m_UID (r_Meta tplReq)))) (hand_over c tpl) }"

section \<open>Reconcile\<close>

text \<open>The part of \<^verbatim>\<open>Reconcile\<close> behind the deferred function: what it returns is what that function sees.\<close>

definition finish_request :: "'w client \<Rightarrow> RequestTemplate \<Rightarrow> ('w, ctrl_result) fallible" where
  "finish_request c tpl =
     and_then (setDataVolumeOwnerReferences c tpl) (\<lambda>u.
     and_then (deleteSnapshot c) (\<lambda>u. do {
       now \<leftarrow> time_Now c;
       update_request (\<lambda>r. syncTemplateStatusConditions now r tpl);
       ok no_result }))"

definition reconcile_body :: "'w client \<Rightarrow> ('w, ctrl_result) fallible" where
  "reconcile_body c = do {
     update_request (\<lambda>r. r\<lparr>r_Conditions := fst (RemoveStatusCondition (r_Conditions r) ConditionProgressing)\<rparr>);
     tplReq \<leftarrow> request;
     case validateRequest tplReq of
       Some e \<Rightarrow> do {
         set_ready c ConditionFalse ReasonInvalidConfiguration e;
         set_progressing c ConditionFalse ReasonInvalidConfiguration;
         ok no_result }
     | None \<Rightarrow>
         and_then (getTemplate c) (\<lambda>t.
           case t of
             Some tpl \<Rightarrow> finish_request c tpl
           | None \<Rightarrow>
               and_then (processRequest c) (\<lambda>p.
                 case p of
                   Stop res \<Rightarrow> ok res
                 | Proceed tpl \<Rightarrow> finish_request c tpl)) }"

definition errors_of :: "rec_error + 'a \<Rightarrow> rec_error list" where
  "errors_of r = (case r of Inl e \<Rightarrow> [e] | Inr a \<Rightarrow> [])"

definition result_of :: "rec_error + ctrl_result \<Rightarrow> ctrl_result" where
  "result_of r = (case r of Inl e \<Rightarrow> no_result | Inr a \<Rightarrow> a)"

definition reconcile_with_status :: "'w client \<Rightarrow> ('w, ctrl_result \<times> rec_error list) run_of" where
  "reconcile_with_status c = do {
     before \<leftarrow> request;
     h \<leftarrow> api (cl_NewHelper c before) (EvNewHelper before);
     case h of
       Inl e \<Rightarrow> State_Monad.return (no_result, [e])
     | Inr u \<Rightarrow> do {
         r \<leftarrow> reconcile_body c;
         now \<leftarrow> time_Now c;
         update_request (setStatusConditions now (case r of Inl e \<Rightarrow> Some (error_text e) | Inr a \<Rightarrow> None));
         after \<leftarrow> request;
         p \<leftarrow> api (cl_HelperPatch c before after) (EvHelperPatch before after);
         State_Monad.return (result_of r, errors_of r @ errors_of p) } }"

text \<open>\<^verbatim>\<open>!DeletionTimestamp.IsZero()\<close>\<close>

definition being_deleted :: "ObjectMeta \<Rightarrow> bool" where
  "being_deleted m \<longleftrightarrow> (case m_DeletionTimestamp m of None \<Rightarrow> False | Some t \<Rightarrow> t \<noteq> 0)"

definition Reconcile :: "'w client \<Rightarrow> object_key \<Rightarrow> ('w, ctrl_result \<times> rec_error list) run_of" where
  "Reconcile c key = do {
     r \<leftarrow> call (cl_GetRequest c key) (EvGetRequest key);
     case r of
       Inl e \<Rightarrow> State_Monad.return (no_result, if IsNotFound e then [] else [ApiErr e])
     | Inr tplReq \<Rightarrow> do {
         update_request (\<lambda>r. tplReq);
         if being_deleted (r_Meta tplReq) then do {
           d \<leftarrow> handleDeletion c;
           State_Monad.return (no_result, errors_of d) }
         else do {
           f \<leftarrow> addFinalizer c;
           case f of
             Inl e \<Rightarrow> State_Monad.return (no_result, [e])
           | Inr u \<Rightarrow> do {
               tplReq1 \<leftarrow> request;
               if \<not> shouldReconcile tplReq1 then do {
                 t \<leftarrow> handleTTL c;
                 State_Monad.return (result_of t, errors_of t) }
               else reconcile_with_status c } } } }"

section \<open>Mapping events to requests\<close>

text \<open>
  \<^verbatim>\<open>EnqueueRequestByUID\<close>: \<open>list\<close> is the answer of the index of the cache on the uid, \<^term>\<open>Inl\<close> its error.
\<close>

definition EnqueueRequestByUID ::
  "(string \<Rightarrow> api_error + VirtualMachineTemplateRequest list) \<Rightarrow> ObjectMeta \<Rightarrow> object_key list" where
  "EnqueueRequestByUID list obj =
     (case m_Labels obj LabelRequestUID of
        None \<Rightarrow> []
      | Some requestUID \<Rightarrow>
          (case list requestUID of
             Inl e \<Rightarrow> []
           | Inr [item] \<Rightarrow> [object_key (r_Meta item)]
           | Inr items \<Rightarrow> []))"

section \<open>Conditions of the runs\<close>

lemma wp_and_then [wp_rules]:
  "wp m (\<lambda>r q t. case r of Inl e \<Rightarrow> K (Inl e) q t | Inr a \<Rightarrow> wp (f a) K q t) q t \<Longrightarrow> wp (and_then m f) K q t"
  unfolding and_then_def
  by (rule wp_bind) (auto elim!: wp_mono simp: wp_return_iff split: sum.splits)

lemma wp_api [wp_rules]:
  "(\<And>e. K (Inl (ApiErr e)) q (t @ [ev (Inl e)])) \<Longrightarrow> (\<And>a. K (Inr a) q (t @ [ev (Inr a)])) \<Longrightarrow> wp (api f ev) K q t"
  unfolding api_def by (intro wp_rules) auto

lemma wp_ignore_not_found [wp_rules]:
  "wp m (\<lambda>r q t. (\<forall>e. r = Inl (ApiErr e) \<longrightarrow> IsNotFound e \<longrightarrow> K (Inr ()) q t) \<and>
     (\<forall>e. r = Inl e \<longrightarrow> K (Inl e) q t) \<and> (r = Inr () \<longrightarrow> K (Inr ()) q t)) q t \<Longrightarrow> wp (ignore_not_found m) K q t"
  unfolding ignore_not_found_def
  by (rule wp_bind) (auto elim!: wp_mono split: sum.splits rec_error.splits intro!: wp_return wp_if)

lemma wp_set_ready [wp_rules]:
  "(\<And>now. K () (setReadyCondition now status reason message q) t) \<Longrightarrow> wp (set_ready c status reason message) K q t"
  unfolding set_ready_def by (intro wp_rules) auto

lemma wp_set_progressing [wp_rules]:
  "(\<And>now. K () (setProgressingCondition now status reason q) t) \<Longrightarrow> wp (set_progressing c status reason) K q t"
  unfolding set_progressing_def by (intro wp_rules) auto

section \<open>No nil dereference\<close>

lemma snapshot_ready_has_status: "fst (isSnapshotStatusConditionTrue snap ct) \<Longrightarrow> s_Status snap \<noteq> None"
  by (auto simp: isSnapshotStatusConditionTrue_def findSnapshotStatusCondition_def split: option.splits)

lemma snapshot_progressing_total: "isSnapshotProgressing snap \<noteq> None"
  by (auto simp: isSnapshotProgressing_def findSnapshotStatusCondition_def split: option.splits)

lemma sync_snapshot_total: "syncSnapshotStatusConditions now q snap \<noteq> None"
  using snapshot_progressing_total [of snap]
  by (auto simp: syncSnapshotStatusConditions_def Let_def split: option.splits bool.splits)

lemma content_ready_names:
  "isSnapshotContentReady sc = Inr True \<Longrightarrow> vol \<in> set (sc_VolumeBackups sc) \<Longrightarrow> vb_VolumeSnapshotName vol \<noteq> None"
  by (auto simp: isSnapshotContentReady_def find_None_iff split: if_splits option.splits)

abbreviation no_nil :: "rec_error + 'a \<Rightarrow> VirtualMachineTemplateRequest \<Rightarrow> event list \<Rightarrow> bool" where
  "no_nil r q t \<equiv> r \<noteq> Inl NilDereference"

lemma clone_volumes_no_nil:
  "\<forall>vol \<in> set vols. vb_VolumeSnapshotName vol \<noteq> None \<Longrightarrow> wp (clone_volumes c ns backend vols) no_nil q t"
proof (induction vols arbitrary: q t)
  case Nil
  then show ?case by (auto intro!: wp_rules)
next
  case (Cons vol vols)
  then show ?case by (auto intro!: wp_rules split: sum.splits)
qed

lemma volumes_ready_no_nil: "wp (volumes_ready c backend vols) no_nil q t"
  by (induction vols arbitrary: q t) (auto intro!: wp_rules)

lemma hand_over_no_nil: "wp (hand_over c tpl dvs) no_nil q t"
  by (induction dvs arbitrary: q t) (auto intro!: wp_rules)

lemma createTemplate_no_nil: "wp (createTemplate c sc) no_nil q t"
  unfolding createTemplate_def getExpandedVM_def by (auto intro!: wp_rules)

lemma process_content_no_nil:
  assumes "isSnapshotContentReady sc = Inr True"
  shows "wp (process_content c sc) no_nil q t"
  unfolding process_content_def cloneSnapshotContent_def isSnapshotContentCloneReady_def
  using content_ready_names [OF assms]
  by (auto intro!: wp_rules wp_mono [OF clone_volumes_no_nil] wp_mono [OF volumes_ready_no_nil]
      wp_mono [OF createTemplate_no_nil] split: sum.splits)


lemma getSnapshotContent_no_nil:
  assumes "s_Status snap \<noteq> None"
  shows "wp (getSnapshotContent c snap) no_nil q t"
  unfolding getSnapshotContent_def using assms
  by (auto intro!: wp_rules split: option.split list.split)

lemma process_ready_snapshot_no_nil:
  assumes "s_Status snap \<noteq> None"
  shows "wp (process_ready_snapshot c snap) no_nil q t"
  unfolding process_ready_snapshot_def
proof (rule wp_and_then, rule wp_mono [OF getSnapshotContent_no_nil [OF assms]])
  fix r :: "rec_error + VirtualMachineSnapshotContent" and q t
  assume "r \<noteq> Inl NilDereference"
  then show "case r of Inl e \<Rightarrow> Inl e \<noteq> Inl NilDereference
    | Inr sc \<Rightarrow> wp (case isSnapshotContentReady sc of
         Inl v \<Rightarrow> do {
           let e = MissingVolumeSnapshot (object_name (sc_Meta sc)) v;
           set_ready c ConditionFalse ReasonFailed (error_text e);
           set_progressing c ConditionFalse ReasonFailed;
           fail e }
       | Inr False \<Rightarrow> do {
           set_ready c ConditionFalse ReasonWaiting
             (''Waiting for VirtualMachineSnapshotContent '' @ object_name (sc_Meta sc) @ '' to be ready'');
           set_progressing c ConditionTrue ReasonWaiting;
           ok (Stop \<lparr>requeue_after = requeueAfterSnapshotContentNotReady\<rparr>) }
       | Inr True \<Rightarrow> process_content c sc) no_nil q t"
    by (auto intro!: wp_rules process_content_no_nil split: sum.splits)
qed

lemma processRequest_no_nil: "wp (processRequest c) no_nil q t"
  unfolding processRequest_def get_or_create_snapshot_def createSnapshot_def
  by (auto intro!: wp_rules process_ready_snapshot_no_nil simp: sync_snapshot_total split: sum.splits
      dest: snapshot_ready_has_status)

lemma finish_request_no_nil: "wp (finish_request c tpl) no_nil q t"
  unfolding finish_request_def setDataVolumeOwnerReferences_def deleteSnapshot_def
  by (auto intro!: wp_rules wp_mono [OF hand_over_no_nil] split: sum.splits)

lemma getTemplate_no_nil: "wp (getTemplate c) no_nil q t"
  unfolding getTemplate_def by (auto intro!: wp_rules)

lemma reconcile_body_no_nil: "wp (reconcile_body c) no_nil q t"
  unfolding reconcile_body_def
  by (auto intro!: wp_rules wp_mono [OF getTemplate_no_nil] wp_mono [OF processRequest_no_nil]
      finish_request_no_nil split: sum.splits option.splits proceed.splits)

text \<open>
  C32.  A reconcile never dereferences a nil pointer, whatever the API server returns: the status
  of a snapshot is only read once a condition was found in it, and the name of a volume
  snapshot only after all of them were checked.
\<close>

theorem reconcile_no_nil_dereference:
  "NilDereference \<notin> set (snd (fst (run_state (Reconcile c key) s)))"
proof -
  have "wp (Reconcile c key) (\<lambda>r q t. NilDereference \<notin> set (snd r)) (e_req s) (e_trace s)"
    unfolding Reconcile_def reconcile_with_status_def handleDeletion_def handleTTL_def addFinalizer_def deleteSnapshot_def
    by (auto intro!: wp_rules wp_mono [OF reconcile_body_no_nil] simp: errors_of_def split: sum.splits if_splits)
  from wpD [OF this prod.collapse [symmetric]] show ?thesis .
qed

end
