(* ===== verification/Template_Controller.thy ===== *)
theory Template_Controller
  imports Kube_Client
begin

text \<open>
  The template reconciler, \<^verbatim>\<open>virtualmachinetemplate_controller.go\<close>, which marks templates ready.
  The cluster is a record of functions on a world of any type, as in \<open>Kube_Client\<close>.
\<close>

section \<open>The template reconciler\<close>

record ('w, 'o) template_client =
  tc_Now :: "'w \<Rightarrow> time \<times> 'w"
  tc_Get :: "object_key \<Rightarrow> ('w, 'o VirtualMachineTemplate) api"
  tc_NewHelper :: "'o VirtualMachineTemplate \<Rightarrow> ('w, unit) api"
  tc_Patch :: "'o VirtualMachineTemplate \<Rightarrow> 'o VirtualMachineTemplate \<Rightarrow> ('w, unit) api"

definition mark_ready :: "time \<Rightarrow> 'o VirtualMachineTemplate \<Rightarrow> 'o VirtualMachineTemplate" where
  "mark_ready now tpl = tpl\<lparr>t_Conditions := fst (SetStatusCondition now (t_Conditions tpl)
     \<lparr>c_Type = ConditionReady, c_Status = ConditionTrue, c_ObservedGeneration = m_Generation (t_Meta tpl),
      c_LastTransitionTime = 0, c_Reason = ReasonReconciled,
      c_Message = ''VirtualMachineTemplate is ready to be processed''\<rparr>)\<rparr>"

text \<open>The error that the reconcile returns, \<^term>\<open>None\<close> for nil.\<close>

definition reconcileTemplate :: "('w, 'o) template_client \<Rightarrow> object_key \<Rightarrow> 'w \<Rightarrow> api_error option \<times> 'w" where
  "reconcileTemplate c key w =
     (case tc_Get c key w of
        (Inl e, w1) \<Rightarrow> (if IsNotFound e then None else Some e, w1)
      | (Inr tpl, w1) \<Rightarrow>
          (case tc_NewHelper c tpl w1 of
             (Inl e, w2) \<Rightarrow> (Some e, w2)
           | (Inr _, w2) \<Rightarrow>
               (case tc_Now c w2 of
                  (now, w3) \<Rightarrow>
                    (case tc_Patch c tpl (mark_ready now tpl) w3 of
                       (Inl e, w4) \<Rightarrow> (Some e, w4)
                     | (Inr _, w4) \<Rightarrow> (None, w4)))))"

section \<open>Lemmas\<close>

lemma mark_ready_ready: "conds.status (t_Conditions (mark_ready now tpl)) ConditionReady = Some ConditionTrue"
  by (simp add: mark_ready_def condition_simps)

lemma set_condition_twice:
  "fst (SetStatusCondition now' (fst (SetStatusCondition now cs new)) new) = fst (SetStatusCondition now cs new)"
proof -
  let ?l = "fst (SetStatusCondition now cs new)"
  obtain c where c: "FindStatusCondition ?l (c_Type new) = Some c" "\<not> snd (update_condition now' new c)"
    by (simp add: find_set) (auto simp: update_condition_def Let_def split: option.split)
  then have "fst (update_condition now' new c) = c" by (simp add: update_condition_id)
  then have "replace_condition (\<lambda>c. fst (update_condition now' new c)) (c_Type new) ?l = ?l"
    using replace_condition_id [OF c(1)] by blast
  then show ?thesis using c(1) by (simp add: SetStatusCondition_def [of now' ?l])
qed

lemma mark_ready_idem: "mark_ready now' (mark_ready now tpl) = mark_ready now tpl"
  by (simp add: mark_ready_def set_condition_twice)

section \<open>Properties\<close>

text \<open>
  A reconcile of a template that is there stores the condition Ready with the status True and the
  current generation, and a second reconcile finds nothing to change.
\<close>

theorem template_marked_ready:
  assumes "tc_Get c key w = (Inr tpl, w1)" "tc_NewHelper c tpl w1 = (Inr (), w2)" "tc_Now c w2 = (now, w3)"
  shows "\<exists>tpl'. reconcileTemplate c key w =
      (case tc_Patch c tpl tpl' w3 of (Inl e, w4) \<Rightarrow> (Some e, w4) | (Inr _, w4) \<Rightarrow> (None, w4)) \<and>
    (\<exists>cd. FindStatusCondition (t_Conditions tpl') ConditionReady = Some cd \<and> c_Status cd = ConditionTrue \<and>
       c_ObservedGeneration cd = m_Generation (t_Meta tpl)) \<and>
    t_Meta tpl' = t_Meta tpl \<and> t_Spec tpl' = t_Spec tpl \<and> (\<forall>now'. mark_ready now' tpl' = tpl')"
proof (intro exI [of _ "mark_ready now tpl"] conjI)
  show "reconcileTemplate c key w =
      (case tc_Patch c tpl (mark_ready now tpl) w3 of (Inl e, w4) \<Rightarrow> (Some e, w4) | (Inr _, w4) \<Rightarrow> (None, w4))"
    using assms by (simp add: reconcileTemplate_def)
  show "\<exists>cd. FindStatusCondition (t_Conditions (mark_ready now tpl)) ConditionReady = Some cd \<and> c_Status cd = ConditionTrue \<and>
       c_ObservedGeneration cd = m_Generation (t_Meta tpl)"
    by (auto simp: mark_ready_def find_set update_condition_fields split: option.split)
qed (simp_all add: mark_ready_def set_condition_twice)


definition ready_client :: "(unit, unit) template_client" where
  "ready_client = \<lparr>tc_Now = \<lambda>w. (7, w),
     tc_Get = \<lambda>k w. (Inr \<lparr>t_TypeMeta = empty_type, t_Meta = empty_meta, t_Spec = \<lparr>ts_VirtualMachine = None, ts_Parameters = [], ts_Message = []\<rparr>, t_Conditions = []\<rparr>, w),
     tc_NewHelper = \<lambda>t w. (Inr (), w), tc_Patch = \<lambda>a b w. (Inr (), w)\<rparr>"

theorem template_marked_ready_witness:
  "\<exists>tpl' cd :: Condition. reconcileTemplate ready_client (''ns'', ''tpl'') () = (None, ()) \<and>
     FindStatusCondition (t_Conditions (tpl' :: unit VirtualMachineTemplate)) ConditionReady = Some cd \<and> c_Status cd = ConditionTrue"
  using template_marked_ready [of ready_client "(''ns'', ''tpl'')" "()" _ "()" "()" 7 "()"]
  by (auto simp: ready_client_def)

end
