(* ===== verification/Request_Protocol.thy ===== *)
theory Request_Protocol
  imports Request_Controller
begin

text \<open>
  The order of the calls of a reconcile.  \<open>allowed\<close> is the contract that the reconciler keeps
  towards the cluster: for every call it says what must have been seen before it.  It is stated
  over the trace of the calls and their answers alone, so it does not depend on how the cluster
  behaves or on what other clients do between two calls.
\<close>

section \<open>Traces in which every event is allowed\<close>

definition ordered :: "(event set \<Rightarrow> event \<Rightarrow> bool) \<Rightarrow> event list \<Rightarrow> bool" where
  "ordered A t \<longleftrightarrow> (\<forall>i < length t. A (set (take i t)) (t ! i))"

lemma ordered_Nil [simp]: "ordered A []"
  by (simp add: ordered_def)

lemma ordered_snoc [simp]: "ordered A (t @ [e]) \<longleftrightarrow> ordered A t \<and> A (set t) e"
  by (auto simp: ordered_def nth_append less_Suc_eq all_conj_distrib)

lemma ordered_snoc2 [simp]: "ordered A (t @ [a, b]) \<longleftrightarrow> ordered A t \<and> A (set t) a \<and> A (insert a (set t)) b"
  using ordered_snoc [of A "t @ [a]" b] by simp

lemma ordered_split: "ordered A (pre @ e # post) \<Longrightarrow> A (set pre) e"
  unfolding ordered_def by (drule spec [of _ "length pre"]) simp

section \<open>The contract\<close>

text \<open>The statuses that the contract speaks about.\<close>

definition ready :: "VirtualMachineTemplateRequest \<Rightarrow> string option" where
  "ready q = conds.status (r_Conditions q) ConditionReady"

definition progressing :: "VirtualMachineTemplateRequest \<Rightarrow> string option" where
  "progressing q = conds.status (r_Conditions q) ConditionProgressing"

definition progressing_reason :: "VirtualMachineTemplateRequest \<Rightarrow> string option" where
  "progressing_reason q = conds.reason (r_Conditions q) ConditionProgressing"

definition fetched :: "event set \<Rightarrow> VirtualMachineTemplateRequest \<Rightarrow> bool" where
  "fetched E q \<longleftrightarrow> (\<exists>k. EvGetRequest k (Inr q) \<in> E)"

definition current :: "event set \<Rightarrow> VirtualMachineTemplateRequest \<Rightarrow> bool" where
  "current E q \<longleftrightarrow> fetched E q \<or> (\<exists>q1 q2. EvPatchRequest q1 q2 (Inr q) \<in> E)"

text \<open>The finalizer was on the request, or it was added to it.\<close>

definition finalized :: "event set \<Rightarrow> bool" where
  "finalized E \<longleftrightarrow>
     (\<exists>q. fetched E q \<and> \<not> being_deleted (r_Meta q) \<and>
        (ContainsFinalizer (r_Meta q) FinalizerSnapshotCleanup \<or>
         (\<exists>q1 q2. EvPatchRequest q q1 (Inr q2) \<in> E \<and> ContainsFinalizer (r_Meta q1) FinalizerSnapshotCleanup)))"

text \<open>A template that carries the uid of the request was found, or was created with it.\<close>

definition owned_template :: "event set \<Rightarrow> VirtualMachineTemplateRequest \<Rightarrow> RequestTemplate \<Rightarrow> bool" where
  "owned_template E q tpl \<longleftrightarrow>
     EvGetTemplate (object_key (t_Meta (emptyTemplate q))) (Inr tpl) \<in> E \<and> label_value (t_Meta tpl) LabelRequestUID = m_UID (r_Meta q) \<or>
     (\<exists>new. EvCreateTemplate new (Inr tpl) \<in> E \<and> label_value (t_Meta new) LabelRequestUID = m_UID (r_Meta q))"

definition template_missing :: "event set \<Rightarrow> VirtualMachineTemplateRequest \<Rightarrow> bool" where
  "template_missing E q \<longleftrightarrow> (\<exists>e. EvGetTemplate (object_key (t_Meta (emptyTemplate q))) (Inl e) \<in> E \<and> IsNotFound e)"

text \<open>A ready snapshot of the request was seen, and its content, which is ready and complete.\<close>

definition owned_snapshot :: "event set \<Rightarrow> VirtualMachineTemplateRequest \<Rightarrow> VirtualMachineSnapshot \<Rightarrow> bool" where
  "owned_snapshot E q snap \<longleftrightarrow>
     (EvGetSnapshot (object_key (s_Meta (emptySnapshot q))) (Inr snap) \<in> E \<or> EvCreateSnapshot (newSnapshot q) (Inr snap) \<in> E) \<and>
     label_value (s_Meta snap) LabelRequestUID = m_UID (r_Meta q)"

definition ready_content :: "event set \<Rightarrow> VirtualMachineTemplateRequest \<Rightarrow> VirtualMachineSnapshotContent \<Rightarrow> bool" where
  "ready_content E q sc \<longleftrightarrow>
     isSnapshotContentReady sc = Inr True \<and>
     (\<exists>snap n. owned_snapshot E q snap \<and> fst (isSnapshotStatusConditionTrue snap SnapshotReady) \<and>
        EvGetContent (m_Namespace (s_Meta snap), n) (Inr sc) \<in> E)"

definition dv_key :: "VirtualMachineTemplateRequest \<Rightarrow> VolumeBackup \<Rightarrow> object_key" where
  "dv_key q vol = (m_Namespace (r_Meta q), getDvName q (vb_VolumeName vol))"

definition cloned_volumes :: "VirtualMachineSnapshotContent \<Rightarrow> VolumeBackup list" where
  "cloned_volumes sc = filter (\<lambda>vol. vb_VolumeName vol \<noteq> getBackendStoragePVCName sc) (sc_VolumeBackups sc)"

definition volumes_seen_ready :: "event set \<Rightarrow> VirtualMachineTemplateRequest \<Rightarrow> VolumeBackup list \<Rightarrow> bool" where
  "volumes_seen_ready E q vols \<longleftrightarrow>
     (\<forall>vol \<in> set vols. \<exists>dv. EvGetDV (dv_key q vol) (Inr dv) \<in> E \<and> fst (isDataVolumeStatusConditionTrue dv DataVolumeReady))"

text \<open>Every data volume of the request that was listed is controlled by the template.\<close>

definition handed_over :: "event set \<Rightarrow> RequestTemplate \<Rightarrow> DataVolume list \<Rightarrow> bool" where
  "handed_over E tpl dvs \<longleftrightarrow>
     (\<forall>dv \<in> set dvs. IsControlledBy (d_Meta dv) (t_Meta tpl) \<or>
        (\<exists>dv' r. EvPatchDV dv dv' (Inr r) \<in> E \<and> IsControlledBy (d_Meta dv') (t_Meta tpl)))"

definition volumes_handed_over :: "event set \<Rightarrow> VirtualMachineTemplateRequest \<Rightarrow> RequestTemplate \<Rightarrow> bool" where
  "volumes_handed_over E q tpl \<longleftrightarrow> (\<exists>dvs. EvListDVs (m_UID (r_Meta q)) (Inr dvs) \<in> E \<and> handed_over E tpl dvs)"

definition snapshot_gone :: "event set \<Rightarrow> VirtualMachineTemplateRequest \<Rightarrow> bool" where
  "snapshot_gone E q \<longleftrightarrow>
     (\<exists>r. EvDeleteSnapshot (object_key (s_Meta (emptySnapshot q))) r \<in> E \<and> (\<forall>e. r = Inl e \<longrightarrow> IsNotFound e))"

definition template_ready :: "RequestTemplate \<Rightarrow> bool" where
  "template_ready tpl \<longleftrightarrow> conds.status (t_Conditions tpl) ConditionReady = Some ConditionTrue"

text \<open>A template that is made from the expanded source of a snapshot content.\<close>

definition made_from :: "event set \<Rightarrow> VirtualMachineTemplateRequest \<Rightarrow> VirtualMachineSnapshotContent \<Rightarrow> RequestTemplate \<Rightarrow> bool" where
  "made_from E q sc tpl \<longleftrightarrow>
     (\<exists>src vm spec. sc_SourceVM sc = Some src \<and> EvExpandVM (m_Namespace (sc_Meta sc)) src (Inr vm) \<in> E \<and>
        template_spec q sc (vm_Spec vm) = Some spec \<and> tpl = newTemplate q spec)"

text \<open>The work for a request is done.\<close>

definition completed :: "event set \<Rightarrow> VirtualMachineTemplateRequest \<Rightarrow> VirtualMachineTemplateRequest \<Rightarrow> bool" where
  "completed E q q' \<longleftrightarrow>
     (\<exists>tpl. owned_template E q tpl \<and> template_ready tpl \<and> volumes_handed_over E q tpl \<and> snapshot_gone E q \<and>
        r_TemplateRef q' = Some (m_Name (t_Meta tpl)))"

text \<open>The status that a reconcile stores.\<close>

definition status_step :: "event set \<Rightarrow> VirtualMachineTemplateRequest \<Rightarrow> VirtualMachineTemplateRequest \<Rightarrow> bool" where
  "status_step E q q' \<longleftrightarrow>
     r_Meta q' = r_Meta q \<and> r_Spec q' = r_Spec q \<and>
     (ready q' = Some ConditionTrue \<and> progressing q' = Some ConditionFalse \<and> progressing_reason q' = Some ReasonReconciled \<and> completed E q q' \<or>
      ready q' = Some ConditionFalse \<and> progressing q' = Some ConditionFalse \<and>
        progressing_reason q' \<in> {Some ReasonFailed, Some ReasonInvalidConfiguration} \<or>
      ready q' \<noteq> Some ConditionTrue \<and> ready q' \<noteq> None \<and> progressing q' = Some ConditionTrue)"

fun allowed :: "event set \<Rightarrow> event \<Rightarrow> bool" where
  "allowed E (EvPatchRequest q q1 r) \<longleftrightarrow>
     fetched E q \<and>
     (\<not> being_deleted (r_Meta q) \<and> q1 = q\<lparr>r_Meta := AddFinalizer (r_Meta q) FinalizerSnapshotCleanup\<rparr> \<or>
      being_deleted (r_Meta q) \<and> q1 = q\<lparr>r_Meta := RemoveFinalizer (r_Meta q) FinalizerSnapshotCleanup\<rparr> \<and>
        (validateRequest q = None \<longrightarrow> snapshot_gone E q))"
| "allowed E (EvDeleteRequest k r) \<longleftrightarrow>
     (\<exists>q. ready q = Some ConditionTrue \<and> progressing q = Some ConditionFalse \<and> k = object_key (r_Meta q) \<and>
        rs_TTLSecondsAfterFinished (r_Spec q) \<noteq> None \<and>
        current E q)"
| "allowed E (EvNewHelper q r) \<longleftrightarrow> shouldReconcile q \<and> finalized E"
| "allowed E (EvCreateSnapshot snap r) \<longleftrightarrow>
     (\<exists>q. EvNewHelper q (Inr ()) \<in> E \<and> finalized E \<and> snap = newSnapshot q \<and> validateRequest q = None \<and> template_missing E q \<and>
        (\<exists>e. EvGetSnapshot (object_key (s_Meta snap)) (Inl e) \<in> E \<and> IsNotFound e))"
| "allowed E (EvCreateDV dv r) \<longleftrightarrow>
     (\<exists>q sc. EvNewHelper q (Inr ()) \<in> E \<and> ready_content E q sc \<and>
        (\<exists>vol \<in> set (cloned_volumes sc). object_key (d_Meta dv) = dv_key q vol \<and>
           (\<exists>e. EvGetDV (dv_key q vol) (Inl e) \<in> E \<and> IsNotFound e)) \<and>
        label_value (d_Meta dv) LabelRequestUID = m_UID (r_Meta q) \<and> IsControlledBy (d_Meta dv) (r_Meta q))"
| "allowed E (EvCreateTemplate tpl r) \<longleftrightarrow>
     (\<exists>q sc. EvNewHelper q (Inr ()) \<in> E \<and> template_missing E q \<and> ready_content E q sc \<and>
        volumes_seen_ready E q (cloned_volumes sc) \<and> made_from E q sc tpl \<and>
        object_key (t_Meta tpl) = object_key (t_Meta (emptyTemplate q)) \<and>
        label_value (t_Meta tpl) LabelRequestUID = m_UID (r_Meta q))"
| "allowed E (EvPatchDV dv dv' r) \<longleftrightarrow>
     (\<exists>q tpl dvs. EvNewHelper q (Inr ()) \<in> E \<and> owned_template E q tpl \<and>
        EvListDVs (m_UID (r_Meta q)) (Inr dvs) \<in> E \<and> dv \<in> set dvs \<and>
        \<not> IsControlledBy (d_Meta dv) (t_Meta tpl) \<and> IsControlledBy (d_Meta dv') (t_Meta tpl))"
| "allowed E (EvDeleteSnapshot k r) \<longleftrightarrow>
     (\<exists>q. fetched E q \<and> being_deleted (r_Meta q) \<and> validateRequest q = None \<and>
        ContainsFinalizer (r_Meta q) FinalizerSnapshotCleanup \<and> k = object_key (s_Meta (emptySnapshot q))) \<or>
     (\<exists>q tpl. EvNewHelper q (Inr ()) \<in> E \<and> owned_template E q tpl \<and> volumes_handed_over E q tpl \<and>
        k = object_key (s_Meta (emptySnapshot q)))"
| "allowed E (EvHelperPatch q q' r) \<longleftrightarrow>
     EvNewHelper q (Inr ()) \<in> E \<and> (ready q \<noteq> Some ConditionTrue \<longrightarrow> status_step E q q')"
| "allowed E ev \<longleftrightarrow> True"


section \<open>Lemmas\<close>

named_theorems trace_mono \<open>what was seen stays seen\<close>
named_theorems status_simps \<open>the statuses after a change of the request\<close>

lemma fetched_mono [trace_mono]: "fetched E q \<Longrightarrow> E \<subseteq> E' \<Longrightarrow> fetched E' q"
  unfolding fetched_def by blast

lemma finalized_mono [trace_mono]: "finalized E \<Longrightarrow> E \<subseteq> E' \<Longrightarrow> finalized E'"
  unfolding finalized_def by (meson fetched_mono subsetD)

lemma owned_template_mono [trace_mono]: "owned_template E q tpl \<Longrightarrow> E \<subseteq> E' \<Longrightarrow> owned_template E' q tpl"
  unfolding owned_template_def by blast

lemma template_missing_mono [trace_mono]: "template_missing E q \<Longrightarrow> E \<subseteq> E' \<Longrightarrow> template_missing E' q"
  unfolding template_missing_def by blast

lemma owned_snapshot_mono [trace_mono]: "owned_snapshot E q snap \<Longrightarrow> E \<subseteq> E' \<Longrightarrow> owned_snapshot E' q snap"
  unfolding owned_snapshot_def by blast

lemma ready_content_mono [trace_mono]: "ready_content E q sc \<Longrightarrow> E \<subseteq> E' \<Longrightarrow> ready_content E' q sc"
  unfolding ready_content_def by (meson owned_snapshot_mono subsetD)

lemma volumes_seen_ready_mono [trace_mono]: "volumes_seen_ready E q vols \<Longrightarrow> E \<subseteq> E' \<Longrightarrow> volumes_seen_ready E' q vols"
  unfolding volumes_seen_ready_def by blast

lemma handed_over_mono [trace_mono]: "handed_over E tpl dvs \<Longrightarrow> E \<subseteq> E' \<Longrightarrow> handed_over E' tpl dvs"
  unfolding handed_over_def by blast

lemma volumes_handed_over_mono [trace_mono]: "volumes_handed_over E q tpl \<Longrightarrow> E \<subseteq> E' \<Longrightarrow> volumes_handed_over E' q tpl"
  unfolding volumes_handed_over_def by (meson handed_over_mono subsetD)

lemma handed_over_simps [simp]:
  "handed_over E tpl []"
  "handed_over E tpl (dv # dvs) \<longleftrightarrow> (IsControlledBy (d_Meta dv) (t_Meta tpl) \<or>
     (\<exists>dv' r. EvPatchDV dv dv' (Inr r) \<in> E \<and> IsControlledBy (d_Meta dv') (t_Meta tpl))) \<and> handed_over E tpl dvs"
  by (simp_all add: handed_over_def)

lemma handed_over_patched:
  "EvPatchDV dv dv' (Inr r) \<in> E \<Longrightarrow> IsControlledBy (d_Meta dv') (t_Meta tpl) \<Longrightarrow> handed_over E tpl dvs \<Longrightarrow>
   handed_over E tpl (dv # dvs)"
  by auto

lemma volumes_seen_ready_simps [simp]:
  "volumes_seen_ready E q []"
  "volumes_seen_ready E q (vol # vols) \<longleftrightarrow>
     (\<exists>dv. EvGetDV (dv_key q vol) (Inr dv) \<in> E \<and> fst (isDataVolumeStatusConditionTrue dv DataVolumeReady)) \<and> volumes_seen_ready E q vols"
  by (simp_all add: volumes_seen_ready_def)

text \<open>The conditions of the request are the only part of it that changes.\<close>

lemma set_conditions_frame [simp]:
  "r_Meta (setReadyCondition now st rs msg q) = r_Meta q" "r_Spec (setReadyCondition now st rs msg q) = r_Spec q"
  "r_TemplateRef (setReadyCondition now st rs msg q) = r_TemplateRef q"
  "r_Meta (setProgressingCondition now st rs q) = r_Meta q" "r_Spec (setProgressingCondition now st rs q) = r_Spec q"
  "r_TemplateRef (setProgressingCondition now st rs q) = r_TemplateRef q"
  "r_Meta (setTemplateRef q tpl) = r_Meta q" "r_Spec (setTemplateRef q tpl) = r_Spec q"
  "r_TemplateRef (setTemplateRef q tpl) = Some (m_Name (t_Meta tpl))"
  by (simp_all add: setReadyCondition_def setProgressingCondition_def setTemplateRef_def)

lemma sync_frame [simp]:
  "r_Meta (syncDataVolumeStatusConditions now q dv) = r_Meta q"
  "r_Spec (syncDataVolumeStatusConditions now q dv) = r_Spec q"
  "r_Meta (syncTemplateStatusConditions now q tpl) = r_Meta q"
  "r_Spec (syncTemplateStatusConditions now q tpl) = r_Spec q"
  "r_TemplateRef (syncTemplateStatusConditions now q tpl) = r_TemplateRef q"
  "r_Meta (setStatusConditions now e q) = r_Meta q" "r_Spec (setStatusConditions now e q) = r_Spec q"
  "r_TemplateRef (setStatusConditions now e q) = r_TemplateRef q"
  by (auto simp: syncDataVolumeStatusConditions_def syncTemplateStatusConditions_def setStatusConditions_def Let_def
      split: prod.split option.split)

lemma Ready_neq_Progressing [simp]: "ConditionReady \<noteq> ConditionProgressing" "ConditionProgressing \<noteq> ConditionReady"
  by (simp_all add: ConditionReady_def ConditionProgressing_def)

lemma True_neq_False [simp]: "ConditionTrue \<noteq> ConditionFalse" "ConditionFalse \<noteq> ConditionTrue"
  by (simp_all add: ConditionTrue_def ConditionFalse_def)

lemma status_after_set [simp]:
  "ready (setReadyCondition now st rs msg q) = Some st"
  "progressing (setReadyCondition now st rs msg q) = progressing q"
  "progressing_reason (setReadyCondition now st rs msg q) = progressing_reason q"
  "ready (setProgressingCondition now st rs q) = ready q"
  "progressing (setProgressingCondition now st rs q) = Some st"
  "progressing_reason (setProgressingCondition now st rs q) = Some rs"
  "ready (setTemplateRef q tpl) = ready q"
  "progressing (setTemplateRef q tpl) = progressing q"
  "progressing_reason (setTemplateRef q tpl) = progressing_reason q"
  by (simp_all add: ready_def progressing_def progressing_reason_def setReadyCondition_def setProgressingCondition_def
      setTemplateRef_def condition_simps)

lemma find_ready: "FindStatusCondition (r_Conditions q) ConditionReady = None \<longleftrightarrow> ready q = None"
  "FindStatusCondition (r_Conditions q) ConditionReady = Some c \<Longrightarrow> ready q = Some (c_Status c)"
  "FindStatusCondition (r_Conditions q) ConditionProgressing = None \<longleftrightarrow> progressing q = None"
  "FindStatusCondition (r_Conditions q) ConditionProgressing = Some c \<Longrightarrow> progressing q = Some (c_Status c)"
  by (simp_all add: ready_def progressing_def conds.find_None_status conds.find_status)

text \<open>Where a reconcile stands: it goes on, it stops without an error, or it stops with one.\<close>

definition opened :: "VirtualMachineTemplateRequest \<Rightarrow> VirtualMachineTemplateRequest \<Rightarrow> bool" where
  "opened q0 q \<longleftrightarrow> progressing q = None \<and> (ready q = Some ConditionTrue \<longrightarrow> ready q0 = Some ConditionTrue)"

definition stopped :: "VirtualMachineTemplateRequest \<Rightarrow> VirtualMachineTemplateRequest \<Rightarrow> bool" where
  "stopped q0 q \<longleftrightarrow> opened q0 q \<or> ready q = Some ConditionFalse \<and> (progressing q = Some ConditionTrue \<or>
     progressing q = Some ConditionFalse \<and> progressing_reason q \<in> {Some ReasonFailed, Some ReasonInvalidConfiguration})"

definition broken :: "VirtualMachineTemplateRequest \<Rightarrow> bool" where
  "broken q \<longleftrightarrow> progressing q = None \<or> progressing q = Some ConditionFalse \<and> progressing_reason q = Some ReasonFailed"

lemma opened_broken [simp, intro]: "opened q0 q \<Longrightarrow> broken q"
  by (simp add: opened_def broken_def)

lemma opened_stopped [simp, intro]: "opened q0 q \<Longrightarrow> stopped q0 q"
  by (simp add: stopped_def)

lemma broken_failed [simp]: "broken (setProgressingCondition now ConditionFalse ReasonFailed q)"
  by (simp add: broken_def)

lemma opened_template_ref [simp]: "opened q0 (setTemplateRef q tpl) \<longleftrightarrow> opened q0 q"
  by (simp add: opened_def)

lemma opened_not_ready [simp]: "opened q0 q \<Longrightarrow> opened q0 (setReadyCondition now ConditionFalse rs msg q)"
  by (simp add: opened_def)

lemma stopped_data_volume [simp]: "opened q0 q \<Longrightarrow> stopped q0 (syncDataVolumeStatusConditions now q dv)"
  by (auto simp: syncDataVolumeStatusConditions_def stopped_def opened_def split: prod.split)

lemma stopped_snapshot:
  "syncSnapshotStatusConditions now q snap = Some q' \<Longrightarrow> opened q0 q \<Longrightarrow>
   stopped q0 q' \<and> r_Meta q' = r_Meta q \<and> r_Spec q' = r_Spec q"
  by (auto simp: syncSnapshotStatusConditions_def stopped_def opened_def Let_def split: if_splits option.splits bool.splits)

text \<open>The state in which the functions behind the helper run.\<close>

definition working :: "VirtualMachineTemplateRequest \<Rightarrow> VirtualMachineTemplateRequest \<Rightarrow> event list \<Rightarrow> bool" where
  "working q0 q t \<longleftrightarrow> ordered allowed t \<and> EvNewHelper q0 (Inr ()) \<in> set t \<and> finalized (set t) \<and>
     r_Meta q = r_Meta q0 \<and> r_Spec q = r_Spec q0"

lemma working_snoc: "working q0 q t \<Longrightarrow> allowed (set t) e \<Longrightarrow> working q0 q (t @ [e])"
  by (auto simp: working_def intro: finalized_mono)

lemma working_cong: "r_Meta q' = r_Meta q \<Longrightarrow> r_Spec q' = r_Spec q \<Longrightarrow> working q0 q' t \<longleftrightarrow> working q0 q t"
  by (simp add: working_def)

lemma working_conditions [simp]:
  "working q0 (setReadyCondition now st rs msg q) t \<longleftrightarrow> working q0 q t"
  "working q0 (setProgressingCondition now st rs q) t \<longleftrightarrow> working q0 q t"
  "working q0 (setTemplateRef q tpl) t \<longleftrightarrow> working q0 q t"
  "working q0 (syncDataVolumeStatusConditions now q dv) t \<longleftrightarrow> working q0 q t"
  "working q0 (syncTemplateStatusConditions now q tpl) t \<longleftrightarrow> working q0 q t"
  by (simp_all add: working_def)

lemma working_names:
  assumes "working q0 q t"
  shows "getDvName q = getDvName q0" "emptySnapshot q = emptySnapshot q0" "newSnapshot q = newSnapshot q0"
    "emptyTemplate q = emptyTemplate q0" "r_Meta q = r_Meta q0" "validateRequest q = validateRequest q0"
  using assms by (auto simp: working_def getDvName_def emptySnapshot_def newSnapshot_def emptyTemplate_def getTemplateName_def
      validateRequest_def)

definition ensures ::
  "VirtualMachineTemplateRequest \<Rightarrow> event list \<Rightarrow> ('a \<Rightarrow> VirtualMachineTemplateRequest \<Rightarrow> event set \<Rightarrow> bool)
   \<Rightarrow> rec_error + 'a \<Rightarrow> VirtualMachineTemplateRequest \<Rightarrow> event list \<Rightarrow> bool" where
  "ensures q0 t post r q' t' \<longleftrightarrow> working q0 q' t' \<and> set t \<subseteq> set t' \<and>
     (case r of Inl e \<Rightarrow> broken q' | Inr a \<Rightarrow> post a q' (set t'))"

lemma ensures_Inl [simp]: "ensures q0 t post (Inl e) q' t' \<longleftrightarrow> working q0 q' t' \<and> set t \<subseteq> set t' \<and> broken q'"
  by (simp add: ensures_def)

lemma ensures_Inr [simp]: "ensures q0 t post (Inr a) q' t' \<longleftrightarrow> working q0 q' t' \<and> set t \<subseteq> set t' \<and> post a q' (set t')"
  by (simp add: ensures_def)

lemma ensures_weaken:
  "ensures q0 t1 post1 r q' t' \<Longrightarrow> set t \<subseteq> set t1 \<Longrightarrow> (\<And>a. post1 a q' (set t') \<Longrightarrow> post a q' (set t')) \<Longrightarrow> ensures q0 t post r q' t'"
  by (cases r) auto

text \<open>The rule for a call of a function that has a specification.\<close>

lemma wp_spec:
  assumes "wp m (ensures q0 t1 post1) q t1" "set t \<subseteq> set t1" "\<And>a q' E. set t1 \<subseteq> E \<Longrightarrow> post1 a q' E \<Longrightarrow> post a q' E"
  shows "wp m (ensures q0 t post) q t1"
  using assms(1) by (rule wp_mono) (use assms(2,3) in \<open>auto simp: ensures_def split: sum.splits\<close>)

lemma wp_then_spec:
  assumes "wp m (ensures q0 t1 post1) q t1" "set t \<subseteq> set t1"
    and "\<And>a q' t'. working q0 q' t' \<Longrightarrow> set t1 \<subseteq> set t' \<Longrightarrow> post1 a q' (set t') \<Longrightarrow> wp (f a) (ensures q0 t post) q' t'"
  shows "wp (and_then m f) (ensures q0 t post) q t1"
proof (rule wp_and_then, rule wp_mono [OF assms(1)])
  fix r q' t'
  assume "ensures q0 t1 post1 r q' t'"
  then show "case r of Inl e \<Rightarrow> ensures q0 t post (Inl e) q' t' | Inr a \<Rightarrow> wp (f a) (ensures q0 t post) q' t'"
    using assms(3) subset_trans [OF assms(2)] by (cases r) simp_all
qed

lemma volumes_ready_spec:
  assumes "working q0 q t" "opened q0 q"
  shows "wp (volumes_ready c backend vols)
    (ensures q0 t (\<lambda>b q' E. (b \<longrightarrow> q' = q \<and> volumes_seen_ready E q0 (filter (\<lambda>vol. vb_VolumeName vol \<noteq> backend) vols)) \<and> (\<not> b \<longrightarrow> stopped q0 q'))) q t"
  using assms
proof (induction vols arbitrary: t)
  case Nil
  then show ?case by (auto intro: wp_rules)
next
  case (Cons vol vols)
  let ?key = "(m_Namespace (r_Meta q), getDvName q (vb_VolumeName vol))"
  have key: "?key = dv_key q0 vol" using working_names [OF Cons.prems(1)] by (simp add: dv_key_def)
  have step: "working q0 q (t @ [EvGetDV ?key r])" for r by (rule working_snoc [OF Cons.prems(1)]) simp
  have IH: "fst (isDataVolumeStatusConditionTrue dv DataVolumeReady) \<Longrightarrow> wp (volumes_ready c backend vols)
      (ensures q0 t (\<lambda>b q' E. (b \<longrightarrow> q' = q \<and> volumes_seen_ready E q0 (vol # filter (\<lambda>vol. vb_VolumeName vol \<noteq> backend) vols)) \<and> (\<not> b \<longrightarrow> stopped q0 q')))
      q (t @ [EvGetDV ?key (Inr dv)])" for dv
    by (rule wp_spec [OF Cons.IH [OF step Cons.prems(2)]]) (auto simp: key split: if_splits)
  show ?case
  proof (cases "vb_VolumeName vol = backend")
    case True
    then show ?thesis using Cons.IH [OF Cons.prems] by simp
  next
    case False
    then show ?thesis using Cons.prems step IH
      by (simp del: volumes_seen_ready_simps) (intro wp_rules; auto simp del: volumes_seen_ready_simps)
  qed
qed

lemma hand_over_spec:
  assumes "working q0 q t" "opened q0 q" "owned_template (set t) q0 tpl"
    and "EvListDVs (m_UID (r_Meta q0)) (Inr all) \<in> set t" "set dvs \<subseteq> set all"
  shows "wp (hand_over c tpl dvs) (ensures q0 t (\<lambda>u q' E. q' = q \<and> handed_over E tpl dvs)) q t"
  using assms
proof (induction dvs arbitrary: t)
  case Nil
  then show ?case by (auto intro: wp_rules)
next
  case (Cons dv dvs)
  show ?case
  proof (cases "IsControlledBy (d_Meta dv) (t_Meta tpl)")
    case True
    then show ?thesis using Cons.IH [OF Cons.prems(1-4)] Cons.prems(5) by simp
  next
    case False
    have IH: "wp (hand_over c tpl dvs) (ensures q0 t (\<lambda>u q' E. q' = q \<and> handed_over E tpl (dv # dvs))) q
        (t @ [EvPatchDV dv (dv\<lparr>d_Meta := m2\<rparr>) (Inr r)])"
      and step: "working q0 q (t @ [EvPatchDV dv (dv\<lparr>d_Meta := m2\<rparr>) r'])"
      if m2: "SetControllerReference (t_Meta tpl) TemplateGVK m1 = Inr m2" for m1 m2 r r'
    proof -
      have c: "IsControlledBy m2 (t_Meta tpl)" using m2 by (rule SetControllerReference_controlled)
      show step: "working q0 q (t @ [EvPatchDV dv (dv\<lparr>d_Meta := m2\<rparr>) r'])" for r'
        using Cons.prems False c by (intro working_snoc) (auto simp: working_def)
      show "wp (hand_over c tpl dvs) (ensures q0 t (\<lambda>u q' E. q' = q \<and> handed_over E tpl (dv # dvs))) q
        (t @ [EvPatchDV dv (dv\<lparr>d_Meta := m2\<rparr>) (Inr r)])"
      proof (rule wp_spec [OF Cons.IH [OF step Cons.prems(2)]])
        show "owned_template (set (t @ [EvPatchDV dv (dv\<lparr>d_Meta := m2\<rparr>) (Inr r)])) q0 tpl"
          using Cons.prems(3) by (rule owned_template_mono) auto
      qed (use Cons.prems c in \<open>auto simp del: handed_over_simps intro: handed_over_patched\<close>)
    qed
    show ?thesis using False Cons.prems(1,2) IH step
      by (simp del: handed_over_simps) (intro wp_rules; auto simp del: handed_over_simps intro!: wp_rules split: sum.splits)
  qed
qed


lemma clone_volumes_spec:
  assumes "working q0 q t" "opened q0 q" "ready_content (set t) q0 sc" "set vols \<subseteq> set (sc_VolumeBackups sc)"
    and "ns = m_Namespace (sc_Meta sc)"
  shows "wp (clone_volumes c ns (getBackendStoragePVCName sc) vols) (ensures q0 t (\<lambda>u q' E. q' = q)) q t"
  using assms
proof (induction vols arbitrary: t)
  case Nil
  then show ?case by (auto intro: wp_rules)
next
  case (Cons vol vols)
  let ?key = "(m_Namespace (r_Meta q), getDvName q (vb_VolumeName vol))"
  have key: "?key = dv_key q0 vol" and meta: "r_Meta q = r_Meta q0"
    using working_names [OF Cons.prems(1)] by (simp_all add: dv_key_def)
  have step: "working q0 q (t @ [EvGetDV ?key r])" for r by (rule working_snoc [OF Cons.prems(1)]) simp
  have next_volume: "wp (clone_volumes c ns (getBackendStoragePVCName sc) vols) (ensures q0 t (\<lambda>u q' E. q' = q)) q t1"
    if "working q0 q t1" "set t \<subseteq> set t1" for t1
    by (rule wp_spec [OF Cons.IH [OF that(1)]])
       (use Cons.prems that ready_content_mono [OF Cons.prems(3)] in auto)
  show ?case
  proof (cases "vb_VolumeName vol = getBackendStoragePVCName sc")
    case True
    then show ?thesis using next_volume [OF Cons.prems(1)] by simp
  next
    case False
    have created: "working q0 q ((t @ [EvGetDV ?key (Inl e)]) @ [EvCreateDV (newDv (fst ?key) (snd ?key) (m_UID (r_Meta q)) ns sn\<lparr>d_Meta := m\<rparr>) r])"
      if "IsNotFound e" and m: "SetControllerReference (r_Meta q) RequestGVK (d_Meta (newDv (fst ?key) (snd ?key) (m_UID (r_Meta q)) ns sn)) = Inr m"
      for e sn m r
    proof (rule working_snoc [OF step])
      have "vol \<in> set (cloned_volumes sc)" using Cons.prems(4) False by (simp add: cloned_volumes_def)
      moreover have "object_key m = dv_key q0 vol \<and> label_value m LabelRequestUID = m_UID (r_Meta q0)"
        using SetControllerReference_upsert [OF m] key meta
        by (auto simp: object_key_def label_value_def newDv_def emptyDv_def empty_meta_def upsertOwnerRef_def dv_key_def split: option.split)
      moreover have "IsControlledBy m (r_Meta q0)" using SetControllerReference_controlled [OF m] meta by simp
      moreover have "ready_content (set (t @ [EvGetDV ?key (Inl e)])) q0 sc"
        using Cons.prems(3) by (rule ready_content_mono) auto
      ultimately show "allowed (set (t @ [EvGetDV ?key (Inl e)])) (EvCreateDV (newDv (fst ?key) (snd ?key) (m_UID (r_Meta q)) ns sn\<lparr>d_Meta := m\<rparr>) r)"
        using Cons.prems(1) that(1) key by (auto simp: working_def intro!: exI [of _ q0] exI [of _ sc] bexI [of _ vol])
    qed
    show ?thesis using False Cons.prems(1,2) step created next_volume
      by simp (intro wp_rules; auto intro!: wp_rules next_volume split: sum.splits)
  qed
qed


lemma working_template:
  assumes "working q0 q t"
  shows "newTemplate q = newTemplate q0" "template_spec q = template_spec q0"
proof -
  have eq: "r_Meta q = r_Meta q0" "r_Spec q = r_Spec q0" using assms by (simp_all add: working_def)
  have tb: "transform_backups q backend vbs st = transform_backups q0 backend vbs st" for backend vbs st
  proof (induction vbs arbitrary: st)
    case (Cons vb vbs)
    then show ?case by (cases st) (simp add: eq getDvName_def getTemplateName_def split: prod.split)
  qed simp
  show "newTemplate q = newTemplate q0" "template_spec q = template_spec q0"
    unfolding fun_eq_iff newTemplate_def template_spec_def template_labels_def emptyTemplate_def getTemplateName_def eq tb
    by simp_all
qed

lemma newTemplate_meta:
  "object_key (t_Meta (newTemplate q vs)) = object_key (t_Meta (emptyTemplate q))"
  "label_value (t_Meta (newTemplate q vs)) LabelRequestUID = m_UID (r_Meta q)"
  by (simp_all add: newTemplate_def emptyTemplate_def object_key_def label_value_def template_labels_def empty_meta_def)

text \<open>A template of the request exists and is referenced.\<close>

definition proceeds :: "VirtualMachineTemplateRequest \<Rightarrow> RequestTemplate \<Rightarrow> VirtualMachineTemplateRequest \<Rightarrow> event set \<Rightarrow> bool" where
  "proceeds q0 tpl q' E \<longleftrightarrow> opened q0 q' \<and> owned_template E q0 tpl \<and> r_TemplateRef q' = Some (m_Name (t_Meta tpl))"

fun outcome :: "VirtualMachineTemplateRequest \<Rightarrow> proceed \<Rightarrow> VirtualMachineTemplateRequest \<Rightarrow> event set \<Rightarrow> bool" where
  "outcome q0 (Stop r) q' E \<longleftrightarrow> stopped q0 q'"
| "outcome q0 (Proceed tpl) q' E \<longleftrightarrow> proceeds q0 tpl q' E"

lemma createTemplate_spec:
  assumes "working q0 q t" "opened q0 q" "ready_content (set t) q0 sc" "volumes_seen_ready (set t) q0 (cloned_volumes sc)"
    and "template_missing (set t) q0"
  shows "wp (createTemplate c sc)
    (ensures q0 t (proceeds q0)) q t"
proof -
  let ?ex = "\<lambda>vm r. EvExpandVM (m_Namespace (sc_Meta sc)) vm r"
  have step: "working q0 q (t @ [?ex vm r])" for vm r by (rule working_snoc [OF assms(1)]) simp
  have created: "working q0 q ((t @ [?ex src (Inr vm)]) @ [EvCreateTemplate (newTemplate q vs) r'])"
    if "sc_SourceVM sc = Some src" "template_spec q sc (vm_Spec vm) = Some vs" for src vm vs r'
  proof (rule working_snoc [OF step])
    have "EvNewHelper q0 (Inr ()) \<in> set t" using assms(1) by (simp add: working_def)
    moreover have "set t \<subseteq> set (t @ [?ex src (Inr vm)])" by auto
    moreover have "made_from (set (t @ [?ex src (Inr vm)])) q0 sc (newTemplate q vs)"
      using that working_template [OF assms(1)] by (auto simp: made_from_def)
    ultimately show "allowed (set (t @ [?ex src (Inr vm)])) (EvCreateTemplate (newTemplate q vs) r')"
      using assms(3-5) working_names [OF assms(1)]
      by (auto simp: newTemplate_meta intro!: exI [of _ q0] exI [of _ sc] intro: trace_mono)
  qed
  have owned: "owned_template (insert (EvCreateTemplate (newTemplate q vs) (Inr tpl)) E) q0 tpl" for vs tpl E
    using assms(1) by (auto simp: owned_template_def newTemplate_meta working_def)
  show ?thesis
    unfolding createTemplate_def getExpandedVM_def
    using assms(1,2) step created owned
    by (auto intro!: wp_rules simp: proceeds_def broken_def opened_def simp del: append_assoc split: sum.splits)
qed

lemma process_content_spec:
  assumes "working q0 q t" "opened q0 q" "ready_content (set t) q0 sc" "template_missing (set t) q0"
  shows "wp (process_content c sc)
    (ensures q0 t (outcome q0)) q t"
  unfolding process_content_def cloneSnapshotContent_def isSnapshotContentCloneReady_def
proof (rule wp_then_spec [OF clone_volumes_spec [OF assms(1-3)]])
  fix u q1 t1
  assume 1: "working q0 q1 t1" "set t \<subseteq> set t1" "q1 = q"
  show "wp (and_then (volumes_ready c (getBackendStoragePVCName sc) (sc_VolumeBackups sc))
      (\<lambda>ready. if \<not> ready then ok (Stop no_result) else and_then (createTemplate c sc) (\<lambda>tpl. ok (Proceed tpl))))
      (ensures q0 t (outcome q0)) q1 t1"
  proof (rule wp_then_spec [OF volumes_ready_spec [OF 1(1)]])
    fix b q2 t2
    assume 2: "working q0 q2 t2" "set t1 \<subseteq> set t2"
      "(b \<longrightarrow> q2 = q1 \<and> volumes_seen_ready (set t2) q0 (filter (\<lambda>vol. vb_VolumeName vol \<noteq> getBackendStoragePVCName sc) (sc_VolumeBackups sc))) \<and>
       (\<not> b \<longrightarrow> stopped q0 q2)"
    have sub: "set t \<subseteq> set t2" using 1(2) 2(2) by blast
    have "wp (and_then (createTemplate c sc) (\<lambda>tpl. ok (Proceed tpl)))
      (ensures q0 t (outcome q0)) q2 t2" if b
    proof (rule wp_then_spec [OF createTemplate_spec [OF 2(1)]])
      show "opened q0 q2" "ready_content (set t2) q0 sc" "template_missing (set t2) q0"
        "volumes_seen_ready (set t2) q0 (cloned_volumes sc)" "set t \<subseteq> set t2"
        using that 1(3) 2 assms(2) ready_content_mono [OF assms(3) sub] template_missing_mono [OF assms(4) sub] sub
        by (simp_all add: cloned_volumes_def)
    qed (use sub in \<open>auto intro: wp_rules\<close>)
    then show "wp (if \<not> b then ok (Stop no_result) else and_then (createTemplate c sc) (\<lambda>tpl. ok (Proceed tpl)))
      (ensures q0 t (outcome q0)) q2 t2"
      using 2 sub by (auto intro!: wp_rules)
  qed (use 1 assms in auto)
qed simp_all


lemma getTemplate_spec:
  assumes "working q0 q t" "opened q0 q"
  shows "wp (getTemplate c)
    (ensures q0 t (\<lambda>r q' E. case r of None \<Rightarrow> q' = q \<and> template_missing E q0 | Some tpl \<Rightarrow> proceeds q0 tpl q' E)) q t"
proof -
  let ?key = "object_key (t_Meta (emptyTemplate q))"
  have step: "working q0 q (t @ [EvGetTemplate ?key r])" for r by (rule working_snoc [OF assms(1)]) simp
  show ?thesis
    unfolding getTemplate_def using assms step working_names [OF assms(1)]
    by (auto intro!: wp_rules simp: proceeds_def template_missing_def owned_template_def)
qed

lemma getSnapshotContent_spec:
  assumes "working q0 q t" "opened q0 q"
  shows "wp (getSnapshotContent c snap)
    (ensures q0 t (\<lambda>sc q' E. q' = q \<and> (\<exists>n. EvGetContent (m_Namespace (s_Meta snap), n) (Inr sc) \<in> E))) q t"
proof -
  have step: "working q0 q (t @ [EvGetContent k r])" for k r by (rule working_snoc [OF assms(1)]) simp
  show ?thesis unfolding getSnapshotContent_def using assms step
    by (auto intro!: wp_rules split: option.split list.split)
qed

lemma process_ready_snapshot_spec:
  assumes "working q0 q t" "opened q0 q" "owned_snapshot (set t) q0 snap" "template_missing (set t) q0"
    and "fst (isSnapshotStatusConditionTrue snap SnapshotReady)"
  shows "wp (process_ready_snapshot c snap) (ensures q0 t (outcome q0)) q t"
  unfolding process_ready_snapshot_def
proof (rule wp_then_spec [OF getSnapshotContent_spec [OF assms(1,2)]])
  fix sc q1 t1
  assume 1: "working q0 q1 t1" "set t \<subseteq> set t1" "q1 = q \<and> (\<exists>n. EvGetContent (m_Namespace (s_Meta snap), n) (Inr sc) \<in> set t1)"
  have "wp (process_content c sc) (ensures q0 t (outcome q0)) q1 t1" if "isSnapshotContentReady sc = Inr True"
  proof (rule wp_spec [OF process_content_spec [OF 1(1)]])
    show "ready_content (set t1) q0 sc" "template_missing (set t1) q0" "opened q0 q1"
      using that 1 assms owned_snapshot_mono [OF assms(3) 1(2)] template_missing_mono [OF assms(4) 1(2)]
      by (auto simp: ready_content_def)
  qed (use 1 in auto)
  then show "wp (case isSnapshotContentReady sc of
         Inl v \<Rightarrow> do {
           let e = MissingVolumeSnapshot (object_name (sc_Meta sc)) v;
           set_ready c ConditionFalse ReasonFailed (error_text e);
           set_progressing c ConditionFalse ReasonFailed;
           fail e }
       | Inr False \<Rightarrow> do {
           set_ready c ConditionFalse ReasonWaiting
             (''Waiting for VirtualMachineSnapshotContent '' @ object_name (sc_Meta sc) @ '' to be ready'');
           set_progressing c ConditionTrue ReasonWaiting;
           ok (Stop \<lparr>requeue_after = requeueAfterSnapshotContentNotReady\<rparr>) }
       | Inr True \<Rightarrow> process_content c sc) (ensures q0 t (outcome q0)) q1 t1"
    using 1 assms(2) by (auto intro!: wp_rules simp: stopped_def split: sum.split bool.split)
qed auto

lemma get_or_create_snapshot_spec:
  assumes "working q0 q t" "opened q0 q" "template_missing (set t) q0" "validateRequest q0 = None"
  shows "wp (get_or_create_snapshot c)
    (ensures q0 t (\<lambda>snap q' E. q' = q \<and>
       (label_value (s_Meta snap) LabelRequestUID = m_UID (r_Meta q0) \<longrightarrow> owned_snapshot E q0 snap))) q t"
proof -
  let ?key = "object_key (s_Meta (emptySnapshot q))"
  note names = working_names [OF assms(1)]
  have step: "working q0 q (t @ [EvGetSnapshot ?key r])" for r by (rule working_snoc [OF assms(1)]) simp
  have key: "object_key (s_Meta (newSnapshot q0)) = object_key (s_Meta (emptySnapshot q0))"
    by (simp add: newSnapshot_def object_key_def Let_def)
  have created: "working q0 q ((t @ [EvGetSnapshot ?key (Inl e)]) @ [EvCreateSnapshot (newSnapshot q) r])" if "IsNotFound e" for e r
  proof (rule working_snoc [OF step])
    have "template_missing (set (t @ [EvGetSnapshot ?key (Inl e)])) q0" "finalized (set (t @ [EvGetSnapshot ?key (Inl e)]))"
      using assms(1,3) by (auto simp: working_def intro: trace_mono)
    then show "allowed (set (t @ [EvGetSnapshot ?key (Inl e)])) (EvCreateSnapshot (newSnapshot q) r)"
      using that assms(1,4) names key by (auto simp: working_def intro!: exI [of _ q0])
  qed
  show ?thesis
    unfolding get_or_create_snapshot_def createSnapshot_def using assms(1,2) step created names
    by (auto intro!: wp_rules simp: owned_snapshot_def simp del: append_assoc)
qed

lemma processRequest_spec:
  assumes "working q0 q t" "opened q0 q" "template_missing (set t) q0" "validateRequest q0 = None"
  shows "wp (processRequest c) (ensures q0 t (outcome q0)) q t"
  unfolding processRequest_def
proof (rule wp_then_spec [OF get_or_create_snapshot_spec [OF assms]])
  fix snap q1 t1
  assume 1: "working q0 q1 t1" "set t \<subseteq> set t1"
    "q1 = q \<and> (label_value (s_Meta snap) LabelRequestUID = m_UID (r_Meta q0) \<longrightarrow> owned_snapshot (set t1) q0 snap)"
  have o: "opened q0 q1" using 1(3) assms(2) by simp
  have r: "wp (process_ready_snapshot c snap) (ensures q0 t (outcome q0)) q1 t1"
    if "label_value (s_Meta snap) LabelRequestUID = m_UID (r_Meta q0)" "fst (isSnapshotStatusConditionTrue snap SnapshotReady)"
    by (rule wp_spec [OF process_ready_snapshot_spec [OF 1(1) o _ template_missing_mono [OF assms(3) 1(2)] that(2)]])
       (use 1 that in auto)
  have "working q0 q2 t1 \<and> stopped q0 q2" if "syncSnapshotStatusConditions now q1 snap = Some q2" for now q2
    using stopped_snapshot [OF that o] 1(1) by (simp add: working_def)
  then show "wp (do {
       tplReq \<leftarrow> request;
       if label_value (s_Meta snap) LabelRequestUID \<noteq> m_UID (r_Meta tplReq) then do {
         set_progressing c ConditionFalse ReasonFailed;
         fail (ForeignSnapshot (object_name (s_Meta snap))) }
       else if \<not> fst (isSnapshotStatusConditionTrue snap SnapshotReady) then do {
         now \<leftarrow> time_Now c;
         case syncSnapshotStatusConditions now tplReq snap of
           None \<Rightarrow> fail NilDereference
         | Some tplReq1 \<Rightarrow> do {
             update_request (\<lambda>r. tplReq1);
             ok (Stop no_result) } }
       else process_ready_snapshot c snap }) (ensures q0 t (outcome q0)) q1 t1"
    using 1 r o working_names [OF 1(1)] by (intro wp_rules) auto
qed auto


text \<open>What the body of a reconcile leaves behind when it returns without an error.\<close>

definition settled :: "VirtualMachineTemplateRequest \<Rightarrow> ctrl_result \<Rightarrow> VirtualMachineTemplateRequest \<Rightarrow> event set \<Rightarrow> bool" where
  "settled q0 res q' E \<longleftrightarrow> stopped q0 q' \<or> progressing q' = None \<and> ready q' = Some ConditionTrue \<and> completed E q0 q'"

lemma sync_template_settled:
  assumes "opened q0 q" "owned_template E q0 tpl" "volumes_handed_over E q0 tpl" "snapshot_gone E q0"
    and "r_TemplateRef q = Some (m_Name (t_Meta tpl))"
  shows "settled q0 res (syncTemplateStatusConditions now q tpl) E"
  using assms
  by (auto simp: settled_def syncTemplateStatusConditions_def completed_def template_ready_def conds.find_status
      split: option.split) (simp_all add: opened_def)

lemma deleteSnapshot_spec:
  assumes "working q0 q t" "opened q0 q" "owned_template (set t) q0 tpl" "volumes_handed_over (set t) q0 tpl"
  shows "wp (deleteSnapshot c) (ensures q0 t (\<lambda>u q' E. q' = q \<and> snapshot_gone E q0)) q t"
proof -
  note names = working_names [OF assms(1)]
  let ?key = "object_key (s_Meta (emptySnapshot q))"
  have "working q0 q (t @ [EvDeleteSnapshot ?key r])" for r
    using assms names by (intro working_snoc) (auto simp: working_def)
  then show ?thesis
    unfolding deleteSnapshot_def using assms(2) names
    by (auto intro!: wp_rules simp: snapshot_gone_def)
qed

lemma setDataVolumeOwnerReferences_spec:
  assumes "working q0 q t" "opened q0 q" "owned_template (set t) q0 tpl"
  shows "wp (setDataVolumeOwnerReferences c tpl) (ensures q0 t (\<lambda>u q' E. q' = q \<and> volumes_handed_over E q0 tpl)) q t"
proof -
  note names = working_names [OF assms(1)]
  let ?ev = "EvListDVs (m_UID (r_Meta q))"
  have listed: "working q0 q (t @ [?ev r])" for r by (rule working_snoc [OF assms(1)]) simp
  have "wp (hand_over c tpl dvs) (ensures q0 t (\<lambda>u q' E. q' = q \<and> volumes_handed_over E q0 tpl)) q (t @ [?ev (Inr dvs)])" for dvs
  proof (rule wp_spec [OF hand_over_spec [OF listed assms(2)]])
    show "owned_template (set (t @ [?ev (Inr dvs)])) q0 tpl" using assms(3) by (rule owned_template_mono) auto
  qed (use names in \<open>auto simp: volumes_handed_over_def\<close>)
  then show ?thesis
    unfolding setDataVolumeOwnerReferences_def using listed assms(2) by (intro wp_rules) auto
qed

lemma finish_request_spec:
  assumes "working q0 q t" "proceeds q0 tpl q (set t)"
  shows "wp (finish_request c tpl) (ensures q0 t (settled q0)) q t"
proof -
  have o: "opened q0 q" and own: "owned_template (set t) q0 tpl" and ref: "r_TemplateRef q = Some (m_Name (t_Meta tpl))"
    using assms(2) by (simp_all add: proceeds_def)
  show ?thesis
    unfolding finish_request_def
  proof (rule wp_then_spec [OF setDataVolumeOwnerReferences_spec [OF assms(1) o own]])
    fix u q1 t1
    assume 1: "working q0 q1 t1" "set t \<subseteq> set t1" "q1 = q \<and> volumes_handed_over (set t1) q0 tpl"
    have o1: "opened q0 q1" and own1: "owned_template (set t1) q0 tpl" and v1: "volumes_handed_over (set t1) q0 tpl"
      using 1 o owned_template_mono [OF own] by simp_all
    show "wp (and_then (deleteSnapshot c) (\<lambda>u. do {
       now \<leftarrow> time_Now c;
       update_request (\<lambda>r. syncTemplateStatusConditions now r tpl);
       ok no_result })) (ensures q0 t (settled q0)) q1 t1"
    proof (rule wp_then_spec [OF deleteSnapshot_spec [OF 1(1) o1 own1 v1] 1(2)])
      fix u q2 t2
      assume 2: "working q0 q2 t2" "set t1 \<subseteq> set t2" "q2 = q1 \<and> snapshot_gone (set t2) q0"
      then have "settled q0 no_result (syncTemplateStatusConditions now q2 tpl) (set t2)" for now
        using o1 own1 v1 1(3) ref by (intro sync_template_settled) (auto intro: trace_mono)
      moreover have "set t \<subseteq> set t2" using 1(2) 2(2) by (rule subset_trans)
      ultimately show "wp (do {
          now \<leftarrow> time_Now c;
          update_request (\<lambda>r. syncTemplateStatusConditions now r tpl);
          ok no_result }) (ensures q0 t (settled q0)) q2 t2"
        using 2(1) by (intro wp_rules) simp
    qed
  qed simp
qed

lemma reconcile_body_spec:
  assumes "working q0 q0 t"
  shows "wp (reconcile_body c) (ensures q0 t (settled q0)) q0 t"
proof -
  let ?q = "q0\<lparr>r_Conditions := fst (RemoveStatusCondition (r_Conditions q0) ConditionProgressing)\<rparr>"
  have w: "working q0 ?q t" using assms by (simp add: working_def)
  have o: "opened q0 ?q" by (simp add: opened_def ready_def progressing_def condition_simps)
  have v: "validateRequest ?q = validateRequest q0" using working_names [OF w] by simp
  have "wp (and_then (getTemplate c) (\<lambda>t.
           case t of
             Some tpl \<Rightarrow> finish_request c tpl
           | None \<Rightarrow>
               and_then (processRequest c) (\<lambda>p.
                 case p of
                   Stop res \<Rightarrow> ok res
                 | Proceed tpl \<Rightarrow> finish_request c tpl))) (ensures q0 t (settled q0)) ?q t"
    if "validateRequest q0 = None"
  proof (rule wp_then_spec [OF getTemplate_spec [OF w o]])
    fix r q1 t1
    assume 1: "working q0 q1 t1" "set t \<subseteq> set t1"
      "case r of None \<Rightarrow> q1 = ?q \<and> template_missing (set t1) q0 | Some tpl \<Rightarrow> proceeds q0 tpl q1 (set t1)"
    have f: "wp (finish_request c tpl) (ensures q0 t (settled q0)) q2 t2"
      if "working q0 q2 t2" "proceeds q0 tpl q2 (set t2)" "set t1 \<subseteq> set t2" for tpl q2 t2
      by (rule wp_spec [OF finish_request_spec [OF that(1,2)]]) (use 1(2) that(3) in auto)
    show "wp (case r of
             Some tpl \<Rightarrow> finish_request c tpl
           | None \<Rightarrow>
               and_then (processRequest c) (\<lambda>p.
                 case p of
                   Stop res \<Rightarrow> ok res
                 | Proceed tpl \<Rightarrow> finish_request c tpl)) (ensures q0 t (settled q0)) q1 t1"
    proof (cases r)
      case (Some tpl)
      with 1 f show ?thesis by auto
    next
      case None
      with 1 o have "template_missing (set t1) q0" "opened q0 q1" by auto
      from processRequest_spec [OF 1(1) this(2,1) that] have
        "wp (and_then (processRequest c) (\<lambda>p. case p of Stop res \<Rightarrow> ok res | Proceed tpl \<Rightarrow> finish_request c tpl))
          (ensures q0 t (settled q0)) q1 t1"
      proof (rule wp_then_spec)
        fix p q2 t2
        assume "working q0 q2 t2" "set t1 \<subseteq> set t2" "outcome q0 p q2 (set t2)"
        then show "wp (case p of Stop res \<Rightarrow> ok res | Proceed tpl \<Rightarrow> finish_request c tpl) (ensures q0 t (settled q0)) q2 t2"
          using f 1(2) by (cases p) (auto intro!: wp_rules simp: settled_def)
      qed (use 1 in auto)
      with None show ?thesis by simp
    qed
  qed auto
  then show ?thesis
    unfolding reconcile_body_def using w v
    by (intro wp_bind wp_update_request wp_request wp_option)
       (auto intro!: wp_bind wp_return wp_set_ready wp_set_progressing simp: settled_def stopped_def)
qed

lemma setStatusConditions_step:
  assumes "ready q0 \<noteq> Some ConditionTrue" and "case r of Inl e \<Rightarrow> broken q | Inr res \<Rightarrow> settled q0 res q E" "r_Meta q = r_Meta q0" "r_Spec q = r_Spec q0"
  shows "status_step E q0 (setStatusConditions now (case r of Inl e \<Rightarrow> Some (error_text e) | Inr a \<Rightarrow> None) q)"
proof (cases r)
  case (Inl e)
  then show ?thesis using assms
    by (auto simp: setStatusConditions_def status_step_def broken_def find_ready Let_def)
next
  case (Inr res)
  then show ?thesis using assms
    by (auto simp: setStatusConditions_def status_step_def settled_def stopped_def opened_def find_ready Let_def completed_def
        split: option.split)
qed


lemma reconcile_with_status_ordered:
  assumes "ordered allowed t" "finalized (set t)" "shouldReconcile q"
  shows "wp (reconcile_with_status c) (\<lambda>r q' t'. ordered allowed t') q t"
proof -
  let ?t = "t @ [EvNewHelper q (Inr ())]"
  have w: "working q q ?t" using assms by (auto simp: working_def intro: finalized_mono)
  have patch: "ordered allowed (t1 @ [EvHelperPatch q (setStatusConditions now (case r of Inl e \<Rightarrow> Some (error_text e) | Inr a \<Rightarrow> None) q1) p])"
    if "ensures q ?t (settled q) r q1 t1" for r q1 t1 now p
  proof -
    from that have w1: "working q q1 t1" by (simp add: ensures_def)
    moreover have "status_step (set t1) q (setStatusConditions now (case r of Inl e \<Rightarrow> Some (error_text e) | Inr a \<Rightarrow> None) q1)"
      if "ready q \<noteq> Some ConditionTrue"
      using that \<open>ensures q ?t (settled q) r q1 t1\<close> w1
      by (intro setStatusConditions_step) (auto simp: ensures_def working_def split: sum.splits)
    ultimately show ?thesis by (simp add: working_def)
  qed
  have body: "wp (reconcile_body c) (\<lambda>r. wp (do {
         now \<leftarrow> time_Now c;
         update_request (setStatusConditions now (case r of Inl e \<Rightarrow> Some (error_text e) | Inr a \<Rightarrow> None));
         after \<leftarrow> request;
         p \<leftarrow> api (cl_HelperPatch c q after) (EvHelperPatch q after);
         State_Monad.return (result_of r, errors_of r @ errors_of p) }) (\<lambda>r q' t'. ordered allowed t')) q ?t"
    by (rule wp_mono [OF reconcile_body_spec [OF w]], intro wp_rules; rule patch)
  show ?thesis
    unfolding reconcile_with_status_def
    by (intro wp_bind wp_request wp_api wp_sum wp_return) (use assms body in auto)
qed

lemma snapshot_gone_insert:
  "(\<And>e. r = Inl e \<Longrightarrow> IsNotFound e) \<Longrightarrow>
   snapshot_gone (insert (EvDeleteSnapshot (object_key (s_Meta (emptySnapshot q))) r) E) q"
  unfolding snapshot_gone_def by blast

lemma handleDeletion_ordered:
  assumes "ordered allowed t" "fetched (set t) q" "being_deleted (r_Meta q)"
  shows "wp (handleDeletion c) (\<lambda>r q' t'. ordered allowed t') q t"
proof -
  let ?key = "object_key (s_Meta (emptySnapshot q))"
  have delete: "allowed (set t) (EvDeleteSnapshot ?key r)"
    if "ContainsFinalizer (r_Meta q) FinalizerSnapshotCleanup" "validateRequest q = None" for r
    unfolding allowed.simps using assms that by blast
  have patch: "allowed E (EvPatchRequest q (q\<lparr>r_Meta := RemoveFinalizer (r_Meta q) FinalizerSnapshotCleanup\<rparr>) r)"
    if "set t \<subseteq> E" "validateRequest q = None \<longrightarrow> snapshot_gone E q" for E r
    using assms that fetched_mono [OF assms(2) that(1)] by auto
  show ?thesis
    unfolding handleDeletion_def deleteSnapshot_def
    using assms(1) delete patch
    by (auto intro!: wp_rules patch snapshot_gone_insert simp del: allowed.simps split: sum.splits)
qed

lemma addFinalizer_spec:
  assumes "ordered allowed t" "fetched (set t) q" "\<not> being_deleted (r_Meta q)"
  shows "wp (addFinalizer c) (\<lambda>r q' t'. ordered allowed t' \<and> (\<forall>u. r = Inr u \<longrightarrow> finalized (set t') \<and> current (set t') q')) q t"
proof -
  let ?q1 = "q\<lparr>r_Meta := AddFinalizer (r_Meta q) FinalizerSnapshotCleanup\<rparr>"
  have "allowed (set t) (EvPatchRequest q ?q1 r)" for r using assms by auto
  moreover have "finalized (insert (EvPatchRequest q ?q1 (Inr q2)) (set t))" for q2
    unfolding finalized_def using assms(2,3) finalizers.add_contains [of "r_Meta q" FinalizerSnapshotCleanup]
    by (intro exI [of _ q]) (auto intro: fetched_mono)
  moreover have "ContainsFinalizer (r_Meta q) FinalizerSnapshotCleanup \<Longrightarrow> finalized (set t)"
    unfolding finalized_def using assms(2,3) by blast
  moreover have "current (set t) q" "current (insert (EvPatchRequest q ?q1 (Inr q2)) (set t)) q2" for q2
    using assms(2) by (auto simp: current_def)
  ultimately show ?thesis
    unfolding addFinalizer_def using assms(1,2)
    by (auto intro!: wp_rules simp del: allowed.simps split: sum.splits)
qed

lemma handleTTL_ordered:
  assumes "ordered allowed t" "current (set t) q" "\<not> shouldReconcile q"
  shows "wp (handleTTL c) (\<lambda>r q' t'. ordered allowed t') q t"
proof -
  have "progressing q = Some ConditionFalse"
    using assms(3) by (auto simp: shouldReconcile_def find_ready split: option.splits)
  then have "allowed (set t) (EvDeleteRequest (object_key (r_Meta q)) r)"
    if "ready q = Some ConditionTrue" "rs_TTLSecondsAfterFinished (r_Spec q) = Some ttl" for r ttl
    unfolding allowed.simps using assms(2) that by (intro exI [of _ q]) auto
  then show ?thesis
    unfolding handleTTL_def using assms(1)
    by (auto intro!: wp_rules simp: find_ready simp del: allowed.simps split: sum.splits)
qed

lemma Reconcile_ordered: "wp (Reconcile c key) (\<lambda>r q' t'. ordered allowed t') q []"
proof -
  have add: "wp (do {
           f \<leftarrow> addFinalizer c;
           case f of
             Inl e \<Rightarrow> State_Monad.return (no_result, [e])
           | Inr u \<Rightarrow> do {
               tplReq1 \<leftarrow> request;
               if \<not> shouldReconcile tplReq1 then do {
                 t \<leftarrow> handleTTL c;
                 State_Monad.return (result_of t, errors_of t) }
               else reconcile_with_status c } }) (\<lambda>r q' t'. ordered allowed t') q' [EvGetRequest key (Inr q')]"
    if "\<not> being_deleted (r_Meta q')" for q'
  proof (rule wp_bind, rule wp_mono [OF addFinalizer_spec])
    show "ordered allowed [EvGetRequest key (Inr q')]" "fetched (set [EvGetRequest key (Inr q')]) q'"
      using ordered_snoc [of allowed "[]"] by (auto simp: fetched_def)
  qed (auto intro!: wp_bind wp_request wp_sum wp_return wp_if reconcile_with_status_ordered wp_mono [OF handleTTL_ordered]
      simp: that)
  have del: "wp (do { d \<leftarrow> handleDeletion c; State_Monad.return (no_result, errors_of d) })
      (\<lambda>r q' t'. ordered allowed t') q' [EvGetRequest key (Inr q')]" if "being_deleted (r_Meta q')" for q'
    using that ordered_snoc [of allowed "[]"]
    by (intro wp_bind wp_mono [OF handleDeletion_ordered]) (auto intro: wp_return simp: fetched_def)
  show ?thesis
    unfolding Reconcile_def
    by (rule wp_bind, rule wp_call, rule wp_sum, rule wp_return)
       (use ordered_snoc [of allowed "[]"] in simp, rule wp_bind, rule wp_update_request, rule wp_if, simp_all only: append_Nil add del not_True_eq_False not_False_eq_True)
qed

end
