(* ===== verification/Availability_Controller.thy ===== *)
theory Availability_Controller
  imports Request_Protocol
begin

text \<open>
  The availability controller, \<^verbatim>\<open>vmtr_availability_controller.go\<close>, which waits for the CRDs that
  the request reconciler needs, tells the pending requests about it, and starts the request
  reconciler; and the watches and caches that are set up for the request reconciler.
  The cluster is a record of functions on a world of any type, as in \<open>Kube_Client\<close>.
\<close>

section \<open>The availability controller\<close>

definition cdiGroupVersion :: string where "cdiGroupVersion = ''cdi.kubevirt.io/v1beta1''"
definition snapshotGroupVersion :: string where "snapshotGroupVersion = ''snapshot.kubevirt.io/v1beta1''"
definition requiredGroups :: "string list" where "requiredGroups = [cdiGroupVersion, snapshotGroupVersion]"
definition defaultPollInterval :: int where "defaultPollInterval = 60 * 1000000000"

text \<open>What the wait for the next tick ends with.\<close>

datatype wakeup = ContextDone | Tick

record 'w availability =
  av_Now :: "'w \<Rightarrow> time \<times> 'w"
  av_Discover :: "string \<Rightarrow> ('w, unit) api"
  av_GetInformer :: "('w, unit) api"
  av_List :: "('w, VirtualMachineTemplateRequest list) api"
  av_PatchStatus :: "VirtualMachineTemplateRequest \<Rightarrow> VirtualMachineTemplateRequest \<Rightarrow> ('w, unit) api"
  av_SetupRequests :: "('w, unit) api"
  av_Wait :: "int \<Rightarrow> 'w \<Rightarrow> wakeup \<times> 'w"

definition isAPIGroupAvailable :: "'w availability \<Rightarrow> string \<Rightarrow> 'w \<Rightarrow> bool \<times> 'w" where
  "isAPIGroupAvailable c groupVersion w =
     (case av_Discover c groupVersion w of (Inl e, w1) \<Rightarrow> (False, w1) | (Inr _, w1) \<Rightarrow> (True, w1))"

fun missing_of :: "'w availability \<Rightarrow> string list \<Rightarrow> 'w \<Rightarrow> string list \<times> 'w" where
  "missing_of c [] w = ([], w)"
| "missing_of c (g # gs) w =
     (case isAPIGroupAvailable c g w of
        (available, w1) \<Rightarrow>
          (case missing_of c gs w1 of (missing, w2) \<Rightarrow> (if available then missing else g # missing, w2)))"

definition missingGroups :: "'w availability \<Rightarrow> 'w \<Rightarrow> string list \<times> 'w" where
  "missingGroups c w = missing_of c requiredGroups w"

text \<open>The status of a request that has to wait.\<close>

definition mark_waiting :: "time \<Rightarrow> time \<Rightarrow> string \<Rightarrow> VirtualMachineTemplateRequest \<Rightarrow> VirtualMachineTemplateRequest" where
  "mark_waiting now now' message tplReq =
     setProgressingCondition now' ConditionTrue ReasonWaiting
       (setReadyCondition now ConditionFalse ReasonWaiting message tplReq)"

text \<open>The requests that are patched, in order; what a patch returns is only logged.\<close>

fun patch_waiting :: "'w availability \<Rightarrow> string \<Rightarrow> VirtualMachineTemplateRequest list \<Rightarrow> 'w
    \<Rightarrow> (VirtualMachineTemplateRequest \<times> VirtualMachineTemplateRequest) list \<times> 'w" where
  "patch_waiting c message [] w = ([], w)"
| "patch_waiting c message (tplReq # items) w =
     (if being_deleted (r_Meta tplReq) \<or> \<not> shouldReconcile tplReq then patch_waiting c message items w
      else
        (case av_Now c w of
           (now, w1) \<Rightarrow>
             (case av_Now c w1 of
                (now', w2) \<Rightarrow>
                  (case av_PatchStatus c tplReq (mark_waiting now now' message tplReq) w2 of
                     (r, w3) \<Rightarrow>
                       (case patch_waiting c message items w3 of
                          (ps, w4) \<Rightarrow> ((tplReq, mark_waiting now now' message tplReq) # ps, w4))))))"

definition missing_message :: "string list \<Rightarrow> string" where
  "missing_message missing = ''Required CRDs are not yet available: '' @ strings_Join missing '', ''"

definition setMissingCRDStatus :: "'w availability \<Rightarrow> string list \<Rightarrow> 'w
    \<Rightarrow> (VirtualMachineTemplateRequest \<times> VirtualMachineTemplateRequest) list \<times> 'w" where
  "setMissingCRDStatus c missing w =
     (case av_List c w of
        (Inl e, w1) \<Rightarrow> ([], w1)
      | (Inr items, w1) \<Rightarrow> patch_waiting c (missing_message missing) items w1)"

text \<open>
  How \<^verbatim>\<open>Start\<close> ends.  The loop may wait for ever, so it is a partial function: \<^term>\<open>None\<close> stands for not
  returning.
\<close>

datatype start_result = StartReturned "api_error option" | InformerFailed api_error | Cancelled

definition startController :: "'w availability \<Rightarrow> 'w \<Rightarrow> start_result \<times> 'w" where
  "startController c w =
     (case av_SetupRequests c w of
        (Inl e, w1) \<Rightarrow> (StartReturned (Some e), w1)
      | (Inr _, w1) \<Rightarrow> (StartReturned None, w1))"

partial_function (option) poll_loop :: "'w availability \<Rightarrow> int \<Rightarrow> 'w \<Rightarrow> (start_result \<times> 'w) option" where
  "poll_loop c interval w =
     (case missingGroups c w of
        (missing, w1) \<Rightarrow>
          if missing = [] then Some (startController c w1)
          else
            (case setMissingCRDStatus c missing w1 of
               (patched, w2) \<Rightarrow>
                 (case av_Wait c interval w2 of
                    (ContextDone, w3) \<Rightarrow> Some (Cancelled, w3)
                  | (Tick, w3) \<Rightarrow> poll_loop c interval w3)))"

definition Start :: "'w availability \<Rightarrow> int \<Rightarrow> 'w \<Rightarrow> (start_result \<times> 'w) option" where
  "Start c pollInterval w =
     (case missingGroups c w of
        (missing, w1) \<Rightarrow>
          if missing = [] then Some (startController c w1)
          else
            (case av_GetInformer c w1 of
               (Inl e, w2) \<Rightarrow> Some (InformerFailed e, w2)
             | (Inr _, w2) \<Rightarrow> poll_loop c (if pollInterval = 0 then defaultPollInterval else pollInterval) w2))"

text \<open>
  \<^verbatim>\<open>ExternalCRDCacheConfig\<close>: the kinds whose cache is restricted to the objects with the label of a
  request, and the kinds that are read past the cache.
\<close>

datatype kind = KindRequest | KindTemplate | KindSnapshot | KindSnapshotContent | KindDataVolume

definition ExternalCRDCacheConfig :: "'w availability \<Rightarrow> 'w \<Rightarrow> (kind list \<times> kind list) \<times> 'w" where
  "ExternalCRDCacheConfig c w =
     (case isAPIGroupAvailable c cdiGroupVersion w of
        (cdi, w1) \<Rightarrow>
          (case isAPIGroupAvailable c snapshotGroupVersion w1 of
             (snap, w2) \<Rightarrow>
               (((if cdi then [KindDataVolume] else []) @ (if snap then [KindSnapshot] else []),
                 if snap then [KindSnapshotContent] else []), w2)))"

text \<open>
  \<^verbatim>\<open>SetupWithManager\<close> of the request reconciler: the kinds that it watches, each with the way from an
  event to a request.  The manager has informers for these kinds, and, once the availability
  controller had to wait, for the requests.
\<close>

datatype watch_handler = EnqueueObject | EnqueueByUID | EnqueueOwner

definition request_watches :: "(kind \<times> watch_handler) list" where
  "request_watches = [(KindRequest, EnqueueObject), (KindTemplate, EnqueueByUID), (KindSnapshot, EnqueueByUID),
     (KindDataVolume, EnqueueOwner)]"

text \<open>The index of the requests that the handler by uid lists.\<close>

definition uidField :: string where "uidField = ''metadata.uid''"

definition uid_index :: "VirtualMachineTemplateRequest \<Rightarrow> string list" where
  "uid_index obj = [m_UID (r_Meta obj)]"

text \<open>What the manager offers to a reconciler that is set up.\<close>

record 'w registrar =
  mg_IndexField :: "string \<Rightarrow> (VirtualMachineTemplateRequest \<Rightarrow> string list) \<Rightarrow> ('w, unit) api"
  mg_Complete :: "string \<Rightarrow> (kind \<times> watch_handler) list \<Rightarrow> ('w, unit) api"

definition SetupWithManager :: "'w registrar \<Rightarrow> ('w, unit) api" where
  "SetupWithManager mgr w =
     (case mg_IndexField mgr uidField uid_index w of
        (Inl err, w1) \<Rightarrow> (Inl err, w1)
      | (Inr _, w1) \<Rightarrow> mg_Complete mgr SingularRequestResourceName request_watches w1)"

definition SetupTemplatesWithManager :: "'w registrar \<Rightarrow> ('w, unit) api" where
  "SetupTemplatesWithManager mgr = mg_Complete mgr SingularResourceName [(KindTemplate, EnqueueObject)]"

text \<open>
  Where the client of the manager reads an object: the main program makes the cache fail for kinds
  without an informer (\<^verbatim>\<open>ReaderFailOnMissingInformer\<close>), and only the kinds of \<^verbatim>\<open>DisableFor\<close> are read
  from the server.
\<close>

datatype read_source = FromServer | FromCache | NotCached

definition read_path :: "kind list \<Rightarrow> kind \<Rightarrow> read_source" where
  "read_path disableFor k =
     (if k \<in> set disableFor then FromServer else if k \<in> fst ` set request_watches then FromCache else NotCached)"

section \<open>Lemmas\<close>

lemma mark_waiting_status [simp]:
  "ready (mark_waiting now now' m q) = Some ConditionFalse" "progressing (mark_waiting now now' m q) = Some ConditionTrue"
  "r_Meta (mark_waiting now now' m q) = r_Meta q" "r_Spec (mark_waiting now now' m q) = r_Spec q"
  "r_TemplateRef (mark_waiting now now' m q) = r_TemplateRef q"
  by (simp_all add: mark_waiting_def)

lemma patch_waiting_pairs:
  "(q, q') \<in> set (fst (patch_waiting c message items w)) \<Longrightarrow>
   q \<in> set items \<and> \<not> being_deleted (r_Meta q) \<and> shouldReconcile q \<and> (\<exists>now now'. q' = mark_waiting now now' message q)"
proof (induction items arbitrary: w)
  case (Cons a items)
  then show ?case by (auto simp: case_prod_unfold split: if_splits)
qed simp

lemma setMissing_pairs:
  assumes "(q, q') \<in> set (fst (setMissingCRDStatus c missing w))"
  shows "\<exists>now now' m. q' = mark_waiting now now' m q"
proof -
  obtain r w1 where "av_List c w = (r, w1)" by (rule prod.exhaust)
  with assms obtain items where "(q, q') \<in> set (fst (patch_waiting c (missing_message missing) items w1))"
    by (auto simp: setMissingCRDStatus_def split: sum.splits)
  from patch_waiting_pairs [OF this] show ?thesis by blast
qed

lemma patch_waiting_all:
  "q \<in> set items \<Longrightarrow> \<not> being_deleted (r_Meta q) \<Longrightarrow> shouldReconcile q \<Longrightarrow> q \<in> fst ` set (fst (patch_waiting c message items w))"
proof (induction items arbitrary: w)
  case (Cons a items)
  then show ?case by (auto simp: case_prod_unfold)
qed simp

text \<open>One look at the API groups finds both: each of the two discovery requests is answered without an error.\<close>

definition crds_found :: "'w availability \<Rightarrow> 'w \<Rightarrow> 'w \<Rightarrow> bool" where
  "crds_found c w w2 \<longleftrightarrow> (\<exists>i i' w1. av_Discover c ''cdi.kubevirt.io/v1beta1'' w = (Inr i, w1) \<and>
     av_Discover c ''snapshot.kubevirt.io/v1beta1'' w1 = (Inr i', w2))"

lemma missing_none_iff: "missingGroups c w = ([], w2) \<longleftrightarrow> crds_found c w w2"
  by (auto simp: missingGroups_def crds_found_def requiredGroups_def cdiGroupVersion_def snapshotGroupVersion_def
      isAPIGroupAvailable_def split: prod.splits sum.splits if_splits)

text \<open>The world after \<open>n\<close> rounds of the loop in which a group was missing and a tick came.\<close>

fun rounds :: "'w availability \<Rightarrow> int \<Rightarrow> nat \<Rightarrow> 'w \<Rightarrow> 'w option" where
  "rounds c interval 0 w = Some w"
| "rounds c interval (Suc n) w =
     (case missingGroups c w of
        (missing, w1) \<Rightarrow>
          if missing = [] then None
          else
            (case setMissingCRDStatus c missing w1 of
               (patched, w2) \<Rightarrow>
                 (case av_Wait c interval w2 of (ContextDone, w3) \<Rightarrow> None | (Tick, w3) \<Rightarrow> rounds c interval n w3)))"

lemma poll_loop_rounds: "rounds c interval n w = Some w' \<Longrightarrow> poll_loop c interval w = poll_loop c interval w'"
proof (induction n arbitrary: w)
  case (Suc n)
  then show ?case
    by (subst poll_loop.simps) (auto split: prod.splits if_splits wakeup.splits)
qed simp

lemma poll_loop_starts:
  assumes "rounds c interval n w = Some w'" "missingGroups c w' = ([], w1)"
  shows "poll_loop c interval w = Some (startController c w1)"
  using poll_loop_rounds [OF assms(1)] assms(2) by (subst (asm) poll_loop.simps [of c interval w']) simp

lemma startController_result: "\<exists>r w1. startController c w = (StartReturned r, w1)"
  by (auto simp: startController_def split: prod.split sum.split)

definition started_after_rounds :: "'w availability \<Rightarrow> int \<Rightarrow> 'w \<Rightarrow> start_result \<times> 'w \<Rightarrow> bool" where
  "started_after_rounds c interval w res \<longleftrightarrow>
     (\<exists>n w' w1. rounds c interval n w = Some w' \<and> missingGroups c w' = ([], w1) \<and> res = startController c w1)"

lemma started_now: "missingGroups c w = ([], w1) \<Longrightarrow> started_after_rounds c interval w (startController c w1)"
  unfolding started_after_rounds_def by (intro exI [of _ 0] exI [of _ w] exI [of _ w1]) simp

lemma started_later:
  assumes "missingGroups c w = (missing, w1)" "missing \<noteq> []" "setMissingCRDStatus c missing w1 = (patched, w2)"
    "av_Wait c interval w2 = (Tick, w3)" "started_after_rounds c interval w3 res"
  shows "started_after_rounds c interval w res"
proof -
  from assms(5) obtain n w' w1' where
    "rounds c interval n w3 = Some w'" "missingGroups c w' = ([], w1')" "res = startController c w1'"
    unfolding started_after_rounds_def by blast
  then show ?thesis using assms(1-4) unfolding started_after_rounds_def
    by (intro exI [of _ "Suc n"] exI [of _ w'] exI [of _ w1']) simp
qed

lemma poll_loop_started:
  assumes "poll_loop c interval w = Some res" "\<exists>r. fst res = StartReturned r"
  shows "started_after_rounds c interval w res"
proof -
  have "(\<exists>r. fst res = StartReturned r) \<longrightarrow> started_after_rounds c interval w res"
  proof (rule poll_loop.raw_induct [where P = "\<lambda>c interval w res. (\<exists>r. fst res = StartReturned r) \<longrightarrow> started_after_rounds c interval w res", OF _ assms(1)], rule impI)
    fix poll c interval w and res :: "start_result \<times> 'a"
    assume IH: "\<And>c interval w res. poll c interval w = Some res \<Longrightarrow> (\<exists>r. fst res = StartReturned r) \<longrightarrow> started_after_rounds c interval w res"
      and eq: "(case missingGroups c w of
        (missing, w1) \<Rightarrow>
          if missing = [] then Some (startController c w1)
          else
            (case setMissingCRDStatus c missing w1 of
               (patched, w2) \<Rightarrow>
                 (case av_Wait c interval w2 of
                    (ContextDone, w3) \<Rightarrow> Some (Cancelled, w3)
                  | (Tick, w3) \<Rightarrow> poll c interval w3))) = Some res"
      and r: "\<exists>r. fst res = StartReturned r"
    obtain missing w1 where m: "missingGroups c w = (missing, w1)" by (rule prod.exhaust)
    obtain patched w2 where p: "setMissingCRDStatus c missing w1 = (patched, w2)" by (rule prod.exhaust)
    obtain wake w3 where k: "av_Wait c interval w2 = (wake, w3)" by (rule prod.exhaust)
    show "started_after_rounds c interval w res"
    proof (cases "missing = []")
      case True
      then show ?thesis using eq m started_now by auto
    next
      case False
      then have "wake = Tick" "poll c interval w3 = Some res" using eq m p k r by (cases wake; auto)+
      with IH r False m p k show ?thesis by (blast intro: started_later)
    qed
  qed
  with assms(2) show ?thesis by blast
qed

definition waiting_cluster :: "unit availability" where
  "waiting_cluster = \<lparr>av_Now = \<lambda>w. (7, w), av_Discover = \<lambda>g w. (Inl (NotFound g), w), av_GetInformer = \<lambda>w. (Inr (), w),
     av_List = \<lambda>w. (Inr [example_request], w), av_PatchStatus = \<lambda>a b w. (Inr (), w), av_SetupRequests = \<lambda>w. (Inr (), w),
     av_Wait = \<lambda>i w. (Tick, w)\<rparr>"

section \<open>Properties\<close>

lemma start_iff_none_missing:
  "Start c pollInterval w = Some (StartReturned r, w2) \<longleftrightarrow>
     (\<exists>w1. missingGroups c w = ([], w1) \<and> startController c w1 = (StartReturned r, w2)) \<or>
     (\<exists>missing w1 w' n wn w3. missingGroups c w = (missing, w1) \<and> missing \<noteq> [] \<and> av_GetInformer c w1 = (Inr (), w') \<and>
        rounds c (if pollInterval = 0 then defaultPollInterval else pollInterval) n w' = Some wn \<and>
        missingGroups c wn = ([], w3) \<and> startController c w3 = (StartReturned r, w2))"
proof -
  let ?i = "if pollInterval = 0 then defaultPollInterval else pollInterval"
  obtain missing w1 where m: "missingGroups c w = (missing, w1)" by fastforce
  obtain inf w' where i: "av_GetInformer c w1 = (inf, w')" by fastforce
  have loop: "poll_loop c ?i w' = Some (StartReturned r, w2) \<longleftrightarrow>
      (\<exists>n wn w3. rounds c ?i n w' = Some wn \<and> missingGroups c wn = ([], w3) \<and> startController c w3 = (StartReturned r, w2))"
  proof
    assume "poll_loop c ?i w' = Some (StartReturned r, w2)"
    then have "started_after_rounds c ?i w' (StartReturned r, w2)" by (rule poll_loop_started) simp
    then show "\<exists>n wn w3. rounds c ?i n w' = Some wn \<and> missingGroups c wn = ([], w3) \<and> startController c w3 = (StartReturned r, w2)"
      unfolding started_after_rounds_def by metis
  next
    assume "\<exists>n wn w3. rounds c ?i n w' = Some wn \<and> missingGroups c wn = ([], w3) \<and> startController c w3 = (StartReturned r, w2)"
    then show "poll_loop c ?i w' = Some (StartReturned r, w2)" by (auto dest: poll_loop_starts)
  qed
  show ?thesis
  proof (cases inf)
    case (Inl e)
    then show ?thesis using m i by (simp add: Start_def)
  next
    case (Inr u)
    then show ?thesis using m i loop by (cases "missing = []") (simp_all add: Start_def)
  qed
qed

text \<open>
  C22.  The request reconciler is started exactly when all required CRDs were found in one look:
  the first one, or, with the informer of the requests in place, one after some number of rounds in
  which a group was missing and the ticker fired before the context was cancelled.
  In particular \<open>Start\<close> then returns, and while a group is missing at every look it never
  starts the reconciler.
\<close>

theorem controller_starts_iff_available:
  "Start c pollInterval w = Some (StartReturned r, w2) \<longleftrightarrow>
     (\<exists>w1. crds_found c w w1 \<and> startController c w1 = (StartReturned r, w2)) \<or>
     (\<exists>missing w1 w' n wn w3. missingGroups c w = (missing, w1) \<and> missing \<noteq> [] \<and> av_GetInformer c w1 = (Inr (), w') \<and>
        rounds c (if pollInterval = 0 then defaultPollInterval else pollInterval) n w' = Some wn \<and>
        crds_found c wn w3 \<and> startController c w3 = (StartReturned r, w2))"
  unfolding missing_none_iff [symmetric] by (rule start_iff_none_missing)

text \<open>
  While CRDs are missing, exactly the requests that are neither being deleted nor finished are
  patched; each gets a status that keeps it pending and says that it is waiting, and its metadata, its spec and its
  template reference do not change.
\<close>

theorem waiting_requests_stay_pending:
  assumes "fst (av_List c w) = Inr items"
  shows "fst ` set (fst (setMissingCRDStatus c missing w)) = {q \<in> set items. \<not> being_deleted (r_Meta q) \<and> shouldReconcile q} \<and>
    (\<forall>(q, q') \<in> set (fst (setMissingCRDStatus c missing w)).
       shouldReconcile q' \<and> ready q' = Some ConditionFalse \<and> progressing q' = Some ConditionTrue \<and>
       r_Meta q' = r_Meta q \<and> r_Spec q' = r_Spec q \<and> r_TemplateRef q' = r_TemplateRef q)"
proof -
  obtain w1 where "av_List c w = (Inr items, w1)" using assms by (metis prod.collapse)
  then have set: "setMissingCRDStatus c missing w = patch_waiting c (missing_message missing) items w1"
    by (simp add: setMissingCRDStatus_def)
  have "shouldReconcile (mark_waiting now now' m q)" for now now' m q
    using mark_waiting_status(2) [of now now' m q]
    by (auto simp: shouldReconcile_def progressing_def conds.status_def split: option.splits)
  then have "\<forall>(q, q') \<in> set (fst (patch_waiting c (missing_message missing) items w1)).
       shouldReconcile q' \<and> ready q' = Some ConditionFalse \<and> progressing q' = Some ConditionTrue \<and>
       r_Meta q' = r_Meta q \<and> r_Spec q' = r_Spec q \<and> r_TemplateRef q' = r_TemplateRef q"
    by (auto dest!: patch_waiting_pairs)
  moreover have "fst ` set (fst (patch_waiting c (missing_message missing) items w1)) =
      {q \<in> set items. \<not> being_deleted (r_Meta q) \<and> shouldReconcile q}"
    using patch_waiting_all by (auto dest: patch_waiting_pairs)
  ultimately show ?thesis unfolding set by blast
qed

theorem waiting_requests_stay_pending_witness:
  "\<exists>q'. (example_request, q') \<in> set (fst (setMissingCRDStatus waiting_cluster [cdiGroupVersion] ())) \<and> shouldReconcile q'"
proof -
  have "fst (av_List waiting_cluster ()) = Inr [example_request]" by (simp add: waiting_cluster_def)
  note * = waiting_requests_stay_pending [OF this, of "[cdiGroupVersion]"]
  have "\<not> being_deleted (r_Meta example_request)" "shouldReconcile example_request"
    by (simp_all add: example_request_def being_deleted_def empty_meta_def shouldReconcile_def)
  with * have "example_request \<in> fst ` set (fst (setMissingCRDStatus waiting_cluster [cdiGroupVersion] ()))" by simp
  with * show ?thesis by fastforce
qed

text \<open>
  C30.  The reads of the request reconciler: every kind it reads has a read path exactly when the
  snapshot group was available when the manager was configured.  When it became available later,
  the availability controller starts the reconciler all the same, and every read of a snapshot
  content fails, because the kind has no informer and is not excluded from the cache.
\<close>

theorem snapshot_contents_readable_iff:
  "(\<forall>k. read_path (snd (fst (ExternalCRDCacheConfig c w))) k \<noteq> NotCached) \<longleftrightarrow>
     fst (isAPIGroupAvailable c snapshotGroupVersion (snd (isAPIGroupAvailable c cdiGroupVersion w)))"
proof -
  have "(\<forall>k. read_path ks k \<noteq> NotCached) \<longleftrightarrow> KindSnapshotContent \<in> set ks" for ks
  proof
    assume "\<forall>k. read_path ks k \<noteq> NotCached"
    then have "read_path ks KindSnapshotContent \<noteq> NotCached" by blast
    then show "KindSnapshotContent \<in> set ks" by (auto simp: read_path_def request_watches_def split: if_splits)
  next
    assume *: "KindSnapshotContent \<in> set ks"
    show "\<forall>k. read_path ks k \<noteq> NotCached"
    proof
      fix k show "read_path ks k \<noteq> NotCached" using * by (cases k) (simp_all add: read_path_def request_watches_def)
    qed
  qed
  then show ?thesis by (simp add: ExternalCRDCacheConfig_def case_prod_unfold)
qed

end
