(* ===== verification/Request_Lifecycle.thy ===== *)
theory Request_Lifecycle
  imports Availability_Controller
begin

text \<open>
  The properties of the request reconciler over whole reconciles and over sequences of them:
  what the contract of \<open>Request_Protocol\<close> says of the single calls, the life of a request as a
  machine of three phases that the stored statuses refine, the time to live, and completion.
\<close>

section \<open>An example cluster\<close>

text \<open>
  A cluster that answers every call at once: the request exists, \<open>found\<close> is its template, the
  snapshot and its content are ready, and so are the data volumes.
\<close>

definition example_snapshot :: VirtualMachineSnapshot where
  "example_snapshot = (newSnapshot example_request)\<lparr>s_Status := Some \<lparr>ss_Phase = ''Succeeded'', ss_ContentName = Some ''content'',
     ss_Conditions = [\<lparr>k_Type = ''Ready'', k_Status = ''True'', k_Reason = []\<rparr>]\<rparr>\<rparr>"

definition example_dv :: "object_key \<Rightarrow> DataVolume" where
  "example_dv k = \<lparr>d_Meta = (empty_meta\<lparr>m_Namespace := fst k, m_Name := snd k, m_Labels := [LabelRequestUID \<mapsto> ''u1'']\<rparr>),
     d_Source = NoSource, d_Storage = True, d_Phase = ''Succeeded'',
     d_Conditions = [\<lparr>k_Type = ''Ready'', k_Status = ''True'', k_Reason = []\<rparr>]\<rparr>"

definition ready_condition :: Condition where
  "ready_condition = \<lparr>c_Type = ConditionReady, c_Status = ConditionTrue, c_ObservedGeneration = 0, c_LastTransitionTime = 5,
     c_Reason = ReasonReconciled, c_Message = []\<rparr>"

definition example_found :: RequestTemplate where
  "example_found = (newTemplate example_request example_vm_spec)\<lparr>t_Conditions := [ready_condition]\<rparr>"

definition example_cluster :: "VirtualMachineTemplateRequest \<Rightarrow> RequestTemplate option \<Rightarrow> unit client" where
  "example_cluster q found = \<lparr>
     cl_Now = \<lambda>w. (7, w),
     cl_GetRequest = \<lambda>k w. (Inr q, w),
     cl_PatchRequest = \<lambda>a b w. (Inr b, w),
     cl_DeleteRequest = \<lambda>k w. (Inr (), w),
     cl_NewHelper = \<lambda>q w. (Inr (), w),
     cl_HelperPatch = \<lambda>a b w. (Inr (), w),
     cl_GetTemplate = \<lambda>k w. (case found of None \<Rightarrow> Inl (NotFound ''template'') | Some t \<Rightarrow> Inr t, w),
     cl_CreateTemplate = \<lambda>t w. (Inr (t\<lparr>t_Conditions := [ready_condition]\<rparr>), w),
     cl_GetSnapshot = \<lambda>k w. (Inr example_snapshot, w),
     cl_CreateSnapshot = \<lambda>s w. (Inr s, w),
     cl_DeleteSnapshot = \<lambda>k w. (Inr (), w),
     cl_GetContent = \<lambda>k w. (Inr example_content, w),
     cl_GetDV = \<lambda>k w. (Inr (example_dv k), w),
     cl_CreateDV = \<lambda>d w. (Inr d, w),
     cl_ListDVs = \<lambda>u w. (Inr [], w),
     cl_PatchDV = \<lambda>a b w. (Inr b, w),
     cl_ExpandVM = \<lambda>n vm w. (Inr vm, w)\<rparr>"

text \<open>The trace of a reconcile that starts in the world \<open>w\<close>.\<close>

definition reconcile_trace :: "'w client \<Rightarrow> object_key \<Rightarrow> 'w \<Rightarrow> VirtualMachineTemplateRequest \<Rightarrow> event list" where
  "reconcile_trace c key w zero = e_trace (snd (run_state (Reconcile c key) \<lparr>e_world = w, e_req = zero, e_trace = []\<rparr>))"

fun kind_of :: "event \<Rightarrow> string" where
  "kind_of (EvGetRequest k r) = ''GetRequest''"
| "kind_of (EvPatchRequest a b r) = ''PatchRequest''"
| "kind_of (EvDeleteRequest k r) = ''DeleteRequest''"
| "kind_of (EvNewHelper q r) = ''NewHelper''"
| "kind_of (EvHelperPatch a b r) = ''HelperPatch''"
| "kind_of (EvGetTemplate k r) = ''GetTemplate''"
| "kind_of (EvCreateTemplate t r) = ''CreateTemplate''"
| "kind_of (EvGetSnapshot k r) = ''GetSnapshot''"
| "kind_of (EvCreateSnapshot s r) = ''CreateSnapshot''"
| "kind_of (EvDeleteSnapshot k r) = ''DeleteSnapshot''"
| "kind_of (EvGetContent k r) = ''GetContent''"
| "kind_of (EvGetDV k r) = ''GetDV''"
| "kind_of (EvCreateDV d r) = ''CreateDV''"
| "kind_of (EvListDVs u r) = ''ListDVs''"
| "kind_of (EvPatchDV a b r) = ''PatchDV''"
| "kind_of (EvExpandVM n v r) = ''ExpandVM''"

lemmas reconcile_defs = Reconcile_def addFinalizer_def reconcile_with_status_def reconcile_body_def
  finish_request_def setDataVolumeOwnerReferences_def deleteSnapshot_def getTemplate_def handleDeletion_def handleTTL_def
  processRequest_def get_or_create_snapshot_def process_ready_snapshot_def process_content_def getSnapshotContent_def
  cloneSnapshotContent_def isSnapshotContentCloneReady_def createTemplate_def getExpandedVM_def and_then_def
  api_def ignore_not_found_def set_ready_def set_progressing_def errors_of_def result_of_def

lemma example_facts:
  "\<not> being_deleted (r_Meta example_request)" "shouldReconcile example_request"
  "shouldReconcile (example_request\<lparr>r_Meta := m\<rparr>)"
  "validateRequest example_request = None"
  "validateRequest (example_request\<lparr>r_Meta := m, r_Conditions := cs\<rparr>) = None"
  "\<not> ContainsFinalizer (r_Meta example_request) FinalizerSnapshotCleanup"
  "label_value (s_Meta example_snapshot) LabelRequestUID = ''u1''"
  "label_value (d_Meta (example_dv k)) LabelRequestUID = ''u1''"
  "m_UID (r_Meta example_request) = ''u1''"
  "m_UID (AddFinalizer m f) = m_UID m"
  "fst (isDataVolumeStatusConditionTrue (example_dv k) DataVolumeReady)"
  "fst (isSnapshotStatusConditionTrue example_snapshot SnapshotReady)"
  "s_Status example_snapshot = Some \<lparr>ss_Phase = ''Succeeded'', ss_ContentName = Some ''content'',
     ss_Conditions = [\<lparr>k_Type = ''Ready'', k_Status = ''True'', k_Reason = []\<rparr>]\<rparr>"
  "isSnapshotContentReady example_content = Inr True"
  "getBackendStoragePVCName example_content = []"
  "sc_VolumeBackups example_content = [\<lparr>vb_VolumeName = ''disk0'', vb_VolumeSnapshotName = Some ''vs0''\<rparr>]"
  "sc_SourceVM example_content = Some \<lparr>vm_Meta = empty_meta, vm_Spec = example_vm_spec, vm_Status = []\<rparr>"
  by (simp_all add: being_deleted_def example_request_def empty_meta_def shouldReconcile_def validateRequest_def ContainsFinalizer_def
      label_value_def example_snapshot_def newSnapshot_def Let_def example_dv_def AddFinalizer_def
      isDataVolumeStatusConditionTrue_def isSnapshotStatusConditionTrue_def findSnapshotStatusCondition_def
      SnapshotReady_def DataVolumeReady_def ConditionTrue_def example_content_def isSnapshotContentReady_def
      getBackendStoragePVCName_def strings_Contains_def example_vm_spec_def template_spec_def
      split: prod.split)

lemma example_template_spec: "template_spec q example_content example_vm_spec \<noteq> None"
  by (simp add: template_spec_def stripUniqueIdentifiers_def example_vm_spec_def split: prod.split)

lemma example_kinds: "map kind_of (reconcile_trace (example_cluster example_request None) (''ns'', ''golden'') () example_request) =
   [''GetRequest'', ''PatchRequest'', ''NewHelper'', ''GetTemplate'', ''GetSnapshot'', ''GetContent'', ''GetDV'', ''GetDV'', ''ExpandVM'',
    ''CreateTemplate'', ''ListDVs'', ''DeleteSnapshot'', ''HelperPatch'']"
  using example_template_spec
  by (simp add: reconcile_trace_def reconcile_defs example_cluster_def run_simps example_facts Let_def split: option.split)

lemma kinds_split:
  assumes "map kind_of t = ks" "k \<in> set ks"
  shows "\<exists>pre e post. t = pre @ e # post \<and> kind_of e = k"
  using assms by (metis (no_types, lifting) image_iff list.set_map split_list)

lemma kind_ofD:
  "kind_of e = ''CreateTemplate'' \<Longrightarrow> \<exists>t r. e = EvCreateTemplate t r"
  "kind_of e = ''DeleteSnapshot'' \<Longrightarrow> \<exists>k r. e = EvDeleteSnapshot k r"
  "kind_of e = ''CreateSnapshot'' \<Longrightarrow> \<exists>s r. e = EvCreateSnapshot s r"
  "kind_of e = ''HelperPatch'' \<Longrightarrow> \<exists>a b r. e = EvHelperPatch a b r"
  "kind_of e = ''PatchRequest'' \<Longrightarrow> \<exists>a b r. e = EvPatchRequest a b r"
  "kind_of e = ''CreateDV'' \<Longrightarrow> \<exists>d r. e = EvCreateDV d r"
  by (cases e; simp)+

section \<open>Properties\<close>

lemma trace_ordered: "ordered allowed (reconcile_trace c key w zero)"
proof -
  let ?s = "\<lparr>e_world = w, e_req = zero, e_trace = []\<rparr>"
  have "wp (Reconcile c key) (\<lambda>r q' t'. ordered allowed t') (e_req ?s) (e_trace ?s)" by (simp add: Reconcile_ordered)
  from wpD [OF this prod.collapse [symmetric]] show ?thesis by (simp add: reconcile_trace_def)
qed

lemma trace_allowed: "reconcile_trace c key w zero = pre @ e # post \<Longrightarrow> allowed (set pre) e"
  using trace_ordered ordered_split by metis

text \<open>What holds when an event happens holds after it too.\<close>

lemma trace_member:
  assumes "reconcile_trace c key w zero = pre @ post" "e \<in> set pre"
  shows "\<exists>E. E \<subseteq> set pre \<and> allowed E e"
proof -
  obtain p1 p2 where "pre = p1 @ e # p2" using split_list [OF assms(2)] by blast
  with assms(1) show ?thesis
    using trace_allowed [of c key w zero p1 e "p2 @ post"] by (intro exI [of _ "set p1"]) auto
qed

text \<open>
  C1.  A reconcile creates a template only for a snapshot that carries the uid of the request, that
  is ready and whose content is ready and names a volume snapshot for every volume, made from the
  expanded VirtualMachine of that content, and only after it has seen the data volume of every volume of the content but the backend storage ready, and
  no template of that name.  This holds whatever the cluster answers and however it changes
  between the calls.
\<close>

theorem template_created_when_ready:
  assumes "reconcile_trace c key w zero = pre @ EvCreateTemplate tpl r # post"
  shows "\<exists>q sc. EvNewHelper q (Inr ()) \<in> set pre \<and> shouldReconcile q \<and> template_missing (set pre) q \<and> ready_content (set pre) q sc \<and>
    (\<forall>vol \<in> set (sc_VolumeBackups sc). vb_VolumeName vol \<noteq> getBackendStoragePVCName sc \<longrightarrow>
       (\<exists>dv. EvGetDV (m_Namespace (r_Meta q), getDvName q (vb_VolumeName vol)) (Inr dv) \<in> set pre \<and>
          fst (isDataVolumeStatusConditionTrue dv DataVolumeReady))) \<and>
    made_from (set pre) q sc tpl \<and> label_value (t_Meta tpl) LabelRequestUID = m_UID (r_Meta q)"
proof -
  obtain q sc where q: "EvNewHelper q (Inr ()) \<in> set pre" "template_missing (set pre) q" "ready_content (set pre) q sc"
      "volumes_seen_ready (set pre) q (cloned_volumes sc)" "made_from (set pre) q sc tpl" "label_value (t_Meta tpl) LabelRequestUID = m_UID (r_Meta q)"
    using trace_allowed [OF assms] by auto
  have "shouldReconcile q" using trace_member [OF assms q(1)] by auto
  with q show ?thesis by (auto simp: volumes_seen_ready_def cloned_volumes_def dv_key_def)
qed

theorem template_created_when_ready_witness:
  "\<exists>pre tpl r post q sc. reconcile_trace (example_cluster example_request None) (''ns'', ''golden'') () example_request =
      pre @ EvCreateTemplate tpl r # post \<and> ready_content (set pre) q sc"
proof -
  from kinds_split [OF example_kinds, of "''CreateTemplate''"] obtain pre tpl r post where
    *: "reconcile_trace (example_cluster example_request None) (''ns'', ''golden'') () example_request = pre @ EvCreateTemplate tpl r # post"
    by (auto dest: kind_ofD)
  from template_created_when_ready [OF *] * show ?thesis by blast
qed

text \<open>
  C2.  A snapshot is only deleted when the request is being deleted and has the finalizer, or once
  a template with the uid of the request exists and every data volume that was listed for the
  request is controlled by that template, or was patched to be.
\<close>

theorem snapshot_deleted_when_safe:
  assumes "reconcile_trace c key w zero = pre @ EvDeleteSnapshot k r # post"
  shows "(\<exists>q. fetched (set pre) q \<and> being_deleted (r_Meta q) \<and>
      ContainsFinalizer (r_Meta q) FinalizerSnapshotCleanup \<and> k = object_key (s_Meta (emptySnapshot q))) \<or>
    (\<exists>q tpl dvs. EvNewHelper q (Inr ()) \<in> set pre \<and> owned_template (set pre) q tpl \<and>
      EvListDVs (m_UID (r_Meta q)) (Inr dvs) \<in> set pre \<and>
      (\<forall>dv \<in> set dvs. IsControlledBy (d_Meta dv) (t_Meta tpl) \<or>
         (\<exists>dv' r. EvPatchDV dv dv' (Inr r) \<in> set pre \<and> IsControlledBy (d_Meta dv') (t_Meta tpl))) \<and>
      k = object_key (s_Meta (emptySnapshot q)))"
  using trace_allowed [OF assms]
  unfolding allowed.simps volumes_handed_over_def handed_over_def by blast

theorem snapshot_deleted_when_safe_witness:
  "\<exists>pre k r post q. reconcile_trace (example_cluster example_request None) (''ns'', ''golden'') () example_request =
      pre @ EvDeleteSnapshot k r # post \<and> k = object_key (s_Meta (emptySnapshot q))"
proof -
  from kinds_split [OF example_kinds, of "''DeleteSnapshot''"] obtain pre k r post where
    *: "reconcile_trace (example_cluster example_request None) (''ns'', ''golden'') () example_request = pre @ EvDeleteSnapshot k r # post"
    by (auto dest: kind_ofD)
  from snapshot_deleted_when_safe [OF *] * show ?thesis by blast
qed

text \<open>
  C4.  Before a snapshot is created the finalizer was on the request, which was not being
  deleted, or a patch that adds it succeeded; the snapshot carries the uid of the request; and
  neither a template nor a snapshot of the request was there.
\<close>

theorem snapshot_created_behind_finalizer:
  assumes "reconcile_trace c key w zero = pre @ EvCreateSnapshot snap r # post"
  shows "(\<exists>q. fetched (set pre) q \<and> \<not> being_deleted (r_Meta q) \<and>
      (ContainsFinalizer (r_Meta q) FinalizerSnapshotCleanup \<or>
       (\<exists>q1 q2. EvPatchRequest q q1 (Inr q2) \<in> set pre \<and> ContainsFinalizer (r_Meta q1) FinalizerSnapshotCleanup))) \<and>
    (\<exists>q. EvNewHelper q (Inr ()) \<in> set pre \<and> snap = newSnapshot q \<and> validateRequest q = None \<and> template_missing (set pre) q \<and>
      label_value (s_Meta snap) LabelRequestUID = m_UID (r_Meta q) \<and>
      (\<exists>e. EvGetSnapshot (object_key (s_Meta snap)) (Inl e) \<in> set pre \<and> IsNotFound e))"
proof -
  have "label_value (s_Meta (newSnapshot q)) LabelRequestUID = m_UID (r_Meta q)" for q
    by (simp add: label_value_def newSnapshot_def Let_def)
  with trace_allowed [OF assms] show ?thesis unfolding allowed.simps finalized_def by blast
qed

definition empty_cluster :: "unit client" where
  "empty_cluster = (example_cluster example_request None)\<lparr>cl_GetSnapshot := \<lambda>k w. (Inl (NotFound ''snapshot''), w)\<rparr>"

lemma empty_kinds: "map kind_of (reconcile_trace empty_cluster (''ns'', ''golden'') () example_request) =
   [''GetRequest'', ''PatchRequest'', ''NewHelper'', ''GetTemplate'', ''GetSnapshot'', ''CreateSnapshot'', ''HelperPatch'']"
  by (simp add: reconcile_trace_def reconcile_defs createSnapshot_def empty_cluster_def example_cluster_def run_simps example_facts Let_def
      newSnapshot_def emptySnapshot_def label_value_def isSnapshotStatusConditionTrue_def findSnapshotStatusCondition_def
      syncSnapshotStatusConditions_def isSnapshotProgressing_def split: option.split)

theorem snapshot_created_behind_finalizer_witness:
  "\<exists>pre snap r post q. reconcile_trace empty_cluster (''ns'', ''golden'') () example_request = pre @ EvCreateSnapshot snap r # post \<and>
     snap = newSnapshot q"
proof -
  from kinds_split [OF empty_kinds, of "''CreateSnapshot''"] obtain pre snap r post where
    *: "reconcile_trace empty_cluster (''ns'', ''golden'') () example_request = pre @ EvCreateSnapshot snap r # post"
    by (auto dest: kind_ofD)
  from snapshot_created_behind_finalizer [OF *] * show ?thesis by blast
qed


text \<open>
  C3.  The finalizer of a valid request is only taken off the request when it is being deleted and the
  deletion of its snapshot was answered with success or with a not-found error.
\<close>

theorem finalizer_removed_after_snapshot:
  assumes "reconcile_trace c key w zero = pre @ EvPatchRequest q q1 r # post"
    and "ContainsFinalizer (r_Meta q) FinalizerSnapshotCleanup" "\<not> ContainsFinalizer (r_Meta q1) FinalizerSnapshotCleanup"
    and "validateRequest q = None"
  shows "being_deleted (r_Meta q) \<and>
    (\<exists>res. EvDeleteSnapshot (object_key (s_Meta (emptySnapshot q))) res \<in> set pre \<and> (\<forall>e. res = Inl e \<longrightarrow> IsNotFound e))"
  using trace_allowed [OF assms(1)] assms(2-4)
  by (auto simp: finalizers.contains_add snapshot_gone_def)

definition deleted_request :: VirtualMachineTemplateRequest where
  "deleted_request = example_request\<lparr>r_Meta := (r_Meta example_request)\<lparr>m_DeletionTimestamp := Some 9,
     m_Finalizers := [FinalizerSnapshotCleanup]\<rparr>\<rparr>"

lemma deleted_facts:
  "being_deleted (r_Meta deleted_request)" "ContainsFinalizer (r_Meta deleted_request) FinalizerSnapshotCleanup"
  "validateRequest deleted_request = None"
  by (simp_all add: deleted_request_def being_deleted_def ContainsFinalizer_def validateRequest_def example_request_def empty_meta_def)

lemma deleted_trace:
  "reconcile_trace (example_cluster deleted_request None) (''ns'', ''golden'') () example_request =
     [EvGetRequest (''ns'', ''golden'') (Inr deleted_request),
      EvDeleteSnapshot (object_key (s_Meta (emptySnapshot deleted_request))) (Inr ()),
      EvPatchRequest deleted_request
        (deleted_request\<lparr>r_Meta := RemoveFinalizer (r_Meta deleted_request) FinalizerSnapshotCleanup\<rparr>)
        (Inr (deleted_request\<lparr>r_Meta := RemoveFinalizer (r_Meta deleted_request) FinalizerSnapshotCleanup\<rparr>))]"
  by (simp add: reconcile_trace_def reconcile_defs example_cluster_def run_simps deleted_facts Let_def)

theorem finalizer_removed_after_snapshot_witness:
  "\<exists>pre q1 r post res. reconcile_trace (example_cluster deleted_request None) (''ns'', ''golden'') () example_request =
     pre @ EvPatchRequest deleted_request q1 r # post \<and>
     EvDeleteSnapshot (object_key (s_Meta (emptySnapshot deleted_request))) res \<in> set pre"
proof -
  let ?q1 = "deleted_request\<lparr>r_Meta := RemoveFinalizer (r_Meta deleted_request) FinalizerSnapshotCleanup\<rparr>"
  let ?pre = "[EvGetRequest (''ns'', ''golden'') (Inr deleted_request),
      EvDeleteSnapshot (object_key (s_Meta (emptySnapshot deleted_request))) (Inr ())]"
  have *: "reconcile_trace (example_cluster deleted_request None) (''ns'', ''golden'') () example_request =
      ?pre @ EvPatchRequest deleted_request ?q1 (Inr ?q1) # []"
    by (simp add: deleted_trace)
  have "\<not> ContainsFinalizer (r_Meta ?q1) FinalizerSnapshotCleanup" by (simp add: finalizers.contains_remove)
  from finalizer_removed_after_snapshot [OF * deleted_facts(2) this deleted_facts(3)] * show ?thesis by blast
qed

section \<open>The life of a request\<close>

text \<open>
  The abstract specification: a request is pending until it fails or completes, and both are final.
  Its phase is read off the conditions.
\<close>

datatype phase = Pending | Failed | Completed

inductive phase_step :: "phase \<Rightarrow> phase \<Rightarrow> bool" where
  wait: "phase_step Pending Pending"
| fail: "phase_step Pending Failed"
| complete: "phase_step Pending Completed"

inductive_simps phase_step_simps [simp]: "phase_step Pending p" "phase_step Failed p" "phase_step Completed p"

definition phase_of :: "VirtualMachineTemplateRequest \<Rightarrow> phase" where
  "phase_of q = (if progressing q = Some ConditionFalse then (if ready q = Some ConditionTrue then Completed else Failed) else Pending)"

lemma shouldReconcile_pending: "shouldReconcile q \<longleftrightarrow> phase_of q = Pending"
  by (auto simp: shouldReconcile_def phase_of_def find_ready split: option.split)

text \<open>The statuses that the controller stores.\<close>

definition status_ok :: "VirtualMachineTemplateRequest \<Rightarrow> bool" where
  "status_ok q \<longleftrightarrow>
     (ready q = Some ConditionTrue \<longrightarrow> progressing q = Some ConditionFalse \<and> r_TemplateRef q \<noteq> None) \<and>
     (phase_of q = Failed \<longrightarrow> ready q = Some ConditionFalse \<and>
        progressing_reason q \<in> {Some ReasonFailed, Some ReasonInvalidConfiguration})"

lemma status_step_ok:
  assumes "status_step E q q'"
  shows "status_ok q'" "phase_of q' = Completed \<Longrightarrow> completed E q q'"
  using assms by (auto simp: status_step_def status_ok_def phase_of_def completed_def)

lemma stored_status:
  assumes "reconcile_trace c key w zero = pre @ EvHelperPatch q q' r # post" "status_ok q"
  shows "shouldReconcile q \<and> status_step (set pre) q q'"
proof -
  have h: "EvNewHelper q (Inr ()) \<in> set pre" "ready q \<noteq> Some ConditionTrue \<longrightarrow> status_step (set pre) q q'"
    using trace_allowed [OF assms(1)] by simp_all
  have r: "shouldReconcile q" using trace_member [OF assms(1) h(1)] by auto
  then have "ready q \<noteq> Some ConditionTrue" using assms(2) by (auto simp: status_ok_def shouldReconcile_pending phase_of_def)
  with h(2) r show ?thesis by simp
qed

text \<open>
  C5.  Refinement of the life of a request: the status that a reconcile stores is a step of the phase
  machine, so a reconcile never stores anything for a request that has failed or completed; the
  metadata and the spec are left alone; and the request completes only when the reconcile has
  seen a ready template of the request, handed the data volumes over, removed the snapshot, and
  put the name of the template into the status.
\<close>

theorem stored_status_refines_phases:
  assumes "reconcile_trace c key w zero = pre @ EvHelperPatch q q' r # post" "status_ok q"
  shows "phase_step (phase_of q) (phase_of q') \<and> status_ok q' \<and> r_Meta q' = r_Meta q \<and> r_Spec q' = r_Spec q \<and>
    (phase_of q' = Completed \<longrightarrow> (\<exists>tpl. owned_template (set pre) q tpl \<and> template_ready tpl \<and>
       volumes_handed_over (set pre) q tpl \<and> snapshot_gone (set pre) q \<and> r_TemplateRef q' = Some (m_Name (t_Meta tpl))))"
proof -
  from stored_status [OF assms] have s: "phase_of q = Pending" "status_step (set pre) q q'" by (simp_all add: shouldReconcile_pending)
  have "r_Meta q' = r_Meta q \<and> r_Spec q' = r_Spec q" using s(2) by (simp add: status_step_def)
  moreover have "phase_step (phase_of q) (phase_of q')" using s(1) by (cases "phase_of q'") simp_all
  ultimately show ?thesis using status_step_ok [OF s(2)] by (simp add: completed_def)
qed

lemma example_stored:
  obtains pre q q' r post where
    "reconcile_trace (example_cluster example_request None) (''ns'', ''golden'') () example_request = pre @ EvHelperPatch q q' r # post"
    "status_ok q"
proof -
  let ?t = "reconcile_trace (example_cluster example_request None) (''ns'', ''golden'') () example_request"
  from kinds_split [OF example_kinds, of "''HelperPatch''"] obtain pre q q' r post where
    *: "?t = pre @ EvHelperPatch q q' r # post"
    by (auto dest: kind_ofD)
  have "list_all (\<lambda>e. case e of EvHelperPatch a b r \<Rightarrow> r_Conditions a = [] | _ \<Rightarrow> True) ?t"
    using example_template_spec
    by (simp add: reconcile_trace_def reconcile_defs example_cluster_def run_simps example_facts Let_def split: option.split)
       (simp add: example_request_def)
  with * have "r_Conditions q = []" by simp
  then have "status_ok q" by (simp add: status_ok_def phase_of_def ready_def progressing_def conds.status_def)
  with that * show ?thesis by blast
qed

theorem stored_status_refines_phases_witness:
  "\<exists>pre q q' r post. reconcile_trace (example_cluster example_request None) (''ns'', ''golden'') () example_request =
     pre @ EvHelperPatch q q' r # post \<and> phase_step (phase_of q) (phase_of q') \<and> status_ok q'"
proof -
  obtain pre q q' r post where
    *: "reconcile_trace (example_cluster example_request None) (''ns'', ''golden'') () example_request = pre @ EvHelperPatch q q' r # post"
      "status_ok q"
    by (rule example_stored)
  from stored_status_refines_phases [OF *] *(1) show ?thesis by blast
qed


text \<open>
  The statuses a request can have: it is created without one, and only the reconciler and, while CRDs
  are missing, the availability controller store statuses.  Between two reconciles anyone may
  change the metadata and the spec.
\<close>

definition same_status :: "VirtualMachineTemplateRequest \<Rightarrow> VirtualMachineTemplateRequest \<Rightarrow> bool" where
  "same_status q q' \<longleftrightarrow> r_Conditions q' = r_Conditions q \<and> r_TemplateRef q' = r_TemplateRef q"

inductive reachable :: "'w client \<Rightarrow> 'v availability \<Rightarrow> VirtualMachineTemplateRequest \<Rightarrow> bool" for c :: "'w client" and av :: "'v availability" where
  created: "r_Conditions q = [] \<Longrightarrow> r_TemplateRef q = None \<Longrightarrow> reachable c av q"
| changed: "reachable c av q \<Longrightarrow> same_status q q' \<Longrightarrow> reachable c av q'"
| waiting: "reachable c av q \<Longrightarrow> (q, q') \<in> set (fst (setMissingCRDStatus av missing v)) \<Longrightarrow> reachable c av q'"
| reconciled: "reachable c av q \<Longrightarrow> EvHelperPatch q q' (Inr ()) \<in> set (reconcile_trace c key w zero) \<Longrightarrow> reachable c av q'"

lemma same_status_ok: "same_status q q' \<Longrightarrow> status_ok q' \<longleftrightarrow> status_ok q" "same_status q q' \<Longrightarrow> phase_of q' = phase_of q"
  by (simp_all add: same_status_def status_ok_def phase_of_def ready_def progressing_def progressing_reason_def)

lemma reachable_status_ok: "reachable c av q \<Longrightarrow> status_ok q"
proof (induction rule: reachable.induct)
  case (created q)
  then show ?case by (simp add: status_ok_def phase_of_def ready_def progressing_def conds.status_def)
next
  case (changed q q')
  then show ?case by (simp add: same_status_ok)
next
  case (waiting q q' missing v)
  from setMissing_pairs [OF this(2)] obtain now now' m where "q' = mark_waiting now now' m q" by blast
  then show ?case by (simp add: status_ok_def phase_of_def)
next
  case (reconciled q q' key w zero)
  from split_list [OF reconciled(2)] obtain pre post where "reconcile_trace c key w zero = pre @ EvHelperPatch q q' (Inr ()) # post"
    by blast
  from stored_status [OF this reconciled(3)] show ?case by (blast intro: status_step_ok)
qed

text \<open>
  C6.  Invariant of the stored requests, over any number of reconciles and any
  changes of the metadata and the spec in between: a request that is ready is no longer
  progressing and refers to a template, and a request that stopped progressing without being
  ready says that it failed.  A request in one of the two final phases is never reconciled again.
\<close>

theorem reachable_statuses:
  assumes "reachable c av q"
  shows "(ready q = Some ConditionTrue \<longrightarrow> progressing q = Some ConditionFalse \<and> r_TemplateRef q \<noteq> None) \<and>
    (progressing q = Some ConditionFalse \<longrightarrow> ready q = Some ConditionTrue \<or>
       ready q = Some ConditionFalse \<and> progressing_reason q \<in> {Some ReasonFailed, Some ReasonInvalidConfiguration}) \<and>
    (phase_of q \<noteq> Pending \<longrightarrow> (\<forall>q' r. EvHelperPatch q q' r \<notin> set (reconcile_trace c key w zero)))"
proof -
  have ok: "status_ok q" using assms by (rule reachable_status_ok)
  have "EvHelperPatch q q' r \<notin> set (reconcile_trace c key w zero)" if "phase_of q \<noteq> Pending" for q' r
  proof
    assume "EvHelperPatch q q' r \<in> set (reconcile_trace c key w zero)"
    from split_list [OF this] obtain pre post where "reconcile_trace c key w zero = pre @ EvHelperPatch q q' r # post" by blast
    from stored_status [OF this ok] that show False by (simp add: shouldReconcile_pending)
  qed
  then show ?thesis using ok by (auto simp: status_ok_def phase_of_def)
qed

lemma example_completes:
  "list_all (\<lambda>e. case e of EvHelperPatch a b r \<Rightarrow> same_status example_request a \<and> r = Inr () \<and> ready b = Some ConditionTrue | _ \<Rightarrow> True)
     (reconcile_trace (example_cluster example_request None) (''ns'', ''golden'') () example_request)"
  using example_template_spec
  by (simp add: reconcile_trace_def reconcile_defs example_cluster_def run_simps example_facts Let_def same_status_def
      syncTemplateStatusConditions_def ready_condition_def setStatusConditions_def find_ready split: option.split)

theorem reachable_statuses_witness:
  "\<exists>q. reachable (example_cluster example_request None) waiting_cluster q \<and> ready q = Some ConditionTrue \<and> r_TemplateRef q \<noteq> None"
proof -
  let ?c = "example_cluster example_request None" and ?key = "(''ns'', ''golden'')"
  from kinds_split [OF example_kinds, of "''HelperPatch''"] obtain pre q q' r post where
    *: "reconcile_trace ?c ?key () example_request = pre @ EvHelperPatch q q' r # post"
    by (auto dest: kind_ofD)
  have q: "same_status example_request q" "r = Inr ()" "ready q' = Some ConditionTrue"
    using example_completes by (simp_all add: *)
  have "reachable ?c waiting_cluster example_request" by (rule reachable.created) (simp_all add: example_request_def)
  then have "reachable ?c waiting_cluster q" using q(1) by (rule reachable.changed)
  moreover have "EvHelperPatch q q' (Inr ()) \<in> set (reconcile_trace ?c ?key () example_request)" using q(2) by (simp add: *)
  ultimately have "reachable ?c waiting_cluster q'" by (rule reachable.reconciled)
  from reachable_statuses [OF this] this q(3) show ?thesis by blast
qed

section \<open>Time to live\<close>

lemma ttl_no_overflow: "sint (ttl_duration ttl) = sint ttl * 1000000000"
proof -
  have "- (2 ^ 31) \<le> sint ttl" "sint ttl < 2 ^ 31" using sint_ge [of ttl] sint_lt [of ttl] by simp_all
  then have *: "- (2 ^ 63) \<le> sint ttl * 1000000000" "sint ttl * 1000000000 < 2 ^ 63" by simp_all
  have "(signed ttl :: 64 word) = word_of_int (sint ttl)" by (simp only: of_int_sint)
  then have "ttl_duration ttl = word_of_int (sint ttl * 1000000000)"
    unfolding ttl_duration_def time_Second_def by (simp only: of_int_mult)
  then have "sint (ttl_duration ttl) = signed_take_bit 63 (sint ttl * 1000000000)" by (simp only: sint_sbintrunc') simp
  then show ?thesis using * by (simp only: signed_take_bit_int_eq_self)
qed


text \<open>
  C29.  The time to live of a ready request: the product of the seconds and of a second in 64 bits
  does not overflow; before the deadline the reconcile changes nothing and comes back when the
  deadline is reached (or after the longest duration there is, if that is sooner), and from
  the deadline on it deletes the request.
\<close>

theorem ttl_handled:
  assumes "rs_TTLSecondsAfterFinished (r_Spec (e_req s)) = Some ttl"
    and "FindStatusCondition (r_Conditions (e_req s)) ConditionReady = Some cond" "c_Status cond = ConditionTrue"
    and "cl_Now c (e_world s) = (now, w)" "deadline = c_LastTransitionTime cond + sint ttl * 10 ^ 9"
  shows "(now < deadline \<longrightarrow>
      run_state (handleTTL c) s = (Inr \<lparr>requeue_after = min (deadline - now) (2 ^ 63 - 1)\<rparr>, s\<lparr>e_world := w\<rparr>)) \<and>
    (now \<ge> deadline \<longrightarrow> e_trace (snd (run_state (handleTTL c) s)) = e_trace s @
      [EvDeleteRequest (object_key (r_Meta (e_req s))) (fst (cl_DeleteRequest c (object_key (r_Meta (e_req s))) w))])"
  using assms
  by (auto simp: handleTTL_def run_simps ttl_no_overflow saturate_def Let_def and_then_def api_def min_def max_def split: sum.split)

theorem ttl_handled_witness:
  "let q = example_request\<lparr>r_Spec := (r_Spec example_request)\<lparr>rs_TTLSecondsAfterFinished := Some 60\<rparr>, r_Conditions := [ready_condition]\<rparr>
   in fst (run_state (handleTTL empty_cluster) \<lparr>e_world = (), e_req = q, e_trace = []\<rparr>) = Inr \<lparr>requeue_after = 59999999998\<rparr>"
proof -
  let ?q = "example_request\<lparr>r_Spec := (r_Spec example_request)\<lparr>rs_TTLSecondsAfterFinished := Some 60\<rparr>, r_Conditions := [ready_condition]\<rparr>"
  let ?s = "\<lparr>e_world = (), e_req = ?q, e_trace = []\<rparr>"
  have "sint (60 :: 32 word) = 60" by simp
  moreover have "FindStatusCondition (r_Conditions (e_req ?s)) ConditionReady = Some ready_condition"
    by (simp add: ready_condition_def)
  moreover have "cl_Now empty_cluster (e_world ?s) = (7, ())" by (simp add: empty_cluster_def example_cluster_def)
  ultimately show ?thesis
    using ttl_handled [of ?s 60 ready_condition empty_cluster 7 "()" "5 + 60 * 10 ^ 9"]
    by (simp add: ready_condition_def)
qed

section \<open>Completion\<close>

lemma setStatusConditions_ready:
  "ready q = Some ConditionTrue \<Longrightarrow> progressing q = None \<Longrightarrow>
   setStatusConditions now None q = setProgressingCondition now ConditionFalse ReasonReconciled q"
  by (auto simp: setStatusConditions_def find_ready Let_def split: option.split)

lemma hand_over_succeeds:
  assumes "\<And>dv. dv \<in> set dvs \<Longrightarrow> IsControlledBy (d_Meta dv) (t_Meta tpl) \<or>
      (\<exists>m1 m2. RemoveControllerReference (r_Meta (e_req s)) RequestGVK (d_Meta dv) = Inr m1 \<and>
        SetControllerReference (t_Meta tpl) TemplateGVK m1 = Inr m2)"
    and "\<And>dv dv' w. \<exists>d. fst (cl_PatchDV c dv dv' w) = Inr d"
  shows "\<exists>s'. run_state (hand_over c tpl dvs) s = (Inr (), s') \<and> e_req s' = e_req s"
  using assms(1)
proof (induction dvs arbitrary: s)
  case (Cons dv dvs)
  show ?case
  proof (cases "IsControlledBy (d_Meta dv) (t_Meta tpl)")
    case True
    then show ?thesis using Cons by simp
  next
    case False
    with Cons.prems [of dv] obtain m1 m2 where m: "RemoveControllerReference (r_Meta (e_req s)) RequestGVK (d_Meta dv) = Inr m1"
      "SetControllerReference (t_Meta tpl) TemplateGVK m1 = Inr m2" by auto
    obtain d where d: "fst (cl_PatchDV c dv (dv\<lparr>d_Meta := m2\<rparr>) (e_world s)) = Inr d" using assms(2) by blast
    let ?s = "s\<lparr>e_world := snd (cl_PatchDV c dv (dv\<lparr>d_Meta := m2\<rparr>) (e_world s)),
      e_trace := e_trace s @ [EvPatchDV dv (dv\<lparr>d_Meta := m2\<rparr>) (Inr d)]\<rparr>"
    have "run_state (hand_over c tpl (dv # dvs)) s = run_state (hand_over c tpl dvs) ?s"
      using False m d by (simp add: run_simps and_then_def api_def)
    then show ?thesis using Cons.IH [of ?s] Cons.prems by simp
  qed
qed simp

text \<open>
  C7.  Completion: when the request is pending and valid and has the finalizer, its template is there and ready,
  the data volumes of the request can be handed over, and the cluster accepts the calls, then
  one reconcile completes the request: the last call stores a status in which the request is
  ready and refers to the template, and no error is returned.
\<close>

theorem ready_template_completes:
  assumes get: "\<And>w. fst (cl_GetRequest c key w) = Inr q" and "\<not> being_deleted (r_Meta q)"
    and "ContainsFinalizer (r_Meta q) FinalizerSnapshotCleanup" "validateRequest q = None" "phase_of q = Pending"
    and tpl: "\<And>k w. fst (cl_GetTemplate c k w) = Inr tpl" "label_value (t_Meta tpl) LabelRequestUID = m_UID (r_Meta q)" "template_ready tpl"
    and list: "\<And>u w. fst (cl_ListDVs c u w) = Inr dvs"
    and dvs: "\<And>dv. dv \<in> set dvs \<Longrightarrow> IsControlledBy (d_Meta dv) (t_Meta tpl) \<or>
      (\<exists>m1 m2. RemoveControllerReference (r_Meta q) RequestGVK (d_Meta dv) = Inr m1 \<and>
        SetControllerReference (t_Meta tpl) TemplateGVK m1 = Inr m2)"
    and patch: "\<And>dv dv' w. \<exists>d. fst (cl_PatchDV c dv dv' w) = Inr d"
    and delete: "\<And>k w. fst (cl_DeleteSnapshot c k w) = Inr ()"
    and helper: "\<And>q w. fst (cl_NewHelper c q w) = Inr ()" "\<And>q q' w. fst (cl_HelperPatch c q q' w) = Inr ()"
  shows "\<exists>q'. last (reconcile_trace c key w zero) = EvHelperPatch q q' (Inr ()) \<and> phase_of q' = Completed \<and>
    r_TemplateRef q' = Some (m_Name (t_Meta tpl)) \<and>
    fst (run_state (Reconcile c key) \<lparr>e_world = w, e_req = zero, e_trace = []\<rparr>) = (no_result, [])"
proof -
  let ?s0 = "\<lparr>e_world = w, e_req = zero, e_trace = []\<rparr>"
  define q1 where "q1 = setTemplateRef (q\<lparr>r_Conditions := fst (RemoveStatusCondition (r_Conditions q) ConditionProgressing)\<rparr>) tpl"
  have q1: "r_Meta q1 = r_Meta q" "progressing q1 = None" "r_TemplateRef q1 = Some (m_Name (t_Meta tpl))" by (simp_all add: q1_def progressing_def setTemplateRef_def condition_simps)
  have ready: "\<exists>c. FindStatusCondition (t_Conditions tpl) ConditionReady = Some c \<and> c_Status c = ConditionTrue"
    using tpl(3) by (auto simp: template_ready_def conds.status_def)
  have should: "shouldReconcile q" using assms(5) by (simp add: shouldReconcile_pending)
  have valid: "validateRequest (q\<lparr>r_Conditions := cs\<rparr>) = None" for cs using assms(4) by (simp add: validateRequest_def split: if_splits)
  have hand: "\<exists>s'. run_state (hand_over c tpl dvs) s = (Inr (), s') \<and> e_req s' = q1" if "e_req s = q1" for s
    using hand_over_succeeds [of dvs tpl s c] dvs patch that q1(1) by simp
  have finish: "\<exists>s' now. run_state (finish_request c tpl) s = (Inr no_result, s') \<and> e_req s' = syncTemplateStatusConditions now q1 tpl"
    if e: "e_req s = q1" for s
  proof -
    let ?s1 = "s\<lparr>e_world := snd (cl_ListDVs c (m_UID (r_Meta q)) (e_world s)), e_trace := e_trace s @ [EvListDVs (m_UID (r_Meta q)) (Inr dvs)]\<rparr>"
    obtain s' where "run_state (hand_over c tpl dvs) ?s1 = (Inr (), s')" "e_req s' = q1" using hand [of ?s1] e by auto
    then show ?thesis using e q1(1)
      by (simp add: finish_request_def setDataVolumeOwnerReferences_def deleteSnapshot_def and_then_def api_def run_simps list delete
          ignore_not_found_def Let_def) blast
  qed
  have body: "\<exists>s' now. run_state (reconcile_body c) s = (Inr no_result, s') \<and> e_req s' = syncTemplateStatusConditions now q1 tpl"
    if "e_req s = q" for s
    using finish that tpl(1,2)
    by (simp add: reconcile_body_def getTemplate_def and_then_def run_simps valid Let_def flip: q1_def)
  have finished: "phase_of (setStatusConditions now' None (syncTemplateStatusConditions now q1 tpl)) = Completed \<and>
      r_TemplateRef (setStatusConditions now' None (syncTemplateStatusConditions now q1 tpl)) = Some (m_Name (t_Meta tpl))" for now now'
  proof -
    obtain cd where cd: "FindStatusCondition (t_Conditions tpl) ConditionReady = Some cd" "c_Status cd = ConditionTrue" using ready by blast
    have "syncTemplateStatusConditions now q1 tpl = setReadyCondition now ConditionTrue ReasonReconciled (c_Message cd) q1"
      by (simp add: syncTemplateStatusConditions_def cd)
    with setStatusConditions_ready [of "syncTemplateStatusConditions now q1 tpl" now'] q1 show ?thesis
      by (simp add: phase_of_def)
  qed
  let ?s2 = "\<lparr>e_world = snd (cl_NewHelper c q (snd (cl_GetRequest c key w))), e_req = q,
    e_trace = [EvGetRequest key (Inr q), EvNewHelper q (Inr ())]\<rparr>"
  obtain s' now where "run_state (reconcile_body c) ?s2 = (Inr no_result, s')" "e_req s' = syncTemplateStatusConditions now q1 tpl"
    using body [of ?s2] by auto
  then show ?thesis using finished
    by (simp add: reconcile_trace_def Reconcile_def addFinalizer_def reconcile_with_status_def api_def run_simps get assms(2,3) should helper
        errors_of_def result_of_def)
qed


definition finalized_request :: VirtualMachineTemplateRequest where
  "finalized_request = example_request\<lparr>r_Meta := (r_Meta example_request)\<lparr>m_Finalizers := [FinalizerSnapshotCleanup]\<rparr>\<rparr>"

theorem ready_template_completes_witness:
  "\<exists>q'. last (reconcile_trace (example_cluster finalized_request (Some example_found)) (''ns'', ''golden'') () example_request) =
     EvHelperPatch finalized_request q' (Inr ()) \<and> phase_of q' = Completed"
proof -
  let ?c = "example_cluster finalized_request (Some example_found)"
  have "\<not> being_deleted (r_Meta finalized_request)" "ContainsFinalizer (r_Meta finalized_request) FinalizerSnapshotCleanup"
    "validateRequest finalized_request = None" "phase_of finalized_request = Pending"
    by (simp_all add: finalized_request_def example_request_def being_deleted_def empty_meta_def ContainsFinalizer_def validateRequest_def
        phase_of_def progressing_def conds.status_def)
  moreover have "label_value (t_Meta example_found) LabelRequestUID = m_UID (r_Meta finalized_request)" "template_ready example_found"
    by (simp_all add: example_found_def newTemplate_meta finalized_request_def template_ready_def conds.status_def ready_condition_def)
  ultimately show ?thesis
    using ready_template_completes [of ?c "(''ns'', ''golden'')" finalized_request example_found "[]" "()" example_request]
    by (simp add: example_cluster_def) blast
qed

end
