(* ===== verification/Json_Strings.thy ===== *)
theory Json_Strings
  imports Go_Values
begin

text \<open>
  The other direction of Go's \<^verbatim>\<open>encoding/json\<close>: how \<^verbatim>\<open>json.Marshal\<close> writes strings, and how it copies the
  text that a \<^verbatim>\<open>MarshalJSON\<close> method returns (\<^verbatim>\<open>appendCompact\<close>, which drops white space and escapes what
  is special in HTML).  \<open>Go_Values\<close> has the parser.  The lemmas show that reading a written string
  gives it back, with invalid UTF-8 replaced, and that compacting keeps the value of a string.
\<close>

section \<open>Writing strings\<close>

text \<open>The escape of a code point by four hexadecimal digits.\<close>

definition hex4 :: "nat \<Rightarrow> string" where
  "hex4 n = [CHR 0x5C, CHR ''u'', hex_digit (n div 4096), hex_digit (n div 256), hex_digit (n div 16), hex_digit n]"

text \<open>A byte below 128: control characters, the quote, the backslash and the HTML characters are escaped.\<close>

definition escape_byte :: "char \<Rightarrow> string" where
  "escape_byte c =
     (if c = CHR 0x22 \<or> c = CHR 0x5C then [CHR 0x5C, c]
      else if c = CHR 0x08 then [CHR 0x5C, CHR ''b'']
      else if c = CHR 0x0C then [CHR 0x5C, CHR ''f'']
      else if c = CHR 0x0A then [CHR 0x5C, CHR ''n'']
      else if c = CHR 0x0D then [CHR 0x5C, CHR ''r'']
      else if c = CHR 0x09 then [CHR 0x5C, CHR ''t'']
      else if code c < 32 \<or> c = CHR ''<'' \<or> c = CHR ''>'' \<or> c = CHR ''&'' then hex4 (code c)
      else [c])"

text \<open>The line and paragraph separators U+2028 and U+2029 are escaped too.\<close>

definition line_separator :: "string \<Rightarrow> string option" where
  "line_separator s =
     (if HasPrefix s (utf8_encode 8232) then Some (hex4 8232)
      else if HasPrefix s (utf8_encode 8233) then Some (hex4 8233)
      else None)"

function json_escape :: "string \<Rightarrow> string" where
  "json_escape [] = []"
| "json_escape (c # cs) =
     (if code c < 128 then escape_byte c @ json_escape cs
      else
        (case utf8_size (c # cs) of
           None \<Rightarrow> hex4 65533 @ json_escape cs
         | Some n \<Rightarrow>
             (case line_separator (c # cs) of Some e \<Rightarrow> e | None \<Rightarrow> take n (c # cs)) @
             json_escape (drop (n - 1) cs)))"
  by pat_completeness auto
termination by (relation "measure length") auto

text \<open>What is left of a string behind a writer and a reader: every invalid byte is replaced by U+FFFD.\<close>

function valid_utf8_text :: "string \<Rightarrow> string" where
  "valid_utf8_text [] = []"
| "valid_utf8_text (c # cs) =
     (if code c < 128 then c # valid_utf8_text cs
      else
        (case utf8_size (c # cs) of
           None \<Rightarrow> rune_error @ valid_utf8_text cs
         | Some n \<Rightarrow> take n (c # cs) @ valid_utf8_text (drop (n - 1) cs)))"
  by pat_completeness auto
termination by (relation "measure length") auto

definition json_quote :: "string \<Rightarrow> string" where
  "json_quote s = [CHR 0x22] @ json_escape s @ [CHR 0x22]"

lemma hex_value_digit: "hex_value (hex_digit n) = Some (n mod 16)"
proof -
  have "n mod 16 \<in> {0,1,2,3,4,5,6,7,8,9,10,11,12,13,14,15}" by simp presburger
  then show ?thesis by (auto simp: hex_digit_def hex_value_def char_classes)
qed

lemma base16_digits:
  assumes "n < (65536 :: nat)"
  shows "4096 * (n div 4096 mod 16) + 256 * (n div 256 mod 16) + 16 * (n div 16 mod 16) + n mod 16 = n"
proof -
  have "n div 4096 mod 16 = n div 4096" using assms by simp
  moreover have "n div 256 = 16 * (n div 4096) + n div 256 mod 16"
    using mult_div_mod_eq [of 16 "n div 256"] by (simp add: div_mult2_eq [symmetric])
  moreover have "n div 16 = 16 * (n div 256) + n div 16 mod 16"
    using mult_div_mod_eq [of 16 "n div 16"] by (simp add: div_mult2_eq [symmetric])
  moreover have "n = 16 * (n div 16) + n mod 16" by simp
  ultimately show ?thesis by linarith
qed

lemma get_u4_hex4: "n < 65536 \<Longrightarrow> hex4 n = CHR 0x5C # CHR ''u'' # h \<Longrightarrow> get_u4 (h @ r) = Some n"
  using base16_digits [of n] by (auto simp: hex4_def get_u4_def hex_value_digit)

lemma string_body_hex4:
  assumes "n < 65536" "\<not> is_surrogate n"
  shows "json_string_body (hex4 n @ r) = prepend (utf8_encode n) (json_string_body r)"
proof -
  obtain h where h: "hex4 n = CHR 0x5C # CHR ''u'' # h" "length h = 4" by (simp add: hex4_def)
  have "drop 4 (h @ r) = r" using h by simp
  with assms h get_u4_hex4 [OF assms(1) h(1), of r] show ?thesis by simp
qed

lemma string_body_escape_byte:
  assumes "code c < 128"
  shows "json_string_body (escape_byte c @ r) = prepend [c] (json_string_body r)"
proof -
  have u: "utf8_encode (code c) = [c]" using assms by (simp add: utf8_encode_def)
  show ?thesis unfolding escape_byte_def using assms
    by (simp add: string_body_hex4 is_surrogate_def u simple_escape_def)
qed

lemma utf8_size_cases:
  assumes "utf8_size s = Some n"
  shows "n \<in> {2, 3, 4}" "n \<le> length s" "utf8_size (take n s @ r) = Some n" "\<not> code (hd s) < 128"
proof -
  obtain a t where s: "s = a # t" using assms by (cases s) (auto simp: utf8_size_def)
  have "n \<in> {2, 3, 4} \<and> n \<le> length s \<and> utf8_size (take n s @ r) = Some n \<and> \<not> code (hd s) < 128"
    using assms unfolding s
    by (cases t; cases "tl t"; cases "tl (tl t)") (auto simp: utf8_size_def split: if_splits)
  then show "n \<in> {2, 3, 4}" "n \<le> length s" "utf8_size (take n s @ r) = Some n" "\<not> code (hd s) < 128" by blast+
qed


lemma line_separator_cases:
  assumes "utf8_size s = Some n" "line_separator s = Some e"
  obtains u where "n = 3" "e = hex4 u" "take 3 s = utf8_encode u" "u = 8232 \<or> u = 8233"
proof -
  have "u = 8232 \<or> u = 8233 \<Longrightarrow> HasPrefix s (utf8_encode u) \<Longrightarrow> n = 3 \<and> take 3 s = utf8_encode u" for u
    using assms(1) by (auto simp: HasPrefix_iff utf8_encode_def utf8_size_def split: if_splits)
  with assms(2) that show thesis by (auto simp: line_separator_def split: if_splits)
qed

lemma string_body_rune:
  assumes "utf8_size (c # cs) = Some n"
  shows "json_string_body (take n (c # cs) @ r) = prepend (take n (c # cs)) (json_string_body r)"
proof -
  note n = utf8_size_cases [OF assms]
  obtain m where m: "n = Suc m" using n(1) by auto
  have "utf8_size (c # take m cs @ r) = Some (Suc m)" using n(3) [of r] m by simp
  moreover have "length (take m cs) = m" using n(2) m by simp
  moreover have "c \<noteq> CHR 0x22" "c \<noteq> CHR 0x5C" "\<not> code c < 32" "\<not> code c < 128" using n(4) by auto
  ultimately show ?thesis unfolding m by simp
qed

lemma string_body_escape:
  "json_string_body (json_escape s @ [CHR 0x22] @ r) = Some (valid_utf8_text s, r)"
proof (induction s rule: json_escape.induct)
  case (2 c cs)
  show ?case
  proof (cases "code c < 128")
    case True
    with 2 show ?thesis by (simp add: string_body_escape_byte prepend_def)
  next
    case False
    show ?thesis
    proof (cases "utf8_size (c # cs)")
      case None
      with False 2 show ?thesis
        by (simp add: string_body_hex4 is_surrogate_def prepend_def flip: rune_error_def)
    next
      case (Some n)
      note IH = 2(3) [OF False Some]
      show ?thesis
      proof (cases "line_separator (c # cs)")
        case None
        then show ?thesis using False Some IH
          by (simp add: string_body_rune [OF Some] prepend_def del: take_Suc_Cons)
      next
        case (Some e)
        from line_separator_cases [OF \<open>utf8_size (c # cs) = Some n\<close> Some] obtain u
          where "n = 3" "e = hex4 u" "take 3 (c # cs) = utf8_encode u" "u = 8232 \<or> u = 8233" .
        then show ?thesis using False Some \<open>utf8_size (c # cs) = Some n\<close> IH
          by (auto simp: string_body_hex4 is_surrogate_def prepend_def)
      qed
    qed
  qed
qed simp

lemma json_quote_value: "json_value d (json_quote s @ r) = Some (JStr (valid_utf8_text s), r)"
  using string_body_escape [of s r] by (simp add: json_quote_def skip_ws_def is_ws_def)


section \<open>Compacting\<close>

text \<open>
  The scan over a valid document, outside of strings and in a string.  HTML characters and separators
  occur only in strings there.
\<close>

fun compact_outside :: "string \<Rightarrow> string"
  and compact_string :: "string \<Rightarrow> string" where
  "compact_outside [] = []"
| "compact_outside (c # cs) =
     (if is_ws c then compact_outside cs
      else if c = CHR 0x22 then c # compact_string cs
      else c # compact_outside cs)"
| "compact_string [] = []"
| "compact_string (c # cs) =
     (if c = CHR 0x22 then c # compact_outside cs
      else if c = CHR 0x5C then (case cs of [] \<Rightarrow> [c] | e # r \<Rightarrow> c # e # compact_string r)
      else if c = CHR ''<'' \<or> c = CHR ''>'' \<or> c = CHR ''&'' then hex4 (code c) @ compact_string cs
      else
        (case line_separator (c # cs) of
           Some e \<Rightarrow> e @ compact_string (drop 2 cs)
         | None \<Rightarrow> c # compact_string cs))"

definition json_compact :: "string \<Rightarrow> string option" where
  "json_compact s = (case json_syntax s of Some j \<Rightarrow> Some (compact_outside s) | None \<Rightarrow> None)"

section \<open>Compacting keeps strings\<close>

text \<open>The continuation bytes of UTF-8.\<close>

definition cont :: "char \<Rightarrow> bool" where "cont c \<longleftrightarrow> cont_byte (code c)"

lemma utf8_size_cont: "utf8_size (c # cs) = utf8_size (c # takeWhile cont cs)"
  by (cases cs; cases "tl cs"; cases "tl (tl cs)") (auto simp: utf8_size_def cont_def)

lemma line_separator_Cons: "line_separator (c # cs) = Some e \<Longrightarrow> c = CHR 0xE2 \<and> take 2 cs \<in> {[CHR 0x80, CHR 0xA8], [CHR 0x80, CHR 0xA9]}"
  by (auto simp: line_separator_def utf8_encode_def HasPrefix_iff char_of_def bit_0 split: if_splits)

lemma line_separator_utf8: "line_separator s = Some e \<Longrightarrow> utf8_size s = Some 3"
  by (auto simp: line_separator_def utf8_encode_def HasPrefix_iff utf8_size_def cont_byte_def split: if_splits)

lemma compact_string_conts: "list_all cont p \<Longrightarrow> compact_string (p @ r) = p @ compact_string r"
proof (induction p)
  case (Cons c p)
  then have "cont c" by simp
  then have "c \<noteq> CHR 0x22" "c \<noteq> CHR 0x5C" "c \<noteq> CHR ''<''" "c \<noteq> CHR ''>''" "c \<noteq> CHR ''&''" "c \<noteq> CHR 0xE2"
    by (auto simp: cont_def cont_byte_def)
  moreover from this have "line_separator (c # p @ r) = None" using line_separator_Cons by (cases "line_separator (c # p @ r)") blast+
  ultimately show ?case using Cons by simp
qed simp


lemma string_body_quote: "json_string_body s = Some (v, r) \<Longrightarrow> CHR 0x22 \<in> set s"
  by (induction s arbitrary: v rule: json_string_body.induct)
     (fastforce simp: prepend_def split: if_splits list.splits option.splits dest: in_set_dropD)+

lemma takeWhile_cont_compact:
  "CHR 0x22 \<in> set cs \<Longrightarrow> takeWhile cont (compact_string cs @ t) = takeWhile cont cs"
proof (induction cs)
  case (Cons c cs)
  show ?case
  proof (cases "cont c")
    case True
    then have "c \<noteq> CHR 0x22" by (auto simp: cont_def cont_byte_def)
    with Cons True compact_string_conts [of "[c]" cs] show ?thesis by simp
  next
    case False
    have nb: "\<not> cont CHR 0x5C" "\<not> cont CHR 0x22" by (simp_all add: cont_def cont_byte_def)
    have "\<exists>x u. compact_string (c # cs) = x # u \<and> \<not> cont x"
      using False nb by (cases "line_separator (c # cs)") (auto simp: hex4_def line_separator_def split: list.split if_splits)
    then show ?thesis using False by (auto simp del: compact_string.simps)
  qed
qed simp

lemma hex_value_plain:
  assumes "hex_value c = Some n"
  shows "compact_string (c # cs) = c # compact_string cs"
proof -
  have "c \<noteq> CHR 0x22" "c \<noteq> CHR 0x5C" "c \<noteq> CHR ''<''" "c \<noteq> CHR ''>''" "c \<noteq> CHR ''&''" "c \<noteq> CHR 0xE2"
    using assms by (auto simp: hex_value_def char_classes split: if_splits)
  moreover from this have "line_separator (c # cs) = None" using line_separator_Cons by (cases "line_separator (c # cs)") blast+
  ultimately show ?thesis by simp
qed

lemma get_u4_cases:
  assumes "get_u4 s = Some u"
  shows "\<exists>h. s = h @ drop 4 s \<and> length h = 4 \<and> (\<forall>x. get_u4 (h @ x) = Some u) \<and>
    compact_string s = h @ compact_string (drop 4 s)"
proof -
  from assms obtain a b c d r where s: "s = a # b # c # d # r" and
    h: "hex_value a \<noteq> None" "hex_value b \<noteq> None" "hex_value c \<noteq> None" "hex_value d \<noteq> None"
    by (auto simp: get_u4_def split: list.splits option.splits)
  have "get_u4 ([a, b, c, d] @ x) = Some u" for x using assms by (simp add: s get_u4_def)
  moreover have "compact_string s = [a, b, c, d] @ compact_string (drop 4 s)"
    using h unfolding s by (auto simp: hex_value_plain simp del: compact_string.simps)
  ultimately show ?thesis by (intro exI [of _ "[a, b, c, d]"]) (simp add: s)
qed

lemma surrogate_pair_low: "get_u4 (drop 2 s) = Some lo \<Longrightarrow> lo < 56320 \<Longrightarrow> surrogate_pair u s = None"
  by (simp add: surrogate_pair_def)

lemma surrogate_pair_cases:
  assumes "surrogate_pair u z = Some x"
  shows "\<exists>h. length h = 6 \<and> (\<forall>a. surrogate_pair u (h @ a) = Some x) \<and> compact_string z = h @ compact_string (drop 6 z)"
proof -
  from assms obtain lo where lo: "take 2 z = [CHR 0x5C, CHR ''u'']" "get_u4 (drop 2 z) = Some lo"
    by (auto simp: surrogate_pair_def split: if_splits option.splits)
  from get_u4_cases [OF lo(2)] obtain h where h: "length h = 4" "\<forall>a. get_u4 (h @ a) = Some lo"
    "compact_string (drop 2 z) = h @ compact_string (drop 6 z)" by auto
  have z: "z = [CHR 0x5C, CHR ''u''] @ drop 2 z" using lo(1) by (metis append_take_drop_id)
  have "compact_string z = ([CHR 0x5C, CHR ''u''] @ h) @ compact_string (drop 6 z)"
    by (subst z) (simp add: h(3))
  moreover have "surrogate_pair u (([CHR 0x5C, CHR ''u''] @ h) @ a) = Some x" for a
    using assms lo h by (simp add: surrogate_pair_def)
  ultimately show ?thesis using h(1) by (intro exI [of _ "[CHR 0x5C, CHR ''u''] @ h"]) simp
qed

lemma surrogate_pair_compact:
  assumes "json_string_body x = Some (v, r)"
  shows "surrogate_pair u (compact_string x @ t) = surrogate_pair u x"
proof -
  obtain c cs where x: "x = c # cs" using assms by (cases x) auto
  have low: "surrogate_pair u (hex4 n @ y) = None" if "n < 56320" for n y
    using get_u4_hex4 [of n _ y] that by (intro surrogate_pair_low [of _ n]) (auto simp: hex4_def)
  show ?thesis
  proof (cases "c = CHR 0x5C")
    case False
    then have "surrogate_pair u x = None" by (simp add: x surrogate_pair_def)
    moreover have "surrogate_pair u (compact_string x @ t) = None"
      using False low [of "code c"] low [of 8232] low [of 8233] unfolding x
      by (auto simp: surrogate_pair_def [of u "_ # _"] line_separator_def split: option.split if_splits)
    ultimately show ?thesis by simp
  next
    case True
    with assms obtain e y where cs: "cs = e # y" by (auto simp: x split: list.splits)
    show ?thesis
    proof (cases "e = CHR ''u''")
      case True
      with assms \<open>c = CHR 0x5C\<close> obtain lo where "get_u4 y = Some lo" by (auto simp: x cs split: option.splits)
      from get_u4_cases [OF this] have "get_u4 y = Some lo" "get_u4 (compact_string y @ t) = Some lo"
        by (metis, force)
      then show ?thesis using True \<open>c = CHR 0x5C\<close> by (simp add: x cs surrogate_pair_def)
    next
      case False
      then show ?thesis using \<open>c = CHR 0x5C\<close> by (simp add: x cs surrogate_pair_def)
    qed
  qed
qed


lemma string_body_rune_compact:
  assumes n: "utf8_size (c # cs) = Some n" and IH: "json_string_body (compact_string (drop (n - 1) cs) @ t) = Some (w, z)"
  shows "json_string_body (compact_string (c # cs) @ t) = Some (take n (c # cs) @ w, z)"
proof (cases "line_separator (c # cs)")
  case (Some e)
  from line_separator_cases [OF n Some] obtain u
    where "n = 3" "e = hex4 u" "take 3 (c # cs) = utf8_encode u" "u = 8232 \<or> u = 8233" .
  moreover have "c \<noteq> CHR 0x22" "c \<noteq> CHR 0x5C" "c \<noteq> CHR ''<''" "c \<noteq> CHR ''>''" "c \<noteq> CHR ''&''"
    using line_separator_Cons [OF Some] by auto
  ultimately show ?thesis using IH Some by (auto simp: string_body_hex4 is_surrogate_def prepend_def)
next
  case None
  note c = utf8_size_cases [OF n]
  obtain m where m: "n = Suc m" using c(1) by auto
  have "list_all cont (take m cs)"
    using n m by (cases cs; cases "tl cs"; cases "tl (tl cs)") (auto simp: utf8_size_def cont_def split: if_splits)
  from compact_string_conts [OF this, of "drop m cs"] have "compact_string cs = take m cs @ compact_string (drop m cs)" by simp
  moreover have "compact_string (c # cs) = c # compact_string cs" using None c(4) by auto
  ultimately have eq: "compact_string (c # cs) @ t = take n (c # cs) @ (compact_string (drop m cs) @ t)" by (simp add: m)
  show ?thesis unfolding eq string_body_rune [OF n] using IH by (simp add: m prepend_def)
qed

lemma string_body_compact:
  "json_string_body s = Some (v, r) \<Longrightarrow> json_string_body (compact_string s @ t) = Some (v, compact_outside r @ t)"
proof (induction s arbitrary: v rule: length_induct)
  case (1 s)
  from "1.prems" obtain c cs where s: "s = c # cs" by (cases s) auto
  have IH: "json_string_body (compact_string s' @ t) = Some (w, compact_outside r @ t)"
    if "length s' \<le> length cs" "json_string_body s' = Some (w, r)" for s' w
    using "1.IH" that by (simp add: s)
  have dr: "length (drop k cs) \<le> length cs" for k by simp
  consider (quote) "c = CHR 0x22" | (escape) "c = CHR 0x5C" | (ascii) "c \<noteq> CHR 0x22" "c \<noteq> CHR 0x5C" "code c < 128"
    | (rune) n where "\<not> code c < 128" "utf8_size (c # cs) = Some n" | (bad) "\<not> code c < 128" "utf8_size (c # cs) = None"
    by (cases "utf8_size (c # cs)") blast+
  then show ?case
  proof cases
    case quote
    with "1.prems" show ?thesis by (simp add: s)
  next
    case ascii
    with "1.prems" obtain w where w: "v = c # w" "json_string_body cs = Some (w, r)" "\<not> code c < 32"
      by (auto simp: s prepend_def split: if_splits)
    have "line_separator (c # cs) = None"
      using ascii(3) line_separator_Cons by (cases "line_separator (c # cs)") force+
    moreover have "json_string_body (hex4 (code c) @ y) = prepend [c] (json_string_body y)" for y
      using ascii(3) by (simp add: string_body_hex4 is_surrogate_def utf8_encode_def)
    note this [simplified]
    ultimately show ?thesis using ascii w IH [OF _ w(2)] by (auto simp: s prepend_def)
  next
    case rune
    then obtain w where "json_string_body (drop (n - 1) cs) = Some (w, r)" "v = take n (c # cs) @ w"
      using "1.prems" by (auto simp: s prepend_def split: if_splits)
    with string_body_rune_compact [OF rune(2) IH [OF dr]] show ?thesis by (simp add: s)
  next
    case bad
    then obtain w where w: "json_string_body cs = Some (w, r)" "v = rune_error @ w"
      using "1.prems" by (auto simp: s prepend_def split: if_splits)
    have c: "line_separator (c # cs) = None"
      using bad(2) line_separator_utf8 [of "c # cs"] by (cases "line_separator (c # cs)") auto
    have "utf8_size (c # compact_string cs @ t) = None"
      using bad(2) utf8_size_cont takeWhile_cont_compact [OF string_body_quote [OF w(1)], of t] by metis
    with bad c w IH [OF _ w(1)] show ?thesis by (auto simp: s prepend_def)
  next
    case escape
    with "1.prems" obtain e y where cs: "cs = e # y" by (auto simp: s split: list.splits)
    have dry: "length (drop k y) \<le> length cs" for k by (simp add: cs)
    show ?thesis
    proof (cases "e = CHR ''u''")
      case False
      with "1.prems" escape obtain x w where "simple_escape e = Some x" "json_string_body y = Some (w, r)" "v = x # w"
        by (auto simp: s cs prepend_def split: option.splits)
      with escape False IH [of y w] show ?thesis by (simp add: s cs prepend_def)
    next
      case True
      with "1.prems" escape obtain u where u: "get_u4 y = Some u" by (auto simp: s cs split: option.splits)
      from get_u4_cases [OF u] obtain h where h: "length h = 4" "\<forall>x. get_u4 (h @ x) = Some u"
        "compact_string y = h @ compact_string (drop 4 y)" by blast
      then have g: "compact_string s @ t = CHR 0x5C # CHR ''u'' # h @ (compact_string (drop 4 y) @ t)"
        using escape True by (simp add: s cs)
      show ?thesis
      proof (cases "is_surrogate u \<and> surrogate_pair u (drop 4 y) \<noteq> None")
        case True
        then obtain x where x: "surrogate_pair u (drop 4 y) = Some x" "is_surrogate u" by blast
        with "1.prems" escape \<open>e = CHR ''u''\<close> u obtain w where w: "json_string_body (drop 10 y) = Some (w, r)" "v = utf8_encode x @ w"
          by (auto simp: s cs prepend_def)
        from surrogate_pair_cases [OF x(1)] obtain h' where h': "length h' = 6"
          "\<forall>a. surrogate_pair u (h' @ a) = Some x" "compact_string (drop 4 y) = h' @ compact_string (drop 10 y)" by auto
        show ?thesis unfolding g h'(3) using h h' x(2) w IH [OF dry w(1)] by (simp add: prepend_def)
      next
        case False
        with "1.prems" escape \<open>e = CHR ''u''\<close> u obtain w p where w: "json_string_body (drop 4 y) = Some (w, r)" "v = p @ w"
          "p = (if is_surrogate u then rune_error else utf8_encode u)"
          by (auto simp: s cs prepend_def split: if_splits)
        with False IH [OF dry w(1)] surrogate_pair_compact [OF w(1), of u t] show ?thesis
          unfolding g using h by (auto simp: prepend_def)
      qed
    qed
  qed
qed

end
