(* ===== verification/Json_Documents.thy ===== *)
theory Json_Documents
  imports Json_Strings
begin

text \<open>
  Documents of \<^verbatim>\<open>encoding/json\<close>: compacting a document keeps its value; the text of a struct or slice
  is built from the texts of its parts, and read back as those parts, byte by byte, the way
  \<^verbatim>\<open>json.Unmarshal\<close> hands the bytes of a value to an \<^verbatim>\<open>UnmarshalJSON\<close> method.
\<close>

section \<open>Numbers\<close>

text \<open>The bytes of a number.\<close>

definition number_char :: "char \<Rightarrow> bool" where
  "number_char c \<longleftrightarrow> is_digit c \<or> c \<in> set ''-+.eE''"

definition starts_outside :: "(char \<Rightarrow> bool) \<Rightarrow> string \<Rightarrow> bool" where
  "starts_outside P s \<longleftrightarrow> s = [] \<or> \<not> P (hd s)"

lemma split_digits_app:
  "list_all is_digit ds \<Longrightarrow> starts_outside is_digit r \<Longrightarrow> split_digits (ds @ r) = (ds, r)"
  by (cases r) (auto simp: split_digits_def starts_outside_def list_all_iff takeWhile_append dropWhile_append)

lemma split_digits_eq: "split_digits s = (ds, r) \<Longrightarrow> s = ds @ r \<and> list_all is_digit ds"
  by (auto simp: split_digits_def list_all_iff dest: set_takeWhileD)

lemma int_part_app:
  assumes "json_int_part s = Some (ip, r)"
  shows "s = ip @ r" "ip \<noteq> []" "list_all is_digit ip"
    "starts_outside is_digit r' \<Longrightarrow> json_int_part (ip @ r') = Some (ip, r')"
proof -
  from assms obtain c cs where s: "s = c # cs" by (auto simp: json_int_part_def split: list.splits)
  have zero: "is_digit CHR ''0''" by (simp add: char_classes)
  have "s = ip @ r \<and> ip \<noteq> [] \<and> list_all is_digit ip \<and>
      (starts_outside is_digit r' \<longrightarrow> json_int_part (ip @ r') = Some (ip, r'))"
  proof (cases "c = CHR ''0''")
    case True
    with assms zero show ?thesis by (auto simp: s json_int_part_def)
  next
    case False
    with assms have d: "is_digit c" "split_digits s = (ip, r)" by (auto simp: s json_int_part_def split: if_splits)
    then obtain ds where ip: "ip = c # ds" by (auto simp: s split_digits_def)
    from split_digits_eq [OF d(2)] show ?thesis
      using False d split_digits_app [of ip r'] by (auto simp: ip json_int_part_def)
  qed
  then show "s = ip @ r" "ip \<noteq> []" "list_all is_digit ip"
    "starts_outside is_digit r' \<Longrightarrow> json_int_part (ip @ r') = Some (ip, r')" by blast+
qed

lemma frac_part_app:
  assumes "json_frac_part s = Some (fp, r)"
  shows "s = fp @ r" "fp = [] \<or> hd fp = CHR ''.''" "list_all number_char fp"
    "starts_outside (\<lambda>c. is_digit c \<or> c = CHR ''.'') r' \<Longrightarrow> json_frac_part (fp @ r') = Some (fp, r')"
proof -
  have "s = fp @ r \<and> (fp = [] \<or> hd fp = CHR ''.'') \<and> list_all number_char fp \<and>
      (starts_outside (\<lambda>c. is_digit c \<or> c = CHR ''.'') r' \<longrightarrow> json_frac_part (fp @ r') = Some (fp, r'))"
  proof (cases "take 1 s = ''.''")
    case True
    then obtain cs where s: "s = CHR ''.'' # cs" by (cases s) auto
    with assms obtain ds where ds: "split_digits cs = (ds, r)" "ds \<noteq> []" "fp = CHR ''.'' # ds"
      by (auto simp: json_frac_part_def split: prod.splits if_splits)
    moreover have "starts_outside (\<lambda>c. is_digit c \<or> c = CHR ''.'') r' \<Longrightarrow> starts_outside is_digit r'"
      by (auto simp: starts_outside_def)
    ultimately show ?thesis using split_digits_eq [OF ds(1)] split_digits_app [of ds r']
      by (auto simp: s json_frac_part_def number_char_def list_all_iff)
  next
    case False
    with assms have "fp = []" "r = s" by (cases s; simp add: json_frac_part_def split: if_splits)+
    then show ?thesis by (cases r') (auto simp: json_frac_part_def starts_outside_def)
  qed
  then show "s = fp @ r" "fp = [] \<or> hd fp = CHR ''.''" "list_all number_char fp"
    "starts_outside (\<lambda>c. is_digit c \<or> c = CHR ''.'') r' \<Longrightarrow> json_frac_part (fp @ r') = Some (fp, r')" by blast+
qed

lemma exp_part_app:
  assumes "json_exp_part s = Some (ep, r)"
  shows "s = ep @ r" "ep = [] \<or> hd ep = CHR ''e'' \<or> hd ep = CHR ''E''" "list_all number_char ep"
    "starts_outside number_char r' \<Longrightarrow> json_exp_part (ep @ r') = Some (ep, r')"
proof -
  have "s = ep @ r \<and> (ep = [] \<or> hd ep = CHR ''e'' \<or> hd ep = CHR ''E'') \<and> list_all number_char ep \<and>
      (starts_outside number_char r' \<longrightarrow> json_exp_part (ep @ r') = Some (ep, r'))"
  proof (cases "take 1 s \<in> {''e'', ''E''}")
    case True
    then obtain c cs where s: "s = c # cs" "c = CHR ''e'' \<or> c = CHR ''E''" by (cases s) auto
    define sg where "sg = (if cs \<noteq> [] \<and> (hd cs = CHR ''+'' \<or> hd cs = CHR ''-'') then [hd cs] else [])"
    from assms s obtain ds where ds: "split_digits (drop (length sg) cs) = (ds, r)" "ds \<noteq> []" "ep = c # sg @ ds"
      by (auto simp: json_exp_part_def sg_def Let_def split: prod.splits if_splits)
    have cs: "cs = sg @ drop (length sg) cs" by (cases cs) (auto simp: sg_def)
    note d = split_digits_eq [OF ds(1)]
    have sg: "list_all number_char sg" by (auto simp: sg_def number_char_def)
    have "json_exp_part (ep @ r') = Some (ep, r')" if r': "starts_outside number_char r'"
    proof -
      have so: "starts_outside is_digit r'" using r' by (auto simp: starts_outside_def number_char_def)
      obtain x ds' where x: "ds = x # ds'" "is_digit x" using ds(2) d by (cases ds) auto
      have "sg = [] \<or> sg = ''+'' \<or> sg = ''-''" by (auto simp: sg_def)
      then show ?thesis using s(2) split_digits_app [of ds r'] d so ds(2) x(2)
        by (auto simp: json_exp_part_def ds(3) Let_def x(1) char_classes)
    qed
    then show ?thesis using s cs d ds(3) sg by (auto simp: number_char_def list_all_iff)
  next
    case False
    with assms have "ep = []" "r = s" by (cases s; simp add: json_exp_part_def split: if_splits)+
    then show ?thesis by (cases r') (auto simp: json_exp_part_def starts_outside_def number_char_def)
  qed
  then show "s = ep @ r" "ep = [] \<or> hd ep = CHR ''e'' \<or> hd ep = CHR ''E''" "list_all number_char ep"
    "starts_outside number_char r' \<Longrightarrow> json_exp_part (ep @ r') = Some (ep, r')" by blast+
qed

lemma number_app:
  assumes "json_number s = Some (n, r)"
  shows "s = n @ r" "n \<noteq> []" "list_all number_char n"
    "starts_outside number_char r' \<Longrightarrow> json_number (n @ r') = Some (n, r')"
proof -
  define sg where "sg = (if s \<noteq> [] \<and> hd s = CHR ''-'' then ''-'' else [])"
  from assms obtain ip r1 fp r2 ep where
    p: "json_int_part (drop (length sg) s) = Some (ip, r1)" "json_frac_part r1 = Some (fp, r2)"
       "json_exp_part r2 = Some (ep, r)" "n = sg @ ip @ fp @ ep"
    by (auto simp: json_number_def sg_def Let_def split: option.splits)
  note i = int_part_app [OF p(1)] and f = frac_part_app [OF p(2)] and e = exp_part_app [OF p(3)]
  have s: "s = sg @ drop (length sg) s" by (cases s) (auto simp: sg_def)
  show "s = n @ r" using s i(1) f(1) e(1) p(4) by simp
  show "n \<noteq> []" using i(2) p(4) by simp
  show "list_all number_char n" using i(3) f(3) e(3) by (auto simp: p(4) sg_def list_all_iff number_char_def)
  assume r': "starts_outside number_char r'"
  obtain x ip' where x: "ip = x # ip'" "is_digit x" using i(2,3) by (cases ip) auto
  have sg': "(if n @ r' \<noteq> [] \<and> hd (n @ r') = CHR ''-'' then ''-'' else []) = sg"
    using x(2) by (auto simp: p(4) sg_def x(1) char_classes)
  have o: "\<not> is_digit CHR ''.''" "\<not> is_digit CHR ''e''" "\<not> is_digit CHR ''E''" by (simp_all add: char_classes)
  have "starts_outside is_digit (fp @ ep @ r')" "starts_outside (\<lambda>c. is_digit c \<or> c = CHR ''.'') (ep @ r')"
    using f(2) e(2) r' o by (auto simp: starts_outside_def number_char_def hd_append)
  then have "json_int_part (ip @ fp @ ep @ r') = Some (ip, fp @ ep @ r')" "json_frac_part (fp @ ep @ r') = Some (fp, ep @ r')"
    using i(4) f(4) by blast+
  then show "json_number (n @ r') = Some (n, r')"
    unfolding json_number_def Let_def sg' using e(4) [OF r'] by (simp add: p(4))
qed


section \<open>Documents\<close>

definition delimiter :: "char \<Rightarrow> bool" where
  "delimiter c \<longleftrightarrow> c = CHR '','' \<or> c = CHR '']'' \<or> c = CHR ''}''"

definition closing :: "string \<Rightarrow> bool" where
  "closing r \<longleftrightarrow> (case skip_ws r of [] \<Rightarrow> True | c # _ \<Rightarrow> delimiter c)"

lemma skip_ws_Cons: "skip_ws (c # cs) = (if is_ws c then skip_ws cs else c # cs)"
  by (simp add: skip_ws_def)

lemma skip_ws_hd: "skip_ws s = c # cs \<Longrightarrow> \<not> is_ws c"
  by (metis skip_ws_def dropWhile_eq_Cons_conv)

lemma skip_ws_skip [simp]: "skip_ws (skip_ws s) = skip_ws s"
  by (simp add: skip_ws_def)

lemma compact_skip: "compact_outside (skip_ws s) = compact_outside s"
  by (induction s) (auto simp: skip_ws_def)

lemma compact_outside_skip:
  "compact_outside s = (case skip_ws s of [] \<Rightarrow> [] | c # cs \<Rightarrow> c # (if c = CHR 0x22 then compact_string cs else compact_outside cs))"
  using skip_ws_hd by (subst compact_skip [symmetric]) (auto split: list.split)

lemma compact_number: "list_all number_char n \<Longrightarrow> compact_outside (n @ r) = n @ compact_outside r"
proof (induction n)
  case (Cons c n)
  then have "\<not> is_ws c" "c \<noteq> CHR 0x22" by (auto simp: number_char_def is_ws_def char_classes)
  with Cons show ?case by simp
qed simp

declare json_value.simps [simp del] json_elems.simps [simp del] json_members.simps [simp del]

lemma elems_cases:
  assumes "json_elems d s = Some (es, r)"
  obtains (last) v r1 where "json_value d s = Some (v, r1)" "skip_ws r1 = CHR '']'' # r" "es = [v]"
  | (more) v r1 cs es' where "json_value d s = Some (v, r1)" "skip_ws r1 = CHR '','' # cs" "length cs < length s"
      "json_elems d cs = Some (es', r)" "es = v # es'"
  using assms unfolding json_elems.simps [of d s] by (auto split: option.splits list.splits if_splits)

lemma members_cases:
  assumes "json_members d s = Some (ms, r)"
  obtains (last) k v ks r1 r2 r3 where "skip_ws s = CHR 0x22 # ks" "json_string_body ks = Some (k, r1)"
      "skip_ws r1 = CHR '':'' # r2" "json_value d r2 = Some (v, r3)" "skip_ws r3 = CHR ''}'' # r" "ms = [(k, v)]"
  | (more) k v ks r1 r2 r3 r4 ms' where "skip_ws s = CHR 0x22 # ks" "json_string_body ks = Some (k, r1)"
      "skip_ws r1 = CHR '':'' # r2" "json_value d r2 = Some (v, r3)" "skip_ws r3 = CHR '','' # r4" "length r4 < length s"
      "json_members d r4 = Some (ms', r)" "ms = (k, v) # ms'"
  using assms unfolding json_members.simps [of d s] by (auto split: option.splits list.splits if_splits)

lemma keyword_app:
  assumes "json_keyword s = Some j"
  shows "s = take (json_keyword_length j) s @ drop (json_keyword_length j) s"
    "length (drop (json_keyword_length j) s) < length s"
    "list_all is_lower (take (json_keyword_length j) s)"
    "json_keyword (take (json_keyword_length j) s @ t) = Some j"
    "length (take (json_keyword_length j) s) = json_keyword_length j"
  using assms by (auto simp: json_keyword_def json_keyword_length_def HasPrefix_iff char_classes split: if_splits)

lemma value_cases:
  assumes "json_value d s = Some (j, r)"
  obtains (object) cs where "skip_ws s = CHR ''{'' # cs" "d < max_nesting_depth" "skip_ws cs = CHR ''}'' # r" "j = JObj []"
  | (members) cs ms where "skip_ws s = CHR ''{'' # cs" "d < max_nesting_depth" "take 1 (skip_ws cs) \<noteq> ''}''"
      "json_members (d + 1) cs = Some (ms, r)" "j = JObj ms"
  | (array) cs where "skip_ws s = CHR ''['' # cs" "d < max_nesting_depth" "skip_ws cs = CHR '']'' # r" "j = JArr []"
  | (elems) cs es where "skip_ws s = CHR ''['' # cs" "d < max_nesting_depth" "take 1 (skip_ws cs) \<noteq> '']''"
      "json_elems (d + 1) cs = Some (es, r)" "j = JArr es"
  | (str) cs v where "skip_ws s = CHR 0x22 # cs" "json_string_body cs = Some (v, r)" "j = JStr v"
  | (keyword) "json_keyword (skip_ws s) = Some j" "r = drop (json_keyword_length j) (skip_ws s)"
      "take 1 (skip_ws s) \<notin> {''{'', ''['', [CHR 0x22]}"
  | (num) n where "json_keyword (skip_ws s) = None" "json_number (skip_ws s) = Some (n, r)" "j = JNum n"
      "take 1 (skip_ws s) \<notin> {''{'', ''['', [CHR 0x22]}"
proof -
  from assms obtain c cs where s: "skip_ws s = c # cs" by (auto simp: json_value.simps [of d s] split: list.splits)
  have one: "take (Suc 0) x = [y] \<Longrightarrow> x = y # drop (Suc 0) x" for x y by (cases x) auto
  show thesis using assms that s unfolding json_value.simps [of d s]
    by (auto simp: not_le split: if_splits option.splits dest: one)
qed

lemma parse_shorter:
  "(\<forall>d j r. json_value d s = Some (j, r) \<longrightarrow> length r < length s) \<and>
   (\<forall>d es r. json_elems d s = Some (es, r) \<longrightarrow> length r < length s) \<and>
   (\<forall>d ms r. json_members d s = Some (ms, r) \<longrightarrow> length r < length s)"
proof (induction s rule: length_induct)
  case (1 s)
  have IH: "length t < length s \<Longrightarrow> json_value d t = Some (j, r) \<Longrightarrow> length r < length t"
    "length t < length s \<Longrightarrow> json_elems d t = Some (es, r) \<Longrightarrow> length r < length t"
    "length t < length s \<Longrightarrow> json_members d t = Some (ms, r) \<Longrightarrow> length r < length t" for t d j r es ms
    using "1.IH" by blast+
  have v: "length r < length s" if "json_value d s = Some (j, r)" for d j r
    using that
  proof (cases rule: value_cases)
    case keyword
    then show ?thesis using keyword_app(2) [OF keyword(1)] skip_ws_length [of s] by simp
  next
    case (num n)
    then show ?thesis using number_app(1,2) [OF num(2)] skip_ws_length [of s] by (metis append_eq_append_conv2 length_append length_greater_0_conv less_add_same_cancel2 order_less_le_trans)
  next
    case (members cs ms)
    then show ?thesis using IH(3) [OF skip_ws_Cons_length [OF members(1)]] skip_ws_Cons_length [OF members(1)] by force
  next
    case (elems cs es)
    then show ?thesis using IH(2) [OF skip_ws_Cons_length [OF elems(1)]] skip_ws_Cons_length [OF elems(1)] by force
  qed (auto dest!: skip_ws_Cons_length json_string_body_length)
  moreover have "length r < length s" if "json_elems d s = Some (es, r)" for d es r
    using that
  proof (cases rule: elems_cases)
    case (last w r1)
    then show ?thesis using v [OF last(1)] skip_ws_Cons_length [OF last(2)] by simp
  next
    case (more w r1 cs es')
    then show ?thesis using IH(2) [OF more(3,4)] by simp
  qed
  moreover have "length r < length s" if "json_members d s = Some (ms, r)" for d ms r
    using that
  proof (cases rule: members_cases)
    case (last k w ks r1 r2 r3)
    then have "length r2 < length s" by (auto dest!: skip_ws_Cons_length json_string_body_length)
    then show ?thesis using IH(1) [OF _ last(4)] skip_ws_Cons_length [OF last(5)] by simp
  next
    case (more k w ks r1 r2 r3 r4 ms')
    then show ?thesis using IH(3) [OF more(6,7)] by simp
  qed
  ultimately show ?case by blast
qed


lemma compact_head:
  assumes "skip_ws s = c # cs"
  shows "skip_ws (compact_outside s @ t) = c # (if c = CHR 0x22 then compact_string cs else compact_outside cs) @ t"
  unfolding compact_outside_skip [of s] using skip_ws_hd [OF assms] assms by (simp add: skip_ws_Cons)

lemma compact_lower: "list_all is_lower p \<Longrightarrow> compact_outside (p @ r) = p @ compact_outside r"
proof (induction p)
  case (Cons c p)
  then have "\<not> is_ws c" "c \<noteq> CHR 0x22" by (auto simp: is_ws_def char_classes)
  with Cons show ?case by simp
qed simp

text \<open>What may follow a value in a document: its end or a delimiter.\<close>

definition ends_value :: "string \<Rightarrow> bool" where
  "ends_value t \<longleftrightarrow> starts_outside (\<lambda>c. \<not> delimiter c) t"

lemma ends_value_number: "closing r \<Longrightarrow> ends_value t \<Longrightarrow> starts_outside number_char (compact_outside r @ t)"
  unfolding compact_outside_skip [of r] closing_def ends_value_def
  by (auto simp: starts_outside_def delimiter_def number_char_def char_classes split: list.splits)

lemma value_nonempty: "json_value d s = Some x \<Longrightarrow> \<exists>c cs. skip_ws s = c # cs"
  by (cases "skip_ws s") (simp_all add: json_value.simps [of d s])

lemma value_scalar_compact:
  assumes "json_value d s = Some (j, r)" "closing r" "ends_value t"
    and rec: "take 1 (skip_ws s) \<noteq> ''{''" "take 1 (skip_ws s) \<noteq> ''[''"
  shows "json_value d (compact_outside s @ t) = Some (j, compact_outside r @ t)"
proof -
  obtain c cs where s: "skip_ws s = c # cs" using value_nonempty [OF assms(1)] by blast
  note head = compact_head [OF s, of t]
  have c: "c \<noteq> CHR ''{''" "c \<noteq> CHR ''[''" using rec by (auto simp: s)
  have cs: "compact_outside (skip_ws s) = compact_outside s" by (rule compact_skip)
  show ?thesis using assms(1)
  proof (cases rule: value_cases)
    case (str cs' v)
    then show ?thesis using head s string_body_compact [of cs' v r t] by (simp add: json_value.simps [of d "compact_outside s @ t"])
  next
    case keyword
    let ?p = "take (json_keyword_length j) (skip_ws s)"
    note k = keyword_app [OF keyword(1)]
    have "compact_outside s = ?p @ compact_outside r" using compact_lower [OF k(3), of r] cs k(1) keyword(2) by metis
    then have eq: "skip_ws (compact_outside s @ t) = ?p @ compact_outside r @ t" using head s keyword(3) compact_head [OF s, of "[]"] by (auto simp: compact_outside_skip [of s] split: if_splits)
    obtain p' where p: "?p = c # p'" using s by (cases "j = JBool False") (auto simp: json_keyword_length_def)
    have "drop (json_keyword_length j) (c # p' @ x) = x" for x
      using k(5) unfolding p by (metis append_Cons append_eq_conv_conj)
    then show ?thesis using c keyword(3) k(4) p s unfolding json_value.simps [of d "compact_outside s @ t"] eq
      by simp
  next
    case (num n)
    note k = number_app [OF num(2)]
    have co: "compact_outside s = n @ compact_outside r" using compact_number [OF k(3), of r] cs k(1) by metis
    obtain n' where n: "n = c # n'" using k(1,2) s by (cases n) auto
    have eq: "skip_ws (compact_outside s @ t) = c # n' @ compact_outside r @ t"
      using skip_ws_hd [OF s] by (simp add: co n skip_ws_Cons)
    have "json_keyword (n @ compact_outside r @ t) = None"
      using k(3) by (auto simp: n json_keyword_def HasPrefix_def number_char_def char_classes)
    then show ?thesis using c num(3,4) k(4) [OF ends_value_number [OF assms(2,3)]] s
      unfolding json_value.simps [of d "compact_outside s @ t"] eq by (simp add: n)
  qed (use c s in auto)
qed


text \<open>What compacting keeps, in front of a text that ends a value.\<close>

definition compacts :: "string \<Rightarrow> string \<Rightarrow> bool" where
  "compacts s t \<longleftrightarrow>
     (\<forall>d j r. json_value d s = Some (j, r) \<longrightarrow> closing r \<longrightarrow> json_value d (compact_outside s @ t) = Some (j, compact_outside r @ t)) \<and>
     (\<forall>d es r. json_elems d s = Some (es, r) \<longrightarrow> json_elems d (compact_outside s @ t) = Some (es, compact_outside r @ t)) \<and>
     (\<forall>d ms r. json_members d s = Some (ms, r) \<longrightarrow> json_members d (compact_outside s @ t) = Some (ms, compact_outside r @ t))"

lemma closing_delim: "skip_ws r = c # cs \<Longrightarrow> delimiter c \<Longrightarrow> closing r"
  by (simp add: closing_def)

lemma delimiters [simp]: "delimiter CHR '',''" "delimiter CHR '']''" "delimiter CHR ''}''"
  by (simp_all add: delimiter_def)

lemma compact_shorter:
  assumes "json_value d (compact_outside s @ t) = Some (v, compact_outside r @ t)" "skip_ws r = c # cs" "c \<noteq> CHR 0x22"
  shows "length (compact_outside cs) < length (compact_outside s)"
proof -
  have "length (compact_outside r) < length (compact_outside s)" using parse_shorter assms(1) by fastforce
  moreover have "compact_outside r = c # compact_outside cs" using assms(2,3) by (simp add: compact_outside_skip [of r])
  ultimately show ?thesis by simp
qed

lemma value_compact:
  assumes IH: "\<And>s'. length s' < length s \<Longrightarrow> compacts s' t" and t: "ends_value t"
    and j: "json_value d s = Some (j, r)" "closing r"
  shows "json_value d (compact_outside s @ t) = Some (j, compact_outside r @ t)"
proof -
  note v = json_value.simps [of d "compact_outside s @ t"]
  have sc: ?thesis if "take 1 (skip_ws s) \<noteq> ''{''" "take 1 (skip_ws s) \<noteq> ''[''"
    using value_scalar_compact [OF j t that] .
  show ?thesis using j(1)
  proof (cases rule: value_cases)
    case (object cs)
    then show ?thesis using compact_head [OF object(1), of t] compact_head [OF object(3), of t] by (simp add: v not_le [symmetric])
  next
    case (array cs)
    then show ?thesis using compact_head [OF array(1), of t] compact_head [OF array(3), of t] by (simp add: v not_le [symmetric])
  next
    case (members cs ms)
    have "json_members (d + 1) (compact_outside cs @ t) = Some (ms, compact_outside r @ t)"
      using IH [OF skip_ws_Cons_length [OF members(1)]] members(4) by (auto simp: compacts_def)
    moreover obtain ks where "skip_ws cs = CHR 0x22 # ks" using members(4) by (cases rule: members_cases) auto
    ultimately show ?thesis using members(2,5) compact_head [OF members(1), of t] compact_head [of cs "CHR 0x22" ks t]
      by (simp add: v not_le [symmetric])
  next
    case (elems cs es)
    have "json_elems (d + 1) (compact_outside cs @ t) = Some (es, compact_outside r @ t)"
      using IH [OF skip_ws_Cons_length [OF elems(1)]] elems(4) by (auto simp: compacts_def)
    moreover obtain c ks where "skip_ws cs = c # ks" using elems(4) by (cases rule: elems_cases) (use value_nonempty in blast)+
    ultimately show ?thesis using elems(2,3,5) compact_head [OF elems(1), of t] compact_head [of cs c ks t]
      by (simp add: v not_le [symmetric])
  qed (use sc in simp_all)
qed

lemma elems_compact:
  assumes IH: "\<And>s'. length s' < length s \<Longrightarrow> compacts s' t" and t: "ends_value t"
    and e: "json_elems d s = Some (es, r)"
  shows "json_elems d (compact_outside s @ t) = Some (es, compact_outside r @ t)"
  using e
proof (cases rule: elems_cases)
  case (last v r1)
  have "json_value d (compact_outside s @ t) = Some (v, compact_outside r1 @ t)"
    using value_compact [OF IH t last(1)] closing_delim [OF last(2)] by simp
  then show ?thesis using compact_head [OF last(2), of t] last(3) by (simp add: json_elems.simps [of d "compact_outside s @ t"])
next
  case (more v r1 cs es')
  have v: "json_value d (compact_outside s @ t) = Some (v, compact_outside r1 @ t)"
    using value_compact [OF IH t more(1)] closing_delim [OF more(2)] by simp
  moreover have "json_elems d (compact_outside cs @ t) = Some (es', compact_outside r @ t)"
    using IH [OF more(3)] more(4) by (auto simp: compacts_def)
  ultimately show ?thesis using compact_head [OF more(2), of t] more(5) compact_shorter [OF v more(2)]
    by (simp add: json_elems.simps [of d "compact_outside s @ t"])
qed


lemma members_compact:
  assumes IH: "\<And>s'. length s' < length s \<Longrightarrow> compacts s' t" and t: "ends_value t"
    and m: "json_members d s = Some (ms, r)"
  shows "json_members d (compact_outside s @ t) = Some (ms, compact_outside r @ t)"
proof -
  have member: "json_value d (compact_outside r2 @ t) = Some (v, compact_outside r3 @ t) \<and> length (compact_outside r3) < length (compact_outside s)"
    if "skip_ws s = CHR 0x22 # ks" "json_string_body ks = Some (k, r1)" "skip_ws r1 = CHR '':'' # r2"
       "json_value d r2 = Some (v, r3)" "closing r3" for k v ks r1 r2 r3
  proof -
    have "length r2 < length s" using that by (auto dest!: skip_ws_Cons_length json_string_body_length)
    then have v: "json_value d (compact_outside r2 @ t) = Some (v, compact_outside r3 @ t)"
      using IH that(4,5) by (auto simp: compacts_def)
    then have "length (compact_outside r3) < length (compact_outside r2)" using parse_shorter by fastforce
    moreover have "length (compact_outside r2) < length (compact_outside r1)"
      using that(3) by (simp add: compact_outside_skip [of r1])
    moreover have "length (compact_outside r1) < length (compact_string ks)"
      using json_string_body_length [OF string_body_compact [OF that(2), of "[]"]] by simp
    moreover have "length (compact_string ks) < length (compact_outside s)"
      using that(1) by (simp add: compact_outside_skip [of s])
    ultimately show ?thesis using v by simp
  qed
  show ?thesis using m
  proof (cases rule: members_cases)
    case (last k v ks r1 r2 r3)
    then show ?thesis
      using member [OF last(1-4)] closing_delim [OF last(5)] string_body_compact [OF last(2), of t]
        compact_head [OF last(1), of t] compact_head [OF last(3), of t] compact_head [OF last(5), of t]
      by (simp add: json_members.simps [of d "compact_outside s @ t"])
  next
    case (more k v ks r1 r2 r3 r4 ms')
    have "json_members d (compact_outside r4 @ t) = Some (ms', compact_outside r @ t)"
      using IH [OF more(6)] more(7) by (auto simp: compacts_def)
    moreover have "length (compact_outside r4) < length (compact_outside r3)" using more(5) by (simp add: compact_outside_skip [of r3])
    ultimately show ?thesis
      using member [OF more(1-4)] closing_delim [OF more(5)] string_body_compact [OF more(2), of t] more(8)
        compact_head [OF more(1), of t] compact_head [OF more(3), of t] compact_head [OF more(5), of t]
      by (simp add: json_members.simps [of d "compact_outside s @ t"])
  qed
qed

lemma compacts_all: "ends_value t \<Longrightarrow> compacts s t"
proof (induction s rule: length_induct)
  case (1 s)
  then have IH: "\<And>s'. length s' < length s \<Longrightarrow> compacts s' t" by blast
  show ?case unfolding compacts_def
    using value_compact [OF IH 1(2)] elems_compact [OF IH 1(2)] members_compact [OF IH 1(2)] by blast
qed

lemma syntax_value:
  assumes "json_syntax s = Some j" "ends_value t"
  shows "json_value 0 (compact_outside s @ t) = Some (j, t)"
proof -
  from assms(1) obtain r where r: "json_value 0 s = Some (j, r)" "skip_ws r = []"
    by (auto simp: json_syntax_def split: option.splits if_splits)
  moreover have "closing r" "compact_outside r = []" using r(2) by (simp_all add: closing_def compact_outside_skip [of r])
  ultimately show ?thesis using compacts_all [OF assms(2), of s] by (auto simp: compacts_def)
qed

lemma compact_syntax: "json_syntax s = Some j \<Longrightarrow> json_syntax (compact_outside s) = Some j"
  using syntax_value [of s j "[]"] by (simp add: ends_value_def starts_outside_def json_syntax_def skip_ws_def)

section \<open>Nesting\<close>

text \<open>A text that parses below some open brackets parses below fewer ones.\<close>

definition parses_deeper :: "string \<Rightarrow> bool" where
  "parses_deeper s \<longleftrightarrow>
     (\<forall>d d' x. json_value d s = Some x \<longrightarrow> d' \<le> d \<longrightarrow> json_value d' s = Some x) \<and>
     (\<forall>d d' x. json_elems d s = Some x \<longrightarrow> d' \<le> d \<longrightarrow> json_elems d' s = Some x) \<and>
     (\<forall>d d' x. json_members d s = Some x \<longrightarrow> d' \<le> d \<longrightarrow> json_members d' s = Some x)"

lemma deeperD:
  assumes "parses_deeper s"
  shows "json_value d s = Some x \<Longrightarrow> d' \<le> d \<Longrightarrow> json_value d' s = Some x"
    "json_elems d s = Some y \<Longrightarrow> d' \<le> d \<Longrightarrow> json_elems d' s = Some y"
    "json_members d s = Some z \<Longrightarrow> d' \<le> d \<Longrightarrow> json_members d' s = Some z"
  using assms unfolding parses_deeper_def by blast+

lemma value_deeper:
  assumes IH: "\<And>t. length t < length s \<Longrightarrow> parses_deeper t"
    and v: "json_value d s = Some (j, r)" "d' \<le> d"
  shows "json_value d' s = Some (j, r)"
  using v(1)
proof (cases rule: value_cases)
  case (members cs ms)
  then have "json_members (d' + 1) cs = Some (ms, r)"
    using deeperD(3) [OF IH [OF skip_ws_Cons_length [OF members(1)]] members(4)] v(2) by simp
  with members v(2) show ?thesis by (simp add: json_value.simps [of d' s])
next
  case (elems cs es)
  then have "json_elems (d' + 1) cs = Some (es, r)"
    using deeperD(2) [OF IH [OF skip_ws_Cons_length [OF elems(1)]] elems(4)] v(2) by simp
  with elems v(2) show ?thesis by (simp add: json_value.simps [of d' s])
qed (use v in \<open>auto simp: json_value.simps [of d s] json_value.simps [of d' s] split: list.splits if_splits\<close>)

lemma deeper_all: "parses_deeper s"
proof (induction s rule: length_induct)
  case (1 s)
  then have IH: "\<And>t. length t < length s \<Longrightarrow> parses_deeper t" by blast
  have v: "json_value d s = Some (j, r) \<Longrightarrow> d' \<le> d \<Longrightarrow> json_value d' s = Some (j, r)" for d d' j r
    using value_deeper [OF IH] .
  have e: "json_elems d' s = Some (es, r)" if "json_elems d s = Some (es, r)" "d' \<le> d" for d d' es r
    using that(1)
  proof (cases rule: elems_cases)
    case (more w r1 cs es')
    have "json_elems d' cs = Some (es', r)" by (rule deeperD(2) [OF IH [OF more(3)] more(4) that(2)])
    with more v [OF more(1) that(2)] show ?thesis by (simp add: json_elems.simps [of d' s])
  next
    case (last w r1)
    with v [OF last(1) that(2)] show ?thesis by (simp add: json_elems.simps [of d' s])
  qed
  have m: "json_members d' s = Some (ms, r)" if "json_members d s = Some (ms, r)" "d' \<le> d" for d d' ms r
    using that(1)
  proof (cases rule: members_cases)
    case (last k w ks r1 r2 r3)
    then have "length r2 < length s" by (auto dest!: skip_ws_Cons_length json_string_body_length)
    from deeperD(1) [OF IH [OF this] last(4) that(2)] have "json_value d' r2 = Some (w, r3)" .
    with last show ?thesis by (simp add: json_members.simps [of d' s])
  next
    case (more k w ks r1 r2 r3 r4 ms')
    then have "length r2 < length s" by (auto dest!: skip_ws_Cons_length json_string_body_length)
    from deeperD(1) [OF IH [OF this] more(4) that(2)] deeperD(3) [OF IH [OF more(6)] more(7) that(2)]
    have "json_value d' r2 = Some (w, r3)" "json_members d' r4 = Some (ms', r)" .
    with more show ?thesis by (simp add: json_members.simps [of d' s])
  qed
  have "json_value d s = Some x \<Longrightarrow> d' \<le> d \<Longrightarrow> json_value d' s = Some x" for d d' x using v by (cases x) blast
  moreover have "json_elems d s = Some x \<Longrightarrow> d' \<le> d \<Longrightarrow> json_elems d' s = Some x" for d d' x using e by (cases x) blast
  moreover have "json_members d s = Some x \<Longrightarrow> d' \<le> d \<Longrightarrow> json_members d' s = Some x" for d d' x using m by (cases x) blast
  ultimately show ?case unfolding parses_deeper_def by blast
qed

lemma value_at_less: "json_value d s = Some x \<Longrightarrow> d' \<le> d \<Longrightarrow> json_value d' s = Some x"
  by (rule deeperD(1) [OF deeper_all])


section \<open>Structs\<close>

text \<open>What \<^verbatim>\<open>json.Marshal\<close> writes for a struct or a slice, from the texts of its parts.\<close>

definition members_text :: "(string \<times> string) list \<Rightarrow> string" where
  "members_text ms = strings_Join (map (\<lambda>(k, v). json_quote k @ '':'' @ v) ms) '',''"

definition object_text :: "(string \<times> string) list \<Rightarrow> string" where
  "object_text ms = ''{'' @ members_text ms @ ''}''"

definition array_text :: "string list \<Rightarrow> string" where
  "array_text vs = ''['' @ strings_Join vs '','' @ '']''"

text \<open>The members of an object, each with the bytes of its value, as \<^verbatim>\<open>json.Unmarshal\<close> walks over them.\<close>

definition value_slice :: "nat \<Rightarrow> string \<Rightarrow> (string \<times> string) option" where
  "value_slice d s =
     (case json_value d (skip_ws s) of
        None \<Rightarrow> None
      | Some (j, r) \<Rightarrow> Some (take (length (skip_ws s) - length r) (skip_ws s), r))"

function member_slices :: "nat \<Rightarrow> string \<Rightarrow> ((string \<times> string) list \<times> string) option" where
  "member_slices d s =
     (case skip_ws s of
        [] \<Rightarrow> None
      | q # ks \<Rightarrow>
          if q \<noteq> CHR 0x22 then None
          else
            (case json_string_body ks of
               None \<Rightarrow> None
             | Some (k, r1) \<Rightarrow>
                 (case skip_ws r1 of
                    [] \<Rightarrow> None
                  | c1 # r2 \<Rightarrow>
                      if c1 \<noteq> CHR '':'' then None
                      else
                        (case value_slice d r2 of
                           None \<Rightarrow> None
                         | Some (v, r3) \<Rightarrow>
                             (case skip_ws r3 of
                                [] \<Rightarrow> None
                              | c2 # r4 \<Rightarrow>
                                  if c2 = CHR ''}'' then Some ([(k, v)], r4)
                                  else if c2 = CHR '','' \<and> length r4 < length s
                                  then map_option (\<lambda>(ms, r'). ((k, v) # ms, r')) (member_slices d r4)
                                  else None)))))"
  by pat_completeness auto
termination by (relation "measure (\<lambda>(d, s). length s)") auto

function elem_slices :: "nat \<Rightarrow> string \<Rightarrow> (string list \<times> string) option" where
  "elem_slices d s =
     (case value_slice d s of
        None \<Rightarrow> None
      | Some (v, r) \<Rightarrow>
          (case skip_ws r of
             [] \<Rightarrow> None
           | c # cs \<Rightarrow>
               if c = CHR '']'' then Some ([v], cs)
               else if c = CHR '','' \<and> length cs < length s
               then map_option (\<lambda>(es, r'). (v # es, r')) (elem_slices d cs)
               else None))"
  by pat_completeness auto
termination by (relation "measure (\<lambda>(d, s). length s)") auto

declare member_slices.simps [simp del] elem_slices.simps [simp del]

definition object_slices :: "nat \<Rightarrow> string \<Rightarrow> (string \<times> string) list option" where
  "object_slices d s =
     (case skip_ws s of
        c # cs \<Rightarrow>
          if c \<noteq> CHR ''{'' then None
          else if take 1 (skip_ws cs) = ''}'' then Some []
          else map_option fst (member_slices (d + 1) cs)
      | [] \<Rightarrow> None)"

definition array_slices :: "nat \<Rightarrow> string \<Rightarrow> string list option" where
  "array_slices d s =
     (case skip_ws s of
        c # cs \<Rightarrow>
          if c \<noteq> CHR ''['' then None
          else if take 1 (skip_ws cs) = '']'' then Some []
          else map_option fst (elem_slices (d + 1) cs)
      | [] \<Rightarrow> None)"

text \<open>A text that is read as one value at a depth, up to the delimiter that follows it.\<close>

definition value_text :: "nat \<Rightarrow> string \<Rightarrow> bool" where
  "value_text d v \<longleftrightarrow> v \<noteq> [] \<and> \<not> is_ws (hd v) \<and> (\<forall>t. ends_value t \<longrightarrow> (\<exists>j. json_value d (v @ t) = Some (j, t)))"

lemma value_text_skip: "value_text d v \<Longrightarrow> skip_ws (v @ t) = v @ t"
  by (cases v) (auto simp: value_text_def skip_ws_Cons)

lemma value_text_slice: "value_text d v \<Longrightarrow> ends_value t \<Longrightarrow> value_slice d (v @ t) = Some (v, t)"
  using value_text_skip [of d v t] by (auto simp: value_text_def value_slice_def)

lemma value_text_read: "value_text d v \<Longrightarrow> ends_value t \<Longrightarrow> \<exists>j. json_value d (v @ t) = Some (j, t)"
  by (simp add: value_text_def)

lemma ends_value_Cons [simp]: "ends_value (c # t) \<longleftrightarrow> delimiter c"
  by (simp add: ends_value_def starts_outside_def)

lemma ends_value_Nil [simp]: "ends_value []"
  by (simp add: ends_value_def starts_outside_def)

lemma not_ws [simp]: "\<not> is_ws CHR 0x22" "\<not> is_ws CHR '':''" "\<not> is_ws CHR '',''" "\<not> is_ws CHR ''}''" "\<not> is_ws CHR '']''"
  "\<not> is_ws CHR ''{''" "\<not> is_ws CHR ''[''"
  by (simp_all add: is_ws_def)

lemma member_text_shape:
  "json_quote k @ '':'' @ v = CHR 0x22 # json_escape k @ [CHR 0x22] @ CHR '':'' # v"
  by (simp add: json_quote_def)

lemma members_text_parse:
  assumes "ms \<noteq> []" "\<And>k v. (k, v) \<in> set ms \<Longrightarrow> value_text d v"
  shows "member_slices d (members_text ms @ CHR ''}'' # t) = Some (map (\<lambda>(k, v). (valid_utf8_text k, v)) ms, t) \<and>
    (\<exists>js. json_members d (members_text ms @ CHR ''}'' # t) = Some (js, t))"
  using assms
proof (induction ms rule: list_nonempty_induct)
  case (single m)
  obtain k v where m: "m = (k, v)" by force
  have v: "value_text d v" using single m by simp
  from value_text_read [OF v, of "CHR ''}'' # t"] obtain j where j: "json_value d (v @ CHR ''}'' # t) = Some (j, CHR ''}'' # t)" by auto
  let ?s = "members_text [m] @ CHR ''}'' # t"
  have s: "?s = CHR 0x22 # json_escape k @ [CHR 0x22] @ CHR '':'' # v @ CHR ''}'' # t"
    by (simp add: members_text_def m json_quote_def)
  have "member_slices d ?s = Some (map (\<lambda>(k, v). (valid_utf8_text k, v)) [m], t)"
    unfolding member_slices.simps [of d ?s] unfolding s
    using string_body_escape [of k "CHR '':'' # v @ CHR ''}'' # t"] value_text_slice [OF v, of "CHR ''}'' # t"]
    by (simp add: skip_ws_Cons m)
  moreover have "json_members d ?s = Some ([(valid_utf8_text k, j)], t)"
    unfolding json_members.simps [of d ?s] unfolding s
    using string_body_escape [of k "CHR '':'' # v @ CHR ''}'' # t"] j
    by (simp add: skip_ws_Cons)
  ultimately show ?case by blast
next
  case (cons m ms)
  obtain k v where m: "m = (k, v)" by force
  have v: "value_text d v" using cons.prems m by auto
  from value_text_read [OF v, of "CHR '','' # members_text ms @ CHR ''}'' # t"] obtain j where j: "json_value d (v @ CHR '','' # members_text ms @ CHR ''}'' # t) = Some (j, CHR '','' # members_text ms @ CHR ''}'' # t)" by auto
  let ?s = "members_text (m # ms) @ CHR ''}'' # t" and ?r = "members_text ms @ CHR ''}'' # t"
  have s: "?s = CHR 0x22 # json_escape k @ [CHR 0x22] @ CHR '':'' # v @ CHR '','' # ?r"
    using cons.hyps by (cases ms) (auto simp: members_text_def m json_quote_def)
  have IH: "member_slices d ?r = Some (map (\<lambda>(k, v). (valid_utf8_text k, v)) ms, t)"
    "\<exists>js. json_members d ?r = Some (js, t)" using cons.IH cons.prems by auto
  have len: "length ?r < length ?s" unfolding s by simp
  have "member_slices d ?s = Some (map (\<lambda>(k, v). (valid_utf8_text k, v)) (m # ms), t)"
    unfolding member_slices.simps [of d ?s] using len unfolding s
    using string_body_escape [of k "CHR '':'' # v @ CHR '','' # ?r"] value_text_slice [OF v, of "CHR '','' # ?r"] IH(1)
    by (simp add: skip_ws_Cons m)
  moreover have "\<exists>js. json_members d ?s = Some (js, t)"
    unfolding json_members.simps [of d ?s] using len unfolding s
    using string_body_escape [of k "CHR '':'' # v @ CHR '','' # ?r"] j IH(2)
    by (auto simp: skip_ws_Cons)
  ultimately show ?case by blast
qed


lemma elems_text_parse:
  assumes "vs \<noteq> []" "\<And>v. v \<in> set vs \<Longrightarrow> value_text d v"
  shows "elem_slices d (strings_Join vs '','' @ CHR '']'' # t) = Some (vs, t) \<and>
    (\<exists>js. json_elems d (strings_Join vs '','' @ CHR '']'' # t) = Some (js, t))"
  using assms
proof (induction vs rule: list_nonempty_induct)
  case (single v)
  from value_text_read [OF single [of v, simplified], of "CHR '']'' # t"] obtain j where j: "json_value d (v @ CHR '']'' # t) = Some (j, CHR '']'' # t)" by auto
  then show ?case using value_text_slice [of d v "CHR '']'' # t"] single
    by (simp add: elem_slices.simps [of d "v @ _"] json_elems.simps [of d "v @ _"] skip_ws_Cons)
next
  case (cons v vs)
  have v: "value_text d v" using cons.prems by simp
  from value_text_read [OF v, of "CHR '','' # strings_Join vs '','' @ CHR '']'' # t"] obtain j where j: "json_value d (v @ CHR '','' # strings_Join vs '','' @ CHR '']'' # t) = Some (j, CHR '','' # strings_Join vs '','' @ CHR '']'' # t)" by auto
  let ?r = "strings_Join vs '','' @ CHR '']'' # t"
  have s: "strings_Join (v # vs) '','' @ CHR '']'' # t = v @ CHR '','' # ?r" using cons.hyps by (cases vs) auto
  have IH: "elem_slices d ?r = Some (vs, t)" "\<exists>js. json_elems d ?r = Some (js, t)" using cons.IH cons.prems by auto
  show ?case unfolding s elem_slices.simps [of d "v @ CHR '','' # ?r"] json_elems.simps [of d "v @ CHR '','' # ?r"]
    using value_text_slice [OF v, of "CHR '','' # ?r"] j IH by (auto simp: skip_ws_Cons)
qed

lemma members_text_start: "ms \<noteq> [] \<Longrightarrow> \<exists>x. members_text ms = CHR 0x22 # x"
  by (cases ms; cases "tl ms") (auto simp: members_text_def json_quote_def)

lemma object_slices_append:
  assumes "\<And>k v. (k, v) \<in> set ms \<Longrightarrow> value_text (d + 1) v"
  shows "object_slices d (object_text ms @ r) = Some (map (\<lambda>(k, v). (valid_utf8_text k, v)) ms)"
proof (cases "ms = []")
  case True
  then show ?thesis by (simp add: object_slices_def object_text_def members_text_def skip_ws_Cons)
next
  case False
  with members_text_start obtain x where "members_text ms = CHR 0x22 # x" by blast
  with members_text_parse [OF False, of "d + 1" r] assms show ?thesis
    by (simp add: object_slices_def object_text_def skip_ws_Cons)
qed

lemma object_text_slices:
  assumes "\<And>k v. (k, v) \<in> set ms \<Longrightarrow> value_text (d + 1) v"
  shows "object_slices d (object_text ms) = Some (map (\<lambda>(k, v). (valid_utf8_text k, v)) ms)"
  using object_slices_append [of ms d "[]"] assms by simp

lemma object_text_read:
  assumes "\<And>k v. (k, v) \<in> set ms \<Longrightarrow> value_text (d + 1) v" "d < max_nesting_depth"
  shows "\<exists>js. json_value d (object_text ms @ t) = Some (JObj js, t)"
proof (cases "ms = []")
  case True
  with assms(2) show ?thesis by (simp add: json_value.simps [of d "_ # _"] object_text_def members_text_def skip_ws_Cons)
next
  case False
  with members_text_start obtain x where x: "members_text ms = CHR 0x22 # x" by blast
  from members_text_parse [OF False, of "d + 1" t] assms(1) obtain js
    where "json_members (d + 1) (members_text ms @ CHR ''}'' # t) = Some (js, t)" by blast
  with x assms(2) show ?thesis by (simp add: json_value.simps [of d "_ # _"] object_text_def skip_ws_Cons)
qed

lemma object_text_value:
  assumes "\<And>k v. (k, v) \<in> set ms \<Longrightarrow> value_text (d + 1) v" "d < max_nesting_depth"
  shows "value_text d (object_text ms)"
proof -
  have "\<exists>j. json_value d (object_text ms @ t) = Some (j, t)" for t
    using object_text_read [of ms d t] assms by blast
  then show ?thesis by (simp add: value_text_def object_text_def)
qed

lemma value_not_bracket: "json_value d (CHR '']'' # x) = None"
  by (simp add: json_value.simps [of d "CHR '']'' # x"] skip_ws_Cons json_keyword_def json_number_def json_int_part_def
      is_digit_def byte_in_def)

lemma elems_text_start:
  assumes "vs \<noteq> []" "\<And>v. v \<in> set vs \<Longrightarrow> value_text d v"
  shows "\<exists>c x. strings_Join vs '','' = c # x \<and> \<not> is_ws c \<and> c \<noteq> CHR '']''"
proof -
  obtain v vs' where vs: "vs = v # vs'" using assms(1) by (cases vs) auto
  have v: "value_text d v" using assms(2) vs by simp
  then obtain c x where c: "v = c # x" "\<not> is_ws c" by (cases v) (auto simp: value_text_def)
  from value_text_read [OF v, of "[]"] obtain j where "json_value d v = Some (j, [])" by auto
  then have "c \<noteq> CHR '']''" using c(1) value_not_bracket by auto
  then show ?thesis using vs c by (cases vs') auto
qed

lemma array_text_slices:
  assumes "\<And>v. v \<in> set vs \<Longrightarrow> value_text (d + 1) v"
  shows "array_slices d (array_text vs) = Some vs"
proof (cases "vs = []")
  case True
  then show ?thesis by (simp add: array_slices_def array_text_def skip_ws_Cons)
next
  case False
  with elems_text_start assms obtain c x where "strings_Join vs '','' = c # x" "\<not> is_ws c" "c \<noteq> CHR '']''" by metis
  with elems_text_parse [OF False, of "d + 1" "[]"] assms show ?thesis
    by (simp add: array_slices_def array_text_def skip_ws_Cons)
qed

lemma array_text_value:
  assumes "\<And>v. v \<in> set vs \<Longrightarrow> value_text (d + 1) v" "d < max_nesting_depth"
  shows "value_text d (array_text vs)"
proof -
  have "\<exists>j. json_value d (array_text vs @ t) = Some (j, t)" for t
  proof (cases "vs = []")
    case True
    with assms(2) show ?thesis by (simp add: json_value.simps [of d "_ # _"] array_text_def skip_ws_Cons)
  next
    case False
    with elems_text_start assms(1) obtain c x where x: "strings_Join vs '','' = c # x" "\<not> is_ws c" "c \<noteq> CHR '']''" by metis
    from elems_text_parse [OF False, of "d + 1" t] assms(1) obtain js
      where "json_elems (d + 1) (strings_Join vs '','' @ CHR '']'' # t) = Some (js, t)" by blast
    with x assms(2) show ?thesis by (simp add: json_value.simps [of d "_ # _"] array_text_def skip_ws_Cons)
  qed
  then show ?thesis by (simp add: value_text_def array_text_def)
qed

lemma json_quote_text: "value_text d (json_quote s)"
proof -
  have "json_value d (json_quote s @ t) = Some (JStr (valid_utf8_text s), t)" for t
    using string_body_escape [of s t] by (simp add: json_value.simps [of d "_ # _"] json_quote_def skip_ws_Cons)
  then show ?thesis by (simp add: value_text_def json_quote_def)
qed

lemma keyword_text: "value_text d ''true''" "value_text d ''false''" "value_text d ''null''"
  by (simp_all add: value_text_def json_value.simps [of d "_ # _"] skip_ws_Cons is_ws_def json_keyword_def json_keyword_length_def)

lemma compact_text:
  assumes "json_value d s = Some (j, r)" "skip_ws r = []"
  shows "value_text d (compact_outside s)"
proof -
  from value_nonempty [OF assms(1)] obtain c cs where c: "skip_ws s = c # cs" by blast
  have "closing r" "compact_outside r = []" using assms(2) by (simp_all add: closing_def compact_outside_skip [of r])
  then have "json_value d (compact_outside s @ t) = Some (j, t)" if "ends_value t" for t
    using compacts_all [OF that, of s] assms(1) by (auto simp: compacts_def)
  then show ?thesis using skip_ws_hd [OF c] c by (auto simp: value_text_def compact_outside_skip [of s])
qed

lemma value_text_syntax: "value_text 0 v \<Longrightarrow> json_syntax v \<noteq> None"
  using value_text_read [of 0 v "[]"] by (auto simp: json_syntax_def skip_ws_def)

end
