(* ===== verification/Api_V1alpha1.thy ===== *)
theory Api_V1alpha1
  imports Api_Types
begin

text \<open>
  The version v1alpha1 of the API: the types of templates of the packages
  \<^verbatim>\<open>api/core/v1alpha1\<close> and \<^verbatim>\<open>api/core/subresourcesv1alpha1\<close>, next to those of v1beta1 in \<open>Api_Types\<close>.  The two versions declare the same
  fields, as different Go types; nothing but the conversions of \<open>Conversion\<close> goes from one to the other.
\<close>

section \<open>Templates\<close>

record Parameter_v1alpha1 =
  ap_Name :: string
  ap_DisplayName :: string
  ap_Description :: string
  ap_Value :: string
  ap_Generate :: string
  ap_From :: string
  ap_Required :: bool

record 'o VirtualMachineTemplateSpec_v1alpha1 =
  as_VirtualMachine :: "'o RawExtension option"
  as_Parameters :: "Parameter_v1alpha1 list"
  as_Message :: string

record VirtualMachineTemplateStatus_v1alpha1 =
  au_Conditions :: "Condition list"

record 'o VirtualMachineTemplate_v1alpha1 =
  at_TypeMeta :: TypeMeta
  at_Meta :: ObjectMeta
  at_Spec :: "'o VirtualMachineTemplateSpec_v1alpha1"
  at_Status :: VirtualMachineTemplateStatus_v1alpha1

section \<open>Subresources\<close>

text \<open>What the subresources of \<^verbatim>\<open>api/core/subresourcesv1alpha1\<close> return, and their parent resource.\<close>

record SubresourceTemplate_v1alpha1 =
  ar_TypeMeta :: TypeMeta
  ar_Meta :: ObjectMeta

record 'v ProcessedVirtualMachineTemplate_v1alpha1 =
  apt_TypeMeta :: TypeMeta
  apt_Meta :: ObjectMeta
  apt_TemplateRef :: "ObjectReference option"
  apt_VirtualMachine :: "'v option"
  apt_Message :: string

end
