(* ===== verification/Conversion.thy ===== *)
theory Conversion
  imports Json_Documents Api_V1alpha1 "HOL-Library.Monad_Syntax"
begin

text \<open>
  The conversions between the versions of the API, which marshal an object of one version to JSON and
  unmarshal the text into the other: \<^verbatim>\<open>convertToV1Beta1\<close> of the v1alpha1 webhook and
  \<^verbatim>\<open>convertProcessedToV1alpha1\<close> of the v1alpha1 subresources.

  Marshalling builds the text of a struct from the texts of its fields in the order of the Go struct,
  with the \<^verbatim>\<open>omitempty\<close> and \<^verbatim>\<open>omitzero\<close> options of the field tags; unmarshalling reads the bytes of every
  member back.  The encodings of the types of \<^verbatim>\<open>apimachinery\<close> and \<^verbatim>\<open>kubevirt.io/api\<close> (metadata,
  conditions, objects in memory, VirtualMachines) are parameters.  A nil \<^verbatim>\<open>Raw\<close> is the empty string.
\<close>

section \<open>Reading fields\<close>

text \<open>
  The value of a field after \<^verbatim>\<open>json.Unmarshal\<close>: the zero value when the member is missing or null, and
  \<^term>\<open>None\<close> when the value has another type.
\<close>

definition member :: "(string \<times> string) list \<Rightarrow> string \<Rightarrow> string option" where
  "member ms k = (case map_of (rev ms) k of Some v \<Rightarrow> if v = ''null'' then None else Some v | None \<Rightarrow> None)"

definition read_string :: "string \<Rightarrow> string option" where
  "read_string v = (case json_syntax v of Some (JStr s) \<Rightarrow> Some s | _ \<Rightarrow> None)"

definition read_bool :: "string \<Rightarrow> bool option" where
  "read_bool v = (case json_syntax v of Some (JBool b) \<Rightarrow> Some b | _ \<Rightarrow> None)"

definition field :: "(string \<Rightarrow> 'a option) \<Rightarrow> 'a \<Rightarrow> (string \<times> string) list \<Rightarrow> string \<Rightarrow> 'a option" where
  "field read zero ms k = (case member ms k of None \<Rightarrow> Some zero | Some v \<Rightarrow> read v)"

definition read_list :: "nat \<Rightarrow> (string \<Rightarrow> 'a option) \<Rightarrow> string \<Rightarrow> 'a list option" where
  "read_list d read v = (case array_slices d v of None \<Rightarrow> None | Some vs \<Rightarrow> those (map read vs))"

text \<open>A member that is left out when its value is the zero value.\<close>

definition omitempty :: "('a \<Rightarrow> string) \<Rightarrow> 'a \<Rightarrow> string \<Rightarrow> 'a \<Rightarrow> (string \<times> string) list" where
  "omitempty enc zero k x = (if x = zero then [] else [(k, enc x)])"

definition bool_text :: "bool \<Rightarrow> string" where
  "bool_text b = (if b then ''true'' else ''false'')"

definition list_text :: "('a \<Rightarrow> string) \<Rightarrow> 'a list \<Rightarrow> string" where
  "list_text enc xs = array_text (map enc xs)"

section \<open>Codecs\<close>

text \<open>
  What the encoding of a type promises, at a nesting depth: the text of a value is one JSON value, and
  reading it gives the value back up to a normal form.
\<close>

locale codec =
  fixes d :: nat and ok :: "'a \<Rightarrow> bool" and enc :: "'a \<Rightarrow> string" and dec :: "string \<Rightarrow> 'b option" and norm :: "'a \<Rightarrow> 'b"
  assumes enc_value: "ok x \<Longrightarrow> value_text d (enc x)"
    and dec_enc: "ok x \<Longrightarrow> dec (enc x) = Some (norm x)"
    and enc_not_null: "ok x \<Longrightarrow> enc x \<noteq> ''null''"
begin

lemma list_value: "d = Suc n \<Longrightarrow> n < max_nesting_depth \<Longrightarrow> list_all ok xs \<Longrightarrow> value_text n (list_text enc xs)"
  using enc_value by (auto simp: list_text_def list_all_iff intro!: array_text_value)

lemma list_read: "d = Suc n \<Longrightarrow> list_all ok xs \<Longrightarrow> read_list n dec (list_text enc xs) = Some (map norm xs)"
proof -
  assume d: "d = Suc n" and xs: "list_all ok xs"
  have "array_slices n (list_text enc xs) = Some (map enc xs)"
    using enc_value d xs by (auto simp: list_text_def list_all_iff intro!: array_text_slices)
  moreover have "those (map (dec \<circ> enc) xs) = Some (map norm xs)" using xs by (induction xs) (simp_all add: dec_enc)
  ultimately show ?thesis by (simp add: read_list_def)
qed

lemma field_first: "k \<notin> fst ` set ms \<Longrightarrow> ok x \<Longrightarrow> field dec zero' ((k, enc x) # ms) k = Some (norm x)"
proof -
  assume "k \<notin> fst ` set ms" "ok x"
  then have "map_of (rev ms) k = None" by (simp add: map_of_eq_None_iff)
  then show ?thesis using dec_enc enc_not_null \<open>ok x\<close> by (simp add: field_def member_def map_add_def)
qed

lemma field_here:
  "k \<notin> fst ` set ms \<Longrightarrow> zero' = norm zero \<Longrightarrow> x = zero \<or> ok x \<Longrightarrow>
   field dec zero' (omitempty enc zero k x @ ms) k = Some (norm x)"
proof -
  assume k: "k \<notin> fst ` set ms" and z: "zero' = norm zero" and x: "x = zero \<or> ok x"
  from k have "map_of (rev ms) k = None" by (simp add: map_of_eq_None_iff)
  then show ?thesis using field_first [OF k, of x zero'] z x by (auto simp: omitempty_def field_def member_def)
qed

lemma field_last:
  "zero' = norm zero \<Longrightarrow> x = zero \<or> ok x \<Longrightarrow> field dec zero' (omitempty enc zero k x) k = Some (norm x)"
  using field_here [of k "[]"] by simp

lemma member_values: "(k, v) \<in> set (omitempty enc zero k' x) \<Longrightarrow> x = zero \<or> ok x \<Longrightarrow> value_text d v"
  using enc_value by (auto simp: omitempty_def split: if_splits)

end

lemma field_later:
  "k \<noteq> k' \<Longrightarrow> field dec zero (omitempty enc zero' k' x @ ms) k = field dec zero ms k"
  "k \<noteq> k' \<Longrightarrow> field dec zero ((k', v) # ms) k = field dec zero ms k"
  "k \<noteq> k' \<Longrightarrow> field dec zero (omitempty enc zero' k' x) k = Some zero"
  by (auto simp: field_def member_def omitempty_def map_add_def split: option.splits)

lemma omitempty_keys [simp]: "k \<in> fst ` set (omitempty enc zero k' x) \<longleftrightarrow> k = k' \<and> x \<noteq> zero"
  by (auto simp: omitempty_def)

lemma quote_syntax: "json_syntax (json_quote s) = Some (JStr (valid_utf8_text s))"
proof -
  have "json_value 0 (json_quote s @ []) = Some (JStr (valid_utf8_text s), [])"
    using string_body_escape [of s "[]"] by (simp add: json_value.simps [of 0 "_ # _"] json_quote_def skip_ws_Cons)
  then show ?thesis by (simp add: json_syntax_def skip_ws_def)
qed

lemma bool_syntax: "json_syntax (bool_text b) = Some (JBool b)"
  by (simp add: json_syntax_def json_value.simps [of 0 "_ # _"] bool_text_def skip_ws_def is_ws_def json_keyword_def
      json_keyword_length_def)

text \<open>Strings and booleans, at every depth.\<close>

interpretation str: codec d "\<lambda>s. True" json_quote read_string valid_utf8_text for d
  by unfold_locales (simp_all add: json_quote_text read_string_def quote_syntax, simp add: json_quote_def)

interpretation bool: codec d "\<lambda>b. True" bool_text read_bool "\<lambda>b. b" for d
  by unfold_locales (simp_all add: bool_text_def keyword_text read_bool_def bool_syntax [unfolded bool_text_def])

abbreviation string_field :: "(string \<times> string) list \<Rightarrow> string \<Rightarrow> string option" where
  "string_field \<equiv> field read_string []"

abbreviation bool_field :: "(string \<times> string) list \<Rightarrow> string \<Rightarrow> bool option" where
  "bool_field \<equiv> field read_bool False"

section \<open>Parameters\<close>

definition marshalParameter :: "Parameter_v1alpha1 \<Rightarrow> string" where
  "marshalParameter p = object_text ((''name'', json_quote (ap_Name p))
     # omitempty json_quote [] ''displayName'' (ap_DisplayName p)
     @ omitempty json_quote [] ''description'' (ap_Description p)
     @ omitempty json_quote [] ''value'' (ap_Value p)
     @ omitempty json_quote [] ''generate'' (ap_Generate p)
     @ omitempty json_quote [] ''from'' (ap_From p)
     @ omitempty bool_text False ''required'' (ap_Required p))"

definition unmarshalParameter :: "string \<Rightarrow> Parameter option" where
  "unmarshalParameter v = (do {
     ms \<leftarrow> object_slices 3 v;
     name \<leftarrow> string_field ms ''name'';
     displayName \<leftarrow> string_field ms ''displayName'';
     description \<leftarrow> string_field ms ''description'';
     val \<leftarrow> string_field ms ''value'';
     gen \<leftarrow> string_field ms ''generate'';
     src \<leftarrow> string_field ms ''from'';
     required \<leftarrow> bool_field ms ''required'';
     Some \<lparr>p_Name = name, p_DisplayName = displayName, p_Description = description, p_Value = val,
       p_Generate = gen, p_From = src, p_Required = required\<rparr>})"


definition parameter_v1beta1 :: "Parameter_v1alpha1 \<Rightarrow> Parameter" where
  "parameter_v1beta1 p = \<lparr>p_Name = valid_utf8_text (ap_Name p), p_DisplayName = valid_utf8_text (ap_DisplayName p),
     p_Description = valid_utf8_text (ap_Description p), p_Value = valid_utf8_text (ap_Value p),
     p_Generate = valid_utf8_text (ap_Generate p), p_From = valid_utf8_text (ap_From p), p_Required = ap_Required p\<rparr>"

lemma ascii_text: "list_all (\<lambda>c. code c < 128) s \<Longrightarrow> valid_utf8_text s = s"
  by (induction s) auto

lemma omitempty_utf8:
  "list_all (\<lambda>c. code c < 128) k \<Longrightarrow> map (\<lambda>(k, v). (valid_utf8_text k, v)) (omitempty enc zero k x) = omitempty enc zero k x"
  by (simp add: omitempty_def ascii_text)

lemmas field_simps = image_Un field_later str.field_here str.field_first str.field_last bool.field_last bool.field_here
lemmas keys_ascii = ascii_text omitempty_utf8

lemma parameter_members:
  "(k, v) \<in> set ((''name'', json_quote (ap_Name p))
     # omitempty json_quote [] ''displayName'' (ap_DisplayName p)
     @ omitempty json_quote [] ''description'' (ap_Description p)
     @ omitempty json_quote [] ''value'' (ap_Value p)
     @ omitempty json_quote [] ''generate'' (ap_Generate p)
     @ omitempty json_quote [] ''from'' (ap_From p)
     @ omitempty bool_text False ''required'' (ap_Required p)) \<Longrightarrow> value_text d v"
  by (auto simp: json_quote_text dest: str.member_values bool.member_values)

interpretation parameter: codec 3 "\<lambda>p. True" marshalParameter unmarshalParameter parameter_v1beta1
proof
  fix p
  show "value_text 3 (marshalParameter p)"
    unfolding marshalParameter_def by (rule object_text_value) (erule parameter_members, simp add: max_nesting_depth_def)
  show "unmarshalParameter (marshalParameter p) = Some (parameter_v1beta1 p)"
    unfolding unmarshalParameter_def marshalParameter_def
    by (subst object_text_slices, erule parameter_members)
       (simp add: keys_ascii field_simps parameter_v1beta1_def)
  show "marshalParameter p \<noteq> ''null''" by (simp add: marshalParameter_def object_text_def)
qed


section \<open>Templates\<close>

record 'o encodings =
  en_Meta :: "ObjectMeta \<Rightarrow> string"
  en_readMeta :: "string \<Rightarrow> ObjectMeta option"
  en_Conditions :: "Condition list \<Rightarrow> string"
  en_readConditions :: "string \<Rightarrow> Condition list option"
  en_Object :: "'o \<Rightarrow> string option"
  en_Cbor :: "string \<Rightarrow> string option"

definition json_content :: "string \<Rightarrow> bool" where
  "json_content raw \<longleftrightarrow> raw \<noteq> [] \<and>
     (is_ws (hd raw) \<or> hd raw \<in> {CHR ''{'', CHR ''['', CHR ''n'', CHR ''t'', CHR ''f'', CHR 0x22, CHR ''-''} \<or> is_digit (hd raw))"

definition cborSelfDescribed :: string where
  "cborSelfDescribed = [CHR 0xD9, CHR 0xD9, CHR 0xF7]"

definition marshalRawExtension :: "'o encodings \<Rightarrow> 'o RawExtension \<Rightarrow> string option" where
  "marshalRawExtension en re =
     (if re_Raw re = [] then (case re_Object re of Some obj \<Rightarrow> en_Object en obj | None \<Rightarrow> Some ''null'')
      else if HasPrefix (re_Raw re) cborSelfDescribed then en_Cbor en (re_Raw re)
      else if json_content (re_Raw re) then Some (re_Raw re)
      else None)"

definition marshalVirtualMachine :: "'o encodings \<Rightarrow> 'o RawExtension option \<Rightarrow> string option" where
  "marshalVirtualMachine en vm =
     (case vm of None \<Rightarrow> Some ''null'' | Some re \<Rightarrow> Option.bind (marshalRawExtension en re) json_compact)"

definition marshalSpec :: "'o encodings \<Rightarrow> 'o VirtualMachineTemplateSpec_v1alpha1 \<Rightarrow> string option" where
  "marshalSpec en spec = (do {
     vm \<leftarrow> marshalVirtualMachine en (as_VirtualMachine spec);
     Some (object_text ((''virtualMachine'', vm)
       # omitempty (list_text marshalParameter) [] ''parameters'' (as_Parameters spec)
       @ omitempty json_quote [] ''message'' (as_Message spec)))})"

definition marshalStatus :: "'o encodings \<Rightarrow> VirtualMachineTemplateStatus_v1alpha1 \<Rightarrow> string" where
  "marshalStatus en st = object_text (omitempty (en_Conditions en) [] ''conditions'' (au_Conditions st))"

definition marshalTemplate :: "'o encodings \<Rightarrow> 'o VirtualMachineTemplate_v1alpha1 \<Rightarrow> string option" where
  "marshalTemplate en tpl = (do {
     spec \<leftarrow> marshalSpec en (at_Spec tpl);
     Some (object_text (omitempty json_quote [] ''kind'' (tm_Kind (at_TypeMeta tpl))
       @ omitempty json_quote [] ''apiVersion'' (tm_APIVersion (at_TypeMeta tpl))
       @ omitempty (en_Meta en) empty_meta ''metadata'' (at_Meta tpl)
       @ (''spec'', spec)
       # omitempty (marshalStatus en) \<lparr>au_Conditions = []\<rparr> ''status'' (at_Status tpl)))})"

definition unmarshalSpec :: "string \<Rightarrow> 'o VirtualMachineTemplateSpec option" where
  "unmarshalSpec v = (do {
     ms \<leftarrow> object_slices 1 v;
     parameters \<leftarrow> field (read_list 2 unmarshalParameter) [] ms ''parameters'';
     message \<leftarrow> string_field ms ''message'';
     Some \<lparr>ts_VirtualMachine = map_option (\<lambda>t. \<lparr>re_Raw = t, re_Object = None\<rparr>) (member ms ''virtualMachine''),
       ts_Parameters = parameters, ts_Message = message\<rparr>})"

definition unmarshalStatus :: "'o encodings \<Rightarrow> string \<Rightarrow> Condition list option" where
  "unmarshalStatus en v = (do {
     ms \<leftarrow> object_slices 1 v;
     field (en_readConditions en) [] ms ''conditions''})"

definition unmarshalTemplate :: "'o encodings \<Rightarrow> string \<Rightarrow> 'o VirtualMachineTemplate option" where
  "unmarshalTemplate en data =
     (if json_syntax data = None then None
      else do {
        ms \<leftarrow> object_slices 0 data;
        kind \<leftarrow> string_field ms ''kind'';
        apiVersion \<leftarrow> string_field ms ''apiVersion'';
        meta \<leftarrow> field (en_readMeta en) empty_meta ms ''metadata'';
        spec \<leftarrow> field unmarshalSpec \<lparr>ts_VirtualMachine = None, ts_Parameters = [], ts_Message = []\<rparr> ms ''spec'';
        conditions \<leftarrow> field (unmarshalStatus en) [] ms ''status'';
        Some \<lparr>t_TypeMeta = \<lparr>tm_Kind = kind, tm_APIVersion = apiVersion\<rparr>, t_Meta = meta, t_Spec = spec,
          t_Conditions = conditions\<rparr>})"

datatype conversion_error = MarshalFailed | UnmarshalFailed

definition convertToV1Beta1 ::
  "'o encodings \<Rightarrow> 'o VirtualMachineTemplate_v1alpha1 \<Rightarrow> conversion_error + 'o VirtualMachineTemplate" where
  "convertToV1Beta1 en tpl =
     (case marshalTemplate en tpl of
        None \<Rightarrow> Inl MarshalFailed
      | Some data \<Rightarrow>
          (case unmarshalTemplate en data of
             None \<Rightarrow> Inl UnmarshalFailed
           | Some out \<Rightarrow>
               Inr (out\<lparr>t_TypeMeta := (t_TypeMeta out)\<lparr>tm_APIVersion := GroupVersion_String coreV1beta1\<rparr>\<rparr>)))"


section \<open>Processed templates\<close>

text \<open>The encodings of the metadata and of VirtualMachines.\<close>

record 'v vm_encodings =
  ve_Meta :: "ObjectMeta \<Rightarrow> string"
  ve_readMeta :: "string \<Rightarrow> ObjectMeta option"
  ve_VM :: "'v \<Rightarrow> string option"
  ve_readVM :: "string \<Rightarrow> 'v option"

definition marshalReference :: "ObjectReference \<Rightarrow> string" where
  "marshalReference r = object_text (omitempty json_quote [] ''kind'' (or_Kind r)
     @ omitempty json_quote [] ''namespace'' (or_Namespace r)
     @ omitempty json_quote [] ''name'' (or_Name r)
     @ omitempty json_quote [] ''uid'' (or_UID r)
     @ omitempty json_quote [] ''apiVersion'' (or_APIVersion r)
     @ omitempty json_quote [] ''resourceVersion'' (or_ResourceVersion r)
     @ omitempty json_quote [] ''fieldPath'' (or_FieldPath r))"

definition unmarshalReference :: "string \<Rightarrow> ObjectReference option" where
  "unmarshalReference v = (do {
     ms \<leftarrow> object_slices 1 v;
     kind \<leftarrow> string_field ms ''kind'';
     namespace \<leftarrow> string_field ms ''namespace'';
     name \<leftarrow> string_field ms ''name'';
     uid \<leftarrow> string_field ms ''uid'';
     apiVersion \<leftarrow> string_field ms ''apiVersion'';
     resourceVersion \<leftarrow> string_field ms ''resourceVersion'';
     fieldPath \<leftarrow> string_field ms ''fieldPath'';
     Some \<lparr>or_Kind = kind, or_Namespace = namespace, or_Name = name, or_UID = uid, or_APIVersion = apiVersion,
       or_ResourceVersion = resourceVersion, or_FieldPath = fieldPath\<rparr>})"

definition marshalProcessed :: "'v vm_encodings \<Rightarrow> 'v ProcessedVirtualMachineTemplate \<Rightarrow> string option" where
  "marshalProcessed en p = (do {
     vm \<leftarrow> (case pt_VirtualMachine p of None \<Rightarrow> Some ''null'' | Some vm \<Rightarrow> ve_VM en vm);
     Some (object_text (omitempty json_quote [] ''kind'' (tm_Kind (pt_TypeMeta p))
       @ omitempty json_quote [] ''apiVersion'' (tm_APIVersion (pt_TypeMeta p))
       @ omitempty (ve_Meta en) empty_meta ''metadata'' (pt_Meta p)
       @ omitempty (marshalReference \<circ> the) None ''templateRef'' (pt_TemplateRef p)
       @ (''virtualMachine'', vm)
       # omitempty json_quote [] ''message'' (pt_Message p)))})"

definition unmarshalProcessed ::
  "'v vm_encodings \<Rightarrow> string \<Rightarrow> 'v ProcessedVirtualMachineTemplate_v1alpha1 option" where
  "unmarshalProcessed en data =
     (if json_syntax data = None then None
      else do {
        ms \<leftarrow> object_slices 0 data;
        kind \<leftarrow> string_field ms ''kind'';
        apiVersion \<leftarrow> string_field ms ''apiVersion'';
        meta \<leftarrow> field (ve_readMeta en) empty_meta ms ''metadata'';
        templateRef \<leftarrow> field (\<lambda>v. map_option Some (unmarshalReference v)) None ms ''templateRef'';
        vm \<leftarrow> field (\<lambda>v. map_option Some (ve_readVM en v)) None ms ''virtualMachine'';
        message \<leftarrow> string_field ms ''message'';
        Some \<lparr>apt_TypeMeta = \<lparr>tm_Kind = kind, tm_APIVersion = apiVersion\<rparr>, apt_Meta = meta,
          apt_TemplateRef = templateRef, apt_VirtualMachine = vm, apt_Message = message\<rparr>})"

definition convertProcessedToV1alpha1 ::
  "'v vm_encodings \<Rightarrow> 'v ProcessedVirtualMachineTemplate
    \<Rightarrow> conversion_error + 'v ProcessedVirtualMachineTemplate_v1alpha1" where
  "convertProcessedToV1alpha1 en p =
     (case marshalProcessed en p of
        None \<Rightarrow> Inl MarshalFailed
      | Some data \<Rightarrow>
          (case unmarshalProcessed en data of
             None \<Rightarrow> Inl UnmarshalFailed
           | Some out \<Rightarrow>
               Inr (out\<lparr>apt_TypeMeta := (apt_TypeMeta out)\<lparr>tm_APIVersion := GroupVersion_String subresourcesV1alpha1\<rparr>\<rparr>)))"

section \<open>Lemmas\<close>

lemma value_content:
  assumes "json_value d s = Some (j, r)"
  shows "json_content s"
proof -
  obtain c cs where c: "skip_ws s = c # cs" using value_nonempty [OF assms] by blast
  have "c \<in> {CHR ''{'', CHR ''['', CHR ''n'', CHR ''t'', CHR ''f'', CHR 0x22, CHR ''-''} \<or> is_digit c"
    using assms c by (auto simp: json_value.simps [of d s] json_keyword_def json_number_def json_int_part_def HasPrefix_iff
        is_digit_def byte_in_def split: if_splits option.splits list.splits)
  moreover have "s \<noteq> []" using c by (auto simp: skip_ws_def)
  moreover have "\<not> is_ws (hd s) \<Longrightarrow> hd s = c" using c \<open>s \<noteq> []\<close> by (cases s) (auto simp: skip_ws_Cons)
  ultimately show ?thesis by (auto simp: json_content_def)
qed


text \<open>A raw VirtualMachine that can be embedded in the document of a template, and is not null.\<close>

definition embeddable :: "string \<Rightarrow> bool" where
  "embeddable raw \<longleftrightarrow> (case json_value 2 raw of
     Some (j, r) \<Rightarrow> skip_ws r = [] \<and> j \<noteq> JNull | None \<Rightarrow> False)"

lemma embeddableE:
  assumes "embeddable raw"
  obtains j where "json_syntax raw = Some j" "j \<noteq> JNull" "value_text 2 (compact_outside raw)"
    "json_compact raw = Some (compact_outside raw)" "compact_outside raw \<noteq> ''null''" "json_content raw"
proof -
  from assms obtain j r where r: "json_value 2 raw = Some (j, r)" "skip_ws r = []" "j \<noteq> JNull"
    by (auto simp: embeddable_def split: option.splits)
  have s: "json_syntax raw = Some j" using value_at_less [OF r(1), of 0] r(2) by (simp add: json_syntax_def)
  have "json_syntax ''null'' = Some JNull"
    by (simp add: json_syntax_def json_value.simps [of 0 "_ # _"] skip_ws_def is_ws_def json_keyword_def json_keyword_length_def)
  then have "compact_outside raw \<noteq> ''null''" using compact_syntax [OF s] r(3) by auto
  then show thesis using that s r(3) compact_text [OF r(1,2)] value_content [OF r(1)] by (simp add: json_compact_def)
qed

definition spec_v1beta1 :: "'o VirtualMachineTemplateSpec_v1alpha1 \<Rightarrow> string \<Rightarrow> 'o VirtualMachineTemplateSpec" where
  "spec_v1beta1 spec raw = \<lparr>ts_VirtualMachine = Some \<lparr>re_Raw = compact_outside raw, re_Object = None\<rparr>,
     ts_Parameters = map parameter_v1beta1 (as_Parameters spec), ts_Message = valid_utf8_text (as_Message spec)\<rparr>"

lemma parameters_value: "value_text 2 (list_text marshalParameter ps)"
  by (rule parameter.list_value) (simp_all add: max_nesting_depth_def list_all_iff)

lemma parameters_read: "read_list 2 unmarshalParameter (list_text marshalParameter ps) = Some (map parameter_v1beta1 ps)"
  by (rule parameter.list_read) (simp_all add: list_all_iff)

interpretation parameters: codec 2 "\<lambda>ps. True" "list_text marshalParameter" "read_list 2 unmarshalParameter" "map parameter_v1beta1"
  by unfold_locales (simp_all add: parameters_value parameters_read, simp add: list_text_def array_text_def)

lemma no_cbor: "json_content raw \<Longrightarrow> \<not> HasPrefix raw cborSelfDescribed"
  by (cases raw) (auto simp: json_content_def cborSelfDescribed_def is_ws_def is_digit_def byte_in_def)

lemma member_head: "k \<notin> fst ` set ms \<Longrightarrow> v \<noteq> ''null'' \<Longrightarrow> member ((k, v) # ms) k = Some v"
proof -
  assume "k \<notin> fst ` set ms" "v \<noteq> ''null''"
  then have "map_of (rev ms) k = None" by (simp add: map_of_eq_None_iff)
  then show ?thesis using \<open>v \<noteq> ''null''\<close> by (simp add: member_def map_add_def)
qed

lemma spec_marshalled:
  fixes en :: "'o encodings"
  assumes "as_VirtualMachine spec = Some re" "embeddable (re_Raw re)"
  obtains t where "marshalSpec en spec = Some t"
    "codec 1 (\<lambda>u :: unit. True) (\<lambda>u. t) (unmarshalSpec :: string \<Rightarrow> 'o VirtualMachineTemplateSpec option)
      (\<lambda>u. spec_v1beta1 spec (re_Raw re))"
proof -
  from assms(2) obtain j where e: "value_text 2 (compact_outside (re_Raw re))" "compact_outside (re_Raw re) \<noteq> ''null''"
    "json_compact (re_Raw re) = Some (compact_outside (re_Raw re))" "json_content (re_Raw re)" by (rule embeddableE)
  let ?ms = "(''virtualMachine'', compact_outside (re_Raw re))
    # omitempty (list_text marshalParameter) [] ''parameters'' (as_Parameters spec)
    @ omitempty json_quote [] ''message'' (as_Message spec)"
  have "re_Raw re \<noteq> []" using e(4) by (auto simp: json_content_def)
  then have m: "marshalSpec en spec = Some (object_text ?ms)"
    using e(3,4) no_cbor [OF e(4)]
    by (simp add: marshalSpec_def marshalVirtualMachine_def marshalRawExtension_def assms(1))
  have vals: "value_text 2 v" if "(k, v) \<in> set ?ms" for k v
    using that e(1) by (auto dest: str.member_values parameters.member_values)
  have "map (\<lambda>(k, v). (valid_utf8_text k, v)) ?ms = ?ms" by (simp add: keys_ascii)
  with object_text_slices [of ?ms 1] vals have sl: "object_slices 1 (object_text ?ms) = Some ?ms" by (simp add: numeral_2_eq_2)
  have "(unmarshalSpec :: string \<Rightarrow> 'o VirtualMachineTemplateSpec option) (object_text ?ms) = Some (spec_v1beta1 spec (re_Raw re))"
    unfolding unmarshalSpec_def sl using e(2)
    by (simp add: field_simps parameters.field_here member_head spec_v1beta1_def)
  moreover have "value_text 1 (object_text ?ms)"
    by (rule object_text_value) (use vals in \<open>auto simp: max_nesting_depth_def numeral_2_eq_2\<close>)
  ultimately show thesis by (intro that [OF m] codec.intro) (simp_all add: object_text_def)
qed


definition template_v1beta1 :: "'o VirtualMachineTemplate_v1alpha1 \<Rightarrow> string \<Rightarrow> 'o VirtualMachineTemplate" where
  "template_v1beta1 tpl raw =
     \<lparr>t_TypeMeta = \<lparr>tm_Kind = valid_utf8_text (tm_Kind (at_TypeMeta tpl)), tm_APIVersion = GroupVersion_String coreV1beta1\<rparr>,
      t_Meta = at_Meta tpl, t_Spec = spec_v1beta1 (at_Spec tpl) raw, t_Conditions = au_Conditions (at_Status tpl)\<rparr>"

lemma status_codec:
  assumes "codec 2 ((=) cs) (en_Conditions en) (en_readConditions en) (\<lambda>c. c)"
  shows "codec 1 ((=) \<lparr>au_Conditions = cs\<rparr>) (marshalStatus en) (unmarshalStatus en) au_Conditions"
proof (rule codec.intro)
  fix st assume st: "\<lparr>au_Conditions = cs\<rparr> = st"
  let ?ms = "omitempty (en_Conditions en) [] ''conditions'' cs"
  have vals: "value_text 2 v" if "(k, v) \<in> set ?ms" for k v
    using codec.member_values [OF assms that] by simp
  have sl: "object_slices 1 (object_text ?ms) = Some ?ms"
    using object_text_slices [of ?ms 1] vals by (simp add: keys_ascii numeral_2_eq_2)
  show "value_text 1 (marshalStatus en st)" unfolding marshalStatus_def st [symmetric] VirtualMachineTemplateStatus_v1alpha1.select_convs
    by (rule object_text_value) (use vals in \<open>auto simp: max_nesting_depth_def numeral_2_eq_2\<close>)
  show "unmarshalStatus en (marshalStatus en st) = Some (au_Conditions st)"
    unfolding marshalStatus_def unmarshalStatus_def st [symmetric] VirtualMachineTemplateStatus_v1alpha1.select_convs sl
    using codec.field_last [OF assms, of "[]" "[]" cs] by simp
  show "marshalStatus en st \<noteq> ''null''" by (simp add: marshalStatus_def object_text_def)
qed

definition reference_utf8 :: "ObjectReference \<Rightarrow> ObjectReference" where
  "reference_utf8 r = \<lparr>or_Kind = valid_utf8_text (or_Kind r), or_Namespace = valid_utf8_text (or_Namespace r),
     or_Name = valid_utf8_text (or_Name r), or_UID = valid_utf8_text (or_UID r),
     or_APIVersion = valid_utf8_text (or_APIVersion r), or_ResourceVersion = valid_utf8_text (or_ResourceVersion r),
     or_FieldPath = valid_utf8_text (or_FieldPath r)\<rparr>"

lemma reference_members:
  "(k, v) \<in> set (omitempty json_quote [] ''kind'' (or_Kind r)
     @ omitempty json_quote [] ''namespace'' (or_Namespace r)
     @ omitempty json_quote [] ''name'' (or_Name r)
     @ omitempty json_quote [] ''uid'' (or_UID r)
     @ omitempty json_quote [] ''apiVersion'' (or_APIVersion r)
     @ omitempty json_quote [] ''resourceVersion'' (or_ResourceVersion r)
     @ omitempty json_quote [] ''fieldPath'' (or_FieldPath r)) \<Longrightarrow> value_text d v"
  by (auto dest: str.member_values)

interpretation reference: codec 1 "\<lambda>r. r \<noteq> None" "marshalReference \<circ> the" "\<lambda>v. map_option Some (unmarshalReference v)"
  "map_option reference_utf8"
proof
  fix r :: "ObjectReference option" assume "r \<noteq> None"
  then obtain x where x: "r = Some x" by blast
  show "value_text 1 ((marshalReference \<circ> the) r)"
    unfolding marshalReference_def comp_def by (rule object_text_value) (erule reference_members, simp add: max_nesting_depth_def)
  have "unmarshalReference (marshalReference x) = Some (reference_utf8 x)"
    unfolding unmarshalReference_def marshalReference_def
    by (subst object_text_slices, erule reference_members) (simp add: keys_ascii field_simps reference_utf8_def)
  then show "map_option Some (unmarshalReference ((marshalReference \<circ> the) r)) = Some (map_option reference_utf8 r)"
    by (simp add: x)
  show "(marshalReference \<circ> the) r \<noteq> ''null''" by (simp add: marshalReference_def object_text_def)
qed

lemma reference_field:
  "k \<notin> fst ` set ms \<Longrightarrow> field (\<lambda>v. map_option Some (unmarshalReference v)) None
     (omitempty (marshalReference \<circ> the) None k r @ ms) k = Some (map_option reference_utf8 r)"
  by (rule reference.field_here) auto

definition processed_v1alpha1 ::
  "'v ProcessedVirtualMachineTemplate \<Rightarrow> 'v \<Rightarrow> 'v ProcessedVirtualMachineTemplate_v1alpha1" where
  "processed_v1alpha1 p vm =
     \<lparr>apt_TypeMeta = \<lparr>tm_Kind = valid_utf8_text (tm_Kind (pt_TypeMeta p)), tm_APIVersion = GroupVersion_String subresourcesV1alpha1\<rparr>,
      apt_Meta = pt_Meta p, apt_TemplateRef = map_option reference_utf8 (pt_TemplateRef p), apt_VirtualMachine = Some vm,
      apt_Message = valid_utf8_text (pt_Message p)\<rparr>"

lemma processed_converted:
  assumes vm: "pt_VirtualMachine p = Some vm" "ve_VM en vm = Some t"
    and t: "codec 1 ((=) ()) (\<lambda>u. t) (ve_readVM en) (\<lambda>u. vm')"
    and meta: "codec 1 ok (ve_Meta en) (ve_readMeta en) (\<lambda>m. m)" "pt_Meta p = empty_meta \<or> ok (pt_Meta p)"
  shows "convertProcessedToV1alpha1 en p = Inr (processed_v1alpha1 p vm')"
proof -
  let ?ms = "omitempty json_quote [] ''kind'' (tm_Kind (pt_TypeMeta p))
       @ omitempty json_quote [] ''apiVersion'' (tm_APIVersion (pt_TypeMeta p))
       @ omitempty (ve_Meta en) empty_meta ''metadata'' (pt_Meta p)
       @ omitempty (marshalReference \<circ> the) None ''templateRef'' (pt_TemplateRef p)
       @ (''virtualMachine'', t) # omitempty json_quote [] ''message'' (pt_Message p)"
  have tt: "value_text 1 t" "ve_readVM en t = Some vm'" "t \<noteq> ''null''"
    using codec.enc_value [OF t, of "()"] codec.dec_enc [OF t, of "()"] codec.enc_not_null [OF t, of "()"] by simp_all
  have t': "codec 1 ((=) ()) (\<lambda>u. t) (\<lambda>v. map_option Some (ve_readVM en v)) (\<lambda>u. Some vm')"
    using tt by (intro codec.intro) simp_all
  have vals: "value_text 1 v" if "(k, v) \<in> set ?ms" for k v
    using that tt(1) meta(2) by (auto dest: str.member_values reference.member_values codec.member_values [OF meta(1)])
  have "map (\<lambda>(k, v). (valid_utf8_text k, v)) ?ms = ?ms" by (simp add: keys_ascii)
  with object_text_slices [of ?ms 0] vals have sl: "object_slices 0 (object_text ?ms) = Some ?ms" by simp
  have "json_syntax (object_text ?ms) \<noteq> None"
    by (rule value_text_syntax, rule object_text_value) (use vals in \<open>auto simp: max_nesting_depth_def\<close>)
  then have "unmarshalProcessed en (object_text ?ms) = Some ((processed_v1alpha1 p vm')\<lparr>apt_TypeMeta :=
      \<lparr>tm_Kind = valid_utf8_text (tm_Kind (pt_TypeMeta p)), tm_APIVersion = valid_utf8_text (tm_APIVersion (pt_TypeMeta p))\<rparr>\<rparr>)"
    unfolding unmarshalProcessed_def sl
    by (simp add: field_simps codec.field_here [OF meta(1)] meta(2) reference_field codec.field_first [OF t'] processed_v1alpha1_def)
  then show ?thesis by (simp add: convertProcessedToV1alpha1_def marshalProcessed_def vm processed_v1alpha1_def)
qed

lemma template_conversion:
  fixes tpl :: "'o VirtualMachineTemplate_v1alpha1"
  assumes "as_VirtualMachine (at_Spec tpl) = Some re" "embeddable (re_Raw re)"
    and meta: "codec 1 ((=) (at_Meta tpl)) (en_Meta en) (en_readMeta en) (\<lambda>m. m)"
    and conds: "codec 2 ((=) (au_Conditions (at_Status tpl))) (en_Conditions en) (en_readConditions en) (\<lambda>c. c)"
  shows "convertToV1Beta1 en tpl = Inr (template_v1beta1 tpl (re_Raw re))"
proof -
  from assms(1,2) obtain t where t: "marshalSpec en (at_Spec tpl) = Some t"
    "codec 1 (\<lambda>u :: unit. True) (\<lambda>u. t) (unmarshalSpec :: string \<Rightarrow> 'o VirtualMachineTemplateSpec option)
      (\<lambda>u. spec_v1beta1 (at_Spec tpl) (re_Raw re))" by (rule spec_marshalled)
  obtain cs where st: "at_Status tpl = \<lparr>au_Conditions = cs\<rparr>" by (cases "at_Status tpl") auto
  have status: "codec 1 ((=) (at_Status tpl)) (marshalStatus en) (unmarshalStatus en) au_Conditions"
    using status_codec conds by (simp add: st)
  let ?ms = "omitempty json_quote [] ''kind'' (tm_Kind (at_TypeMeta tpl))
       @ omitempty json_quote [] ''apiVersion'' (tm_APIVersion (at_TypeMeta tpl))
       @ omitempty (en_Meta en) empty_meta ''metadata'' (at_Meta tpl)
       @ (''spec'', t) # omitempty (marshalStatus en) \<lparr>au_Conditions = []\<rparr> ''status'' (at_Status tpl)"
  have vals: "value_text 1 v" if "(k, v) \<in> set ?ms" for k v
    using that codec.enc_value [OF t(2)]
    by (auto dest: str.member_values codec.member_values [OF meta] codec.member_values [OF status])
  have "map (\<lambda>(k, v). (valid_utf8_text k, v)) ?ms = ?ms" by (simp add: keys_ascii)
  with object_text_slices [of ?ms 0] vals have sl: "object_slices 0 (object_text ?ms) = Some ?ms" by simp
  have "json_syntax (object_text ?ms) \<noteq> None"
    by (rule value_text_syntax, rule object_text_value) (use vals in \<open>auto simp: max_nesting_depth_def\<close>)
  then have "unmarshalTemplate en (object_text ?ms) = Some ((template_v1beta1 tpl (re_Raw re))\<lparr>t_TypeMeta :=
      \<lparr>tm_Kind = valid_utf8_text (tm_Kind (at_TypeMeta tpl)), tm_APIVersion = valid_utf8_text (tm_APIVersion (at_TypeMeta tpl))\<rparr>\<rparr>)"
    unfolding unmarshalTemplate_def sl
    by (simp add: field_simps codec.field_here [OF meta] codec.field_first [OF t(2)] codec.field_last [OF status] template_v1beta1_def)
  then show ?thesis by (simp add: convertToV1Beta1_def marshalTemplate_def t(1) template_v1beta1_def)
qed

section \<open>Properties\<close>

text \<open>
  C14.  The conversion of a v1alpha1 template by JSON succeeds and keeps every field: the metadata, the
  parameters, the message and the conditions are those of the input (with invalid UTF-8 replaced in
  strings), the VirtualMachine is the compacted text of the input, and the API version is that of
  v1beta1.  The encodings of the metadata and of the conditions have to give back what they encode.
\<close>

theorem template_converted:
  fixes tpl :: "'o VirtualMachineTemplate_v1alpha1"
  assumes "as_VirtualMachine (at_Spec tpl) = Some re" "embeddable (re_Raw re)"
    and meta: "codec 1 ((=) (at_Meta tpl)) (en_Meta en) (en_readMeta en) (\<lambda>m. m)"
    and conds: "codec 2 ((=) (au_Conditions (at_Status tpl))) (en_Conditions en) (en_readConditions en) (\<lambda>c. c)"
  shows "convertToV1Beta1 en tpl = Inr (template_v1beta1 tpl (re_Raw re))"
  using assms by (rule template_conversion)

definition example_raw :: string where
  "example_raw = [CHR ''{'', CHR '' '', CHR 0x22, CHR ''a'', CHR 0x22, CHR '':'', CHR '' '', CHR ''1'', CHR ''}'']"

definition example_v1alpha1 :: "'o VirtualMachineTemplate_v1alpha1" where
  "example_v1alpha1 = \<lparr>at_TypeMeta = empty_type, at_Meta = empty_meta,
     at_Spec = \<lparr>as_VirtualMachine = Some \<lparr>re_Raw = example_raw, re_Object = None\<rparr>,
       as_Parameters = [\<lparr>ap_Name = ''A'', ap_DisplayName = [], ap_Description = [], ap_Value = ''<&>'', ap_Generate = [],
         ap_From = [], ap_Required = True\<rparr>], as_Message = ''hello''\<rparr>,
     at_Status = \<lparr>au_Conditions = []\<rparr>\<rparr>"

definition example_encodings :: "'o encodings" where
  "example_encodings = \<lparr>en_Meta = (\<lambda>m. ''{}''), en_readMeta = (\<lambda>v. Some empty_meta), en_Conditions = (\<lambda>c. ''[]''),
     en_readConditions = (\<lambda>v. Some []), en_Object = (\<lambda>x. None), en_Cbor = (\<lambda>s. None)\<rparr>"

lemma empty_texts: "value_text d ''{}''" "value_text d ''[]''" if "d < max_nesting_depth"
  using object_text_value [of "[]" d] array_text_value [of "[]" d] that
  by (simp_all add: object_text_def members_text_def array_text_def)

lemma example_embeddable: "embeddable example_raw"
  by code_simp

lemma example_spec: "as_VirtualMachine (at_Spec example_v1alpha1) = Some \<lparr>re_Raw = example_raw, re_Object = None\<rparr>"
  by (simp add: example_v1alpha1_def)

lemma example_codecs:
  "codec 1 ((=) (at_Meta example_v1alpha1)) (en_Meta example_encodings) (en_readMeta example_encodings) (\<lambda>m. m)"
  "codec 2 ((=) (au_Conditions (at_Status example_v1alpha1))) (en_Conditions example_encodings)
     (en_readConditions example_encodings) (\<lambda>c. c)"
  by (rule codec.intro; simp add: example_v1alpha1_def example_encodings_def empty_texts max_nesting_depth_def)+

theorem template_converted_witness:
  "convertToV1Beta1 example_encodings (example_v1alpha1 :: unit VirtualMachineTemplate_v1alpha1) =
     Inr (template_v1beta1 example_v1alpha1 example_raw)"
  using template_converted [OF example_spec _ example_codecs] example_embeddable by simp

end
