(* ===== verification/Webhook.thy ===== *)
theory Webhook
  imports Processor Conversion
begin

text \<open>
  The validating webhooks for templates, \<^verbatim>\<open>internal/webhook/v1beta1\<close> and \<^verbatim>\<open>internal/webhook/v1alpha1\<close>.
  The object of an admission request is a template of one of the versions or something else.  The
  random sources, the order of iterations over maps and the converter are the parameters that
  \<open>Processor\<close> has; the default processor is the one that \<^verbatim>\<open>GetDefaultProcessor\<close> returns.
\<close>

section \<open>Objects and verdicts\<close>

datatype admission_object =
    TemplateV1beta1 Template
  | TemplateV1alpha1 "runtime_object VirtualMachineTemplate_v1alpha1"
  | OtherKind string

fun go_type_name :: "admission_object \<Rightarrow> string" where
  "go_type_name (TemplateV1beta1 tpl) = ''*v1beta1.VirtualMachineTemplate''"
| "go_type_name (TemplateV1alpha1 tpl) = ''*v1alpha1.VirtualMachineTemplate''"
| "go_type_name (OtherKind t) = t"

datatype webhook_warning =
    ReferenceWarning string
  | ProcessingSkipped string

datatype webhook_error =
    UnexpectedType string
  | Aggregate "field_error list"
  | ProcessingFailed field_error
  | ConversionFailed conversion_error

type_synonym verdict = "(webhook_warning list \<times> webhook_error option) run"

section \<open>Version v1beta1\<close>

text \<open>The parameters that keep the webhook from processing a template.\<close>

definition unfilled :: "Parameter \<Rightarrow> bool" where
  "unfilled param \<longleftrightarrow> p_Required param \<and> p_Value param = [] \<and> p_Generate param = []"

definition ValidateProcessing ::
  "converter \<Rightarrow> (nat \<Rightarrow> rand_source) \<Rightarrow> processor option \<Rightarrow> Template \<Rightarrow> verdict" where
  "ValidateProcessing conv srcs dp tpl =
     (let warnings = map (\<lambda>param. ProcessingSkipped (p_Name param)) (filter unfilled (ts_Parameters (t_Spec tpl))) in
      if warnings \<noteq> [] then Returns (warnings, None)
      else
        (case Process conv srcs (fst (GetDefaultProcessor dp)) tpl of
           Returns (Inl err) \<Rightarrow> Returns ([], Some (ProcessingFailed err))
         | Returns (Inr _) \<Rightarrow> Returns ([], None)
         | Panics \<Rightarrow> Panics
         | Diverges \<Rightarrow> Diverges))"

definition ValidateTemplate ::
  "(string set \<Rightarrow> string list) \<Rightarrow> converter \<Rightarrow> (nat \<Rightarrow> rand_source) \<Rightarrow> processor option \<Rightarrow> Template \<Rightarrow> verdict" where
  "ValidateTemplate iter conv srcs dp tpl =
     (case ValidateParameterReferences iter tpl of
        Returns (warnings, errs) \<Rightarrow>
          if errs \<noteq> [] then Returns (map ReferenceWarning warnings, Some (Aggregate errs))
          else
            (case ValidateProcessing conv srcs dp tpl of
               Returns (processingWarnings, err) \<Rightarrow> Returns (map ReferenceWarning warnings @ processingWarnings, err)
             | Panics \<Rightarrow> Panics
             | Diverges \<Rightarrow> Diverges)
      | Panics \<Rightarrow> Panics
      | Diverges \<Rightarrow> Diverges)"

definition ValidateCreate_v1beta1 ::
  "(string set \<Rightarrow> string list) \<Rightarrow> converter \<Rightarrow> (nat \<Rightarrow> rand_source) \<Rightarrow> processor option \<Rightarrow> admission_object \<Rightarrow> verdict" where
  "ValidateCreate_v1beta1 iter conv srcs dp obj =
     (case obj of
        TemplateV1beta1 tpl \<Rightarrow> ValidateTemplate iter conv srcs dp tpl
      | _ \<Rightarrow> Returns ([], Some (UnexpectedType (go_type_name obj))))"

definition ValidateUpdate_v1beta1 ::
  "(string set \<Rightarrow> string list) \<Rightarrow> converter \<Rightarrow> (nat \<Rightarrow> rand_source) \<Rightarrow> processor option
    \<Rightarrow> admission_object \<Rightarrow> admission_object \<Rightarrow> verdict" where
  "ValidateUpdate_v1beta1 iter conv srcs dp oldObj newObj =
     (case newObj of
        TemplateV1beta1 tpl \<Rightarrow> ValidateTemplate iter conv srcs dp tpl
      | _ \<Rightarrow> Returns ([], Some (UnexpectedType (go_type_name newObj))))"

definition ValidateDelete_v1beta1 :: "admission_object \<Rightarrow> verdict" where
  "ValidateDelete_v1beta1 obj = Returns ([], None)"

section \<open>Version v1alpha1\<close>

definition validate_converted ::
  "runtime_object encodings \<Rightarrow> (string set \<Rightarrow> string list) \<Rightarrow> converter \<Rightarrow> (nat \<Rightarrow> rand_source) \<Rightarrow> processor option
    \<Rightarrow> runtime_object VirtualMachineTemplate_v1alpha1 \<Rightarrow> verdict" where
  "validate_converted en iter conv srcs dp tpl =
     (case convertToV1Beta1 en tpl of
        Inl e \<Rightarrow> Returns ([], Some (ConversionFailed e))
      | Inr converted \<Rightarrow> ValidateTemplate iter conv srcs dp converted)"

definition ValidateCreate_v1alpha1 ::
  "runtime_object encodings \<Rightarrow> (string set \<Rightarrow> string list) \<Rightarrow> converter \<Rightarrow> (nat \<Rightarrow> rand_source) \<Rightarrow> processor option
    \<Rightarrow> admission_object \<Rightarrow> verdict" where
  "ValidateCreate_v1alpha1 en iter conv srcs dp obj =
     (case obj of
        TemplateV1alpha1 tpl \<Rightarrow> validate_converted en iter conv srcs dp tpl
      | _ \<Rightarrow> Returns ([], Some (UnexpectedType (go_type_name obj))))"

definition ValidateUpdate_v1alpha1 ::
  "runtime_object encodings \<Rightarrow> (string set \<Rightarrow> string list) \<Rightarrow> converter \<Rightarrow> (nat \<Rightarrow> rand_source) \<Rightarrow> processor option
    \<Rightarrow> admission_object \<Rightarrow> admission_object \<Rightarrow> verdict" where
  "ValidateUpdate_v1alpha1 en iter conv srcs dp oldObj newObj =
     (case newObj of
        TemplateV1alpha1 tpl \<Rightarrow> validate_converted en iter conv srcs dp tpl
      | _ \<Rightarrow> Returns ([], Some (UnexpectedType (go_type_name newObj))))"

definition ValidateDelete_v1alpha1 :: "admission_object \<Rightarrow> verdict" where
  "ValidateDelete_v1alpha1 obj = Returns ([], None)"

section \<open>Lemmas\<close>

text \<open>Validation sees a template only through its object, its parameters and its message.\<close>

lemma validation_depends:
  assumes "getVirtualMachineObject (t_Spec tpl) = getVirtualMachineObject (t_Spec tpl')"
    and "ts_Parameters (t_Spec tpl) = ts_Parameters (t_Spec tpl')" "ts_Message (t_Spec tpl) = ts_Message (t_Spec tpl')"
  shows "ValidateTemplate iter conv srcs dp tpl = ValidateTemplate iter conv srcs dp tpl'"
  unfolding ValidateTemplate_def ValidateParameterReferences_def ValidateProcessing_def Process_def process_with_def assms
  by (rule refl)

lemma decode_compact:
  assumes "json_syntax raw = Some j"
  shows "decode (compact_outside raw) = decode raw"
  using assms compact_syntax [OF assms] by (simp add: decode_def json_Unmarshal_def json_decode_def)

text \<open>The template of version v1beta1 with the fields of a template of version v1alpha1.\<close>

definition same_template :: "runtime_object VirtualMachineTemplate_v1alpha1 \<Rightarrow> Template \<Rightarrow> bool" where
  "same_template a tpl \<longleftrightarrow>
     ts_VirtualMachine (t_Spec tpl) = as_VirtualMachine (at_Spec a) \<and>
     ts_Message (t_Spec tpl) = as_Message (at_Spec a) \<and> valid_utf8_text (as_Message (at_Spec a)) = as_Message (at_Spec a) \<and>
     ts_Parameters (t_Spec tpl) = map parameter_v1beta1 (as_Parameters (at_Spec a))"

section \<open>Properties\<close>

text \<open>
  C13.  The two webhooks agree: for a v1alpha1 template whose VirtualMachine is embeddable JSON, the verdict
  of the v1alpha1 webhook on create and on update is the verdict of the v1beta1 webhook on the v1beta1
  template with the same fields, warnings and errors included.
\<close>

theorem webhooks_agree:
  assumes "same_template a tpl" "as_VirtualMachine (at_Spec a) = Some re" "embeddable (re_Raw re)"
    and "codec 1 ((=) (at_Meta a)) (en_Meta en) (en_readMeta en) (\<lambda>m. m)"
    and "codec 2 ((=) (au_Conditions (at_Status a))) (en_Conditions en) (en_readConditions en) (\<lambda>c. c)"
  shows "ValidateCreate_v1alpha1 en iter conv srcs dp (TemplateV1alpha1 a) =
      ValidateCreate_v1beta1 iter conv srcs dp (TemplateV1beta1 tpl) \<and>
    ValidateUpdate_v1alpha1 en iter conv srcs dp old (TemplateV1alpha1 a) =
      ValidateUpdate_v1beta1 iter conv srcs dp old' (TemplateV1beta1 tpl)"
proof -
  let ?t = "template_v1beta1 a (re_Raw re)"
  from assms(3) obtain j where j: "json_syntax (re_Raw re) = Some j" "json_content (re_Raw re)"
    "value_text 2 (compact_outside (re_Raw re))" by (rule embeddableE)
  have ne: "re_Raw re \<noteq> []" "compact_outside (re_Raw re) \<noteq> []" using j(2,3) by (auto simp: json_content_def value_text_def)
  have "getVirtualMachineObject (t_Spec ?t) = getVirtualMachineObject (t_Spec tpl)"
    using assms(1,2) ne decode_compact [OF j(1)]
    by (simp add: getVirtualMachineObject_def template_v1beta1_def spec_v1beta1_def same_template_def)
  moreover have "ts_Parameters (t_Spec ?t) = ts_Parameters (t_Spec tpl)" "ts_Message (t_Spec ?t) = ts_Message (t_Spec tpl)"
    using assms(1) by (simp_all add: template_v1beta1_def spec_v1beta1_def same_template_def)
  ultimately have "ValidateTemplate iter conv srcs dp ?t = ValidateTemplate iter conv srcs dp tpl"
    by (rule validation_depends)
  then show ?thesis
    by (simp add: ValidateCreate_v1alpha1_def ValidateCreate_v1beta1_def ValidateUpdate_v1alpha1_def ValidateUpdate_v1beta1_def
        validate_converted_def template_conversion [OF assms(2-5)])
qed


theorem webhooks_agree_witness:
  "ValidateCreate_v1alpha1 example_encodings sorted_list_of_set (\<lambda>obj. Inl ''no'') (\<lambda>i k. Inr 0) None (TemplateV1alpha1 example_v1alpha1) =
     ValidateCreate_v1beta1 sorted_list_of_set (\<lambda>obj. Inl ''no'') (\<lambda>i k. Inr 0) None
       (TemplateV1beta1 (example_template [(example_parameter ''A'' ''<&>'')\<lparr>p_Required := True\<rparr>]\<lparr>t_Spec :=
          \<lparr>ts_VirtualMachine = Some \<lparr>re_Raw = example_raw, re_Object = None\<rparr>,
           ts_Parameters = [(example_parameter ''A'' ''<&>'')\<lparr>p_Required := True\<rparr>], ts_Message = ''hello''\<rparr>\<rparr>))"
proof -
  have s: "same_template example_v1alpha1 (example_template [(example_parameter ''A'' ''<&>'')\<lparr>p_Required := True\<rparr>]\<lparr>t_Spec :=
          \<lparr>ts_VirtualMachine = Some \<lparr>re_Raw = example_raw, re_Object = None\<rparr>,
           ts_Parameters = [(example_parameter ''A'' ''<&>'')\<lparr>p_Required := True\<rparr>], ts_Message = ''hello''\<rparr>\<rparr>)"
    by (simp add: same_template_def example_v1alpha1_def parameter_v1beta1_def example_parameter_def)
  show ?thesis using webhooks_agree [OF s example_spec _ example_codecs] example_embeddable by simp
qed

end
