(* ===== verification/Subresources.thy ===== *)
theory Subresources
  imports Webhook Owner_References
begin

text \<open>
  The subresources \<^verbatim>\<open>process\<close> and \<^verbatim>\<open>create\<close> of templates, \<^verbatim>\<open>internal/apiserver/storage/virtualmachinetemplate\<close>:
  the shared \<^verbatim>\<open>ProcessTemplate\<close>, the storages of the versions v1beta1 and v1alpha1, and the storage of their
  parent resource.

  The decoder of request bodies and the two clients are parameters; the clients act on a world of any
  type.  Warnings that are added to the context are returned next to the result.
\<close>

section \<open>Processing a stored template\<close>

definition JSONBufferSize :: nat where "JSONBufferSize = 1024"

record ('b, 'w) template_server =
  sv_Decode :: "nat \<Rightarrow> 'b \<Rightarrow> string + ProcessOptions"
  sv_Get :: "string \<Rightarrow> string \<Rightarrow> 'w \<Rightarrow> (string + Template) \<times> 'w"

record 'w virt_server =
  vs_Create :: "string \<Rightarrow> gval \<Rightarrow> 'w \<Rightarrow> (string + gval) \<times> 'w"

text \<open>A \<^verbatim>\<open>Processor\<close> of the package, an interface with one method.\<close>

type_synonym template_processor = "Template \<Rightarrow> (field_error + gval \<times> string) run"

datatype status_error =
    BadRequest string
  | InternalError string
  | Conflict "string \<times> string" string string
  | Invalid "string \<times> string" string "field_error list"

text \<open>\<^verbatim>\<open>GroupVersionKind().GroupKind()\<close> of the type metadata of an object.\<close>

definition group_kind :: "TypeMeta \<Rightarrow> string \<times> string" where
  "group_kind tm = (case parse_group (tm_APIVersion tm) of Some g \<Rightarrow> g | None \<Rightarrow> [], tm_Kind tm)"

type_synonym processed = "gval ProcessedVirtualMachineTemplate"

definition processed_template :: "string \<Rightarrow> string \<Rightarrow> gval \<Rightarrow> string \<Rightarrow> processed" where
  "processed_template ns tid vm msg = \<lparr>pt_TypeMeta = empty_type, pt_Meta = empty_meta,
     pt_TemplateRef = Some (empty_reference\<lparr>or_Namespace := ns, or_Name := tid\<rparr>),
     pt_VirtualMachine = Some vm, pt_Message = msg\<rparr>"

definition with_parameters :: "Template \<Rightarrow> Parameter list \<Rightarrow> Template" where
  "with_parameters tpl ps = tpl\<lparr>t_Spec := (t_Spec tpl)\<lparr>ts_Parameters := ps\<rparr>\<rparr>"

definition given_values :: "(string set \<Rightarrow> string list) \<Rightarrow> ProcessOptions \<Rightarrow> (string \<times> string) list" where
  "given_values iter opts = map (\<lambda>k. (k, the (po_Parameters opts k))) (iter (dom (po_Parameters opts)))"

definition process_merged ::
  "(string set \<Rightarrow> string list) \<Rightarrow> template_processor \<Rightarrow> string \<Rightarrow> string \<Rightarrow> Template
    \<Rightarrow> (string list \<times> (status_error + processed)) run" where
  "process_merged iter processor ns tid tpl =
     (case ValidateParameterReferences iter tpl of
        Panics \<Rightarrow> Panics
      | Diverges \<Rightarrow> Diverges
      | Returns (warnings, errs) \<Rightarrow>
          if errs \<noteq> [] then Returns (warnings, Inl (Invalid (group_kind (t_TypeMeta tpl)) tid errs))
          else
            (case processor tpl of
               Panics \<Rightarrow> Panics
             | Diverges \<Rightarrow> Diverges
             | Returns (Inl pErr) \<Rightarrow> Returns (warnings, Inl (Invalid (group_kind (t_TypeMeta tpl)) tid [pErr]))
             | Returns (Inr (vm, msg)) \<Rightarrow> Returns (warnings, Inr (processed_template ns tid vm msg))))"

definition ProcessTemplate ::
  "(string set \<Rightarrow> string list) \<Rightarrow> ('b, 'w) template_server \<Rightarrow> template_processor \<Rightarrow> 'b \<Rightarrow> string \<Rightarrow> string \<Rightarrow> 'w
    \<Rightarrow> (string list \<times> (status_error + processed)) run \<times> 'w" where
  "ProcessTemplate iter sv processor body ns tid w =
     (case sv_Decode sv JSONBufferSize body of
        Inl err \<Rightarrow> (Returns ([], Inl (BadRequest (''error parsing ProcessOptions: '' @ err))), w)
      | Inr opts \<Rightarrow>
          (case sv_Get sv ns tid w of
             (Inl err, w1) \<Rightarrow> (Returns ([], Inl (InternalError (''error getting VirtualMachineTemplate: '' @ err))), w1)
           | (Inr tpl, w1) \<Rightarrow>
               (case MergeParameters (ts_Parameters (t_Spec tpl)) (given_values iter opts) of
                  Inl k \<Rightarrow> (Returns ([], Inl (Conflict (group_kind (t_TypeMeta tpl)) tid k)), w1)
                | Inr ps \<Rightarrow> (process_merged iter processor ns tid (with_parameters tpl ps), w1))))"

section \<open>The storages\<close>

datatype response_body =
    BodyV1beta1 processed
  | BodyV1alpha1 "gval ProcessedVirtualMachineTemplate_v1alpha1"

datatype response_error = StatusError status_error | ConvertError conversion_error

datatype response = ResponseError response_error | ResponseObject nat response_body

type_synonym 'w answer = "(string list \<times> response) run \<times> 'w"

definition StatusOK :: nat where "StatusOK = 200"
definition MethodPost :: string where "MethodPost = ''POST''"

text \<open>What a handler does with the result of \<^verbatim>\<open>ProcessTemplate\<close>: an error is passed to the responder.\<close>

definition on_processed ::
  "(string list \<times> (status_error + processed)) run \<times> 'w \<Rightarrow> (string list \<Rightarrow> processed \<Rightarrow> 'w \<Rightarrow> 'w answer) \<Rightarrow> 'w answer" where
  "on_processed r f =
     (case r of
        (Panics, w) \<Rightarrow> (Panics, w)
      | (Diverges, w) \<Rightarrow> (Diverges, w)
      | (Returns (warnings, Inl err), w) \<Rightarrow> (Returns (warnings, ResponseError (StatusError err)), w)
      | (Returns (warnings, Inr processed), w) \<Rightarrow> f warnings processed w)"

definition respond :: "response_body \<Rightarrow> string list \<Rightarrow> 'w \<Rightarrow> 'w answer" where
  "respond body warnings w = (Returns (warnings, ResponseObject StatusOK body), w)"

text \<open>The end of the handlers of version v1alpha1.\<close>

definition respond_converted :: "gval vm_encodings \<Rightarrow> string list \<Rightarrow> processed \<Rightarrow> 'w \<Rightarrow> 'w answer" where
  "respond_converted en warnings processed w =
     (case convertProcessedToV1alpha1 en processed of
        Inl err \<Rightarrow> (Returns (warnings, ResponseError (ConvertError err)), w)
      | Inr converted \<Rightarrow> respond (BodyV1alpha1 converted) warnings w)"

text \<open>The call that creates the VirtualMachine.\<close>

definition create_processed ::
  "'w virt_server \<Rightarrow> string \<Rightarrow> (string list \<Rightarrow> processed \<Rightarrow> 'w \<Rightarrow> 'w answer) \<Rightarrow> string list \<Rightarrow> processed \<Rightarrow> 'w \<Rightarrow> 'w answer" where
  "create_processed vs ns f warnings processed w =
     (case vs_Create vs ns (the (pt_VirtualMachine processed)) w of
        (Inl err, w1) \<Rightarrow> (Returns (warnings, ResponseError (StatusError (InternalError (''error creating VirtualMachine: '' @ err)))), w1)
      | (Inr vm, w1) \<Rightarrow> f warnings (processed\<lparr>pt_VirtualMachine := Some vm\<rparr>) w1)"

record ('b, 'w) process_rest =
  ps_client :: "('b, 'w) template_server"
  ps_processor :: template_processor

record ('b, 'w) create_rest =
  cs_client :: "('b, 'w) template_server"
  cs_virtClient :: "'w virt_server"
  cs_processor :: template_processor

text \<open>The default processor as a \<^verbatim>\<open>Processor\<close>.\<close>

definition default_processor :: "converter \<Rightarrow> (nat \<Rightarrow> rand_source) \<Rightarrow> processor option \<Rightarrow> template_processor" where
  "default_processor conv srcs dp = Process conv srcs (fst (GetDefaultProcessor dp))"

definition NewV1beta1ProcessREST ::
  "converter \<Rightarrow> (nat \<Rightarrow> rand_source) \<Rightarrow> processor option \<Rightarrow> ('b, 'w) template_server \<Rightarrow> ('b, 'w) process_rest" where
  "NewV1beta1ProcessREST conv srcs dp sv = \<lparr>ps_client = sv, ps_processor = default_processor conv srcs dp\<rparr>"

definition NewV1alpha1ProcessREST ::
  "converter \<Rightarrow> (nat \<Rightarrow> rand_source) \<Rightarrow> processor option \<Rightarrow> ('b, 'w) template_server \<Rightarrow> ('b, 'w) process_rest" where
  "NewV1alpha1ProcessREST conv srcs dp sv = \<lparr>ps_client = sv, ps_processor = default_processor conv srcs dp\<rparr>"

definition NewV1beta1CreateREST ::
  "converter \<Rightarrow> (nat \<Rightarrow> rand_source) \<Rightarrow> processor option \<Rightarrow> ('b, 'w) template_server \<Rightarrow> 'w virt_server \<Rightarrow> ('b, 'w) create_rest" where
  "NewV1beta1CreateREST conv srcs dp sv vs =
     \<lparr>cs_client = sv, cs_virtClient = vs, cs_processor = default_processor conv srcs dp\<rparr>"

definition NewV1alpha1CreateREST ::
  "converter \<Rightarrow> (nat \<Rightarrow> rand_source) \<Rightarrow> processor option \<Rightarrow> ('b, 'w) template_server \<Rightarrow> 'w virt_server \<Rightarrow> ('b, 'w) create_rest" where
  "NewV1alpha1CreateREST conv srcs dp sv vs =
     \<lparr>cs_client = sv, cs_virtClient = vs, cs_processor = default_processor conv srcs dp\<rparr>"

text \<open>\<^verbatim>\<open>Connect\<close>: the namespace of the request, if there is one, and the handler of its body.\<close>

definition ConnectProcessV1beta1 ::
  "(string set \<Rightarrow> string list) \<Rightarrow> ('b, 'w) process_rest \<Rightarrow> string option \<Rightarrow> string \<Rightarrow> string + ('b \<Rightarrow> 'w \<Rightarrow> 'w answer)" where
  "ConnectProcessV1beta1 iter p namespace tid =
     (case namespace of
        None \<Rightarrow> Inl ''missing namespace''
      | Some ns \<Rightarrow> Inr (\<lambda>body w.
          on_processed (ProcessTemplate iter (ps_client p) (ps_processor p) body ns tid w)
            (\<lambda>warnings processed. respond (BodyV1beta1 processed) warnings)))"

definition ConnectProcessV1alpha1 ::
  "(string set \<Rightarrow> string list) \<Rightarrow> gval vm_encodings \<Rightarrow> ('b, 'w) process_rest \<Rightarrow> string option \<Rightarrow> string
    \<Rightarrow> string + ('b \<Rightarrow> 'w \<Rightarrow> 'w answer)" where
  "ConnectProcessV1alpha1 iter en p namespace tid =
     (case namespace of
        None \<Rightarrow> Inl ''missing namespace''
      | Some ns \<Rightarrow> Inr (\<lambda>body w.
          on_processed (ProcessTemplate iter (ps_client p) (ps_processor p) body ns tid w) (respond_converted en)))"

definition ConnectCreateV1beta1 ::
  "(string set \<Rightarrow> string list) \<Rightarrow> ('b, 'w) create_rest \<Rightarrow> string option \<Rightarrow> string \<Rightarrow> string + ('b \<Rightarrow> 'w \<Rightarrow> 'w answer)" where
  "ConnectCreateV1beta1 iter c namespace tid =
     (case namespace of
        None \<Rightarrow> Inl ''missing namespace''
      | Some ns \<Rightarrow> Inr (\<lambda>body w.
          on_processed (ProcessTemplate iter (cs_client c) (cs_processor c) body ns tid w)
            (create_processed (cs_virtClient c) ns (\<lambda>warnings processed. respond (BodyV1beta1 processed) warnings))))"

definition ConnectCreateV1alpha1 ::
  "(string set \<Rightarrow> string list) \<Rightarrow> gval vm_encodings \<Rightarrow> ('b, 'w) create_rest \<Rightarrow> string option \<Rightarrow> string
    \<Rightarrow> string + ('b \<Rightarrow> 'w \<Rightarrow> 'w answer)" where
  "ConnectCreateV1alpha1 iter en c namespace tid =
     (case namespace of
        None \<Rightarrow> Inl ''missing namespace''
      | Some ns \<Rightarrow> Inr (\<lambda>body w.
          on_processed (ProcessTemplate iter (cs_client c) (cs_processor c) body ns tid w)
            (create_processed (cs_virtClient c) ns (respond_converted en))))"

text \<open>The other methods of the storages: the empty object, the options and the HTTP methods of \<^verbatim>\<open>Connect\<close>.\<close>

definition empty_processed :: processed where
  "empty_processed = \<lparr>pt_TypeMeta = empty_type, pt_Meta = empty_meta, pt_TemplateRef = None, pt_VirtualMachine = None,
     pt_Message = []\<rparr>"

definition empty_processed_v1alpha1 :: "gval ProcessedVirtualMachineTemplate_v1alpha1" where
  "empty_processed_v1alpha1 = \<lparr>apt_TypeMeta = empty_type, apt_Meta = empty_meta, apt_TemplateRef = None,
     apt_VirtualMachine = None, apt_Message = []\<rparr>"

definition ProcessV1beta1_New :: response_body where "ProcessV1beta1_New = BodyV1beta1 empty_processed"
definition CreateV1beta1_New :: response_body where "CreateV1beta1_New = BodyV1beta1 empty_processed"
definition ProcessV1alpha1_New :: response_body where "ProcessV1alpha1_New = BodyV1alpha1 empty_processed_v1alpha1"
definition CreateV1alpha1_New :: response_body where "CreateV1alpha1_New = BodyV1alpha1 empty_processed_v1alpha1"

type_synonym connect_options = "response_body option \<times> bool \<times> string"

definition ProcessV1beta1_NewConnectOptions :: connect_options where
  "ProcessV1beta1_NewConnectOptions = (None, False, [])"
definition CreateV1beta1_NewConnectOptions :: connect_options where
  "CreateV1beta1_NewConnectOptions = (None, False, [])"
definition ProcessV1alpha1_NewConnectOptions :: connect_options where
  "ProcessV1alpha1_NewConnectOptions = (None, False, [])"
definition CreateV1alpha1_NewConnectOptions :: connect_options where
  "CreateV1alpha1_NewConnectOptions = (None, False, [])"

definition ProcessV1beta1_ConnectMethods :: "string list" where "ProcessV1beta1_ConnectMethods = [MethodPost]"
definition CreateV1beta1_ConnectMethods :: "string list" where "CreateV1beta1_ConnectMethods = [MethodPost]"
definition ProcessV1alpha1_ConnectMethods :: "string list" where "ProcessV1alpha1_ConnectMethods = [MethodPost]"
definition CreateV1alpha1_ConnectMethods :: "string list" where "CreateV1alpha1_ConnectMethods = [MethodPost]"

text \<open>The storages of the parent resource.\<close>

definition DummyV1beta1_New :: SubresourceTemplate where
  "DummyV1beta1_New = \<lparr>sr_TypeMeta = empty_type, sr_Meta = empty_meta\<rparr>"
definition DummyV1beta1_NamespaceScoped :: bool where "DummyV1beta1_NamespaceScoped = True"
definition DummyV1beta1_GetSingularName :: string where "DummyV1beta1_GetSingularName = SingularResourceName"

definition DummyV1alpha1_New :: SubresourceTemplate_v1alpha1 where
  "DummyV1alpha1_New = \<lparr>ar_TypeMeta = empty_type, ar_Meta = empty_meta\<rparr>"
definition DummyV1alpha1_NamespaceScoped :: bool where "DummyV1alpha1_NamespaceScoped = True"
definition DummyV1alpha1_GetSingularName :: string where "DummyV1alpha1_GetSingularName = SingularResourceName"

section \<open>Lemmas\<close>

lemma run_cases:
  obtains "r = Panics" | "r = Diverges" | ws e where "r = Returns (ws, Inl e)" | ws p where "r = Returns (ws, Inr p)"
  by (cases r) (auto, metis obj_sumE)

lemma process_merged_VM:
  "process_merged iter processor ns tid tpl = Returns (ws, Inr p) \<Longrightarrow>
   \<exists>vm msg. processor tpl = Returns (Inr (vm, msg)) \<and> p = processed_template ns tid vm msg"
  by (auto simp: process_merged_def split: run.splits if_splits sum.splits)

text \<open>What the handlers make of a template with a plain VirtualMachine, in terms of the processor.\<close>

lemma process_merged_outcome:
  assumes "map_range iter" "plain_template tpl obj"
  obtains ws undefined where "ValidateParameterReferences iter tpl =
      Returns (ws, map (\<lambda>n. field_Invalid ''spec.virtualMachine'' (UndefinedReference n)) undefined)"
    "distinct undefined" "set undefined = template_references tpl obj - template_names tpl"
    "process_merged iter processor ns tid tpl =
       (if template_references tpl obj \<subseteq> template_names tpl
        then (case processor tpl of
                Panics \<Rightarrow> Panics
              | Diverges \<Rightarrow> Diverges
              | Returns (Inl e) \<Rightarrow> Returns (ws, Inl (Invalid (group_kind (t_TypeMeta tpl)) tid [e]))
              | Returns (Inr (vm, msg)) \<Rightarrow> Returns (ws, Inr (processed_template ns tid vm msg)))
        else Returns (ws, Inl (Invalid (group_kind (t_TypeMeta tpl)) tid
          (map (\<lambda>n. field_Invalid ''spec.virtualMachine'' (UndefinedReference n)) undefined))))"
proof -
  let ?undefined = "filter (\<lambda>n. n \<notin> template_names tpl) (iter (template_references tpl obj))"
  note fin = finite_template_references [of tpl obj]
  have dist: "distinct ?undefined" using map_range.iter_distinct [OF assms(1) fin] by simp
  have set: "set ?undefined = template_references tpl obj - template_names tpl"
    unfolding map_range.set_filter_iter [OF assms(1) fin] by auto
  have "?undefined = [] \<longleftrightarrow> template_references tpl obj \<subseteq> template_names tpl"
    unfolding map_range.filter_iter_empty [OF assms(1) fin] by auto
  then show thesis
    by (intro that [OF validate_plain [OF assms(2)] dist set]) (simp add: process_merged_def validate_plain [OF assms(2)] del: filter_empty_conv)
qed

lemma given_values_distinct:
  assumes "map_range iter" "finite (dom (po_Parameters opts))"
  shows "distinct (map fst (given_values iter opts))" "set (map fst (given_values iter opts)) = dom (po_Parameters opts)"
    "map_of (given_values iter opts) = po_Parameters opts"
proof -
  have fst: "map fst (given_values iter opts) = iter (dom (po_Parameters opts))" by (simp add: given_values_def comp_def)
  then show "distinct (map fst (given_values iter opts))" "set (map fst (given_values iter opts)) = dom (po_Parameters opts)"
    using map_range.iter_distinct [OF assms] map_range.iter_set [OF assms] by simp_all
  show "map_of (given_values iter opts) = po_Parameters opts"
  proof
    fix k
    show "map_of (given_values iter opts) k = po_Parameters opts k"
      using map_range.iter_set [OF assms] by (auto simp: given_values_def map_of_map_keys)
  qed
qed

lemma with_parameters_simps [simp]:
  "plain_template (with_parameters tpl ps) obj = plain_template tpl obj"
  "template_references (with_parameters tpl ps) obj = template_references tpl obj"
  "t_TypeMeta (with_parameters tpl ps) = t_TypeMeta tpl"
  "with_parameters tpl (ts_Parameters (t_Spec tpl)) = tpl"
  by (simp_all add: plain_template_def template_references_def with_parameters_def getVirtualMachineObject_def)

text \<open>The template of a request: the parameters of the stored one with the values of the request.\<close>

definition requested_template :: "Template \<Rightarrow> ProcessOptions \<Rightarrow> Template" where
  "requested_template tpl opts = with_parameters tpl
     (map (merged_value (ts_Parameters (t_Spec tpl)) (po_Parameters opts)) [0..<length (ts_Parameters (t_Spec tpl))])"

lemma merged_names: "map p_Name (map (merged_value ps m) [0..<length ps]) = map p_Name ps"
  by (rule nth_equalityI) (auto simp: merged_value_def split: option.split)

lemma requested_names: "template_names (requested_template tpl opts) = template_names tpl"
  using merged_names [of "ts_Parameters (t_Spec tpl)" "po_Parameters opts"]
  by (simp add: template_names_def requested_template_def with_parameters_def del: set_map map_map)

lemma ProcessTemplate_merged:
  assumes "map_range iter" "finite (dom (po_Parameters opts))" "sv_Decode sv JSONBufferSize body = Inr opts"
    and "sv_Get sv ns tid w = (Inr tpl, w1)"
  shows "if dom (po_Parameters opts) \<subseteq> template_names tpl
    then ProcessTemplate iter sv processor body ns tid w = (process_merged iter processor ns tid (requested_template tpl opts), w1)
    else \<exists>k \<in> dom (po_Parameters opts) - template_names tpl.
      ProcessTemplate iter sv processor body ns tid w = (Returns ([], Inl (Conflict (group_kind (t_TypeMeta tpl)) tid k)), w1)"
proof -
  note g = given_values_distinct [OF assms(1,2)]
  from MergeParameters_exact [OF g(1), of "ts_Parameters (t_Spec tpl)", unfolded g(2) g(3)] show ?thesis
    by (auto simp: ProcessTemplate_def assms(3,4) requested_template_def template_names_def split: if_splits)
qed

section \<open>Properties\<close>

text \<open>What the handler of \<^verbatim>\<open>process\<close> does, and what it answers for a stored template.\<close>

lemma process_handler:
  assumes "ConnectProcessV1beta1 iter p (Some ns) tid = Inr handler"
  shows "handler body w = on_processed (ProcessTemplate iter (ps_client p) (ps_processor p) body ns tid w)
      (\<lambda>warnings processed. respond (BodyV1beta1 processed) warnings)"
  using assms by (auto simp: ConnectProcessV1beta1_def)

lemma stored_template_outcome:
  assumes "map_range iter" "ConnectProcessV1beta1 iter p (Some ns) tid = Inr handler"
    and "sv_Decode (ps_client p) JSONBufferSize body = Inr opts" "sv_Get (ps_client p) ns tid w = (Inr tpl, w1)"
    and "finite (dom (po_Parameters opts))" "plain_template tpl obj"
  shows "if \<not> dom (po_Parameters opts) \<subseteq> template_names tpl
    then \<exists>k \<in> dom (po_Parameters opts) - template_names tpl.
      handler body w = (Returns ([], ResponseError (StatusError (Conflict (group_kind (t_TypeMeta tpl)) tid k))), w1)
    else \<exists>ws undefined.
      ValidateParameterReferences iter (requested_template tpl opts) =
        Returns (ws, map (\<lambda>n. field_Invalid ''spec.virtualMachine'' (UndefinedReference n)) undefined) \<and>
      distinct undefined \<and> set undefined = template_references tpl obj - template_names tpl \<and>
      (if undefined \<noteq> []
       then handler body w = (Returns (ws, ResponseError (StatusError (Invalid (group_kind (t_TypeMeta tpl)) tid
         (map (\<lambda>n. field_Invalid ''spec.virtualMachine'' (UndefinedReference n)) undefined)))), w1)
       else case ps_processor p (requested_template tpl opts) of
           Panics \<Rightarrow> handler body w = (Panics, w1)
         | Diverges \<Rightarrow> handler body w = (Diverges, w1)
         | Returns (Inl e) \<Rightarrow>
             handler body w = (Returns (ws, ResponseError (StatusError (Invalid (group_kind (t_TypeMeta tpl)) tid [e]))), w1)
         | Returns (Inr (vm, msg)) \<Rightarrow>
             handler body w = (Returns (ws, ResponseObject StatusOK (BodyV1beta1 (processed_template ns tid vm msg))), w1))"
proof -
  let ?t = "requested_template tpl opts"
  have outcome: "if \<not> dom (po_Parameters opts) \<subseteq> template_names tpl
      then \<exists>k \<in> dom (po_Parameters opts) - template_names tpl.
        handler body w = (Returns ([], ResponseError (StatusError (Conflict (group_kind (t_TypeMeta tpl)) tid k))), w1)
      else handler body w = on_processed (process_merged iter (ps_processor p) ns tid ?t, w1)
        (\<lambda>warnings processed. respond (BodyV1beta1 processed) warnings)"
    using ProcessTemplate_merged [OF assms(1,5,3,4), of "ps_processor p"]
    unfolding process_handler [OF assms(2)] by (auto simp: on_processed_def split: if_splits)
  have t: "plain_template ?t obj" "template_references ?t obj = template_references tpl obj" "t_TypeMeta ?t = t_TypeMeta tpl"
    using assms(6) by (simp_all add: requested_template_def)
  obtain ws undefined where v: "ValidateParameterReferences iter ?t =
        Returns (ws, map (\<lambda>n. field_Invalid ''spec.virtualMachine'' (UndefinedReference n)) undefined)"
      "distinct undefined" "set undefined = template_references tpl obj - template_names tpl"
      "process_merged iter (ps_processor p) ns tid ?t =
       (if template_references tpl obj \<subseteq> template_names tpl
        then (case ps_processor p ?t of
                Panics \<Rightarrow> Panics
              | Diverges \<Rightarrow> Diverges
              | Returns (Inl e) \<Rightarrow> Returns (ws, Inl (Invalid (group_kind (t_TypeMeta tpl)) tid [e]))
              | Returns (Inr (vm, msg)) \<Rightarrow> Returns (ws, Inr (processed_template ns tid vm msg)))
        else Returns (ws, Inl (Invalid (group_kind (t_TypeMeta tpl)) tid
          (map (\<lambda>n. field_Invalid ''spec.virtualMachine'' (UndefinedReference n)) undefined))))"
    by (rule process_merged_outcome [OF assms(1) t(1), unfolded t requested_names])
  have "undefined = [] \<longleftrightarrow> template_references tpl obj \<subseteq> template_names tpl"
    using v(3) by (metis Diff_eq_empty_iff set_empty)
  with outcome v show ?thesis
    by (cases "dom (po_Parameters opts) \<subseteq> template_names tpl"; cases "undefined = []")
      (auto simp: on_processed_def respond_def split: run.splits sum.splits)
qed

text \<open>
  C17.  What the subresource \<^verbatim>\<open>process\<close> answers, in every case.  A body that is not decoded is a bad request, and nothing is
  called; a template that the getter does not return is an internal error.  For a stored template whose VirtualMachine
  is plain: a request that gives a value to a name that the template does not declare is a conflict that reports such a
  name; otherwise, with the values of the request in place of its own, a template with references that no parameter defines is
  invalid, with exactly one error for each of these names; otherwise an error of the processor makes the template invalid, with that
  error alone, a panic or a divergence of the processor is one of the handler, and the result of the processor is
  answered with status 200, for the namespace and name that were asked for.  The warnings are those of the validation, and
  nothing but the getter acts on the cluster.
\<close>

theorem process_request_outcome:
  assumes "map_range iter" "ConnectProcessV1beta1 iter p (Some ns) tid = Inr handler"
  shows "case sv_Decode (ps_client p) JSONBufferSize body of
      Inl err \<Rightarrow> handler body w = (Returns ([], ResponseError (StatusError (BadRequest (''error parsing ProcessOptions: '' @ err)))), w)
    | Inr opts \<Rightarrow>
        (case sv_Get (ps_client p) ns tid w of
           (Inl err, w1) \<Rightarrow>
             handler body w = (Returns ([], ResponseError (StatusError (InternalError (''error getting VirtualMachineTemplate: '' @ err)))), w1)
         | (Inr tpl, w1) \<Rightarrow>
             \<forall>obj. finite (dom (po_Parameters opts)) \<longrightarrow> plain_template tpl obj \<longrightarrow>
               (if \<not> dom (po_Parameters opts) \<subseteq> template_names tpl
                then \<exists>k \<in> dom (po_Parameters opts) - template_names tpl.
                  handler body w = (Returns ([], ResponseError (StatusError (Conflict (group_kind (t_TypeMeta tpl)) tid k))), w1)
                else \<exists>ws undefined.
                  ValidateParameterReferences iter (requested_template tpl opts) =
                    Returns (ws, map (\<lambda>n. field_Invalid ''spec.virtualMachine'' (UndefinedReference n)) undefined) \<and>
                  distinct undefined \<and> set undefined = template_references tpl obj - template_names tpl \<and>
                  (if undefined \<noteq> []
                   then handler body w = (Returns (ws, ResponseError (StatusError (Invalid (group_kind (t_TypeMeta tpl)) tid
                     (map (\<lambda>n. field_Invalid ''spec.virtualMachine'' (UndefinedReference n)) undefined)))), w1)
                   else case ps_processor p (requested_template tpl opts) of
                       Panics \<Rightarrow> handler body w = (Panics, w1)
                     | Diverges \<Rightarrow> handler body w = (Diverges, w1)
                     | Returns (Inl e) \<Rightarrow>
                         handler body w = (Returns (ws, ResponseError (StatusError (Invalid (group_kind (t_TypeMeta tpl)) tid [e]))), w1)
                     | Returns (Inr (vm, msg)) \<Rightarrow>
                         handler body w = (Returns (ws, ResponseObject StatusOK (BodyV1beta1 (processed_template ns tid vm msg))), w1))))"
proof (cases "sv_Decode (ps_client p) JSONBufferSize body")
  case (Inr opts)
  note opts = this
  obtain a w1 where get: "sv_Get (ps_client p) ns tid w = (a, w1)" by force
  show ?thesis
  proof (cases a)
    case (Inr tpl)
    show ?thesis unfolding opts get Inr sum.case prod.case
      by (intro allI impI) (rule stored_template_outcome [OF assms opts get [unfolded Inr]])
  qed (simp add: opts get process_handler [OF assms(2)] ProcessTemplate_def on_processed_def)
qed (simp add: process_handler [OF assms(2)] ProcessTemplate_def on_processed_def)

text \<open>A server that decodes every body to options with the given values and stores the template.\<close>

definition example_options :: "(string \<rightharpoonup> string) \<Rightarrow> ProcessOptions" where
  "example_options m = \<lparr>po_TypeMeta = empty_type, po_Meta = empty_meta, po_Parameters = m\<rparr>"

definition example_server :: "(string \<rightharpoonup> string) \<Rightarrow> Template \<Rightarrow> (unit, unit) template_server" where
  "example_server m tpl = \<lparr>sv_Decode = (\<lambda>n b. Inr (example_options m)), sv_Get = (\<lambda>ns tid w. (Inr tpl, w))\<rparr>"

theorem process_request_outcome_witness:
  "\<exists>handler. ConnectProcessV1beta1 sorted_list_of_set
      \<lparr>ps_client = example_server [''NONE'' \<mapsto> ''y''] (example_template [example_parameter ''NAME'' ''x'']),
       ps_processor = (\<lambda>t. Panics)\<rparr> (Some ''ns'') ''tpl'' = Inr handler \<and>
    handler () () = (Returns ([], ResponseError (StatusError (Conflict ([], []) ''tpl'' ''NONE''))), ())"
proof -
  let ?tpl = "example_template [example_parameter ''NAME'' ''x'']" and ?opts = "example_options [''NONE'' \<mapsto> ''y'']"
  let ?p = "\<lparr>ps_client = example_server [''NONE'' \<mapsto> ''y''] ?tpl, ps_processor = (\<lambda>t. Panics)\<rparr>"
  obtain handler where h: "ConnectProcessV1beta1 sorted_list_of_set ?p (Some ''ns'') ''tpl'' = Inr handler"
    by (simp add: ConnectProcessV1beta1_def)
  have names: "template_names ?tpl = {''NAME''}"
    by (simp add: template_names_def example_template_def example_parameter_def)
  have gk: "group_kind (t_TypeMeta ?tpl) = ([], [])"
    by (simp add: group_kind_def example_template_def empty_type_def parse_group_def)
  have sv: "sv_Decode (ps_client ?p) JSONBufferSize () = Inr ?opts" "sv_Get (ps_client ?p) ''ns'' ''tpl'' () = (Inr ?tpl, ())"
    by (simp_all add: example_server_def)
  have dom: "dom (po_Parameters ?opts) = {''NONE''}" by (simp add: example_options_def)
  have "\<exists>k \<in> {''NONE''} - {''NAME''}. handler () () = (Returns ([], ResponseError (StatusError (Conflict ([], []) ''tpl'' k))), ())"
    using process_request_outcome [OF sorted_range.map_range_axioms h, of "()" "()"] plain_example_template [of "[example_parameter ''NAME'' ''x'']"]
    unfolding sv sum.case prod.case dom names gk by auto
  with h show ?thesis by auto
qed

text \<open>
  The subresource \<^verbatim>\<open>create\<close> is \<^verbatim>\<open>process\<close> followed by one create call: a request that \<^verbatim>\<open>process\<close> answers
  with an error gets that answer and creates nothing; otherwise the VirtualMachine that \<^verbatim>\<open>process\<close> returns
  is created, once, in the namespace of the request, whatever namespace the processed VirtualMachine
  has, and the answer holds the created VirtualMachine.
\<close>

theorem create_is_process_then_create:
  "ConnectCreateV1beta1 iter \<lparr>cs_client = sv, cs_virtClient = vs, cs_processor = processor\<rparr> (Some ns) tid =
   Inr (\<lambda>body w.
     case (case ConnectProcessV1beta1 iter \<lparr>ps_client = sv, ps_processor = processor\<rparr> (Some ns) tid of Inr f \<Rightarrow> f body w) of
       (Returns (ws, ResponseObject c (BodyV1beta1 pt)), w1) \<Rightarrow>
         (case vs_Create vs ns (the (pt_VirtualMachine pt)) w1 of
            (Inl e, w2) \<Rightarrow> (Returns (ws, ResponseError (StatusError (InternalError (''error creating VirtualMachine: '' @ e)))), w2)
          | (Inr vm, w2) \<Rightarrow> (Returns (ws, ResponseObject StatusOK (BodyV1beta1 (pt\<lparr>pt_VirtualMachine := Some vm\<rparr>))), w2))
     | a \<Rightarrow> a)"
proof -
  have "on_processed r (create_processed vs ns (\<lambda>warnings processed. respond (BodyV1beta1 processed) warnings)) =
     (case on_processed r (\<lambda>warnings processed. respond (BodyV1beta1 processed) warnings) of
       (Returns (ws, ResponseObject c (BodyV1beta1 pt)), w1) \<Rightarrow>
         (case vs_Create vs ns (the (pt_VirtualMachine pt)) w1 of
            (Inl e, w2) \<Rightarrow> (Returns (ws, ResponseError (StatusError (InternalError (''error creating VirtualMachine: '' @ e)))), w2)
          | (Inr vm, w2) \<Rightarrow> (Returns (ws, ResponseObject StatusOK (BodyV1beta1 (pt\<lparr>pt_VirtualMachine := Some vm\<rparr>))), w2))
     | a \<Rightarrow> a)" for r :: "(string list \<times> (status_error + processed)) run \<times> 'b"
    by (cases "fst r" rule: run_cases; cases r) (auto simp: on_processed_def create_processed_def respond_def split: prod.split sum.split)
  then show ?thesis by (simp add: ConnectCreateV1beta1_def ConnectProcessV1beta1_def)
qed

text \<open>
  C18.  The v1alpha1 subresource \<^verbatim>\<open>process\<close> answers what the v1beta1 one answers: errors and warnings are the same, and an object is
  the v1beta1 object, with invalid UTF-8 replaced in its strings and the API version of v1alpha1, when the encoding of
  its VirtualMachine is read back as that VirtualMachine.
\<close>

theorem v1alpha1_answers_agree:
  assumes "ConnectProcessV1beta1 iter p (Some ns) tid = Inr beta" "ConnectProcessV1alpha1 iter en p (Some ns) tid = Inr alpha"
    and vm: "\<And>ws vm msg w'. beta body w = (Returns (ws, ResponseObject StatusOK (BodyV1beta1 (processed_template ns tid vm msg))), w') \<Longrightarrow>
      \<exists>t. ve_VM en vm = Some t \<and> codec 1 ((=) ()) (\<lambda>u. t) (ve_readVM en) (\<lambda>u. vm)"
  shows "case beta body w of
      (Returns (ws, ResponseObject c (BodyV1beta1 pt)), w1) \<Rightarrow>
        alpha body w = (Returns (ws, ResponseObject c (BodyV1alpha1 (processed_v1alpha1 pt (the (pt_VirtualMachine pt))))), w1)
    | a \<Rightarrow> alpha body w = a"
proof -
  obtain r w1 where r: "ProcessTemplate iter (ps_client p) (ps_processor p) body ns tid w = (r, w1)" by force
  have b: "beta body w = on_processed (r, w1) (\<lambda>warnings processed. respond (BodyV1beta1 processed) warnings)"
    and a: "alpha body w = on_processed (r, w1) (respond_converted en)"
    using assms(1,2) r by (auto simp: ConnectProcessV1beta1_def ConnectProcessV1alpha1_def)
  show ?thesis
  proof (cases r rule: run_cases)
    case (4 ws pt)
    then obtain vm msg where pt: "pt = processed_template ns tid vm msg"
      using r by (auto simp: ProcessTemplate_def split: sum.splits prod.splits dest!: process_merged_VM)
    have beta: "beta body w = (Returns (ws, ResponseObject StatusOK (BodyV1beta1 pt)), w1)"
      using b 4 by (simp add: on_processed_def respond_def)
    with vm pt obtain t where t: "ve_VM en vm = Some t" "codec 1 ((=) ()) (\<lambda>u. t) (ve_readVM en) (\<lambda>u. vm)" by blast
    have ok: "codec 1 (\<lambda>m. False) (ve_Meta en) (ve_readMeta en) (\<lambda>m. m)" by (rule codec.intro) simp_all
    have "convertProcessedToV1alpha1 en pt = Inr (processed_v1alpha1 pt vm)"
      by (rule processed_converted [OF _ t(1) t(2) ok]) (simp_all add: pt processed_template_def)
    then show ?thesis unfolding beta using a 4 by (simp add: on_processed_def respond_converted_def respond_def pt processed_template_def)
  qed (simp_all add: a b on_processed_def)
qed

definition example_vm_encodings :: "gval vm_encodings" where
  "example_vm_encodings = \<lparr>ve_Meta = (\<lambda>m. ''{}''), ve_readMeta = (\<lambda>v. None), ve_VM = (\<lambda>vm. Some ''{}''),
     ve_readVM = (\<lambda>v. Some (GPtr (TStruct ''VirtualMachine'') None))\<rparr>"

theorem v1alpha1_answers_agree_witness:
  "\<exists>alpha pt. ConnectProcessV1alpha1 sorted_list_of_set example_vm_encodings
       (NewV1beta1ProcessREST example_converter (\<lambda>i k. Inr 0) None
          (example_server Map.empty (example_template [example_parameter ''NAME'' ''x'']))) (Some ''ns'') ''tpl'' = Inr alpha \<and>
     alpha () () = (Returns ([], ResponseObject StatusOK (BodyV1alpha1 pt)), ()) \<and>
     tm_APIVersion (apt_TypeMeta pt) = ''subresources.template.kubevirt.io/v1alpha1''"
proof -
  let ?tpl = "example_template [example_parameter ''NAME'' ''x'']"
  let ?p = "NewV1beta1ProcessREST example_converter (\<lambda>i k. Inr 0) None (example_server Map.empty ?tpl)"
  obtain alpha beta where h: "ConnectProcessV1beta1 sorted_list_of_set ?p (Some ''ns'') ''tpl'' = Inr beta"
    "ConnectProcessV1alpha1 sorted_list_of_set example_vm_encodings ?p (Some ''ns'') ''tpl'' = Inr alpha"
    by (simp add: ConnectProcessV1beta1_def ConnectProcessV1alpha1_def)
  have "given_values sorted_list_of_set (example_options Map.empty) = []" by (simp add: given_values_def example_options_def)
  then have b: "beta () () = (Returns ([], ResponseObject StatusOK (BodyV1beta1
      (processed_template ''ns'' ''tpl'' (GPtr (TStruct ''VirtualMachine'') None) ''see x''))), ())"
    using h(1) by (auto simp: ConnectProcessV1beta1_def NewV1beta1ProcessREST_def ProcessTemplate_def example_server_def
        process_merged_def example_validated default_processor_def example_run on_processed_def respond_def)
  have "codec 1 ((=) ()) (\<lambda>u. ''{}'') (ve_readVM example_vm_encodings) (\<lambda>u. GPtr (TStruct ''VirtualMachine'') None)"
    by (rule codec.intro) (simp_all add: example_vm_encodings_def empty_texts max_nesting_depth_def)
  then have "\<exists>t. ve_VM example_vm_encodings vm = Some t \<and> codec 1 ((=) ()) (\<lambda>u. t) (ve_readVM example_vm_encodings) (\<lambda>u. vm)"
    if "beta () () = (Returns (ws, ResponseObject StatusOK (BodyV1beta1 (processed_template ''ns'' ''tpl'' vm msg))), w')" for ws vm msg w'
    using that b by (auto simp: processed_template_def example_vm_encodings_def)
  from v1alpha1_answers_agree [OF h this, of "()" "()"] b h(2) show ?thesis
    by (auto simp: processed_v1alpha1_def GroupVersion_String_def subresourcesV1alpha1_def SubresourceGroupName_def)
qed

lemma generation_independent:
  "\<forall>param \<in> set ps. p_Value param \<noteq> [] \<or> p_Generate param = [] \<Longrightarrow>
   generate_loop srcs1 gens i ps visited params = generate_loop srcs2 gens i ps visited params"
proof (induction ps arbitrary: i visited params)
  case (Cons param ps)
  then have "generate_value_of (srcs1 i) gens path param = generate_value_of (srcs2 i) gens path param" for path
    by (auto simp: generate_value_of_def)
  with Cons show ?case by (auto simp: Let_def split: option.split sum.split)
qed simp

lemma processing_errors:
  assumes "plain_template tpl obj" "template_references tpl obj \<subseteq> template_names tpl"
  shows "Process conv srcs proc tpl \<noteq> Panics" and
    "Process conv srcs proc tpl = Returns (Inl e) \<Longrightarrow>
       generateParameterValues srcs (ts_Parameters (t_Spec tpl)) (generators_of proc) = Some (Inl e) \<or>
       (\<exists>s. fe_cause e = ConvertFailed s) \<or> (\<exists>t. fe_cause e = SubstituteFailed (VNil t)) \<or>
       (\<exists>t u. fe_cause e = SubstituteFailed (VNotAssignable t u))"
proof -
  have "process_with conv params tpl \<noteq> Panics \<and> (\<forall>e. process_with conv params tpl = Returns (Inl e) \<longrightarrow>
       (\<exists>s. fe_cause e = ConvertFailed s) \<or> (\<exists>t. fe_cause e = SubstituteFailed (VNil t)) \<or>
       (\<exists>t u. fe_cause e = SubstituteFailed (VNotAssignable t u)))"
    if "generateParameterValues srcs (ts_Parameters (t_Spec tpl)) (generators_of proc) = Some (Inr params)" for params
    using process_references [OF assms(1), of params conv] generated_names [OF that] assms(2)
    by (simp add: template_names_def del: set_map)
  note with_params = this
  show "Process conv srcs proc tpl \<noteq> Panics"
    using with_params by (auto simp: Process_def split: option.splits sum.splits)
  show "Process conv srcs proc tpl = Returns (Inl e) \<Longrightarrow>
       generateParameterValues srcs (ts_Parameters (t_Spec tpl)) (generators_of proc) = Some (Inl e) \<or>
       (\<exists>s. fe_cause e = ConvertFailed s) \<or> (\<exists>t. fe_cause e = SubstituteFailed (VNil t)) \<or>
       (\<exists>t u. fe_cause e = SubstituteFailed (VNotAssignable t u))"
    using with_params by (auto simp: Process_def split: option.splits sum.splits)
qed

lemma requested_empty: "po_Parameters opts = Map.empty \<Longrightarrow> requested_template tpl opts = tpl"
proof -
  assume "po_Parameters opts = Map.empty"
  then have "merged_value ps (po_Parameters opts) = (!) ps" for ps by (auto simp: merged_value_def)
  then show ?thesis by (simp add: requested_template_def map_nth)
qed

text \<open>What the admission of a template without skipping says.\<close>

lemma admitted_processes:
  assumes "ValidateCreate_v1beta1 iter conv srcs dp (TemplateV1beta1 tpl) = Returns (warnings, None)"
    and "\<forall>n. ProcessingSkipped n \<notin> set warnings"
  obtains ws vm msg where "ValidateParameterReferences iter tpl = Returns (ws, [])"
    "Process conv srcs (fst (GetDefaultProcessor dp)) tpl = Returns (Inr (vm, msg))"
proof -
  from assms(1) obtain ws pws where v: "ValidateParameterReferences iter tpl = Returns (ws, [])"
    "ValidateProcessing conv srcs dp tpl = Returns (pws, None)" "warnings = map ReferenceWarning ws @ pws"
    by (auto simp: ValidateCreate_v1beta1_def ValidateTemplate_def split: run.splits if_splits)
  then obtain vm msg where "Process conv srcs (fst (GetDefaultProcessor dp)) tpl = Returns (Inr (vm, msg))"
    using assms(2) by (fastforce simp: ValidateProcessing_def Let_def filter_empty_conv split: if_splits run.splits sum.splits)
  with v(1) show thesis by (rule that)
qed

text \<open>
  C9.  What the admission of a template promises for the subresource \<^verbatim>\<open>process\<close>.  Let the webhook admit a template with a plain
  VirtualMachine, without skipping the processing, and let it be stored; the webhook and the handler draw their random
  numbers from sources of their own.  A request that gives values to declared names only is never answered with a conflict, an
  undefined reference or a panic: it is answered with status 200 and the result of the processor, or with an invalid template
  for a single error, which is an error of the parameters or their generators, a value whose JSON does not fit its place or a
  failed conversion to a VirtualMachine; or a generator does not return.  And when the request gives no values and no parameter
  has its value from a generator, then it is answered with status 200 and just the VirtualMachine and message of the webhook's
  own processing.
\<close>

theorem admitted_template_is_served:
  assumes "ValidateCreate_v1beta1 iter conv srcs1 dp (TemplateV1beta1 tpl) = Returns (warnings, None)"
    and "\<forall>n. ProcessingSkipped n \<notin> set warnings" "map_range iter" "plain_template tpl obj"
    and "sv_Decode sv JSONBufferSize body = Inr opts" "sv_Get sv ns tid w = (Inr tpl, w1)"
    and "finite (dom (po_Parameters opts))" "dom (po_Parameters opts) \<subseteq> template_names tpl"
    and "ConnectProcessV1beta1 iter (NewV1beta1ProcessREST conv srcs2 dp sv) (Some ns) tid = Inr handler"
  shows "((\<exists>ws vm msg. Process conv srcs2 (fst (GetDefaultProcessor dp)) (requested_template tpl opts) = Returns (Inr (vm, msg)) \<and>
        handler body w = (Returns (ws, ResponseObject StatusOK (BodyV1beta1 (processed_template ns tid vm msg))), w1)) \<or>
      (\<exists>ws e. handler body w = (Returns (ws, ResponseError (StatusError (Invalid (group_kind (t_TypeMeta tpl)) tid [e]))), w1) \<and>
        (generateParameterValues srcs2 (ts_Parameters (t_Spec (requested_template tpl opts)))
           (generators_of (fst (GetDefaultProcessor dp))) = Some (Inl e) \<or>
         (\<exists>s. fe_cause e = ConvertFailed s) \<or> (\<exists>t. fe_cause e = SubstituteFailed (VNil t)) \<or>
         (\<exists>t u. fe_cause e = SubstituteFailed (VNotAssignable t u)))) \<or>
      (handler body w = (Diverges, w1) \<and> generateParameterValues srcs2 (ts_Parameters (t_Spec (requested_template tpl opts)))
           (generators_of (fst (GetDefaultProcessor dp))) = None)) \<and>
    (po_Parameters opts = Map.empty \<longrightarrow> (\<forall>param \<in> set (ts_Parameters (t_Spec tpl)). p_Value param \<noteq> [] \<or> p_Generate param = []) \<longrightarrow>
      (\<exists>ws vm msg. Process conv srcs1 (fst (GetDefaultProcessor dp)) tpl = Returns (Inr (vm, msg)) \<and>
        handler body w = (Returns (ws, ResponseObject StatusOK (BodyV1beta1 (processed_template ns tid vm msg))), w1)))"
proof -
  let ?t = "requested_template tpl opts" and ?p = "fst (GetDefaultProcessor dp)" and ?r = "NewV1beta1ProcessREST conv srcs2 dp sv"
  obtain ws vm msg where v: "ValidateParameterReferences iter tpl = Returns (ws, [])" "Process conv srcs1 ?p tpl = Returns (Inr (vm, msg))"
    by (rule admitted_processes [OF assms(1,2)])
  have refs: "template_references tpl obj \<subseteq> template_names tpl"
    using process_merged_outcome [OF assms(3,4)] v(1) by (metis (no_types, lifting) Diff_eq_empty_iff Pair_inject list.set(1) map_is_Nil_conv run.inject)
  have t: "plain_template ?t obj" "template_references ?t obj = template_references tpl obj"
    using assms(4) by (simp_all add: requested_template_def)
  have r: "ps_client ?r = sv" "ps_processor ?r = default_processor conv srcs2 dp" by (simp_all add: NewV1beta1ProcessREST_def)
  have none: "template_references tpl obj - template_names tpl = {}" using refs by simp
  note outcome = stored_template_outcome [OF assms(3,9), unfolded r, OF assms(5-7,4)]
  let ?answer = "\<lambda>ws'. case Process conv srcs2 ?p ?t of
        Panics \<Rightarrow> (Panics, w1)
      | Diverges \<Rightarrow> (Diverges, w1)
      | Returns (Inl e) \<Rightarrow> (Returns (ws', ResponseError (StatusError (Invalid (group_kind (t_TypeMeta tpl)) tid [e]))), w1)
      | Returns (Inr (vm, msg)) \<Rightarrow> (Returns (ws', ResponseObject StatusOK (BodyV1beta1 (processed_template ns tid vm msg))), w1)"
  have "\<exists>ws'. handler body w = ?answer ws'"
  proof (cases "Process conv srcs2 ?p ?t")
    case (Returns r)
    then show ?thesis using outcome assms(8) by (cases r) (auto simp: default_processor_def none)
  qed (use outcome assms(8) in \<open>auto simp: default_processor_def none\<close>)
  then obtain ws' where answer: "handler body w = ?answer ws'" by blast
  note errs = processing_errors [OF t(1), of conv srcs2 ?p, unfolded t(2) requested_names, OF refs]
  have div: "generateParameterValues srcs2 (ts_Parameters (t_Spec ?t)) (generators_of ?p) = None" if "Process conv srcs2 ?p ?t = Diverges"
    using that by (auto simp: Process_def process_with_def split: option.splits sum.splits visit_error.splits)
  have "Process conv srcs2 ?p ?t = Process conv srcs1 ?p tpl"
    if "po_Parameters opts = Map.empty" "\<forall>param \<in> set (ts_Parameters (t_Spec tpl)). p_Value param \<noteq> [] \<or> p_Generate param = []"
    unfolding requested_empty [OF that(1)] Process_def generateParameterValues_def generation_independent [OF that(2), of srcs2 _ _ _ _ srcs1] ..
  then have no_values: "po_Parameters opts = Map.empty \<longrightarrow> (\<forall>param \<in> set (ts_Parameters (t_Spec tpl)). p_Value param \<noteq> [] \<or> p_Generate param = []) \<longrightarrow>
      (\<exists>ws vm msg. Process conv srcs1 ?p tpl = Returns (Inr (vm, msg)) \<and>
        handler body w = (Returns (ws, ResponseObject StatusOK (BodyV1beta1 (processed_template ns tid vm msg))), w1))"
    using v(2) answer by simp
  show ?thesis
  proof (rule conjI [OF _ no_values], cases "Process conv srcs2 ?p ?t")
    case (Returns r)
    then show "(\<exists>ws vm msg. Process conv srcs2 ?p ?t = Returns (Inr (vm, msg)) \<and>
        handler body w = (Returns (ws, ResponseObject StatusOK (BodyV1beta1 (processed_template ns tid vm msg))), w1)) \<or>
      (\<exists>ws e. handler body w = (Returns (ws, ResponseError (StatusError (Invalid (group_kind (t_TypeMeta tpl)) tid [e]))), w1) \<and>
        (generateParameterValues srcs2 (ts_Parameters (t_Spec ?t)) (generators_of ?p) = Some (Inl e) \<or>
         (\<exists>s. fe_cause e = ConvertFailed s) \<or> (\<exists>t. fe_cause e = SubstituteFailed (VNil t)) \<or>
         (\<exists>t u. fe_cause e = SubstituteFailed (VNotAssignable t u)))) \<or>
      (handler body w = (Diverges, w1) \<and> generateParameterValues srcs2 (ts_Parameters (t_Spec ?t)) (generators_of ?p) = None)"
      using answer errs(2) by (cases r) auto
  qed (use answer errs(1) div in auto)
qed

theorem admitted_template_is_served_witness:
  "\<exists>handler ws.
     ConnectProcessV1beta1 sorted_list_of_set
       (NewV1beta1ProcessREST example_converter (\<lambda>i k. Inl ''exhausted'') None
          (example_server Map.empty (example_template [example_parameter ''NAME'' ''x'']))) (Some ''ns'') ''tpl'' = Inr handler \<and>
     handler () () = (Returns (ws, ResponseObject StatusOK (BodyV1beta1
       (processed_template ''ns'' ''tpl'' (GPtr (TStruct ''VirtualMachine'') None) ''see x''))), ())"
proof -
  let ?tpl = "example_template [example_parameter ''NAME'' ''x'']" and ?src1 = "\<lambda>i k. Inr 0" and ?src2 = "\<lambda>i k. Inl ''exhausted''"
  have admitted: "ValidateCreate_v1beta1 sorted_list_of_set example_converter ?src1 None (TemplateV1beta1 ?tpl) = Returns ([], None)"
    by (simp add: ValidateCreate_v1beta1_def ValidateTemplate_def example_validated ValidateProcessing_def example_run)
      (simp add: example_template_def example_parameter_def unfilled_def)
  obtain handler where h: "ConnectProcessV1beta1 sorted_list_of_set
      (NewV1beta1ProcessREST example_converter ?src2 None (example_server Map.empty ?tpl)) (Some ''ns'') ''tpl'' = Inr handler"
    by (simp add: ConnectProcessV1beta1_def)
  have sv: "sv_Decode (example_server Map.empty ?tpl) JSONBufferSize () = Inr (example_options Map.empty)"
      "sv_Get (example_server Map.empty ?tpl) ''ns'' ''tpl'' () = (Inr ?tpl, ())"
    by (simp_all add: example_server_def)
  have none: "po_Parameters (example_options Map.empty) = Map.empty" by (simp add: example_options_def)
  have "\<exists>ws vm msg. Process example_converter ?src1 (fst (GetDefaultProcessor None)) ?tpl = Returns (Inr (vm, msg)) \<and>
      handler () () = (Returns (ws, ResponseObject StatusOK (BodyV1beta1 (processed_template ''ns'' ''tpl'' vm msg))), ())"
    using admitted_template_is_served [OF admitted _ sorted_range.map_range_axioms plain_example_template sv _ _ h]
    by (simp add: none) (simp add: example_template_def example_parameter_def)
  with h example_run show ?thesis by auto
qed

end
