(* ===== verification/Apiserver.thy ===== *)
theory Apiserver
  imports Processor "HOL-Library.Product_Lexorder"
begin

text \<open>
  The aggregated API server, \<^verbatim>\<open>internal/apiserver\<close> and \<^verbatim>\<open>cmd/apiserver\<close>: the discovery of the API groups with the
  parent resources hidden, the installation of the groups, and \<^verbatim>\<open>Run\<close>.

  The generic API server is a parameter: a record of steps on a world of any type, with the web services
  of its container as lists of routes.  The order of iterations over maps is a parameter, \<open>iter\<close> for
  strings and \<open>iterG\<close> for group versions.
\<close>

section \<open>Discovery\<close>

definition APIGroupPrefix :: string where "APIGroupPrefix = ''/apis''"

definition MethodGet :: string where "MethodGet = ''GET''"

text \<open>A resource of a discovery document, and the lister that filters them.\<close>

record APIResource =
  res_Name :: string
  res_SingularName :: string
  res_Namespaced :: bool
  res_Kind :: string
  res_Verbs :: "string list"

record 'h filteringAPIResourceLister =
  fl_groupVersion :: string
  fl_originalHandler :: 'h
  fl_resourcesToHide :: "string list"
  fl_cached :: bool
  fl_cachedList :: "APIResource list"

text \<open>The keys of the storages of a version, and the parents of the keys that name a subresource.\<close>

definition parent_name :: "string \<Rightarrow> string" where
  "parent_name resource = takeWhile (\<lambda>c. c \<noteq> CHR ''/'') resource"

definition getParentResourceNames :: "(string set \<Rightarrow> string list) \<Rightarrow> (string \<rightharpoonup> 's) \<Rightarrow> string list" where
  "getParentResourceNames iter resourcesStorage =
     iter (parent_name ` {resource \<in> dom resourcesStorage. strings_Contains resource ''/''})"

text \<open>
  Calling the original handler with a recorder and decoding the recorded body is the parameter \<open>call\<close>: an error
  or the resources of the document.
\<close>

type_synonym ('h, 'w) original_handler = "'h \<Rightarrow> 'w \<Rightarrow> (string + APIResource list) \<times> 'w"

definition lister_get ::
  "('h, 'w) original_handler \<Rightarrow> 'h filteringAPIResourceLister \<Rightarrow> 'w \<Rightarrow> (string + APIResource list) \<times> 'w" where
  "lister_get call f w = call (fl_originalHandler f) w"

definition filter_resources :: "string list \<Rightarrow> APIResource list \<Rightarrow> APIResource list" where
  "filter_resources hidden rs = filter (\<lambda>r. res_Name r \<notin> set hidden) rs"

definition lister_filter ::
  "'h filteringAPIResourceLister \<Rightarrow> APIResource list \<Rightarrow> APIResource list \<times> 'h filteringAPIResourceLister" where
  "lister_filter f unfiltered =
     (let filtered = filter_resources (fl_resourcesToHide f) unfiltered
      in (filtered, f\<lparr>fl_cachedList := filtered, fl_cached := True\<rparr>))"

definition ListAPIResources ::
  "('h, 'w) original_handler \<Rightarrow> 'h filteringAPIResourceLister \<Rightarrow> 'w
    \<Rightarrow> APIResource list \<times> 'h filteringAPIResourceLister \<times> 'w" where
  "ListAPIResources call f w =
     (if fl_cached f then (fl_cachedList f, f, w)
      else
        (case lister_get call f w of
           (Inl err, w1) \<Rightarrow> (fl_cachedList f, f\<lparr>fl_cached := True\<rparr>, w1)
         | (Inr resources, w1) \<Rightarrow> (case lister_filter f resources of (filtered, f') \<Rightarrow> (filtered, f', w1))))"

section \<open>Routes\<close>

text \<open>
  The web services of the server; a route has a handler of the server, or the version handler of a new
  lister, which is given by its group version, original handler and resources to hide.
\<close>

datatype 'h route_function =
    Served 'h
  | Filtering (filtering_gv: string) (filtering_original: "'h route_function") (filtering_hide: "string list")

definition new_lister ::
  "string \<Rightarrow> 'h route_function \<Rightarrow> string list \<Rightarrow> 'h route_function filteringAPIResourceLister" where
  "new_lister gv h hide = \<lparr>fl_groupVersion = gv, fl_originalHandler = h, fl_resourcesToHide = hide, fl_cached = False,
     fl_cachedList = []\<rparr>"

record 'h route =
  rt_Method :: string
  rt_Path :: string
  rt_Function :: "'h route_function"

record 'h web_service =
  ws_RootPath :: string
  ws_Routes :: "'h route list"
  ws_DynamicRoutes :: bool

definition RemoveRoute :: "string \<Rightarrow> string \<Rightarrow> 'h web_service \<Rightarrow> string + 'h web_service" where
  "RemoveRoute path meth ws =
     (if \<not> ws_DynamicRoutes ws then Inl ''dynamic routes are not enabled.''
      else Inr (ws\<lparr>ws_Routes := filter (\<lambda>r. \<not> (rt_Method r = meth \<and> rt_Path r = path)) (ws_Routes ws)\<rparr>))"

text \<open>The path of the web service of a group version: its parts are neither empty nor have a slash.\<close>

definition version_path :: "GroupVersion \<Rightarrow> string" where
  "version_path gv = APIGroupPrefix @ ''/'' @ gv_Group gv @ ''/'' @ gv_Version gv"

definition find_original :: "string \<Rightarrow> 'h web_service \<Rightarrow> 'h route option" where
  "find_original routePath ws = find (\<lambda>r. rt_Method r = MethodGet \<and> rt_Path r = routePath) (ws_Routes ws)"

definition filter_service :: "GroupVersion \<Rightarrow> string list \<Rightarrow> 'h web_service \<Rightarrow> string + 'h web_service" where
  "filter_service gv resourcesToHide ws =
     (let routePath = version_path gv @ ''/'' in
      case find_original routePath ws of
        None \<Rightarrow> Inl (''could not find the APIVersionHandler for '' @ GroupVersion_String gv)
      | Some r \<Rightarrow>
          (case RemoveRoute routePath MethodGet (ws\<lparr>ws_DynamicRoutes := True\<rparr>) of
             Inl err \<Rightarrow> Inl err
           | Inr ws1 \<Rightarrow> Inr (ws1\<lparr>ws_Routes := ws_Routes ws1 @
               [\<lparr>rt_Method = MethodGet, rt_Path = routePath,
                 rt_Function = Filtering (GroupVersion_String gv) (rt_Function r) resourcesToHide\<rparr>]\<rparr>)))"

text \<open>The search for the web service by its root path; it is changed in place.\<close>

fun filter_first :: "GroupVersion \<Rightarrow> string list \<Rightarrow> 'h web_service list \<Rightarrow> string + 'h web_service list" where
  "filter_first gv resourcesToHide [] =
     Inl (''could not find the APIResource WebService for '' @ GroupVersion_String gv)"
| "filter_first gv resourcesToHide (ws # wss) =
     (if ws_RootPath ws = version_path gv then
        (case filter_service gv resourcesToHide ws of Inl err \<Rightarrow> Inl err | Inr ws' \<Rightarrow> Inr (ws' # wss))
      else
        (case filter_first gv resourcesToHide wss of Inl err \<Rightarrow> Inl err | Inr wss' \<Rightarrow> Inr (ws # wss')))"

definition installFilteredAPIVersionHandler ::
  "GroupVersion \<Rightarrow> string list \<Rightarrow> 'h web_service list \<Rightarrow> string + 'h web_service list" where
  "installFilteredAPIVersionHandler gv resourcesToHide container = filter_first gv resourcesToHide container"

section \<open>The server\<close>

type_synonym 's api_groups = "GroupVersion \<rightharpoonup> (string \<rightharpoonup> 's)"

definition getAdditionalAlwaysAllowPaths :: "(GroupVersion set \<Rightarrow> GroupVersion list) \<Rightarrow> 's api_groups \<Rightarrow> string list" where
  "getAdditionalAlwaysAllowPaths iter apiGroups =
     concat (map (\<lambda>gv. [APIGroupPrefix @ ''/'' @ gv_Group gv, APIGroupPrefix @ ''/'' @ GroupVersion_String gv])
       (iter (dom apiGroups)))"

text \<open>The API group infos: per group, the storages per version.\<close>

type_synonym 's group_infos = "string \<rightharpoonup> (string \<rightharpoonup> (string \<rightharpoonup> 's))"

definition add_version :: "'s api_groups \<Rightarrow> GroupVersion \<Rightarrow> 's group_infos \<Rightarrow> 's group_infos" where
  "add_version apiGroups gv result =
     (let gi = (case result (gv_Group gv) of Some gi \<Rightarrow> gi | None \<Rightarrow> Map.empty)
      in result(gv_Group gv \<mapsto> gi(gv_Version gv := apiGroups gv)))"

definition buildAPIGroupInfos :: "(GroupVersion set \<Rightarrow> GroupVersion list) \<Rightarrow> 's api_groups \<Rightarrow> 's group_infos" where
  "buildAPIGroupInfos iter apiGroups = fold (add_version apiGroups) (iter (dom apiGroups)) Map.empty"

text \<open>
  What \<^verbatim>\<open>Run\<close> uses of the generic API server; every step acts on a world.  Creating the server takes the
  paths that are allowed without authorization, and gives the web services it has.
\<close>

record ('s, 'h, 'w) generic_server =
  gs_ApplySecureServing :: "'w \<Rightarrow> (string + unit) \<times> 'w"
  gs_ApplyAuthentication :: "'w \<Rightarrow> (string + unit) \<times> 'w"
  gs_ApplyAuthorization :: "string list \<Rightarrow> 'w \<Rightarrow> (string + unit) \<times> 'w"
  gs_New :: "string \<Rightarrow> 'w \<Rightarrow> (string + 'h web_service list) \<times> 'w"
  gs_InstallAPIGroup :: "string \<Rightarrow> (string \<rightharpoonup> (string \<rightharpoonup> 's)) \<Rightarrow> 'h web_service list \<Rightarrow> 'w \<Rightarrow> (string + 'h web_service list) \<times> 'w"
  gs_Serve :: "'h web_service list \<Rightarrow> 'w \<Rightarrow> (string + unit) \<times> 'w"

text \<open>A step of a state-passing computation that may fail.\<close>

definition seq :: "('w \<Rightarrow> (string + 'a) \<times> 'w) \<Rightarrow> ('a \<Rightarrow> 'w \<Rightarrow> (string + 'b) \<times> 'w) \<Rightarrow> 'w \<Rightarrow> (string + 'b) \<times> 'w" where
  "seq m f w = (case m w of (Inl err, w1) \<Rightarrow> (Inl err, w1) | (Inr a, w1) \<Rightarrow> f a w1)"

fun install_groups ::
  "('s, 'h, 'w) generic_server \<Rightarrow> 's group_infos \<Rightarrow> string list \<Rightarrow> 'h web_service list \<Rightarrow> 'w
    \<Rightarrow> (string + 'h web_service list) \<times> 'w" where
  "install_groups gs infos [] container w = (Inr container, w)"
| "install_groups gs infos (g # groups) container w =
     seq (gs_InstallAPIGroup gs g (the (infos g)) container) (install_groups gs infos groups) w"

fun hide_parents ::
  "(string set \<Rightarrow> string list) \<Rightarrow> 's api_groups \<Rightarrow> GroupVersion list \<Rightarrow> 'h web_service list
    \<Rightarrow> string + 'h web_service list" where
  "hide_parents iter apiGroups [] container = Inr container"
| "hide_parents iter apiGroups (gv # gvs) container =
     (let resourcesToHide = getParentResourceNames iter (the (apiGroups gv)) in
      case (if resourcesToHide \<noteq> [] then installFilteredAPIVersionHandler gv resourcesToHide container
            else Inr container) of
        Inl err \<Rightarrow> Inl err
      | Inr container' \<Rightarrow> hide_parents iter apiGroups gvs container')"

definition always_allow_paths :: "(GroupVersion set \<Rightarrow> GroupVersion list) \<Rightarrow> string list \<Rightarrow> 's api_groups \<Rightarrow> string list" where
  "always_allow_paths iterG paths apiGroups =
     paths @ [''/'', APIGroupPrefix, ''/openapi/v2'', ''/openapi/v3'', ''/openapi/v3/*'']
       @ getAdditionalAlwaysAllowPaths iterG apiGroups"

definition Run ::
  "(string set \<Rightarrow> string list) \<Rightarrow> (GroupVersion set \<Rightarrow> GroupVersion list) \<Rightarrow> ('s, 'h, 'w) generic_server \<Rightarrow> string list
    \<Rightarrow> string \<Rightarrow> 's api_groups \<Rightarrow> 'w \<Rightarrow> (string + unit) \<times> 'w" where
  "Run iter iterG gs paths name apiGroups =
     seq (gs_ApplySecureServing gs) (\<lambda>_.
     seq (gs_ApplyAuthentication gs) (\<lambda>_.
     seq (gs_ApplyAuthorization gs (always_allow_paths iterG paths apiGroups)) (\<lambda>_.
     seq (gs_New gs name) (\<lambda>container.
     seq (install_groups gs (buildAPIGroupInfos iterG apiGroups) (iter (dom (buildAPIGroupInfos iterG apiGroups))) container)
       (\<lambda>container. seq (\<lambda>w. (hide_parents iter apiGroups (iterG (dom apiGroups)) container, w))
       (\<lambda>container. gs_Serve gs container))))))"

text \<open>The API groups of the program.\<close>

datatype rest_storage = DummyREST string | ProcessREST string | CreateREST string

definition version_storages :: "string \<Rightarrow> (string \<rightharpoonup> rest_storage)" where
  "version_storages v = [PluralResourceName \<mapsto> DummyREST v, PluralResourceName @ ''/process'' \<mapsto> ProcessREST v,
     PluralResourceName @ ''/create'' \<mapsto> CreateREST v]"

definition apiGroups :: "rest_storage api_groups" where
  "apiGroups = [subresourcesV1alpha1 \<mapsto> version_storages ''v1alpha1'', subresourcesV1beta1 \<mapsto> version_storages ''v1beta1'']"

text \<open>The main function of the server: the exit code, \<^term>\<open>None\<close> when it returns.\<close>

record 'w apiserver_env =
  ae_GetKubevirtClient :: "'w \<Rightarrow> (string + unit) \<times> 'w"
  ae_NewForConfig :: "'w \<Rightarrow> (string + unit) \<times> 'w"

definition fatal_exit :: nat where "fatal_exit = 255"

definition apiserver_main ::
  "(string set \<Rightarrow> string list) \<Rightarrow> (GroupVersion set \<Rightarrow> GroupVersion list) \<Rightarrow> 'w apiserver_env
    \<Rightarrow> (rest_storage, 'h, 'w) generic_server \<Rightarrow> string list \<Rightarrow> 'w \<Rightarrow> nat option \<times> 'w" where
  "apiserver_main iter iterG ae gs paths w =
     (case ae_GetKubevirtClient ae w of
        (Inl err, w1) \<Rightarrow> (Some fatal_exit, w1)
      | (Inr _, w1) \<Rightarrow>
          (case ae_NewForConfig ae w1 of
             (Inl err, w2) \<Rightarrow> (Some fatal_exit, w2)
           | (Inr _, w2) \<Rightarrow>
               (case Run iter iterG gs paths ''virt-template-apiserver'' apiGroups w2 of
                  (Inl err, w3) \<Rightarrow> (Some 1, w3)
                | (Inr _, w3) \<Rightarrow> (None, w3))))"

section \<open>Listings one after the other\<close>

text \<open>
  Discovery requests of a version that are answered one after the other, by one lister.  (Requests that are answered at the same
  time race for the fields of the lister, which nothing synchronizes; Go promises nothing for them.)
\<close>

fun list_calls ::
  "('h, 'w) original_handler \<Rightarrow> nat \<Rightarrow> 'h filteringAPIResourceLister \<Rightarrow> 'w
    \<Rightarrow> APIResource list list \<times> 'h filteringAPIResourceLister \<times> 'w" where
  "list_calls call 0 f w = ([], f, w)"
| "list_calls call (Suc n) f w =
     (case ListAPIResources call f w of
        (l, f1, w1) \<Rightarrow> (case list_calls call n f1 w1 of (ls, f2, w2) \<Rightarrow> (l # ls, f2, w2)))"

section \<open>Lemmas\<close>

lemma fold_versions:
  assumes "distinct gvs"
  shows "(case fold (add_version groups) gvs infos g of Some gi \<Rightarrow> gi v | None \<Rightarrow> None) =
    (if \<lparr>gv_Group = g, gv_Version = v\<rparr> \<in> set gvs then groups \<lparr>gv_Group = g, gv_Version = v\<rparr>
     else (case infos g of Some gi \<Rightarrow> gi v | None \<Rightarrow> None))"
  using assms
proof (induction gvs arbitrary: infos)
  case (Cons gv gvs)
  obtain g' v' where gv: "gv = \<lparr>gv_Group = g', gv_Version = v'\<rparr>" by (cases gv) auto
  have "(case add_version groups gv infos g of Some gi \<Rightarrow> gi v | None \<Rightarrow> None) =
      (if g = g' \<and> v = v' then groups gv else (case infos g of Some gi \<Rightarrow> gi v | None \<Rightarrow> None))"
    by (auto simp: add_version_def gv Let_def split: option.split)
  with Cons.IH [of "add_version groups gv infos"] Cons.prems gv show ?case by auto
qed simp

lemma dom_fold_versions: "dom (fold (add_version groups) gvs infos) = dom infos \<union> gv_Group ` set gvs"
  by (induction gvs arbitrary: infos) (auto simp: add_version_def Let_def)

text \<open>A lister that has listed once answers from its cache, and does not call the handler again.\<close>

lemma list_calls_cached: "fl_cached f \<Longrightarrow> list_calls call n f w = (replicate n (fl_cachedList f), f, w)"
  by (induction n) (simp_all add: ListAPIResources_def)

text \<open>The discovery routes of a version in a web service, and that they are one route with a filtering handler.\<close>

definition discovery_routes :: "GroupVersion \<Rightarrow> 'h web_service \<Rightarrow> 'h route list" where
  "discovery_routes gv ws = filter (\<lambda>r. rt_Method r = MethodGet \<and> rt_Path r = version_path gv @ ''/'') (ws_Routes ws)"

definition hides :: "GroupVersion \<Rightarrow> string list \<Rightarrow> 'h web_service \<Rightarrow> bool" where
  "hides gv hidden ws \<longleftrightarrow> ws_RootPath ws = version_path gv \<and>
     (\<exists>h. map rt_Function (discovery_routes gv ws) = [Filtering (GroupVersion_String gv) h hidden])"

lemma filter_service_hides:
  fixes ws :: "'h web_service"
  assumes "filter_service gv hidden ws = Inr ws'" "ws_RootPath ws = version_path gv"
  shows "hides gv hidden ws'"
proof -
  let ?P = "\<lambda>r. rt_Method r = MethodGet \<and> rt_Path r = version_path gv @ ''/''"
  have none: "filter ?P (filter (\<lambda>r. \<not> ?P r) rs) = []" for rs :: "'h route list" by simp
  have "\<exists>r :: 'h route. ws' = ws\<lparr>ws_DynamicRoutes := True, ws_Routes := filter (\<lambda>r. \<not> ?P r) (ws_Routes ws) @
      [\<lparr>rt_Method = MethodGet, rt_Path = version_path gv @ ''/'', rt_Function = Filtering (GroupVersion_String gv) (rt_Function r) hidden\<rparr>]\<rparr>"
  proof (cases "find_original (version_path gv @ ''/'') ws")
    case (Some r)
    with assms(1) show ?thesis by - (rule exI [of _ r], simp add: filter_service_def RemoveRoute_def Let_def)
  qed (use assms(1) in \<open>simp add: filter_service_def\<close>)
  with none [of "ws_Routes ws"] assms(2) show ?thesis by (auto simp: hides_def discovery_routes_def)
qed

lemma install_hides:
  "installFilteredAPIVersionHandler gv hidden c = Inr c' \<Longrightarrow>
   (\<exists>ws \<in> set c'. hides gv hidden ws) \<and> (\<forall>ws \<in> set c. ws_RootPath ws \<noteq> version_path gv \<longrightarrow> ws \<in> set c')"
  unfolding installFilteredAPIVersionHandler_def
proof (induction c arbitrary: c')
  case (Cons ws c)
  then show ?case by (auto split: if_splits sum.splits dest: filter_service_hides)
qed simp

lemma hide_parents_hides:
  assumes "hide_parents iter groups gvs c = Inr c'" "distinct (map version_path gvs)"
  shows "(\<forall>ws \<in> set c. ws_RootPath ws \<notin> version_path ` set gvs \<longrightarrow> ws \<in> set c') \<and>
    (\<forall>gv \<in> set gvs. getParentResourceNames iter (the (groups gv)) \<noteq> [] \<longrightarrow>
       (\<exists>ws \<in> set c'. hides gv (getParentResourceNames iter (the (groups gv))) ws))"
  using assms
proof (induction gvs arbitrary: c)
  case (Cons gv gvs)
  let ?h = "getParentResourceNames iter (the (groups gv))"
  from Cons.prems(1) obtain c1 where c1: "(if ?h \<noteq> [] then installFilteredAPIVersionHandler gv ?h c else Inr c) = Inr c1"
    "hide_parents iter groups gvs c1 = Inr c'" by (auto simp: Let_def split: sum.splits if_splits)
  note IH = Cons.IH [OF c1(2)]
  have keep: "\<forall>ws \<in> set c. ws_RootPath ws \<noteq> version_path gv \<longrightarrow> ws \<in> set c1"
    using c1(1) install_hides [of gv ?h c c1] by (auto split: if_splits)
  have "\<exists>ws \<in> set c'. hides gv ?h ws" if "?h \<noteq> []"
  proof -
    from c1(1) that install_hides [of gv ?h c c1] obtain ws where ws: "ws \<in> set c1" "hides gv ?h ws" by (auto split: if_splits)
    then have "ws_RootPath ws \<notin> version_path ` set gvs" using Cons.prems(2) by (auto simp: hides_def)
    with IH Cons.prems(2) ws show ?thesis by auto
  qed
  with IH keep Cons.prems(2) show ?case by auto
qed simp

lemma parent_names:
  assumes "map_range iter"
  shows "getParentResourceNames iter (version_storages v) = [PluralResourceName]"
proof -
  have "strings_Contains PluralResourceName ''/'' = False" "strings_Contains (PluralResourceName @ ''/process'') ''/''"
    "strings_Contains (PluralResourceName @ ''/create'') ''/''" by code_simp+
  then have "parent_name ` {r \<in> dom (version_storages v). strings_Contains r ''/''} =
      parent_name ` {PluralResourceName @ ''/process'', PluralResourceName @ ''/create''}"
    by (auto simp: version_storages_def split: if_splits)
  also have "\<dots> = {PluralResourceName}"
    by (simp add: parent_name_def PluralResourceName_def SingularResourceName_def)
  finally have "getParentResourceNames iter (version_storages v) = iter {PluralResourceName}"
    by (simp only: getParentResourceNames_def)
  moreover have "set (iter {PluralResourceName}) = {PluralResourceName}" "distinct (iter {PluralResourceName})"
    using map_range.iter_set [OF assms] map_range.iter_distinct [OF assms] by blast+
  ultimately show ?thesis by (cases "iter {PluralResourceName}" rule: remdups_adj.cases) auto
qed

text \<open>A result is a failure or satisfies a predicate; a sequence of steps keeps that.\<close>

definition failed_or :: "((string + 'a) \<times> 'w \<Rightarrow> bool) \<Rightarrow> (string + 'a) \<times> 'w \<Rightarrow> bool" where
  "failed_or P r \<longleftrightarrow> (\<exists>err w'. r = (Inl err, w')) \<or> P r"

lemma failed_or_seq:
  "(\<And>a w1. m w = (Inr a, w1) \<Longrightarrow> failed_or P (f a w1)) \<Longrightarrow> failed_or P (seq m f w)"
  by (auto simp: seq_def failed_or_def split: prod.splits sum.splits)

lemma api_groups:
  "dom apiGroups = {subresourcesV1alpha1, subresourcesV1beta1}" "distinct [subresourcesV1alpha1, subresourcesV1beta1]"
  "version_path subresourcesV1alpha1 \<noteq> version_path subresourcesV1beta1"
  "gv \<in> dom apiGroups \<Longrightarrow> \<exists>v. apiGroups gv = Some (version_storages v)"
  by (auto simp: apiGroups_def subresourcesV1alpha1_def subresourcesV1beta1_def version_path_def)

lemma version_paths:
  assumes "map_range iterG"
  shows "set (iterG (dom apiGroups)) = dom apiGroups" "distinct (map version_path (iterG (dom apiGroups)))"
proof -
  have fin: "finite (dom apiGroups)" by (simp add: api_groups(1))
  show set: "set (iterG (dom apiGroups)) = dom apiGroups" using map_range.iter_set [OF assms fin] .
  have "inj_on version_path (dom apiGroups)" using api_groups(3) by (auto simp: api_groups(1) inj_on_def)
  with set map_range.iter_distinct [OF assms fin] show "distinct (map version_path (iterG (dom apiGroups)))"
    by (simp add: distinct_map)
qed

text \<open>An order of the group versions, for examples.\<close>

definition version_order :: "GroupVersion set \<Rightarrow> GroupVersion list" where
  "version_order S = map (\<lambda>(g, v). \<lparr>gv_Group = g, gv_Version = v\<rparr>)
     (sorted_list_of_set ((\<lambda>gv. (gv_Group gv, gv_Version gv)) ` S))"

interpretation version_range: map_range version_order
proof
  fix S :: "GroupVersion set" assume "finite S"
  have eta: "\<lparr>gv_Group = gv_Group gv, gv_Version = gv_Version gv\<rparr> = gv" for gv :: GroupVersion by simp
  show "set (version_order S) = S" using \<open>finite S\<close> by (simp add: version_order_def image_image eta)
  show "distinct (version_order S)" using \<open>finite S\<close> by (auto simp: version_order_def distinct_map inj_on_def)
qed

section \<open>Properties\<close>

text \<open>
  C21.  The API server serves only with filtered discovery of its versions: whatever the steps in front of it do, \<^verbatim>\<open>Run\<close> either
  returns an error, or serves a container in which the discovery route of every version of the program's API (not
  the aggregated discovery document of all groups, which the library keeps beside it) is
  one route with a lister that hides exactly the parent resource of the subresources.
\<close>

theorem server_hides_parents:
  assumes "map_range iter" "map_range iterG"
  shows "(\<exists>err w'. Run iter iterG gs paths name apiGroups w = (Inl err, w')) \<or>
    (\<exists>container w'. Run iter iterG gs paths name apiGroups w = gs_Serve gs container w' \<and>
       (\<forall>gv \<in> dom apiGroups. \<exists>ws \<in> set container. hides gv [PluralResourceName] ws))"
proof -
  let ?P = "\<lambda>r. \<exists>container w'. r = gs_Serve gs container w' \<and>
       (\<forall>gv \<in> dom apiGroups. \<exists>ws \<in> set container. hides gv [PluralResourceName] ws)"
  have served: "?P (gs_Serve gs c' w')" if c: "hide_parents iter apiGroups (iterG (dom apiGroups)) c = Inr c'" for c c' w'
  proof -
    have "\<exists>ws \<in> set c'. hides gv [PluralResourceName] ws" if "gv \<in> dom apiGroups" for gv
    proof -
      obtain v where "the (apiGroups gv) = version_storages v" using api_groups(4) \<open>gv \<in> dom apiGroups\<close> by fastforce
      then have "getParentResourceNames iter (the (apiGroups gv)) = [PluralResourceName]" using parent_names [OF assms(1)] by simp
      moreover have "gv \<in> set (iterG (dom apiGroups))" using version_paths(1) [OF assms(2)] that by simp
      ultimately show ?thesis using hide_parents_hides [OF c version_paths(2) [OF assms(2)]] by fastforce
    qed
    then show ?thesis by blast
  qed
  have last: "failed_or ?P (gs_Serve gs c' w')"
    if "(hide_parents iter apiGroups (iterG (dom apiGroups)) c, w1) = (Inr c', w2)" for c c' w1 w2 w'
    using served [of c c' w'] that by (simp add: failed_or_def)
  have "failed_or ?P (Run iter iterG gs paths name apiGroups w)"
    unfolding Run_def by (intro failed_or_seq) (erule last)
  then show ?thesis by (simp add: failed_or_def)
qed

text \<open>
  The group infos hold every storage once, whatever the order of the iteration over the versions: looking
  up a group and then a version gives the storages of that group version, and the groups are those
  that have a version.
\<close>

theorem group_infos_exact:
  assumes "map_range iterG" "finite (dom groups)"
  shows "(\<forall>g v. (case buildAPIGroupInfos iterG groups g of Some gi \<Rightarrow> gi v | None \<Rightarrow> None) =
      groups \<lparr>gv_Group = g, gv_Version = v\<rparr>) \<and>
    dom (buildAPIGroupInfos iterG groups) = gv_Group ` dom groups"
proof -
  note it = map_range.iter_set [OF assms] map_range.iter_distinct [OF assms]
  show ?thesis unfolding buildAPIGroupInfos_def dom_fold_versions fold_versions [OF it(2)] it(1) by (auto simp: domIff)
qed

theorem group_infos_exact_witness:
  "(case buildAPIGroupInfos version_order apiGroups SubresourceGroupName of Some gi \<Rightarrow> gi ''v1beta1'' | None \<Rightarrow> None) =
     Some (version_storages ''v1beta1'')"
proof -
  have fin: "finite (dom apiGroups)" by (simp add: api_groups(1))
  show ?thesis using group_infos_exact [OF version_range.map_range_axioms fin]
    by (simp add: apiGroups_def subresourcesV1alpha1_def subresourcesV1beta1_def)
qed

definition example_resource :: APIResource where
  "example_resource = \<lparr>res_Name = ''virtualmachinetemplates/process'', res_SingularName = [], res_Namespaced = True,
     res_Kind = ''ProcessedVirtualMachineTemplate'', res_Verbs = [''create'']\<rparr>"

text \<open>
  C20.  Discovery requests of a version, any number of them one after the other, behind a new lister: all get the same list, which
  the answer of the original handler to the first request decides.  It is the list of its resources that are not hidden, in
  their order, or the empty list when the handler fails, which is cached like any other; and the original handler is called for
  the first request only, so that the world of the handler is as that call left it.
\<close>

theorem listings_cached:
  assumes "call h w = (a, w1)"
  shows "\<exists>f. list_calls call (Suc n) (new_lister gv h hidden) w =
    (replicate (Suc n) (case a of Inl err \<Rightarrow> [] | Inr rs \<Rightarrow> filter (\<lambda>r. res_Name r \<notin> set hidden) rs), f, w1)"
proof -
  let ?l = "case a of Inl err \<Rightarrow> [] | Inr rs \<Rightarrow> filter (\<lambda>r. res_Name r \<notin> set hidden) rs"
  obtain f where f: "ListAPIResources call (new_lister gv h hidden) w = (?l, f, w1)" "fl_cached f" "fl_cachedList f = ?l"
    using assms by (cases a) (simp_all add: ListAPIResources_def new_lister_def lister_get_def lister_filter_def filter_resources_def Let_def)
  then show ?thesis using list_calls_cached [OF f(2), of call n w1] by simp
qed

text \<open>The handler counts its calls; in the second example it fails the first time only.\<close>

theorem listings_cached_witness:
  "(\<exists>f. list_calls (\<lambda>h w. (Inr [example_resource, example_resource\<lparr>res_Name := ''virtualmachinetemplates''\<rparr>], Suc w)) 3
      (new_lister ''gv'' (Served ()) [''virtualmachinetemplates'']) 0 = (replicate 3 [example_resource], f, Suc 0)) \<and>
   (\<exists>f. list_calls (\<lambda>h w. (if w = 0 then Inl ''timeout'' else Inr [example_resource], Suc w)) 2
      (new_lister ''gv'' (Served ()) []) 0 = (replicate 2 [], f, Suc 0))"
proof (rule conjI)
  show "\<exists>f. list_calls (\<lambda>h w. (Inr [example_resource, example_resource\<lparr>res_Name := ''virtualmachinetemplates''\<rparr>], Suc w)) 3
      (new_lister ''gv'' (Served ()) [''virtualmachinetemplates'']) 0 = (replicate 3 [example_resource], f, Suc 0)"
    using listings_cached [of "\<lambda>h w. (Inr [example_resource, example_resource\<lparr>res_Name := ''virtualmachinetemplates''\<rparr>], Suc w)"
        "Served ()" 0 "Inr [example_resource, example_resource\<lparr>res_Name := ''virtualmachinetemplates''\<rparr>]" "Suc 0" 2
        "''gv''" "[''virtualmachinetemplates'']"]
    by (simp add: example_resource_def numeral_3_eq_3 numeral_2_eq_2)
  show "\<exists>f. list_calls (\<lambda>h w. (if w = 0 then Inl ''timeout'' else Inr [example_resource], Suc w)) 2
      (new_lister ''gv'' (Served ()) []) 0 = (replicate 2 [], f, Suc 0)"
    using listings_cached [of "\<lambda>h w. (if w = 0 then Inl ''timeout'' else Inr [example_resource], Suc w)" "Served ()" 0
        "Inl ''timeout''" "Suc 0" 1 "''gv''" "[]"]
    by (simp add: numeral_2_eq_2)
qed

theorem server_hides_parents_witness:
  "\<forall>gs :: (rest_storage, unit, unit) generic_server.
     (\<exists>err w'. Run sorted_list_of_set version_order gs [] ''srv'' apiGroups () = (Inl err, w')) \<or>
     (\<exists>container w'. Run sorted_list_of_set version_order gs [] ''srv'' apiGroups () = gs_Serve gs container w' \<and>
        (\<exists>ws \<in> set container. hides subresourcesV1beta1 [PluralResourceName] ws))"
proof
  fix gs :: "(rest_storage, unit, unit) generic_server"
  have "subresourcesV1beta1 \<in> dom apiGroups" by (simp add: api_groups(1))
  with server_hides_parents [OF sorted_range.map_range_axioms version_range.map_range_axioms, of gs "[]" "''srv''" "()"]
  show "(\<exists>err w'. Run sorted_list_of_set version_order gs [] ''srv'' apiGroups () = (Inl err, w')) \<or>
     (\<exists>container w'. Run sorted_list_of_set version_order gs [] ''srv'' apiGroups () = gs_Serve gs container w' \<and>
        (\<exists>ws \<in> set container. hides subresourcesV1beta1 [PluralResourceName] ws))" by meson
qed

end
