(* ===== verification/Manager.thy ===== *)
theory Manager
  imports Availability_Controller
begin

text \<open>
  The main program of the controller manager, \<^verbatim>\<open>cmd/main.go\<close>: the flags, the TLS options of its servers, the
  options of the manager, and the steps that set it up, each of which ends the program when it fails.

  The parsers of cipher suites and TLS versions (\<^verbatim>\<open>k8s.io/component-base/cli/flag\<close>) and the manager of
  controller-runtime are parameters; the steps act on a world of any type.
\<close>

section \<open>Flags\<close>

record flags =
  fg_metricsAddr :: string
  fg_probeAddr :: string
  fg_enableLeaderElection :: bool
  fg_secureMetrics :: bool
  fg_webhookCertPath :: string
  fg_webhookCertName :: string
  fg_webhookCertKey :: string
  fg_metricsCertPath :: string
  fg_metricsCertName :: string
  fg_metricsCertKey :: string
  fg_enableHTTP2 :: bool
  fg_cipherSuites :: string
  fg_minTLSVersion :: string

text \<open>The values without any flag on the command line.\<close>

definition default_flags :: flags where
  "default_flags = \<lparr>fg_metricsAddr = ''0'', fg_probeAddr = '':8081'', fg_enableLeaderElection = False,
     fg_secureMetrics = True, fg_webhookCertPath = [], fg_webhookCertName = ''tls.crt'', fg_webhookCertKey = ''tls.key'',
     fg_metricsCertPath = [], fg_metricsCertName = ''tls.crt'', fg_metricsCertKey = ''tls.key'', fg_enableHTTP2 = False,
     fg_cipherSuites = [], fg_minTLSVersion = []\<rparr>"

section \<open>TLS options\<close>

record tls_config =
  tls_NextProtos :: "string list"
  tls_CipherSuites :: "16 word list"
  tls_MinVersion :: "16 word"

type_synonym tls_opt = "tls_config \<Rightarrow> tls_config"

record tls_parsers =
  tp_CipherSuites :: "string list \<Rightarrow> string + 16 word list"
  tp_Version :: "string \<Rightarrow> string + 16 word"

text \<open>\<^verbatim>\<open>strings.Split\<close> for a separator of one byte.\<close>

fun strings_Split :: "string \<Rightarrow> char \<Rightarrow> string list" where
  "strings_Split [] sep = [[]]"
| "strings_Split (c # cs) sep =
     (if c = sep then [] # strings_Split cs sep
      else (case strings_Split cs sep of p # ps \<Rightarrow> (c # p) # ps | [] \<Rightarrow> [[c]]))"

definition disableHTTP2 :: tls_opt where
  "disableHTTP2 c = c\<lparr>tls_NextProtos := [''http/1.1'']\<rparr>"

text \<open>\<^term>\<open>None\<close> is the exit of the program.\<close>

definition appendCipherSuites :: "tls_parsers \<Rightarrow> tls_opt list \<Rightarrow> string \<Rightarrow> tls_opt list option" where
  "appendCipherSuites tp tlsOpts cipherSuites =
     (if cipherSuites = [] then Some tlsOpts
      else
        (case tp_CipherSuites tp (strings_Split cipherSuites CHR '','') of
           Inl err \<Rightarrow> None
         | Inr cipherSuiteIDs \<Rightarrow> Some (tlsOpts @ [\<lambda>c. c\<lparr>tls_CipherSuites := cipherSuiteIDs\<rparr>])))"

definition appendMinTLSVersion :: "tls_parsers \<Rightarrow> tls_opt list \<Rightarrow> string \<Rightarrow> tls_opt list option" where
  "appendMinTLSVersion tp tlsOpts minTLSVersion =
     (if minTLSVersion = [] then Some tlsOpts
      else
        (case tp_Version tp minTLSVersion of
           Inl err \<Rightarrow> None
         | Inr minTLSVersionID \<Rightarrow> Some (tlsOpts @ [\<lambda>c. c\<lparr>tls_MinVersion := minTLSVersionID\<rparr>])))"

definition tls_options :: "tls_parsers \<Rightarrow> flags \<Rightarrow> tls_opt list option" where
  "tls_options tp fl =
     (let tlsOpts = (if fg_enableHTTP2 fl then [] else [disableHTTP2]) in
      case appendCipherSuites tp tlsOpts (fg_cipherSuites fl) of
        None \<Rightarrow> None
      | Some opts \<Rightarrow> appendMinTLSVersion tp opts (fg_minTLSVersion fl))"

text \<open>A server applies its options to its configuration, in order.\<close>

definition apply_opts :: "tls_opt list \<Rightarrow> tls_config \<Rightarrow> tls_config" where
  "apply_opts opts c = fold (\<lambda>opt c. opt c) opts c"

section \<open>Options of the servers and of the manager\<close>

record webhook_options =
  wo_TLSOpts :: "tls_opt list"
  wo_CertDir :: string
  wo_CertName :: string
  wo_KeyName :: string

definition webhook_server_options :: "flags \<Rightarrow> tls_opt list \<Rightarrow> webhook_options" where
  "webhook_server_options fl tlsOpts =
     (let o1 = \<lparr>wo_TLSOpts = tlsOpts, wo_CertDir = [], wo_CertName = [], wo_KeyName = []\<rparr> in
      if fg_webhookCertPath fl \<noteq> [] then
        o1\<lparr>wo_CertDir := fg_webhookCertPath fl, wo_CertName := fg_webhookCertName fl, wo_KeyName := fg_webhookCertKey fl\<rparr>
      else o1)"

record metrics_options =
  mt_BindAddress :: string
  mt_SecureServing :: bool
  mt_TLSOpts :: "tls_opt list"
  mt_AuthFilter :: bool
  mt_CertDir :: string
  mt_CertName :: string
  mt_KeyName :: string

definition metrics_server_options :: "flags \<Rightarrow> tls_opt list \<Rightarrow> metrics_options" where
  "metrics_server_options fl tlsOpts =
     (let o1 = \<lparr>mt_BindAddress = fg_metricsAddr fl, mt_SecureServing = fg_secureMetrics fl, mt_TLSOpts = tlsOpts,
            mt_AuthFilter = False, mt_CertDir = [], mt_CertName = [], mt_KeyName = []\<rparr>;
          o2 = (if fg_secureMetrics fl then o1\<lparr>mt_AuthFilter := True\<rparr> else o1)
      in if fg_metricsCertPath fl \<noteq> [] then
           o2\<lparr>mt_CertDir := fg_metricsCertPath fl, mt_CertName := fg_metricsCertName fl, mt_KeyName := fg_metricsCertKey fl\<rparr>
         else o2)"

record manager_options =
  mo_Metrics :: metrics_options
  mo_WebhookServer :: webhook_options
  mo_HealthProbeBindAddress :: string
  mo_LeaderElection :: bool
  mo_LeaderElectionID :: string
  mo_ReaderFailOnMissingInformer :: bool
  mo_StripManagedFields :: bool
  mo_ByObject :: "kind list"
  mo_DisableFor :: "kind list"

definition manager_options_of :: "flags \<Rightarrow> tls_opt list \<Rightarrow> kind list \<Rightarrow> kind list \<Rightarrow> manager_options" where
  "manager_options_of fl tlsOpts cacheByObject clientDisableFor =
     \<lparr>mo_Metrics = metrics_server_options fl tlsOpts, mo_WebhookServer = webhook_server_options fl tlsOpts,
      mo_HealthProbeBindAddress = fg_probeAddr fl, mo_LeaderElection = fg_enableLeaderElection fl,
      mo_LeaderElectionID = ''61e1d0f4.kubevirt.io'', mo_ReaderFailOnMissingInformer = True, mo_StripManagedFields = True,
      mo_ByObject = cacheByObject, mo_DisableFor = clientDisableFor\<rparr>"

section \<open>The main function\<close>

record 'w manager_env =
  me_EnableWebhooks :: string
  me_GetConfig :: "('w, unit) api"
  me_Cluster :: "'w availability"
  me_NewManager :: "manager_options \<Rightarrow> ('w, unit) api"
  me_GetVirtClient :: "('w, unit) api"
  me_Registrar :: "'w registrar"
  me_AddAvailability :: "('w, unit) api"
  me_Webhook :: "GroupVersion \<Rightarrow> ('w, unit) api"
  me_AddHealthzCheck :: "('w, unit) api"
  me_AddReadyzCheck :: "('w, unit) api"
  me_Start :: "('w, unit) api"

text \<open>
  The steps behind the configuration of the caches, and the call that each of them makes.  A step that fails ends the
  program with code 1, and no later one is run; the log has the steps that were run, with what their calls returned.
\<close>

datatype setup_step =
    NewManager | GetVirtClient | SetupTemplateController | AddAvailability | SetupWebhook GroupVersion
  | AddHealthz | AddReadyz | StartManager

fun step_call :: "'w manager_env \<Rightarrow> manager_options \<Rightarrow> setup_step \<Rightarrow> ('w, unit) api" where
  "step_call me opts NewManager = me_NewManager me opts"
| "step_call me opts GetVirtClient = me_GetVirtClient me"
| "step_call me opts SetupTemplateController = SetupTemplatesWithManager (me_Registrar me)"
| "step_call me opts AddAvailability = me_AddAvailability me"
| "step_call me opts (SetupWebhook gv) = me_Webhook me gv"
| "step_call me opts AddHealthz = me_AddHealthzCheck me"
| "step_call me opts AddReadyz = me_AddReadyzCheck me"
| "step_call me opts StartManager = me_Start me"

type_synonym setup_log = "(setup_step \<times> (api_error + unit)) list"

fun run_steps :: "(setup_step \<Rightarrow> ('w, unit) api) \<Rightarrow> setup_step list \<Rightarrow> 'w \<Rightarrow> setup_log \<times> nat option \<times> 'w" where
  "run_steps act [] w = ([], None, w)"
| "run_steps act (step # steps) w =
     (case act step w of
        (Inl err, w1) \<Rightarrow> ([(step, Inl err)], Some 1, w1)
      | (Inr u, w1) \<Rightarrow> (case run_steps act steps w1 of (log, r, w2) \<Rightarrow> ((step, Inr u) # log, r, w2)))"

definition setupWebhooks :: "setup_step list" where
  "setupWebhooks = [SetupWebhook coreV1alpha1, SetupWebhook coreV1beta1]"

definition setup_steps :: "'w manager_env \<Rightarrow> setup_step list" where
  "setup_steps me =
     [NewManager, GetVirtClient, SetupTemplateController, AddAvailability]
     @ (if me_EnableWebhooks me \<noteq> ''false'' then setupWebhooks else [])
     @ [AddHealthz, AddReadyz, StartManager]"

text \<open>The log, the exit code (\<^term>\<open>None\<close> when main returns) and the world.\<close>

definition manager_main :: "tls_parsers \<Rightarrow> 'w manager_env \<Rightarrow> flags \<Rightarrow> 'w \<Rightarrow> setup_log \<times> nat option \<times> 'w" where
  "manager_main tp me fl w =
     (case tls_options tp fl of
        None \<Rightarrow> ([], Some 1, w)
      | Some tlsOpts \<Rightarrow>
          (case me_GetConfig me w of
             (Inl err, w1) \<Rightarrow> ([], Some 1, w1)
           | (Inr _, w1) \<Rightarrow>
               (case ExternalCRDCacheConfig (me_Cluster me) w1 of
                  ((cacheByObject, clientDisableFor), w2) \<Rightarrow>
                    run_steps (step_call me (manager_options_of fl tlsOpts cacheByObject clientDisableFor)) (setup_steps me) w2)))"

section \<open>Lemmas\<close>

text \<open>
  The calls of a log, made one after the other: each returns what the log says, in the world that the one before it left.
\<close>

fun made_calls :: "(setup_step \<Rightarrow> ('w, unit) api) \<Rightarrow> setup_log \<Rightarrow> 'w \<Rightarrow> 'w \<Rightarrow> bool" where
  "made_calls act [] w w' \<longleftrightarrow> w' = w"
| "made_calls act ((step, a) # log) w w' \<longleftrightarrow> (\<exists>w1. act step w = (a, w1) \<and> made_calls act log w1 w')"

lemma run_steps_log:
  "run_steps act steps w = (log, r, w') \<Longrightarrow> made_calls act log w w' \<and>
   (case r of
      None \<Rightarrow> log = map (\<lambda>s. (s, Inr ())) steps
    | Some c \<Rightarrow> c = 1 \<and> (\<exists>n < length steps. \<exists>err. log = map (\<lambda>s. (s, Inr ())) (take n steps) @ [(steps ! n, Inl err)]))"
proof (induction steps arbitrary: w log)
  case (Cons s steps)
  obtain a w1 where a: "act s w = (a, w1)" by force
  show ?case
  proof (cases a)
    case (Inl e)
    then show ?thesis using Cons.prems by (auto simp: a intro!: exI [of _ "0 :: nat"])
  next
    case (Inr u)
    with Cons.prems obtain d where d: "run_steps act steps w1 = (d, r, w')" "log = (s, Inr ()) # d"
      by (auto simp: a split: prod.splits)
    show ?thesis
    proof (cases r)
      case (Some c)
      with Cons.IH [OF d(1)] obtain n err where "n < length steps" "d = map (\<lambda>s. (s, Inr ())) (take n steps) @ [(steps ! n, Inl err)]"
        by auto
      then have "Suc n < length (s # steps) \<and> log = map (\<lambda>s. (s, Inr ())) (take (Suc n) (s # steps)) @ [((s # steps) ! Suc n, Inl err)]"
        using d(2) by simp
      then show ?thesis using Cons.IH [OF d(1)] a Inr d(2) Some by (auto simp del: take_Suc_Cons nth_Cons_Suc)
    qed (use Cons.IH [OF d(1)] a Inr d(2) in auto)
  qed
qed simp

section \<open>Properties\<close>

text \<open>
  The TLS configuration of the webhook and metrics servers: HTTP/2 is off unless it is enabled, cipher
  suites and the minimum version are what the flags name or else those of the configuration the options
  are applied to, both servers get the same options, and flags that do not parse end the program
  before any step.
\<close>

theorem tls_configuration:
  "case tls_options tp fl of
     None \<Rightarrow> manager_main tp me fl w = ([], Some 1, w) \<and>
       (isl (tp_CipherSuites tp (strings_Split (fg_cipherSuites fl) CHR '','')) \<or> isl (tp_Version tp (fg_minTLSVersion fl)))
   | Some opts \<Rightarrow>
       apply_opts opts c =
         \<lparr>tls_NextProtos = (if fg_enableHTTP2 fl then tls_NextProtos c else [''http/1.1'']),
          tls_CipherSuites = (if fg_cipherSuites fl = [] then tls_CipherSuites c
            else projr (tp_CipherSuites tp (strings_Split (fg_cipherSuites fl) CHR '',''))),
          tls_MinVersion = (if fg_minTLSVersion fl = [] then tls_MinVersion c
            else projr (tp_Version tp (fg_minTLSVersion fl)))\<rparr> \<and>
       wo_TLSOpts (webhook_server_options fl opts) = opts \<and> mt_TLSOpts (metrics_server_options fl opts) = opts"
proof (cases "tls_options tp fl")
  case None
  then show ?thesis
    by (auto simp: manager_main_def tls_options_def appendCipherSuites_def appendMinTLSVersion_def Let_def
        split: if_splits sum.splits option.splits)
next
  case (Some opts)
  then have "apply_opts opts c =
         \<lparr>tls_NextProtos = (if fg_enableHTTP2 fl then tls_NextProtos c else [''http/1.1'']),
          tls_CipherSuites = (if fg_cipherSuites fl = [] then tls_CipherSuites c
            else projr (tp_CipherSuites tp (strings_Split (fg_cipherSuites fl) CHR '',''))),
          tls_MinVersion = (if fg_minTLSVersion fl = [] then tls_MinVersion c
            else projr (tp_Version tp (fg_minTLSVersion fl)))\<rparr>"
    by (auto simp: tls_options_def appendCipherSuites_def appendMinTLSVersion_def Let_def apply_opts_def disableHTTP2_def
        split: if_splits sum.splits option.splits)
  then show ?thesis using Some by (simp add: webhook_server_options_def metrics_server_options_def Let_def)
qed


definition example_env :: "unit manager_env" where
  "example_env = \<lparr>me_EnableWebhooks = [], me_GetConfig = (\<lambda>w. (Inr (), w)), me_Cluster = waiting_cluster,
     me_NewManager = (\<lambda>opts w. (Inr (), w)), me_GetVirtClient = (\<lambda>w. (Inr (), w)),
     me_Registrar = \<lparr>mg_IndexField = (\<lambda>n f w. (Inr (), w)), mg_Complete = (\<lambda>n ks w. (Inr (), w))\<rparr>,
     me_AddAvailability = (\<lambda>w. (Inr (), w)), me_Webhook = (\<lambda>gv w. (Inr (), w)), me_AddHealthzCheck = (\<lambda>w. (Inr (), w)),
     me_AddReadyzCheck = (\<lambda>w. (Inr (), w)), me_Start = (\<lambda>w. (Inr (), w))\<rparr>"

definition example_parsers :: tls_parsers where
  "example_parsers = \<lparr>tp_CipherSuites = (\<lambda>s. Inl ''unknown''), tp_Version = (\<lambda>s. Inl ''unknown'')\<rparr>"


end
