(* ===== verification/Go_Heap.thy ===== *)
theory Go_Heap
  imports Api_Types "HOL-Library.Sublist" "HOL-Library.Monad_Syntax"
begin

text \<open>
  Go's heap, as far as the generated deep copies use it: pointers, slices and maps are references to
  cells, a struct is a value that may hold references.  A heap is the list of its cells, an address is
  a position in it, and an allocation appends a cell, so addresses are never reused.  A function that
  follows references is a function on heaps whose value is \<^term>\<open>None\<close> when a reference dangles or leads to
  a cell of another type, which Go's type system excludes.

  The locale \<open>deep_copy\<close> is the contract of \<^verbatim>\<open>DeepCopy\<close> functions.  It speaks of what can be read through
  a value, the view, and of the cells that are read, its footprint: a copy leaves every existing cell alone,
  reads like the original, and lives in new cells only.  Inside the locale follows what the callers
  rely on: later writes to the one do not show in the other.  The rules after it build copies of pointers,
  slices, maps and structs from those of their parts.
\<close>

type_synonym address = nat

definition load :: "'c list \<Rightarrow> address \<Rightarrow> 'c option" where
  "load h a = (if a < length h then Some (h ! a) else None)"

definition alloc :: "'c \<Rightarrow> 'c list \<Rightarrow> address \<times> 'c list" where
  "alloc c h = (length h, h @ [c])"

definition store :: "address \<Rightarrow> 'c \<Rightarrow> 'c list \<Rightarrow> 'c list" where
  "store a c h = h[a := c]"

text \<open>A slice: its array and the window of it that the slice shows.  A nil pointer, slice or map is \<^term>\<open>None\<close>.\<close>

record slice =
  sl_array :: address
  sl_offset :: nat
  sl_len :: nat

definition window :: "slice \<Rightarrow> 'a list \<Rightarrow> 'a list option" where
  "window s xs = (if sl_offset s + sl_len s \<le> length xs then Some (take (sl_len s) (drop (sl_offset s) xs)) else None)"

definition load_as :: "('c \<Rightarrow> 'a option) \<Rightarrow> address \<Rightarrow> 'c list \<Rightarrow> 'a option" where
  "load_as project a h = Option.bind (load h a) project"

text \<open>
  \<^verbatim>\<open>new(T)\<close> or \<^verbatim>\<open>make([]T, n)\<close>, followed by \<^verbatim>\<open>DeepCopyInto\<close> from the old cell to the new one: the new cell gets the
  shallow copy (the statement \<^verbatim>\<open>*out = *in\<close>) and then its references are replaced by copies.
\<close>

definition copy_cell ::
    "('a \<Rightarrow> 'c) \<Rightarrow> ('a \<Rightarrow> 'c list \<Rightarrow> ('a \<times> 'c list) option) \<Rightarrow> 'a \<Rightarrow> 'c list \<Rightarrow> (address \<times> 'c list) option" where
  "copy_cell mk copy x h =
     (let (b, h1) = alloc (mk x) h in
      do { (y, h2) \<leftarrow> copy x h1; Some (b, store b (mk y) h2) })"

fun copy_list :: "('a \<Rightarrow> 'h \<Rightarrow> ('a \<times> 'h) option) \<Rightarrow> 'a list \<Rightarrow> 'h \<Rightarrow> ('a list \<times> 'h) option" where
  "copy_list copy [] h = Some ([], h)"
| "copy_list copy (x # xs) h =
     do { (y, h) \<leftarrow> copy x h; (ys, h) \<leftarrow> copy_list copy xs h; Some (y # ys, h) }"

definition copy_flat :: "'a \<Rightarrow> 'h \<Rightarrow> ('a \<times> 'h) option" where
  "copy_flat x h = Some (x, h)"

definition copy_pointer ::
    "('a \<Rightarrow> 'c) \<Rightarrow> ('c \<Rightarrow> 'a option) \<Rightarrow> ('a \<Rightarrow> 'c list \<Rightarrow> ('a \<times> 'c list) option) \<Rightarrow> address option \<Rightarrow> 'c list
      \<Rightarrow> (address option \<times> 'c list) option" where
  "copy_pointer mk project copy p h = (case p of
     None \<Rightarrow> Some (None, h)
   | Some a \<Rightarrow> do { x \<leftarrow> load_as project a h; (b, h) \<leftarrow> copy_cell mk copy x h; Some (Some b, h) })"

definition copy_slice ::
    "('a list \<Rightarrow> 'c) \<Rightarrow> ('c \<Rightarrow> 'a list option) \<Rightarrow> ('a \<Rightarrow> 'c list \<Rightarrow> ('a \<times> 'c list) option) \<Rightarrow> slice option \<Rightarrow> 'c list
      \<Rightarrow> (slice option \<times> 'c list) option" where
  "copy_slice mk project copy p h = (case p of
     None \<Rightarrow> Some (None, h)
   | Some s \<Rightarrow> do {
       xs \<leftarrow> load_as project (sl_array s) h; ws \<leftarrow> window s xs;
       (b, h) \<leftarrow> copy_cell mk (copy_list copy) ws h;
       Some (Some \<lparr>sl_array = b, sl_offset = 0, sl_len = length ws\<rparr>, h) })"

text \<open>An interface value that may be nil, with the copy of what it holds.\<close>

definition copy_option :: "('a \<Rightarrow> 'h \<Rightarrow> ('a \<times> 'h) option) \<Rightarrow> 'a option \<Rightarrow> 'h \<Rightarrow> ('a option \<times> 'h) option" where
  "copy_option copy p h = (case p of None \<Rightarrow> Some (None, h) | Some x \<Rightarrow> do { (y, h) \<leftarrow> copy x h; Some (Some y, h) })"

section \<open>The contract of a deep copy\<close>

text \<open>Two heaps have the same cells at the addresses \<open>A\<close>.\<close>

definition agree_on :: "address set \<Rightarrow> 'c list \<Rightarrow> 'c list \<Rightarrow> bool" where
  "agree_on A h h' \<longleftrightarrow> (\<forall>a \<in> A. load h a = load h' a)"

locale deep_copy =
  fixes copy :: "'a \<Rightarrow> 'c list \<Rightarrow> ('a \<times> 'c list) option"
    and foot :: "'c list \<Rightarrow> 'a \<Rightarrow> address set"
    and view :: "'c list \<Rightarrow> 'a \<Rightarrow> 'v option"
  assumes foot_bounded: "view h x = Some v \<Longrightarrow> foot h x \<subseteq> {..<length h}"
    and frame: "view h x = Some v \<Longrightarrow> agree_on (foot h x) h h' \<Longrightarrow> view h' x = Some v \<and> foot h' x = foot h x"
    and copies: "view h x = Some v \<Longrightarrow>
      \<exists>y h'. copy x h = Some (y, h') \<and> prefix h h' \<and> view h' y = Some v \<and> foot h' y \<subseteq> {length h..<length h'}"
begin

lemma foot_less: "view h x = Some v \<Longrightarrow> a \<in> foot h x \<Longrightarrow> a < length h"
  using foot_bounded by blast

lemma view_mono:
  assumes "view h x = Some v" "prefix h h'"
  shows "view h' x = Some v" "foot h' x = foot h x"
proof -
  have "agree_on (foot h x) h h'"
    using foot_bounded [OF assms(1)] assms(2) by (auto simp: agree_on_def load_def prefix_def nth_append)
  then show "view h' x = Some v" "foot h' x = foot h x"
    using frame [OF assms(1)] by blast+
qed

text \<open>What is written to the cells of the one, or to new cells, does not show in the other.\<close>

lemma independent:
  assumes "view h x = Some v" "copy x h = Some (y, h')"
  shows "view h' y = Some v" "view h' x = Some v"
    and "agree_on {length h..<length h'} h' h2 \<Longrightarrow> view h2 y = Some v"
    and "agree_on {..<length h} h' h2 \<Longrightarrow> view h2 x = Some v"
proof -
  obtain y' k where k: "copy x h = Some (y', k)" "prefix h k" "view k y' = Some v" "foot k y' \<subseteq> {length h..<length k}"
    using copies [OF assms(1)] by blast
  then have eq: "y' = y" "k = h'"
    using assms(2) by auto
  show y: "view h' y = Some v" and x: "view h' x = Some v"
    using k(2,3) eq view_mono(1) [OF assms(1)] by simp_all
  show "agree_on {length h..<length h'} h' h2 \<Longrightarrow> view h2 y = Some v"
    using frame [OF y, of h2] k(4) unfolding eq agree_on_def by blast
  have "foot h' x \<subseteq> {..<length h}"
    using view_mono(2) [OF assms(1) k(2)] foot_bounded [OF assms(1)] unfolding eq by simp
  then show "agree_on {..<length h} h' h2 \<Longrightarrow> view h2 x = Some v"
    using frame [OF x, of h2] unfolding agree_on_def by blast
qed

end

section \<open>Views and footprints of references\<close>

definition view_pointer :: "('c \<Rightarrow> 'a option) \<Rightarrow> ('c list \<Rightarrow> 'a \<Rightarrow> 'v option) \<Rightarrow> 'c list \<Rightarrow> address option \<Rightarrow> 'v option option" where
  "view_pointer project view h p = (case p of
     None \<Rightarrow> Some None
   | Some a \<Rightarrow> do { x \<leftarrow> load_as project a h; v \<leftarrow> view h x; Some (Some v) })"

definition foot_pointer :: "('c \<Rightarrow> 'a option) \<Rightarrow> ('c list \<Rightarrow> 'a \<Rightarrow> address set) \<Rightarrow> 'c list \<Rightarrow> address option \<Rightarrow> address set" where
  "foot_pointer project foot h p = (case p of
     None \<Rightarrow> {}
   | Some a \<Rightarrow> insert a (case load_as project a h of None \<Rightarrow> {} | Some x \<Rightarrow> foot h x))"

fun view_list :: "('h \<Rightarrow> 'a \<Rightarrow> 'v option) \<Rightarrow> 'h \<Rightarrow> 'a list \<Rightarrow> 'v list option" where
  "view_list view h [] = Some []"
| "view_list view h (x # xs) = do { v \<leftarrow> view h x; vs \<leftarrow> view_list view h xs; Some (v # vs) }"

definition foot_list :: "('h \<Rightarrow> 'a \<Rightarrow> address set) \<Rightarrow> 'h \<Rightarrow> 'a list \<Rightarrow> address set" where
  "foot_list foot h xs = (\<Union>x \<in> set xs. foot h x)"

definition view_slice :: "('c \<Rightarrow> 'a list option) \<Rightarrow> ('c list \<Rightarrow> 'a \<Rightarrow> 'v option) \<Rightarrow> 'c list \<Rightarrow> slice option \<Rightarrow> 'v list option option" where
  "view_slice project view h p = (case p of
     None \<Rightarrow> Some None
   | Some s \<Rightarrow> do { xs \<leftarrow> load_as project (sl_array s) h; ws \<leftarrow> window s xs; vs \<leftarrow> view_list view h ws; Some (Some vs) })"

definition foot_slice :: "('c \<Rightarrow> 'a list option) \<Rightarrow> ('c list \<Rightarrow> 'a \<Rightarrow> address set) \<Rightarrow> 'c list \<Rightarrow> slice option \<Rightarrow> address set" where
  "foot_slice project foot h p = (case p of
     None \<Rightarrow> {}
   | Some s \<Rightarrow> insert (sl_array s)
       (case Option.bind (load_as project (sl_array s) h) (window s) of None \<Rightarrow> {} | Some ws \<Rightarrow> foot_list foot h ws))"

definition view_flat :: "'h \<Rightarrow> 'a \<Rightarrow> 'a option" where
  "view_flat h x = Some x"

definition foot_flat :: "'h \<Rightarrow> 'a \<Rightarrow> address set" where
  "foot_flat h x = {}"

definition view_option :: "('h \<Rightarrow> 'a \<Rightarrow> 'v option) \<Rightarrow> 'h \<Rightarrow> 'a option \<Rightarrow> 'v option option" where
  "view_option view h p = (case p of None \<Rightarrow> Some None | Some x \<Rightarrow> do { v \<leftarrow> view h x; Some (Some v) })"

definition foot_option :: "('h \<Rightarrow> 'a \<Rightarrow> address set) \<Rightarrow> 'h \<Rightarrow> 'a option \<Rightarrow> address set" where
  "foot_option foot h p = (case p of None \<Rightarrow> {} | Some x \<Rightarrow> foot h x)"

text \<open>Two references after each other, and a struct with the references \<open>get s\<close> in it and \<open>rest s\<close> beside them.\<close>

definition copy_pair ::
    "('a \<Rightarrow> 'h \<Rightarrow> ('a \<times> 'h) option) \<Rightarrow> ('b \<Rightarrow> 'h \<Rightarrow> ('b \<times> 'h) option) \<Rightarrow> 'a \<times> 'b \<Rightarrow> 'h \<Rightarrow> (('a \<times> 'b) \<times> 'h) option" where
  "copy_pair f g p h = do { (x, h) \<leftarrow> f (fst p) h; (y, h) \<leftarrow> g (snd p) h; Some ((x, y), h) }"

definition view_pair :: "('h \<Rightarrow> 'a \<Rightarrow> 'v option) \<Rightarrow> ('h \<Rightarrow> 'b \<Rightarrow> 'w option) \<Rightarrow> 'h \<Rightarrow> 'a \<times> 'b \<Rightarrow> ('v \<times> 'w) option" where
  "view_pair f g h p = do { v \<leftarrow> f h (fst p); w \<leftarrow> g h (snd p); Some (v, w) }"

definition foot_pair :: "('h \<Rightarrow> 'a \<Rightarrow> address set) \<Rightarrow> ('h \<Rightarrow> 'b \<Rightarrow> address set) \<Rightarrow> 'h \<Rightarrow> 'a \<times> 'b \<Rightarrow> address set" where
  "foot_pair f g h p = f h (fst p) \<union> g h (snd p)"

definition copy_struct :: "('s \<Rightarrow> 'a) \<Rightarrow> ('a \<Rightarrow> 's \<Rightarrow> 's) \<Rightarrow> ('a \<Rightarrow> 'h \<Rightarrow> ('a \<times> 'h) option) \<Rightarrow> 's \<Rightarrow> 'h \<Rightarrow> ('s \<times> 'h) option" where
  "copy_struct get put copy s h = do { (x, h) \<leftarrow> copy (get s) h; Some (put x s, h) }"

definition view_struct :: "('s \<Rightarrow> 'a) \<Rightarrow> ('s \<Rightarrow> 'r) \<Rightarrow> ('h \<Rightarrow> 'a \<Rightarrow> 'v option) \<Rightarrow> 'h \<Rightarrow> 's \<Rightarrow> ('r \<times> 'v) option" where
  "view_struct get rest view h s = do { v \<leftarrow> view h (get s); Some (rest s, v) }"

section \<open>Rules\<close>

named_theorems deep_copy_rules \<open>rules that build a deep copy of a type from deep copies of its parts\<close>

lemma load_as_bounded: "load_as project a h = Some x \<Longrightarrow> a < length h"
  by (simp add: load_as_def load_def split: if_splits)

lemma deep_copy_flat [deep_copy_rules]: "deep_copy copy_flat foot_flat view_flat"
  by unfold_locales (auto simp: copy_flat_def view_flat_def foot_flat_def)

lemma deep_copy_option [deep_copy_rules]:
  assumes "deep_copy c f v"
  shows "deep_copy (copy_option c) (foot_option f) (view_option v)"
proof
  fix h p w assume "view_option v h p = Some w"
  then show "foot_option f h p \<subseteq> {..<length h}"
    by (auto simp: view_option_def foot_option_def bind_eq_Some_conv split: option.splits dest: deep_copy.foot_less [OF assms])
next
  fix h p w h' assume "view_option v h p = Some w" "agree_on (foot_option f h p) h h'"
  then show "view_option v h' p = Some w \<and> foot_option f h' p = foot_option f h p"
    by (cases p) (auto simp: view_option_def foot_option_def bind_eq_Some_conv dest: deep_copy.frame [OF assms])
next
  fix h p w assume "view_option v h p = Some w"
  then show "\<exists>q h'. copy_option c p h = Some (q, h') \<and> prefix h h' \<and> view_option v h' q = Some w \<and>
      foot_option f h' q \<subseteq> {length h..<length h'}"
    by (cases p) (force simp: copy_option_def view_option_def foot_option_def bind_eq_Some_conv dest: deep_copy.copies [OF assms])+
qed

lemma deep_copy_pair [deep_copy_rules]:
  assumes "deep_copy c1 f1 v1" "deep_copy c2 f2 v2"
  shows "deep_copy (copy_pair c1 c2) (foot_pair f1 f2) (view_pair v1 v2)"
proof -
  note one = assms(1) and two = assms(2)
  show ?thesis
  proof
    fix h x v assume "view_pair v1 v2 h x = Some v"
    then show "foot_pair f1 f2 h x \<subseteq> {..<length h}"
      by (auto simp: view_pair_def foot_pair_def bind_eq_Some_conv
          dest: deep_copy.foot_less [OF one] deep_copy.foot_less [OF two])
  next
    fix h x v h' assume v: "view_pair v1 v2 h x = Some v" and "agree_on (foot_pair f1 f2 h x) h h'"
    then have agree: "agree_on (f1 h (fst x)) h h'" "agree_on (f2 h (snd x)) h h'"
      by (auto simp: foot_pair_def agree_on_def)
    obtain a b where "v1 h (fst x) = Some a" "v2 h (snd x) = Some b" "v = (a, b)"
      using v by (auto simp: view_pair_def bind_eq_Some_conv)
    with deep_copy.frame [OF one _ agree(1)] deep_copy.frame [OF two _ agree(2)]
    show "view_pair v1 v2 h' x = Some v \<and> foot_pair f1 f2 h' x = foot_pair f1 f2 h x"
      by (simp add: view_pair_def foot_pair_def)
  next
    fix h x v assume "view_pair v1 v2 h x = Some v"
    then obtain a b where v: "v1 h (fst x) = Some a" "v2 h (snd x) = Some b" "v = (a, b)"
      by (auto simp: view_pair_def bind_eq_Some_conv)
    obtain y h1 where y: "c1 (fst x) h = Some (y, h1)" "prefix h h1" "v1 h1 y = Some a" "f1 h1 y \<subseteq> {length h..<length h1}"
      using deep_copy.copies [OF one v(1)] by blast
    obtain z h2 where z: "c2 (snd x) h1 = Some (z, h2)" "prefix h1 h2" "v2 h2 z = Some b" "f2 h2 z \<subseteq> {length h1..<length h2}"
      using deep_copy.copies [OF two deep_copy.view_mono(1) [OF two v(2) y(2)]] by blast
    have "v1 h2 y = Some a" "f1 h2 y = f1 h1 y"
      using deep_copy.view_mono [OF one y(3) z(2)] by auto
    moreover have "length h \<le> length h1" "length h1 \<le> length h2" "prefix h h2"
      using y(2) z(2) by (auto dest: prefix_length_le)
    ultimately show "\<exists>y h'. copy_pair c1 c2 x h = Some (y, h') \<and> prefix h h' \<and> view_pair v1 v2 h' y = Some v \<and>
        foot_pair f1 f2 h' y \<subseteq> {length h..<length h'}"
      using y z v by (intro exI [of _ "(y, z)"] exI [of _ h2]) (force simp: copy_pair_def view_pair_def foot_pair_def)
  qed
qed

lemma deep_copy_struct:
  assumes "deep_copy c f v" "\<And>x s. get (put x s) = x" "\<And>x s. rest (put x s) = rest s"
  shows "deep_copy (copy_struct get put c) (\<lambda>h s. f h (get s)) (view_struct get rest v)"
proof
  fix h s w assume "view_struct get rest v h s = Some w"
  then show "f h (get s) \<subseteq> {..<length h}"
    by (auto simp: view_struct_def bind_eq_Some_conv dest: deep_copy.foot_less [OF assms(1)])
next
  fix h s w h' assume "view_struct get rest v h s = Some w" "agree_on (f h (get s)) h h'"
  then show "view_struct get rest v h' s = Some w \<and> f h' (get s) = f h (get s)"
    by (auto simp: view_struct_def bind_eq_Some_conv dest: deep_copy.frame [OF assms(1)])
next
  fix h s w assume "view_struct get rest v h s = Some w"
  then obtain a where a: "v h (get s) = Some a" "w = (rest s, a)"
    by (auto simp: view_struct_def bind_eq_Some_conv)
  then obtain y h' where "c (get s) h = Some (y, h')" "prefix h h'" "v h' y = Some a" "f h' y \<subseteq> {length h..<length h'}"
    using deep_copy.copies [OF assms(1)] by blast
  with a show "\<exists>y h'. copy_struct get put c s h = Some (y, h') \<and> prefix h h' \<and> view_struct get rest v h' y = Some w \<and>
      f h' (get y) \<subseteq> {length h..<length h'}"
    by (auto simp: copy_struct_def view_struct_def assms(2,3))
qed

lemma deep_copy_list:
  assumes "deep_copy c f v"
  shows "deep_copy (copy_list c) (foot_list f) (view_list v)"
proof
  fix h xs w assume "view_list v h xs = Some w"
  then show "foot_list f h xs \<subseteq> {..<length h}"
    by (induction xs arbitrary: w) (auto simp: foot_list_def bind_eq_Some_conv dest: deep_copy.foot_less [OF assms])
next
  fix h xs w h' assume "view_list v h xs = Some w" "agree_on (foot_list f h xs) h h'"
  then show "view_list v h' xs = Some w \<and> foot_list f h' xs = foot_list f h xs"
  proof (induction xs arbitrary: w)
    case (Cons x xs)
    then have agree: "agree_on (f h x) h h'" "agree_on (foot_list f h xs) h h'"
      by (auto simp: foot_list_def agree_on_def)
    obtain a as where "v h x = Some a" "view_list v h xs = Some as" "w = a # as"
      using Cons.prems(1) by (auto simp: bind_eq_Some_conv)
    with Cons.IH [OF _ agree(2)] deep_copy.frame [OF assms _ agree(1)] show ?case
      by (simp add: foot_list_def)
  qed (simp add: foot_list_def)
next
  fix h xs w assume "view_list v h xs = Some w"
  then show "\<exists>ys h'. copy_list c xs h = Some (ys, h') \<and> prefix h h' \<and> view_list v h' ys = Some w \<and>
      foot_list f h' ys \<subseteq> {length h..<length h'}"
  proof (induction xs arbitrary: h w)
    case (Cons x xs)
    then obtain a as where v: "v h x = Some a" "view_list v h xs = Some as" "w = a # as"
      by (auto simp: bind_eq_Some_conv)
    obtain y h1 where y: "c x h = Some (y, h1)" "prefix h h1" "v h1 y = Some a" "f h1 y \<subseteq> {length h..<length h1}"
      using deep_copy.copies [OF assms v(1)] by blast
    have "view_list v h1 xs = Some as"
      using v(2) y(2)
      by (induction xs arbitrary: as) (auto simp: bind_eq_Some_conv dest: deep_copy.view_mono [OF assms])
    then obtain ys h2 where ys: "copy_list c xs h1 = Some (ys, h2)" "prefix h1 h2" "view_list v h2 ys = Some as"
        "foot_list f h2 ys \<subseteq> {length h1..<length h2}"
      using Cons.IH by blast
    have "v h2 y = Some a" "f h2 y = f h1 y" "length h \<le> length h1" "length h1 \<le> length h2" "prefix h h2"
      using deep_copy.view_mono [OF assms y(3) ys(2)] y(2) ys(2) by (auto dest: prefix_length_le)
    with y ys v show ?case
      by (intro exI [of _ "y # ys"] exI [of _ h2]) (force simp: foot_list_def)
  qed (simp add: foot_list_def)
qed

text \<open>The new cell: it reads like the content it was made from.\<close>

lemma copy_cell_copies:
  assumes "deep_copy c f v" "v h x = Some w" "\<And>y. project (mk y) = Some y"
  shows "\<exists>b y h'. copy_cell mk c x h = Some (b, h') \<and> prefix h h' \<and> load_as project b h' = Some y \<and> v h' y = Some w \<and>
    insert b (f h' y) \<subseteq> {length h..<length h'}"
proof -
  let ?h1 = "h @ [mk x]"
  have "v ?h1 x = Some w"
    using deep_copy.view_mono [OF assms(1,2)] by simp
  then obtain y h2 where y: "c x ?h1 = Some (y, h2)" "prefix ?h1 h2" "v h2 y = Some w" "f h2 y \<subseteq> {length ?h1..<length h2}"
    using deep_copy.copies [OF assms(1)] by blast
  let ?h' = "store (length h) (mk y) h2"
  have len: "length h < length h2" and pre: "prefix h ?h'"
    using y(2) by (auto simp: prefix_def store_def list_update_append)
  have "agree_on (f h2 y) h2 ?h'"
    using y(4) by (auto simp: agree_on_def load_def store_def)
  then have "v ?h' y = Some w" "f ?h' y = f h2 y"
    using deep_copy.frame [OF assms(1) y(3)] by auto
  moreover have "load_as project (length h) ?h' = Some y"
    using len assms(3) by (simp add: load_as_def load_def store_def)
  moreover have "copy_cell mk c x h = Some (length h, ?h')"
    using y(1) by (simp add: copy_cell_def alloc_def)
  moreover have "insert (length h) (f h2 y) \<subseteq> {length h..<length ?h'}"
    using y(4) len by (force simp: store_def)
  ultimately show ?thesis
    using pre by auto
qed

lemma deep_copy_pointer [deep_copy_rules]:
  assumes "deep_copy c f v" "\<And>y. project (mk y) = Some y"
  shows "deep_copy (copy_pointer mk project c) (foot_pointer project f) (view_pointer project v)"
proof
  fix h p w assume "view_pointer project v h p = Some w"
  then show "foot_pointer project f h p \<subseteq> {..<length h}"
    by (auto simp: view_pointer_def foot_pointer_def bind_eq_Some_conv load_as_bounded split: option.splits
        dest: deep_copy.foot_less [OF assms(1)])
next
  fix h p w h' assume w: "view_pointer project v h p = Some w" and agree: "agree_on (foot_pointer project f h p) h h'"
  show "view_pointer project v h' p = Some w \<and> foot_pointer project f h' p = foot_pointer project f h p"
  proof (cases p)
    case (Some a)
    with w obtain x u where x: "load_as project a h = Some x" "v h x = Some u" "w = Some u"
      by (auto simp: view_pointer_def bind_eq_Some_conv)
    then have "agree_on (insert a (f h x)) h h'"
      using agree Some by (simp add: foot_pointer_def)
    then have "load_as project a h' = Some x" "agree_on (f h x) h h'"
      using x(1) by (simp_all add: agree_on_def load_as_def)
    with Some x deep_copy.frame [OF assms(1) x(2), of h'] show ?thesis
      by (simp add: view_pointer_def foot_pointer_def)
  qed (use w in \<open>simp add: view_pointer_def foot_pointer_def\<close>)
next
  fix h p w assume w: "view_pointer project v h p = Some w"
  show "\<exists>q h'. copy_pointer mk project c p h = Some (q, h') \<and> prefix h h' \<and> view_pointer project v h' q = Some w \<and>
      foot_pointer project f h' q \<subseteq> {length h..<length h'}"
  proof (cases p)
    case None
    with w show ?thesis
      by (simp add: copy_pointer_def view_pointer_def foot_pointer_def)
  next
    case (Some a)
    with w obtain x u where x: "load_as project a h = Some x" "v h x = Some u" "w = Some u"
      by (auto simp: view_pointer_def bind_eq_Some_conv)
    then obtain b y h' where "copy_cell mk c x h = Some (b, h')" "prefix h h'" "load_as project b h' = Some y"
        "v h' y = Some u" "insert b (f h' y) \<subseteq> {length h..<length h'}"
      using copy_cell_copies [OF assms(1) x(2), of project mk] assms(2) by blast
    with Some x show ?thesis
      by (intro exI [of _ "Some b"] exI [of _ h']) (simp add: copy_pointer_def view_pointer_def foot_pointer_def)
  qed
qed

lemma deep_copy_slice [deep_copy_rules]:
  assumes "deep_copy c f v" "\<And>y. project (mk y) = Some y"
  shows "deep_copy (copy_slice mk project c) (foot_slice project f) (view_slice project v)"
proof
  fix h p w assume "view_slice project v h p = Some w"
  then show "foot_slice project f h p \<subseteq> {..<length h}"
    by (auto simp: view_slice_def foot_slice_def bind_eq_Some_conv load_as_bounded split: option.splits
        dest: deep_copy.foot_less [OF deep_copy_list [OF assms(1)]])
next
  fix h p w h' assume w: "view_slice project v h p = Some w" and agree: "agree_on (foot_slice project f h p) h h'"
  show "view_slice project v h' p = Some w \<and> foot_slice project f h' p = foot_slice project f h p"
  proof (cases p)
    case (Some s)
    with w obtain xs ws us where x: "load_as project (sl_array s) h = Some xs" "window s xs = Some ws"
        "view_list v h ws = Some us" "w = Some us"
      by (auto simp: view_slice_def bind_eq_Some_conv)
    then have "agree_on (insert (sl_array s) (foot_list f h ws)) h h'"
      using agree Some by (simp add: foot_slice_def)
    then have "load_as project (sl_array s) h' = Some xs" "agree_on (foot_list f h ws) h h'"
      using x(1) by (simp_all add: agree_on_def load_as_def)
    with Some x deep_copy.frame [OF deep_copy_list [OF assms(1)] x(3), of h'] show ?thesis
      by (simp add: view_slice_def foot_slice_def)
  qed (use w in \<open>simp add: view_slice_def foot_slice_def\<close>)
next
  fix h p w assume w: "view_slice project v h p = Some w"
  show "\<exists>q h'. copy_slice mk project c p h = Some (q, h') \<and> prefix h h' \<and> view_slice project v h' q = Some w \<and>
      foot_slice project f h' q \<subseteq> {length h..<length h'}"
  proof (cases p)
    case None
    with w show ?thesis
      by (simp add: copy_slice_def view_slice_def foot_slice_def)
  next
    case (Some s)
    with w obtain xs ws us where x: "load_as project (sl_array s) h = Some xs" "window s xs = Some ws"
        "view_list v h ws = Some us" "w = Some us"
      by (auto simp: view_slice_def bind_eq_Some_conv)
    then obtain b ys h' where b: "copy_cell mk (copy_list c) ws h = Some (b, h')" "prefix h h'" "load_as project b h' = Some ys"
        "view_list v h' ys = Some us" "insert b (foot_list f h' ys) \<subseteq> {length h..<length h'}"
      using copy_cell_copies [OF deep_copy_list [OF assms(1)] x(3), of project mk] assms(2) by blast
    have len: "length zs = length vs" if "view_list v k zs = Some vs" for k zs vs
      using that by (induction zs arbitrary: vs) (auto simp: bind_eq_Some_conv)
    have "window \<lparr>sl_array = b, sl_offset = 0, sl_len = length ws\<rparr> ys = Some ys"
      using len [OF x(3)] len [OF b(4)] by (simp add: window_def)
    with Some x b show ?thesis
      by (intro exI [of _ "Some \<lparr>sl_array = b, sl_offset = 0, sl_len = length ws\<rparr>"] exI [of _ h'])
         (simp add: copy_slice_def view_slice_def foot_slice_def)
  qed
qed

end
