(* ===== verification/Deep_Copy.thy ===== *)
theory Deep_Copy
  imports Go_Heap
begin

text \<open>
  The generated deep copies of the API types, \<^verbatim>\<open>api/core/v1beta1/zz_generated.deepcopy.go\<close> and
  \<^verbatim>\<open>api/core/subresourcesv1beta1/zz_generated.deepcopy.go\<close> (those of v1alpha1 are in
  \<open>Deep_Copy_V1alpha1\<close>), with the copies of the metadata types of the apimachinery library that they call, on the heap of Go.
  Everywhere else in the development an object is a value; what a copy contributes to that is shown here.

  \<^verbatim>\<open>DeepCopyInto\<close> is a function from the struct that \<open>in\<close> points to to the struct that \<open>out\<close> points to afterwards;
  the functions that have an \<open>out\<close> of their own allocate it.  The interpretations of \<open>deep_copy\<close> show for each type that a copy
  reads like the original and shares no cell with it.
\<close>


section \<open>The structs, with their references\<close>

record vm_reference =
  vr_Namespace :: string
  vr_Name :: string

record owner_reference =
  ow_APIVersion :: string
  ow_Kind :: string
  ow_Name :: string
  ow_UID :: string
  ow_Controller :: "address option"
  ow_BlockOwnerDeletion :: "address option"

record fields_v1 =
  fv_Raw :: "slice option"

record managed_fields_entry =
  mf_Manager :: string
  mf_Operation :: string
  mf_APIVersion :: string
  mf_Time :: "address option"
  mf_FieldsType :: string
  mf_FieldsV1 :: "address option"
  mf_Subresource :: string

record object_meta =
  om_Name :: string
  om_GenerateName :: string
  om_Namespace :: string
  om_SelfLink :: string
  om_UID :: string
  om_ResourceVersion :: string
  om_Generation :: "64 word"
  om_CreationTimestamp :: time
  om_DeletionTimestamp :: "address option"
  om_DeletionGracePeriodSeconds :: "address option"
  om_Labels :: "address option"
  om_Annotations :: "address option"
  om_OwnerReferences :: "slice option"
  om_Finalizers :: "slice option"
  om_ManagedFields :: "slice option"

record list_meta =
  lm_SelfLink :: string
  lm_ResourceVersion :: string
  lm_Continue :: string
  lm_RemainingItemCount :: "address option"

record 'i raw_extension =
  rx_Raw :: "slice option"
  rx_Object :: "'i option"

record 'i template_spec =
  sp_VirtualMachine :: "address option"
  sp_Parameters :: "slice option"
  sp_Message :: string

record template_status =
  ss_Conditions :: "slice option"

record 'i template_object =
  tp_TypeMeta :: TypeMeta
  tp_ObjectMeta :: object_meta
  tp_Spec :: "'i template_spec"
  tp_Status :: template_status

record template_list =
  tl_TypeMeta :: TypeMeta
  tl_ListMeta :: list_meta
  tl_Items :: "slice option"

record request_spec =
  rp_VirtualMachineRef :: vm_reference
  rp_TemplateName :: string
  rp_TemplateLabels :: "address option"
  rp_TTLSecondsAfterFinished :: "address option"

record request_status =
  ru_Conditions :: "slice option"
  ru_TemplateRef :: "address option"

record request_object =
  rq_TypeMeta :: TypeMeta
  rq_ObjectMeta :: object_meta
  rq_Spec :: request_spec
  rq_Status :: request_status

record request_list =
  rl_TypeMeta :: TypeMeta
  rl_ListMeta :: list_meta
  rl_Items :: "slice option"

record resource_template =
  rt_TypeMeta :: TypeMeta
  rt_ObjectMeta :: object_meta

record process_options =
  op_TypeMeta :: TypeMeta
  op_ObjectMeta :: object_meta
  op_Parameters :: "address option"

record processed_object =
  pv_TypeMeta :: TypeMeta
  pv_ObjectMeta :: object_meta
  pv_TemplateRef :: "address option"
  pv_VirtualMachine :: "address option"
  pv_Message :: string

text \<open>
  The cells: a map, or an array; a variable that \<^verbatim>\<open>new\<close> makes is an array of one element.  The interface values of
  \<^verbatim>\<open>runtime.Object\<close> and the content of a \<^verbatim>\<open>VirtualMachine\<close> are parameters, with their own deep copies.
\<close>

datatype ('i, 'x) cell =
    StringMap "string \<rightharpoonup> string"
  | Bools "bool list"
  | Int32s "32 word list"
  | Int64s "64 word list"
  | Times "time list"
  | Bytes "char list"
  | Strings "string list"
  | OwnerReferences "owner_reference list"
  | FieldsV1s "fields_v1 list"
  | ManagedFields "managed_fields_entry list"
  | RawExtensions "'i raw_extension list"
  | Parameters "Parameter list"
  | Conditions "Condition list"
  | LocalReferences "string list"
  | ObjectReferences "ObjectReference list"
  | VMReferences "vm_reference list"
  | TemplateSpecs "'i template_spec list"
  | TemplateStatuses "template_status list"
  | Templates "'i template_object list"
  | TemplateLists "template_list list"
  | RequestSpecs "request_spec list"
  | RequestStatuses "request_status list"
  | Requests "request_object list"
  | RequestLists "request_list list"
  | ResourceTemplates "resource_template list"
  | Options "process_options list"
  | Processeds "processed_object list"
  | VirtualMachines "'x list"

type_synonym ('i, 'x) heap = "('i, 'x) cell list"

type_synonym ('a, 'i, 'x) copier = "'a \<Rightarrow> ('i, 'x) heap \<Rightarrow> ('a \<times> ('i, 'x) heap) option"

definition as_StringMap :: "('i, 'x) cell \<Rightarrow> (string \<rightharpoonup> string) option" where
  "as_StringMap c = (case c of StringMap m \<Rightarrow> Some m | _ \<Rightarrow> None)"

definition as_Bools :: "('i, 'x) cell \<Rightarrow> bool list option" where
  "as_Bools c = (case c of Bools xs \<Rightarrow> Some xs | _ \<Rightarrow> None)"

definition as_Int32s :: "('i, 'x) cell \<Rightarrow> 32 word list option" where
  "as_Int32s c = (case c of Int32s xs \<Rightarrow> Some xs | _ \<Rightarrow> None)"

definition as_Int64s :: "('i, 'x) cell \<Rightarrow> 64 word list option" where
  "as_Int64s c = (case c of Int64s xs \<Rightarrow> Some xs | _ \<Rightarrow> None)"

definition as_Times :: "('i, 'x) cell \<Rightarrow> time list option" where
  "as_Times c = (case c of Times xs \<Rightarrow> Some xs | _ \<Rightarrow> None)"

definition as_Bytes :: "('i, 'x) cell \<Rightarrow> char list option" where
  "as_Bytes c = (case c of Bytes xs \<Rightarrow> Some xs | _ \<Rightarrow> None)"

definition as_Strings :: "('i, 'x) cell \<Rightarrow> string list option" where
  "as_Strings c = (case c of Strings xs \<Rightarrow> Some xs | _ \<Rightarrow> None)"

definition as_OwnerReferences :: "('i, 'x) cell \<Rightarrow> owner_reference list option" where
  "as_OwnerReferences c = (case c of OwnerReferences xs \<Rightarrow> Some xs | _ \<Rightarrow> None)"

definition as_FieldsV1s :: "('i, 'x) cell \<Rightarrow> fields_v1 list option" where
  "as_FieldsV1s c = (case c of FieldsV1s xs \<Rightarrow> Some xs | _ \<Rightarrow> None)"

definition as_ManagedFields :: "('i, 'x) cell \<Rightarrow> managed_fields_entry list option" where
  "as_ManagedFields c = (case c of ManagedFields xs \<Rightarrow> Some xs | _ \<Rightarrow> None)"

definition as_RawExtensions :: "('i, 'x) cell \<Rightarrow> 'i raw_extension list option" where
  "as_RawExtensions c = (case c of RawExtensions xs \<Rightarrow> Some xs | _ \<Rightarrow> None)"

definition as_Parameters :: "('i, 'x) cell \<Rightarrow> Parameter list option" where
  "as_Parameters c = (case c of Parameters xs \<Rightarrow> Some xs | _ \<Rightarrow> None)"

definition as_Conditions :: "('i, 'x) cell \<Rightarrow> Condition list option" where
  "as_Conditions c = (case c of Conditions xs \<Rightarrow> Some xs | _ \<Rightarrow> None)"

definition as_LocalReferences :: "('i, 'x) cell \<Rightarrow> string list option" where
  "as_LocalReferences c = (case c of LocalReferences xs \<Rightarrow> Some xs | _ \<Rightarrow> None)"

definition as_ObjectReferences :: "('i, 'x) cell \<Rightarrow> ObjectReference list option" where
  "as_ObjectReferences c = (case c of ObjectReferences xs \<Rightarrow> Some xs | _ \<Rightarrow> None)"

definition as_VMReferences :: "('i, 'x) cell \<Rightarrow> vm_reference list option" where
  "as_VMReferences c = (case c of VMReferences xs \<Rightarrow> Some xs | _ \<Rightarrow> None)"

definition as_TemplateSpecs :: "('i, 'x) cell \<Rightarrow> 'i template_spec list option" where
  "as_TemplateSpecs c = (case c of TemplateSpecs xs \<Rightarrow> Some xs | _ \<Rightarrow> None)"

definition as_TemplateStatuses :: "('i, 'x) cell \<Rightarrow> template_status list option" where
  "as_TemplateStatuses c = (case c of TemplateStatuses xs \<Rightarrow> Some xs | _ \<Rightarrow> None)"

definition as_Templates :: "('i, 'x) cell \<Rightarrow> 'i template_object list option" where
  "as_Templates c = (case c of Templates xs \<Rightarrow> Some xs | _ \<Rightarrow> None)"

definition as_TemplateLists :: "('i, 'x) cell \<Rightarrow> template_list list option" where
  "as_TemplateLists c = (case c of TemplateLists xs \<Rightarrow> Some xs | _ \<Rightarrow> None)"

definition as_RequestSpecs :: "('i, 'x) cell \<Rightarrow> request_spec list option" where
  "as_RequestSpecs c = (case c of RequestSpecs xs \<Rightarrow> Some xs | _ \<Rightarrow> None)"

definition as_RequestStatuses :: "('i, 'x) cell \<Rightarrow> request_status list option" where
  "as_RequestStatuses c = (case c of RequestStatuses xs \<Rightarrow> Some xs | _ \<Rightarrow> None)"

definition as_Requests :: "('i, 'x) cell \<Rightarrow> request_object list option" where
  "as_Requests c = (case c of Requests xs \<Rightarrow> Some xs | _ \<Rightarrow> None)"

definition as_RequestLists :: "('i, 'x) cell \<Rightarrow> request_list list option" where
  "as_RequestLists c = (case c of RequestLists xs \<Rightarrow> Some xs | _ \<Rightarrow> None)"

definition as_ResourceTemplates :: "('i, 'x) cell \<Rightarrow> resource_template list option" where
  "as_ResourceTemplates c = (case c of ResourceTemplates xs \<Rightarrow> Some xs | _ \<Rightarrow> None)"

definition as_Options :: "('i, 'x) cell \<Rightarrow> process_options list option" where
  "as_Options c = (case c of Options xs \<Rightarrow> Some xs | _ \<Rightarrow> None)"

definition as_Processeds :: "('i, 'x) cell \<Rightarrow> processed_object list option" where
  "as_Processeds c = (case c of Processeds xs \<Rightarrow> Some xs | _ \<Rightarrow> None)"

definition as_VirtualMachines :: "('i, 'x) cell \<Rightarrow> 'x list option" where
  "as_VirtualMachines c = (case c of VirtualMachines xs \<Rightarrow> Some xs | _ \<Rightarrow> None)"


lemma as_cell [simp]:
  "as_StringMap (StringMap m) = Some m"
  "as_Bools (Bools xs0) = Some xs0"
  "as_Int32s (Int32s xs1) = Some xs1"
  "as_Int64s (Int64s xs2) = Some xs2"
  "as_Times (Times xs3) = Some xs3"
  "as_Bytes (Bytes xs4) = Some xs4"
  "as_Strings (Strings xs5) = Some xs5"
  "as_OwnerReferences (OwnerReferences xs6) = Some xs6"
  "as_FieldsV1s (FieldsV1s xs7) = Some xs7"
  "as_ManagedFields (ManagedFields xs8) = Some xs8"
  "as_RawExtensions (RawExtensions xs9) = Some xs9"
  "as_Parameters (Parameters xs10) = Some xs10"
  "as_Conditions (Conditions xs11) = Some xs11"
  "as_LocalReferences (LocalReferences xs12) = Some xs12"
  "as_ObjectReferences (ObjectReferences xs13) = Some xs13"
  "as_VMReferences (VMReferences xs14) = Some xs14"
  "as_TemplateSpecs (TemplateSpecs xs15) = Some xs15"
  "as_TemplateStatuses (TemplateStatuses xs16) = Some xs16"
  "as_Templates (Templates xs17) = Some xs17"
  "as_TemplateLists (TemplateLists xs18) = Some xs18"
  "as_RequestSpecs (RequestSpecs xs19) = Some xs19"
  "as_RequestStatuses (RequestStatuses xs20) = Some xs20"
  "as_Requests (Requests xs21) = Some xs21"
  "as_RequestLists (RequestLists xs22) = Some xs22"
  "as_ResourceTemplates (ResourceTemplates xs23) = Some xs23"
  "as_Options (Options xs24) = Some xs24"
  "as_Processeds (Processeds xs25) = Some xs25"
  "as_VirtualMachines (VirtualMachines xs26) = Some xs26"
  by (simp_all add: as_StringMap_def as_Bools_def as_Int32s_def as_Int64s_def as_Times_def as_Bytes_def as_Strings_def as_OwnerReferences_def as_FieldsV1s_def as_ManagedFields_def as_RawExtensions_def as_Parameters_def as_Conditions_def as_LocalReferences_def as_ObjectReferences_def as_VMReferences_def as_TemplateSpecs_def as_TemplateStatuses_def as_Templates_def as_TemplateLists_def as_RequestSpecs_def as_RequestStatuses_def as_Requests_def as_RequestLists_def as_ResourceTemplates_def as_Options_def as_Processeds_def as_VirtualMachines_def)

definition one :: "('a list \<Rightarrow> 'c) \<Rightarrow> 'a \<Rightarrow> 'c" where
  "one mk x = mk [x]"

definition variable :: "('c \<Rightarrow> 'a list option) \<Rightarrow> 'c \<Rightarrow> 'a option" where
  "variable project c = (case project c of Some [x] \<Rightarrow> Some x | _ \<Rightarrow> None)"

lemma variable_one [simp]: "project (mk [x]) = Some [x] \<Longrightarrow> variable project (one mk x) = Some x"
  by (simp add: variable_def one_def)

section \<open>The functions\<close>

definition DeepCopyInto_Parameter :: "(Parameter, 'i, 'x) copier" where
  "DeepCopyInto_Parameter s h = Some (s, h)"

definition DeepCopyInto_VirtualMachineReference :: "(vm_reference, 'i, 'x) copier" where
  "DeepCopyInto_VirtualMachineReference s h = Some (s, h)"

definition DeepCopyInto_Condition :: "(Condition, 'i, 'x) copier" where
  "DeepCopyInto_Condition s h = Some (s, h)"

definition DeepCopyInto_OwnerReference :: "(owner_reference, 'i, 'x) copier" where
  "DeepCopyInto_OwnerReference s h =
     do {
       (x0, h) \<leftarrow> copy_pointer (one Bools) (variable as_Bools) copy_flat (ow_Controller s) h;
       (x1, h) \<leftarrow> copy_pointer (one Bools) (variable as_Bools) copy_flat (ow_BlockOwnerDeletion s) h;
       Some (s\<lparr>ow_Controller := x0, ow_BlockOwnerDeletion := x1\<rparr>, h) }"

definition DeepCopyInto_FieldsV1 :: "(fields_v1, 'i, 'x) copier" where
  "DeepCopyInto_FieldsV1 s h =
     do {
       (x0, h) \<leftarrow> copy_slice Bytes as_Bytes copy_flat (fv_Raw s) h;
       Some (s\<lparr>fv_Raw := x0\<rparr>, h) }"

definition DeepCopyInto_ManagedFieldsEntry :: "(managed_fields_entry, 'i, 'x) copier" where
  "DeepCopyInto_ManagedFieldsEntry s h =
     do {
       (x0, h) \<leftarrow> copy_pointer (one Times) (variable as_Times) copy_flat (mf_Time s) h;
       (x1, h) \<leftarrow> copy_pointer (one FieldsV1s) (variable as_FieldsV1s) DeepCopyInto_FieldsV1 (mf_FieldsV1 s) h;
       Some (s\<lparr>mf_Time := x0, mf_FieldsV1 := x1\<rparr>, h) }"

definition DeepCopyInto_ObjectMeta :: "(object_meta, 'i, 'x) copier" where
  "DeepCopyInto_ObjectMeta s h =
     do {
       (x0, h) \<leftarrow> copy_pointer (one Times) (variable as_Times) copy_flat (om_DeletionTimestamp s) h;
       (x1, h) \<leftarrow> copy_pointer (one Int64s) (variable as_Int64s) copy_flat (om_DeletionGracePeriodSeconds s) h;
       (x2, h) \<leftarrow> copy_pointer StringMap as_StringMap copy_flat (om_Labels s) h;
       (x3, h) \<leftarrow> copy_pointer StringMap as_StringMap copy_flat (om_Annotations s) h;
       (x4, h) \<leftarrow> copy_slice OwnerReferences as_OwnerReferences DeepCopyInto_OwnerReference (om_OwnerReferences s) h;
       (x5, h) \<leftarrow> copy_slice Strings as_Strings copy_flat (om_Finalizers s) h;
       (x6, h) \<leftarrow> copy_slice ManagedFields as_ManagedFields DeepCopyInto_ManagedFieldsEntry (om_ManagedFields s) h;
       Some (s\<lparr>om_DeletionTimestamp := x0, om_DeletionGracePeriodSeconds := x1, om_Labels := x2, om_Annotations := x3,
         om_OwnerReferences := x4, om_Finalizers := x5, om_ManagedFields := x6\<rparr>, h) }"

definition DeepCopyInto_ListMeta :: "(list_meta, 'i, 'x) copier" where
  "DeepCopyInto_ListMeta s h =
     do {
       (x0, h) \<leftarrow> copy_pointer (one Int64s) (variable as_Int64s) copy_flat (lm_RemainingItemCount s) h;
       Some (s\<lparr>lm_RemainingItemCount := x0\<rparr>, h) }"

definition DeepCopyInto_RawExtension :: "('i, 'i, 'x) copier \<Rightarrow> ('i raw_extension, 'i, 'x) copier" where
  "DeepCopyInto_RawExtension obj_copy s h =
     do {
       (x0, h) \<leftarrow> copy_slice Bytes as_Bytes copy_flat (rx_Raw s) h;
       (x1, h) \<leftarrow> copy_option obj_copy (rx_Object s) h;
       Some (s\<lparr>rx_Raw := x0, rx_Object := x1\<rparr>, h) }"

definition DeepCopyInto_VirtualMachineTemplateSpec :: "('i, 'i, 'x) copier \<Rightarrow> ('i template_spec, 'i, 'x) copier" where
  "DeepCopyInto_VirtualMachineTemplateSpec obj_copy s h =
     do {
       (x0, h) \<leftarrow> copy_pointer (one RawExtensions) (variable as_RawExtensions) (DeepCopyInto_RawExtension obj_copy) (sp_VirtualMachine s) h;
       (x1, h) \<leftarrow> copy_slice Parameters as_Parameters copy_flat (sp_Parameters s) h;
       Some (s\<lparr>sp_VirtualMachine := x0, sp_Parameters := x1\<rparr>, h) }"

definition DeepCopyInto_VirtualMachineTemplateStatus :: "(template_status, 'i, 'x) copier" where
  "DeepCopyInto_VirtualMachineTemplateStatus s h =
     do {
       (x0, h) \<leftarrow> copy_slice Conditions as_Conditions DeepCopyInto_Condition (ss_Conditions s) h;
       Some (s\<lparr>ss_Conditions := x0\<rparr>, h) }"

definition DeepCopyInto_VirtualMachineTemplate :: "('i, 'i, 'x) copier \<Rightarrow> ('i template_object, 'i, 'x) copier" where
  "DeepCopyInto_VirtualMachineTemplate obj_copy s h =
     do {
       (x0, h) \<leftarrow> DeepCopyInto_ObjectMeta (tp_ObjectMeta s) h;
       (x1, h) \<leftarrow> DeepCopyInto_VirtualMachineTemplateSpec obj_copy (tp_Spec s) h;
       (x2, h) \<leftarrow> DeepCopyInto_VirtualMachineTemplateStatus (tp_Status s) h;
       Some (s\<lparr>tp_ObjectMeta := x0, tp_Spec := x1, tp_Status := x2\<rparr>, h) }"

definition DeepCopyInto_VirtualMachineTemplateList :: "('i, 'i, 'x) copier \<Rightarrow> (template_list, 'i, 'x) copier" where
  "DeepCopyInto_VirtualMachineTemplateList obj_copy s h =
     do {
       (x0, h) \<leftarrow> DeepCopyInto_ListMeta (tl_ListMeta s) h;
       (x1, h) \<leftarrow> copy_slice Templates as_Templates (DeepCopyInto_VirtualMachineTemplate obj_copy) (tl_Items s) h;
       Some (s\<lparr>tl_ListMeta := x0, tl_Items := x1\<rparr>, h) }"

definition DeepCopyInto_VirtualMachineTemplateRequestSpec :: "(request_spec, 'i, 'x) copier" where
  "DeepCopyInto_VirtualMachineTemplateRequestSpec s h =
     do {
       (x0, h) \<leftarrow> copy_pointer StringMap as_StringMap copy_flat (rp_TemplateLabels s) h;
       (x1, h) \<leftarrow> copy_pointer (one Int32s) (variable as_Int32s) copy_flat (rp_TTLSecondsAfterFinished s) h;
       Some (s\<lparr>rp_TemplateLabels := x0, rp_TTLSecondsAfterFinished := x1\<rparr>, h) }"

definition DeepCopyInto_VirtualMachineTemplateRequestStatus :: "(request_status, 'i, 'x) copier" where
  "DeepCopyInto_VirtualMachineTemplateRequestStatus s h =
     do {
       (x0, h) \<leftarrow> copy_slice Conditions as_Conditions DeepCopyInto_Condition (ru_Conditions s) h;
       (x1, h) \<leftarrow> copy_pointer (one LocalReferences) (variable as_LocalReferences) copy_flat (ru_TemplateRef s) h;
       Some (s\<lparr>ru_Conditions := x0, ru_TemplateRef := x1\<rparr>, h) }"

definition DeepCopyInto_VirtualMachineTemplateRequest :: "(request_object, 'i, 'x) copier" where
  "DeepCopyInto_VirtualMachineTemplateRequest s h =
     do {
       (x0, h) \<leftarrow> DeepCopyInto_ObjectMeta (rq_ObjectMeta s) h;
       (x1, h) \<leftarrow> DeepCopyInto_VirtualMachineTemplateRequestSpec (rq_Spec s) h;
       (x2, h) \<leftarrow> DeepCopyInto_VirtualMachineTemplateRequestStatus (rq_Status s) h;
       Some (s\<lparr>rq_ObjectMeta := x0, rq_Spec := x1, rq_Status := x2\<rparr>, h) }"

definition DeepCopyInto_VirtualMachineTemplateRequestList :: "(request_list, 'i, 'x) copier" where
  "DeepCopyInto_VirtualMachineTemplateRequestList s h =
     do {
       (x0, h) \<leftarrow> DeepCopyInto_ListMeta (rl_ListMeta s) h;
       (x1, h) \<leftarrow> copy_slice Requests as_Requests DeepCopyInto_VirtualMachineTemplateRequest (rl_Items s) h;
       Some (s\<lparr>rl_ListMeta := x0, rl_Items := x1\<rparr>, h) }"

definition DeepCopyInto_ResourceTemplate :: "(resource_template, 'i, 'x) copier" where
  "DeepCopyInto_ResourceTemplate s h =
     do {
       (x0, h) \<leftarrow> DeepCopyInto_ObjectMeta (rt_ObjectMeta s) h;
       Some (s\<lparr>rt_ObjectMeta := x0\<rparr>, h) }"

definition DeepCopyInto_ProcessOptions :: "(process_options, 'i, 'x) copier" where
  "DeepCopyInto_ProcessOptions s h =
     do {
       (x0, h) \<leftarrow> DeepCopyInto_ObjectMeta (op_ObjectMeta s) h;
       (x1, h) \<leftarrow> copy_pointer StringMap as_StringMap copy_flat (op_Parameters s) h;
       Some (s\<lparr>op_ObjectMeta := x0, op_Parameters := x1\<rparr>, h) }"

definition DeepCopyInto_ProcessedVirtualMachineTemplate :: "('x, 'i, 'x) copier \<Rightarrow> (processed_object, 'i, 'x) copier" where
  "DeepCopyInto_ProcessedVirtualMachineTemplate vm_copy s h =
     do {
       (x0, h) \<leftarrow> DeepCopyInto_ObjectMeta (pv_ObjectMeta s) h;
       (x1, h) \<leftarrow> copy_pointer (one ObjectReferences) (variable as_ObjectReferences) copy_flat (pv_TemplateRef s) h;
       (x2, h) \<leftarrow> copy_pointer (one VirtualMachines) (variable as_VirtualMachines) vm_copy (pv_VirtualMachine s) h;
       Some (s\<lparr>pv_ObjectMeta := x0, pv_TemplateRef := x1, pv_VirtualMachine := x2\<rparr>, h) }"

text \<open>An interface value: nil, or a pointer (possibly a nil pointer) with its type.\<close>

datatype object_interface = NilInterface | ObjectOf "address option"

definition as_object :: "address option \<Rightarrow> object_interface" where
  "as_object c = (if c \<noteq> None then ObjectOf c else NilInterface)"

definition DeepCopy_Parameter :: "(address option, 'i, 'x) copier" where
  "DeepCopy_Parameter = copy_pointer (one Parameters) (variable as_Parameters) DeepCopyInto_Parameter"

definition DeepCopy_VirtualMachineReference :: "(address option, 'i, 'x) copier" where
  "DeepCopy_VirtualMachineReference = copy_pointer (one VMReferences) (variable as_VMReferences) DeepCopyInto_VirtualMachineReference"

definition DeepCopy_VirtualMachineTemplateSpec :: "('i, 'i, 'x) copier \<Rightarrow> (address option, 'i, 'x) copier" where
  "DeepCopy_VirtualMachineTemplateSpec obj_copy = copy_pointer (one TemplateSpecs) (variable as_TemplateSpecs) (DeepCopyInto_VirtualMachineTemplateSpec obj_copy)"

definition DeepCopy_VirtualMachineTemplateStatus :: "(address option, 'i, 'x) copier" where
  "DeepCopy_VirtualMachineTemplateStatus = copy_pointer (one TemplateStatuses) (variable as_TemplateStatuses) DeepCopyInto_VirtualMachineTemplateStatus"

definition DeepCopy_VirtualMachineTemplate :: "('i, 'i, 'x) copier \<Rightarrow> (address option, 'i, 'x) copier" where
  "DeepCopy_VirtualMachineTemplate obj_copy = copy_pointer (one Templates) (variable as_Templates) (DeepCopyInto_VirtualMachineTemplate obj_copy)"

definition DeepCopyObject_VirtualMachineTemplate :: "('i, 'i, 'x) copier \<Rightarrow> address option \<Rightarrow> ('i, 'x) heap \<Rightarrow> (object_interface \<times> ('i, 'x) heap) option" where
  "DeepCopyObject_VirtualMachineTemplate obj_copy p h = do { (c, h) \<leftarrow> DeepCopy_VirtualMachineTemplate obj_copy p h; Some (as_object c, h) }"

definition DeepCopy_VirtualMachineTemplateList :: "('i, 'i, 'x) copier \<Rightarrow> (address option, 'i, 'x) copier" where
  "DeepCopy_VirtualMachineTemplateList obj_copy = copy_pointer (one TemplateLists) (variable as_TemplateLists) (DeepCopyInto_VirtualMachineTemplateList obj_copy)"

definition DeepCopyObject_VirtualMachineTemplateList :: "('i, 'i, 'x) copier \<Rightarrow> address option \<Rightarrow> ('i, 'x) heap \<Rightarrow> (object_interface \<times> ('i, 'x) heap) option" where
  "DeepCopyObject_VirtualMachineTemplateList obj_copy p h = do { (c, h) \<leftarrow> DeepCopy_VirtualMachineTemplateList obj_copy p h; Some (as_object c, h) }"

definition DeepCopy_VirtualMachineTemplateRequestSpec :: "(address option, 'i, 'x) copier" where
  "DeepCopy_VirtualMachineTemplateRequestSpec = copy_pointer (one RequestSpecs) (variable as_RequestSpecs) DeepCopyInto_VirtualMachineTemplateRequestSpec"

definition DeepCopy_VirtualMachineTemplateRequestStatus :: "(address option, 'i, 'x) copier" where
  "DeepCopy_VirtualMachineTemplateRequestStatus = copy_pointer (one RequestStatuses) (variable as_RequestStatuses) DeepCopyInto_VirtualMachineTemplateRequestStatus"

definition DeepCopy_VirtualMachineTemplateRequest :: "(address option, 'i, 'x) copier" where
  "DeepCopy_VirtualMachineTemplateRequest = copy_pointer (one Requests) (variable as_Requests) DeepCopyInto_VirtualMachineTemplateRequest"

definition DeepCopyObject_VirtualMachineTemplateRequest :: "address option \<Rightarrow> ('i, 'x) heap \<Rightarrow> (object_interface \<times> ('i, 'x) heap) option" where
  "DeepCopyObject_VirtualMachineTemplateRequest p h = do { (c, h) \<leftarrow> DeepCopy_VirtualMachineTemplateRequest p h; Some (as_object c, h) }"

definition DeepCopy_VirtualMachineTemplateRequestList :: "(address option, 'i, 'x) copier" where
  "DeepCopy_VirtualMachineTemplateRequestList = copy_pointer (one RequestLists) (variable as_RequestLists) DeepCopyInto_VirtualMachineTemplateRequestList"

definition DeepCopyObject_VirtualMachineTemplateRequestList :: "address option \<Rightarrow> ('i, 'x) heap \<Rightarrow> (object_interface \<times> ('i, 'x) heap) option" where
  "DeepCopyObject_VirtualMachineTemplateRequestList p h = do { (c, h) \<leftarrow> DeepCopy_VirtualMachineTemplateRequestList p h; Some (as_object c, h) }"

definition DeepCopy_ResourceTemplate :: "(address option, 'i, 'x) copier" where
  "DeepCopy_ResourceTemplate = copy_pointer (one ResourceTemplates) (variable as_ResourceTemplates) DeepCopyInto_ResourceTemplate"

definition DeepCopyObject_ResourceTemplate :: "address option \<Rightarrow> ('i, 'x) heap \<Rightarrow> (object_interface \<times> ('i, 'x) heap) option" where
  "DeepCopyObject_ResourceTemplate p h = do { (c, h) \<leftarrow> DeepCopy_ResourceTemplate p h; Some (as_object c, h) }"

definition DeepCopy_ProcessOptions :: "(address option, 'i, 'x) copier" where
  "DeepCopy_ProcessOptions = copy_pointer (one Options) (variable as_Options) DeepCopyInto_ProcessOptions"

definition DeepCopyObject_ProcessOptions :: "address option \<Rightarrow> ('i, 'x) heap \<Rightarrow> (object_interface \<times> ('i, 'x) heap) option" where
  "DeepCopyObject_ProcessOptions p h = do { (c, h) \<leftarrow> DeepCopy_ProcessOptions p h; Some (as_object c, h) }"

definition DeepCopy_ProcessedVirtualMachineTemplate :: "('x, 'i, 'x) copier \<Rightarrow> (address option, 'i, 'x) copier" where
  "DeepCopy_ProcessedVirtualMachineTemplate vm_copy = copy_pointer (one Processeds) (variable as_Processeds) (DeepCopyInto_ProcessedVirtualMachineTemplate vm_copy)"

definition DeepCopyObject_ProcessedVirtualMachineTemplate :: "('x, 'i, 'x) copier \<Rightarrow> address option \<Rightarrow> ('i, 'x) heap \<Rightarrow> (object_interface \<times> ('i, 'x) heap) option" where
  "DeepCopyObject_ProcessedVirtualMachineTemplate vm_copy p h = do { (c, h) \<leftarrow> DeepCopy_ProcessedVirtualMachineTemplate vm_copy p h; Some (as_object c, h) }"

section \<open>Views and footprints\<close>

text \<open>What is read through a struct: its plain fields and what its references lead to.\<close>

definition view_OwnerReference where
  "view_OwnerReference =
     view_struct
       (\<lambda>s. (ow_Controller s, ow_BlockOwnerDeletion s))
       (\<lambda>s. (ow_APIVersion s, ow_Kind s, ow_Name s, ow_UID s))
       (view_pair (view_pointer (variable as_Bools) view_flat)
       (view_pointer (variable as_Bools) view_flat))"

definition foot_OwnerReference where
  "foot_OwnerReference = (\<lambda>h s.
       (foot_pair (foot_pointer (variable as_Bools) foot_flat)
       (foot_pointer (variable as_Bools) foot_flat))
       h (ow_Controller s, ow_BlockOwnerDeletion s))"

definition view_FieldsV1 where
  "view_FieldsV1 =
     view_struct
       (\<lambda>s. fv_Raw s)
       (\<lambda>s. ())
       (view_slice as_Bytes view_flat)"

definition foot_FieldsV1 where
  "foot_FieldsV1 = (\<lambda>h s.
       (foot_slice as_Bytes foot_flat)
       h (fv_Raw s))"

definition view_ManagedFieldsEntry where
  "view_ManagedFieldsEntry =
     view_struct
       (\<lambda>s. (mf_Time s, mf_FieldsV1 s))
       (\<lambda>s. (mf_Manager s, mf_Operation s, mf_APIVersion s, mf_FieldsType s, mf_Subresource s))
       (view_pair (view_pointer (variable as_Times) view_flat)
       (view_pointer (variable as_FieldsV1s) view_FieldsV1))"

definition foot_ManagedFieldsEntry where
  "foot_ManagedFieldsEntry = (\<lambda>h s.
       (foot_pair (foot_pointer (variable as_Times) foot_flat)
       (foot_pointer (variable as_FieldsV1s) foot_FieldsV1))
       h (mf_Time s, mf_FieldsV1 s))"

definition view_ObjectMeta where
  "view_ObjectMeta =
     view_struct
       (\<lambda>s. (om_DeletionTimestamp s, om_DeletionGracePeriodSeconds s, om_Labels s, om_Annotations s,
         om_OwnerReferences s, om_Finalizers s, om_ManagedFields s))
       (\<lambda>s. (om_Name s, om_GenerateName s, om_Namespace s, om_SelfLink s, om_UID s, om_ResourceVersion s,
         om_Generation s, om_CreationTimestamp s))
       (view_pair (view_pointer (variable as_Times) view_flat)
       (view_pair (view_pointer (variable as_Int64s) view_flat)
       (view_pair (view_pointer as_StringMap view_flat)
       (view_pair (view_pointer as_StringMap view_flat)
       (view_pair (view_slice as_OwnerReferences view_OwnerReference)
       (view_pair (view_slice as_Strings view_flat)
       (view_slice as_ManagedFields view_ManagedFieldsEntry)))))))"

definition foot_ObjectMeta where
  "foot_ObjectMeta = (\<lambda>h s.
       (foot_pair (foot_pointer (variable as_Times) foot_flat)
       (foot_pair (foot_pointer (variable as_Int64s) foot_flat)
       (foot_pair (foot_pointer as_StringMap foot_flat)
       (foot_pair (foot_pointer as_StringMap foot_flat)
       (foot_pair (foot_slice as_OwnerReferences foot_OwnerReference)
       (foot_pair (foot_slice as_Strings foot_flat)
       (foot_slice as_ManagedFields foot_ManagedFieldsEntry)))))))
       h (om_DeletionTimestamp s, om_DeletionGracePeriodSeconds s, om_Labels s, om_Annotations s, om_OwnerReferences s,
         om_Finalizers s, om_ManagedFields s))"

definition view_ListMeta where
  "view_ListMeta =
     view_struct
       (\<lambda>s. lm_RemainingItemCount s)
       (\<lambda>s. (lm_SelfLink s, lm_ResourceVersion s, lm_Continue s))
       (view_pointer (variable as_Int64s) view_flat)"

definition foot_ListMeta where
  "foot_ListMeta = (\<lambda>h s.
       (foot_pointer (variable as_Int64s) foot_flat)
       h (lm_RemainingItemCount s))"

definition view_RawExtension where
  "view_RawExtension obj_view =
     view_struct
       (\<lambda>s. (rx_Raw s, rx_Object s))
       (\<lambda>s. ())
       (view_pair (view_slice as_Bytes view_flat)
       (view_option obj_view))"

definition foot_RawExtension where
  "foot_RawExtension obj_foot = (\<lambda>h s.
       (foot_pair (foot_slice as_Bytes foot_flat)
       (foot_option obj_foot))
       h (rx_Raw s, rx_Object s))"

definition view_VirtualMachineTemplateSpec where
  "view_VirtualMachineTemplateSpec obj_view =
     view_struct
       (\<lambda>s. (sp_VirtualMachine s, sp_Parameters s))
       (\<lambda>s. (sp_Message s))
       (view_pair (view_pointer (variable as_RawExtensions) (view_RawExtension obj_view))
       (view_slice as_Parameters view_flat))"

definition foot_VirtualMachineTemplateSpec where
  "foot_VirtualMachineTemplateSpec obj_foot = (\<lambda>h s.
       (foot_pair (foot_pointer (variable as_RawExtensions) (foot_RawExtension obj_foot))
       (foot_slice as_Parameters foot_flat))
       h (sp_VirtualMachine s, sp_Parameters s))"

definition view_VirtualMachineTemplateStatus where
  "view_VirtualMachineTemplateStatus =
     view_struct
       (\<lambda>s. ss_Conditions s)
       (\<lambda>s. ())
       (view_slice as_Conditions view_flat)"

definition foot_VirtualMachineTemplateStatus where
  "foot_VirtualMachineTemplateStatus = (\<lambda>h s.
       (foot_slice as_Conditions foot_flat)
       h (ss_Conditions s))"

definition view_VirtualMachineTemplate where
  "view_VirtualMachineTemplate obj_view =
     view_struct
       (\<lambda>s. (tp_ObjectMeta s, tp_Spec s, tp_Status s))
       (\<lambda>s. (tp_TypeMeta s))
       (view_pair view_ObjectMeta
       (view_pair (view_VirtualMachineTemplateSpec obj_view)
       view_VirtualMachineTemplateStatus))"

definition foot_VirtualMachineTemplate where
  "foot_VirtualMachineTemplate obj_foot = (\<lambda>h s.
       (foot_pair foot_ObjectMeta
       (foot_pair (foot_VirtualMachineTemplateSpec obj_foot)
       foot_VirtualMachineTemplateStatus))
       h (tp_ObjectMeta s, tp_Spec s, tp_Status s))"

definition view_VirtualMachineTemplateList where
  "view_VirtualMachineTemplateList obj_view =
     view_struct
       (\<lambda>s. (tl_ListMeta s, tl_Items s))
       (\<lambda>s. (tl_TypeMeta s))
       (view_pair view_ListMeta
       (view_slice as_Templates (view_VirtualMachineTemplate obj_view)))"

definition foot_VirtualMachineTemplateList where
  "foot_VirtualMachineTemplateList obj_foot = (\<lambda>h s.
       (foot_pair foot_ListMeta
       (foot_slice as_Templates (foot_VirtualMachineTemplate obj_foot)))
       h (tl_ListMeta s, tl_Items s))"

definition view_VirtualMachineTemplateRequestSpec where
  "view_VirtualMachineTemplateRequestSpec =
     view_struct
       (\<lambda>s. (rp_TemplateLabels s, rp_TTLSecondsAfterFinished s))
       (\<lambda>s. (rp_VirtualMachineRef s, rp_TemplateName s))
       (view_pair (view_pointer as_StringMap view_flat)
       (view_pointer (variable as_Int32s) view_flat))"

definition foot_VirtualMachineTemplateRequestSpec where
  "foot_VirtualMachineTemplateRequestSpec = (\<lambda>h s.
       (foot_pair (foot_pointer as_StringMap foot_flat)
       (foot_pointer (variable as_Int32s) foot_flat))
       h (rp_TemplateLabels s, rp_TTLSecondsAfterFinished s))"

definition view_VirtualMachineTemplateRequestStatus where
  "view_VirtualMachineTemplateRequestStatus =
     view_struct
       (\<lambda>s. (ru_Conditions s, ru_TemplateRef s))
       (\<lambda>s. ())
       (view_pair (view_slice as_Conditions view_flat)
       (view_pointer (variable as_LocalReferences) view_flat))"

definition foot_VirtualMachineTemplateRequestStatus where
  "foot_VirtualMachineTemplateRequestStatus = (\<lambda>h s.
       (foot_pair (foot_slice as_Conditions foot_flat)
       (foot_pointer (variable as_LocalReferences) foot_flat))
       h (ru_Conditions s, ru_TemplateRef s))"

definition view_VirtualMachineTemplateRequest where
  "view_VirtualMachineTemplateRequest =
     view_struct
       (\<lambda>s. (rq_ObjectMeta s, rq_Spec s, rq_Status s))
       (\<lambda>s. (rq_TypeMeta s))
       (view_pair view_ObjectMeta
       (view_pair view_VirtualMachineTemplateRequestSpec
       view_VirtualMachineTemplateRequestStatus))"

definition foot_VirtualMachineTemplateRequest where
  "foot_VirtualMachineTemplateRequest = (\<lambda>h s.
       (foot_pair foot_ObjectMeta
       (foot_pair foot_VirtualMachineTemplateRequestSpec
       foot_VirtualMachineTemplateRequestStatus))
       h (rq_ObjectMeta s, rq_Spec s, rq_Status s))"

definition view_VirtualMachineTemplateRequestList where
  "view_VirtualMachineTemplateRequestList =
     view_struct
       (\<lambda>s. (rl_ListMeta s, rl_Items s))
       (\<lambda>s. (rl_TypeMeta s))
       (view_pair view_ListMeta
       (view_slice as_Requests view_VirtualMachineTemplateRequest))"

definition foot_VirtualMachineTemplateRequestList where
  "foot_VirtualMachineTemplateRequestList = (\<lambda>h s.
       (foot_pair foot_ListMeta
       (foot_slice as_Requests foot_VirtualMachineTemplateRequest))
       h (rl_ListMeta s, rl_Items s))"

definition view_ResourceTemplate where
  "view_ResourceTemplate =
     view_struct
       (\<lambda>s. rt_ObjectMeta s)
       (\<lambda>s. (rt_TypeMeta s))
       view_ObjectMeta"

definition foot_ResourceTemplate where
  "foot_ResourceTemplate = (\<lambda>h s.
       foot_ObjectMeta
       h (rt_ObjectMeta s))"

definition view_ProcessOptions where
  "view_ProcessOptions =
     view_struct
       (\<lambda>s. (op_ObjectMeta s, op_Parameters s))
       (\<lambda>s. (op_TypeMeta s))
       (view_pair view_ObjectMeta
       (view_pointer as_StringMap view_flat))"

definition foot_ProcessOptions where
  "foot_ProcessOptions = (\<lambda>h s.
       (foot_pair foot_ObjectMeta
       (foot_pointer as_StringMap foot_flat))
       h (op_ObjectMeta s, op_Parameters s))"

definition view_ProcessedVirtualMachineTemplate where
  "view_ProcessedVirtualMachineTemplate vm_view =
     view_struct
       (\<lambda>s. (pv_ObjectMeta s, pv_TemplateRef s, pv_VirtualMachine s))
       (\<lambda>s. (pv_TypeMeta s, pv_Message s))
       (view_pair view_ObjectMeta
       (view_pair (view_pointer (variable as_ObjectReferences) view_flat)
       (view_pointer (variable as_VirtualMachines) vm_view)))"

definition foot_ProcessedVirtualMachineTemplate where
  "foot_ProcessedVirtualMachineTemplate vm_foot = (\<lambda>h s.
       (foot_pair foot_ObjectMeta
       (foot_pair (foot_pointer (variable as_ObjectReferences) foot_flat)
       (foot_pointer (variable as_VirtualMachines) vm_foot)))
       h (pv_ObjectMeta s, pv_TemplateRef s, pv_VirtualMachine s))"

section \<open>The copies are deep\<close>

lemmas struct_copies = fun_eq_iff copy_struct_def copy_pair_def split_def Option.bind_assoc

lemma deep_copy_Parameter [deep_copy_rules]: "deep_copy DeepCopyInto_Parameter foot_flat view_flat"
  by unfold_locales (auto simp: DeepCopyInto_Parameter_def view_flat_def foot_flat_def)

lemma deep_copy_VirtualMachineReference [deep_copy_rules]: "deep_copy DeepCopyInto_VirtualMachineReference foot_flat view_flat"
  by unfold_locales (auto simp: DeepCopyInto_VirtualMachineReference_def view_flat_def foot_flat_def)

lemma deep_copy_Condition [deep_copy_rules]: "deep_copy DeepCopyInto_Condition foot_flat view_flat"
  by unfold_locales (auto simp: DeepCopyInto_Condition_def view_flat_def foot_flat_def)

lemma DeepCopyInto_OwnerReference_struct:
  "DeepCopyInto_OwnerReference = copy_struct
       (\<lambda>s. (ow_Controller s, ow_BlockOwnerDeletion s))
       (\<lambda>(x0, x1) s. s\<lparr>ow_Controller := x0, ow_BlockOwnerDeletion := x1\<rparr>)
       (copy_pair (copy_pointer (one Bools) (variable as_Bools) copy_flat)
       (copy_pointer (one Bools) (variable as_Bools) copy_flat))"
  by (simp add: struct_copies DeepCopyInto_OwnerReference_def)

lemma deep_copy_OwnerReference [deep_copy_rules]:
  "deep_copy DeepCopyInto_OwnerReference foot_OwnerReference view_OwnerReference"
  unfolding DeepCopyInto_OwnerReference_struct view_OwnerReference_def foot_OwnerReference_def
  by (rule deep_copy_struct) (auto intro!: deep_copy_rules)

lemma DeepCopyInto_FieldsV1_struct:
  "DeepCopyInto_FieldsV1 = copy_struct
       (\<lambda>s. fv_Raw s)
       (\<lambda>x0 s. s\<lparr>fv_Raw := x0\<rparr>)
       (copy_slice Bytes as_Bytes copy_flat)"
  by (simp add: struct_copies DeepCopyInto_FieldsV1_def)

lemma deep_copy_FieldsV1 [deep_copy_rules]:
  "deep_copy DeepCopyInto_FieldsV1 foot_FieldsV1 view_FieldsV1"
  unfolding DeepCopyInto_FieldsV1_struct view_FieldsV1_def foot_FieldsV1_def
  by (rule deep_copy_struct) (auto intro!: deep_copy_rules)

lemma DeepCopyInto_ManagedFieldsEntry_struct:
  "DeepCopyInto_ManagedFieldsEntry = copy_struct
       (\<lambda>s. (mf_Time s, mf_FieldsV1 s))
       (\<lambda>(x0, x1) s. s\<lparr>mf_Time := x0, mf_FieldsV1 := x1\<rparr>)
       (copy_pair (copy_pointer (one Times) (variable as_Times) copy_flat)
       (copy_pointer (one FieldsV1s) (variable as_FieldsV1s) DeepCopyInto_FieldsV1))"
  by (simp add: struct_copies DeepCopyInto_ManagedFieldsEntry_def)

lemma deep_copy_ManagedFieldsEntry [deep_copy_rules]:
  "deep_copy DeepCopyInto_ManagedFieldsEntry foot_ManagedFieldsEntry view_ManagedFieldsEntry"
  unfolding DeepCopyInto_ManagedFieldsEntry_struct view_ManagedFieldsEntry_def foot_ManagedFieldsEntry_def
  by (rule deep_copy_struct) (auto intro!: deep_copy_rules)

lemma DeepCopyInto_ObjectMeta_struct:
  "DeepCopyInto_ObjectMeta = copy_struct
       (\<lambda>s. (om_DeletionTimestamp s, om_DeletionGracePeriodSeconds s, om_Labels s, om_Annotations s,
         om_OwnerReferences s, om_Finalizers s, om_ManagedFields s))
       (\<lambda>(x0, x1, x2, x3, x4, x5, x6) s. s\<lparr>om_DeletionTimestamp := x0, om_DeletionGracePeriodSeconds := x1,
         om_Labels := x2, om_Annotations := x3, om_OwnerReferences := x4, om_Finalizers := x5, om_ManagedFields := x6\<rparr>)
       (copy_pair (copy_pointer (one Times) (variable as_Times) copy_flat)
       (copy_pair (copy_pointer (one Int64s) (variable as_Int64s) copy_flat)
       (copy_pair (copy_pointer StringMap as_StringMap copy_flat)
       (copy_pair (copy_pointer StringMap as_StringMap copy_flat)
       (copy_pair (copy_slice OwnerReferences as_OwnerReferences DeepCopyInto_OwnerReference)
       (copy_pair (copy_slice Strings as_Strings copy_flat)
       (copy_slice ManagedFields as_ManagedFields DeepCopyInto_ManagedFieldsEntry)))))))"
  by (simp add: struct_copies DeepCopyInto_ObjectMeta_def)

lemma deep_copy_ObjectMeta [deep_copy_rules]:
  "deep_copy DeepCopyInto_ObjectMeta foot_ObjectMeta view_ObjectMeta"
  unfolding DeepCopyInto_ObjectMeta_struct view_ObjectMeta_def foot_ObjectMeta_def
  by (rule deep_copy_struct) (auto intro!: deep_copy_rules)

lemma DeepCopyInto_ListMeta_struct:
  "DeepCopyInto_ListMeta = copy_struct
       (\<lambda>s. lm_RemainingItemCount s)
       (\<lambda>x0 s. s\<lparr>lm_RemainingItemCount := x0\<rparr>)
       (copy_pointer (one Int64s) (variable as_Int64s) copy_flat)"
  by (simp add: struct_copies DeepCopyInto_ListMeta_def)

lemma deep_copy_ListMeta [deep_copy_rules]:
  "deep_copy DeepCopyInto_ListMeta foot_ListMeta view_ListMeta"
  unfolding DeepCopyInto_ListMeta_struct view_ListMeta_def foot_ListMeta_def
  by (rule deep_copy_struct) (auto intro!: deep_copy_rules)

lemma DeepCopyInto_RawExtension_struct:
  "DeepCopyInto_RawExtension obj_copy = copy_struct
       (\<lambda>s. (rx_Raw s, rx_Object s))
       (\<lambda>(x0, x1) s. s\<lparr>rx_Raw := x0, rx_Object := x1\<rparr>)
       (copy_pair (copy_slice Bytes as_Bytes copy_flat)
       (copy_option obj_copy))"
  by (simp add: struct_copies DeepCopyInto_RawExtension_def)

lemma deep_copy_RawExtension [deep_copy_rules]:
  "deep_copy obj_copy obj_foot obj_view \<Longrightarrow> deep_copy (DeepCopyInto_RawExtension obj_copy) (foot_RawExtension obj_foot) (view_RawExtension obj_view)"
  unfolding DeepCopyInto_RawExtension_struct view_RawExtension_def foot_RawExtension_def
  by (rule deep_copy_struct) (auto intro!: deep_copy_rules)

lemma DeepCopyInto_VirtualMachineTemplateSpec_struct:
  "DeepCopyInto_VirtualMachineTemplateSpec obj_copy = copy_struct
       (\<lambda>s. (sp_VirtualMachine s, sp_Parameters s))
       (\<lambda>(x0, x1) s. s\<lparr>sp_VirtualMachine := x0, sp_Parameters := x1\<rparr>)
       (copy_pair (copy_pointer (one RawExtensions) (variable as_RawExtensions) (DeepCopyInto_RawExtension obj_copy))
       (copy_slice Parameters as_Parameters copy_flat))"
  by (simp add: struct_copies DeepCopyInto_VirtualMachineTemplateSpec_def)

lemma deep_copy_VirtualMachineTemplateSpec [deep_copy_rules]:
  "deep_copy obj_copy obj_foot obj_view \<Longrightarrow> deep_copy (DeepCopyInto_VirtualMachineTemplateSpec obj_copy) (foot_VirtualMachineTemplateSpec obj_foot) (view_VirtualMachineTemplateSpec obj_view)"
  unfolding DeepCopyInto_VirtualMachineTemplateSpec_struct view_VirtualMachineTemplateSpec_def foot_VirtualMachineTemplateSpec_def
  by (rule deep_copy_struct) (auto intro!: deep_copy_rules)

lemma DeepCopyInto_VirtualMachineTemplateStatus_struct:
  "DeepCopyInto_VirtualMachineTemplateStatus = copy_struct
       (\<lambda>s. ss_Conditions s)
       (\<lambda>x0 s. s\<lparr>ss_Conditions := x0\<rparr>)
       (copy_slice Conditions as_Conditions DeepCopyInto_Condition)"
  by (simp add: struct_copies DeepCopyInto_VirtualMachineTemplateStatus_def)

lemma deep_copy_VirtualMachineTemplateStatus [deep_copy_rules]:
  "deep_copy DeepCopyInto_VirtualMachineTemplateStatus foot_VirtualMachineTemplateStatus view_VirtualMachineTemplateStatus"
  unfolding DeepCopyInto_VirtualMachineTemplateStatus_struct view_VirtualMachineTemplateStatus_def foot_VirtualMachineTemplateStatus_def
  by (rule deep_copy_struct) (auto intro!: deep_copy_rules)

lemma DeepCopyInto_VirtualMachineTemplate_struct:
  "DeepCopyInto_VirtualMachineTemplate obj_copy = copy_struct
       (\<lambda>s. (tp_ObjectMeta s, tp_Spec s, tp_Status s))
       (\<lambda>(x0, x1, x2) s. s\<lparr>tp_ObjectMeta := x0, tp_Spec := x1, tp_Status := x2\<rparr>)
       (copy_pair DeepCopyInto_ObjectMeta
       (copy_pair (DeepCopyInto_VirtualMachineTemplateSpec obj_copy)
       DeepCopyInto_VirtualMachineTemplateStatus))"
  by (simp add: struct_copies DeepCopyInto_VirtualMachineTemplate_def)

lemma deep_copy_VirtualMachineTemplate [deep_copy_rules]:
  "deep_copy obj_copy obj_foot obj_view \<Longrightarrow> deep_copy (DeepCopyInto_VirtualMachineTemplate obj_copy) (foot_VirtualMachineTemplate obj_foot) (view_VirtualMachineTemplate obj_view)"
  unfolding DeepCopyInto_VirtualMachineTemplate_struct view_VirtualMachineTemplate_def foot_VirtualMachineTemplate_def
  by (rule deep_copy_struct) (auto intro!: deep_copy_rules)

lemma DeepCopyInto_VirtualMachineTemplateList_struct:
  "DeepCopyInto_VirtualMachineTemplateList obj_copy = copy_struct
       (\<lambda>s. (tl_ListMeta s, tl_Items s))
       (\<lambda>(x0, x1) s. s\<lparr>tl_ListMeta := x0, tl_Items := x1\<rparr>)
       (copy_pair DeepCopyInto_ListMeta
       (copy_slice Templates as_Templates (DeepCopyInto_VirtualMachineTemplate obj_copy)))"
  by (simp add: struct_copies DeepCopyInto_VirtualMachineTemplateList_def)

lemma deep_copy_VirtualMachineTemplateList [deep_copy_rules]:
  "deep_copy obj_copy obj_foot obj_view \<Longrightarrow> deep_copy (DeepCopyInto_VirtualMachineTemplateList obj_copy) (foot_VirtualMachineTemplateList obj_foot) (view_VirtualMachineTemplateList obj_view)"
  unfolding DeepCopyInto_VirtualMachineTemplateList_struct view_VirtualMachineTemplateList_def foot_VirtualMachineTemplateList_def
  by (rule deep_copy_struct) (auto intro!: deep_copy_rules)

lemma DeepCopyInto_VirtualMachineTemplateRequestSpec_struct:
  "DeepCopyInto_VirtualMachineTemplateRequestSpec = copy_struct
       (\<lambda>s. (rp_TemplateLabels s, rp_TTLSecondsAfterFinished s))
       (\<lambda>(x0, x1) s. s\<lparr>rp_TemplateLabels := x0, rp_TTLSecondsAfterFinished := x1\<rparr>)
       (copy_pair (copy_pointer StringMap as_StringMap copy_flat)
       (copy_pointer (one Int32s) (variable as_Int32s) copy_flat))"
  by (simp add: struct_copies DeepCopyInto_VirtualMachineTemplateRequestSpec_def)

lemma deep_copy_VirtualMachineTemplateRequestSpec [deep_copy_rules]:
  "deep_copy DeepCopyInto_VirtualMachineTemplateRequestSpec foot_VirtualMachineTemplateRequestSpec view_VirtualMachineTemplateRequestSpec"
  unfolding DeepCopyInto_VirtualMachineTemplateRequestSpec_struct view_VirtualMachineTemplateRequestSpec_def foot_VirtualMachineTemplateRequestSpec_def
  by (rule deep_copy_struct) (auto intro!: deep_copy_rules)

lemma DeepCopyInto_VirtualMachineTemplateRequestStatus_struct:
  "DeepCopyInto_VirtualMachineTemplateRequestStatus = copy_struct
       (\<lambda>s. (ru_Conditions s, ru_TemplateRef s))
       (\<lambda>(x0, x1) s. s\<lparr>ru_Conditions := x0, ru_TemplateRef := x1\<rparr>)
       (copy_pair (copy_slice Conditions as_Conditions DeepCopyInto_Condition)
       (copy_pointer (one LocalReferences) (variable as_LocalReferences) copy_flat))"
  by (simp add: struct_copies DeepCopyInto_VirtualMachineTemplateRequestStatus_def)

lemma deep_copy_VirtualMachineTemplateRequestStatus [deep_copy_rules]:
  "deep_copy DeepCopyInto_VirtualMachineTemplateRequestStatus foot_VirtualMachineTemplateRequestStatus view_VirtualMachineTemplateRequestStatus"
  unfolding DeepCopyInto_VirtualMachineTemplateRequestStatus_struct view_VirtualMachineTemplateRequestStatus_def foot_VirtualMachineTemplateRequestStatus_def
  by (rule deep_copy_struct) (auto intro!: deep_copy_rules)

lemma DeepCopyInto_VirtualMachineTemplateRequest_struct:
  "DeepCopyInto_VirtualMachineTemplateRequest = copy_struct
       (\<lambda>s. (rq_ObjectMeta s, rq_Spec s, rq_Status s))
       (\<lambda>(x0, x1, x2) s. s\<lparr>rq_ObjectMeta := x0, rq_Spec := x1, rq_Status := x2\<rparr>)
       (copy_pair DeepCopyInto_ObjectMeta
       (copy_pair DeepCopyInto_VirtualMachineTemplateRequestSpec
       DeepCopyInto_VirtualMachineTemplateRequestStatus))"
  by (simp add: struct_copies DeepCopyInto_VirtualMachineTemplateRequest_def)

lemma deep_copy_VirtualMachineTemplateRequest [deep_copy_rules]:
  "deep_copy DeepCopyInto_VirtualMachineTemplateRequest foot_VirtualMachineTemplateRequest view_VirtualMachineTemplateRequest"
  unfolding DeepCopyInto_VirtualMachineTemplateRequest_struct view_VirtualMachineTemplateRequest_def foot_VirtualMachineTemplateRequest_def
  by (rule deep_copy_struct) (auto intro!: deep_copy_rules)

lemma DeepCopyInto_VirtualMachineTemplateRequestList_struct:
  "DeepCopyInto_VirtualMachineTemplateRequestList = copy_struct
       (\<lambda>s. (rl_ListMeta s, rl_Items s))
       (\<lambda>(x0, x1) s. s\<lparr>rl_ListMeta := x0, rl_Items := x1\<rparr>)
       (copy_pair DeepCopyInto_ListMeta
       (copy_slice Requests as_Requests DeepCopyInto_VirtualMachineTemplateRequest))"
  by (simp add: struct_copies DeepCopyInto_VirtualMachineTemplateRequestList_def)

lemma deep_copy_VirtualMachineTemplateRequestList [deep_copy_rules]:
  "deep_copy DeepCopyInto_VirtualMachineTemplateRequestList foot_VirtualMachineTemplateRequestList view_VirtualMachineTemplateRequestList"
  unfolding DeepCopyInto_VirtualMachineTemplateRequestList_struct view_VirtualMachineTemplateRequestList_def foot_VirtualMachineTemplateRequestList_def
  by (rule deep_copy_struct) (auto intro!: deep_copy_rules)

lemma DeepCopyInto_ResourceTemplate_struct:
  "DeepCopyInto_ResourceTemplate = copy_struct
       (\<lambda>s. rt_ObjectMeta s)
       (\<lambda>x0 s. s\<lparr>rt_ObjectMeta := x0\<rparr>)
       DeepCopyInto_ObjectMeta"
  by (simp add: struct_copies DeepCopyInto_ResourceTemplate_def)

lemma deep_copy_ResourceTemplate [deep_copy_rules]:
  "deep_copy DeepCopyInto_ResourceTemplate foot_ResourceTemplate view_ResourceTemplate"
  unfolding DeepCopyInto_ResourceTemplate_struct view_ResourceTemplate_def foot_ResourceTemplate_def
  by (rule deep_copy_struct) (auto intro!: deep_copy_rules)

lemma DeepCopyInto_ProcessOptions_struct:
  "DeepCopyInto_ProcessOptions = copy_struct
       (\<lambda>s. (op_ObjectMeta s, op_Parameters s))
       (\<lambda>(x0, x1) s. s\<lparr>op_ObjectMeta := x0, op_Parameters := x1\<rparr>)
       (copy_pair DeepCopyInto_ObjectMeta
       (copy_pointer StringMap as_StringMap copy_flat))"
  by (simp add: struct_copies DeepCopyInto_ProcessOptions_def)

lemma deep_copy_ProcessOptions [deep_copy_rules]:
  "deep_copy DeepCopyInto_ProcessOptions foot_ProcessOptions view_ProcessOptions"
  unfolding DeepCopyInto_ProcessOptions_struct view_ProcessOptions_def foot_ProcessOptions_def
  by (rule deep_copy_struct) (auto intro!: deep_copy_rules)

lemma DeepCopyInto_ProcessedVirtualMachineTemplate_struct:
  "DeepCopyInto_ProcessedVirtualMachineTemplate vm_copy = copy_struct
       (\<lambda>s. (pv_ObjectMeta s, pv_TemplateRef s, pv_VirtualMachine s))
       (\<lambda>(x0, x1, x2) s. s\<lparr>pv_ObjectMeta := x0, pv_TemplateRef := x1, pv_VirtualMachine := x2\<rparr>)
       (copy_pair DeepCopyInto_ObjectMeta
       (copy_pair (copy_pointer (one ObjectReferences) (variable as_ObjectReferences) copy_flat)
       (copy_pointer (one VirtualMachines) (variable as_VirtualMachines) vm_copy)))"
  by (simp add: struct_copies DeepCopyInto_ProcessedVirtualMachineTemplate_def)

lemma deep_copy_ProcessedVirtualMachineTemplate [deep_copy_rules]:
  "deep_copy vm_copy vm_foot vm_view \<Longrightarrow> deep_copy (DeepCopyInto_ProcessedVirtualMachineTemplate vm_copy) (foot_ProcessedVirtualMachineTemplate vm_foot) (view_ProcessedVirtualMachineTemplate vm_view)"
  unfolding DeepCopyInto_ProcessedVirtualMachineTemplate_struct view_ProcessedVirtualMachineTemplate_def foot_ProcessedVirtualMachineTemplate_def
  by (rule deep_copy_struct) (auto intro!: deep_copy_rules)

section \<open>Copies of objects\<close>

text \<open>The views of the pointers that the functions take, and the interpretations for the types without parameters.\<close>

abbreviation request_view where
  "request_view \<equiv> view_pointer (variable as_Requests) view_VirtualMachineTemplateRequest"

abbreviation template_view where
  "template_view obj_view \<equiv> view_pointer (variable as_Templates) (view_VirtualMachineTemplate obj_view)"

abbreviation processed_view where
  "processed_view vm_view \<equiv> view_pointer (variable as_Processeds) (view_ProcessedVirtualMachineTemplate vm_view)"

abbreviation request_list_view where
  "request_list_view \<equiv> view_pointer (variable as_RequestLists) view_VirtualMachineTemplateRequestList"

abbreviation options_view where
  "options_view \<equiv> view_pointer (variable as_Options) view_ProcessOptions"

interpretation request_pointer: deep_copy DeepCopy_VirtualMachineTemplateRequest
  "foot_pointer (variable as_Requests) foot_VirtualMachineTemplateRequest" request_view
  unfolding DeepCopy_VirtualMachineTemplateRequest_def by (auto intro!: deep_copy_rules)

interpretation request_list_pointer: deep_copy DeepCopy_VirtualMachineTemplateRequestList
  "foot_pointer (variable as_RequestLists) foot_VirtualMachineTemplateRequestList" request_list_view
  unfolding DeepCopy_VirtualMachineTemplateRequestList_def by (auto intro!: deep_copy_rules)

interpretation options_pointer: deep_copy DeepCopy_ProcessOptions
  "foot_pointer (variable as_Options) foot_ProcessOptions" options_view
  unfolding DeepCopy_ProcessOptions_def by (auto intro!: deep_copy_rules)

text \<open>Templates and processed templates, relative to the copies of what they embed.\<close>

lemma deep_copy_template_pointer:
  "deep_copy obj_copy obj_foot obj_view \<Longrightarrow>
     deep_copy (DeepCopy_VirtualMachineTemplate obj_copy)
       (foot_pointer (variable as_Templates) (foot_VirtualMachineTemplate obj_foot)) (template_view obj_view)"
  unfolding DeepCopy_VirtualMachineTemplate_def by (auto intro!: deep_copy_rules)

lemma deep_copy_processed_pointer:
  "deep_copy vm_copy vm_foot vm_view \<Longrightarrow>
     deep_copy (DeepCopy_ProcessedVirtualMachineTemplate vm_copy)
       (foot_pointer (variable as_Processeds) (foot_ProcessedVirtualMachineTemplate vm_foot)) (processed_view vm_view)"
  unfolding DeepCopy_ProcessedVirtualMachineTemplate_def by (auto intro!: deep_copy_rules)

text \<open>A pointer that is not nil is copied to one that is not nil, so an object is never copied to an interface that holds a nil pointer.\<close>

lemma copy_pointer_nil_iff: "copy_pointer mk project copy p h = Some (q, h') \<Longrightarrow> q = None \<longleftrightarrow> p = None"
  by (auto simp: copy_pointer_def bind_eq_Some_conv split: option.splits)

text \<open>
  C40.  A copied request: \<^verbatim>\<open>DeepCopy\<close> of a request succeeds and what can be read through the copy, metadata, spec and status
  with all maps, slices and pointers, is what could be read through the original; the original reads as before; and whatever is
  written afterwards to cells that existed before the call does not show in the copy, nor what is written to the cells of
  the copy, or to newer ones, in the original.
\<close>

theorem request_copy_independent:
  assumes "request_view h p = Some v"
  shows "\<exists>q h'. DeepCopy_VirtualMachineTemplateRequest p h = Some (q, h') \<and>
    request_view h' q = Some v \<and> request_view h' p = Some v \<and>
    (\<forall>h2. agree_on {length h..<length h'} h' h2 \<longrightarrow> request_view h2 q = Some v) \<and>
    (\<forall>h2. agree_on {..<length h} h' h2 \<longrightarrow> request_view h2 p = Some v)"
proof -
  obtain q h' where "DeepCopy_VirtualMachineTemplateRequest p h = Some (q, h')"
    using request_pointer.copies [OF assms] by blast
  with request_pointer.independent [OF assms this] show ?thesis
    by blast
qed

text \<open>A request with a label, a finalizer and a condition; after the copy the label of the original is overwritten.\<close>

definition example_object_meta :: object_meta where
  "example_object_meta =
     \<lparr>om_Name = ''request'', om_GenerateName = [], om_Namespace = ''ns'', om_SelfLink = [], om_UID = ''uid'',
      om_ResourceVersion = ''1'', om_Generation = 1, om_CreationTimestamp = 0, om_DeletionTimestamp = None,
      om_DeletionGracePeriodSeconds = None, om_Labels = Some 1, om_Annotations = None, om_OwnerReferences = None,
      om_Finalizers = Some \<lparr>sl_array = 2, sl_offset = 1, sl_len = 1\<rparr>, om_ManagedFields = None\<rparr>"

definition example_request_object :: request_object where
  "example_request_object =
     \<lparr>rq_TypeMeta = empty_type, rq_ObjectMeta = example_object_meta,
      rq_Spec = \<lparr>rp_VirtualMachineRef = \<lparr>vr_Namespace = ''ns'', vr_Name = ''vm''\<rparr>, rp_TemplateName = [],
        rp_TemplateLabels = Some 1, rp_TTLSecondsAfterFinished = Some 3\<rparr>,
      rq_Status = \<lparr>ru_Conditions = None, ru_TemplateRef = Some 4\<rparr>\<rparr>"

definition example_heap :: "(address option, unit) heap" where
  "example_heap =
     [Requests [example_request_object], StringMap [''app'' \<mapsto> ''web''], Strings [''a'', FinalizerSnapshotCleanup], Int32s [60],
      LocalReferences [''template'']]"

lemmas view_defs = view_pointer_def view_slice_def view_option_def view_struct_def view_pair_def view_flat_def load_as_def load_def
  window_def variable_def view_OwnerReference_def view_ObjectMeta_def view_VirtualMachineTemplateRequest_def
  view_VirtualMachineTemplateRequestSpec_def view_VirtualMachineTemplateRequestStatus_def view_VirtualMachineTemplate_def
  view_VirtualMachineTemplateSpec_def view_VirtualMachineTemplateStatus_def view_RawExtension_def

lemma request_copy_independent_witness:
  "\<exists>q h' v. request_view example_heap (Some 0) = Some v \<and>
     DeepCopy_VirtualMachineTemplateRequest (Some 0) example_heap = Some (q, h') \<and>
     request_view (store 1 (StringMap Map.empty) h') q = Some v"
proof -
  obtain v where v: "request_view example_heap (Some 0) = Some v"
    by (simp add: view_defs example_heap_def example_request_object_def example_object_meta_def)
  obtain q h' where *: "DeepCopy_VirtualMachineTemplateRequest (Some 0) example_heap = Some (q, h')"
      "\<forall>h2. agree_on {length example_heap..<length h'} h' h2 \<longrightarrow> request_view h2 q = Some v"
    using request_copy_independent [OF v] by blast
  have "agree_on {length example_heap..<length h'} h' (store 1 (StringMap Map.empty) h')"
    by (auto simp: agree_on_def load_def store_def example_heap_def)
  with * v show ?thesis
    by blast
qed

text \<open>
  A copied template: for embedded objects whose own copies are deep, \<^verbatim>\<open>DeepCopyObject\<close> of a template returns a new template
  (never an interface that holds a nil pointer) that reads like the original, with the VirtualMachine, raw or decoded, the parameters
  and the conditions, and whatever is written to cells that existed before does not show in it.
\<close>

theorem template_copy_independent:
  assumes "deep_copy obj_copy obj_foot obj_view" "template_view obj_view h (Some a) = Some v"
  shows "\<exists>b h'. DeepCopyObject_VirtualMachineTemplate obj_copy (Some a) h = Some (ObjectOf (Some b), h') \<and>
    template_view obj_view h' (Some b) = Some v \<and> template_view obj_view h' (Some a) = Some v \<and>
    (\<forall>h2. agree_on {length h..<length h'} h' h2 \<longrightarrow> template_view obj_view h2 (Some b) = Some v) \<and>
    (\<forall>h2. agree_on {..<length h} h' h2 \<longrightarrow> template_view obj_view h2 (Some a) = Some v)"
proof -
  note dc = deep_copy_template_pointer [OF assms(1)]
  obtain q h' where q: "DeepCopy_VirtualMachineTemplate obj_copy (Some a) h = Some (q, h')"
    using deep_copy.copies [OF dc assms(2)] by blast
  then obtain b where b: "q = Some b"
    using copy_pointer_nil_iff unfolding DeepCopy_VirtualMachineTemplate_def by blast
  then have "DeepCopyObject_VirtualMachineTemplate obj_copy (Some a) h = Some (ObjectOf (Some b), h')"
    using q by (simp add: DeepCopyObject_VirtualMachineTemplate_def as_object_def)
  with deep_copy.independent [OF dc assms(2) q] show ?thesis
    unfolding b by blast
qed

text \<open>A template whose RawExtension holds the request above as its object, decoded and raw; both raw forms are overwritten.\<close>

definition example_template_object :: "address option template_object" where
  "example_template_object =
     \<lparr>tp_TypeMeta = empty_type, tp_ObjectMeta = example_object_meta,
      tp_Spec = \<lparr>sp_VirtualMachine = Some 6, sp_Parameters = None, sp_Message = ''created''\<rparr>,
      tp_Status = \<lparr>ss_Conditions = None\<rparr>\<rparr>"

definition example_template_heap :: "(address option, unit) heap" where
  "example_template_heap = example_heap @
     [Templates [example_template_object],
      RawExtensions [\<lparr>rx_Raw = Some \<lparr>sl_array = 7, sl_offset = 0, sl_len = 2\<rparr>, rx_Object = Some (Some 0)\<rparr>], Bytes ''{}'']"

lemma template_copy_independent_witness:
  "\<exists>b h' v. template_view request_view example_template_heap (Some 5) = Some v \<and>
     DeepCopyObject_VirtualMachineTemplate DeepCopy_VirtualMachineTemplateRequest (Some 5) example_template_heap
       = Some (ObjectOf (Some b), h') \<and>
     template_view request_view (store 7 (Bytes ''[]'') h') (Some b) = Some v"
proof -
  obtain v where v: "template_view request_view example_template_heap (Some 5) = Some v"
    by (simp add: view_defs example_template_heap_def example_heap_def example_request_object_def example_object_meta_def
        example_template_object_def)
  obtain b h' where *: "DeepCopyObject_VirtualMachineTemplate DeepCopy_VirtualMachineTemplateRequest (Some 5) example_template_heap
       = Some (ObjectOf (Some b), h')"
      "\<forall>h2. agree_on {length example_template_heap..<length h'} h' h2 \<longrightarrow> template_view request_view h2 (Some b) = Some v"
    using template_copy_independent [OF request_pointer.deep_copy_axioms v] by blast
  have "agree_on {length example_template_heap..<length h'} h' (store 7 (Bytes ''[]'') h')"
    by (auto simp: agree_on_def load_def store_def example_template_heap_def example_heap_def)
  with * v show ?thesis
    by blast
qed

end
