(* ===== verification/Deep_Copy_V1alpha1.thy ===== *)
theory Deep_Copy_V1alpha1
  imports Deep_Copy
begin

text \<open>
  The generated deep copies of the v1alpha1 packages, \<^verbatim>\<open>api/core/v1alpha1/zz_generated.deepcopy.go\<close> and
  \<^verbatim>\<open>api/core/subresourcesv1alpha1/zz_generated.deepcopy.go\<close>.  The structs of v1alpha1 have the fields of those of v1beta1, with the same
  types, and are represented on the heap in the same way.  Every copy is shown to be the one of v1beta1, from which it takes its
  contract.
\<close>

section \<open>The structs\<close>

type_synonym vm_reference_v1alpha1 = vm_reference
type_synonym request_spec_v1alpha1 = request_spec
type_synonym request_status_v1alpha1 = request_status
type_synonym request_object_v1alpha1 = request_object
type_synonym request_list_v1alpha1 = request_list
type_synonym template_list_v1alpha1 = template_list

section \<open>The functions\<close>

definition DeepCopyInto_Parameter_v1alpha1 :: "(Parameter, 'i, 'x) copier" where
  "DeepCopyInto_Parameter_v1alpha1 s h = Some (s, h)"

definition DeepCopyInto_VirtualMachineReference_v1alpha1 :: "(vm_reference_v1alpha1, 'i, 'x) copier" where
  "DeepCopyInto_VirtualMachineReference_v1alpha1 s h = Some (s, h)"

definition DeepCopyInto_VirtualMachineTemplateSpec_v1alpha1 :: "('i, 'i, 'x) copier \<Rightarrow> ('i template_spec, 'i, 'x) copier" where
  "DeepCopyInto_VirtualMachineTemplateSpec_v1alpha1 obj_copy s h =
     do {
       (x0, h) \<leftarrow> copy_pointer (one RawExtensions) (variable as_RawExtensions) (DeepCopyInto_RawExtension obj_copy) (sp_VirtualMachine s) h;
       (x1, h) \<leftarrow> copy_slice Parameters as_Parameters copy_flat (sp_Parameters s) h;
       Some (s\<lparr>sp_VirtualMachine := x0, sp_Parameters := x1\<rparr>, h) }"

definition DeepCopyInto_VirtualMachineTemplateStatus_v1alpha1 :: "(template_status, 'i, 'x) copier" where
  "DeepCopyInto_VirtualMachineTemplateStatus_v1alpha1 s h =
     do {
       (x0, h) \<leftarrow> copy_slice Conditions as_Conditions DeepCopyInto_Condition (ss_Conditions s) h;
       Some (s\<lparr>ss_Conditions := x0\<rparr>, h) }"

definition DeepCopyInto_VirtualMachineTemplate_v1alpha1 :: "('i, 'i, 'x) copier \<Rightarrow> ('i template_object, 'i, 'x) copier" where
  "DeepCopyInto_VirtualMachineTemplate_v1alpha1 obj_copy s h =
     do {
       (x0, h) \<leftarrow> DeepCopyInto_ObjectMeta (tp_ObjectMeta s) h;
       (x1, h) \<leftarrow> DeepCopyInto_VirtualMachineTemplateSpec_v1alpha1 obj_copy (tp_Spec s) h;
       (x2, h) \<leftarrow> DeepCopyInto_VirtualMachineTemplateStatus_v1alpha1 (tp_Status s) h;
       Some (s\<lparr>tp_ObjectMeta := x0, tp_Spec := x1, tp_Status := x2\<rparr>, h) }"

definition DeepCopyInto_VirtualMachineTemplateList_v1alpha1 :: "('i, 'i, 'x) copier \<Rightarrow> (template_list_v1alpha1, 'i, 'x) copier" where
  "DeepCopyInto_VirtualMachineTemplateList_v1alpha1 obj_copy s h =
     do {
       (x0, h) \<leftarrow> DeepCopyInto_ListMeta (tl_ListMeta s) h;
       (x1, h) \<leftarrow> copy_slice Templates as_Templates (DeepCopyInto_VirtualMachineTemplate_v1alpha1 obj_copy) (tl_Items s) h;
       Some (s\<lparr>tl_ListMeta := x0, tl_Items := x1\<rparr>, h) }"

definition DeepCopyInto_VirtualMachineTemplateRequestSpec_v1alpha1 :: "(request_spec_v1alpha1, 'i, 'x) copier" where
  "DeepCopyInto_VirtualMachineTemplateRequestSpec_v1alpha1 s h =
     do {
       (x0, h) \<leftarrow> copy_pointer StringMap as_StringMap copy_flat (rp_TemplateLabels s) h;
       (x1, h) \<leftarrow> copy_pointer (one Int32s) (variable as_Int32s) copy_flat (rp_TTLSecondsAfterFinished s) h;
       Some (s\<lparr>rp_TemplateLabels := x0, rp_TTLSecondsAfterFinished := x1\<rparr>, h) }"

definition DeepCopyInto_VirtualMachineTemplateRequestStatus_v1alpha1 :: "(request_status_v1alpha1, 'i, 'x) copier" where
  "DeepCopyInto_VirtualMachineTemplateRequestStatus_v1alpha1 s h =
     do {
       (x0, h) \<leftarrow> copy_slice Conditions as_Conditions DeepCopyInto_Condition (ru_Conditions s) h;
       (x1, h) \<leftarrow> copy_pointer (one LocalReferences) (variable as_LocalReferences) copy_flat (ru_TemplateRef s) h;
       Some (s\<lparr>ru_Conditions := x0, ru_TemplateRef := x1\<rparr>, h) }"

definition DeepCopyInto_VirtualMachineTemplateRequest_v1alpha1 :: "(request_object_v1alpha1, 'i, 'x) copier" where
  "DeepCopyInto_VirtualMachineTemplateRequest_v1alpha1 s h =
     do {
       (x0, h) \<leftarrow> DeepCopyInto_ObjectMeta (rq_ObjectMeta s) h;
       (x1, h) \<leftarrow> DeepCopyInto_VirtualMachineTemplateRequestSpec_v1alpha1 (rq_Spec s) h;
       (x2, h) \<leftarrow> DeepCopyInto_VirtualMachineTemplateRequestStatus_v1alpha1 (rq_Status s) h;
       Some (s\<lparr>rq_ObjectMeta := x0, rq_Spec := x1, rq_Status := x2\<rparr>, h) }"

definition DeepCopyInto_VirtualMachineTemplateRequestList_v1alpha1 :: "(request_list_v1alpha1, 'i, 'x) copier" where
  "DeepCopyInto_VirtualMachineTemplateRequestList_v1alpha1 s h =
     do {
       (x0, h) \<leftarrow> DeepCopyInto_ListMeta (rl_ListMeta s) h;
       (x1, h) \<leftarrow> copy_slice Requests as_Requests DeepCopyInto_VirtualMachineTemplateRequest_v1alpha1 (rl_Items s) h;
       Some (s\<lparr>rl_ListMeta := x0, rl_Items := x1\<rparr>, h) }"

definition DeepCopyInto_ResourceTemplate_v1alpha1 :: "(resource_template, 'i, 'x) copier" where
  "DeepCopyInto_ResourceTemplate_v1alpha1 s h =
     do {
       (x0, h) \<leftarrow> DeepCopyInto_ObjectMeta (rt_ObjectMeta s) h;
       Some (s\<lparr>rt_ObjectMeta := x0\<rparr>, h) }"

definition DeepCopyInto_ProcessOptions_v1alpha1 :: "(process_options, 'i, 'x) copier" where
  "DeepCopyInto_ProcessOptions_v1alpha1 s h =
     do {
       (x0, h) \<leftarrow> DeepCopyInto_ObjectMeta (op_ObjectMeta s) h;
       (x1, h) \<leftarrow> copy_pointer StringMap as_StringMap copy_flat (op_Parameters s) h;
       Some (s\<lparr>op_ObjectMeta := x0, op_Parameters := x1\<rparr>, h) }"

definition DeepCopyInto_ProcessedVirtualMachineTemplate_v1alpha1 :: "('x, 'i, 'x) copier \<Rightarrow> (processed_object, 'i, 'x) copier" where
  "DeepCopyInto_ProcessedVirtualMachineTemplate_v1alpha1 vm_copy s h =
     do {
       (x0, h) \<leftarrow> DeepCopyInto_ObjectMeta (pv_ObjectMeta s) h;
       (x1, h) \<leftarrow> copy_pointer (one ObjectReferences) (variable as_ObjectReferences) copy_flat (pv_TemplateRef s) h;
       (x2, h) \<leftarrow> copy_pointer (one VirtualMachines) (variable as_VirtualMachines) vm_copy (pv_VirtualMachine s) h;
       Some (s\<lparr>pv_ObjectMeta := x0, pv_TemplateRef := x1, pv_VirtualMachine := x2\<rparr>, h) }"

definition DeepCopy_Parameter_v1alpha1 :: "(address option, 'i, 'x) copier" where
  "DeepCopy_Parameter_v1alpha1 = copy_pointer (one Parameters) (variable as_Parameters) DeepCopyInto_Parameter_v1alpha1"

definition DeepCopy_VirtualMachineReference_v1alpha1 :: "(address option, 'i, 'x) copier" where
  "DeepCopy_VirtualMachineReference_v1alpha1 =
     copy_pointer (one VMReferences) (variable as_VMReferences) DeepCopyInto_VirtualMachineReference_v1alpha1"

definition DeepCopy_VirtualMachineTemplateSpec_v1alpha1 :: "('i, 'i, 'x) copier \<Rightarrow> (address option, 'i, 'x) copier" where
  "DeepCopy_VirtualMachineTemplateSpec_v1alpha1 obj_copy =
     copy_pointer (one TemplateSpecs) (variable as_TemplateSpecs) (DeepCopyInto_VirtualMachineTemplateSpec_v1alpha1 obj_copy)"

definition DeepCopy_VirtualMachineTemplateStatus_v1alpha1 :: "(address option, 'i, 'x) copier" where
  "DeepCopy_VirtualMachineTemplateStatus_v1alpha1 =
     copy_pointer (one TemplateStatuses) (variable as_TemplateStatuses) DeepCopyInto_VirtualMachineTemplateStatus_v1alpha1"

definition DeepCopy_VirtualMachineTemplate_v1alpha1 :: "('i, 'i, 'x) copier \<Rightarrow> (address option, 'i, 'x) copier" where
  "DeepCopy_VirtualMachineTemplate_v1alpha1 obj_copy =
     copy_pointer (one Templates) (variable as_Templates) (DeepCopyInto_VirtualMachineTemplate_v1alpha1 obj_copy)"

definition DeepCopyObject_VirtualMachineTemplate_v1alpha1 ::
  "('i, 'i, 'x) copier \<Rightarrow> address option \<Rightarrow> ('i, 'x) heap \<Rightarrow> (object_interface \<times> ('i, 'x) heap) option" where
  "DeepCopyObject_VirtualMachineTemplate_v1alpha1 obj_copy p h =
     do { (c, h) \<leftarrow> DeepCopy_VirtualMachineTemplate_v1alpha1 obj_copy p h; Some (as_object c, h) }"

definition DeepCopy_VirtualMachineTemplateList_v1alpha1 :: "('i, 'i, 'x) copier \<Rightarrow> (address option, 'i, 'x) copier" where
  "DeepCopy_VirtualMachineTemplateList_v1alpha1 obj_copy =
     copy_pointer (one TemplateLists) (variable as_TemplateLists) (DeepCopyInto_VirtualMachineTemplateList_v1alpha1 obj_copy)"

definition DeepCopyObject_VirtualMachineTemplateList_v1alpha1 ::
  "('i, 'i, 'x) copier \<Rightarrow> address option \<Rightarrow> ('i, 'x) heap \<Rightarrow> (object_interface \<times> ('i, 'x) heap) option" where
  "DeepCopyObject_VirtualMachineTemplateList_v1alpha1 obj_copy p h =
     do { (c, h) \<leftarrow> DeepCopy_VirtualMachineTemplateList_v1alpha1 obj_copy p h; Some (as_object c, h) }"

definition DeepCopy_VirtualMachineTemplateRequestSpec_v1alpha1 :: "(address option, 'i, 'x) copier" where
  "DeepCopy_VirtualMachineTemplateRequestSpec_v1alpha1 =
     copy_pointer (one RequestSpecs) (variable as_RequestSpecs) DeepCopyInto_VirtualMachineTemplateRequestSpec_v1alpha1"

definition DeepCopy_VirtualMachineTemplateRequestStatus_v1alpha1 :: "(address option, 'i, 'x) copier" where
  "DeepCopy_VirtualMachineTemplateRequestStatus_v1alpha1 =
     copy_pointer (one RequestStatuses) (variable as_RequestStatuses) DeepCopyInto_VirtualMachineTemplateRequestStatus_v1alpha1"

definition DeepCopy_VirtualMachineTemplateRequest_v1alpha1 :: "(address option, 'i, 'x) copier" where
  "DeepCopy_VirtualMachineTemplateRequest_v1alpha1 =
     copy_pointer (one Requests) (variable as_Requests) DeepCopyInto_VirtualMachineTemplateRequest_v1alpha1"

definition DeepCopyObject_VirtualMachineTemplateRequest_v1alpha1 ::
  "address option \<Rightarrow> ('i, 'x) heap \<Rightarrow> (object_interface \<times> ('i, 'x) heap) option" where
  "DeepCopyObject_VirtualMachineTemplateRequest_v1alpha1 p h =
     do { (c, h) \<leftarrow> DeepCopy_VirtualMachineTemplateRequest_v1alpha1 p h; Some (as_object c, h) }"

definition DeepCopy_VirtualMachineTemplateRequestList_v1alpha1 :: "(address option, 'i, 'x) copier" where
  "DeepCopy_VirtualMachineTemplateRequestList_v1alpha1 =
     copy_pointer (one RequestLists) (variable as_RequestLists) DeepCopyInto_VirtualMachineTemplateRequestList_v1alpha1"

definition DeepCopyObject_VirtualMachineTemplateRequestList_v1alpha1 ::
  "address option \<Rightarrow> ('i, 'x) heap \<Rightarrow> (object_interface \<times> ('i, 'x) heap) option" where
  "DeepCopyObject_VirtualMachineTemplateRequestList_v1alpha1 p h =
     do { (c, h) \<leftarrow> DeepCopy_VirtualMachineTemplateRequestList_v1alpha1 p h; Some (as_object c, h) }"

definition DeepCopy_ResourceTemplate_v1alpha1 :: "(address option, 'i, 'x) copier" where
  "DeepCopy_ResourceTemplate_v1alpha1 = copy_pointer (one ResourceTemplates) (variable as_ResourceTemplates) DeepCopyInto_ResourceTemplate_v1alpha1"

definition DeepCopyObject_ResourceTemplate_v1alpha1 ::
  "address option \<Rightarrow> ('i, 'x) heap \<Rightarrow> (object_interface \<times> ('i, 'x) heap) option" where
  "DeepCopyObject_ResourceTemplate_v1alpha1 p h = do { (c, h) \<leftarrow> DeepCopy_ResourceTemplate_v1alpha1 p h; Some (as_object c, h) }"

definition DeepCopy_ProcessOptions_v1alpha1 :: "(address option, 'i, 'x) copier" where
  "DeepCopy_ProcessOptions_v1alpha1 = copy_pointer (one Options) (variable as_Options) DeepCopyInto_ProcessOptions_v1alpha1"

definition DeepCopyObject_ProcessOptions_v1alpha1 ::
  "address option \<Rightarrow> ('i, 'x) heap \<Rightarrow> (object_interface \<times> ('i, 'x) heap) option" where
  "DeepCopyObject_ProcessOptions_v1alpha1 p h = do { (c, h) \<leftarrow> DeepCopy_ProcessOptions_v1alpha1 p h; Some (as_object c, h) }"

definition DeepCopy_ProcessedVirtualMachineTemplate_v1alpha1 :: "('x, 'i, 'x) copier \<Rightarrow> (address option, 'i, 'x) copier" where
  "DeepCopy_ProcessedVirtualMachineTemplate_v1alpha1 vm_copy =
     copy_pointer (one Processeds) (variable as_Processeds) (DeepCopyInto_ProcessedVirtualMachineTemplate_v1alpha1 vm_copy)"

definition DeepCopyObject_ProcessedVirtualMachineTemplate_v1alpha1 ::
  "('x, 'i, 'x) copier \<Rightarrow> address option \<Rightarrow> ('i, 'x) heap \<Rightarrow> (object_interface \<times> ('i, 'x) heap) option" where
  "DeepCopyObject_ProcessedVirtualMachineTemplate_v1alpha1 vm_copy p h =
     do { (c, h) \<leftarrow> DeepCopy_ProcessedVirtualMachineTemplate_v1alpha1 vm_copy p h; Some (as_object c, h) }"

section \<open>The copies of the two versions\<close>

lemmas DeepCopyInto_defs =
  DeepCopyInto_Parameter_v1alpha1_def DeepCopyInto_Parameter_def DeepCopyInto_VirtualMachineReference_v1alpha1_def
  DeepCopyInto_VirtualMachineReference_def DeepCopyInto_VirtualMachineTemplateSpec_v1alpha1_def DeepCopyInto_VirtualMachineTemplateSpec_def
  DeepCopyInto_VirtualMachineTemplateStatus_v1alpha1_def DeepCopyInto_VirtualMachineTemplateStatus_def
  DeepCopyInto_VirtualMachineTemplate_v1alpha1_def DeepCopyInto_VirtualMachineTemplate_def
  DeepCopyInto_VirtualMachineTemplateList_v1alpha1_def DeepCopyInto_VirtualMachineTemplateList_def
  DeepCopyInto_VirtualMachineTemplateRequestSpec_v1alpha1_def DeepCopyInto_VirtualMachineTemplateRequestSpec_def
  DeepCopyInto_VirtualMachineTemplateRequestStatus_v1alpha1_def DeepCopyInto_VirtualMachineTemplateRequestStatus_def
  DeepCopyInto_VirtualMachineTemplateRequest_v1alpha1_def DeepCopyInto_VirtualMachineTemplateRequest_def
  DeepCopyInto_VirtualMachineTemplateRequestList_v1alpha1_def DeepCopyInto_VirtualMachineTemplateRequestList_def
  DeepCopyInto_ResourceTemplate_v1alpha1_def DeepCopyInto_ResourceTemplate_def DeepCopyInto_ProcessOptions_v1alpha1_def
  DeepCopyInto_ProcessOptions_def DeepCopyInto_ProcessedVirtualMachineTemplate_v1alpha1_def DeepCopyInto_ProcessedVirtualMachineTemplate_def

lemmas DeepCopy_defs =
  DeepCopy_Parameter_v1alpha1_def DeepCopy_Parameter_def DeepCopy_VirtualMachineReference_v1alpha1_def DeepCopy_VirtualMachineReference_def
  DeepCopy_VirtualMachineTemplateSpec_v1alpha1_def DeepCopy_VirtualMachineTemplateSpec_def
  DeepCopy_VirtualMachineTemplateStatus_v1alpha1_def DeepCopy_VirtualMachineTemplateStatus_def DeepCopy_VirtualMachineTemplate_v1alpha1_def
  DeepCopy_VirtualMachineTemplate_def DeepCopyObject_VirtualMachineTemplate_v1alpha1_def DeepCopyObject_VirtualMachineTemplate_def
  DeepCopy_VirtualMachineTemplateList_v1alpha1_def DeepCopy_VirtualMachineTemplateList_def
  DeepCopyObject_VirtualMachineTemplateList_v1alpha1_def DeepCopyObject_VirtualMachineTemplateList_def
  DeepCopy_VirtualMachineTemplateRequestSpec_v1alpha1_def DeepCopy_VirtualMachineTemplateRequestSpec_def
  DeepCopy_VirtualMachineTemplateRequestStatus_v1alpha1_def DeepCopy_VirtualMachineTemplateRequestStatus_def
  DeepCopy_VirtualMachineTemplateRequest_v1alpha1_def DeepCopy_VirtualMachineTemplateRequest_def
  DeepCopyObject_VirtualMachineTemplateRequest_v1alpha1_def DeepCopyObject_VirtualMachineTemplateRequest_def
  DeepCopy_VirtualMachineTemplateRequestList_v1alpha1_def DeepCopy_VirtualMachineTemplateRequestList_def
  DeepCopyObject_VirtualMachineTemplateRequestList_v1alpha1_def DeepCopyObject_VirtualMachineTemplateRequestList_def
  DeepCopy_ResourceTemplate_v1alpha1_def DeepCopy_ResourceTemplate_def DeepCopyObject_ResourceTemplate_v1alpha1_def
  DeepCopyObject_ResourceTemplate_def DeepCopy_ProcessOptions_v1alpha1_def DeepCopy_ProcessOptions_def
  DeepCopyObject_ProcessOptions_v1alpha1_def DeepCopyObject_ProcessOptions_def DeepCopy_ProcessedVirtualMachineTemplate_v1alpha1_def
  DeepCopy_ProcessedVirtualMachineTemplate_def DeepCopyObject_ProcessedVirtualMachineTemplate_v1alpha1_def
  DeepCopyObject_ProcessedVirtualMachineTemplate_def

lemma DeepCopyInto_same:
  "DeepCopyInto_Parameter_v1alpha1 = DeepCopyInto_Parameter"
  "DeepCopyInto_VirtualMachineReference_v1alpha1 = DeepCopyInto_VirtualMachineReference"
  "DeepCopyInto_VirtualMachineTemplateSpec_v1alpha1 = DeepCopyInto_VirtualMachineTemplateSpec"
  "DeepCopyInto_VirtualMachineTemplateStatus_v1alpha1 = DeepCopyInto_VirtualMachineTemplateStatus"
  "DeepCopyInto_VirtualMachineTemplate_v1alpha1 = DeepCopyInto_VirtualMachineTemplate"
  "DeepCopyInto_VirtualMachineTemplateList_v1alpha1 = DeepCopyInto_VirtualMachineTemplateList"
  "DeepCopyInto_VirtualMachineTemplateRequestSpec_v1alpha1 = DeepCopyInto_VirtualMachineTemplateRequestSpec"
  "DeepCopyInto_VirtualMachineTemplateRequestStatus_v1alpha1 = DeepCopyInto_VirtualMachineTemplateRequestStatus"
  "DeepCopyInto_VirtualMachineTemplateRequest_v1alpha1 = DeepCopyInto_VirtualMachineTemplateRequest"
  "DeepCopyInto_VirtualMachineTemplateRequestList_v1alpha1 = DeepCopyInto_VirtualMachineTemplateRequestList"
  "DeepCopyInto_ResourceTemplate_v1alpha1 = DeepCopyInto_ResourceTemplate"
  "DeepCopyInto_ProcessOptions_v1alpha1 = DeepCopyInto_ProcessOptions"
  "DeepCopyInto_ProcessedVirtualMachineTemplate_v1alpha1 = DeepCopyInto_ProcessedVirtualMachineTemplate"
  unfolding DeepCopyInto_defs [abs_def] by (rule refl)+

lemma DeepCopy_same:
  "DeepCopy_Parameter_v1alpha1 = DeepCopy_Parameter"
  "DeepCopy_VirtualMachineReference_v1alpha1 = DeepCopy_VirtualMachineReference"
  "DeepCopy_VirtualMachineTemplateSpec_v1alpha1 = DeepCopy_VirtualMachineTemplateSpec"
  "DeepCopy_VirtualMachineTemplateStatus_v1alpha1 = DeepCopy_VirtualMachineTemplateStatus"
  "DeepCopy_VirtualMachineTemplate_v1alpha1 = DeepCopy_VirtualMachineTemplate"
  "DeepCopyObject_VirtualMachineTemplate_v1alpha1 = DeepCopyObject_VirtualMachineTemplate"
  "DeepCopy_VirtualMachineTemplateList_v1alpha1 = DeepCopy_VirtualMachineTemplateList"
  "DeepCopyObject_VirtualMachineTemplateList_v1alpha1 = DeepCopyObject_VirtualMachineTemplateList"
  "DeepCopy_VirtualMachineTemplateRequestSpec_v1alpha1 = DeepCopy_VirtualMachineTemplateRequestSpec"
  "DeepCopy_VirtualMachineTemplateRequestStatus_v1alpha1 = DeepCopy_VirtualMachineTemplateRequestStatus"
  "DeepCopy_VirtualMachineTemplateRequest_v1alpha1 = DeepCopy_VirtualMachineTemplateRequest"
  "DeepCopyObject_VirtualMachineTemplateRequest_v1alpha1 = DeepCopyObject_VirtualMachineTemplateRequest"
  "DeepCopy_VirtualMachineTemplateRequestList_v1alpha1 = DeepCopy_VirtualMachineTemplateRequestList"
  "DeepCopyObject_VirtualMachineTemplateRequestList_v1alpha1 = DeepCopyObject_VirtualMachineTemplateRequestList"
  "DeepCopy_ResourceTemplate_v1alpha1 = DeepCopy_ResourceTemplate"
  "DeepCopyObject_ResourceTemplate_v1alpha1 = DeepCopyObject_ResourceTemplate"
  "DeepCopy_ProcessOptions_v1alpha1 = DeepCopy_ProcessOptions"
  "DeepCopyObject_ProcessOptions_v1alpha1 = DeepCopyObject_ProcessOptions"
  "DeepCopy_ProcessedVirtualMachineTemplate_v1alpha1 = DeepCopy_ProcessedVirtualMachineTemplate"
  "DeepCopyObject_ProcessedVirtualMachineTemplate_v1alpha1 = DeepCopyObject_ProcessedVirtualMachineTemplate"
  unfolding DeepCopy_defs [abs_def] DeepCopyInto_same by (rule refl)+

interpretation request_pointer_v1alpha1: deep_copy DeepCopy_VirtualMachineTemplateRequest_v1alpha1
  "foot_pointer (variable as_Requests) foot_VirtualMachineTemplateRequest" request_view
  unfolding DeepCopy_same by (rule request_pointer.deep_copy_axioms)

interpretation request_list_pointer_v1alpha1: deep_copy DeepCopy_VirtualMachineTemplateRequestList_v1alpha1
  "foot_pointer (variable as_RequestLists) foot_VirtualMachineTemplateRequestList" request_list_view
  unfolding DeepCopy_same by (rule request_list_pointer.deep_copy_axioms)

interpretation options_pointer_v1alpha1: deep_copy DeepCopy_ProcessOptions_v1alpha1
  "foot_pointer (variable as_Options) foot_ProcessOptions" options_view
  unfolding DeepCopy_same by (rule options_pointer.deep_copy_axioms)

lemma deep_copy_pointers_v1alpha1:
  "deep_copy obj_copy obj_foot obj_view \<Longrightarrow>
     deep_copy (DeepCopy_VirtualMachineTemplate_v1alpha1 obj_copy)
       (foot_pointer (variable as_Templates) (foot_VirtualMachineTemplate obj_foot)) (template_view obj_view)"
  "deep_copy vm_copy vm_foot vm_view \<Longrightarrow>
     deep_copy (DeepCopy_ProcessedVirtualMachineTemplate_v1alpha1 vm_copy)
       (foot_pointer (variable as_Processeds) (foot_ProcessedVirtualMachineTemplate vm_foot)) (processed_view vm_view)"
  unfolding DeepCopy_same by (rule deep_copy_template_pointer deep_copy_processed_pointer, assumption)+

end
