(* ===== verification/Created_Templates.thy ===== *)
theory Created_Templates
  imports Request_Lifecycle Webhook
begin

text \<open>
  What becomes of a template that the request controller creates: how it reaches the webhook, when it is
  admitted, and what processing makes of it.  The theory puts the controller, the webhook and the template
  engine together.

  The VirtualMachine of a new template is an object in memory.  The client marshals it (\<open>marshalVirtualMachine\<close> with the
  encoding of VirtualMachines as a parameter), and the webhook gets the text.  What is assumed of the
  encoding is \<open>is_document\<close>: the text is a JSON object, it has the strings of the VirtualMachine, and whatever
  other strings it has, the names of the fields, are free of dollar signs.  The strings of what the model of the
  VirtualMachine does not spell out are a parameter too, \<open>rest\<close>.
\<close>

section \<open>The strings of a VirtualMachine\<close>

definition no_dollar :: "string set \<Rightarrow> bool" where
  "no_dollar X \<longleftrightarrow> (\<forall>x \<in> X. CHR ''$'' \<notin> set x)"

definition owner_strings :: "OwnerReference \<Rightarrow> string set" where
  "owner_strings r = {o_APIVersion r, o_Kind r, o_Name r, o_UID r}"

definition meta_strings :: "ObjectMeta \<Rightarrow> string set" where
  "meta_strings m = {m_Name m, m_Namespace m, m_UID m, m_ResourceVersion m} \<union> dom (m_Labels m) \<union> ran (m_Labels m)
     \<union> dom (m_Annotations m) \<union> ran (m_Annotations m) \<union> (\<Union>r \<in> set (m_OwnerReferences m). owner_strings r)
     \<union> set (m_Finalizers m)"

fun source_strings :: "(string \<Rightarrow> string set) \<Rightarrow> dv_source \<Rightarrow> string set" where
  "source_strings rest NoSource = {}"
| "source_strings rest (SnapshotSource ns n) = {ns, n}"
| "source_strings rest (PVCSource ns n) = {ns, n}"
| "source_strings rest (OtherSource r) = rest r"

definition dvt_strings :: "(string \<Rightarrow> string set) \<Rightarrow> DataVolumeTemplate \<Rightarrow> string set" where
  "dvt_strings rest d = meta_strings (dt_Meta d) \<union> source_strings rest (dt_Source d) \<union> rest (dt_Rest d)"

definition volume_strings :: "(string \<Rightarrow> string set) \<Rightarrow> Volume \<Rightarrow> string set" where
  "volume_strings rest v = {v_Name v} \<union> (case v_DataVolume v of None \<Rightarrow> {} | Some r \<Rightarrow> {dr_Name r}) \<union> rest (v_OtherSource v)"

definition interface_strings :: "(string \<Rightarrow> string set) \<Rightarrow> Interface \<Rightarrow> string set" where
  "interface_strings rest i = {i_Name i, i_MacAddress i} \<union> rest (i_Rest i)"

definition firmware_strings :: "(string \<Rightarrow> string set) \<Rightarrow> Firmware \<Rightarrow> string set" where
  "firmware_strings rest f = {f_UUID f, f_Serial f} \<union> rest (f_Rest f)"

definition vmi_strings :: "(string \<Rightarrow> string set) \<Rightarrow> VMITemplate \<Rightarrow> string set" where
  "vmi_strings rest t = (\<Union>v \<in> set (vt_Volumes t). volume_strings rest v) \<union>
     (\<Union>i \<in> set (vt_Interfaces t). interface_strings rest i) \<union>
     (case vt_Firmware t of None \<Rightarrow> {} | Some f \<Rightarrow> firmware_strings rest f) \<union> rest (vt_Rest t)"

definition spec_strings :: "(string \<Rightarrow> string set) \<Rightarrow> VirtualMachineSpec \<Rightarrow> string set" where
  "spec_strings rest s = (case vs_Template s of None \<Rightarrow> {} | Some t \<Rightarrow> vmi_strings rest t) \<union>
     (\<Union>d \<in> set (vs_DataVolumeTemplates s). dvt_strings rest d) \<union> rest (vs_Rest s)"

definition vm_strings :: "(string \<Rightarrow> string set) \<Rightarrow> VirtualMachine \<Rightarrow> string set" where
  "vm_strings rest vm = meta_strings (vm_Meta vm) \<union> spec_strings rest (vm_Spec vm) \<union> rest (vm_Status vm)"

lemmas strings_defs = owner_strings_def meta_strings_def dvt_strings_def volume_strings_def interface_strings_def
  firmware_strings_def vmi_strings_def spec_strings_def vm_strings_def

section \<open>The template in the webhook\<close>

definition is_document :: "(string \<Rightarrow> string set) \<Rightarrow> VirtualMachine \<Rightarrow> string \<Rightarrow> (gval \<times> gval) list option \<Rightarrow> bool" where
  "is_document rest vm raw obj \<longleftrightarrow> raw \<noteq> [] \<and> decode raw = Some (Unstructured obj) \<and>
     (\<forall>x \<in> set (strings_of (object_slot obj)). x \<in> vm_strings rest vm \<or> CHR ''$'' \<notin> set x) \<and>
     (\<forall>x \<in> vm_strings rest vm. CHR ''$'' \<in> set x \<longrightarrow> x \<in> set (strings_of (object_slot obj)))"

text \<open>The template that the API server hands to the webhook when the controller creates \<open>tpl\<close>.\<close>

definition submitted :: "VirtualMachine encodings \<Rightarrow> RequestTemplate \<Rightarrow> Template option" where
  "submitted en tpl =
     map_option (\<lambda>raw. \<lparr>t_TypeMeta = t_TypeMeta tpl, t_Meta = t_Meta tpl,
         t_Spec = \<lparr>ts_VirtualMachine = Some \<lparr>re_Raw = raw, re_Object = None\<rparr>, ts_Parameters = ts_Parameters (t_Spec tpl),
           ts_Message = ts_Message (t_Spec tpl)\<rparr>,
         t_Conditions = t_Conditions tpl\<rparr>)
       (marshalVirtualMachine en (ts_VirtualMachine (t_Spec tpl)))"

text \<open>The VirtualMachine in a new template.\<close>

definition template_vm :: "VirtualMachineSpec \<Rightarrow> VirtualMachine" where
  "template_vm spec = \<lparr>vm_Meta = empty_meta\<lparr>m_Name := paramName\<rparr>, vm_Spec = spec, vm_Status = []\<rparr>"

lemma newTemplate_vm: "ts_VirtualMachine (t_Spec (newTemplate q spec)) = Some \<lparr>re_Raw = [], re_Object = Some (template_vm spec)\<rparr>"
  by (simp add: newTemplate_def template_vm_def Let_def)

section \<open>References of new templates\<close>

text \<open>A string that the controller wrote: its references are to NAME only, and none of them is a reference by value.\<close>

definition named_only :: "string \<Rightarrow> bool" where
  "named_only x \<longleftrightarrow> (\<exists>l. CHR ''$'' \<notin> set l \<and> (x = l \<or> x = l @ paramName))"

lemma paramName_reference: "paramName = reference paramNameName" "param_name paramNameName"
  by (simp_all add: paramName_def reference_def paramNameName_def param_name_def char_classes)

lemma named_only_segments:
  assumes "named_only x"
  obtains segs where "x = segments_text segs" "\<forall>g \<in> set segs. wf_segment g"
    "set (segment_names segs) = (if CHR ''$'' \<in> set x then {paramNameName} else {})"
proof -
  obtain l where l: "CHR ''$'' \<notin> set l" "x = l \<or> x = l @ paramName"
    using assms by (auto simp: named_only_def)
  have "CHR ''$'' \<in> set paramName" by (simp add: paramName_def)
  with l that [of "[Lit l]"] that [of "[Lit l, Ref paramNameName]"] show ?thesis
    using paramName_reference by auto
qed

lemma named_only_references:
  assumes "named_only x"
  shows "collectReferencedParameters x = (if CHR ''$'' \<in> set x then {paramNameName} else {})"
proof -
  obtain segs where s: "x = segments_text segs" "\<forall>g \<in> set segs. wf_segment g"
      "set (segment_names segs) = (if CHR ''$'' \<in> set x then {paramNameName} else {})"
    using assms by (rule named_only_segments)
  have "snd ` set (FindAllStringSubmatch stringParamExpr x) = set (segment_names segs)"
    unfolding s(1) FindAll_segments [OF s(2)] by force
  moreover have "FindStringSubmatch nonStringParamExpr x = None"
    unfolding s(1) by (rule segments_text_no_value_reference [OF s(2)])
  ultimately show ?thesis
    using s(3) by (simp add: collectReferencedParameters_def)
qed

lemma named_only_substituted:
  assumes "named_only x" "params paramNameName = Some p" "CHR ''$'' \<notin> set (p_Value p)"
  shows "\<exists>y. substituteParameters x params = Inr (y, True)"
proof -
  obtain segs where s: "x = segments_text segs" "\<forall>g \<in> set segs. wf_segment g"
      "set (segment_names segs) = (if CHR ''$'' \<in> set x then {paramNameName} else {})"
    using assms(1) by (rule named_only_segments)
  have "set (segment_names segs) \<subseteq> {paramNameName}" using s(3) by (auto split: if_splits)
  then show ?thesis
    using substitute_matches_segments [OF s(2), of "[]" params] assms(2,3) s(1)
    by (force simp: substituteParameters_def segments_text_no_value_reference [OF s(2)] FindAll_segments [OF s(2)])
qed

lemma substituteParameters_empty: "substituteParameters [] params = Inr ([], True)"
proof -
  have "FindStringSubmatch nonStringParamExpr [] = None" "FindAllStringSubmatch stringParamExpr [] = []" by code_simp+
  then show ?thesis by (simp add: substituteParameters_def)
qed

text \<open>An object whose strings are all substituted as strings is substituted without an error.\<close>

lemma substitute_named_only:
  assumes "plain (object_slot obj)" "\<forall>x \<in> set (strings_of (object_slot obj)). \<exists>y. substituteParameters x params = Inr (y, True)"
  shows "\<exists>obj'. substituteAllParameters (Unstructured obj) params = Inr (Unstructured obj') \<and>
    rendered (substitution_result params) (object_slot obj) (object_slot obj')"
proof -
  have "\<not> blamed (substitution_result params) e p" if "p \<in> set (places (object_slot obj))" for e p
  proof -
    have "snd p \<in> set (strings_of (object_slot obj))" using that by (simp flip: places_strings)
    then show ?thesis using assms(2) by (force simp: blamed_def substitution_result_def replacement_def)
  qed
  moreover have "case visit_object (substitute_tf params) (Unstructured obj) () of
      Inl e \<Rightarrow> \<exists>p \<in> set (places (object_slot obj)). blamed (substitution_result params) e p
    | Inr (v, s') \<Rightarrow> s' = fold (\<lambda>x s. s) (strings_of (object_slot obj)) () \<and>
        (\<exists>obj'. v = Unstructured obj' \<and> rendered (substitution_result params) (object_slot obj) (object_slot obj') \<and>
          plain (object_slot obj'))"
    using substitution.visit_object_plain [OF assms(1), of params "()"]
    unfolding substitution_result_def [abs_def] .
  ultimately show ?thesis
    by (auto simp: substituteAllParameters_def split: sum.splits)
qed

section \<open>Transformed specs\<close>

lemma transformVolume_set:
  "transformVolume vols n = (vols', d) \<Longrightarrow>
   set vols' \<subseteq> insert (data_volume n d) (set vols) \<and> (\<forall>v \<in> set vols. v_Name v \<noteq> n \<longrightarrow> v \<in> set vols') \<and>
   (d = [] \<or> d = n \<or> (\<exists>u \<in> set vols. \<exists>r. v_Name u = n \<and> v_DataVolume u = Some r \<and> d = dr_Name r))"
proof (induction vols arbitrary: vols')
  case (Cons vol vols)
  show ?case
  proof (cases "v_Name vol = n")
    case True
    with Cons.prems show ?thesis by (force simp: Let_def split: option.splits)
  next
    case False
    with Cons.prems obtain ws where "transformVolume vols n = (ws, d)" "vols' = vol # ws"
      by (auto split: prod.splits)
    with Cons.IH [of ws] show ?thesis by auto
  qed
qed simp

lemma named_only_plain: "CHR ''$'' \<notin> set x \<Longrightarrow> named_only x"
  by (auto simp: named_only_def)

lemma named_only_suffix: "CHR ''$'' \<notin> set d \<Longrightarrow> named_only (d @ paramNameSuffix)"
  unfolding named_only_def paramNameSuffix_def by (intro exI [of _ "d @ ''-''"]) simp

lemma data_volume_strings:
  "rest [] = {} \<Longrightarrow> volume_strings rest (data_volume n d) = {n, d @ paramNameSuffix}"
  by (auto simp: volume_strings_def data_volume_def)

lemma dvt_spec_strings:
  "rest [] = {} \<Longrightarrow> dvt_strings rest (dvt_spec n ns pvc) = {n @ paramNameSuffix, [], ns, pvc}"
  by (auto simp: dvt_strings_def dvt_spec_def meta_strings_def empty_meta_def)

lemma transform_backups_named_only:
  assumes "transform_backups q backend vbs (vols, dvts) = (vols', dvts')" "rest [] = {}"
    and "distinct (map vb_VolumeName vbs)" "no_dollar (insert (m_Namespace (r_Meta q)) (vb_VolumeName ` set vbs))"
    and "\<forall>v \<in> set vols. (v_Name v \<in> vb_VolumeName ` set vbs \<longrightarrow> no_dollar (volume_strings rest v)) \<and> (\<forall>x \<in> volume_strings rest v. named_only x)"
    and "\<forall>d \<in> set dvts. \<forall>x \<in> dvt_strings rest d. named_only x"
  shows "(\<forall>v \<in> set vols'. \<forall>x \<in> volume_strings rest v. named_only x) \<and> (\<forall>d \<in> set dvts'. \<forall>x \<in> dvt_strings rest d. named_only x)"
  using assms
proof (induction vbs arbitrary: vols dvts)
  case (Cons vb vbs)
  let ?n = "vb_VolumeName vb"
  show ?case
  proof (cases "?n = backend")
    case True
    then have "transform_backups q backend vbs (vols, dvts) = (vols', dvts')" using Cons.prems(1) by simp
    then show ?thesis by (rule Cons.IH) (use Cons.prems(2-6) in \<open>auto simp: no_dollar_def\<close>)
  next
    case False
    obtain ws d where ws: "transformVolume vols ?n = (ws, d)" by fastforce
    define e where "e = (if d = [] then ?n else d)"
    have d: "CHR ''$'' \<notin> set d" and n: "CHR ''$'' \<notin> set ?n" and ns: "CHR ''$'' \<notin> set (m_Namespace (r_Meta q))"
      using transformVolume_set [OF ws] Cons.prems(4,5) by (auto simp: no_dollar_def volume_strings_def)
    have dv: "\<forall>x \<in> volume_strings rest (data_volume ?n d). named_only x"
      using n d by (simp add: data_volume_strings [of rest, OF Cons.prems(2)] named_only_plain named_only_suffix)
    have "\<forall>x \<in> dvt_strings rest (dvt_spec e (m_Namespace (r_Meta q)) (getDvName q ?n)). named_only x"
      using n d ns by (simp add: dvt_spec_strings [of rest, OF Cons.prems(2)] named_only_plain named_only_suffix e_def getDvName_def
          GetStableName_no_dollar)
    then have dvts: "\<forall>d \<in> set (transformOrAddDVT dvts e (m_Namespace (r_Meta q)) (getDvName q ?n)). \<forall>x \<in> dvt_strings rest d. named_only x"
      using transformOrAddDVT_set(1) [of dvts e "m_Namespace (r_Meta q)" "getDvName q ?n"] Cons.prems(6) by blast
    have names: "v_Name (data_volume ?n d) = ?n" by (simp add: data_volume_def)
    have "\<forall>v \<in> set ws. (v_Name v \<in> vb_VolumeName ` set vbs \<longrightarrow> no_dollar (volume_strings rest v)) \<and> (\<forall>x \<in> volume_strings rest v. named_only x)"
    proof
      fix v assume "v \<in> set ws"
      then consider "v = data_volume ?n d" | "v \<in> set vols" using transformVolume_set [OF ws] by blast
      then show "(v_Name v \<in> vb_VolumeName ` set vbs \<longrightarrow> no_dollar (volume_strings rest v)) \<and> (\<forall>x \<in> volume_strings rest v. named_only x)"
        using dv names Cons.prems(3,5) by cases auto
    qed
    note vols = this
    have "transform_backups q backend vbs
        (ws, transformOrAddDVT dvts e (m_Namespace (r_Meta q)) (getDvName q ?n)) = (vols', dvts')"
      using Cons.prems(1) False ws by (simp add: e_def)
    then show ?thesis
      by (rule Cons.IH [OF _ Cons.prems(2) _ _ vols dvts]) (use Cons.prems(3,4) in \<open>simp_all add: no_dollar_def\<close>)
  qed
qed simp

lemma transform_backups_keeps:
  "transform_backups q backend vbs (vols, dvts) = (vols', dvts') \<Longrightarrow> v \<in> set vols \<Longrightarrow> v_Name v \<notin> vb_VolumeName ` set vbs \<Longrightarrow>
   v \<in> set vols'"
proof (induction vbs arbitrary: vols dvts)
  case (Cons vb vbs)
  obtain ws d where ws: "transformVolume vols (vb_VolumeName vb) = (ws, d)" by fastforce
  with Cons transformVolume_set [OF ws] show ?case by (auto split: if_splits)
qed simp

text \<open>A source from which a template can be made that has no references but to NAME.\<close>

definition clean_source ::
  "(string \<Rightarrow> string set) \<Rightarrow> VirtualMachineTemplateRequest \<Rightarrow> VirtualMachineSnapshotContent \<Rightarrow> VirtualMachineSpec \<Rightarrow> bool" where
  "clean_source rest q sc spec \<longleftrightarrow> rest [] = {} \<and> no_dollar (spec_strings rest spec) \<and>
     no_dollar (insert (m_Namespace (r_Meta q)) (vb_VolumeName ` set (sc_VolumeBackups sc))) \<and>
     distinct (map vb_VolumeName (sc_VolumeBackups sc))"

lemma template_strings_named_only:
  assumes "template_spec q sc spec = Some spec'" "clean_source rest q sc spec" "x \<in> vm_strings rest (template_vm spec')"
  shows "named_only x"
proof -
  note clean = assms(2) [unfolded clean_source_def]
  obtain t where t: "vs_Template spec = Some t"
    using assms(1) by (auto simp: template_spec_def stripUniqueIdentifiers_def split: option.splits)
  obtain vols dvts where tb: "transform_backups q (getBackendStoragePVCName sc) (sc_VolumeBackups sc)
      (vt_Volumes t, vs_DataVolumeTemplates spec) = (vols, dvts)" by fastforce
  have "\<forall>v \<in> set (vt_Volumes t). no_dollar (volume_strings rest v)" "\<forall>d \<in> set (vs_DataVolumeTemplates spec). no_dollar (dvt_strings rest d)"
    using clean t by (auto simp: spec_strings_def vmi_strings_def no_dollar_def)
  then have new: "(\<forall>v \<in> set vols. \<forall>x \<in> volume_strings rest v. named_only x) \<and> (\<forall>d \<in> set dvts. \<forall>x \<in> dvt_strings rest d. named_only x)"
    using clean by (intro transform_backups_named_only [OF tb]) (auto simp: no_dollar_def intro: named_only_plain)
  have spec': "spec' = spec\<lparr>
      vs_Template := Some (t\<lparr>vt_Volumes := vols, vt_Interfaces := map (\<lambda>i. i\<lparr>i_MacAddress := []\<rparr>) (vt_Interfaces t),
        vt_Firmware := map_option (\<lambda>f. f\<lparr>f_Serial := [], f_UUID := []\<rparr>) (vt_Firmware t)\<rparr>),
      vs_DataVolumeTemplates := dvts\<rparr>"
    using assms(1) template_spec_fields [OF t tb] by simp
  have name: "named_only paramName" unfolding named_only_def by (intro exI [of _ "[]"]) simp
  have old: "named_only y" if "y \<in> spec_strings rest spec" for y
    using clean that by (auto simp: no_dollar_def intro: named_only_plain)
  have "x \<in> {paramName, []} \<or> x \<in> spec_strings rest spec \<or> (\<exists>v \<in> set vols. x \<in> volume_strings rest v) \<or> (\<exists>d \<in> set dvts. x \<in> dvt_strings rest d)"
    using assms(3) clean t
    by (auto simp: vm_strings_def template_vm_def spec' spec_strings_def vmi_strings_def interface_strings_def firmware_strings_def
        meta_strings_def empty_meta_def split: option.splits)
  then show ?thesis
    using new old name named_only_plain [of "[]"] by auto
qed

section \<open>Admission\<close>

text \<open>The template that is submitted for a new template, with its document.\<close>

lemma submitted_plain:
  assumes "submitted en (newTemplate q spec) = Some tpl" "re_Raw (the (ts_VirtualMachine (t_Spec tpl))) = raw"
    and "is_document rest (template_vm spec) raw obj"
  shows "plain_template tpl obj" "ts_Parameters (t_Spec tpl) = [name_parameter]" "ts_Message (t_Spec tpl) = []"
    "template_references tpl obj = object_references obj" "template_names tpl = {paramNameName}"
proof -
  have tpl: "ts_VirtualMachine (t_Spec tpl) = Some \<lparr>re_Raw = raw, re_Object = None\<rparr>" "ts_Parameters (t_Spec tpl) = [name_parameter]"
      "ts_Message (t_Spec tpl) = []"
    using assms(1,2) by (auto simp: submitted_def newTemplate_def Let_def)
  have "collectReferencedParameters [] = {}" by code_simp
  with tpl show "plain_template tpl obj" "ts_Parameters (t_Spec tpl) = [name_parameter]" "ts_Message (t_Spec tpl) = []"
    "template_references tpl obj = object_references obj" "template_names tpl = {paramNameName}"
    using assms(3) decode_plain [of raw obj]
    by (simp_all add: plain_template_def getVirtualMachineObject_def is_document_def template_references_def template_names_def
        name_parameter_def)
qed

lemma references_dollar: "n \<in> collectReferencedParameters x \<Longrightarrow> CHR ''$'' \<in> set x"
  using named_only_references [OF named_only_plain, of x] by auto

text \<open>The references of a document are those of the strings of the VirtualMachine.\<close>

lemma document_references:
  assumes "is_document rest vm raw obj"
  shows "object_references obj = (\<Union>x \<in> vm_strings rest vm. collectReferencedParameters x)"
  using assms references_dollar unfolding is_document_def object_references_def by blast

lemma references_name: "paramNameName \<in> (\<Union>x \<in> vm_strings rest (template_vm spec). collectReferencedParameters x)"
proof -
  have "collectReferencedParameters paramName = {paramNameName}" by code_simp
  moreover have "paramName \<in> vm_strings rest (template_vm spec)" by (simp add: vm_strings_def template_vm_def meta_strings_def)
  ultimately show ?thesis by blast
qed

lemma template_errors:
  assumes "map_range iter" "submitted en (newTemplate q spec) = Some tpl" "re_Raw (the (ts_VirtualMachine (t_Spec tpl))) = raw"
    and "is_document rest (template_vm spec) raw obj"
  shows "ValidateParameterReferences iter tpl = Returns ([],
    map (\<lambda>n. field_Invalid ''spec.virtualMachine'' (UndefinedReference n))
      (filter (\<lambda>n. n \<noteq> paramNameName) (iter (\<Union>x \<in> vm_strings rest (template_vm spec). collectReferencedParameters x))))"
proof -
  note sub = submitted_plain [OF assms(2-4)]
  have "filter (\<lambda>n. n \<notin> object_references obj) (iter {paramNameName}) = []"
    using references_name unfolding map_range.filter_iter_empty [OF assms(1) finite.insertI [OF finite.emptyI]] document_references [OF assms(4)]
    by simp
  then show ?thesis
    unfolding validate_plain [OF sub(1)] sub(4,5) by (simp add: document_references [OF assms(4)])
qed

text \<open>An object whose only references are to NAME loses its hardcoded namespace and is substituted.\<close>

lemma named_only_object:
  assumes "plain (object_slot obj)" "\<forall>x \<in> set (strings_of (object_slot obj)). named_only x"
    and "params paramNameName = Some p" "CHR ''$'' \<notin> set (p_Value p)"
  obtains obj1 obj2 where "removeHardcodedNamespace (Unstructured obj) = Some (Unstructured obj1)"
    "substituteAllParameters (Unstructured obj1) params = Inr (Unstructured obj2)"
    "rendered (substitution_result params) (object_slot obj1) (object_slot obj2)"
proof -
  have subst: "\<exists>y. substituteParameters x params = Inr (y, True)" if "named_only x" for x
    using that named_only_substituted [of x params p] assms(3,4) by blast
  obtain obj1 where rm: "removeHardcodedNamespace (Unstructured obj) = Some (Unstructured obj1)" by simp
  have pl1: "plain (object_slot obj1)" "set (strings_of (object_slot obj1)) \<subseteq> set (strings_of (object_slot obj))"
    using remove_namespace_strings [OF assms(1) rm] by auto
  have "\<forall>x \<in> set (strings_of (object_slot obj1)). \<exists>y. substituteParameters x params = Inr (y, True)"
    using assms(2) subst pl1(2) by blast
  with rm show thesis using substitute_named_only [OF pl1(1)] that by blast
qed

section \<open>Properties\<close>

text \<open>
  C10.  The way of a template from the request controller through the webhook: a template that is made from a VirtualMachine without
  dollar signs in its strings, which is how a reconcile makes templates, is admitted, without a warning, if only the object that
  processing makes of its document can be converted to a VirtualMachine; that object is the document with every reference to NAME
  replaced by a generated name, which is a valid label.
\<close>

theorem created_template_admitted:
  assumes "map_range iter" "\<forall>i k. \<exists>x. srcs i k = Inr x" "made_from E q sc tpl"
    and "\<forall>ns src vm. EvExpandVM ns src (Inr vm) \<in> E \<longrightarrow> clean_source rest q sc (vm_Spec vm)"
    and "submitted en tpl = Some tpl'"
    and "\<forall>vm. re_Object (the (ts_VirtualMachine (t_Spec tpl))) = Some vm \<longrightarrow>
      is_document rest vm (re_Raw (the (ts_VirtualMachine (t_Spec tpl')))) obj"
  shows "\<exists>params p obj1 obj2. params paramNameName = Some p \<and> IsDNS1035Label (p_Value p) = [] \<and>
    removeHardcodedNamespace (Unstructured obj) = Some (Unstructured obj1) \<and>
    rendered (substitution_result params) (object_slot obj1) (object_slot obj2) \<and>
    ValidateCreate_v1beta1 iter conv srcs None (TemplateV1beta1 tpl') = Returns ([], case conv obj2 of
      Inl e \<Rightarrow> Some (ProcessingFailed (field_Invalid ''spec.virtualMachine'' (ConvertFailed e)))
    | Inr _ \<Rightarrow> None)"
proof -
  obtain src vm spec where made: "EvExpandVM (m_Namespace (sc_Meta sc)) src (Inr vm) \<in> E"
      "template_spec q sc (vm_Spec vm) = Some spec" "tpl = newTemplate q spec"
    using assms(3) unfolding made_from_def by blast
  note vm = assms(4) [rule_format, OF made(1)] made(2,3)
  let ?raw = "re_Raw (the (ts_VirtualMachine (t_Spec tpl')))"
  have doc: "is_document rest (template_vm spec) ?raw obj"
    using assms(6) by (simp add: vm(3) newTemplate_vm)
  note sub = submitted_plain [OF assms(5) [unfolded vm(3)] refl doc]
  have named: "named_only x" if "x \<in> set (strings_of (object_slot obj))" for x
    using that doc template_strings_named_only [OF vm(2,1), of x] named_only_plain [of x] by (auto simp: is_document_def)
  have refs: "(\<Union>x \<in> vm_strings rest (template_vm spec). collectReferencedParameters x) = {paramNameName}"
    using references_name [of rest spec] template_strings_named_only [OF vm(2,1)]
    by (auto simp: named_only_references split: if_splits)
  have valid: "ValidateParameterReferences iter tpl' = Returns ([], [])"
    unfolding template_errors [OF assms(1) assms(5) [unfolded vm(3)] refl doc] refs
    using map_range.filter_iter_empty [OF assms(1), of "{paramNameName}"] by simp
  obtain params p v where p: "generateParameterValues srcs (ts_Parameters (t_Spec tpl')) (generators_of (fst (GetDefaultProcessor None)))
      = Some (Inr params)" "params paramNameName = Some p" "p_Value p = ''vm-'' @ v" "\<forall>c \<in> set v. is_lower c \<or> is_digit c"
      "IsDNS1035Label (p_Value p) = []"
    using default_name_generated [OF assms(2), of q spec] by (auto simp: sub(2) newTemplate_def Let_def)
  have dollar: "CHR ''$'' \<notin> set (p_Value p)"
    using p(3,4) by (auto simp: char_classes)
  have pl: "plain (object_slot obj)" and get: "getVirtualMachineObject (t_Spec tpl') = Inr (Unstructured obj)"
    using sub(1) by (simp_all add: plain_template_def)
  obtain obj1 obj2 where rm: "removeHardcodedNamespace (Unstructured obj) = Some (Unstructured obj1)"
      and obj2: "substituteAllParameters (Unstructured obj1) params = Inr (Unstructured obj2)"
        "rendered (substitution_result params) (object_slot obj1) (object_slot obj2)"
    by (rule named_only_object [of obj params p, OF pl _ p(2) dollar]) (use named in blast)
  have msg: "substituteParameters [] params = Inr ([], True)"
    by (simp add: substituteParameters_empty)
  have "\<not> unfilled name_parameter" by (simp add: unfilled_def name_parameter_def)
  then have "ValidateCreate_v1beta1 iter conv srcs None (TemplateV1beta1 tpl') = Returns ([], case conv obj2 of
      Inl e \<Rightarrow> Some (ProcessingFailed (field_Invalid ''spec.virtualMachine'' (ConvertFailed e))) | Inr _ \<Rightarrow> None)"
    using valid sub(2,3) p(1) get rm obj2(1) msg
    by (simp add: ValidateCreate_v1beta1_def ValidateTemplate_def ValidateProcessing_def Process_def process_with_def
        split: sum.split)
  with p rm obj2(2) show ?thesis by blast
qed

text \<open>
  C33.  The references in volumes of the source are not escaped.  Let a volume of the source VirtualMachine that is not backed
  up, such as a cloud-init volume, have a string in its source (other than a data volume) with a reference to a name other than
  NAME, as shell scripts have.  Then the webhook rejects the template that the controller creates of it, when the encoding of the
  VirtualMachine is a document with the strings of the VirtualMachine, with an error that names the undefined parameter.
\<close>

theorem unescaped_reference_rejected:
  assumes "map_range iter" "template_spec q sc spec = Some spec'" "vs_Template spec = Some t" "vol \<in> set (vt_Volumes t)"
    and "v_Name vol \<notin> vb_VolumeName ` set (sc_VolumeBackups sc)" "x \<in> rest (v_OtherSource vol)"
    and "n \<in> collectReferencedParameters x" "n \<noteq> paramNameName"
    and "submitted en (newTemplate q spec') = Some tpl"
    and "is_document rest (template_vm spec') (re_Raw (the (ts_VirtualMachine (t_Spec tpl)))) obj"
  shows "\<exists>errs. ValidateCreate_v1beta1 iter conv srcs dp (TemplateV1beta1 tpl) = Returns ([], Some (Aggregate errs)) \<and>
    UndefinedReference n \<in> fe_cause ` set errs"
proof -
  obtain vols dvts where tb: "transform_backups q (getBackendStoragePVCName sc) (sc_VolumeBackups sc)
      (vt_Volumes t, vs_DataVolumeTemplates spec) = (vols, dvts)" by fastforce
  have "vol \<in> set vols" using transform_backups_keeps [OF tb assms(4,5)] .
  then have "x \<in> vm_strings rest (template_vm spec')"
    using assms(2,6) template_spec_fields [OF assms(3) tb] by (auto simp: strings_defs template_vm_def)
  then have n: "n \<in> (\<Union>x \<in> vm_strings rest (template_vm spec'). collectReferencedParameters x)"
    using assms(7) by blast
  let ?R = "\<Union>x \<in> vm_strings rest (template_vm spec'). collectReferencedParameters x"
  have fin: "finite ?R" using finite_object_references [of obj] by (simp add: document_references [OF assms(10)])
  have mem: "n \<in> set (filter (\<lambda>n. n \<noteq> paramNameName) (iter ?R))"
    using n assms(8) unfolding map_range.set_filter_iter [OF assms(1) fin] by blast
  let ?errs = "map (\<lambda>n. field_Invalid ''spec.virtualMachine'' (UndefinedReference n)) (filter (\<lambda>n. n \<noteq> paramNameName) (iter ?R))"
  have "UndefinedReference n \<in> fe_cause ` set ?errs"
    using mem unfolding set_map image_image by (intro image_eqI [of _ _ n]) (simp_all add: field_Invalid_def)
  moreover from mem have "?errs \<noteq> []" unfolding map_is_Nil_conv by (metis empty_iff empty_set)
  ultimately show ?thesis
    by (intro exI [of _ ?errs])
       (simp add: ValidateCreate_v1beta1_def ValidateTemplate_def template_errors [OF assms(1,9) refl assms(10)] del: map_is_Nil_conv)
qed

section \<open>Witnesses\<close>

text \<open>
  The example of \<open>Request_Objects\<close>, with an encoding that knows one VirtualMachine.  The rest of a VirtualMachine is a text that
  is a string itself.
\<close>

definition example_rest :: "string \<Rightarrow> string set" where
  "example_rest r = (if r = [] then {} else {r})"

definition example_quote :: "string list \<Rightarrow> string" where
  "example_quote fs = concat (map (\<lambda>c. if c = CHR ''!'' then [CHR 0x22] else [c]) (concat fs))"

definition example_document :: "string \<Rightarrow> string" where
  "example_document extra = example_quote [''{!metadata!:{!name!:!${NAME}!},!spec!:{!dataVolumeTemplates!:[{!metadata!:{!name!:!dv0-${NAME}!}}],'',
     ''!volumes!:[{!name!:!disk0!,!dataVolume!:{!name!:!dv0-${NAME}!}}'', extra, '']}}'']"

definition example_encoding :: "string \<Rightarrow> VirtualMachine \<Rightarrow> VirtualMachine encodings" where
  "example_encoding raw vm = \<lparr>en_Meta = \<lambda>m. [], en_readMeta = \<lambda>s. None, en_Conditions = \<lambda>c. [], en_readConditions = \<lambda>s. None,
     en_Object = \<lambda>v. if v = vm then Some raw else None, en_Cbor = \<lambda>s. None\<rparr>"

definition script_volume :: Volume where
  "script_volume = \<lparr>v_Name = ''init'', v_DataVolume = None, v_OtherSource = ''X=${HOME}''\<rparr>"

definition script_spec :: VirtualMachineSpec where
  "script_spec = example_vm_spec\<lparr>vs_Template := Some (example_vm_template\<lparr>vt_Volumes := vt_Volumes example_vm_template @ [script_volume]\<rparr>)\<rparr>"

lemma example_clean: "clean_source example_rest example_request example_content example_vm_spec"
  by (simp add: clean_source_def example_rest_def strings_defs no_dollar_def example_vm_spec_def example_vm_template_def
      example_content_def example_request_def empty_meta_def)

definition example_made :: "Volume list \<Rightarrow> VirtualMachineSpec" where
  "example_made extra = \<lparr>vs_Template = Some \<lparr>vt_Volumes = data_volume ''disk0'' ''dv0'' # extra,
       vt_Interfaces = [\<lparr>i_Name = ''eth0'', i_MacAddress = [], i_Rest = []\<rparr>],
       vt_Firmware = Some \<lparr>f_UUID = [], f_Serial = [], f_Rest = []\<rparr>, vt_Rest = []\<rparr>,
     vs_DataVolumeTemplates = [dvt_spec ''dv0'' ''ns'' (getDvName example_request ''disk0'')], vs_Rest = []\<rparr>"

lemmas example_source_defs = template_spec_def stripUniqueIdentifiers_def example_vm_spec_def example_vm_template_def example_content_def
  getBackendStoragePVCName_def strings_Contains_def example_made_def Let_def

lemma clean_template_spec: "template_spec example_request example_content example_vm_spec = Some (example_made [])"
  by (simp add: example_source_defs) (simp add: example_request_def)

lemma script_template_spec: "template_spec example_request example_content script_spec = Some (example_made [script_volume])"
  by (simp add: example_source_defs script_spec_def script_volume_def) (simp add: example_request_def)

lemma example_vm_strings:
  "vm_strings example_rest (template_vm (example_made extra)) =
     {paramName, [], ''disk0'', ''dv0-${NAME}'', ''eth0'', ''ns'', getDvName example_request ''disk0''}
       \<union> (\<Union>v \<in> set extra. volume_strings example_rest v)"
  by (auto simp: strings_defs template_vm_def example_made_def example_rest_def empty_meta_def data_volume_def dvt_spec_def paramNameSuffix_def
      paramName_def paramNameName_def)

text \<open>A text without white space and without the characters that are escaped is compact.\<close>

lemma line_separators:
  "HasPrefix (a # s) (utf8_encode 8232) \<Longrightarrow> a = CHR 0xE2" "HasPrefix (a # s) (utf8_encode 8233) \<Longrightarrow> a = CHR 0xE2"
  by (auto simp: HasPrefix_iff utf8_encode_def char_of_def bit_0)

lemma compact_id:
  "list_all (\<lambda>c. \<not> is_ws c \<and> c \<notin> {CHR ''<'', CHR ''>'', CHR ''&'', CHR 0x5C, CHR 0xE2}) s \<Longrightarrow> compact_outside s = s \<and> compact_string s = s"
proof (induction s)
  case (Cons a s)
  have "\<not> HasPrefix (a # s) (utf8_encode 8232)" "\<not> HasPrefix (a # s) (utf8_encode 8233)"
    using Cons.prems line_separators [of a s] by auto
  with Cons show ?case by (auto simp: line_separator_def split: list.split)
qed simp

lemma compact_decoded:
  assumes "decode raw = Some v" "list_all (\<lambda>c. \<not> is_ws c \<and> c \<notin> {CHR ''<'', CHR ''>'', CHR ''&'', CHR 0x5C, CHR 0xE2}) raw"
  shows "json_compact raw = Some raw"
  using assms compact_id by (auto simp: json_compact_def decode_def json_Unmarshal_def json_decode_def split: option.splits)

lemma example_submitted:
  assumes "raw \<noteq> []" "json_compact raw = Some raw"
  shows "\<exists>tpl. submitted (example_encoding raw (template_vm spec)) (newTemplate q spec) = Some tpl \<and>
    re_Raw (the (ts_VirtualMachine (t_Spec tpl))) = raw"
  using assms by (simp add: submitted_def marshalVirtualMachine_def marshalRawExtension_def newTemplate_vm example_encoding_def)

lemma example_decoded:
  "\<exists>obj. decode (example_document []) = Some (Unstructured obj) \<and> strings_of (object_slot obj) =
     [''metadata'', ''name'', ''${NAME}'', ''spec'', ''dataVolumeTemplates'', ''metadata'', ''name'', ''dv0-${NAME}'',
      ''volumes'', ''name'', ''disk0'', ''dataVolume'', ''name'', ''dv0-${NAME}'']"
proof -
  have "map_option (\<lambda>v. case v of Unstructured obj \<Rightarrow> strings_of (object_slot obj) | _ \<Rightarrow> []) (decode (example_document [])) =
     Some [''metadata'', ''name'', ''${NAME}'', ''spec'', ''dataVolumeTemplates'', ''metadata'', ''name'', ''dv0-${NAME}'',
      ''volumes'', ''name'', ''disk0'', ''dataVolume'', ''name'', ''dv0-${NAME}'']" by code_simp
  then show ?thesis using decode_unstructured [of "example_document []"] by (auto simp del: strings_of.simps)
qed

definition script_document :: string where
  "script_document = example_document (example_quote ['',{!name!:!init!,!userData!:!X=${HOME}!}''])"

lemma script_decoded:
  "\<exists>obj. decode script_document = Some (Unstructured obj) \<and> strings_of (object_slot obj) =
     [''metadata'', ''name'', ''${NAME}'', ''spec'', ''dataVolumeTemplates'', ''metadata'', ''name'', ''dv0-${NAME}'',
      ''volumes'', ''name'', ''disk0'', ''dataVolume'', ''name'', ''dv0-${NAME}'', ''name'', ''init'', ''userData'', ''X=${HOME}'']"
proof -
  have "map_option (\<lambda>v. case v of Unstructured obj \<Rightarrow> strings_of (object_slot obj) | _ \<Rightarrow> []) (decode script_document) =
     Some [''metadata'', ''name'', ''${NAME}'', ''spec'', ''dataVolumeTemplates'', ''metadata'', ''name'', ''dv0-${NAME}'',
      ''volumes'', ''name'', ''disk0'', ''dataVolume'', ''name'', ''dv0-${NAME}'', ''name'', ''init'', ''userData'', ''X=${HOME}'']"
    by code_simp
  then show ?thesis using decode_unstructured [of script_document] by (auto simp del: strings_of.simps)
qed

lemma example_is_document: "\<exists>obj. is_document example_rest (template_vm (example_made [])) (example_document []) obj"
  using example_decoded
  by (auto simp: is_document_def example_vm_strings paramName_def paramNameName_def getDvName_def GetStableName_no_dollar
      example_document_def example_quote_def simp del: strings_of.simps)

lemma script_is_document: "\<exists>obj. is_document example_rest (template_vm (example_made [script_volume])) script_document obj"
  using script_decoded
  by (auto simp: is_document_def example_vm_strings paramName_def paramNameName_def getDvName_def GetStableName_no_dollar
      script_document_def example_document_def example_quote_def script_volume_def volume_strings_def example_rest_def
      simp del: strings_of.simps)

lemma created_template_admitted_witness:
  "\<exists>tpl. submitted (example_encoding (example_document []) (template_vm (example_made []))) (newTemplate example_request (example_made []))
       = Some tpl \<and>
     ValidateCreate_v1beta1 sorted_list_of_set example_converter (\<lambda>i k. Inr 0) None (TemplateV1beta1 tpl) = Returns ([], None)"
proof -
  let ?vm = "\<lparr>vm_Meta = empty_meta, vm_Spec = example_vm_spec, vm_Status = []\<rparr>"
  let ?E = "{EvExpandVM ''ns'' ?vm (Inr ?vm)}"
  have raw: "example_document [] \<noteq> []" "json_compact (example_document []) = Some (example_document [])"
    using example_decoded compact_decoded [of "example_document []"]
    by (auto simp: example_document_def example_quote_def is_ws_def)
  obtain tpl where tpl: "submitted (example_encoding (example_document []) (template_vm (example_made [])))
      (newTemplate example_request (example_made [])) = Some tpl" "re_Raw (the (ts_VirtualMachine (t_Spec tpl))) = example_document []"
    using example_submitted [OF raw] by blast
  obtain obj where obj: "is_document example_rest (template_vm (example_made [])) (example_document []) obj"
    using example_is_document by blast
  have made: "made_from ?E example_request example_content (newTemplate example_request (example_made []))"
    using clean_template_spec by (simp add: made_from_def) (simp add: example_content_def)
  have clean: "\<forall>ns src vm. EvExpandVM ns src (Inr vm) \<in> ?E \<longrightarrow> clean_source example_rest example_request example_content (vm_Spec vm)"
    using example_clean by simp
  have doc: "\<forall>vm. re_Object (the (ts_VirtualMachine (t_Spec (newTemplate example_request (example_made []))))) = Some vm \<longrightarrow>
      is_document example_rest vm (re_Raw (the (ts_VirtualMachine (t_Spec tpl)))) obj"
    using obj tpl(2) by (simp add: newTemplate_vm)
  have srcs: "\<forall>i k. \<exists>x. (\<lambda>i k. Inr 0) i k = (Inr x :: string + nat)" by simp
  obtain obj2 where "ValidateCreate_v1beta1 sorted_list_of_set example_converter (\<lambda>i k. Inr 0) None (TemplateV1beta1 tpl) =
      Returns ([], case example_converter obj2 of
        Inl e \<Rightarrow> Some (ProcessingFailed (field_Invalid ''spec.virtualMachine'' (ConvertFailed e))) | Inr _ \<Rightarrow> None)"
    using created_template_admitted [OF sorted_range.map_range_axioms srcs made clean tpl(1) doc, where conv = example_converter] by blast
  then have "ValidateCreate_v1beta1 sorted_list_of_set example_converter (\<lambda>i k. Inr 0) None (TemplateV1beta1 tpl) = Returns ([], None)"
    by (simp only: example_converter_def sum.case)
  with tpl(1) show ?thesis by blast
qed

lemma unescaped_reference_rejected_witness:
  "\<exists>tpl errs. submitted (example_encoding script_document (template_vm (example_made [script_volume])))
       (newTemplate example_request (example_made [script_volume])) = Some tpl \<and>
     ValidateCreate_v1beta1 sorted_list_of_set example_converter (\<lambda>i k. Inr 0) None (TemplateV1beta1 tpl)
       = Returns ([], Some (Aggregate errs)) \<and> UndefinedReference ''HOME'' \<in> fe_cause ` set errs"
proof -
  have raw: "script_document \<noteq> []" "json_compact script_document = Some script_document"
    using script_decoded compact_decoded [of script_document]
    by (auto simp: script_document_def example_document_def example_quote_def is_ws_def)
  obtain tpl where tpl: "submitted (example_encoding script_document (template_vm (example_made [script_volume])))
      (newTemplate example_request (example_made [script_volume])) = Some tpl" "re_Raw (the (ts_VirtualMachine (t_Spec tpl))) = script_document"
    using example_submitted [OF raw] by blast
  obtain obj where obj: "is_document example_rest (template_vm (example_made [script_volume])) script_document obj"
    using script_is_document by blast
  have refs: "''HOME'' \<in> collectReferencedParameters ''X=${HOME}''" by code_simp
  have vol: "script_volume \<in> set (vt_Volumes (the (vs_Template script_spec)))" "vs_Template script_spec = Some (the (vs_Template script_spec))"
      "v_Name script_volume \<notin> vb_VolumeName ` set (sc_VolumeBackups example_content)" "''X=${HOME}'' \<in> example_rest (v_OtherSource script_volume)"
    by (simp_all add: script_spec_def script_volume_def example_content_def example_rest_def)
  have name: "''HOME'' \<noteq> paramNameName" by (simp add: paramNameName_def)
  show ?thesis
    using unescaped_reference_rejected [OF sorted_range.map_range_axioms script_template_spec vol(2,1,3,4) refs name tpl(1)
        obj [folded tpl(2)], where conv = example_converter and srcs = "\<lambda>i k. Inr 0" and dp = None] tpl(1) by blast
qed

end
