(* ===== verification/Openapi_Definitions.thy ===== *)
theory Openapi_Definitions
  imports Main
begin

text \<open>
  The generated OpenAPI definitions of the API types, from \<^verbatim>\<open>virt-template-client-go/api/openapi_generated.go\<close>: one function for
  each type of \<^verbatim>\<open>api/core\<close>, and those of the three library types that \<open>Openapi\<close> looks into.  The definitions of the other library types in
  that file are a parameter.  Descriptions are left out.

  A schema is over the type of its references, which the callback \<open>ref\<close> makes from the names of types; the references of a schema are its
  \<open>set_schema\<close>.
\<close>

section \<open>Schemas\<close>

datatype schema_default = DefaultString | DefaultObject

datatype 'r schema =
  Schema
    (sp_Type: "string list")
    (sp_Format: string)
    (sp_Default: "schema_default option")
    (sp_Ref: "'r option")
    (sp_Properties: "(string \<times> 'r schema) list")
    (sp_Required: "string list")
    (sp_AdditionalProperties: "'r schema option")
    (sp_Items: "'r schema option")
    (sp_Extensions: "(string \<times> string list) list")

type_synonym 'r ReferenceCallback = "string \<Rightarrow> 'r"

record 'r OpenAPIDefinition =
  od_Schema :: "'r schema"
  od_Dependencies :: "string list"

text \<open>The forms of literals that occur; a field that a literal does not mention has its zero value.\<close>

definition typed :: "string \<Rightarrow> string \<Rightarrow> 'r schema" where
  "typed t format = Schema [t] format None None [] [] None None []"

definition ref_schema :: "'r \<Rightarrow> 'r schema" where
  "ref_schema r = Schema [] [] None (Some r) [] [] None None []"

definition object_schema :: "(string \<times> 'r schema) list \<Rightarrow> string list \<Rightarrow> 'r schema" where
  "object_schema properties required = Schema [''object''] [] None None properties required None None []"

definition map_schema :: "'r schema \<Rightarrow> 'r schema" where
  "map_schema s = Schema [''object''] [] None None [] [] (Some s) None []"

definition array_schema :: "'r schema \<Rightarrow> 'r schema" where
  "array_schema s = Schema [''array''] [] None None [] [] None (Some s) []"

definition with_default :: "schema_default \<Rightarrow> 'r schema \<Rightarrow> 'r schema" where
  "with_default d s = (case s of Schema t f _ r ps rq ap it ex \<Rightarrow> Schema t f (Some d) r ps rq ap it ex)"

definition with_extensions :: "(string \<times> string list) list \<Rightarrow> 'r schema \<Rightarrow> 'r schema" where
  "with_extensions ex s = (case s of Schema t f d r ps rq ap it _ \<Rightarrow> Schema t f d r ps rq ap it ex)"

lemmas schema_forms = typed_def ref_schema_def object_schema_def map_schema_def array_schema_def with_default_def with_extensions_def

section \<open>The definitions\<close>

definition schema_k8sio_api_core_v1_LocalObjectReference ::
  "'r ReferenceCallback \<Rightarrow> 'r OpenAPIDefinition" where
  "schema_k8sio_api_core_v1_LocalObjectReference ref = \<lparr>
     od_Schema = with_extensions [(''x-kubernetes-map-type'', [''atomic''])] (object_schema [
      (''name'', with_default DefaultString (typed ''string'' []))]
      []),
     od_Dependencies = []\<rparr>"

definition schema_k8sio_api_core_v1_ObjectReference ::
  "'r ReferenceCallback \<Rightarrow> 'r OpenAPIDefinition" where
  "schema_k8sio_api_core_v1_ObjectReference ref = \<lparr>
     od_Schema = with_extensions [(''x-kubernetes-map-type'', [''atomic''])] (object_schema [
      (''kind'', typed ''string'' []),
      (''namespace'', typed ''string'' []),
      (''name'', typed ''string'' []),
      (''uid'', typed ''string'' []),
      (''apiVersion'', typed ''string'' []),
      (''resourceVersion'', typed ''string'' []),
      (''fieldPath'', typed ''string'' [])]
      []),
     od_Dependencies = []\<rparr>"

definition schema_k8sio_apimachinery_pkg_runtime_RawExtension ::
  "'r ReferenceCallback \<Rightarrow> 'r OpenAPIDefinition" where
  "schema_k8sio_apimachinery_pkg_runtime_RawExtension ref = \<lparr>
     od_Schema = typed ''object'' [],
     od_Dependencies = []\<rparr>"

definition schema_kubevirtio_virt_template_api_core_subresourcesv1alpha1_ProcessOptions ::
  "'r ReferenceCallback \<Rightarrow> 'r OpenAPIDefinition" where
  "schema_kubevirtio_virt_template_api_core_subresourcesv1alpha1_ProcessOptions ref = \<lparr>
     od_Schema = object_schema [
      (''kind'', typed ''string'' []),
      (''apiVersion'', typed ''string'' []),
      (''metadata'', with_default DefaultObject (ref_schema (ref ''k8s.io/apimachinery/pkg/apis/meta/v1.ObjectMeta''))),
      (''parameters'', map_schema (typed ''string'' []))]
      [],
     od_Dependencies = [''k8s.io/apimachinery/pkg/apis/meta/v1.ObjectMeta'']\<rparr>"

definition schema_kubevirtio_virt_template_api_core_subresourcesv1alpha1_ProcessedVirtualMachineTemplate ::
  "'r ReferenceCallback \<Rightarrow> 'r OpenAPIDefinition" where
  "schema_kubevirtio_virt_template_api_core_subresourcesv1alpha1_ProcessedVirtualMachineTemplate ref = \<lparr>
     od_Schema = object_schema [
      (''kind'', typed ''string'' []),
      (''apiVersion'', typed ''string'' []),
      (''metadata'', with_default DefaultObject (ref_schema (ref ''k8s.io/apimachinery/pkg/apis/meta/v1.ObjectMeta''))),
      (''templateRef'', ref_schema (ref ''k8s.io/api/core/v1.ObjectReference'')),
      (''virtualMachine'', ref_schema (ref ''kubevirt.io/api/core/v1.VirtualMachine'')),
      (''message'', typed ''string'' [])]
      [''virtualMachine''],
     od_Dependencies = [''k8s.io/api/core/v1.ObjectReference'',
       ''k8s.io/apimachinery/pkg/apis/meta/v1.ObjectMeta'',
       ''kubevirt.io/api/core/v1.VirtualMachine'']\<rparr>"

definition schema_kubevirtio_virt_template_api_core_subresourcesv1alpha1_VirtualMachineTemplate ::
  "'r ReferenceCallback \<Rightarrow> 'r OpenAPIDefinition" where
  "schema_kubevirtio_virt_template_api_core_subresourcesv1alpha1_VirtualMachineTemplate ref = \<lparr>
     od_Schema = object_schema [
      (''kind'', typed ''string'' []),
      (''apiVersion'', typed ''string'' []),
      (''metadata'', with_default DefaultObject (ref_schema (ref ''k8s.io/apimachinery/pkg/apis/meta/v1.ObjectMeta'')))]
      [],
     od_Dependencies = [''k8s.io/apimachinery/pkg/apis/meta/v1.ObjectMeta'']\<rparr>"

definition schema_kubevirtio_virt_template_api_core_subresourcesv1beta1_ProcessOptions ::
  "'r ReferenceCallback \<Rightarrow> 'r OpenAPIDefinition" where
  "schema_kubevirtio_virt_template_api_core_subresourcesv1beta1_ProcessOptions ref = \<lparr>
     od_Schema = object_schema [
      (''kind'', typed ''string'' []),
      (''apiVersion'', typed ''string'' []),
      (''metadata'', with_default DefaultObject (ref_schema (ref ''k8s.io/apimachinery/pkg/apis/meta/v1.ObjectMeta''))),
      (''parameters'', map_schema (typed ''string'' []))]
      [],
     od_Dependencies = [''k8s.io/apimachinery/pkg/apis/meta/v1.ObjectMeta'']\<rparr>"

definition schema_kubevirtio_virt_template_api_core_subresourcesv1beta1_ProcessedVirtualMachineTemplate ::
  "'r ReferenceCallback \<Rightarrow> 'r OpenAPIDefinition" where
  "schema_kubevirtio_virt_template_api_core_subresourcesv1beta1_ProcessedVirtualMachineTemplate ref = \<lparr>
     od_Schema = object_schema [
      (''kind'', typed ''string'' []),
      (''apiVersion'', typed ''string'' []),
      (''metadata'', with_default DefaultObject (ref_schema (ref ''k8s.io/apimachinery/pkg/apis/meta/v1.ObjectMeta''))),
      (''templateRef'', ref_schema (ref ''k8s.io/api/core/v1.ObjectReference'')),
      (''virtualMachine'', ref_schema (ref ''kubevirt.io/api/core/v1.VirtualMachine'')),
      (''message'', typed ''string'' [])]
      [''virtualMachine''],
     od_Dependencies = [''k8s.io/api/core/v1.ObjectReference'',
       ''k8s.io/apimachinery/pkg/apis/meta/v1.ObjectMeta'',
       ''kubevirt.io/api/core/v1.VirtualMachine'']\<rparr>"

definition schema_kubevirtio_virt_template_api_core_subresourcesv1beta1_VirtualMachineTemplate ::
  "'r ReferenceCallback \<Rightarrow> 'r OpenAPIDefinition" where
  "schema_kubevirtio_virt_template_api_core_subresourcesv1beta1_VirtualMachineTemplate ref = \<lparr>
     od_Schema = object_schema [
      (''kind'', typed ''string'' []),
      (''apiVersion'', typed ''string'' []),
      (''metadata'', with_default DefaultObject (ref_schema (ref ''k8s.io/apimachinery/pkg/apis/meta/v1.ObjectMeta'')))]
      [],
     od_Dependencies = [''k8s.io/apimachinery/pkg/apis/meta/v1.ObjectMeta'']\<rparr>"

definition schema_kubevirtio_virt_template_api_core_v1alpha1_Parameter ::
  "'r ReferenceCallback \<Rightarrow> 'r OpenAPIDefinition" where
  "schema_kubevirtio_virt_template_api_core_v1alpha1_Parameter ref = \<lparr>
     od_Schema = object_schema [
      (''name'', with_default DefaultString (typed ''string'' [])),
      (''displayName'', typed ''string'' []),
      (''description'', typed ''string'' []),
      (''value'', typed ''string'' []),
      (''generate'', typed ''string'' []),
      (''from'', typed ''string'' []),
      (''required'', typed ''boolean'' [])]
      [''name''],
     od_Dependencies = []\<rparr>"

definition schema_kubevirtio_virt_template_api_core_v1alpha1_VirtualMachineReference ::
  "'r ReferenceCallback \<Rightarrow> 'r OpenAPIDefinition" where
  "schema_kubevirtio_virt_template_api_core_v1alpha1_VirtualMachineReference ref = \<lparr>
     od_Schema = object_schema [
      (''namespace'', typed ''string'' []),
      (''name'', typed ''string'' [])]
      [''namespace'', ''name''],
     od_Dependencies = []\<rparr>"

definition schema_kubevirtio_virt_template_api_core_v1alpha1_VirtualMachineTemplate ::
  "'r ReferenceCallback \<Rightarrow> 'r OpenAPIDefinition" where
  "schema_kubevirtio_virt_template_api_core_v1alpha1_VirtualMachineTemplate ref = \<lparr>
     od_Schema = object_schema [
      (''kind'', typed ''string'' []),
      (''apiVersion'', typed ''string'' []),
      (''metadata'', with_default DefaultObject (ref_schema (ref ''k8s.io/apimachinery/pkg/apis/meta/v1.ObjectMeta''))),
      (''spec'', with_default DefaultObject (ref_schema (ref ''kubevirt.io/virt-template-api/core/v1alpha1.VirtualMachineTemplateSpec''))),
      (''status'', with_default DefaultObject (ref_schema (ref ''kubevirt.io/virt-template-api/core/v1alpha1.VirtualMachineTemplateStatus'')))]
      [''spec''],
     od_Dependencies = [''k8s.io/apimachinery/pkg/apis/meta/v1.ObjectMeta'',
       ''kubevirt.io/virt-template-api/core/v1alpha1.VirtualMachineTemplateSpec'',
       ''kubevirt.io/virt-template-api/core/v1alpha1.VirtualMachineTemplateStatus'']\<rparr>"

definition schema_kubevirtio_virt_template_api_core_v1alpha1_VirtualMachineTemplateList ::
  "'r ReferenceCallback \<Rightarrow> 'r OpenAPIDefinition" where
  "schema_kubevirtio_virt_template_api_core_v1alpha1_VirtualMachineTemplateList ref = \<lparr>
     od_Schema = object_schema [
      (''kind'', typed ''string'' []),
      (''apiVersion'', typed ''string'' []),
      (''metadata'', with_default DefaultObject (ref_schema (ref ''k8s.io/apimachinery/pkg/apis/meta/v1.ListMeta''))),
      (''items'', array_schema (ref_schema (ref ''kubevirt.io/virt-template-api/core/v1alpha1.VirtualMachineTemplate'')))]
      [''items''],
     od_Dependencies = [''k8s.io/apimachinery/pkg/apis/meta/v1.ListMeta'',
       ''kubevirt.io/virt-template-api/core/v1alpha1.VirtualMachineTemplate'']\<rparr>"

definition schema_kubevirtio_virt_template_api_core_v1alpha1_VirtualMachineTemplateRequest ::
  "'r ReferenceCallback \<Rightarrow> 'r OpenAPIDefinition" where
  "schema_kubevirtio_virt_template_api_core_v1alpha1_VirtualMachineTemplateRequest ref = \<lparr>
     od_Schema = object_schema [
      (''kind'', typed ''string'' []),
      (''apiVersion'', typed ''string'' []),
      (''metadata'', with_default DefaultObject (ref_schema (ref ''k8s.io/apimachinery/pkg/apis/meta/v1.ObjectMeta''))),
      (''spec'', with_default DefaultObject (ref_schema (ref ''kubevirt.io/virt-template-api/core/v1alpha1.VirtualMachineTemplateRequestSpec''))),
      (''status'', with_default DefaultObject (ref_schema (ref ''kubevirt.io/virt-template-api/core/v1alpha1.VirtualMachineTemplateRequestStatus'')))]
      [''spec''],
     od_Dependencies = [''k8s.io/apimachinery/pkg/apis/meta/v1.ObjectMeta'',
       ''kubevirt.io/virt-template-api/core/v1alpha1.VirtualMachineTemplateRequestSpec'',
       ''kubevirt.io/virt-template-api/core/v1alpha1.VirtualMachineTemplateRequestStatus'']\<rparr>"

definition schema_kubevirtio_virt_template_api_core_v1alpha1_VirtualMachineTemplateRequestList ::
  "'r ReferenceCallback \<Rightarrow> 'r OpenAPIDefinition" where
  "schema_kubevirtio_virt_template_api_core_v1alpha1_VirtualMachineTemplateRequestList ref = \<lparr>
     od_Schema = object_schema [
      (''kind'', typed ''string'' []),
      (''apiVersion'', typed ''string'' []),
      (''metadata'', with_default DefaultObject (ref_schema (ref ''k8s.io/apimachinery/pkg/apis/meta/v1.ListMeta''))),
      (''items'', array_schema (ref_schema (ref ''kubevirt.io/virt-template-api/core/v1alpha1.VirtualMachineTemplateRequest'')))]
      [''items''],
     od_Dependencies = [''k8s.io/apimachinery/pkg/apis/meta/v1.ListMeta'',
       ''kubevirt.io/virt-template-api/core/v1alpha1.VirtualMachineTemplateRequest'']\<rparr>"

definition schema_kubevirtio_virt_template_api_core_v1alpha1_VirtualMachineTemplateRequestSpec ::
  "'r ReferenceCallback \<Rightarrow> 'r OpenAPIDefinition" where
  "schema_kubevirtio_virt_template_api_core_v1alpha1_VirtualMachineTemplateRequestSpec ref = \<lparr>
     od_Schema = object_schema [
      (''virtualMachineRef'', with_default DefaultObject (ref_schema (ref ''kubevirt.io/virt-template-api/core/v1alpha1.VirtualMachineReference''))),
      (''templateName'', typed ''string'' []),
      (''templateLabels'', map_schema (typed ''string'' [])),
      (''ttlSecondsAfterFinished'', typed ''integer'' ''int32'')]
      [''virtualMachineRef''],
     od_Dependencies = [''kubevirt.io/virt-template-api/core/v1alpha1.VirtualMachineReference'']\<rparr>"

definition schema_kubevirtio_virt_template_api_core_v1alpha1_VirtualMachineTemplateRequestStatus ::
  "'r ReferenceCallback \<Rightarrow> 'r OpenAPIDefinition" where
  "schema_kubevirtio_virt_template_api_core_v1alpha1_VirtualMachineTemplateRequestStatus ref = \<lparr>
     od_Schema = object_schema [
      (''conditions'', with_extensions [(''x-kubernetes-list-map-keys'', [''type'']), (''x-kubernetes-list-type'', [''map''])]
        (array_schema (ref_schema (ref ''k8s.io/apimachinery/pkg/apis/meta/v1.Condition'')))),
      (''templateRef'', ref_schema (ref ''k8s.io/api/core/v1.LocalObjectReference''))]
      [],
     od_Dependencies = [''k8s.io/api/core/v1.LocalObjectReference'',
       ''k8s.io/apimachinery/pkg/apis/meta/v1.Condition'']\<rparr>"

definition schema_kubevirtio_virt_template_api_core_v1alpha1_VirtualMachineTemplateSpec ::
  "'r ReferenceCallback \<Rightarrow> 'r OpenAPIDefinition" where
  "schema_kubevirtio_virt_template_api_core_v1alpha1_VirtualMachineTemplateSpec ref = \<lparr>
     od_Schema = object_schema [
      (''virtualMachine'', ref_schema (ref ''k8s.io/apimachinery/pkg/runtime.RawExtension'')),
      (''parameters'', array_schema (ref_schema (ref ''kubevirt.io/virt-template-api/core/v1alpha1.Parameter''))),
      (''message'', typed ''string'' [])]
      [''virtualMachine''],
     od_Dependencies = [''k8s.io/apimachinery/pkg/runtime.RawExtension'',
       ''kubevirt.io/virt-template-api/core/v1alpha1.Parameter'']\<rparr>"

definition schema_kubevirtio_virt_template_api_core_v1alpha1_VirtualMachineTemplateStatus ::
  "'r ReferenceCallback \<Rightarrow> 'r OpenAPIDefinition" where
  "schema_kubevirtio_virt_template_api_core_v1alpha1_VirtualMachineTemplateStatus ref = \<lparr>
     od_Schema = object_schema [
      (''conditions'', with_extensions [(''x-kubernetes-list-map-keys'', [''type'']), (''x-kubernetes-list-type'', [''map''])]
        (array_schema (ref_schema (ref ''k8s.io/apimachinery/pkg/apis/meta/v1.Condition''))))]
      [],
     od_Dependencies = [''k8s.io/apimachinery/pkg/apis/meta/v1.Condition'']\<rparr>"

definition schema_kubevirtio_virt_template_api_core_v1beta1_Parameter ::
  "'r ReferenceCallback \<Rightarrow> 'r OpenAPIDefinition" where
  "schema_kubevirtio_virt_template_api_core_v1beta1_Parameter ref = \<lparr>
     od_Schema = object_schema [
      (''name'', with_default DefaultString (typed ''string'' [])),
      (''displayName'', typed ''string'' []),
      (''description'', typed ''string'' []),
      (''value'', typed ''string'' []),
      (''generate'', typed ''string'' []),
      (''from'', typed ''string'' []),
      (''required'', typed ''boolean'' [])]
      [''name''],
     od_Dependencies = []\<rparr>"

definition schema_kubevirtio_virt_template_api_core_v1beta1_VirtualMachineReference ::
  "'r ReferenceCallback \<Rightarrow> 'r OpenAPIDefinition" where
  "schema_kubevirtio_virt_template_api_core_v1beta1_VirtualMachineReference ref = \<lparr>
     od_Schema = object_schema [
      (''namespace'', typed ''string'' []),
      (''name'', typed ''string'' [])]
      [''namespace'', ''name''],
     od_Dependencies = []\<rparr>"

definition schema_kubevirtio_virt_template_api_core_v1beta1_VirtualMachineTemplate ::
  "'r ReferenceCallback \<Rightarrow> 'r OpenAPIDefinition" where
  "schema_kubevirtio_virt_template_api_core_v1beta1_VirtualMachineTemplate ref = \<lparr>
     od_Schema = object_schema [
      (''kind'', typed ''string'' []),
      (''apiVersion'', typed ''string'' []),
      (''metadata'', with_default DefaultObject (ref_schema (ref ''k8s.io/apimachinery/pkg/apis/meta/v1.ObjectMeta''))),
      (''spec'', with_default DefaultObject (ref_schema (ref ''kubevirt.io/virt-template-api/core/v1beta1.VirtualMachineTemplateSpec''))),
      (''status'', with_default DefaultObject (ref_schema (ref ''kubevirt.io/virt-template-api/core/v1beta1.VirtualMachineTemplateStatus'')))]
      [''spec''],
     od_Dependencies = [''k8s.io/apimachinery/pkg/apis/meta/v1.ObjectMeta'',
       ''kubevirt.io/virt-template-api/core/v1beta1.VirtualMachineTemplateSpec'',
       ''kubevirt.io/virt-template-api/core/v1beta1.VirtualMachineTemplateStatus'']\<rparr>"

definition schema_kubevirtio_virt_template_api_core_v1beta1_VirtualMachineTemplateList ::
  "'r ReferenceCallback \<Rightarrow> 'r OpenAPIDefinition" where
  "schema_kubevirtio_virt_template_api_core_v1beta1_VirtualMachineTemplateList ref = \<lparr>
     od_Schema = object_schema [
      (''kind'', typed ''string'' []),
      (''apiVersion'', typed ''string'' []),
      (''metadata'', with_default DefaultObject (ref_schema (ref ''k8s.io/apimachinery/pkg/apis/meta/v1.ListMeta''))),
      (''items'', array_schema (ref_schema (ref ''kubevirt.io/virt-template-api/core/v1beta1.VirtualMachineTemplate'')))]
      [''items''],
     od_Dependencies = [''k8s.io/apimachinery/pkg/apis/meta/v1.ListMeta'',
       ''kubevirt.io/virt-template-api/core/v1beta1.VirtualMachineTemplate'']\<rparr>"

definition schema_kubevirtio_virt_template_api_core_v1beta1_VirtualMachineTemplateRequest ::
  "'r ReferenceCallback \<Rightarrow> 'r OpenAPIDefinition" where
  "schema_kubevirtio_virt_template_api_core_v1beta1_VirtualMachineTemplateRequest ref = \<lparr>
     od_Schema = object_schema [
      (''kind'', typed ''string'' []),
      (''apiVersion'', typed ''string'' []),
      (''metadata'', with_default DefaultObject (ref_schema (ref ''k8s.io/apimachinery/pkg/apis/meta/v1.ObjectMeta''))),
      (''spec'', with_default DefaultObject (ref_schema (ref ''kubevirt.io/virt-template-api/core/v1beta1.VirtualMachineTemplateRequestSpec''))),
      (''status'', with_default DefaultObject (ref_schema (ref ''kubevirt.io/virt-template-api/core/v1beta1.VirtualMachineTemplateRequestStatus'')))]
      [''spec''],
     od_Dependencies = [''k8s.io/apimachinery/pkg/apis/meta/v1.ObjectMeta'',
       ''kubevirt.io/virt-template-api/core/v1beta1.VirtualMachineTemplateRequestSpec'',
       ''kubevirt.io/virt-template-api/core/v1beta1.VirtualMachineTemplateRequestStatus'']\<rparr>"

definition schema_kubevirtio_virt_template_api_core_v1beta1_VirtualMachineTemplateRequestList ::
  "'r ReferenceCallback \<Rightarrow> 'r OpenAPIDefinition" where
  "schema_kubevirtio_virt_template_api_core_v1beta1_VirtualMachineTemplateRequestList ref = \<lparr>
     od_Schema = object_schema [
      (''kind'', typed ''string'' []),
      (''apiVersion'', typed ''string'' []),
      (''metadata'', with_default DefaultObject (ref_schema (ref ''k8s.io/apimachinery/pkg/apis/meta/v1.ListMeta''))),
      (''items'', array_schema (ref_schema (ref ''kubevirt.io/virt-template-api/core/v1beta1.VirtualMachineTemplateRequest'')))]
      [''items''],
     od_Dependencies = [''k8s.io/apimachinery/pkg/apis/meta/v1.ListMeta'',
       ''kubevirt.io/virt-template-api/core/v1beta1.VirtualMachineTemplateRequest'']\<rparr>"

definition schema_kubevirtio_virt_template_api_core_v1beta1_VirtualMachineTemplateRequestSpec ::
  "'r ReferenceCallback \<Rightarrow> 'r OpenAPIDefinition" where
  "schema_kubevirtio_virt_template_api_core_v1beta1_VirtualMachineTemplateRequestSpec ref = \<lparr>
     od_Schema = object_schema [
      (''virtualMachineRef'', with_default DefaultObject (ref_schema (ref ''kubevirt.io/virt-template-api/core/v1beta1.VirtualMachineReference''))),
      (''templateName'', typed ''string'' []),
      (''templateLabels'', map_schema (typed ''string'' [])),
      (''ttlSecondsAfterFinished'', typed ''integer'' ''int32'')]
      [''virtualMachineRef''],
     od_Dependencies = [''kubevirt.io/virt-template-api/core/v1beta1.VirtualMachineReference'']\<rparr>"

definition schema_kubevirtio_virt_template_api_core_v1beta1_VirtualMachineTemplateRequestStatus ::
  "'r ReferenceCallback \<Rightarrow> 'r OpenAPIDefinition" where
  "schema_kubevirtio_virt_template_api_core_v1beta1_VirtualMachineTemplateRequestStatus ref = \<lparr>
     od_Schema = object_schema [
      (''conditions'', with_extensions [(''x-kubernetes-list-map-keys'', [''type'']), (''x-kubernetes-list-type'', [''map''])]
        (array_schema (ref_schema (ref ''k8s.io/apimachinery/pkg/apis/meta/v1.Condition'')))),
      (''templateRef'', ref_schema (ref ''k8s.io/api/core/v1.LocalObjectReference''))]
      [],
     od_Dependencies = [''k8s.io/api/core/v1.LocalObjectReference'',
       ''k8s.io/apimachinery/pkg/apis/meta/v1.Condition'']\<rparr>"

definition schema_kubevirtio_virt_template_api_core_v1beta1_VirtualMachineTemplateSpec ::
  "'r ReferenceCallback \<Rightarrow> 'r OpenAPIDefinition" where
  "schema_kubevirtio_virt_template_api_core_v1beta1_VirtualMachineTemplateSpec ref = \<lparr>
     od_Schema = object_schema [
      (''virtualMachine'', ref_schema (ref ''k8s.io/apimachinery/pkg/runtime.RawExtension'')),
      (''parameters'', array_schema (ref_schema (ref ''kubevirt.io/virt-template-api/core/v1beta1.Parameter''))),
      (''message'', typed ''string'' [])]
      [''virtualMachine''],
     od_Dependencies = [''k8s.io/apimachinery/pkg/runtime.RawExtension'',
       ''kubevirt.io/virt-template-api/core/v1beta1.Parameter'']\<rparr>"

definition schema_kubevirtio_virt_template_api_core_v1beta1_VirtualMachineTemplateStatus ::
  "'r ReferenceCallback \<Rightarrow> 'r OpenAPIDefinition" where
  "schema_kubevirtio_virt_template_api_core_v1beta1_VirtualMachineTemplateStatus ref = \<lparr>
     od_Schema = object_schema [
      (''conditions'', with_extensions [(''x-kubernetes-list-map-keys'', [''type'']), (''x-kubernetes-list-type'', [''map''])]
        (array_schema (ref_schema (ref ''k8s.io/apimachinery/pkg/apis/meta/v1.Condition''))))]
      [],
     od_Dependencies = [''k8s.io/apimachinery/pkg/apis/meta/v1.Condition'']\<rparr>"

definition library_definitions ::
  "'r ReferenceCallback \<Rightarrow> (string \<times> 'r OpenAPIDefinition) list" where
  "library_definitions ref = [
     (''k8s.io/api/core/v1.LocalObjectReference'',
      schema_k8sio_api_core_v1_LocalObjectReference ref),
     (''k8s.io/api/core/v1.ObjectReference'',
      schema_k8sio_api_core_v1_ObjectReference ref),
     (''k8s.io/apimachinery/pkg/runtime.RawExtension'',
      schema_k8sio_apimachinery_pkg_runtime_RawExtension ref)]"

definition api_definitions ::
  "'r ReferenceCallback \<Rightarrow> (string \<times> 'r OpenAPIDefinition) list" where
  "api_definitions ref = [
     (''kubevirt.io/virt-template-api/core/subresourcesv1alpha1.ProcessOptions'',
      schema_kubevirtio_virt_template_api_core_subresourcesv1alpha1_ProcessOptions ref),
     (''kubevirt.io/virt-template-api/core/subresourcesv1alpha1.ProcessedVirtualMachineTemplate'',
      schema_kubevirtio_virt_template_api_core_subresourcesv1alpha1_ProcessedVirtualMachineTemplate ref),
     (''kubevirt.io/virt-template-api/core/subresourcesv1alpha1.VirtualMachineTemplate'',
      schema_kubevirtio_virt_template_api_core_subresourcesv1alpha1_VirtualMachineTemplate ref),
     (''kubevirt.io/virt-template-api/core/subresourcesv1beta1.ProcessOptions'',
      schema_kubevirtio_virt_template_api_core_subresourcesv1beta1_ProcessOptions ref),
     (''kubevirt.io/virt-template-api/core/subresourcesv1beta1.ProcessedVirtualMachineTemplate'',
      schema_kubevirtio_virt_template_api_core_subresourcesv1beta1_ProcessedVirtualMachineTemplate ref),
     (''kubevirt.io/virt-template-api/core/subresourcesv1beta1.VirtualMachineTemplate'',
      schema_kubevirtio_virt_template_api_core_subresourcesv1beta1_VirtualMachineTemplate ref),
     (''kubevirt.io/virt-template-api/core/v1alpha1.Parameter'',
      schema_kubevirtio_virt_template_api_core_v1alpha1_Parameter ref),
     (''kubevirt.io/virt-template-api/core/v1alpha1.VirtualMachineReference'',
      schema_kubevirtio_virt_template_api_core_v1alpha1_VirtualMachineReference ref),
     (''kubevirt.io/virt-template-api/core/v1alpha1.VirtualMachineTemplate'',
      schema_kubevirtio_virt_template_api_core_v1alpha1_VirtualMachineTemplate ref),
     (''kubevirt.io/virt-template-api/core/v1alpha1.VirtualMachineTemplateList'',
      schema_kubevirtio_virt_template_api_core_v1alpha1_VirtualMachineTemplateList ref),
     (''kubevirt.io/virt-template-api/core/v1alpha1.VirtualMachineTemplateRequest'',
      schema_kubevirtio_virt_template_api_core_v1alpha1_VirtualMachineTemplateRequest ref),
     (''kubevirt.io/virt-template-api/core/v1alpha1.VirtualMachineTemplateRequestList'',
      schema_kubevirtio_virt_template_api_core_v1alpha1_VirtualMachineTemplateRequestList ref),
     (''kubevirt.io/virt-template-api/core/v1alpha1.VirtualMachineTemplateRequestSpec'',
      schema_kubevirtio_virt_template_api_core_v1alpha1_VirtualMachineTemplateRequestSpec ref),
     (''kubevirt.io/virt-template-api/core/v1alpha1.VirtualMachineTemplateRequestStatus'',
      schema_kubevirtio_virt_template_api_core_v1alpha1_VirtualMachineTemplateRequestStatus ref),
     (''kubevirt.io/virt-template-api/core/v1alpha1.VirtualMachineTemplateSpec'',
      schema_kubevirtio_virt_template_api_core_v1alpha1_VirtualMachineTemplateSpec ref),
     (''kubevirt.io/virt-template-api/core/v1alpha1.VirtualMachineTemplateStatus'',
      schema_kubevirtio_virt_template_api_core_v1alpha1_VirtualMachineTemplateStatus ref),
     (''kubevirt.io/virt-template-api/core/v1beta1.Parameter'',
      schema_kubevirtio_virt_template_api_core_v1beta1_Parameter ref),
     (''kubevirt.io/virt-template-api/core/v1beta1.VirtualMachineReference'',
      schema_kubevirtio_virt_template_api_core_v1beta1_VirtualMachineReference ref),
     (''kubevirt.io/virt-template-api/core/v1beta1.VirtualMachineTemplate'',
      schema_kubevirtio_virt_template_api_core_v1beta1_VirtualMachineTemplate ref),
     (''kubevirt.io/virt-template-api/core/v1beta1.VirtualMachineTemplateList'',
      schema_kubevirtio_virt_template_api_core_v1beta1_VirtualMachineTemplateList ref),
     (''kubevirt.io/virt-template-api/core/v1beta1.VirtualMachineTemplateRequest'',
      schema_kubevirtio_virt_template_api_core_v1beta1_VirtualMachineTemplateRequest ref),
     (''kubevirt.io/virt-template-api/core/v1beta1.VirtualMachineTemplateRequestList'',
      schema_kubevirtio_virt_template_api_core_v1beta1_VirtualMachineTemplateRequestList ref),
     (''kubevirt.io/virt-template-api/core/v1beta1.VirtualMachineTemplateRequestSpec'',
      schema_kubevirtio_virt_template_api_core_v1beta1_VirtualMachineTemplateRequestSpec ref),
     (''kubevirt.io/virt-template-api/core/v1beta1.VirtualMachineTemplateRequestStatus'',
      schema_kubevirtio_virt_template_api_core_v1beta1_VirtualMachineTemplateRequestStatus ref),
     (''kubevirt.io/virt-template-api/core/v1beta1.VirtualMachineTemplateSpec'',
      schema_kubevirtio_virt_template_api_core_v1beta1_VirtualMachineTemplateSpec ref),
     (''kubevirt.io/virt-template-api/core/v1beta1.VirtualMachineTemplateStatus'',
      schema_kubevirtio_virt_template_api_core_v1beta1_VirtualMachineTemplateStatus ref)]"

text \<open>The map of all definitions; \<open>others\<close> are those of the other library types.\<close>

definition GetOpenAPIDefinitions ::
  "('r ReferenceCallback \<Rightarrow> (string \<times> 'r OpenAPIDefinition) list) \<Rightarrow> 'r ReferenceCallback \<Rightarrow> (string \<times> 'r OpenAPIDefinition) list" where
  "GetOpenAPIDefinitions others ref = others ref @ library_definitions ref @ api_definitions ref"

lemmas library_schemas =
  schema_k8sio_api_core_v1_LocalObjectReference_def
  schema_k8sio_api_core_v1_ObjectReference_def
  schema_k8sio_apimachinery_pkg_runtime_RawExtension_def

lemmas api_schemas =
  schema_kubevirtio_virt_template_api_core_subresourcesv1alpha1_ProcessOptions_def
  schema_kubevirtio_virt_template_api_core_subresourcesv1alpha1_ProcessedVirtualMachineTemplate_def
  schema_kubevirtio_virt_template_api_core_subresourcesv1alpha1_VirtualMachineTemplate_def
  schema_kubevirtio_virt_template_api_core_subresourcesv1beta1_ProcessOptions_def
  schema_kubevirtio_virt_template_api_core_subresourcesv1beta1_ProcessedVirtualMachineTemplate_def
  schema_kubevirtio_virt_template_api_core_subresourcesv1beta1_VirtualMachineTemplate_def
  schema_kubevirtio_virt_template_api_core_v1alpha1_Parameter_def
  schema_kubevirtio_virt_template_api_core_v1alpha1_VirtualMachineReference_def
  schema_kubevirtio_virt_template_api_core_v1alpha1_VirtualMachineTemplate_def
  schema_kubevirtio_virt_template_api_core_v1alpha1_VirtualMachineTemplateList_def
  schema_kubevirtio_virt_template_api_core_v1alpha1_VirtualMachineTemplateRequest_def
  schema_kubevirtio_virt_template_api_core_v1alpha1_VirtualMachineTemplateRequestList_def
  schema_kubevirtio_virt_template_api_core_v1alpha1_VirtualMachineTemplateRequestSpec_def
  schema_kubevirtio_virt_template_api_core_v1alpha1_VirtualMachineTemplateRequestStatus_def
  schema_kubevirtio_virt_template_api_core_v1alpha1_VirtualMachineTemplateSpec_def
  schema_kubevirtio_virt_template_api_core_v1alpha1_VirtualMachineTemplateStatus_def
  schema_kubevirtio_virt_template_api_core_v1beta1_Parameter_def
  schema_kubevirtio_virt_template_api_core_v1beta1_VirtualMachineReference_def
  schema_kubevirtio_virt_template_api_core_v1beta1_VirtualMachineTemplate_def
  schema_kubevirtio_virt_template_api_core_v1beta1_VirtualMachineTemplateList_def
  schema_kubevirtio_virt_template_api_core_v1beta1_VirtualMachineTemplateRequest_def
  schema_kubevirtio_virt_template_api_core_v1beta1_VirtualMachineTemplateRequestList_def
  schema_kubevirtio_virt_template_api_core_v1beta1_VirtualMachineTemplateRequestSpec_def
  schema_kubevirtio_virt_template_api_core_v1beta1_VirtualMachineTemplateRequestStatus_def
  schema_kubevirtio_virt_template_api_core_v1beta1_VirtualMachineTemplateSpec_def
  schema_kubevirtio_virt_template_api_core_v1beta1_VirtualMachineTemplateStatus_def

section \<open>References\<close>

text \<open>The references of a definition are those of its dependencies.\<close>

lemma api_references: "(n, def) \<in> set (api_definitions ref) \<Longrightarrow> set_schema (od_Schema def) = ref ` set (od_Dependencies def)"
  unfolding api_definitions_def by (auto simp: api_schemas schema_forms)

end
