(* ===== verification/Scheme.thy ===== *)
theory Scheme
  imports Api_V1alpha1 "HOL-Library.Monad_Syntax"
begin

text \<open>
  The registry of the Go types, \<^verbatim>\<open>runtime.Scheme\<close>: its functions that register types, the registrations of the
  packages \<^verbatim>\<open>api/core\<close>, the scheme of the generated clients (\<^verbatim>\<open>virttemplate/scheme\<close>) and the scheme of the programs
  (\<^verbatim>\<open>internal/scheme\<close>).

  A Go type is its package and its name.  \<^term>\<open>None\<close> is a panic.  The fields of the scheme for conversion, defaulting
  and validation functions are left out: no registration reads them.
\<close>

section \<open>Schemes\<close>

record GroupVersionKind =
  gvk_Group :: string
  gvk_Version :: string
  gvk_Kind :: string

record GoType =
  ty_Package :: string
  ty_Name :: string

record Scheme =
  sm_gvkToType :: "GroupVersionKind \<rightharpoonup> GoType"
  sm_typeToGVK :: "GoType \<Rightarrow> GroupVersionKind list"
  sm_unversionedTypes :: "GoType \<rightharpoonup> GroupVersionKind"
  sm_unversionedKinds :: "string \<rightharpoonup> GoType"
  sm_observedVersions :: "GroupVersion list"

definition NewScheme :: Scheme where
  "NewScheme = \<lparr>sm_gvkToType = Map.empty, sm_typeToGVK = (\<lambda>t. []), sm_unversionedTypes = Map.empty,
     sm_unversionedKinds = Map.empty, sm_observedVersions = []\<rparr>"

definition APIVersionInternal :: string where "APIVersionInternal = ''__internal''"

definition WithKind :: "GroupVersion \<Rightarrow> string \<Rightarrow> GroupVersionKind" where
  "WithKind gv kind = \<lparr>gvk_Group = gv_Group gv, gvk_Version = gv_Version gv, gvk_Kind = kind\<rparr>"

definition gvk_GroupVersion :: "GroupVersionKind \<Rightarrow> GroupVersion" where
  "gvk_GroupVersion gvk = \<lparr>gv_Group = gvk_Group gvk, gv_Version = gvk_Version gvk\<rparr>"

definition addObservedVersion :: "GroupVersion \<Rightarrow> Scheme \<Rightarrow> Scheme" where
  "addObservedVersion gv s =
     (if gv_Version gv = [] \<or> gv_Version gv = APIVersionInternal \<or> gv \<in> set (sm_observedVersions s) then s
      else s\<lparr>sm_observedVersions := sm_observedVersions s @ [gv]\<rparr>)"

definition AddKnownTypeWithName :: "GroupVersionKind \<Rightarrow> GoType \<Rightarrow> Scheme \<Rightarrow> Scheme option" where
  "AddKnownTypeWithName gvk t s0 =
     (let s = addObservedVersion (gvk_GroupVersion gvk) s0
      in if gvk_Version gvk = [] then None
         else if (case sm_gvkToType s gvk of Some oldT \<Rightarrow> oldT \<noteq> t | None \<Rightarrow> False) then None
         else
           (let s1 = s\<lparr>sm_gvkToType := (sm_gvkToType s)(gvk \<mapsto> t)\<rparr>
            in if gvk \<in> set (sm_typeToGVK s1 t) then Some s1
               else Some (s1\<lparr>sm_typeToGVK := (sm_typeToGVK s1)(t := sm_typeToGVK s1 t @ [gvk])\<rparr>)))"

fun add_known_types :: "GroupVersion \<Rightarrow> GoType list \<Rightarrow> Scheme \<Rightarrow> Scheme option" where
  "add_known_types gv [] s = Some s"
| "add_known_types gv (t # ts) s = Option.bind (AddKnownTypeWithName (WithKind gv (ty_Name t)) t s) (add_known_types gv ts)"

definition AddKnownTypes :: "GroupVersion \<Rightarrow> GoType list \<Rightarrow> Scheme \<Rightarrow> Scheme option" where
  "AddKnownTypes gv ts s = add_known_types gv ts (addObservedVersion gv s)"

fun mark_unversioned :: "GroupVersion \<Rightarrow> GoType list \<Rightarrow> Scheme \<Rightarrow> Scheme option" where
  "mark_unversioned gv [] s = Some s"
| "mark_unversioned gv (t # ts) s0 =
     (let gvk = WithKind gv (ty_Name t);
          s = s0\<lparr>sm_unversionedTypes := (sm_unversionedTypes s0)(t \<mapsto> gvk)\<rparr>
      in if (case sm_unversionedKinds s (gvk_Kind gvk) of Some old \<Rightarrow> t \<noteq> old | None \<Rightarrow> False) then None
         else mark_unversioned gv ts (s\<lparr>sm_unversionedKinds := (sm_unversionedKinds s)(gvk_Kind gvk \<mapsto> t)\<rparr>))"

definition AddUnversionedTypes :: "GroupVersion \<Rightarrow> GoType list \<Rightarrow> Scheme \<Rightarrow> Scheme option" where
  "AddUnversionedTypes gv ts s =
     Option.bind (AddKnownTypes gv ts (addObservedVersion gv s)) (mark_unversioned gv ts)"

definition ObjectKinds :: "Scheme \<Rightarrow> GoType \<Rightarrow> GroupVersionKind list option" where
  "ObjectKinds s t = (if sm_typeToGVK s t = [] then None else Some (sm_typeToGVK s t))"

section \<open>The types of every group\<close>

definition meta_type :: "string \<Rightarrow> GoType" where
  "meta_type name = \<lparr>ty_Package = ''k8s.io/apimachinery/pkg/apis/meta/v1'', ty_Name = name\<rparr>"

definition WatchEventKind :: string where "WatchEventKind = ''WatchEvent''"

definition option_kinds :: "string list" where
  "option_kinds = [''ListOptions'', ''GetOptions'', ''DeleteOptions'', ''CreateOptions'', ''UpdateOptions'', ''PatchOptions'']"

definition unversioned_kinds :: "string list" where
  "unversioned_kinds = [''Status'', ''APIVersions'', ''APIGroupList'', ''APIGroup'', ''APIResourceList'']"

definition Unversioned :: GroupVersion where
  "Unversioned = \<lparr>gv_Group = [], gv_Version = ''v1''\<rparr>"

definition AddToGroupVersion :: "GroupVersion \<Rightarrow> Scheme \<Rightarrow> Scheme option" where
  "AddToGroupVersion gv s = (do {
     s1 \<leftarrow> AddKnownTypeWithName (WithKind gv WatchEventKind) (meta_type ''WatchEvent'') s;
     s2 \<leftarrow> AddKnownTypeWithName (WithKind \<lparr>gv_Group = gv_Group gv, gv_Version = APIVersionInternal\<rparr> WatchEventKind)
       (meta_type ''InternalEvent'') s1;
     s3 \<leftarrow> AddKnownTypes gv (map meta_type option_kinds) s2;
     AddUnversionedTypes Unversioned (map meta_type unversioned_kinds) s3})"

section \<open>Builders\<close>

text \<open>
  A \<^verbatim>\<open>scheme.Builder\<close>: its group version, and the objects of every call of \<^verbatim>\<open>Register\<close>, whose functions \<^verbatim>\<open>AddToScheme\<close> calls in order.
\<close>

record Builder =
  bl_GroupVersion :: GroupVersion
  bl_funcs :: "GoType list list"

definition Register :: "GoType list \<Rightarrow> Builder \<Rightarrow> Builder" where
  "Register objects bld = bld\<lparr>bl_funcs := bl_funcs bld @ [objects]\<rparr>"

definition call_registered :: "GroupVersion \<Rightarrow> GoType list \<Rightarrow> Scheme \<Rightarrow> Scheme option" where
  "call_registered gv objects s = Option.bind (AddKnownTypes gv objects s) (AddToGroupVersion gv)"

fun run_builder :: "(Scheme \<Rightarrow> Scheme option) list \<Rightarrow> Scheme \<Rightarrow> Scheme option" where
  "run_builder [] s = Some s"
| "run_builder (f # fs) s = Option.bind (f s) (run_builder fs)"

definition AddToScheme :: "Builder \<Rightarrow> Scheme \<Rightarrow> Scheme option" where
  "AddToScheme bld = run_builder (map (call_registered (bl_GroupVersion bld)) (bl_funcs bld))"

section \<open>The packages of the API\<close>

definition api_package :: "GroupVersion \<Rightarrow> string" where
  "api_package gv = ''kubevirt.io/virt-template-api/core/'' @ (if gv_Group gv = SubresourceGroupName then ''subresources'' else []) @ gv_Version gv"

definition api_type :: "GroupVersion \<Rightarrow> string \<Rightarrow> GoType" where
  "api_type gv name = \<lparr>ty_Package = api_package gv, ty_Name = name\<rparr>"

text \<open>
  The init functions of the files of the API packages, and the builders after them; the functions of a package run in the order of its file names.
\<close>

definition init_templates_v1beta1 :: "Builder \<Rightarrow> Builder" where
  "init_templates_v1beta1 = Register (map (api_type coreV1beta1) [''VirtualMachineTemplate'', ''VirtualMachineTemplateList''])"

definition init_requests_v1beta1 :: "Builder \<Rightarrow> Builder" where
  "init_requests_v1beta1 = Register (map (api_type coreV1beta1) [''VirtualMachineTemplateRequest'', ''VirtualMachineTemplateRequestList''])"

definition SchemeBuilder_v1beta1 :: Builder where
  "SchemeBuilder_v1beta1 = init_requests_v1beta1 (init_templates_v1beta1 \<lparr>bl_GroupVersion = coreV1beta1, bl_funcs = []\<rparr>)"

definition init_templates_v1alpha1 :: "Builder \<Rightarrow> Builder" where
  "init_templates_v1alpha1 = Register (map (api_type coreV1alpha1) [''VirtualMachineTemplate'', ''VirtualMachineTemplateList''])"

definition init_requests_v1alpha1 :: "Builder \<Rightarrow> Builder" where
  "init_requests_v1alpha1 = Register (map (api_type coreV1alpha1) [''VirtualMachineTemplateRequest'', ''VirtualMachineTemplateRequestList''])"

definition SchemeBuilder_v1alpha1 :: Builder where
  "SchemeBuilder_v1alpha1 = init_requests_v1alpha1 (init_templates_v1alpha1 \<lparr>bl_GroupVersion = coreV1alpha1, bl_funcs = []\<rparr>)"

definition init_subresourcesv1beta1 :: "Builder \<Rightarrow> Builder" where
  "init_subresourcesv1beta1 = Register (map (api_type subresourcesV1beta1) [''VirtualMachineTemplate'', ''ProcessOptions'', ''ProcessedVirtualMachineTemplate''])"

definition SchemeBuilder_subresourcesv1beta1 :: Builder where
  "SchemeBuilder_subresourcesv1beta1 = init_subresourcesv1beta1 \<lparr>bl_GroupVersion = subresourcesV1beta1, bl_funcs = []\<rparr>"

definition init_subresourcesv1alpha1 :: "Builder \<Rightarrow> Builder" where
  "init_subresourcesv1alpha1 = Register (map (api_type subresourcesV1alpha1) [''VirtualMachineTemplate'', ''ProcessOptions'', ''ProcessedVirtualMachineTemplate''])"

definition SchemeBuilder_subresourcesv1alpha1 :: Builder where
  "SchemeBuilder_subresourcesv1alpha1 = init_subresourcesv1alpha1 \<lparr>bl_GroupVersion = subresourcesV1alpha1, bl_funcs = []\<rparr>"

lemmas init_defs =
  init_templates_v1beta1_def init_requests_v1beta1_def init_templates_v1alpha1_def
  init_requests_v1alpha1_def init_subresourcesv1beta1_def init_subresourcesv1alpha1_def

section \<open>The schemes of the clients and of the programs\<close>

definition localSchemeBuilder :: "(Scheme \<Rightarrow> Scheme option) list" where
  "localSchemeBuilder = [AddToScheme SchemeBuilder_v1alpha1, AddToScheme SchemeBuilder_v1beta1]"

definition client_scheme :: "Scheme option" where
  "client_scheme = Option.bind (AddToGroupVersion \<lparr>gv_Group = [], gv_Version = ''v1''\<rparr> NewScheme) (run_builder localSchemeBuilder)"

definition fakeSchemeBuilder :: "(Scheme \<Rightarrow> Scheme option) list" where
  "fakeSchemeBuilder = [AddToScheme SchemeBuilder_v1alpha1, AddToScheme SchemeBuilder_v1beta1]"

definition fake_scheme :: "Scheme option" where
  "fake_scheme = Option.bind (AddToGroupVersion \<lparr>gv_Group = [], gv_Version = ''v1''\<rparr> NewScheme) (run_builder fakeSchemeBuilder)"

text \<open>
  The scheme of the programs.  The registrations of client-go, of the KubeVirt clients and of CDI are parameters; an error that
  they return is a panic of \<^verbatim>\<open>utilruntime.Must\<close>.
\<close>

definition scheme_New ::
  "(Scheme \<Rightarrow> Scheme option) \<Rightarrow> (Scheme \<Rightarrow> Scheme option) \<Rightarrow> (Scheme \<Rightarrow> Scheme option) \<Rightarrow> Scheme option" where
  "scheme_New clientgo virtclientgo cdiv1beta1 = (do {
     s \<leftarrow> clientgo NewScheme;
     s \<leftarrow> virtclientgo s;
     s \<leftarrow> cdiv1beta1 s;
     s \<leftarrow> AddToScheme SchemeBuilder_subresourcesv1alpha1 s;
     s \<leftarrow> AddToScheme SchemeBuilder_subresourcesv1beta1 s;
     s \<leftarrow> AddToScheme SchemeBuilder_v1alpha1 s;
     AddToScheme SchemeBuilder_v1beta1 s})"

section \<open>Well-formed schemes\<close>

text \<open>
  The types that are registered in the program, by kind: by \<^verbatim>\<open>metav1.AddToGroupVersion\<close>, by this repository, and by the libraries, whose kinds are
  the map \<open>lib\<close>.
\<close>

definition api_kinds :: "GroupVersion \<Rightarrow> string list" where
  "api_kinds gv =
     (if gv \<in> {coreV1beta1, coreV1alpha1}
      then [''VirtualMachineTemplate'', ''VirtualMachineTemplateList'', ''VirtualMachineTemplateRequest'', ''VirtualMachineTemplateRequestList'']
      else if gv \<in> {subresourcesV1beta1, subresourcesV1alpha1}
      then [''VirtualMachineTemplate'', ''ProcessOptions'', ''ProcessedVirtualMachineTemplate'']
      else [])"

definition intended :: "(GroupVersionKind \<rightharpoonup> GoType) \<Rightarrow> GroupVersionKind \<rightharpoonup> GoType" where
  "intended lib gvk =
     (if gvk_Kind gvk = WatchEventKind
      then Some (meta_type (if gvk_Version gvk = APIVersionInternal then ''InternalEvent'' else ''WatchEvent''))
      else if gvk_Kind gvk \<in> set option_kinds \<or> gvk_GroupVersion gvk = Unversioned \<and> gvk_Kind gvk \<in> set unversioned_kinds
      then Some (meta_type (gvk_Kind gvk))
      else if gvk_Kind gvk \<in> set (api_kinds (gvk_GroupVersion gvk)) then Some (api_type (gvk_GroupVersion gvk) (gvk_Kind gvk))
      else lib gvk)"

definition api_types :: "GoType set" where
  "api_types = {t. HasPrefix (ty_Package t) ''kubevirt.io/virt-template-api/''}"

text \<open>The name of a Go type has no dot, and the path of its package does not go through a vendor directory.\<close>

definition plain_type :: "GoType \<Rightarrow> bool" where
  "plain_type t \<longleftrightarrow> \<not> strings_Contains (ty_Package t) ''/vendor/'' \<and> CHR ''.'' \<notin> set (ty_Name t)"

text \<open>
  A kind has its intended type, and the types of the API are registered for no other kinds; the two maps are inverse to each other, and finite.
  The kinds of the libraries have types of the libraries.
\<close>

definition registrable :: "(GroupVersionKind \<rightharpoonup> GoType) \<Rightarrow> GroupVersionKind \<Rightarrow> GoType \<Rightarrow> bool" where
  "registrable lib gvk t \<longleftrightarrow> (case intended lib gvk of Some t' \<Rightarrow> t = t' | None \<Rightarrow> t \<notin> api_types)"

definition library_kinds :: "(GroupVersionKind \<rightharpoonup> GoType) \<Rightarrow> bool" where
  "library_kinds lib \<longleftrightarrow> (\<forall>gvk t. lib gvk = Some t \<longrightarrow> t \<notin> api_types \<and> plain_type t)"

definition scheme_ok :: "(GroupVersionKind \<rightharpoonup> GoType) \<Rightarrow> Scheme \<Rightarrow> bool" where
  "scheme_ok lib s \<longleftrightarrow> library_kinds lib \<and>
     (\<forall>gvk t. sm_gvkToType s gvk = Some t \<longleftrightarrow> gvk \<in> set (sm_typeToGVK s t)) \<and>
     (\<forall>t. distinct (sm_typeToGVK s t)) \<and>
     (\<forall>gvk t. sm_gvkToType s gvk = Some t \<longrightarrow> registrable lib gvk t \<and> plain_type t) \<and> finite (dom (sm_gvkToType s)) \<and>
     (\<forall>k t. k \<in> set unversioned_kinds \<longrightarrow> sm_unversionedKinds s k = Some t \<longrightarrow> t = meta_type k)"

definition extends :: "Scheme \<Rightarrow> Scheme \<Rightarrow> bool" where
  "extends s s' \<longleftrightarrow> sm_gvkToType s \<subseteq>\<^sub>m sm_gvkToType s'"

text \<open>
  What a function that registers types promises: it does not panic on a scheme in which no kind has another type than the program gives it, and it
  keeps the scheme like that.  A library that registers its own kinds promises it for every map \<open>lib\<close> that has these kinds.
\<close>

locale registration =
  fixes lib :: "GroupVersionKind \<rightharpoonup> GoType" and add :: "Scheme \<Rightarrow> Scheme option"
  assumes registers: "scheme_ok lib s \<Longrightarrow> \<exists>s'. add s = Some s' \<and> scheme_ok lib s' \<and> extends s s'"
begin

lemma then_registers:
  assumes "registration lib add2"
  shows "registration lib (\<lambda>s. Option.bind (add s) add2)"
proof
  fix s assume "scheme_ok lib s"
  then obtain s1 where 1: "add s = Some s1" "scheme_ok lib s1" "extends s s1" using registers by blast
  obtain s2 where "add2 s1 = Some s2" "scheme_ok lib s2" "extends s1 s2" using registration.registers [OF assms 1(2)] by blast
  with 1 show "\<exists>s'. Option.bind (add s) add2 = Some s' \<and> scheme_ok lib s' \<and> extends s s'"
    by (auto simp: extends_def intro: map_le_trans)
qed

end

lemma scheme_ok_observed [simp]: "scheme_ok lib (addObservedVersion gv s) = scheme_ok lib s" "sm_gvkToType (addObservedVersion gv s) = sm_gvkToType s"
  by (simp_all add: scheme_ok_def addObservedVersion_def)

lemma scheme_okD:
  assumes "scheme_ok lib s"
  shows "sm_gvkToType s gvk = Some t \<longleftrightarrow> gvk \<in> set (sm_typeToGVK s t)" "distinct (sm_typeToGVK s t)"
    "sm_gvkToType s gvk = Some t \<Longrightarrow> registrable lib gvk t"
    "k \<in> set unversioned_kinds \<Longrightarrow> sm_unversionedKinds s k = Some t \<Longrightarrow> t = meta_type k"
    "sm_gvkToType s gvk = Some t \<Longrightarrow> plain_type t" "finite (dom (sm_gvkToType s))"
    "library_kinds lib"
  using assms unfolding scheme_ok_def by blast+

lemma AddKnownTypeWithName_cases:
  assumes "AddKnownTypeWithName gvk t s0 = Some s'"
  shows "sm_gvkToType s' = (sm_gvkToType s0)(gvk \<mapsto> t)" "extends s0 s'"
    "sm_typeToGVK s' = (if gvk \<in> set (sm_typeToGVK s0 t) then sm_typeToGVK s0 else (sm_typeToGVK s0)(t := sm_typeToGVK s0 t @ [gvk]))"
    "sm_unversionedKinds s' = sm_unversionedKinds s0"
  using assms by (auto simp: AddKnownTypeWithName_def addObservedVersion_def Let_def extends_def map_le_def split: if_splits option.splits)

lemma meta_plain: "k \<in> set (''WatchEvent'' # ''InternalEvent'' # option_kinds @ unversioned_kinds) \<Longrightarrow> plain_type (meta_type k)"
proof -
  have "list_all (\<lambda>k. plain_type (meta_type k)) (''WatchEvent'' # ''InternalEvent'' # option_kinds @ unversioned_kinds)" by code_simp
  then show "k \<in> set (''WatchEvent'' # ''InternalEvent'' # option_kinds @ unversioned_kinds) \<Longrightarrow> plain_type (meta_type k)"
    unfolding list_all_iff by blast
qed

lemma api_plain: "k \<in> set (api_kinds gv) \<Longrightarrow> plain_type (api_type gv k)"
proof -
  have "list_all (\<lambda>gv. list_all (\<lambda>k. plain_type (api_type gv k)) (api_kinds gv)) [coreV1beta1, coreV1alpha1, subresourcesV1beta1, subresourcesV1alpha1]"
    by code_simp
  moreover assume "k \<in> set (api_kinds gv)"
  moreover from this have "gv \<in> set [coreV1beta1, coreV1alpha1, subresourcesV1beta1, subresourcesV1alpha1]"
    by (auto simp: api_kinds_def split: if_splits)
  ultimately show "plain_type (api_type gv k)" unfolding list_all_iff by blast
qed

lemma intended_plain: "library_kinds lib \<Longrightarrow> intended lib gvk = Some t \<Longrightarrow> plain_type t"
  using api_plain [of "gvk_Kind gvk"] meta_plain by (auto simp: intended_def library_kinds_def split: if_splits)

lemma add_known_registers:
  assumes "intended lib gvk = Some t" "gvk_Version gvk \<noteq> []"
  shows "registration lib (AddKnownTypeWithName gvk t)"
proof
  fix s assume ok: "scheme_ok lib s"
  have "sm_gvkToType s gvk = Some t' \<Longrightarrow> t' = t" for t'
    using scheme_okD(3) [OF ok, of gvk t'] assms(1) by (simp add: registrable_def)
  then have "\<not> (case sm_gvkToType s gvk of Some oldT \<Rightarrow> oldT \<noteq> t | None \<Rightarrow> False)" by (auto split: option.split)
  then have "AddKnownTypeWithName gvk t s \<noteq> None"
    using assms(2) by (simp add: AddKnownTypeWithName_def Let_def)
  then obtain s' where s': "AddKnownTypeWithName gvk t s = Some s'" by blast
  note f = AddKnownTypeWithName_cases [OF s']
  note d = scheme_okD [OF ok]
  have "sm_gvkToType s gvk = Some t' \<Longrightarrow> t' = t" for t' using d(3) [of gvk t'] assms(1) by (simp add: registrable_def)
  then have old: "gvk \<in> set (sm_typeToGVK s u) \<Longrightarrow> u = t" for u using d(1) [of gvk u] by simp
  have "sm_gvkToType s' g = Some u \<longleftrightarrow> g \<in> set (sm_typeToGVK s' u)" for g u
  proof (cases "g = gvk")
    case True
    have "gvk \<in> set (sm_typeToGVK s' u) \<longleftrightarrow> t = u" unfolding f(3) by (cases "t = u") (auto dest: old)
    then show ?thesis using True unfolding f(1) by simp
  next
    case False
    have "g \<in> set (sm_typeToGVK s' u) \<longleftrightarrow> g \<in> set (sm_typeToGVK s u)" using False unfolding f(3) by (simp split: if_split)
    then show ?thesis using False d(1) [of g u] unfolding f(1) by simp
  qed
  moreover have "distinct (sm_typeToGVK s' u)" for u
    using d(2) [of u] d(2) [of t] unfolding f by simp
  moreover have "sm_gvkToType s' g = Some u \<Longrightarrow> registrable lib g u" for g u
    using d(3) [of g u] assms(1) unfolding f by (simp add: registrable_def split: if_splits)
  moreover have "sm_gvkToType s' g = Some u \<Longrightarrow> plain_type u" for g u
    using d(5) [of g u] intended_plain [OF d(7) assms(1)] unfolding f by (simp split: if_splits)
  moreover have "finite (dom (sm_gvkToType s'))" using d(6) unfolding f by simp
  moreover have "k \<in> set unversioned_kinds \<Longrightarrow> sm_unversionedKinds s' k = Some u \<Longrightarrow> u = meta_type k" for k u
    using d(4) unfolding f .
  ultimately show "\<exists>s'. AddKnownTypeWithName gvk t s = Some s' \<and> scheme_ok lib s' \<and> extends s s'"
    using s' f(2) d(7) unfolding scheme_ok_def by blast
qed

lemma registration_id: "registration lib Some"
  by unfold_locales (simp add: extends_def)

lemma add_known_types_registers:
  assumes "\<forall>t \<in> set ts. intended lib (WithKind gv (ty_Name t)) = Some t" "gv_Version gv \<noteq> []"
  shows "registration lib (add_known_types gv ts)"
  using assms(1)
proof (induction ts)
  case Nil
  show ?case using registration_id by (simp add: registration_def)
next
  case (Cons t ts)
  have "registration lib (\<lambda>s. Option.bind (AddKnownTypeWithName (WithKind gv (ty_Name t)) t s) (add_known_types gv ts))"
    by (rule registration.then_registers [OF add_known_registers]) (use Cons assms(2) in \<open>simp_all add: WithKind_def\<close>)
  then show ?case by (simp add: registration_def)
qed

lemma observed_registers: "registration lib f \<Longrightarrow> registration lib (\<lambda>s. f (addObservedVersion gv s))"
  unfolding registration_def by (metis extends_def scheme_ok_observed)

lemma AddKnownTypes_registers:
  assumes "\<forall>t \<in> set ts. intended lib (WithKind gv (ty_Name t)) = Some t" "gv_Version gv \<noteq> []"
  shows "registration lib (AddKnownTypes gv ts)"
  using observed_registers [OF add_known_types_registers [OF assms], of gv] by (simp add: AddKnownTypes_def [abs_def])

lemma mark_unversioned_registers:
  assumes "set ts \<subseteq> meta_type ` set unversioned_kinds"
  shows "registration lib (mark_unversioned gv ts)"
  using assms
proof (induction ts)
  case Nil
  show ?case using registration_id by (simp add: registration_def)
next
  case (Cons t ts)
  then obtain k where k: "t = meta_type k" "k \<in> set unversioned_kinds" by auto
  have kind: "ty_Name t = k" "gvk_Kind (WithKind gv k) = k" by (simp_all add: k meta_type_def WithKind_def)
  have rest: "registration lib (mark_unversioned gv ts)" using Cons by simp
  show ?case
  proof
    fix s assume ok: "scheme_ok lib s"
    define s1 where "s1 = s\<lparr>sm_unversionedTypes := (sm_unversionedTypes s)(t \<mapsto> WithKind gv k),
      sm_unversionedKinds := (sm_unversionedKinds s)(k \<mapsto> t)\<rparr>"
    have "sm_unversionedKinds s k = Some old \<Longrightarrow> old = t" for old using ok k by (auto simp: scheme_ok_def)
    then have "mark_unversioned gv (t # ts) s = mark_unversioned gv ts s1"
      by (auto simp: s1_def kind Let_def split: option.split)
    moreover have "scheme_ok lib s1" using ok k by (simp add: s1_def scheme_ok_def)
    moreover have "extends s s1" by (simp add: s1_def extends_def)
    ultimately show "\<exists>s'. mark_unversioned gv (t # ts) s = Some s' \<and> scheme_ok lib s' \<and> extends s s'"
      using registration.registers [OF rest, of s1] by (auto simp: extends_def intro: map_le_trans)
  qed
qed

lemma WithKind_simps [simp]:
  "gvk_Group (WithKind gv k) = gv_Group gv" "gvk_Version (WithKind gv k) = gv_Version gv" "gvk_Kind (WithKind gv k) = k"
  "gvk_GroupVersion (WithKind gv k) = gv" "WithKind gv k = WithKind gv' k' \<longleftrightarrow> gv = gv' \<and> k = k'"
  by (auto simp: WithKind_def gvk_GroupVersion_def)

lemma type_simps [simp]: "ty_Name (meta_type k) = k" "ty_Name (api_type gv k) = k"
  by (simp_all add: meta_type_def api_type_def)

lemma intended_meta:
  "intended lib (WithKind gv WatchEventKind) = Some (meta_type (if gv_Version gv = APIVersionInternal then ''InternalEvent'' else ''WatchEvent''))"
  "k \<in> set option_kinds \<Longrightarrow> intended lib (WithKind gv k) = Some (meta_type k)"
  "k \<in> set unversioned_kinds \<Longrightarrow> intended lib (WithKind Unversioned k) = Some (meta_type k)"
  by (auto simp: intended_def option_kinds_def unversioned_kinds_def WatchEventKind_def)

lemma AddToGroupVersion_registers:
  assumes "gv_Version gv \<noteq> []" "gv_Version gv \<noteq> APIVersionInternal"
  shows "registration lib (AddToGroupVersion gv)"
  unfolding AddToGroupVersion_def [abs_def] AddUnversionedTypes_def [abs_def]
  by (intro registration.then_registers add_known_registers AddKnownTypes_registers observed_registers mark_unversioned_registers)
     (use assms in \<open>auto simp: intended_meta APIVersionInternal_def Unversioned_def [THEN arg_cong, of gv_Version]\<close>)

lemma run_builder_registers: "\<forall>f \<in> set fs. registration lib f \<Longrightarrow> registration lib (run_builder fs)"
proof (induction fs)
  case Nil
  show ?case using registration_id by (simp add: registration_def)
next
  case (Cons f fs)
  then have "registration lib (\<lambda>s. Option.bind (f s) (run_builder fs))" by (intro registration.then_registers) simp_all
  then show ?case by (simp add: registration_def)
qed

lemma api_versions: "gv \<in> {coreV1beta1, coreV1alpha1, subresourcesV1beta1, subresourcesV1alpha1} \<Longrightarrow>
  gv_Version gv \<noteq> [] \<and> gv_Version gv \<noteq> APIVersionInternal"
  by (auto simp: coreV1beta1_def coreV1alpha1_def subresourcesV1beta1_def subresourcesV1alpha1_def APIVersionInternal_def)

lemma intended_api:
  "k \<in> set (api_kinds gv) \<Longrightarrow> intended lib (WithKind gv k) = Some (api_type gv k)"
  by (auto simp: intended_def api_kinds_def option_kinds_def WatchEventKind_def unversioned_kinds_def split: if_splits)

definition api_builders :: "Builder set" where
  "api_builders = {SchemeBuilder_v1beta1, SchemeBuilder_v1alpha1, SchemeBuilder_subresourcesv1beta1, SchemeBuilder_subresourcesv1alpha1}"

lemma groups_differ: "GroupName \<noteq> SubresourceGroupName" "SubresourceGroupName \<noteq> GroupName"
  by (simp_all add: GroupName_def SubresourceGroupName_def)

lemma api_builder:
  assumes "bld \<in> api_builders"
  shows "bl_GroupVersion bld \<in> {coreV1beta1, coreV1alpha1, subresourcesV1beta1, subresourcesV1alpha1}"
    "set (concat (bl_funcs bld)) = api_type (bl_GroupVersion bld) ` set (api_kinds (bl_GroupVersion bld))"
  using assms by (auto simp: api_builders_def Register_def init_defs SchemeBuilder_v1beta1_def SchemeBuilder_v1alpha1_def
      SchemeBuilder_subresourcesv1beta1_def SchemeBuilder_subresourcesv1alpha1_def api_kinds_def
      coreV1beta1_def coreV1alpha1_def subresourcesV1beta1_def subresourcesV1alpha1_def groups_differ)

text \<open>The registrations of the packages keep the promise.\<close>

lemma AddToScheme_registers:
  assumes "bld \<in> api_builders"
  shows "registration lib (AddToScheme bld)"
proof -
  let ?gv = "bl_GroupVersion bld"
  note gv = api_versions [OF api_builder(1) [OF assms]]
  have "registration lib (call_registered ?gv ts)" if "ts \<in> set (bl_funcs bld)" for ts
  proof -
    have "set ts \<subseteq> api_type ?gv ` set (api_kinds ?gv)" using that api_builder(2) [OF assms] by auto
    then have "\<forall>t \<in> set ts. intended lib (WithKind ?gv (ty_Name t)) = Some t" by (auto simp: intended_api)
    then show ?thesis unfolding call_registered_def [abs_def]
      by (intro registration.then_registers AddKnownTypes_registers AddToGroupVersion_registers) (use gv in auto)
  qed
  then show ?thesis unfolding AddToScheme_def by (intro run_builder_registers) auto
qed

interpretation v1beta1: registration lib "AddToScheme SchemeBuilder_v1beta1" for lib
  by (rule AddToScheme_registers) (simp add: api_builders_def)

interpretation v1alpha1: registration lib "AddToScheme SchemeBuilder_v1alpha1" for lib
  by (rule AddToScheme_registers) (simp add: api_builders_def)

interpretation subresourcesv1beta1: registration lib "AddToScheme SchemeBuilder_subresourcesv1beta1" for lib
  by (rule AddToScheme_registers) (simp add: api_builders_def)

interpretation subresourcesv1alpha1: registration lib "AddToScheme SchemeBuilder_subresourcesv1alpha1" for lib
  by (rule AddToScheme_registers) (simp add: api_builders_def)

text \<open>What they have registered, at the end.\<close>

lemma extends_trans: "extends s s' \<Longrightarrow> extends s' s'' \<Longrightarrow> extends s s''"
  by (auto simp: extends_def intro: map_le_trans)

lemma extends_known: "extends s s' \<Longrightarrow> sm_gvkToType s gvk = Some t \<Longrightarrow> sm_gvkToType s' gvk = Some t"
  by (force simp: extends_def map_le_def)

lemma add_known_types_known:
  "add_known_types gv ts s = Some s' \<Longrightarrow> extends s s' \<and> (\<forall>t \<in> set ts. sm_gvkToType s' (WithKind gv (ty_Name t)) = Some t)"
proof (induction ts arbitrary: s)
  case Nil
  then show ?case by (simp add: extends_def)
next
  case (Cons t ts)
  then obtain s1 where s1: "AddKnownTypeWithName (WithKind gv (ty_Name t)) t s = Some s1" "add_known_types gv ts s1 = Some s'"
    by (auto split: bind_splits)
  from Cons.IH [OF s1(2)] AddKnownTypeWithName_cases(1,2) [OF s1(1)] show ?case
    by (auto intro: extends_trans extends_known)
qed

lemma call_registered_known:
  assumes "call_registered gv ts s = Some s'" "scheme_ok lib s" "gv_Version gv \<noteq> []" "gv_Version gv \<noteq> APIVersionInternal"
    "\<forall>t \<in> set ts. intended lib (WithKind gv (ty_Name t)) = Some t"
  shows "scheme_ok lib s' \<and> extends s s' \<and> (\<forall>t \<in> set ts. sm_gvkToType s' (WithKind gv (ty_Name t)) = Some t)"
proof -
  obtain s1 where s1: "AddKnownTypes gv ts s = Some s1" "AddToGroupVersion gv s1 = Some s'"
    using assms(1) by (auto simp: call_registered_def split: bind_splits)
  have ok: "scheme_ok lib s1" using registration.registers [OF AddKnownTypes_registers [OF assms(5,3)] assms(2)] s1(1) by auto
  have "scheme_ok lib s' \<and> extends s1 s'" using registration.registers [OF AddToGroupVersion_registers [OF assms(3,4)] ok] s1(2) by auto
  moreover have "extends s s1 \<and> (\<forall>t \<in> set ts. sm_gvkToType s1 (WithKind gv (ty_Name t)) = Some t)"
    using add_known_types_known s1(1) by (fastforce simp: AddKnownTypes_def extends_def)
  ultimately show ?thesis by (blast intro: extends_trans extends_known)
qed

lemma run_builder_known:
  assumes "run_builder (map (call_registered gv) tss) s = Some s'" "scheme_ok lib s" "gv_Version gv \<noteq> []" "gv_Version gv \<noteq> APIVersionInternal"
    "\<forall>t \<in> set (concat tss). intended lib (WithKind gv (ty_Name t)) = Some t"
  shows "scheme_ok lib s' \<and> extends s s' \<and> (\<forall>t \<in> set (concat tss). sm_gvkToType s' (WithKind gv (ty_Name t)) = Some t)"
  using assms
proof (induction tss arbitrary: s)
  case Nil
  then show ?case by (simp add: extends_def)
next
  case (Cons ts tss)
  then obtain s1 where s1: "call_registered gv ts s = Some s1" "run_builder (map (call_registered gv) tss) s1 = Some s'"
    by (auto split: bind_splits)
  have 1: "scheme_ok lib s1 \<and> extends s s1 \<and> (\<forall>t \<in> set ts. sm_gvkToType s1 (WithKind gv (ty_Name t)) = Some t)"
    by (rule call_registered_known [OF s1(1)]) (use Cons.prems in auto)
  have "scheme_ok lib s' \<and> extends s1 s' \<and> (\<forall>t \<in> set (concat tss). sm_gvkToType s' (WithKind gv (ty_Name t)) = Some t)"
    by (rule Cons.IH [OF s1(2)]) (use 1 Cons.prems in auto)
  with 1 show ?case by (auto intro: extends_trans extends_known)
qed

lemma AddToScheme_known:
  assumes "bld \<in> api_builders" "AddToScheme bld s = Some s'" "scheme_ok lib s" "k \<in> set (api_kinds (bl_GroupVersion bld))"
  shows "sm_gvkToType s' (WithKind (bl_GroupVersion bld) k) = Some (api_type (bl_GroupVersion bld) k)"
proof -
  note gv = api_versions [OF api_builder(1) [OF assms(1)]] and ts = api_builder(2) [OF assms(1)]
  have "\<forall>t \<in> set (concat (bl_funcs bld)). intended lib (WithKind (bl_GroupVersion bld) (ty_Name t)) = Some t"
    unfolding ts by (auto simp: intended_api)
  from run_builder_known [OF assms(2) [unfolded AddToScheme_def] assms(3) _ _ this] gv
  have known: "\<forall>t \<in> api_type (bl_GroupVersion bld) ` set (api_kinds (bl_GroupVersion bld)).
      sm_gvkToType s' (WithKind (bl_GroupVersion bld) (ty_Name t)) = Some t"
    unfolding ts by blast
  from known [rule_format, OF imageI [OF assms(4)]] show ?thesis by simp
qed

text \<open>In a well-formed scheme, a registered type of the API has one kind.\<close>

lemma api_type_inject:
  "gv \<in> {coreV1beta1, coreV1alpha1, subresourcesV1beta1, subresourcesV1alpha1} \<Longrightarrow>
   gv' \<in> {coreV1beta1, coreV1alpha1, subresourcesV1beta1, subresourcesV1alpha1} \<Longrightarrow> api_type gv k = api_type gv' k' \<longleftrightarrow> gv = gv' \<and> k = k'"
  by (auto simp: api_type_def api_package_def coreV1beta1_def coreV1alpha1_def subresourcesV1beta1_def subresourcesV1alpha1_def groups_differ)

lemma api_type_kinds:
  assumes "scheme_ok lib s" "k \<in> set (api_kinds gv)"
  shows "set (sm_typeToGVK s (api_type gv k)) \<subseteq> {WithKind gv k}"
proof
  fix g assume in_kinds: "g \<in> set (sm_typeToGVK s (api_type gv k))"
  have gv: "gv \<in> {coreV1beta1, coreV1alpha1, subresourcesV1beta1, subresourcesV1alpha1}" using assms(2) by (auto simp: api_kinds_def split: if_splits)
  have api: "api_type gv k \<in> api_types" by (simp add: api_types_def api_type_def api_package_def)
  have "registrable lib g (api_type gv k)" using in_kinds scheme_okD(1,3) [OF assms(1)] by blast
  then have "intended lib g = Some (api_type gv k)" using api by (simp add: registrable_def split: option.splits)
  moreover have "meta_type m \<noteq> api_type gv k" for m by (simp add: meta_type_def api_type_def api_package_def)
  moreover have "lib g \<noteq> Some (api_type gv k)" using scheme_okD(7) [OF assms(1)] api by (auto simp: library_kinds_def)
  ultimately have g: "gvk_Kind g \<in> set (api_kinds (gvk_GroupVersion g))" "api_type (gvk_GroupVersion g) (gvk_Kind g) = api_type gv k"
    by (simp_all add: intended_def split: if_splits)
  have "gvk_GroupVersion g \<in> {coreV1beta1, coreV1alpha1, subresourcesV1beta1, subresourcesV1alpha1}"
    using g(1) by (auto simp: api_kinds_def split: if_splits)
  with g(2) have "gvk_Kind g = k \<and> gvk_GroupVersion g = gv" using api_type_inject [OF _ gv] by blast
  then show "g \<in> {WithKind gv k}" by (auto simp: WithKind_def gvk_GroupVersion_def)
qed

lemma ObjectKinds_api:
  assumes "scheme_ok lib s" "k \<in> set (api_kinds gv)"
  shows "ObjectKinds s (api_type gv k) = (if sm_gvkToType s (WithKind gv k) = Some (api_type gv k) then Some [WithKind gv k] else None)"
proof -
  have iff: "WithKind gv k \<in> set (sm_typeToGVK s (api_type gv k)) \<longleftrightarrow> sm_gvkToType s (WithKind gv k) = Some (api_type gv k)"
    using scheme_okD(1) [OF assms(1)] by blast
  have "length (sm_typeToGVK s (api_type gv k)) \<le> card {WithKind gv k}"
    using card_mono [OF _ api_type_kinds [OF assms]] distinct_card [OF scheme_okD(2) [OF assms(1)]] by simp
  then show ?thesis using api_type_kinds [OF assms] iff
    by (cases "sm_typeToGVK s (api_type gv k)") (auto simp: ObjectKinds_def)
qed

section \<open>Properties\<close>

lemma NewScheme_ok: "library_kinds lib \<Longrightarrow> scheme_ok lib NewScheme"
  by (simp add: scheme_ok_def NewScheme_def)

lemma builder_versions [simp]:
  "bl_GroupVersion SchemeBuilder_v1beta1 = coreV1beta1" "bl_GroupVersion SchemeBuilder_v1alpha1 = coreV1alpha1"
  "bl_GroupVersion SchemeBuilder_subresourcesv1beta1 = subresourcesV1beta1"
  "bl_GroupVersion SchemeBuilder_subresourcesv1alpha1 = subresourcesV1alpha1"
  by (simp_all add: Register_def init_defs SchemeBuilder_v1beta1_def SchemeBuilder_v1alpha1_def
      SchemeBuilder_subresourcesv1beta1_def SchemeBuilder_subresourcesv1alpha1_def)

definition knows :: "Scheme \<Rightarrow> GroupVersion \<Rightarrow> bool" where
  "knows s gv \<longleftrightarrow> (\<forall>k \<in> set (api_kinds gv). sm_gvkToType s (WithKind gv k) = Some (api_type gv k))"

lemma knows_extends: "knows s gv \<Longrightarrow> extends s s' \<Longrightarrow> knows s' gv"
  by (auto simp: knows_def intro: extends_known)

lemma AddToScheme_step:
  assumes "scheme_ok lib s" "bld \<in> api_builders"
  obtains s' where "AddToScheme bld s = Some s'" "scheme_ok lib s'" "extends s s'" "knows s' (bl_GroupVersion bld)"
  using registration.registers [OF AddToScheme_registers [OF assms(2)] assms(1)] AddToScheme_known [OF assms(2) _ assms(1)]
  unfolding knows_def by blast

lemma scheme_New_built:
  assumes "library_kinds lib" "registration lib clientgo" "registration lib virtclientgo" "registration lib cdiv1beta1"
  shows "\<exists>s. scheme_New clientgo virtclientgo cdiv1beta1 = Some s \<and> scheme_ok lib s \<and> (\<forall>gv. knows s gv)"
proof -
  obtain s1 where 1: "clientgo NewScheme = Some s1" "scheme_ok lib s1" using registration.registers [OF assms(2) NewScheme_ok [OF assms(1)]] by blast
  obtain s2 where 2: "virtclientgo s1 = Some s2" "scheme_ok lib s2" using registration.registers [OF assms(3) 1(2)] by blast
  obtain s3 where 3: "cdiv1beta1 s2 = Some s3" "scheme_ok lib s3" using registration.registers [OF assms(4) 2(2)] by blast
  note builders = api_builders_def insert_iff builder_versions
  obtain s4 where 4: "AddToScheme SchemeBuilder_subresourcesv1alpha1 s3 = Some s4" "scheme_ok lib s4" "knows s4 subresourcesV1alpha1"
    by (rule AddToScheme_step [OF 3(2), of SchemeBuilder_subresourcesv1alpha1]) (simp_all add: builders)
  obtain s5 where 5: "AddToScheme SchemeBuilder_subresourcesv1beta1 s4 = Some s5" "scheme_ok lib s5" "extends s4 s5" "knows s5 subresourcesV1beta1"
    by (rule AddToScheme_step [OF 4(2), of SchemeBuilder_subresourcesv1beta1]) (simp_all add: builders)
  obtain s6 where 6: "AddToScheme SchemeBuilder_v1alpha1 s5 = Some s6" "scheme_ok lib s6" "extends s5 s6" "knows s6 coreV1alpha1"
    by (rule AddToScheme_step [OF 5(2), of SchemeBuilder_v1alpha1]) (simp_all add: builders)
  obtain s7 where 7: "AddToScheme SchemeBuilder_v1beta1 s6 = Some s7" "scheme_ok lib s7" "extends s6 s7" "knows s7 coreV1beta1"
    by (rule AddToScheme_step [OF 6(2), of SchemeBuilder_v1beta1]) (simp_all add: builders)
  have "knows s7 gv" if "gv \<in> {coreV1beta1, coreV1alpha1, subresourcesV1beta1, subresourcesV1alpha1}" for gv
    using that 4(3) 5(3,4) 6(3,4) 7(3,4) by (auto intro: knows_extends extends_trans)
  moreover have "gv \<in> {coreV1beta1, coreV1alpha1, subresourcesV1beta1, subresourcesV1alpha1}" if "k \<in> set (api_kinds gv)" for gv k
    using that by (auto simp: api_kinds_def split: if_splits)
  ultimately have "knows s7 gv" for gv unfolding knows_def by blast
  moreover have "scheme_New clientgo virtclientgo cdiv1beta1 = Some s7"
    by (simp add: scheme_New_def 1(1) 2(1) 3(1) 4(1) 5(1) 6(1) 7(1))
  ultimately show ?thesis using 7(2) by blast
qed

lemma scheme_New_kinds:
  assumes "library_kinds lib" "registration lib clientgo" "registration lib virtclientgo" "registration lib cdiv1beta1"
  shows "\<exists>s. scheme_New clientgo virtclientgo cdiv1beta1 = Some s \<and>
    (\<forall>gv. \<forall>k \<in> set (api_kinds gv). ObjectKinds s (api_type gv k) = Some [WithKind gv k] \<and>
      sm_gvkToType s (WithKind gv k) = Some (api_type gv k))"
proof -
  obtain s where "scheme_New clientgo virtclientgo cdiv1beta1 = Some s" "scheme_ok lib s" "\<forall>gv. knows s gv"
    using scheme_New_built [OF assms] by blast
  then show ?thesis using ObjectKinds_api [of lib s] by (auto simp: knows_def)
qed

text \<open>
  C19.  The scheme of the programs is built without a panic, and it gives every Go type of the API its one kind, and every
  kind of the API its Go type, in all four group versions.  The map \<open>lib\<close> holds the kinds that client-go, KubeVirt and CDI
  register, with their Go types, none of which is a type of the API.  Of each of the three functions is assumed that it does
  not panic on a scheme in which every kind that the program, \<^verbatim>\<open>metav1\<close> or \<open>lib\<close> knows has the type that they give it, that it
  keeps the scheme like that, and that it takes nothing out of it.
\<close>

theorem scheme_knows_api:
  assumes "library_kinds lib" "registration lib clientgo" "registration lib virtclientgo" "registration lib cdiv1beta1"
  shows "\<exists>s. scheme_New clientgo virtclientgo cdiv1beta1 = Some s \<and>
    (\<forall>gv. \<forall>k \<in> set (api_kinds gv). ObjectKinds s (api_type gv k) = Some [WithKind gv k] \<and>
      sm_gvkToType s (WithKind gv k) = Some (api_type gv k))"
  using assms by (rule scheme_New_kinds)

text \<open>Libraries for examples, which register a type of client-go, of KubeVirt and of CDI for its kind, and the types of \<^verbatim>\<open>metav1\<close> for its group.\<close>

definition kubevirtV1 :: GroupVersion where "kubevirtV1 = \<lparr>gv_Group = ''kubevirt.io'', gv_Version = ''v1''\<rparr>"
definition cdiV1beta1 :: GroupVersion where "cdiV1beta1 = \<lparr>gv_Group = ''cdi.kubevirt.io'', gv_Version = ''v1beta1''\<rparr>"
definition pod_type :: GoType where "pod_type = \<lparr>ty_Package = ''k8s.io/api/core/v1'', ty_Name = ''Pod''\<rparr>"
definition vm_type :: GoType where "vm_type = \<lparr>ty_Package = ''kubevirt.io/api/core/v1'', ty_Name = ''VirtualMachine''\<rparr>"
definition dv_type :: GoType where
  "dv_type = \<lparr>ty_Package = ''kubevirt.io/containerized-data-importer-api/pkg/apis/core/v1beta1'', ty_Name = ''DataVolume''\<rparr>"

definition example_kinds :: "GroupVersionKind \<rightharpoonup> GoType" where
  "example_kinds = [WithKind Unversioned ''Pod'' \<mapsto> pod_type, WithKind kubevirtV1 ''VirtualMachine'' \<mapsto> vm_type, WithKind cdiV1beta1 ''DataVolume'' \<mapsto> dv_type]"

definition example_clientgo :: "Scheme \<Rightarrow> Scheme option" where "example_clientgo = call_registered Unversioned [pod_type]"
definition example_virtclientgo :: "Scheme \<Rightarrow> Scheme option" where "example_virtclientgo = call_registered kubevirtV1 [vm_type]"
definition example_cdi :: "Scheme \<Rightarrow> Scheme option" where "example_cdi = call_registered cdiV1beta1 [dv_type]"

lemma example_types:
  "pod_type \<notin> api_types \<and> plain_type pod_type" "vm_type \<notin> api_types \<and> plain_type vm_type" "dv_type \<notin> api_types \<and> plain_type dv_type"
  unfolding api_types_def mem_Collect_eq by code_simp+

lemma example_library_kinds: "library_kinds example_kinds"
  using example_types by (auto simp: library_kinds_def example_kinds_def split: if_splits)

lemma library_registers:
  assumes "\<forall>t \<in> set ts. intended lib (WithKind gv (ty_Name t)) = Some t" "gv_Version gv \<noteq> []" "gv_Version gv \<noteq> APIVersionInternal"
  shows "registration lib (call_registered gv ts)"
  unfolding call_registered_def [abs_def]
  by (intro registration.then_registers AddKnownTypes_registers AddToGroupVersion_registers) (use assms in auto)

lemma example_registrations:
  "registration example_kinds example_clientgo" "registration example_kinds example_virtclientgo" "registration example_kinds example_cdi"
  unfolding example_clientgo_def example_virtclientgo_def example_cdi_def by (rule library_registers; code_simp)+

theorem scheme_knows_api_witness:
  "\<exists>s. scheme_New example_clientgo example_virtclientgo example_cdi = Some s \<and>
    ObjectKinds s (api_type subresourcesV1beta1 ''ProcessOptions'') = Some [WithKind subresourcesV1beta1 ''ProcessOptions'']"
proof -
  have "''ProcessOptions'' \<in> set (api_kinds subresourcesV1beta1)" by code_simp
  then show ?thesis using scheme_knows_api [OF example_library_kinds example_registrations] by auto
qed

section \<open>The scheme of the clients\<close>

text \<open>The clients know the types of templates and requests, but not those of the subresources.\<close>

definition leaves :: "GroupVersionKind \<Rightarrow> (Scheme \<Rightarrow> Scheme option) \<Rightarrow> bool" where
  "leaves gvk add \<longleftrightarrow> (\<forall>s s'. add s = Some s' \<longrightarrow> sm_gvkToType s' gvk = sm_gvkToType s gvk)"

lemma leaves_bind: "leaves gvk f \<Longrightarrow> leaves gvk g \<Longrightarrow> leaves gvk (\<lambda>s. Option.bind (f s) g)"
  by (auto simp: leaves_def split: bind_splits)

lemma leaves_observed: "leaves gvk f \<Longrightarrow> leaves gvk (\<lambda>s. f (addObservedVersion gv s))"
  unfolding leaves_def by (metis scheme_ok_observed(2))

lemma leaves_known: "gvk \<noteq> gvk' \<Longrightarrow> leaves gvk (AddKnownTypeWithName gvk' t)"
  by (auto simp: leaves_def dest: AddKnownTypeWithName_cases(1))

lemma leaves_run: "\<forall>f \<in> set fs. leaves gvk f \<Longrightarrow> leaves gvk (run_builder fs)"
proof (induction fs)
  case (Cons f fs)
  then have "leaves gvk (\<lambda>s. Option.bind (f s) (run_builder fs))" by (intro leaves_bind) simp_all
  then show ?case by (simp add: leaves_def)
qed (simp add: leaves_def)

lemma leaves_AddKnownTypes: "\<forall>t \<in> set ts. gvk \<noteq> WithKind gv (ty_Name t) \<Longrightarrow> leaves gvk (AddKnownTypes gv ts)"
proof -
  assume a: "\<forall>t \<in> set ts. gvk \<noteq> WithKind gv (ty_Name t)"
  have "add_known_types gv ts = run_builder (map (\<lambda>t. AddKnownTypeWithName (WithKind gv (ty_Name t)) t) ts)"
    by (rule ext) (induction ts; simp add: bind_eq_None_conv split: bind_split)
  then show ?thesis unfolding AddKnownTypes_def [abs_def]
    using a by (intro leaves_observed) (auto intro!: leaves_run leaves_known)
qed

lemma leaves_mark: "leaves gvk (mark_unversioned gv ts)"
proof -
  have "mark_unversioned gv ts s = Some s' \<Longrightarrow> sm_gvkToType s' gvk = sm_gvkToType s gvk" for s s'
    by (induction ts arbitrary: s) (auto simp: Let_def split: if_splits)
  then show ?thesis by (simp add: leaves_def)
qed

lemma leaves_AddToGroupVersion:
  assumes "gvk_Kind gvk \<notin> set (WatchEventKind # option_kinds @ unversioned_kinds)"
  shows "leaves gvk (AddToGroupVersion gv)"
  unfolding AddToGroupVersion_def [abs_def] AddUnversionedTypes_def [abs_def]
  using assms by (intro leaves_bind leaves_known leaves_AddKnownTypes leaves_observed leaves_mark) auto

text \<open>The libraries of the examples do register their kinds.\<close>

lemma call_registered_kind:
  assumes "call_registered gv [t] s = Some s'" "ty_Name t \<notin> set (WatchEventKind # option_kinds @ unversioned_kinds)"
  shows "sm_gvkToType s' (WithKind gv (ty_Name t)) = Some t"
proof -
  let ?gvk = "WithKind gv (ty_Name t)"
  from assms(1) obtain s1 where 1: "AddKnownTypeWithName ?gvk t (addObservedVersion gv s) = Some s1" "AddToGroupVersion gv s1 = Some s'"
    by (auto simp: call_registered_def AddKnownTypes_def split: bind_splits)
  have "leaves ?gvk (AddToGroupVersion gv)" using assms(2) by (intro leaves_AddToGroupVersion) simp
  with 1 AddKnownTypeWithName_cases(1) [OF 1(1)] show ?thesis by (simp add: leaves_def)
qed

lemma example_clientgo_Pod: "example_clientgo s = Some s' \<Longrightarrow> sm_gvkToType s' (WithKind Unversioned ''Pod'') = Some pod_type"
  using call_registered_kind [of Unversioned pod_type s s']
  by (simp add: example_clientgo_def pod_type_def WatchEventKind_def option_kinds_def unversioned_kinds_def)

lemma leaves_AddToScheme:
  assumes "bld \<in> api_builders" "gvk_Kind gvk \<notin> set (WatchEventKind # option_kinds @ unversioned_kinds)" "gvk_GroupVersion gvk \<noteq> bl_GroupVersion bld"
  shows "leaves gvk (AddToScheme bld)"
  unfolding AddToScheme_def call_registered_def [abs_def]
  using assms(3) by (intro leaves_run ballI) (auto intro!: leaves_bind leaves_AddKnownTypes leaves_AddToGroupVersion [OF assms(2)])

lemma client_scheme_kinds:
  obtains s where "client_scheme = Some s"
    "\<And>gv k. gv \<in> {coreV1beta1, coreV1alpha1} \<Longrightarrow> k \<in> set (api_kinds gv) \<Longrightarrow> ObjectKinds s (api_type gv k) = Some [WithKind gv k]"
    "\<And>gv k. gv \<in> {subresourcesV1beta1, subresourcesV1alpha1} \<Longrightarrow> k \<in> set (api_kinds gv) \<Longrightarrow> ObjectKinds s (api_type gv k) = None"
proof -
  let ?none = "Map.empty :: GroupVersionKind \<rightharpoonup> GoType"
  let ?v1 = "\<lparr>gv_Group = [], gv_Version = ''v1''\<rparr>"
  obtain s1 where 1: "AddToGroupVersion ?v1 NewScheme = Some s1" "scheme_ok ?none s1"
    using registration.registers [OF AddToGroupVersion_registers [of ?v1 ?none] NewScheme_ok [of ?none]]
    by (auto simp: APIVersionInternal_def library_kinds_def)
  note builders = api_builders_def insert_iff builder_versions
  obtain s2 where 2: "AddToScheme SchemeBuilder_v1alpha1 s1 = Some s2" "scheme_ok ?none s2" "knows s2 coreV1alpha1"
    by (rule AddToScheme_step [OF 1(2), of SchemeBuilder_v1alpha1]) (simp_all add: builders)
  obtain s3 where 3: "AddToScheme SchemeBuilder_v1beta1 s2 = Some s3" "scheme_ok ?none s3" "extends s2 s3" "knows s3 coreV1beta1"
    by (rule AddToScheme_step [OF 2(2), of SchemeBuilder_v1beta1]) (simp_all add: builders)
  have "client_scheme = Some s3" by (simp add: client_scheme_def localSchemeBuilder_def 1(1) 2(1) 3(1))
  moreover have "ObjectKinds s3 (api_type gv k) = Some [WithKind gv k]" if "gv \<in> {coreV1beta1, coreV1alpha1}" "k \<in> set (api_kinds gv)" for gv k
  proof -
    have "knows s3 gv" using that(1) 2(3) 3(3,4) by (auto intro: knows_extends)
    then show ?thesis using ObjectKinds_api [OF 3(2) that(2)] that(2) by (simp add: knows_def)
  qed
  moreover have "ObjectKinds s3 (api_type gv k) = None" if "gv \<in> {subresourcesV1beta1, subresourcesV1alpha1}" "k \<in> set (api_kinds gv)" for gv k
  proof -
    have k: "gvk_Kind (WithKind gv k) \<notin> set (WatchEventKind # option_kinds @ unversioned_kinds)"
      using that(2) by (auto simp: api_kinds_def WatchEventKind_def option_kinds_def unversioned_kinds_def split: if_splits)
    have gv: "gv \<noteq> coreV1beta1" "gv \<noteq> coreV1alpha1"
      using that(1) by (auto simp: coreV1beta1_def coreV1alpha1_def subresourcesV1beta1_def subresourcesV1alpha1_def groups_differ)
    have "leaves (WithKind gv k) (AddToScheme SchemeBuilder_v1beta1)" "leaves (WithKind gv k) (AddToScheme SchemeBuilder_v1alpha1)"
      using k gv by (auto simp: builders intro!: leaves_AddToScheme)
    then have "sm_gvkToType s3 (WithKind gv k) = sm_gvkToType NewScheme (WithKind gv k)"
      using leaves_AddToGroupVersion [OF k, of ?v1] 1(1) 2(1) 3(1) unfolding leaves_def by metis
    then show ?thesis using ObjectKinds_api [OF 3(2) that(2)] by (simp add: NewScheme_def)
  qed
  ultimately show thesis by (rule that)
qed

lemma fake_scheme_same: "fake_scheme = client_scheme"
  by (simp add: fake_scheme_def client_scheme_def fakeSchemeBuilder_def localSchemeBuilder_def)

end
