(* ===== verification/Rest_Client.thy ===== *)
theory Rest_Client
  imports Scheme Conversion
begin

text \<open>
  What the generated clients use of \<^verbatim>\<open>k8s.io/client-go/rest\<close>: the requests that their methods build, the paths
  of \<^verbatim>\<open>path.Join\<close>, the call, and the codec of the clients (\<^verbatim>\<open>WithVersionEncoder\<close>, \<^verbatim>\<open>WithoutVersionDecoder\<close> and the JSON serializer).

  The transport is a parameter: a request is answered with an error or with a status code and a body, in a
  world of any type; throttling and the retries of the library are part of it.  Bodies are JSON.  Next to an error the Go
  functions return what they have decoded so far; here an error comes alone.
\<close>

section \<open>Paths\<close>

fun split_path :: "string \<Rightarrow> string list" where
  "split_path [] = [[]]"
| "split_path (c # cs) =
     (if c = CHR ''/'' then [] # split_path cs
      else (case split_path cs of [] \<Rightarrow> [[c]] | w # ws \<Rightarrow> (c # w) # ws))"

text \<open>The elements that \<^verbatim>\<open>path.Clean\<close> keeps, with those that it has kept so far, the last one first.\<close>

fun clean_parts :: "bool \<Rightarrow> string list \<Rightarrow> string list \<Rightarrow> string list" where
  "clean_parts rooted out [] = rev out"
| "clean_parts rooted out (p # ps) =
     (if p = [] \<or> p = ''.'' then clean_parts rooted out ps
      else if p = ''..'' then
        (case out of
           [] \<Rightarrow> clean_parts rooted (if rooted then [] else [''..'']) ps
         | q # qs \<Rightarrow> clean_parts rooted (if q = ''..'' then ''..'' # out else qs) ps)
      else clean_parts rooted (p # out) ps)"

definition path_Clean :: "string \<Rightarrow> string" where
  "path_Clean p =
     (let rooted = HasPrefix p ''/''; r = strings_Join (clean_parts rooted [] (split_path p)) ''/''
      in if rooted then CHR ''/'' # r else if r = [] then ''.'' else r)"

definition path_Join :: "string list \<Rightarrow> string" where
  "path_Join es = (let es = filter (\<lambda>e. e \<noteq> []) es in if es = [] then [] else path_Clean (strings_Join es ''/''))"

definition IsValidPathSegmentName :: "string \<Rightarrow> string list" where
  "IsValidPathSegmentName name =
     (if name = ''.'' then [''may not be '' @ ''.'']
      else if name = ''..'' then [''may not be '' @ ''..'']
      else (if strings_Contains name ''/'' then [''may not contain '' @ ''/''] else [])
         @ (if strings_Contains name ''%'' then [''may not contain '' @ ''%''] else []))"

section \<open>Requests\<close>

text \<open>A client: the path of its base URL, its content configuration (the group version and the scheme of its codec), its limiter and its HTTP client.\<close>

record ('h, 'l) RESTClient =
  rc_base :: string
  rc_versionedAPIPath :: string
  rc_GroupVersion :: GroupVersion
  rc_scheme :: Scheme
  rc_rateLimiter :: "'l option"
  rc_Client :: 'h

datatype request_error =
    AlreadySet string string
  | InvalidName string "string list"
  | EmptyResourceName
  | EmptyNamespace
  | BadParameters string
  | NotEncoded
  | NotSent string
  | Unsuccessful nat string
  | EmptyBody nat
  | NotDecoded
  | FailureStatus string

record Request =
  rq_base :: string
  rq_verb :: string
  rq_pathPrefix :: string
  rq_params :: "(string \<times> string list) list"
  rq_namespace :: string
  rq_namespaceSet :: bool
  rq_resource :: string
  rq_resourceName :: string
  rq_subresource :: string
  rq_err :: "request_error option"
  rq_bodyBytes :: string

definition NewRequest :: "('h, 'l) RESTClient \<Rightarrow> Request" where
  "NewRequest c = \<lparr>rq_base = rc_base c, rq_verb = [], rq_pathPrefix = path_Join [''/'', rc_base c, rc_versionedAPIPath c],
     rq_params = [], rq_namespace = [], rq_namespaceSet = False, rq_resource = [], rq_resourceName = [], rq_subresource = [],
     rq_err = None, rq_bodyBytes = []\<rparr>"

definition Verb :: "string \<Rightarrow> ('h, 'l) RESTClient \<Rightarrow> Request" where
  "Verb verb c = (NewRequest c)\<lparr>rq_verb := verb\<rparr>"

text \<open>The methods that build a request do nothing once it has an error.\<close>

definition unless_err :: "(Request \<Rightarrow> Request) \<Rightarrow> Request \<Rightarrow> Request" where
  "unless_err f r = (if rq_err r = None then f r else r)"

definition fail_request :: "request_error \<Rightarrow> Request \<Rightarrow> Request" where
  "fail_request e r = r\<lparr>rq_err := Some e\<rparr>"

definition AbsPath :: "string \<Rightarrow> Request \<Rightarrow> Request" where
  "AbsPath segment = unless_err (\<lambda>r.
     let prefix = path_Join [rq_base r, path_Join [segment]]
     in r\<lparr>rq_pathPrefix := (if (length (rq_base r) > 1 \<or> length segment > 1) \<and> segment \<noteq> [] \<and> last segment = CHR ''/''
          then prefix @ ''/'' else prefix)\<rparr>)"

definition Namespace :: "string \<Rightarrow> Request \<Rightarrow> Request" where
  "Namespace namespace = unless_err (\<lambda>r.
     if rq_namespaceSet r then fail_request (AlreadySet (rq_namespace r) namespace) r
     else if IsValidPathSegmentName namespace \<noteq> [] then fail_request (InvalidName namespace (IsValidPathSegmentName namespace)) r
     else r\<lparr>rq_namespaceSet := True, rq_namespace := namespace\<rparr>)"

definition NamespaceIfScoped :: "string \<Rightarrow> bool \<Rightarrow> Request \<Rightarrow> Request" where
  "NamespaceIfScoped namespace scoped r = (if scoped then Namespace namespace r else r)"

definition Resource :: "string \<Rightarrow> Request \<Rightarrow> Request" where
  "Resource resource = unless_err (\<lambda>r.
     if rq_resource r \<noteq> [] then fail_request (AlreadySet (rq_resource r) resource) r
     else if IsValidPathSegmentName resource \<noteq> [] then fail_request (InvalidName resource (IsValidPathSegmentName resource)) r
     else r\<lparr>rq_resource := resource\<rparr>)"

definition Name :: "string \<Rightarrow> Request \<Rightarrow> Request" where
  "Name resourceName = unless_err (\<lambda>r.
     if resourceName = [] then fail_request EmptyResourceName r
     else if rq_resourceName r \<noteq> [] then fail_request (AlreadySet (rq_resourceName r) resourceName) r
     else if IsValidPathSegmentName resourceName \<noteq> [] then fail_request (InvalidName resourceName (IsValidPathSegmentName resourceName)) r
     else r\<lparr>rq_resourceName := resourceName\<rparr>)"

definition SubResource :: "string list \<Rightarrow> Request \<Rightarrow> Request" where
  "SubResource subresources = unless_err (\<lambda>r.
     let subresource = path_Join subresources
     in if rq_subresource r \<noteq> [] then fail_request (AlreadySet (rq_subresource r) subresource) r
        else (case find (\<lambda>s. IsValidPathSegmentName s \<noteq> []) subresources of
                Some s \<Rightarrow> fail_request (InvalidName s (IsValidPathSegmentName s)) r
              | None \<Rightarrow> r\<lparr>rq_subresource := subresource\<rparr>))"

text \<open>The encoding of the options of a call, and of its object, may fail.\<close>

definition VersionedParams :: "string + (string \<times> string list) list \<Rightarrow> Request \<Rightarrow> Request" where
  "VersionedParams encoded = unless_err (\<lambda>r.
     case encoded of Inl err \<Rightarrow> fail_request (BadParameters err) r | Inr params \<Rightarrow> r\<lparr>rq_params := rq_params r @ params\<rparr>)"

definition Body :: "string option \<Rightarrow> Request \<Rightarrow> Request" where
  "Body encoded = unless_err (\<lambda>r.
     case encoded of None \<Rightarrow> fail_request NotEncoded r | Some data \<Rightarrow> r\<lparr>rq_bodyBytes := data\<rparr>)"

text \<open>The path of the URL; \<^verbatim>\<open>Suffix\<close> is not used, and names of resources are ASCII.\<close>

definition strings_ToLower :: "string \<Rightarrow> string" where
  "strings_ToLower s = map (\<lambda>c. if is_upper c then char_of (code c + 32) else c) s"

definition URL_Path :: "Request \<Rightarrow> string" where
  "URL_Path r =
     (let p = rq_pathPrefix r;
          p = (if rq_namespaceSet r \<and> rq_namespace r \<noteq> [] then path_Join [p, ''namespaces'', rq_namespace r] else p);
          p = (if rq_resource r \<noteq> [] then path_Join [p, strings_ToLower (rq_resource r)] else p)
      in if rq_resourceName r \<noteq> [] \<or> rq_subresource r \<noteq> [] then path_Join [p, rq_resourceName r, rq_subresource r, []] else p)"

definition requestPreflightCheck :: "Request \<Rightarrow> request_error option" where
  "requestPreflightCheck r =
     (if \<not> rq_namespaceSet r then None
      else if rq_namespace r \<noteq> [] then None
      else if rq_verb r = ''POST'' then Some EmptyNamespace
      else if rq_verb r \<in> {''GET'', ''PUT'', ''DELETE''} \<and> rq_resourceName r \<noteq> [] then Some EmptyNamespace
      else None)"

record http_request =
  hr_Method :: string
  hr_Path :: string
  hr_Query :: "(string \<times> string list) list"
  hr_Body :: string

definition newHTTPRequest :: "Request \<Rightarrow> http_request" where
  "newHTTPRequest r = \<lparr>hr_Method = rq_verb r, hr_Path = URL_Path r, hr_Query = rq_params r, hr_Body = rq_bodyBytes r\<rparr>"

type_synonym 'w transport = "http_request \<Rightarrow> 'w \<Rightarrow> (string + nat \<times> string) \<times> 'w"

text \<open>
  A result is an error, or the status code and the body.  Every status but 101 and those from 200 to 206 is an error, which holds the body,
  since the library reads its message from it.
\<close>

definition transformResponse :: "nat \<Rightarrow> string \<Rightarrow> request_error + nat \<times> string" where
  "transformResponse statusCode body =
     (if statusCode \<noteq> 101 \<and> (statusCode < 200 \<or> 206 < statusCode) then Inl (Unsuccessful statusCode body) else Inr (statusCode, body))"

definition Do :: "'w transport \<Rightarrow> Request \<Rightarrow> 'w \<Rightarrow> (request_error + nat \<times> string) \<times> 'w" where
  "Do send r w =
     (case rq_err r of
        Some err \<Rightarrow> (Inl err, w)
      | None \<Rightarrow>
          (case requestPreflightCheck r of
             Some err \<Rightarrow> (Inl err, w)
           | None \<Rightarrow>
               (case send (newHTTPRequest r) w of
                  (Inl err, w1) \<Rightarrow> (Inl (NotSent err), w1)
                | (Inr (statusCode, body), w1) \<Rightarrow> (transformResponse statusCode body, w1))))"

section \<open>Codecs\<close>

definition ParseGroupVersion :: "string \<Rightarrow> GroupVersion option" where
  "ParseGroupVersion gv =
     (if gv = [] \<or> gv = ''/'' then Some \<lparr>gv_Group = [], gv_Version = []\<rparr>
      else if count_list gv CHR ''/'' = 0 then Some \<lparr>gv_Group = [], gv_Version = gv\<rparr>
      else if count_list gv CHR ''/'' = 1 then
        Some \<lparr>gv_Group = takeWhile (\<lambda>c. c \<noteq> CHR ''/'') gv, gv_Version = tl (dropWhile (\<lambda>c. c \<noteq> CHR ''/'') gv)\<rparr>
      else None)"

text \<open>The members of a JSON document that is unmarshalled into a struct.\<close>

definition document_members :: "string \<Rightarrow> (string \<times> string) list option" where
  "document_members data =
     (if json_syntax data = None then None
      else if json_syntax data = Some JNull then Some []
      else object_slices 0 data)"

definition Interpret :: "string \<Rightarrow> GroupVersionKind option" where
  "Interpret data = (do {
     ms \<leftarrow> document_members data;
     apiVersion \<leftarrow> string_field ms ''apiVersion'';
     kind \<leftarrow> string_field ms ''kind'';
     gv \<leftarrow> ParseGroupVersion apiVersion;
     Some (WithKind gv kind)})"

definition gvkWithDefaults :: "GroupVersionKind \<Rightarrow> GroupVersionKind \<Rightarrow> GroupVersionKind" where
  "gvkWithDefaults actual defaultGVK =
     (let a = (if gvk_Kind actual = [] then actual\<lparr>gvk_Kind := gvk_Kind defaultGVK\<rparr> else actual);
          a = (if gvk_Version a = [] \<and> gvk_Group a = []
               then a\<lparr>gvk_Group := gvk_Group defaultGVK, gvk_Version := gvk_Version defaultGVK\<rparr> else a)
      in if gvk_Version a = [] \<and> gvk_Group a = gvk_Group defaultGVK then a\<lparr>gvk_Version := gvk_Version defaultGVK\<rparr> else a)"

definition scheme_create :: "Scheme \<Rightarrow> GroupVersionKind \<Rightarrow> GoType option" where
  "scheme_create s kind = (case sm_gvkToType s kind of Some t \<Rightarrow> Some t | None \<Rightarrow> sm_unversionedKinds s (gvk_Kind kind))"

text \<open>
  \<^verbatim>\<open>Decode\<close> of the JSON serializer into an object of the Go type \<open>t\<close> that \<open>read\<close> unmarshals: the object itself, or the type of another object
  that was created, or an error.
\<close>

definition Decode :: "Scheme \<Rightarrow> GoType \<Rightarrow> (string \<Rightarrow> 'a option) \<Rightarrow> string \<Rightarrow> ('a + GoType) option" where
  "Decode s t read data = (do {
     actual \<leftarrow> Interpret data;
     case ObjectKinds s t of
       None \<Rightarrow> map_option Inl (read data)
     | Some kinds \<Rightarrow>
         let actual = gvkWithDefaults actual (hd kinds)
         in if gvk_Kind actual = [] \<or> gvk_Version actual = [] then None
            else if actual \<in> set kinds then map_option Inl (read data)
            else map_option Inr (scheme_create s actual)})"

text \<open>
  \<^verbatim>\<open>Result.Into\<close> with the decoder of the clients, which clears the type metadata of what it has decoded.  When the body holds an object of
  another type, it is unmarshalled into a new object of that type: \<open>others\<close> says whether this fails, and if not, whether the object is a
  Status that reports a failure.  \<open>zero\<close> is the object that the caller passes.
\<close>

definition Into ::
  "Scheme \<Rightarrow> GoType \<Rightarrow> (string \<Rightarrow> 'a option) \<Rightarrow> ('a \<Rightarrow> 'a) \<Rightarrow> (GoType \<Rightarrow> string \<Rightarrow> bool option) \<Rightarrow> 'a
    \<Rightarrow> request_error + nat \<times> string \<Rightarrow> request_error + 'a" where
  "Into s t read clear others zero result =
     (case result of
        Inl err \<Rightarrow> Inl err
      | Inr (statusCode, body) \<Rightarrow>
          if body = [] then Inl (EmptyBody statusCode)
          else
            (case Decode s t read body of
               None \<Rightarrow> Inl NotDecoded
             | Some (Inl obj) \<Rightarrow> Inr (clear obj)
             | Some (Inr t') \<Rightarrow>
                 (case others t' body of
                    None \<Rightarrow> Inl NotDecoded
                  | Some fails \<Rightarrow> if t' = meta_type ''Status'' \<and> fails then Inl (FailureStatus body) else Inr zero)))"

text \<open>
  \<^verbatim>\<open>WithVersionEncoder.Encode\<close>: the kind that is set before an object of the Go type \<open>t\<close> is marshalled, if any.  The JSON encoder ends the text with a newline.
\<close>

definition KindForGroupVersionKinds :: "GroupVersion \<Rightarrow> GroupVersionKind list \<Rightarrow> GroupVersionKind option" where
  "KindForGroupVersionKinds gv kinds =
     (case find (\<lambda>k. gvk_Group k = gv_Group gv \<and> gvk_Version k = gv_Version gv) kinds of
        Some k \<Rightarrow> Some k
      | None \<Rightarrow> map_option (\<lambda>k. WithKind gv (gvk_Kind k)) (find (\<lambda>k. gvk_Group k = gv_Group gv) kinds))"

definition encoded_kind :: "Scheme \<Rightarrow> GroupVersion \<Rightarrow> GoType \<Rightarrow> GroupVersionKind option" where
  "encoded_kind s gv t =
     (case ObjectKinds s t of
        None \<Rightarrow> None
      | Some kinds \<Rightarrow> Some (case KindForGroupVersionKinds gv kinds of Some k \<Rightarrow> k | None \<Rightarrow> hd kinds))"

definition type_of_kind :: "GroupVersionKind \<Rightarrow> TypeMeta" where
  "type_of_kind gvk = \<lparr>tm_Kind = gvk_Kind gvk, tm_APIVersion = GroupVersion_String (gvk_GroupVersion gvk)\<rparr>"

definition newline :: string where "newline = [CHR 0x0A]"

definition Encode ::
  "Scheme \<Rightarrow> GroupVersion \<Rightarrow> GoType \<Rightarrow> (TypeMeta \<Rightarrow> 'a \<Rightarrow> 'a) \<Rightarrow> ('a \<Rightarrow> string option) \<Rightarrow> 'a \<Rightarrow> string option" where
  "Encode s gv t set_type marshal obj =
     map_option (\<lambda>data. data @ newline)
       (marshal (case encoded_kind s gv t of Some gvk \<Rightarrow> set_type (type_of_kind gvk) obj | None \<Rightarrow> obj))"

section \<open>Lemmas\<close>

subsection \<open>Paths\<close>

lemma split_path_not_Nil [simp]: "split_path p \<noteq> []"
  by (induction p) (auto split: list.splits)

lemma split_path_slash: "split_path (a @ CHR ''/'' # b) = split_path a @ split_path b"
  by (induction a) (auto simp: Cons_eq_append_conv split: list.splits)

lemma split_path_segment: "CHR ''/'' \<notin> set a \<Longrightarrow> split_path a = [a]"
  by (induction a) auto

text \<open>The nonempty elements of a path, and elements that \<^verbatim>\<open>path.Clean\<close> keeps.\<close>

definition parts :: "string \<Rightarrow> string list" where
  "parts p = filter (\<lambda>e. e \<noteq> []) (split_path p)"

definition segment :: "string \<Rightarrow> bool" where
  "segment s \<longleftrightarrow> s \<noteq> [] \<and> CHR ''/'' \<notin> set s \<and> s \<noteq> ''.'' \<and> s \<noteq> ''..''"

definition abs_path :: "string list \<Rightarrow> string" where
  "abs_path ss = CHR ''/'' # strings_Join ss ''/''"

lemma parts_segment: "segment s \<Longrightarrow> parts s = [s]"
  by (simp add: parts_def segment_def split_path_segment)

lemma parts_slash: "parts (a @ CHR ''/'' # b) = parts a @ parts b" "parts (CHR ''/'' # b) = parts b" "parts [] = []"
  by (simp_all add: parts_def split_path_slash)

lemma parts_Join: "parts (strings_Join es ''/'') = concat (map parts es)"
  by (induction es "''/'' :: string" rule: strings_Join.induct) (simp_all add: parts_slash)

lemma clean_parts_filter: "clean_parts rooted out ps = clean_parts rooted out (filter (\<lambda>e. e \<noteq> []) ps)"
  by (induction rooted out ps rule: clean_parts.induct) (auto split: list.splits)

lemma clean_parts_segments: "list_all segment ps \<Longrightarrow> clean_parts rooted out ps = rev out @ ps"
  by (induction ps arbitrary: out) (auto simp: segment_def)

lemma path_Clean_segments:
  assumes "HasPrefix p ''/''" "list_all segment (parts p)"
  shows "path_Clean p = abs_path (parts p)"
  using assms clean_parts_filter [of True "[]" "split_path p"] clean_parts_segments [of "parts p" True "[]"]
  by (simp add: path_Clean_def abs_path_def parts_def)

lemma path_Join_segments:
  assumes "HasPrefix p ''/''" "list_all segment (parts p)" "list_all segment (concat (map parts es))"
  shows "path_Join (p # es) = abs_path (parts p @ concat (map parts es))"
proof -
  let ?es = "filter (\<lambda>e. e \<noteq> []) (p # es)"
  have p: "p \<noteq> []" using assms(1) by (auto simp: HasPrefix_def)
  have "concat (map parts (filter (\<lambda>e. e \<noteq> []) es)) = concat (map parts es)"
    by (induction es) (auto simp: parts_slash(3))
  then have parts: "parts (strings_Join ?es ''/'') = parts p @ concat (map parts es)" using p by (simp add: parts_Join)
  have "HasPrefix (strings_Join ?es ''/'') ''/''"
    using assms(1) p by (cases "filter (\<lambda>e. e \<noteq> []) es") (auto simp: HasPrefix_iff)
  then have "path_Clean (strings_Join ?es ''/'') = abs_path (parts (strings_Join ?es ''/''))"
    by (rule path_Clean_segments) (use assms parts in simp)
  then show ?thesis using p parts by (simp add: path_Join_def)
qed

lemma parts_abs_path: "list_all segment ss \<Longrightarrow> parts (abs_path ss) = ss"
proof -
  assume "list_all segment ss"
  then have "concat (map parts ss) = ss" by (induction ss) (simp_all add: parts_segment)
  then show ?thesis by (simp add: abs_path_def parts_slash parts_Join)
qed

lemma abs_path_rooted [simp]: "HasPrefix (abs_path ss) ''/''"
  by (simp add: abs_path_def)

lemma path_Join_abs:
  assumes "list_all segment ss" "list_all (\<lambda>e. e = [] \<or> segment e) es"
  shows "path_Join (abs_path ss # es) = abs_path (ss @ filter (\<lambda>e. e \<noteq> []) es)"
proof -
  have "concat (map parts es) = filter (\<lambda>e. e \<noteq> []) es"
    using assms(2) by (induction es) (auto simp: parts_segment parts_slash(3))
  moreover from assms(2) have "list_all segment (filter (\<lambda>e. e \<noteq> []) es)" by (induction es) auto
  ultimately show ?thesis
    using path_Join_segments [of "abs_path ss" es] assms(1) by (simp add: parts_abs_path)
qed

lemma strings_Contains_byte: "strings_Contains s [c] \<longleftrightarrow> c \<in> set s"
  by (induction s) (auto simp: strings_Contains_def)

lemma valid_segment_iff:
  "IsValidPathSegmentName s = [] \<longleftrightarrow> s \<noteq> ''.'' \<and> s \<noteq> ''..'' \<and> CHR ''/'' \<notin> set s \<and> CHR ''%'' \<notin> set s"
  by (simp add: IsValidPathSegmentName_def strings_Contains_byte)

lemma valid_segment: "IsValidPathSegmentName s = [] \<Longrightarrow> s \<noteq> [] \<Longrightarrow> segment s"
  by (simp add: valid_segment_iff segment_def)

subsection \<open>Documents\<close>

lemma document_members_text:
  assumes "\<And>k v. (k, v) \<in> set ms \<Longrightarrow> value_text 1 v"
  shows "document_members (object_text ms @ newline) = Some (map (\<lambda>(k, v). (valid_utf8_text k, v)) ms)"
proof -
  obtain js where "json_value 0 (object_text ms @ newline) = Some (JObj js, newline)"
    using object_text_read [of ms 0 newline] assms by (auto simp: max_nesting_depth_def)
  moreover have "skip_ws newline = []" by (simp add: newline_def skip_ws_def is_ws_def)
  ultimately have "json_syntax (object_text ms @ newline) = Some (JObj js)" by (simp add: json_syntax_def)
  then show ?thesis using object_slices_append [of ms 0 newline] assms by (simp add: document_members_def)
qed

end
