(* ===== verification/Clients.thy ===== *)
theory Clients
  imports Complex_Main Rest_Client Subresources
begin

text \<open>
  The generated clients of \<^verbatim>\<open>virt-template-client-go\<close>: the client set, the clients of the two versions, the typed clients of templates and their
  expansions for the subresources, and what becomes of their calls in the API server.

  The HTTP clients, the discovery client, the parsing of the host and the limiters of client-go are parameters.
\<close>

section \<open>Configurations\<close>

record 'l Config =
  cf_Host :: string
  cf_APIPath :: string
  cf_GroupVersion :: "GroupVersion option"
  cf_NegotiatedSerializer :: "Scheme option"
  cf_UserAgent :: string
  cf_QPS :: rat
  cf_Burst :: int
  cf_RateLimiter :: "'l option"

text \<open>
  The functions of client-go that the clients call: \<^verbatim>\<open>HTTPClientFor\<close>, the URL of \<^verbatim>\<open>DefaultServerUrlFor\<close> (its path),
  \<^verbatim>\<open>NewTokenBucketRateLimiter\<close>, \<^verbatim>\<open>DefaultKubernetesUserAgent\<close> and \<^verbatim>\<open>NewDiscoveryClientForConfigAndClient\<close>.
\<close>

record ('h, 'l, 'd) client_library =
  lb_HTTPClientFor :: "'l Config \<Rightarrow> string + 'h"
  lb_serverPath :: "'l Config \<Rightarrow> string + string"
  lb_NewRateLimiter :: "rat \<Rightarrow> int \<Rightarrow> 'l"
  lb_UserAgent :: string
  lb_NewDiscoveryClient :: "'l Config \<Rightarrow> 'h \<Rightarrow> string + 'd"

definition DefaultVersionedAPIPath :: "string \<Rightarrow> GroupVersion \<Rightarrow> string" where
  "DefaultVersionedAPIPath apiPath gv =
     (let p = path_Join [''/'', apiPath]
      in if gv_Group gv \<noteq> [] then path_Join [p, gv_Group gv, gv_Version gv] else path_Join [p, gv_Version gv])"

definition RESTClientForConfigAndClient ::
  "('h, 'l, 'd) client_library \<Rightarrow> 'l Config \<Rightarrow> 'h \<Rightarrow> string + ('h, 'l) RESTClient" where
  "RESTClientForConfigAndClient lb config httpClient =
     (case cf_GroupVersion config of
        None \<Rightarrow> Inl ''GroupVersion is required when initializing a RESTClient''
      | Some gv \<Rightarrow>
          (case cf_NegotiatedSerializer config of
             None \<Rightarrow> Inl ''NegotiatedSerializer is required when initializing a RESTClient''
           | Some scheme \<Rightarrow>
               (case lb_serverPath lb config of
                  Inl err \<Rightarrow> Inl err
                | Inr path \<Rightarrow>
                    let qps = (if cf_QPS config = 0 then 5 else cf_QPS config);
                        burst = (if cf_Burst config = 0 then 10 else cf_Burst config);
                        limiter = (case cf_RateLimiter config of
                            Some l \<Rightarrow> Some l
                          | None \<Rightarrow> if qps > 0 then Some (lb_NewRateLimiter lb qps burst) else None)
                    in Inr \<lparr>rc_base = (if path \<noteq> [] \<and> last path = CHR ''/'' then path else path @ ''/''),
                         rc_versionedAPIPath = DefaultVersionedAPIPath (cf_APIPath config) gv, rc_GroupVersion = gv,
                         rc_scheme = scheme, rc_rateLimiter = limiter, rc_Client = httpClient\<rparr>)))"

section \<open>The clients of the versions\<close>

text \<open>The scheme of the package \<^verbatim>\<open>virttemplate/scheme\<close> after its init function.\<close>

definition client_codec :: "Scheme option" where
  "client_codec = client_scheme"

record ('h, 'l) TemplateClient =
  tc_restClient :: "('h, 'l) RESTClient"

definition setConfigDefaults :: "GroupVersion \<Rightarrow> ('h, 'l, 'd) client_library \<Rightarrow> 'l Config \<Rightarrow> 'l Config" where
  "setConfigDefaults gv lb config = config\<lparr>cf_GroupVersion := Some gv, cf_APIPath := ''/apis'', cf_NegotiatedSerializer := client_codec,
     cf_UserAgent := (if cf_UserAgent config = [] then lb_UserAgent lb else cf_UserAgent config)\<rparr>"

definition setConfigDefaults_v1beta1 :: "('h, 'l, 'd) client_library \<Rightarrow> 'l Config \<Rightarrow> 'l Config" where
  "setConfigDefaults_v1beta1 = setConfigDefaults coreV1beta1"

definition setConfigDefaults_v1alpha1 :: "('h, 'l, 'd) client_library \<Rightarrow> 'l Config \<Rightarrow> 'l Config" where
  "setConfigDefaults_v1alpha1 = setConfigDefaults coreV1alpha1"

definition NewForConfigAndClient_v1beta1 ::
  "('h, 'l, 'd) client_library \<Rightarrow> 'l Config \<Rightarrow> 'h \<Rightarrow> string + ('h, 'l) TemplateClient" where
  "NewForConfigAndClient_v1beta1 lb c h =
     (case RESTClientForConfigAndClient lb (setConfigDefaults_v1beta1 lb c) h of
        Inl err \<Rightarrow> Inl err
      | Inr client \<Rightarrow> Inr \<lparr>tc_restClient = client\<rparr>)"

definition NewForConfigAndClient_v1alpha1 ::
  "('h, 'l, 'd) client_library \<Rightarrow> 'l Config \<Rightarrow> 'h \<Rightarrow> string + ('h, 'l) TemplateClient" where
  "NewForConfigAndClient_v1alpha1 lb c h =
     (case RESTClientForConfigAndClient lb (setConfigDefaults_v1alpha1 lb c) h of
        Inl err \<Rightarrow> Inl err
      | Inr client \<Rightarrow> Inr \<lparr>tc_restClient = client\<rparr>)"

definition NewForConfig_v1beta1 :: "('h, 'l, 'd) client_library \<Rightarrow> 'l Config \<Rightarrow> string + ('h, 'l) TemplateClient" where
  "NewForConfig_v1beta1 lb c =
     (let config = setConfigDefaults_v1beta1 lb c
      in case lb_HTTPClientFor lb config of Inl err \<Rightarrow> Inl err | Inr httpClient \<Rightarrow> NewForConfigAndClient_v1beta1 lb config httpClient)"

definition NewForConfig_v1alpha1 :: "('h, 'l, 'd) client_library \<Rightarrow> 'l Config \<Rightarrow> string + ('h, 'l) TemplateClient" where
  "NewForConfig_v1alpha1 lb c =
     (let config = setConfigDefaults_v1alpha1 lb c
      in case lb_HTTPClientFor lb config of Inl err \<Rightarrow> Inl err | Inr httpClient \<Rightarrow> NewForConfigAndClient_v1alpha1 lb config httpClient)"

definition RESTClient_v1beta1 :: "('h, 'l) TemplateClient option \<Rightarrow> ('h, 'l) RESTClient option" where
  "RESTClient_v1beta1 c = map_option tc_restClient c"

definition RESTClient_v1alpha1 :: "('h, 'l) TemplateClient option \<Rightarrow> ('h, 'l) RESTClient option" where
  "RESTClient_v1alpha1 c = map_option tc_restClient c"

text \<open>A client for a given REST client, and the clients that panic instead of returning an error.\<close>

definition New_v1beta1 :: "('h, 'l) RESTClient \<Rightarrow> ('h, 'l) TemplateClient" where
  "New_v1beta1 c = \<lparr>tc_restClient = c\<rparr>"

definition New_v1alpha1 :: "('h, 'l) RESTClient \<Rightarrow> ('h, 'l) TemplateClient" where
  "New_v1alpha1 c = \<lparr>tc_restClient = c\<rparr>"

definition NewForConfigOrDie_v1beta1 :: "('h, 'l, 'd) client_library \<Rightarrow> 'l Config \<Rightarrow> ('h, 'l) TemplateClient run" where
  "NewForConfigOrDie_v1beta1 lb c = (case NewForConfig_v1beta1 lb c of Inl err \<Rightarrow> Panics | Inr client \<Rightarrow> Returns client)"

definition NewForConfigOrDie_v1alpha1 :: "('h, 'l, 'd) client_library \<Rightarrow> 'l Config \<Rightarrow> ('h, 'l) TemplateClient run" where
  "NewForConfigOrDie_v1alpha1 lb c = (case NewForConfig_v1alpha1 lb c of Inl err \<Rightarrow> Panics | Inr client \<Rightarrow> Returns client)"

section \<open>The client set\<close>

record ('h, 'l, 'd) Clientset =
  cs_Discovery :: 'd
  cs_templateV1alpha1 :: "('h, 'l) TemplateClient"
  cs_templateV1beta1 :: "('h, 'l) TemplateClient"

definition burst_required :: string where
  "burst_required = ''burst is required to be greater than 0 when RateLimiter is not set and QPS is set to greater than 0''"

definition limited_config :: "('h, 'l, 'd) client_library \<Rightarrow> 'l Config \<Rightarrow> string + 'l Config" where
  "limited_config lb c =
     (if cf_RateLimiter c = None \<and> cf_QPS c > 0
      then if cf_Burst c \<le> 0 then Inl burst_required
           else Inr (c\<lparr>cf_RateLimiter := Some (lb_NewRateLimiter lb (cf_QPS c) (cf_Burst c))\<rparr>)
      else Inr c)"

definition NewClientsetForConfigAndClient ::
  "('h, 'l, 'd) client_library \<Rightarrow> 'l Config \<Rightarrow> 'h \<Rightarrow> string + ('h, 'l, 'd) Clientset" where
  "NewClientsetForConfigAndClient lb c httpClient =
     (case limited_config lb c of
        Inl err \<Rightarrow> Inl err
      | Inr config \<Rightarrow>
          (case NewForConfigAndClient_v1alpha1 lb config httpClient of
             Inl err \<Rightarrow> Inl err
           | Inr alpha \<Rightarrow>
               (case NewForConfigAndClient_v1beta1 lb config httpClient of
                  Inl err \<Rightarrow> Inl err
                | Inr beta \<Rightarrow>
                    (case lb_NewDiscoveryClient lb config httpClient of
                       Inl err \<Rightarrow> Inl err
                     | Inr d \<Rightarrow> Inr \<lparr>cs_Discovery = d, cs_templateV1alpha1 = alpha, cs_templateV1beta1 = beta\<rparr>))))"

definition with_UserAgent :: "('h, 'l, 'd) client_library \<Rightarrow> 'l Config \<Rightarrow> 'l Config" where
  "with_UserAgent lb c = (if cf_UserAgent c = [] then c\<lparr>cf_UserAgent := lb_UserAgent lb\<rparr> else c)"

definition NewClientsetForConfig :: "('h, 'l, 'd) client_library \<Rightarrow> 'l Config \<Rightarrow> string + ('h, 'l, 'd) Clientset" where
  "NewClientsetForConfig lb c =
     (let config = with_UserAgent lb c
      in case lb_HTTPClientFor lb config of Inl err \<Rightarrow> Inl err | Inr httpClient \<Rightarrow> NewClientsetForConfigAndClient lb config httpClient)"

definition NewClientsetForConfigOrDie :: "('h, 'l, 'd) client_library \<Rightarrow> 'l Config \<Rightarrow> ('h, 'l, 'd) Clientset run" where
  "NewClientsetForConfigOrDie lb c = (case NewClientsetForConfig lb c of Inl err \<Rightarrow> Panics | Inr cs \<Rightarrow> Returns cs)"

text \<open>The client set of a given REST client; \<open>newDiscovery\<close> stands for \<^verbatim>\<open>discovery.NewDiscoveryClient\<close>.\<close>

definition NewClientset :: "(('h, 'l) RESTClient \<Rightarrow> 'd) \<Rightarrow> ('h, 'l) RESTClient \<Rightarrow> ('h, 'l, 'd) Clientset" where
  "NewClientset newDiscovery c =
     \<lparr>cs_Discovery = newDiscovery c, cs_templateV1alpha1 = New_v1alpha1 c, cs_templateV1beta1 = New_v1beta1 c\<rparr>"

definition Discovery :: "('h, 'l, 'd) Clientset option \<Rightarrow> 'd option" where
  "Discovery c = map_option cs_Discovery c"

section \<open>The typed clients\<close>

record ('h, 'l) typed_client =
  cl_resource :: string
  cl_client :: "('h, 'l) RESTClient"
  cl_namespace :: string

definition newVirtualMachineTemplates_v1beta1 :: "('h, 'l) TemplateClient \<Rightarrow> string \<Rightarrow> ('h, 'l) typed_client" where
  "newVirtualMachineTemplates_v1beta1 c namespace = \<lparr>cl_resource = ''virtualmachinetemplates'', cl_client = tc_restClient c, cl_namespace = namespace\<rparr>"

definition newVirtualMachineTemplates_v1alpha1 :: "('h, 'l) TemplateClient \<Rightarrow> string \<Rightarrow> ('h, 'l) typed_client" where
  "newVirtualMachineTemplates_v1alpha1 c namespace = \<lparr>cl_resource = ''virtualmachinetemplates'', cl_client = tc_restClient c, cl_namespace = namespace\<rparr>"

definition newVirtualMachineTemplateRequests_v1beta1 :: "('h, 'l) TemplateClient \<Rightarrow> string \<Rightarrow> ('h, 'l) typed_client" where
  "newVirtualMachineTemplateRequests_v1beta1 c namespace =
     \<lparr>cl_resource = ''virtualmachinetemplaterequests'', cl_client = tc_restClient c, cl_namespace = namespace\<rparr>"

definition newVirtualMachineTemplateRequests_v1alpha1 :: "('h, 'l) TemplateClient \<Rightarrow> string \<Rightarrow> ('h, 'l) typed_client" where
  "newVirtualMachineTemplateRequests_v1alpha1 c namespace =
     \<lparr>cl_resource = ''virtualmachinetemplaterequests'', cl_client = tc_restClient c, cl_namespace = namespace\<rparr>"

text \<open>\<^verbatim>\<open>Get\<close> of a typed client, with the query of the options as a parameter.\<close>

definition get_request :: "('h, 'l) typed_client \<Rightarrow> string + (string \<times> string list) list \<Rightarrow> string \<Rightarrow> Request" where
  "get_request cl params name =
     VersionedParams params
       (Name name (Resource (cl_resource cl) (NamespaceIfScoped (cl_namespace cl) (cl_namespace cl \<noteq> []) (Verb ''GET'' (cl_client cl)))))"

definition untyped_template :: "'o VirtualMachineTemplate \<Rightarrow> 'o VirtualMachineTemplate" where
  "untyped_template tpl = tpl\<lparr>t_TypeMeta := empty_type\<rparr>"

definition zero_template :: "'o VirtualMachineTemplate" where
  "zero_template = \<lparr>t_TypeMeta = empty_type, t_Meta = empty_meta,
     t_Spec = \<lparr>ts_VirtualMachine = None, ts_Parameters = [], ts_Message = []\<rparr>, t_Conditions = []\<rparr>"

definition Get_template ::
  "(GoType \<Rightarrow> string \<Rightarrow> bool option) \<Rightarrow> 'o encodings \<Rightarrow> 'w transport \<Rightarrow> ('h, 'l) typed_client \<Rightarrow> string + (string \<times> string list) list \<Rightarrow> string \<Rightarrow> 'w
    \<Rightarrow> (request_error + 'o VirtualMachineTemplate) \<times> 'w" where
  "Get_template others en send cl params name w =
     apfst (Into (rc_scheme (cl_client cl)) (api_type coreV1beta1 ''VirtualMachineTemplate'') (unmarshalTemplate en) untyped_template
         others zero_template)
       (Do send (get_request cl params name) w)"

section \<open>The expansions\<close>

text \<open>\<^verbatim>\<open>ProcessOptions\<close> as JSON; the keys of the map are sorted.\<close>

definition map_text :: "(string \<rightharpoonup> string) \<Rightarrow> string" where
  "map_text m = object_text (map (\<lambda>k. (k, json_quote (the (m k)))) (sorted_list_of_set (dom m)))"

definition marshalOptions :: "'v vm_encodings \<Rightarrow> ProcessOptions \<Rightarrow> string option" where
  "marshalOptions en opts = Some (object_text (omitempty json_quote [] ''kind'' (tm_Kind (po_TypeMeta opts))
     @ omitempty json_quote [] ''apiVersion'' (tm_APIVersion (po_TypeMeta opts))
     @ omitempty (ve_Meta en) empty_meta ''metadata'' (po_Meta opts)
     @ omitempty map_text Map.empty ''parameters'' (po_Parameters opts)))"

definition set_options_type :: "TypeMeta \<Rightarrow> ProcessOptions \<Rightarrow> ProcessOptions" where
  "set_options_type tm opts = opts\<lparr>po_TypeMeta := tm\<rparr>"

definition encode_options :: "'v vm_encodings \<Rightarrow> ('h, 'l) RESTClient \<Rightarrow> GroupVersion \<Rightarrow> ProcessOptions \<Rightarrow> string option" where
  "encode_options en c gv opts =
     Encode (rc_scheme c) (rc_GroupVersion c) (api_type gv ''ProcessOptions'') set_options_type (marshalOptions en) opts"

definition subresourceURL :: "GroupVersion \<Rightarrow> string" where
  "subresourceURL gv = ''/apis/'' @ gv_Group gv @ ''/'' @ gv_Version gv"

text \<open>The request of an expansion.\<close>

definition subresource_request ::
  "('h, 'l) typed_client \<Rightarrow> GroupVersion \<Rightarrow> string \<Rightarrow> string \<Rightarrow> string option \<Rightarrow> Request" where
  "subresource_request cl gv sub name body =
     Body body (SubResource [sub] (Name name (Resource PluralResourceName (Namespace (cl_namespace cl)
       (AbsPath (subresourceURL gv) (Verb ''POST'' (cl_client cl)))))))"

definition unmarshalProcessed_v1beta1 :: "'v vm_encodings \<Rightarrow> string \<Rightarrow> 'v ProcessedVirtualMachineTemplate option" where
  "unmarshalProcessed_v1beta1 en data = (do {
     ms \<leftarrow> document_members data;
     kind \<leftarrow> string_field ms ''kind'';
     apiVersion \<leftarrow> string_field ms ''apiVersion'';
     meta \<leftarrow> field (ve_readMeta en) empty_meta ms ''metadata'';
     templateRef \<leftarrow> field (\<lambda>v. map_option Some (unmarshalReference v)) None ms ''templateRef'';
     vm \<leftarrow> field (\<lambda>v. map_option Some (ve_readVM en v)) None ms ''virtualMachine'';
     message \<leftarrow> string_field ms ''message'';
     Some \<lparr>pt_TypeMeta = \<lparr>tm_Kind = kind, tm_APIVersion = apiVersion\<rparr>, pt_Meta = meta,
       pt_TemplateRef = templateRef, pt_VirtualMachine = vm, pt_Message = message\<rparr>})"

definition untyped_processed :: "'v ProcessedVirtualMachineTemplate \<Rightarrow> 'v ProcessedVirtualMachineTemplate" where
  "untyped_processed p = p\<lparr>pt_TypeMeta := empty_type\<rparr>"

definition zero_processed :: "'v ProcessedVirtualMachineTemplate" where
  "zero_processed = \<lparr>pt_TypeMeta = empty_type, pt_Meta = empty_meta, pt_TemplateRef = None, pt_VirtualMachine = None, pt_Message = []\<rparr>"

definition into_processed_v1beta1 ::
  "(GoType \<Rightarrow> string \<Rightarrow> bool option) \<Rightarrow> 'v vm_encodings \<Rightarrow> ('h, 'l) typed_client \<Rightarrow> request_error + nat \<times> string \<Rightarrow> request_error + 'v ProcessedVirtualMachineTemplate" where
  "into_processed_v1beta1 others en cl = Into (rc_scheme (cl_client cl)) (api_type subresourcesV1beta1 ''ProcessedVirtualMachineTemplate'')
     (unmarshalProcessed_v1beta1 en) untyped_processed others zero_processed"

definition Process_v1beta1 ::
  "(GoType \<Rightarrow> string \<Rightarrow> bool option) \<Rightarrow> 'v vm_encodings \<Rightarrow> 'w transport \<Rightarrow> ('h, 'l) typed_client \<Rightarrow> string \<Rightarrow> ProcessOptions \<Rightarrow> 'w
    \<Rightarrow> (request_error + 'v ProcessedVirtualMachineTemplate) \<times> 'w" where
  "Process_v1beta1 others en send cl name options w =
     apfst (into_processed_v1beta1 others en cl)
       (Do send (subresource_request cl subresourcesV1beta1 ''process'' name
          (encode_options en (cl_client cl) subresourcesV1beta1 options)) w)"

definition CreateVirtualMachine_v1beta1 ::
  "(GoType \<Rightarrow> string \<Rightarrow> bool option) \<Rightarrow> 'v vm_encodings \<Rightarrow> 'w transport \<Rightarrow> ('h, 'l) typed_client \<Rightarrow> string \<Rightarrow> ProcessOptions \<Rightarrow> 'w
    \<Rightarrow> (request_error + 'v ProcessedVirtualMachineTemplate) \<times> 'w" where
  "CreateVirtualMachine_v1beta1 others en send cl name options w =
     apfst (into_processed_v1beta1 others en cl)
       (Do send (subresource_request cl subresourcesV1beta1 ''create'' name
          (encode_options en (cl_client cl) subresourcesV1beta1 options)) w)"

definition untyped_processed_v1alpha1 :: "'v ProcessedVirtualMachineTemplate_v1alpha1 \<Rightarrow> 'v ProcessedVirtualMachineTemplate_v1alpha1" where
  "untyped_processed_v1alpha1 p = p\<lparr>apt_TypeMeta := empty_type\<rparr>"

definition zero_processed_v1alpha1 :: "'v ProcessedVirtualMachineTemplate_v1alpha1" where
  "zero_processed_v1alpha1 = \<lparr>apt_TypeMeta = empty_type, apt_Meta = empty_meta, apt_TemplateRef = None, apt_VirtualMachine = None, apt_Message = []\<rparr>"

definition into_processed_v1alpha1 ::
  "(GoType \<Rightarrow> string \<Rightarrow> bool option) \<Rightarrow> 'v vm_encodings \<Rightarrow> ('h, 'l) typed_client \<Rightarrow> request_error + nat \<times> string
    \<Rightarrow> request_error + 'v ProcessedVirtualMachineTemplate_v1alpha1" where
  "into_processed_v1alpha1 others en cl = Into (rc_scheme (cl_client cl)) (api_type subresourcesV1alpha1 ''ProcessedVirtualMachineTemplate'')
     (unmarshalProcessed en) untyped_processed_v1alpha1 others zero_processed_v1alpha1"

text \<open>The options of v1alpha1 have the fields of those of v1beta1.\<close>

definition Process_v1alpha1 ::
  "(GoType \<Rightarrow> string \<Rightarrow> bool option) \<Rightarrow> 'v vm_encodings \<Rightarrow> 'w transport \<Rightarrow> ('h, 'l) typed_client \<Rightarrow> string \<Rightarrow> ProcessOptions \<Rightarrow> 'w
    \<Rightarrow> (request_error + 'v ProcessedVirtualMachineTemplate_v1alpha1) \<times> 'w" where
  "Process_v1alpha1 others en send cl name options w =
     apfst (into_processed_v1alpha1 others en cl)
       (Do send (subresource_request cl subresourcesV1alpha1 ''process'' name
          (encode_options en (cl_client cl) subresourcesV1alpha1 options)) w)"

definition CreateVirtualMachine_v1alpha1 ::
  "(GoType \<Rightarrow> string \<Rightarrow> bool option) \<Rightarrow> 'v vm_encodings \<Rightarrow> 'w transport \<Rightarrow> ('h, 'l) typed_client \<Rightarrow> string \<Rightarrow> ProcessOptions \<Rightarrow> 'w
    \<Rightarrow> (request_error + 'v ProcessedVirtualMachineTemplate_v1alpha1) \<times> 'w" where
  "CreateVirtualMachine_v1alpha1 others en send cl name options w =
     apfst (into_processed_v1alpha1 others en cl)
       (Do send (subresource_request cl subresourcesV1alpha1 ''create'' name
          (encode_options en (cl_client cl) subresourcesV1alpha1 options)) w)"

section \<open>Lemmas\<close>

lemma api_segments:
  "gv \<in> {subresourcesV1beta1, subresourcesV1alpha1, coreV1beta1, coreV1alpha1} \<Longrightarrow> segment (gv_Group gv) \<and> segment (gv_Version gv)"
  "segment ''apis''" "segment ''namespaces''" "segment PluralResourceName" "segment ''process''" "segment ''create''"
  by (auto simp: segment_def subresourcesV1beta1_def subresourcesV1alpha1_def coreV1beta1_def coreV1alpha1_def GroupName_def SubresourceGroupName_def
      PluralResourceName_def SingularResourceName_def)

lemma plural_valid: "IsValidPathSegmentName PluralResourceName = []" "PluralResourceName \<noteq> []" "strings_ToLower PluralResourceName = PluralResourceName"
  by code_simp+

text \<open>A base path of a client: rooted, of proper elements, and with a slash at the end.\<close>

definition base_ok :: "string \<Rightarrow> bool" where
  "base_ok base \<longleftrightarrow> HasPrefix base ''/'' \<and> list_all segment (parts base)"

lemma subresourceURL_parts:
  assumes "segment (gv_Group gv)" "segment (gv_Version gv)"
  shows "parts (subresourceURL gv) = [''apis'', gv_Group gv, gv_Version gv]"
    "HasPrefix (subresourceURL gv) ''/''" "subresourceURL gv \<noteq> [] \<and> last (subresourceURL gv) \<noteq> CHR ''/''"
proof -
  have "subresourceURL gv = CHR ''/'' # ''apis'' @ CHR ''/'' # gv_Group gv @ CHR ''/'' # gv_Version gv" by (simp add: subresourceURL_def)
  then show "parts (subresourceURL gv) = [''apis'', gv_Group gv, gv_Version gv]"
    using assms api_segments(2) by (simp only: parts_slash parts_segment) simp
  show "HasPrefix (subresourceURL gv) ''/''" by (simp add: subresourceURL_def)
  have "last (gv_Version gv) \<noteq> CHR ''/''" using assms(2) by (metis last_in_set segment_def)
  then show "subresourceURL gv \<noteq> [] \<and> last (subresourceURL gv) \<noteq> CHR ''/''" using assms(2) by (simp add: subresourceURL_def segment_def)
qed

lemma AbsPath_prefix:
  assumes "base_ok (rq_base r)" "segment (gv_Group gv)" "segment (gv_Version gv)" "rq_err r = None"
  shows "AbsPath (subresourceURL gv) r = r\<lparr>rq_pathPrefix := abs_path (parts (rq_base r) @ [''apis'', gv_Group gv, gv_Version gv])\<rparr>"
proof -
  note sub = subresourceURL_parts [OF assms(2,3)]
  let ?ss = "[''apis'', gv_Group gv, gv_Version gv]"
  have seg: "list_all segment ?ss" using assms(2,3) api_segments(2) by simp
  have "path_Join [subresourceURL gv] = abs_path ?ss"
    using path_Join_segments [OF sub(2), of "[]"] seg sub(1) by simp
  moreover have "path_Join [rq_base r, abs_path ?ss] = abs_path (parts (rq_base r) @ ?ss)"
    using path_Join_segments [of "rq_base r" "[abs_path ?ss]"] assms(1) seg by (simp add: base_ok_def parts_abs_path)
  ultimately show ?thesis using sub(3) assms(4) by (simp add: AbsPath_def unless_err_def)
qed

lemma base_request:
  assumes "base_ok (rc_base (cl_client cl))" "gv \<in> {subresourcesV1beta1, subresourcesV1alpha1}"
  shows "AbsPath (subresourceURL gv) (Verb ''POST'' (cl_client cl)) =
    \<lparr>rq_base = rc_base (cl_client cl), rq_verb = ''POST'', rq_pathPrefix = abs_path (parts (rc_base (cl_client cl)) @ [''apis'', gv_Group gv, gv_Version gv]),
     rq_params = [], rq_namespace = [], rq_namespaceSet = False, rq_resource = [], rq_resourceName = [], rq_subresource = [],
     rq_err = None, rq_bodyBytes = []\<rparr>"
proof -
  have "segment (gv_Group gv) \<and> segment (gv_Version gv)" using assms(2) api_segments(1) by blast
  then show ?thesis
    using AbsPath_prefix [of "Verb ''POST'' (cl_client cl)" gv] assms(1) by (simp add: Verb_def NewRequest_def)
qed

lemma subresource_request_valid:
  assumes "base_ok (rc_base (cl_client cl))" "gv \<in> {subresourcesV1beta1, subresourcesV1alpha1}" "sub \<in> {''process'', ''create''}"
    "IsValidPathSegmentName (cl_namespace cl) = []" "IsValidPathSegmentName name = []" "name \<noteq> []"
  shows "subresource_request cl gv sub name (Some data) =
    \<lparr>rq_base = rc_base (cl_client cl), rq_verb = ''POST'', rq_pathPrefix = abs_path (parts (rc_base (cl_client cl)) @ [''apis'', gv_Group gv, gv_Version gv]),
     rq_params = [], rq_namespace = cl_namespace cl, rq_namespaceSet = True, rq_resource = PluralResourceName, rq_resourceName = name,
     rq_subresource = sub, rq_err = None, rq_bodyBytes = data\<rparr>"
proof -
  have sub: "IsValidPathSegmentName sub = []" "path_Join [sub] = sub" using assms(3) by (auto; code_simp)+
  show ?thesis unfolding subresource_request_def base_request [OF assms(1,2)]
    by (simp add: Namespace_def Resource_def Name_def SubResource_def Body_def unless_err_def Let_def plural_valid sub assms(4-6))
qed

text \<open>Errors stay, and a name or a namespace that cannot be used is an error or stopped before the request is sent.\<close>

lemma request_err_stays:
  "rq_err r = Some e \<Longrightarrow> Resource x r = r" "rq_err r = Some e \<Longrightarrow> Name x r = r" "rq_err r = Some e \<Longrightarrow> SubResource xs r = r"
  "rq_err r = Some e \<Longrightarrow> Body b r = r" "rq_err r = Some e \<Longrightarrow> VersionedParams ps r = r" "rq_err r = Some e \<Longrightarrow> Namespace x r = r"
  by (simp_all add: Resource_def Name_def SubResource_def Body_def VersionedParams_def Namespace_def unless_err_def)

lemma Name_err: "name = [] \<or> IsValidPathSegmentName name \<noteq> [] \<Longrightarrow> \<exists>e. rq_err (Name name r) = Some e"
  by (auto simp: Name_def unless_err_def fail_request_def)

lemma Namespace_err: "IsValidPathSegmentName ns \<noteq> [] \<Longrightarrow> \<exists>e. rq_err (Namespace ns r) = Some e"
  by (auto simp: Namespace_def unless_err_def fail_request_def)

lemma subresource_request_fields:
  "rq_verb (Namespace x r) = rq_verb r" "rq_verb (Resource y r) = rq_verb r" "rq_verb (Name z r) = rq_verb r" "rq_verb (SubResource xs r) = rq_verb r"
  "rq_verb (Body b r) = rq_verb r"
  "rq_namespace (Resource y r) = rq_namespace r" "rq_namespace (Name z r) = rq_namespace r" "rq_namespace (SubResource xs r) = rq_namespace r"
  "rq_namespace (Body b r) = rq_namespace r"
  "rq_namespaceSet (Resource y r) = rq_namespaceSet r" "rq_namespaceSet (Name z r) = rq_namespaceSet r"
  "rq_namespaceSet (SubResource xs r) = rq_namespaceSet r" "rq_namespaceSet (Body b r) = rq_namespaceSet r"
  by (simp_all add: Resource_def Name_def SubResource_def Body_def Namespace_def unless_err_def fail_request_def Let_def split: option.split)

lemma subresource_request_invalid:
  assumes "base_ok (rc_base (cl_client cl))" "gv \<in> {subresourcesV1beta1, subresourcesV1alpha1}"
    "IsValidPathSegmentName (cl_namespace cl) \<noteq> [] \<or> IsValidPathSegmentName name \<noteq> [] \<or> cl_namespace cl = [] \<or> name = []"
  shows "\<exists>e. Do send (subresource_request cl gv sub name body) w = (Inl e, w)"
proof (cases "rq_err (subresource_request cl gv sub name body)")
  case None
  have valid: "IsValidPathSegmentName (cl_namespace cl) = []" "IsValidPathSegmentName name = []" "name \<noteq> []"
    using None Namespace_err [of "cl_namespace cl"] Name_err [of name] request_err_stays
    unfolding subresource_request_def by (metis option.distinct(1))+
  then have "cl_namespace cl = []" using assms(3) by blast
  then have "requestPreflightCheck (subresource_request cl gv sub name body) = Some EmptyNamespace"
    using valid(1) unfolding subresource_request_def base_request [OF assms(1,2)]
    by (simp add: requestPreflightCheck_def subresource_request_fields) (simp add: Namespace_def unless_err_def)
  with None show ?thesis by (simp add: Do_def)
qed (simp add: Do_def)

section \<open>Properties\<close>

text \<open>What a client set that could be made holds.\<close>

lemma client_scheme_built: "\<exists>s. client_codec = Some s"
  using client_scheme_kinds unfolding client_codec_def by metis

lemma RESTClient_fields:
  assumes "RESTClientForConfigAndClient lb config h = Inr c"
  shows "cf_GroupVersion config = Some (rc_GroupVersion c)" "cf_NegotiatedSerializer config = Some (rc_scheme c)" "rc_Client c = h"
    "rc_versionedAPIPath c = DefaultVersionedAPIPath (cf_APIPath config) (rc_GroupVersion c)"
    "\<exists>path. lb_serverPath lb config = Inr path \<and> rc_base c = (if path \<noteq> [] \<and> last path = CHR ''/'' then path else path @ ''/'')"
    "cf_RateLimiter config = Some l \<Longrightarrow> rc_rateLimiter c = Some l"
proof -
  obtain gv where gv: "cf_GroupVersion config = Some gv"
    using assms by (cases "cf_GroupVersion config") (simp_all add: RESTClientForConfigAndClient_def)
  obtain sc where sc: "cf_NegotiatedSerializer config = Some sc"
    using assms gv by (cases "cf_NegotiatedSerializer config") (simp_all add: RESTClientForConfigAndClient_def)
  obtain path where path: "lb_serverPath lb config = Inr path"
    using assms gv sc by (cases "lb_serverPath lb config") (simp_all add: RESTClientForConfigAndClient_def)
  have c: "rc_GroupVersion c = gv" "rc_scheme c = sc" "rc_Client c = h" "rc_versionedAPIPath c = DefaultVersionedAPIPath (cf_APIPath config) gv"
      "rc_base c = (if path \<noteq> [] \<and> last path = CHR ''/'' then path else path @ ''/'')" "cf_RateLimiter config = Some l \<Longrightarrow> rc_rateLimiter c = Some l"
    using assms [symmetric] by (simp_all add: RESTClientForConfigAndClient_def gv sc path Let_def)
  show "cf_GroupVersion config = Some (rc_GroupVersion c)" "cf_NegotiatedSerializer config = Some (rc_scheme c)" "rc_Client c = h"
      "rc_versionedAPIPath c = DefaultVersionedAPIPath (cf_APIPath config) (rc_GroupVersion c)"
      "\<exists>path. lb_serverPath lb config = Inr path \<and> rc_base c = (if path \<noteq> [] \<and> last path = CHR ''/'' then path else path @ ''/'')"
      "cf_RateLimiter config = Some l \<Longrightarrow> rc_rateLimiter c = Some l"
    using gv sc path c by simp_all
qed

lemma api_paths:
  "DefaultVersionedAPIPath ''/apis'' coreV1beta1 = ''/apis/template.kubevirt.io/v1beta1''"
  "DefaultVersionedAPIPath ''/apis'' coreV1alpha1 = ''/apis/template.kubevirt.io/v1alpha1''"
  by code_simp+

lemma clientset_clients:
  assumes "NewClientsetForConfig lb c = Inr cs"
  obtains h config where "limited_config lb (with_UserAgent lb c) = Inr config"
    "RESTClientForConfigAndClient lb (setConfigDefaults_v1beta1 lb config) h = Inr (tc_restClient (cs_templateV1beta1 cs))"
    "RESTClientForConfigAndClient lb (setConfigDefaults_v1alpha1 lb config) h = Inr (tc_restClient (cs_templateV1alpha1 cs))"
proof -
  obtain h where "NewClientsetForConfigAndClient lb (with_UserAgent lb c) h = Inr cs"
    using assms by (auto simp: NewClientsetForConfig_def Let_def split: sum.splits)
  then show thesis
    using that [of _ h] by (auto simp: NewClientsetForConfigAndClient_def NewForConfigAndClient_v1beta1_def NewForConfigAndClient_v1alpha1_def split: sum.splits)
qed

lemma clientset_v1beta1:
  assumes "NewClientsetForConfig lb cfg = Inr cs"
  shows "client_codec = Some (rc_scheme (cl_client (newVirtualMachineTemplates_v1beta1 (cs_templateV1beta1 cs) ns)))"
    "cl_namespace (newVirtualMachineTemplates_v1beta1 (cs_templateV1beta1 cs) ns) = ns"
proof -
  obtain h config where "RESTClientForConfigAndClient lb (setConfigDefaults_v1beta1 lb config) h = Inr (tc_restClient (cs_templateV1beta1 cs))"
    using clientset_clients [OF assms] by blast
  from RESTClient_fields(2) [OF this]
  show "client_codec = Some (rc_scheme (cl_client (newVirtualMachineTemplates_v1beta1 (cs_templateV1beta1 cs) ns)))"
    by (simp add: setConfigDefaults_v1beta1_def setConfigDefaults_def newVirtualMachineTemplates_v1beta1_def)
qed (simp add: newVirtualMachineTemplates_v1beta1_def)

text \<open>
  C34.  Nothing is sent for a namespace or a name that is empty or no path segment: the four expansions return an error and leave the
  world as it is.  In particular, no name can make the client call another path.
\<close>

theorem invalid_name_not_sent:
  assumes "base_ok (rc_base (cl_client cl))"
    and "IsValidPathSegmentName (cl_namespace cl) \<noteq> [] \<or> IsValidPathSegmentName name \<noteq> [] \<or> cl_namespace cl = [] \<or> name = []"
  shows "\<exists>e1 e2 e3 e4. Process_v1beta1 others en send cl name opts w = (Inl e1, w) \<and>
    CreateVirtualMachine_v1beta1 others en send cl name opts w = (Inl e2, w) \<and>
    Process_v1alpha1 others en send cl name opts w = (Inl e3, w) \<and>
    CreateVirtualMachine_v1alpha1 others en send cl name opts w = (Inl e4, w)"
proof -
  note inv = subresource_request_invalid [OF assms(1) _ assms(2), of _ send _ _ w]
  have "\<exists>e. Do send (subresource_request cl subresourcesV1beta1 ''process'' name (encode_options en (cl_client cl) subresourcesV1beta1 opts)) w = (Inl e, w)"
    "\<exists>e. Do send (subresource_request cl subresourcesV1beta1 ''create'' name (encode_options en (cl_client cl) subresourcesV1beta1 opts)) w = (Inl e, w)"
    "\<exists>e. Do send (subresource_request cl subresourcesV1alpha1 ''process'' name (encode_options en (cl_client cl) subresourcesV1alpha1 opts)) w = (Inl e, w)"
    "\<exists>e. Do send (subresource_request cl subresourcesV1alpha1 ''create'' name (encode_options en (cl_client cl) subresourcesV1alpha1 opts)) w = (Inl e, w)"
    by (rule inv, simp)+
  then show ?thesis
    by (auto simp: Process_v1beta1_def CreateVirtualMachine_v1beta1_def Process_v1alpha1_def CreateVirtualMachine_v1alpha1_def
        into_processed_v1beta1_def into_processed_v1alpha1_def Into_def)
qed

text \<open>
  What a client set holds, whenever it can be made: the clients of the two versions share the HTTP client and, if the configuration
  limits the rate, the limiter; they call the paths of their own group version and have the codec of the scheme of the clients.  It is not made
  when a rate is given without a burst.
\<close>

theorem clientset_configured:
  assumes "NewClientsetForConfig lb c = Inr cs"
  shows "(cf_RateLimiter c \<noteq> None \<or> cf_QPS c \<le> 0 \<or> 0 < cf_Burst c) \<and>
    rc_Client (tc_restClient (cs_templateV1beta1 cs)) = rc_Client (tc_restClient (cs_templateV1alpha1 cs)) \<and>
    rc_versionedAPIPath (tc_restClient (cs_templateV1beta1 cs)) = ''/apis/template.kubevirt.io/v1beta1'' \<and>
    rc_versionedAPIPath (tc_restClient (cs_templateV1alpha1 cs)) = ''/apis/template.kubevirt.io/v1alpha1'' \<and>
    Some (rc_scheme (tc_restClient (cs_templateV1beta1 cs))) = client_codec \<and> Some (rc_scheme (tc_restClient (cs_templateV1alpha1 cs))) = client_codec \<and>
    (cf_RateLimiter c \<noteq> None \<or> 0 < cf_QPS c \<longrightarrow>
      (\<exists>l. rc_rateLimiter (tc_restClient (cs_templateV1beta1 cs)) = Some l \<and> rc_rateLimiter (tc_restClient (cs_templateV1alpha1 cs)) = Some l))"
proof -
  obtain h config where c: "limited_config lb (with_UserAgent lb c) = Inr config"
    "RESTClientForConfigAndClient lb (setConfigDefaults_v1beta1 lb config) h = Inr (tc_restClient (cs_templateV1beta1 cs))"
    "RESTClientForConfigAndClient lb (setConfigDefaults_v1alpha1 lb config) h = Inr (tc_restClient (cs_templateV1alpha1 cs))"
    using clientset_clients [OF assms] by blast
  note beta = RESTClient_fields [OF c(2)] and alpha = RESTClient_fields [OF c(3)]
  have ua: "cf_RateLimiter (with_UserAgent lb c) = cf_RateLimiter c" "cf_QPS (with_UserAgent lb c) = cf_QPS c" "cf_Burst (with_UserAgent lb c) = cf_Burst c"
    by (simp_all add: with_UserAgent_def)
  have "cf_RateLimiter c \<noteq> None \<or> cf_QPS c \<le> 0 \<or> 0 < cf_Burst c"
    using c(1) by (auto simp: limited_config_def ua split: if_splits)
  moreover have "rc_Client (tc_restClient (cs_templateV1beta1 cs)) = rc_Client (tc_restClient (cs_templateV1alpha1 cs))"
    using beta(3) alpha(3) by simp
  moreover have gv: "rc_GroupVersion (tc_restClient (cs_templateV1beta1 cs)) = coreV1beta1" "rc_GroupVersion (tc_restClient (cs_templateV1alpha1 cs)) = coreV1alpha1"
    using beta(1) alpha(1) by (simp_all add: setConfigDefaults_v1beta1_def setConfigDefaults_v1alpha1_def setConfigDefaults_def)
  moreover have "rc_versionedAPIPath (tc_restClient (cs_templateV1beta1 cs)) = ''/apis/template.kubevirt.io/v1beta1''"
    "rc_versionedAPIPath (tc_restClient (cs_templateV1alpha1 cs)) = ''/apis/template.kubevirt.io/v1alpha1''"
    using beta(4) alpha(4) gv api_paths by (simp_all add: setConfigDefaults_v1beta1_def setConfigDefaults_v1alpha1_def setConfigDefaults_def)
  moreover have "Some (rc_scheme (tc_restClient (cs_templateV1beta1 cs))) = client_codec \<and> Some (rc_scheme (tc_restClient (cs_templateV1alpha1 cs))) = client_codec"
    using beta(2) alpha(2) by (simp add: setConfigDefaults_v1beta1_def setConfigDefaults_v1alpha1_def setConfigDefaults_def)
  moreover have "\<exists>l. rc_rateLimiter (tc_restClient (cs_templateV1beta1 cs)) = Some l \<and> rc_rateLimiter (tc_restClient (cs_templateV1alpha1 cs)) = Some l"
    if "cf_RateLimiter c \<noteq> None \<or> 0 < cf_QPS c"
  proof -
    have "cf_RateLimiter config \<noteq> None" using that c(1) by (auto simp: limited_config_def ua split: if_splits)
    then obtain l where "cf_RateLimiter config = Some l" by blast
    then show ?thesis
      using beta(6) [of l] alpha(6) [of l] by (simp add: setConfigDefaults_v1beta1_def setConfigDefaults_v1alpha1_def setConfigDefaults_def)
  qed
  ultimately show ?thesis by blast
qed

section \<open>Witnesses\<close>

definition example_library :: "(unit, unit, unit) client_library" where
  "example_library = \<lparr>lb_HTTPClientFor = (\<lambda>c. Inr ()), lb_serverPath = (\<lambda>c. Inr []), lb_NewRateLimiter = (\<lambda>qps burst. ()),
     lb_UserAgent = ''virt-template'', lb_NewDiscoveryClient = (\<lambda>c h. Inr ())\<rparr>"

definition example_config :: "unit Config" where
  "example_config = \<lparr>cf_Host = ''localhost'', cf_APIPath = [], cf_GroupVersion = None, cf_NegotiatedSerializer = None, cf_UserAgent = [],
     cf_QPS = 20, cf_Burst = 30, cf_RateLimiter = None\<rparr>"

lemma example_rest_client:
  assumes "client_codec = Some s"
  shows "\<exists>c. RESTClientForConfigAndClient example_library (setConfigDefaults gv example_library config) () = Inr c \<and> rc_base c = ''/''"
proof -
  let ?config = "setConfigDefaults gv example_library config"
  have "cf_GroupVersion ?config = Some gv" "cf_NegotiatedSerializer ?config = Some s" by (simp_all add: setConfigDefaults_def assms)
  moreover have "lb_serverPath example_library ?config = Inr []" by (simp add: example_library_def)
  ultimately show ?thesis by (simp add: RESTClientForConfigAndClient_def Let_def)
qed

lemma example_clientset:
  obtains cs where "NewClientsetForConfig example_library example_config = Inr cs" "rc_base (tc_restClient (cs_templateV1beta1 cs)) = ''/''"
proof -
  obtain s where s: "client_codec = Some s" using client_scheme_built by blast
  let ?c = "with_UserAgent example_library example_config"
  obtain config where config: "limited_config example_library ?c = Inr config"
    by (simp add: limited_config_def with_UserAgent_def example_config_def)
  obtain beta where beta: "NewForConfigAndClient_v1beta1 example_library config () = Inr beta" "rc_base (tc_restClient beta) = ''/''"
    using example_rest_client [OF s, of coreV1beta1 config] by (auto simp: NewForConfigAndClient_v1beta1_def setConfigDefaults_v1beta1_def)
  obtain alpha where alpha: "NewForConfigAndClient_v1alpha1 example_library config () = Inr alpha"
    using example_rest_client [OF s, of coreV1alpha1 config] by (auto simp: NewForConfigAndClient_v1alpha1_def setConfigDefaults_v1alpha1_def)
  have "lb_HTTPClientFor example_library ?c = Inr ()" "lb_NewDiscoveryClient example_library config () = Inr ()" by (simp_all add: example_library_def)
  then have "NewClientsetForConfig example_library example_config = Inr \<lparr>cs_Discovery = (), cs_templateV1alpha1 = alpha, cs_templateV1beta1 = beta\<rparr>"
    by (simp add: NewClientsetForConfig_def NewClientsetForConfigAndClient_def config alpha beta Let_def)
  then show thesis by (rule that) (simp add: beta)
qed

theorem clientset_configured_witness:
  "\<exists>cs. NewClientsetForConfig example_library example_config = Inr cs \<and>
    rc_versionedAPIPath (tc_restClient (cs_templateV1beta1 cs)) = ''/apis/template.kubevirt.io/v1beta1'' \<and>
    rc_rateLimiter (tc_restClient (cs_templateV1beta1 cs)) = Some ()"
proof -
  obtain cs where cs: "NewClientsetForConfig example_library example_config = Inr cs" by (rule example_clientset)
  have "0 < cf_QPS example_config" by (simp add: example_config_def)
  with clientset_configured [OF cs] show ?thesis using cs by auto
qed

text \<open>A client whose base is the root of the host.\<close>

definition example_client :: "Scheme \<Rightarrow> string \<Rightarrow> (unit, unit) typed_client" where
  "example_client s ns = newVirtualMachineTemplates_v1beta1 \<lparr>tc_restClient = \<lparr>rc_base = ''/'', rc_versionedAPIPath = ''/apis/template.kubevirt.io/v1beta1'',
     rc_GroupVersion = coreV1beta1, rc_scheme = s, rc_rateLimiter = None, rc_Client = ()\<rparr>\<rparr> ns"

theorem invalid_name_not_sent_witness:
  "\<exists>e. Process_v1beta1 (\<lambda>t b. Some False) example_vm_encodings (\<lambda>req n. (Inr (200, []), Suc n)) (example_client NewScheme ''ns'') ''a/../b''
     (example_options Map.empty) 0 = (Inl e, 0)"
proof -
  have "base_ok (rc_base (cl_client (example_client NewScheme ''ns'')))"
    by (simp add: base_ok_def parts_def example_client_def newVirtualMachineTemplates_v1beta1_def)
  moreover have "IsValidPathSegmentName ''a/../b'' \<noteq> []" by (simp add: valid_segment_iff)
  ultimately show ?thesis using invalid_name_not_sent by metis
qed

end
