(* ===== verification/Api_Routing.thy ===== *)
theory Api_Routing
  imports Clients Apiserver
begin

text \<open>
  How a request reaches the handler of a subresource in the generic API server: the web services that it installs for the storages of
  a version (\<^verbatim>\<open>k8s.io/apiserver/pkg/endpoints\<close>), the choice of a route (the curly router of \<^verbatim>\<open>go-restful\<close>), the namespace and name that it reads from the
  path, and the answer that it sends for what a handler responds.

  What the filters in front of the router do (authentication, authorization, flow control) is not modelled; admission is a parameter,
  and so are the matcher of regular expressions in paths, of which the routes here have none, and the texts of errors and of v1alpha1 objects.
\<close>

section \<open>Routes\<close>

definition trim_slashes :: "string \<Rightarrow> string" where
  "trim_slashes s = rev (dropWhile (\<lambda>c. c = CHR ''/'') (rev (dropWhile (\<lambda>c. c = CHR ''/'') s)))"

definition tokenizePath :: "string \<Rightarrow> string list" where
  "tokenizePath path = (if path = ''/'' then [] else split_path (trim_slashes path))"

text \<open>\<open>reg\<close> tells whether a regular expression matches a token.  The routes have no custom verbs.\<close>

definition regularMatchesPathToken :: "(string \<Rightarrow> string \<Rightarrow> bool) \<Rightarrow> string \<Rightarrow> string \<Rightarrow> bool \<times> bool" where
  "regularMatchesPathToken reg routeToken requestToken =
     (let regPart = butlast (tl (dropWhile (\<lambda>c. c \<noteq> CHR '':'') routeToken))
      in if regPart = ''*'' then (True, True) else (reg regPart requestToken, False))"

definition HasSuffix :: "string \<Rightarrow> string \<Rightarrow> bool" where
  "HasSuffix s t \<longleftrightarrow> HasPrefix (rev s) (rev t)"

text \<open>The loop over the tokens: \<^term>\<open>None\<close> when they do not match, otherwise the numbers of parameters and of static elements.\<close>

fun match_tokens :: "(string \<Rightarrow> string \<Rightarrow> bool) \<Rightarrow> string list \<Rightarrow> string list \<Rightarrow> nat \<Rightarrow> nat \<Rightarrow> (nat \<times> nat) option" where
  "match_tokens reg [] requestTokens paramCount staticCount = Some (paramCount, staticCount)"
| "match_tokens reg (t # ts) [] paramCount staticCount = None"
| "match_tokens reg (t # ts) (r # rs) paramCount staticCount =
     (if HasPrefix t ''{'' then
        if CHR '':'' \<in> set t then
          (case regularMatchesPathToken reg t r of
             (False, _) \<Rightarrow> None
           | (True, True) \<Rightarrow> Some (Suc paramCount, staticCount)
           | (True, False) \<Rightarrow> match_tokens reg ts rs (Suc paramCount) staticCount)
        else match_tokens reg ts rs (Suc paramCount) staticCount
      else if r \<noteq> t then None
      else match_tokens reg ts rs paramCount (Suc staticCount))"

definition matchesRouteByPathTokens :: "(string \<Rightarrow> string \<Rightarrow> bool) \<Rightarrow> string list \<Rightarrow> string list \<Rightarrow> (nat \<times> nat) option" where
  "matchesRouteByPathTokens reg routeTokens requestTokens =
     (if length routeTokens < length requestTokens \<and> (routeTokens = [] \<or> \<not> HasSuffix (last routeTokens) ''*}'') then None
      else match_tokens reg routeTokens requestTokens 0 0)"

text \<open>The matching routes, those with the most static elements and parameters first, then by their path.\<close>

definition selectRoutes :: "(string \<Rightarrow> string \<Rightarrow> bool) \<Rightarrow> 'h web_service \<Rightarrow> string list \<Rightarrow> 'h route list" where
  "selectRoutes reg ws requestTokens =
     map snd (rev (sort_key (\<lambda>((p, s), r). (s, p, rt_Path r)) (List.map_filter
       (\<lambda>r. map_option (\<lambda>m. (m, r)) (matchesRouteByPathTokens reg (tokenizePath (rt_Path r)) requestTokens)) (ws_Routes ws))))"

text \<open>Choosing by the method; the routes of the storages produce and consume every type.  An error is a status code.\<close>

definition detectRoute :: "'h route list \<Rightarrow> string \<Rightarrow> nat + 'h route" where
  "detectRoute routes meth =
     (if routes = [] then Inl 404
      else (case filter (\<lambda>r. rt_Method r = meth) routes of [] \<Rightarrow> Inl 405 | r # rs \<Rightarrow> Inr r))"

fun service_score :: "(string \<Rightarrow> string \<Rightarrow> bool) \<Rightarrow> string list \<Rightarrow> string list \<Rightarrow> nat \<Rightarrow> nat option" where
  "service_score reg requestTokens [] score = Some score"
| "service_score reg [] (t # ts) score = None"
| "service_score reg (r # rs) (t # ts) score =
     (if r = [] \<and> t = [] then service_score reg rs ts (Suc score)
      else if HasPrefix t ''{'' then
        if r = [] then None
        else service_score reg rs ts
          (if CHR '':'' \<in> set t \<and> fst (regularMatchesPathToken reg t r) then score + 2 else Suc score)
      else if r \<noteq> t then None
      else service_score reg rs ts (score + length (t # ts) * 10))"

definition computeWebserviceScore :: "(string \<Rightarrow> string \<Rightarrow> bool) \<Rightarrow> string list \<Rightarrow> string list \<Rightarrow> nat option" where
  "computeWebserviceScore reg requestTokens routeTokens =
     (if length routeTokens > length requestTokens then None else service_score reg requestTokens routeTokens 0)"

text \<open>The best web service so far and its score.\<close>

definition better_service ::
  "(string \<Rightarrow> string \<Rightarrow> bool) \<Rightarrow> string list \<Rightarrow> 'h web_service \<Rightarrow> 'h web_service option \<times> int \<Rightarrow> 'h web_service option \<times> int" where
  "better_service reg requestTokens ws best =
     (case computeWebserviceScore reg requestTokens (tokenizePath (ws_RootPath ws)) of
        None \<Rightarrow> best
      | Some eachScore \<Rightarrow> if int eachScore > snd best then (Some ws, int eachScore) else best)"

definition detectWebService :: "(string \<Rightarrow> string \<Rightarrow> bool) \<Rightarrow> string list \<Rightarrow> 'h web_service list \<Rightarrow> 'h web_service option" where
  "detectWebService reg requestTokens webServices = fst (fold (better_service reg requestTokens) webServices (None, -1))"

definition SelectRoute :: "(string \<Rightarrow> string \<Rightarrow> bool) \<Rightarrow> 'h web_service list \<Rightarrow> http_request \<Rightarrow> nat + 'h route" where
  "SelectRoute reg webServices req =
     (let requestTokens = tokenizePath (hr_Path req) in
      case detectWebService reg requestTokens webServices of
        None \<Rightarrow> Inl 404
      | Some ws \<Rightarrow> detectRoute (selectRoutes reg ws requestTokens) (hr_Method req))"

text \<open>Whether a path belongs to a web service at all.\<close>

definition claims_path :: "'h web_service \<Rightarrow> string \<Rightarrow> bool" where
  "claims_path ws path \<longleftrightarrow>
     (if ws_RootPath ws = ''/apis'' then path = ''/apis'' \<or> path = ''/apis/''
      else HasPrefix path (ws_RootPath ws) \<and>
        (length path = length (ws_RootPath ws) \<or> path ! length (ws_RootPath ws) = CHR ''/''))"

section \<open>Installing the storages of a version\<close>

datatype server_handler = ConnectHandler rest_storage | VersionDiscovery GroupVersion

definition ConnectMethods :: "rest_storage \<Rightarrow> string list" where
  "ConnectMethods storage =
     (case storage of
        DummyREST v \<Rightarrow> []
      | ProcessREST v \<Rightarrow> if v = ''v1beta1'' then ProcessV1beta1_ConnectMethods else ProcessV1alpha1_ConnectMethods
      | CreateREST v \<Rightarrow> if v = ''v1beta1'' then CreateV1beta1_ConnectMethods else CreateV1alpha1_ConnectMethods)"

text \<open>The options of a connecter; \<^term>\<open>None\<close> when the storage is none.\<close>

definition connecter_options :: "rest_storage \<Rightarrow> connect_options option" where
  "connecter_options storage =
     (case storage of
        DummyREST v \<Rightarrow> None
      | ProcessREST v \<Rightarrow> Some (if v = ''v1beta1'' then ProcessV1beta1_NewConnectOptions else ProcessV1alpha1_NewConnectOptions)
      | CreateREST v \<Rightarrow> Some (if v = ''v1beta1'' then CreateV1beta1_NewConnectOptions else CreateV1alpha1_NewConnectOptions))"

text \<open>\<^verbatim>\<open>NamespaceScoped\<close> of a storage; \<^term>\<open>None\<close> when it has no such method.\<close>

definition scope_of :: "rest_storage \<Rightarrow> bool option" where
  "scope_of storage =
     (case storage of
        DummyREST v \<Rightarrow> Some (if v = ''v1beta1'' then DummyV1beta1_NamespaceScoped else DummyV1alpha1_NamespaceScoped)
      | _ \<Rightarrow> None)"

definition splitSubresource :: "string \<Rightarrow> (string \<times> string) option" where
  "splitSubresource path = (case split_path path of [r, s] \<Rightarrow> Some (r, s) | [r] \<Rightarrow> Some (r, []) | _ \<Rightarrow> None)"

text \<open>
  The routes of a storage, or \<^term>\<open>None\<close> for an error.  The storages of the program are connecters or have no verb at all, so connecting is the
  only action; its path is that of an item of the parent resource, and another one behind it when the connecter takes a subpath.  The lookup of
  the kind of the storage in the scheme, which only documents the routes, is left out.
\<close>

definition registerResourceHandlers ::
  "GroupVersion \<Rightarrow> (string \<rightharpoonup> rest_storage) \<Rightarrow> string \<Rightarrow> rest_storage \<Rightarrow> server_handler route list option" where
  "registerResourceHandlers gv storages path storage = (do {
     (resource, subresource) \<leftarrow> splitSubresource path;
     namespaceScoped \<leftarrow> (if subresource \<noteq> [] then Option.bind (storages resource) scope_of else scope_of storage);
     let itemPath = (if namespaceScoped then ''namespaces/{namespace}/'' @ resource else resource) @ ''/{name}''
       @ (if subresource \<noteq> [] then ''/'' @ subresource else []);
     let actions = (case connecter_options storage of
         None \<Rightarrow> []
       | Some (opts, connectSubpath, k) \<Rightarrow> itemPath # (if connectSubpath then [itemPath @ ''/{path:*}''] else []));
     Some (concat (map (\<lambda>action. map (\<lambda>meth.
       \<lparr>rt_Method = meth, rt_Path = version_path gv @ ''/'' @ action, rt_Function = Served (ConnectHandler storage)\<rparr>) (ConnectMethods storage)) actions))})"

definition Install :: "GroupVersion \<Rightarrow> (string \<rightharpoonup> rest_storage) \<Rightarrow> server_handler web_service" where
  "Install gv storages = \<lparr>ws_RootPath = version_path gv,
     ws_Routes = concat (map (\<lambda>path. case registerResourceHandlers gv storages path (the (storages path)) of None \<Rightarrow> [] | Some rs \<Rightarrow> rs)
       (sorted_list_of_set (dom storages))),
     ws_DynamicRoutes = False\<rparr>"

definition InstallREST :: "GroupVersion \<Rightarrow> (string \<rightharpoonup> rest_storage) \<Rightarrow> server_handler web_service" where
  "InstallREST gv storages =
     (let ws = Install gv storages in
      ws\<lparr>ws_Routes := ws_Routes ws @ [\<lparr>rt_Method = MethodGet, rt_Path = version_path gv @ ''/'', rt_Function = Served (VersionDiscovery gv)\<rparr>]\<rparr>)"

section \<open>The request\<close>

record request_info =
  ri_IsResourceRequest :: bool
  ri_APIGroup :: string
  ri_APIVersion :: string
  ri_Namespace :: string
  ri_Resource :: string
  ri_Name :: string
  ri_Subresource :: string

definition no_resource :: request_info where
  "no_resource = \<lparr>ri_IsResourceRequest = False, ri_APIGroup = [], ri_APIVersion = [], ri_Namespace = [], ri_Resource = [], ri_Name = [], ri_Subresource = []\<rparr>"

definition splitPath :: "string \<Rightarrow> string list" where
  "splitPath path = (let p = trim_slashes path in if p = [] then [] else split_path p)"

text \<open>The parts of a path behind the version: the namespace, if there is one, and the parts relative to the resource.\<close>

definition namespace_parts :: "string list \<Rightarrow> string \<times> string list" where
  "namespace_parts currentParts =
     (case currentParts of
        n # ns # rest \<Rightarrow>
          if n = ''namespaces'' then (ns, if rest \<noteq> [] \<and> hd rest \<notin> {''status'', ''finalize''} then rest else currentParts)
          else ([], currentParts)
      | _ \<Rightarrow> ([], currentParts))"

text \<open>
  The resource that a request is about, as far as its path says it: a GET request without a name may get one from its
  field selector, which is left out here.  \<open>apiPrefixes\<close> are the API prefixes and \<open>groupless\<close> those of them without groups; \<^term>\<open>None\<close> is an error.
\<close>

definition NewRequestInfo :: "string set \<Rightarrow> string set \<Rightarrow> http_request \<Rightarrow> request_info option" where
  "NewRequestInfo apiPrefixes groupless req =
     (let parts = splitPath (hr_Path req) in
      if length parts < 3 \<or> hd parts \<notin> apiPrefixes \<or> (hd parts \<notin> groupless \<and> length parts < 4) then Some no_resource
      else
        (let parts1 = tl parts;
             (group, parts2) = (if hd parts \<in> groupless then ([], parts1) else (hd parts1, tl parts1));
             version = hd parts2;
             parts3 = tl parts2;
             special = hd parts3 \<in> {''proxy'', ''watch''}
         in if special \<and> length parts3 < 2 then None
            else
              (case namespace_parts (if special then tl parts3 else parts3) of
                 (namespace, ps) \<Rightarrow>
                   Some \<lparr>ri_IsResourceRequest = True, ri_APIGroup = group, ri_APIVersion = version, ri_Namespace = namespace,
                     ri_Resource = (if length ps \<ge> 1 then ps ! 0 else []),
                     ri_Name = (if length ps \<ge> 2 then ps ! 1 else []),
                     ri_Subresource = (if length ps \<ge> 3 \<and> hd parts3 \<noteq> ''proxy'' then ps ! 2 else [])\<rparr>)))"

definition isDryRun :: "http_request \<Rightarrow> bool" where
  "isDryRun req \<longleftrightarrow> (\<exists>vs. map_of (hr_Query req) ''dryRun'' = Some vs \<and> vs \<noteq> [])"

section \<open>The answer\<close>

record 'v answer_texts =
  ax_error :: "response_error \<Rightarrow> nat \<times> string"
  ax_connect :: "string \<Rightarrow> nat \<times> string"
  ax_v1alpha1 :: "'v ProcessedVirtualMachineTemplate_v1alpha1 \<Rightarrow> string option"
  ax_encode :: "nat \<times> string"
  ax_plain :: "nat \<Rightarrow> string"
  ax_other :: "http_request \<Rightarrow> nat \<times> string"
  ax_timeout :: string

definition panic_text :: string where
  "panic_text = ''This request caused apiserver to panic. Look in the logs for details.''"

text \<open>Encoding an object for the version of the storage; the client asks for JSON.\<close>

definition answer_text :: "Scheme \<Rightarrow> gval vm_encodings \<Rightarrow> gval answer_texts \<Rightarrow> response_body \<Rightarrow> string option" where
  "answer_text s en ax body =
     (case body of
        BodyV1beta1 p \<Rightarrow> Encode s subresourcesV1beta1 (api_type subresourcesV1beta1 ''ProcessedVirtualMachineTemplate'')
          (\<lambda>tm p. p\<lparr>pt_TypeMeta := tm\<rparr>) (marshalProcessed en) p
      | BodyV1alpha1 p \<Rightarrow> ax_v1alpha1 ax p)"

definition responder_Object :: "Scheme \<Rightarrow> gval vm_encodings \<Rightarrow> gval answer_texts \<Rightarrow> nat \<Rightarrow> response_body \<Rightarrow> nat \<times> string" where
  "responder_Object s en ax statusCode obj =
     (case answer_text s en ax obj of Some t \<Rightarrow> (statusCode, t) | None \<Rightarrow> ax_encode ax)"

definition responder_Error :: "gval answer_texts \<Rightarrow> response_error \<Rightarrow> nat \<times> string" where
  "responder_Error ax err = ax_error ax err"

text \<open>What the transport delivers for what a handler does; a panic is recovered, and nothing comes back when a handler does not return.\<close>

definition http_answer ::
  "Scheme \<Rightarrow> gval vm_encodings \<Rightarrow> gval answer_texts \<Rightarrow> 'w answer \<Rightarrow> (string + nat \<times> string) \<times> 'w" where
  "http_answer s en ax a =
     (case a of
        (Panics, w) \<Rightarrow> (Inr (500, panic_text @ newline), w)
      | (Diverges, w) \<Rightarrow> (Inl (ax_timeout ax), w)
      | (Returns (warnings, ResponseError err), w) \<Rightarrow> (Inr (responder_Error ax err), w)
      | (Returns (warnings, ResponseObject statusCode body), w) \<Rightarrow> (Inr (responder_Object s en ax statusCode body), w))"

definition Connect ::
  "(string set \<Rightarrow> string list) \<Rightarrow> gval vm_encodings \<Rightarrow> (string, 'w) process_rest \<Rightarrow> (string, 'w) create_rest \<Rightarrow> rest_storage \<Rightarrow> string \<Rightarrow> string
    \<Rightarrow> string + (string \<Rightarrow> 'w \<Rightarrow> 'w answer)" where
  "Connect iter en p c storage ns name =
     (case storage of
        DummyREST v \<Rightarrow> Inl ''not a connecter''
      | ProcessREST v \<Rightarrow>
          if v = ''v1beta1'' then ConnectProcessV1beta1 iter p (Some ns) name else ConnectProcessV1alpha1 iter en p (Some ns) name
      | CreateREST v \<Rightarrow>
          if v = ''v1beta1'' then ConnectCreateV1beta1 iter c (Some ns) name else ConnectCreateV1alpha1 iter en c (Some ns) name)"

text \<open>\<open>admit\<close> is admission: the answer to a request that it refuses.\<close>

definition ConnectResource ::
  "Scheme \<Rightarrow> (string set \<Rightarrow> string list) \<Rightarrow> gval vm_encodings \<Rightarrow> gval answer_texts \<Rightarrow> (rest_storage \<Rightarrow> string \<Rightarrow> string \<Rightarrow> (nat \<times> string) option)
    \<Rightarrow> (string, 'w) process_rest \<Rightarrow> (string, 'w) create_rest \<Rightarrow> rest_storage \<Rightarrow> request_info \<Rightarrow> 'w transport" where
  "ConnectResource s iter en ax admit p c storage info req w =
     (if isDryRun req then (Inr (responder_Error ax (StatusError (BadRequest ''dryRun is not supported''))), w)
      else if ri_Name info = [] then (Inr (responder_Error ax (StatusError (BadRequest ''name must be provided''))), w)
      else
        (case admit storage (ri_Namespace info) (ri_Name info) of
           Some refused \<Rightarrow> (Inr refused, w)
         | None \<Rightarrow>
             (case Connect iter en p c storage (ri_Namespace info) (ri_Name info) of
                Inl err \<Rightarrow> (Inr (ax_connect ax err), w)
              | Inr handler \<Rightarrow> http_answer s en ax (handler (hr_Body req) w))))"

text \<open>The server with the web services of a container.\<close>

definition serve ::
  "(string \<Rightarrow> string \<Rightarrow> bool) \<Rightarrow> server_handler web_service list \<Rightarrow> Scheme \<Rightarrow> (string set \<Rightarrow> string list) \<Rightarrow> gval vm_encodings \<Rightarrow> gval answer_texts
    \<Rightarrow> (rest_storage \<Rightarrow> string \<Rightarrow> string \<Rightarrow> (nat \<times> string) option) \<Rightarrow> (string, 'w) process_rest \<Rightarrow> (string, 'w) create_rest \<Rightarrow> 'w transport" where
  "serve reg container s iter en ax admit p c req w =
     (case NewRequestInfo {''apis'', ''api''} {''api''} req of
        None \<Rightarrow> (Inr (500, ax_plain ax 500), w)
      | Some info \<Rightarrow>
          if \<exists>ws \<in> set container. claims_path ws (hr_Path req) then
            (case SelectRoute reg container req of
               Inl status \<Rightarrow> (Inr (status, ax_plain ax status), w)
             | Inr r \<Rightarrow>
                 (case rt_Function r of
                    Served (ConnectHandler storage) \<Rightarrow> ConnectResource s iter en ax admit p c storage info req w
                  | _ \<Rightarrow> (Inr (ax_other ax req), w)))
          else (Inr (ax_other ax req), w))"

section \<open>Lemmas\<close>

subsection \<open>Paths\<close>

lemma split_path_append: "CHR ''/'' \<notin> set a \<Longrightarrow> split_path (a @ CHR ''/'' # b) = a # split_path b"
  by (induction a) auto

lemma split_path_Join:
  "ss \<noteq> [] \<Longrightarrow> list_all (\<lambda>s. CHR ''/'' \<notin> set s) ss \<Longrightarrow> split_path (strings_Join ss ''/'') = ss"
  by (induction ss "''/''" rule: strings_Join.induct) (auto simp: split_path_segment split_path_append)

lemma Join_ends:
  "ss \<noteq> [] \<Longrightarrow> list_all segment ss \<Longrightarrow> strings_Join ss ''/'' \<noteq> [] \<and> hd (strings_Join ss ''/'') \<noteq> CHR ''/'' \<and> last (strings_Join ss ''/'') \<noteq> CHR ''/''"
proof (induction ss "''/''" rule: strings_Join.induct)
  case (2 x)
  then have "x \<noteq> []" "CHR ''/'' \<notin> set x" by (simp_all add: segment_def)
  then show ?case using hd_in_set [of x] last_in_set [of x] by (metis strings_Join.simps(2))
next
  case (3 x y xs)
  then have "x \<noteq> []" "CHR ''/'' \<notin> set x" by (simp_all add: segment_def)
  moreover have "hd x \<noteq> CHR ''/''" using calculation by (metis hd_in_set)
  ultimately show ?case using 3 by auto
qed simp

lemma trim_abs_path:
  assumes "ss \<noteq> []" "list_all segment ss"
  shows "trim_slashes (abs_path ss) = strings_Join ss ''/''"
proof -
  let ?j = "strings_Join ss ''/''"
  note e = Join_ends [OF assms]
  have "dropWhile (\<lambda>c. c = CHR ''/'') ?j = ?j" using e by (cases ?j) auto
  moreover have "dropWhile (\<lambda>c. c = CHR ''/'') (rev ?j) = rev ?j" using e by (cases "rev ?j") (auto simp: last_rev [symmetric] hd_rev)
  ultimately show ?thesis by (simp add: trim_slashes_def abs_path_def)
qed

lemma segments_slash_free: "list_all segment ss \<Longrightarrow> list_all (\<lambda>s. CHR ''/'' \<notin> set s) ss"
  by (auto simp: list_all_iff segment_def)

lemma tokenizePath_abs:
  assumes "ss \<noteq> []" "list_all segment ss"
  shows "tokenizePath (abs_path ss) = ss" "splitPath (abs_path ss) = ss"
proof -
  have j: "strings_Join ss ''/'' \<noteq> []" using Join_ends [OF assms] by blast
  note s = split_path_Join [OF assms(1) segments_slash_free [OF assms(2)]]
  show "tokenizePath (abs_path ss) = ss" using j by (simp add: tokenizePath_def trim_abs_path [OF assms] s) (simp add: abs_path_def)
  show "splitPath (abs_path ss) = ss" using j by (simp add: splitPath_def trim_abs_path [OF assms] s)
qed

subsection \<open>The installed routes\<close>

text \<open>The path of an item of a parent resource, as a request has it and as a route has it.\<close>

definition item_parts :: "GroupVersion \<Rightarrow> string \<Rightarrow> string \<Rightarrow> string \<Rightarrow> string list" where
  "item_parts gv ns name sub = [''apis'', gv_Group gv, gv_Version gv, ''namespaces'', ns, PluralResourceName, name, sub]"

definition connect_route :: "GroupVersion \<Rightarrow> string \<Rightarrow> rest_storage \<Rightarrow> server_handler route" where
  "connect_route gv sub storage = \<lparr>rt_Method = ''POST'', rt_Path = abs_path (item_parts gv ''{namespace}'' ''{name}'' sub),
     rt_Function = Served (ConnectHandler storage)\<rparr>"

lemma item_segments:
  assumes "gv \<in> dom apiGroups" "sub \<in> {''process'', ''create''}" "segment ns" "segment name"
  shows "list_all segment (item_parts gv ns name sub)"
proof -
  have "segment (gv_Group gv) \<and> segment (gv_Version gv)" using assms(1) by (intro api_segments(1)) (auto simp: api_groups(1))
  then show ?thesis using assms(2-4) api_segments(2-6) by (auto simp: item_parts_def)
qed

lemma parameter_segments: "segment ''{namespace}''" "segment ''{name}''"
  by (simp_all add: segment_def)

lemma connect_methods_post:
  "ConnectMethods (ProcessREST v) = [''POST'']" "ConnectMethods (CreateREST v) = [''POST'']" "ConnectMethods (DummyREST v) = []"
  by (simp_all add: ConnectMethods_def ProcessV1beta1_ConnectMethods_def ProcessV1alpha1_ConnectMethods_def CreateV1beta1_ConnectMethods_def
      CreateV1alpha1_ConnectMethods_def MethodPost_def)

lemma registered_routes:
  "registerResourceHandlers gv (version_storages v) PluralResourceName (DummyREST v) = Some []"
  "registerResourceHandlers gv (version_storages v) (PluralResourceName @ ''/create'') (CreateREST v) = Some [connect_route gv ''create'' (CreateREST v)]"
  "registerResourceHandlers gv (version_storages v) (PluralResourceName @ ''/process'') (ProcessREST v) = Some [connect_route gv ''process'' (ProcessREST v)]"
proof -
  have split: "splitSubresource PluralResourceName = Some (PluralResourceName, [])"
      "splitSubresource (PluralResourceName @ ''/create'') = Some (PluralResourceName, ''create'')"
      "splitSubresource (PluralResourceName @ ''/process'') = Some (PluralResourceName, ''process'')" by code_simp+
  have scope: "scope_of (DummyREST v) = Some True" by (simp add: scope_of_def DummyV1beta1_NamespaceScoped_def DummyV1alpha1_NamespaceScoped_def)
  have opts: "connecter_options (DummyREST v) = None" "connecter_options (CreateREST v) = Some (None, False, [])" "connecter_options (ProcessREST v) = Some (None, False, [])"
    by (simp_all add: connecter_options_def ProcessV1beta1_NewConnectOptions_def ProcessV1alpha1_NewConnectOptions_def
        CreateV1beta1_NewConnectOptions_def CreateV1alpha1_NewConnectOptions_def)
  have parent: "version_storages v PluralResourceName = Some (DummyREST v)" by (simp add: version_storages_def)
  note simps = registerResourceHandlers_def split scope opts parent connect_methods_post connect_route_def item_parts_def abs_path_def
    version_path_def APIGroupPrefix_def
  show "registerResourceHandlers gv (version_storages v) PluralResourceName (DummyREST v) = Some []" by (simp add: simps)
  show "registerResourceHandlers gv (version_storages v) (PluralResourceName @ ''/create'') (CreateREST v) = Some [connect_route gv ''create'' (CreateREST v)]"
    by (simp add: simps)
  show "registerResourceHandlers gv (version_storages v) (PluralResourceName @ ''/process'') (ProcessREST v) = Some [connect_route gv ''process'' (ProcessREST v)]"
    by (simp add: simps)
qed

lemma installed_routes:
  "ws_RootPath (InstallREST gv (version_storages v)) = version_path gv"
  "filter (\<lambda>r. rt_Method r \<noteq> MethodGet) (ws_Routes (InstallREST gv (version_storages v))) =
     [connect_route gv ''create'' (CreateREST v), connect_route gv ''process'' (ProcessREST v)]"
proof -
  let ?ps = "[PluralResourceName, PluralResourceName @ ''/create'', PluralResourceName @ ''/process'']"
  have "sorted ?ps \<and> distinct ?ps" by code_simp
  then have "sorted_list_of_set (set ?ps) = ?ps" by (intro sorted_list_of_set.idem_if_sorted_distinct) simp_all
  moreover have dom: "dom (version_storages v) = set ?ps" by (auto simp: version_storages_def)
  ultimately have paths: "sorted_list_of_set (dom (version_storages v)) = ?ps" by simp
  have "the (version_storages v PluralResourceName) = DummyREST v" "the (version_storages v (PluralResourceName @ ''/create'')) = CreateREST v"
      "the (version_storages v (PluralResourceName @ ''/process'')) = ProcessREST v" by (simp_all add: version_storages_def)
  then have "ws_Routes (Install gv (version_storages v)) = [connect_route gv ''create'' (CreateREST v), connect_route gv ''process'' (ProcessREST v)]"
    unfolding Install_def paths by (simp add: registered_routes)
  then show "filter (\<lambda>r. rt_Method r \<noteq> MethodGet) (ws_Routes (InstallREST gv (version_storages v))) =
     [connect_route gv ''create'' (CreateREST v), connect_route gv ''process'' (ProcessREST v)]"
    by (simp add: InstallREST_def Let_def connect_route_def MethodGet_def)
  show "ws_RootPath (InstallREST gv (version_storages v)) = version_path gv" by (simp add: InstallREST_def Install_def Let_def)
qed

subsection \<open>The choice of a web service\<close>

lemma service_score_bound: "service_score reg rs ts score = Some x \<Longrightarrow> x \<le> score + 5 * length ts * (length ts + 1)"
proof (induction reg rs ts score rule: service_score.induct)
  case (3 reg r rs t ts score)
  then show ?case by (fastforce simp: algebra_simps split: if_splits)
qed auto

lemma detected_best:
  assumes "ws \<in> set wss" "computeWebserviceScore reg tokens (tokenizePath (ws_RootPath ws)) = Some x"
  shows "\<exists>w y. detectWebService reg tokens wss = Some w \<and> w \<in> set wss \<and> computeWebserviceScore reg tokens (tokenizePath (ws_RootPath w)) = Some y \<and> x \<le> y"
proof -
  let ?score = "\<lambda>w. computeWebserviceScore reg tokens (tokenizePath (ws_RootPath w))"
  define ok where "ok S = (\<lambda>(b, v). (\<forall>w. b = Some w \<longrightarrow> w \<in> S \<and> ?score w = Some (nat v)) \<and> (b = None \<longrightarrow> v = -1) \<and> (\<forall>w \<in> S. \<forall>y. ?score w = Some y \<longrightarrow> int y \<le> v))"
    for S :: "'a web_service set" and b :: "'a web_service option \<times> int"
  have step: "ok (insert w S) (better_service reg tokens w b)" if "ok S b" for w S b
    using that by (cases b) (fastforce simp: ok_def better_service_def split: option.split)
  have "ok (set xs \<union> S) (fold (better_service reg tokens) xs b)" if "ok S b" for xs S b
    using that
  proof (induction xs arbitrary: S b)
    case (Cons w xs)
    from Cons.IH [OF step [OF Cons.prems, of w]] show ?case by simp
  qed simp
  from this [of "{}" "(None, -1)" wss] have "ok (set wss) (fold (better_service reg tokens) wss (None, -1))" by (simp add: ok_def)
  then show ?thesis using assms
    by (cases "fold (better_service reg tokens) wss (None, -1)") (fastforce simp: ok_def detectWebService_def)
qed

subsection \<open>Containers\<close>

text \<open>
  What the router needs of a container: the versions of the API have their services, with the two routes that are not for discovery, and
  the other services have shorter roots, as those that a generic server has of its own.
\<close>

definition version_service :: "GroupVersion \<Rightarrow> server_handler web_service \<Rightarrow> bool" where
  "version_service gv ws \<longleftrightarrow> ws_RootPath ws = version_path gv \<and> filter (\<lambda>r. rt_Method r \<noteq> MethodGet) (ws_Routes ws) =
     [connect_route gv ''create'' (CreateREST (gv_Version gv)), connect_route gv ''process'' (ProcessREST (gv_Version gv))]"

locale api_container =
  fixes container :: "server_handler web_service list"
  assumes versions: "gv \<in> dom apiGroups \<Longrightarrow> \<exists>ws \<in> set container. version_service gv ws"
    and services: "ws \<in> set container \<Longrightarrow>
      (\<exists>gv \<in> dom apiGroups. version_service gv ws) \<or> length (tokenizePath (ws_RootPath ws)) \<le> 2"
begin

lemma version_tokens:
  assumes "gv \<in> dom apiGroups"
  shows "tokenizePath (version_path gv) = [''apis'', gv_Group gv, gv_Version gv]"
proof -
  have seg: "segment (gv_Group gv)" "segment (gv_Version gv)" using assms api_segments(1) [of gv] by (auto simp: api_groups(1))
  have "version_path gv = abs_path [''apis'', gv_Group gv, gv_Version gv]" by (simp add: version_path_def APIGroupPrefix_def abs_path_def)
  then show ?thesis using seg api_segments(2) by (simp add: tokenizePath_abs)
qed

lemma no_brace: "gv \<in> dom apiGroups \<Longrightarrow> \<not> HasPrefix (gv_Group gv) ''{'' \<and> \<not> HasPrefix (gv_Version gv) ''{'' \<and> gv_Group gv \<noteq> [] \<and> gv_Version gv \<noteq> []"
  by (auto simp: api_groups(1) subresourcesV1beta1_def subresourcesV1alpha1_def SubresourceGroupName_def GroupName_def)

lemma detected_version:
  assumes "gv \<in> dom apiGroups"
  obtains ws where "detectWebService reg (item_parts gv ns name sub) container = Some ws" "version_service gv ws" "ws \<in> set container"
proof -
  let ?tokens = "item_parts gv ns name sub" and ?score = "\<lambda>w. computeWebserviceScore reg (item_parts gv ns name sub) (tokenizePath (ws_RootPath w))"
  obtain w0 where w0: "w0 \<in> set container" "version_service gv w0" using versions [OF assms] by blast
  have "?score w0 = Some 60"
    using w0(2) no_brace [OF assms] by (simp add: version_service_def version_tokens [OF assms] computeWebserviceScore_def item_parts_def)
  then obtain w y where w: "detectWebService reg ?tokens container = Some w" "w \<in> set container" "?score w = Some y" "60 \<le> y"
    using detected_best [OF w0(1)] by blast
  have "length (tokenizePath (ws_RootPath w)) > 2"
  proof (rule ccontr)
    assume "\<not> length (tokenizePath (ws_RootPath w)) > 2"
    then have n: "length (tokenizePath (ws_RootPath w)) \<le> 2" by simp
    have "y \<le> 5 * length (tokenizePath (ws_RootPath w)) * (length (tokenizePath (ws_RootPath w)) + 1)"
      using w(3) service_score_bound [of reg ?tokens _ 0] by (fastforce simp: computeWebserviceScore_def split: if_splits)
    also have "\<dots> \<le> 5 * 2 * (2 + 1)" using n by (intro mult_le_mono) simp_all
    finally show False using w(4) by simp
  qed
  then obtain gv' where gv': "gv' \<in> dom apiGroups" "version_service gv' w" using services [OF w(2)] by auto
  have "gv_Group gv' = gv_Group gv \<and> gv_Version gv' = gv_Version gv"
    using w(3) gv'(2) no_brace [OF gv'(1)]
    by (auto simp: version_service_def version_tokens [OF gv'(1)] computeWebserviceScore_def item_parts_def split: if_splits)
  then have "gv' = gv" by simp
  with w gv'(2) that show thesis by blast
qed

text \<open>A POST request for an item of the parent resource is routed to the storage of the subresource.\<close>

lemma routed:
  assumes "gv \<in> dom apiGroups" "sub \<in> {''process'', ''create''}" "segment ns" "segment name"
    and "hr_Method req = ''POST''" "hr_Path req = abs_path (item_parts gv ns name sub)"
  shows "SelectRoute reg container req = Inr (connect_route gv sub (if sub = ''process'' then ProcessREST (gv_Version gv) else CreateREST (gv_Version gv)))"
    "\<exists>ws \<in> set container. claims_path ws (hr_Path req)"
proof -
  let ?tokens = "item_parts gv ns name sub"
  have seg: "list_all segment ?tokens" by (rule item_segments [OF assms(1-4)])
  have tokens: "tokenizePath (hr_Path req) = ?tokens" unfolding assms(6) by (rule tokenizePath_abs) (use seg in \<open>simp_all add: item_parts_def\<close>)
  obtain ws where ws: "detectWebService reg ?tokens container = Some ws" "version_service gv ws" "ws \<in> set container"
    by (rule detected_version [OF assms(1)])
  let ?match = "\<lambda>r. matchesRouteByPathTokens reg (tokenizePath (rt_Path r)) ?tokens"
  have route_tokens: "tokenizePath (rt_Path (connect_route gv sub' st)) = item_parts gv ''{namespace}'' ''{name}'' sub'" if "sub' \<in> {''process'', ''create''}" for sub' st
    using item_segments [OF assms(1) that parameter_segments] by (simp add: connect_route_def tokenizePath_abs item_parts_def)
  have brace: "\<not> HasPrefix PluralResourceName ''{''" "\<not> HasPrefix ''process'' ''{''" "\<not> HasPrefix ''create'' ''{''"
    by (simp_all add: PluralResourceName_def SingularResourceName_def)
  have match: "?match (connect_route gv sub' st) \<noteq> None \<longleftrightarrow> sub' = sub" if "sub' \<in> {''process'', ''create''}" for sub' st
    unfolding matchesRouteByPathTokens_def route_tokens [OF that]
    using no_brace [OF assms(1)] brace that assms(2) by (auto simp: item_parts_def)
  let ?r = "connect_route gv sub (if sub = ''process'' then ProcessREST (gv_Version gv) else CreateREST (gv_Version gv))"
  have selected: "set (selectRoutes reg ws ?tokens) = {r \<in> set (ws_Routes ws). ?match r \<noteq> None}"
    by (auto simp: selectRoutes_def List.map_filter_def image_image) (force simp: image_iff)
  have post: "{r \<in> set (ws_Routes ws). rt_Method r \<noteq> MethodGet} =
      {connect_route gv ''create'' (CreateREST (gv_Version gv)), connect_route gv ''process'' (ProcessREST (gv_Version gv))}"
    using ws(2) set_filter [of "\<lambda>r. rt_Method r \<noteq> MethodGet" "ws_Routes ws"] by (auto simp: version_service_def)
  have "''POST'' \<noteq> MethodGet" by (simp add: MethodGet_def)
  have only: "x = ?r" if "x \<in> set (selectRoutes reg ws ?tokens)" "rt_Method x = ''POST''" for x
  proof -
    from that have x: "x \<in> {r \<in> set (ws_Routes ws). rt_Method r \<noteq> MethodGet}" "?match x \<noteq> None"
      using \<open>''POST'' \<noteq> MethodGet\<close> unfolding selected by auto
    then consider "x = connect_route gv ''create'' (CreateREST (gv_Version gv))" | "x = connect_route gv ''process'' (ProcessREST (gv_Version gv))"
      unfolding post by blast
    then show ?thesis
    proof cases
      case 1
      then have "sub = ''create''" using x(2) match [of "''create''"] by blast
      with 1 show ?thesis by simp
    next
      case 2
      then have "sub = ''process''" using x(2) match [of "''process''"] by blast
      with 2 show ?thesis by simp
    qed
  qed
  have "rt_Method ?r = ''POST''" by (simp add: connect_route_def)
  moreover have "?r \<in> set (selectRoutes reg ws ?tokens)"
    unfolding selected using post match [OF assms(2)] assms(2) by auto
  ultimately have "filter (\<lambda>r. rt_Method r = ''POST'') (selectRoutes reg ws ?tokens) \<noteq> []" "selectRoutes reg ws ?tokens \<noteq> []"
    by (auto simp: filter_empty_conv)
  then have "detectRoute (selectRoutes reg ws ?tokens) ''POST'' = Inr ?r"
    using only by (cases "filter (\<lambda>r. rt_Method r = ''POST'') (selectRoutes reg ws ?tokens)") (auto simp: detectRoute_def dest: filter_eq_ConsD)
  then show "SelectRoute reg container req = Inr ?r" by (simp add: SelectRoute_def tokens ws(1) assms(5))
  have "hr_Path req = version_path gv @ ''/namespaces/'' @ ns @ ''/'' @ PluralResourceName @ ''/'' @ name @ ''/'' @ sub"
    by (simp add: assms(6) item_parts_def abs_path_def version_path_def APIGroupPrefix_def)
  moreover have "version_path gv \<noteq> ''/apis''" by (simp add: version_path_def APIGroupPrefix_def)
  ultimately have "claims_path ws (hr_Path req)" using ws(2) by (simp add: claims_path_def version_service_def nth_append HasPrefix_def)
  with ws(3) show "\<exists>ws \<in> set container. claims_path ws (hr_Path req)" by blast
qed

end

text \<open>The container with the services of the two versions, before and behind the filtering of their discovery.\<close>

definition api_services :: "GroupVersion list \<Rightarrow> server_handler web_service list" where
  "api_services gvs = map (\<lambda>gv. InstallREST gv (the (apiGroups gv))) gvs"

lemma installed_version:
  assumes "gv \<in> dom apiGroups"
  shows "version_service gv (InstallREST gv (the (apiGroups gv)))"
proof -
  have "apiGroups gv = Some (version_storages (gv_Version gv))"
    using assms by (auto simp: api_groups(1)) (simp_all add: apiGroups_def subresourcesV1beta1_def subresourcesV1alpha1_def)
  then show ?thesis by (simp add: version_service_def installed_routes)
qed

lemma services_container:
  assumes "set gvs = dom apiGroups" "\<forall>ws \<in> set others. length (tokenizePath (ws_RootPath ws)) \<le> 2"
  shows "api_container (others @ api_services gvs)"
proof
  show "\<exists>ws \<in> set (others @ api_services gvs). version_service gv ws" if "gv \<in> dom apiGroups" for gv
    using installed_version [OF that] that assms(1) by (auto simp: api_services_def)
  show "(\<exists>gv \<in> dom apiGroups. version_service gv ws) \<or> length (tokenizePath (ws_RootPath ws)) \<le> 2"
    if mem: "ws \<in> set (others @ api_services gvs)" for ws
  proof (cases "ws \<in> set others")
    case False
    then obtain gv where gv: "gv \<in> dom apiGroups" "ws = InstallREST gv (the (apiGroups gv))"
      using mem assms(1) unfolding api_services_def set_append set_map by blast
    then show ?thesis using installed_version [OF gv(1)] by blast
  qed (use assms(2) in simp)
qed

definition same_service :: "server_handler web_service \<Rightarrow> server_handler web_service \<Rightarrow> bool" where
  "same_service ws ws' \<longleftrightarrow> ws_RootPath ws' = ws_RootPath ws \<and>
     filter (\<lambda>r. rt_Method r \<noteq> MethodGet) (ws_Routes ws') = filter (\<lambda>r. rt_Method r \<noteq> MethodGet) (ws_Routes ws)"

lemma same_service_refl: "same_service ws ws" "list_all2 same_service c c"
  by (simp_all add: same_service_def list.rel_refl)

lemma filter_service_same: "filter_service gv hidden ws = Inr ws' \<Longrightarrow> same_service ws ws'"
  by (auto simp: filter_service_def RemoveRoute_def same_service_def Let_def filter_empty_conv intro: filter_cong split: option.splits)

lemma filtered_same:
  "installFilteredAPIVersionHandler gv hidden c = Inr c' \<Longrightarrow> list_all2 same_service c c'"
  unfolding installFilteredAPIVersionHandler_def
proof (induction c arbitrary: c')
  case (Cons ws c)
  then show ?case by (auto simp: same_service_refl split: if_splits sum.splits dest: filter_service_same)
qed simp

lemma hide_parents_same: "hide_parents iter groups gvs c = Inr c' \<Longrightarrow> list_all2 same_service c c'"
proof (induction gvs arbitrary: c)
  case (Cons gv gvs)
  let ?h = "getParentResourceNames iter (the (groups gv))"
  from Cons.prems obtain c1 where c1: "(if ?h \<noteq> [] then installFilteredAPIVersionHandler gv ?h c else Inr c) = Inr c1"
    "hide_parents iter groups gvs c1 = Inr c'" by (auto simp: Let_def split: sum.splits if_splits)
  have "list_all2 same_service c c1" using c1(1) filtered_same by (auto simp: same_service_refl split: if_splits)
  then show ?case using Cons.IH [OF c1(2)] by (rule list_all2_trans [rotated]) (auto simp: same_service_def)
qed (simp add: same_service_refl)

lemma filtered_container:
  assumes "api_container c" "hide_parents iter groups gvs c = Inr c'"
  shows "api_container c'"
proof
  note same = hide_parents_same [OF assms(2)]
  have keep: "version_service gv ws' = version_service gv ws" if "same_service ws ws'" for gv ws ws'
    using that by (simp add: same_service_def version_service_def)
  show "\<exists>ws \<in> set c'. version_service gv ws" if gv: "gv \<in> dom apiGroups" for gv
  proof -
    obtain ws where ws: "ws \<in> set c" "version_service gv ws" using api_container.versions [OF assms(1) gv] by blast
    from list_all2_set1 [OF same ws(1)] ws(2) keep show ?thesis by blast
  qed
  show "(\<exists>gv \<in> dom apiGroups. version_service gv ws') \<or> length (tokenizePath (ws_RootPath ws')) \<le> 2" if mem: "ws' \<in> set c'" for ws'
  proof -
    obtain ws where ws: "ws \<in> set c" "same_service ws ws'" using list_all2_set2 [OF same mem] by blast
    from api_container.services [OF assms(1) ws(1)] show ?thesis using ws(2) keep [OF ws(2)] by (auto simp: same_service_def)
  qed
qed

text \<open>Hiding the parents succeeds when every version has its web service, and such a service its discovery route.\<close>

definition discoverable :: "GroupVersion list \<Rightarrow> server_handler web_service list \<Rightarrow> bool" where
  "discoverable gvs c \<longleftrightarrow> version_path ` set gvs \<subseteq> ws_RootPath ` set c \<and>
     (\<forall>ws \<in> set c. \<forall>gv \<in> set gvs. ws_RootPath ws = version_path gv \<longrightarrow> find_original (version_path gv @ ''/'') ws \<noteq> None)"

lemma find_last: "P x \<Longrightarrow> find P (xs @ [x]) \<noteq> None"
  by (auto simp: find_None_iff)

lemma filter_service_finds:
  assumes "find_original (version_path gv @ ''/'') ws \<noteq> None"
  shows "\<exists>ws'. filter_service gv hidden ws = Inr ws' \<and> ws_RootPath ws' = ws_RootPath ws \<and> find_original (version_path gv @ ''/'') ws' \<noteq> None"
proof -
  obtain r where r: "find_original (version_path gv @ ''/'') ws = Some r" using assms by auto
  show ?thesis by (simp add: filter_service_def RemoveRoute_def Let_def r find_original_def [where ws = "_\<lparr>ws_Routes := _\<rparr>"] find_last del: not_None_eq)
qed

lemma filter_first_finds:
  assumes "version_path gv \<in> ws_RootPath ` set c"
    "\<forall>ws \<in> set c. ws_RootPath ws = version_path gv \<longrightarrow> find_original (version_path gv @ ''/'') ws \<noteq> None"
  shows "\<exists>c'. filter_first gv hidden c = Inr c' \<and> ws_RootPath ` set c' = ws_RootPath ` set c \<and>
    (\<forall>ws \<in> set c'. ws \<in> set c \<or> ws_RootPath ws = version_path gv \<and> find_original (version_path gv @ ''/'') ws \<noteq> None)"
  using assms
proof (induction c)
  case (Cons ws c)
  show ?case
  proof (cases "ws_RootPath ws = version_path gv")
    case True
    then obtain ws' where "filter_service gv hidden ws = Inr ws'" "ws_RootPath ws' = ws_RootPath ws" "find_original (version_path gv @ ''/'') ws' \<noteq> None"
      using filter_service_finds [of gv ws hidden] Cons.prems(2) by auto
    then show ?thesis using True by auto
  next
    case False
    then have "version_path gv \<in> ws_RootPath ` set c" using Cons.prems(1) by auto
    with Cons.IH Cons.prems(2) obtain c' where "filter_first gv hidden c = Inr c'" "ws_RootPath ` set c' = ws_RootPath ` set c"
      "\<forall>ws \<in> set c'. ws \<in> set c \<or> ws_RootPath ws = version_path gv \<and> find_original (version_path gv @ ''/'') ws \<noteq> None" by auto
    then show ?thesis using False by auto
  qed
qed simp

lemma hide_parents_finds: "discoverable gvs c \<Longrightarrow> \<exists>c'. hide_parents iter groups gvs c = Inr c'"
proof (induction gvs arbitrary: c)
  case (Cons gv gvs)
  let ?h = "getParentResourceNames iter (the (groups gv))"
  obtain c' where c': "filter_first gv ?h c = Inr c'" "ws_RootPath ` set c' = ws_RootPath ` set c"
      "\<forall>ws \<in> set c'. ws \<in> set c \<or> ws_RootPath ws = version_path gv \<and> find_original (version_path gv @ ''/'') ws \<noteq> None"
    using filter_first_finds [of gv c ?h] Cons.prems by (auto simp: discoverable_def)
  have "discoverable gvs c" "discoverable gvs c'" using Cons.prems c'(2,3) by (auto simp: discoverable_def)
  then show ?case using Cons.IH c'(1) by (auto simp: installFilteredAPIVersionHandler_def Let_def)
qed simp

lemma hide_parents_installed:
  assumes "\<And>ws gv. ws \<in> set own \<Longrightarrow> gv \<in> set gvs \<Longrightarrow> ws_RootPath ws \<noteq> version_path gv"
  shows "\<exists>c. hide_parents iter groups gvs (own @ api_services gvs) = Inr c"
proof (rule hide_parents_finds)
  have new: "ws_RootPath (InstallREST gv st) = version_path gv" "find_original (version_path gv @ ''/'') (InstallREST gv st) \<noteq> None" for gv st
    by (simp_all add: InstallREST_def Install_def Let_def find_original_def find_last del: not_None_eq)
  have "find_original (version_path gv @ ''/'') ws \<noteq> None"
    if ws: "ws \<in> set (api_services gvs)" "ws_RootPath ws = version_path gv" for ws gv
  proof -
    obtain gv' st where "ws = InstallREST gv' st" using ws(1) by (auto simp: api_services_def)
    then show ?thesis using new [of gv' st] ws(2) by simp
  qed
  moreover have "version_path ` set gvs \<subseteq> ws_RootPath ` set (api_services gvs)" by (auto simp: api_services_def image_iff new(1))
  ultimately show "discoverable gvs (own @ api_services gvs)" using assms unfolding discoverable_def set_append by blast
qed

interpretation installed: api_container "api_services [subresourcesV1alpha1, subresourcesV1beta1]"
  using services_container [of "[subresourcesV1alpha1, subresourcesV1beta1]" "[]"] by (auto simp: api_groups(1))

subsection \<open>Requests for items\<close>

lemma item_info:
  assumes "gv \<in> dom apiGroups" "sub \<in> {''process'', ''create''}" "segment ns" "segment name" "hr_Path req = abs_path (item_parts gv ns name sub)"
  shows "\<exists>info. NewRequestInfo {''apis'', ''api''} {''api''} req = Some info \<and> ri_Namespace info = ns \<and> ri_Name info = name \<and>
    ri_Resource info = PluralResourceName \<and> ri_Subresource info = sub"
proof -
  have "list_all segment (item_parts gv ns name sub)" by (rule item_segments [OF assms(1-4)])
  then have "splitPath (hr_Path req) = item_parts gv ns name sub" unfolding assms(5) by (intro tokenizePath_abs) (simp add: item_parts_def)
  moreover have "PluralResourceName \<noteq> ''status''" "PluralResourceName \<noteq> ''finalize''" by (simp_all add: PluralResourceName_def SingularResourceName_def)
  ultimately show ?thesis by (simp add: NewRequestInfo_def item_parts_def namespace_parts_def Let_def)
qed

text \<open>What a server with such a container answers to a POST request for a subresource of an item: what its handler responds.\<close>

lemma item_served:
  assumes "api_container container" "gv \<in> dom apiGroups" "sub \<in> {''process'', ''create''}" "segment ns" "segment name"
    and "hr_Method req = ''POST''" "hr_Path req = abs_path (item_parts gv ns name sub)" "hr_Query req = []"
    and "storage = (if sub = ''process'' then ProcessREST (gv_Version gv) else CreateREST (gv_Version gv))"
    and "admit storage ns name = None" "Connect iter en p c storage ns name = Inr handler"
  shows "serve reg container s iter en ax admit p c req w = http_answer s en ax (handler (hr_Body req) w)"
proof -
  obtain info where info: "NewRequestInfo {''apis'', ''api''} {''api''} req = Some info" "ri_Namespace info = ns" "ri_Name info = name"
    using item_info [OF assms(2-5,7)] by blast
  have "SelectRoute reg container req = Inr (connect_route gv sub storage)"
    unfolding assms(9) by (rule api_container.routed(1) [OF assms(1-7)])
  moreover have "\<exists>ws \<in> set container. claims_path ws (hr_Path req)" by (rule api_container.routed(2) [OF assms(1-7)])
  moreover have "name \<noteq> []" using assms(5) by (simp add: segment_def)
  ultimately show ?thesis
    using info assms(8,10,11) by (simp add: serve_def connect_route_def ConnectResource_def isDryRun_def)
qed

end
