(* ===== verification/Client_Calls.thy ===== *)
theory Client_Calls
  imports Api_Routing
begin

text \<open>
  The calls of the clients of templates in the API server of \<open>Api_Routing\<close>: the body as the handler reads it, the answer as
  the caller reads it, and what a call of an expansion comes to.
\<close>

section \<open>The body of a request\<close>

definition read_map :: "nat \<Rightarrow> string \<Rightarrow> (string \<rightharpoonup> string) option" where
  "read_map d v = (do {
     ms \<leftarrow> object_slices d v;
     vs \<leftarrow> those (map (\<lambda>(k, x). if x = ''null'' then Some [] else read_string x) ms);
     Some (map_of (rev (zip (map fst ms) vs)))})"

text \<open>The body of a request as the handler of the API server reads it when it is JSON.\<close>

definition unmarshalOptions :: "'v vm_encodings \<Rightarrow> string \<Rightarrow> ProcessOptions option" where
  "unmarshalOptions en data = (do {
     ms \<leftarrow> document_members data;
     kind \<leftarrow> string_field ms ''kind'';
     apiVersion \<leftarrow> string_field ms ''apiVersion'';
     meta \<leftarrow> field (ve_readMeta en) empty_meta ms ''metadata'';
     parameters \<leftarrow> field (read_map 1) Map.empty ms ''parameters'';
     Some \<lparr>po_TypeMeta = \<lparr>tm_Kind = kind, tm_APIVersion = apiVersion\<rparr>, po_Meta = meta, po_Parameters = parameters\<rparr>})"

section \<open>Lemmas\<close>

lemma subresource_URL:
  assumes "base_ok (rc_base (cl_client cl))" "gv \<in> {subresourcesV1beta1, subresourcesV1alpha1}" "sub \<in> {''process'', ''create''}"
    "IsValidPathSegmentName (cl_namespace cl) = []" "IsValidPathSegmentName name = []" "cl_namespace cl \<noteq> []" "name \<noteq> []"
  shows "newHTTPRequest (subresource_request cl gv sub name (Some body)) =
      \<lparr>hr_Method = ''POST'', hr_Path = abs_path (parts (rc_base (cl_client cl)) @ item_parts gv (cl_namespace cl) name sub),
       hr_Query = [], hr_Body = body\<rparr>"
proof -
  let ?ss = "parts (rc_base (cl_client cl)) @ [''apis'', gv_Group gv, gv_Version gv]"
  have gv: "segment (gv_Group gv)" "segment (gv_Version gv)" using assms(2) api_segments(1) by blast+
  have segs: "list_all segment ?ss" "segment (cl_namespace cl)" "segment name" "segment sub"
    using gv assms(1,3-) api_segments by (auto simp: base_ok_def valid_segment)
  have 1: "path_Join [abs_path ?ss, ''namespaces'', cl_namespace cl] = abs_path (?ss @ [''namespaces'', cl_namespace cl])"
    using path_Join_abs [OF segs(1), of "[''namespaces'', cl_namespace cl]"] segs api_segments(3) assms(6) by simp
  let ?s2 = "?ss @ [''namespaces'', cl_namespace cl]"
  have seg2: "list_all segment ?s2" using segs api_segments(3) by simp
  have 2: "path_Join [abs_path ?s2, PluralResourceName] = abs_path (?s2 @ [PluralResourceName])"
    using path_Join_abs [OF seg2, of "[PluralResourceName]"] api_segments(4) plural_valid(2) by simp
  let ?s3 = "?s2 @ [PluralResourceName]"
  have seg3: "list_all segment ?s3" using seg2 api_segments(4) by simp
  have 3: "path_Join [abs_path ?s3, name, sub, []] = abs_path (?s3 @ [name, sub])"
    using path_Join_abs [OF seg3, of "[name, sub, []]"] segs assms(7) by (simp add: segment_def)
  show ?thesis
    using 1 2 3 assms(4-7) plural_valid
    by (simp add: newHTTPRequest_def URL_Path_def subresource_request_valid [OF assms(1-5,7)] item_parts_def)
qed

subsection \<open>Options\<close>

definition options_ok :: "(string \<rightharpoonup> string) \<Rightarrow> bool" where
  "options_ok m \<longleftrightarrow> finite (dom m) \<and> (\<forall>k v. m k = Some v \<longrightarrow> valid_utf8_text k = k \<and> valid_utf8_text v = v)"

lemma map_text_members: "(k, v) \<in> set (map (\<lambda>k. (k, json_quote (the (m k)))) ks) \<Longrightarrow> value_text d v"
  by (auto simp: json_quote_text)

lemma those_map_Some: "those (map (\<lambda>x. Some (f x)) xs) = Some (map f xs)"
  by (induction xs) auto

interpretation string_map: codec 1 options_ok map_text "read_map 1" "\<lambda>m. m"
proof
  fix m assume ok: "options_ok m"
  let ?ks = "sorted_list_of_set (dom m)"
  let ?ms = "map (\<lambda>k. (k, json_quote (the (m k)))) ?ks"
  show "value_text 1 (map_text m)" unfolding map_text_def
    by (rule object_text_value) (erule map_text_members, simp add: max_nesting_depth_def)
  show "map_text m \<noteq> ''null''" by (simp add: map_text_def object_text_def)
  have fin: "finite (dom m)" and utf8: "\<And>k v. m k = Some v \<Longrightarrow> valid_utf8_text k = k \<and> valid_utf8_text v = v"
    using ok unfolding options_ok_def by auto
  have ks: "set ?ks = dom m" "distinct ?ks" using fin by simp_all
  have "object_slices 1 (map_text m) = Some (map (\<lambda>(k, v). (valid_utf8_text k, v)) ?ms)"
    unfolding map_text_def by (rule object_text_slices) (erule map_text_members)
  also have "map (\<lambda>(k, v). (valid_utf8_text k, v)) ?ms = ?ms"
    using ks(1) utf8 by (auto simp: dom_def)
  finally have sl: "object_slices 1 (map_text m) = Some ?ms" .
  have not_null: "json_quote x \<noteq> ''null''" for x by (simp add: json_quote_def)
  have "read_string (json_quote (the (m k))) = Some (the (m k))" if "k \<in> set ?ks" for k
    using that ks(1) utf8 by (auto simp: read_string_def quote_syntax)
  then have entries: "map (\<lambda>(k, x). if x = ''null'' then Some [] else read_string x) ?ms = map (\<lambda>k. Some (the (m k))) ?ks"
    by (auto simp: not_null)
  have vs: "those (map (\<lambda>(k, x). if x = ''null'' then Some [] else read_string x) ?ms) = Some (map (\<lambda>k. the (m k)) ?ks)"
    unfolding entries by (rule those_map_Some)
  have fst: "map fst ?ms = ?ks" by (simp add: comp_def)
  have "map_of (zip ?ks (map (\<lambda>k. the (m k)) ?ks)) = m"
    using ks(1) by (intro ext) (auto simp: map_of_zip_map dom_def split: if_splits)
  moreover have "map_of (rev (zip ?ks (map (\<lambda>k. the (m k)) ?ks))) = map_of (zip ?ks (map (\<lambda>k. the (m k)) ?ks))"
    using ks(2) by (subst map_of_inject_set) (simp_all add: rev_map [symmetric])
  ultimately have "map_of (rev (zip ?ks (map (\<lambda>k. the (m k)) ?ks))) = m" by simp
  then show "read_map 1 (map_text m) = Some m" unfolding read_map_def sl by (simp only: bind.bind_lunit vs fst)
qed

lemma type_members:
  "(k, v) \<in> set (omitempty json_quote [] ''kind'' a @ omitempty json_quote [] ''apiVersion'' b @ ms) \<Longrightarrow> (\<And>k v. (k, v) \<in> set ms \<Longrightarrow> value_text d v) \<Longrightarrow>
   value_text d v"
  by (auto dest: str.member_values)

text \<open>
  Options that the body of a request can hold: their strings are valid UTF-8, and their metadata is empty or has an encoding that is read back.
\<close>

definition options_encodable :: "'v vm_encodings \<Rightarrow> ProcessOptions \<Rightarrow> bool" where
  "options_encodable en opts \<longleftrightarrow> options_ok (po_Parameters opts) \<and>
     (po_Meta opts = empty_meta \<or> codec 1 (\<lambda>m. m = po_Meta opts) (ve_Meta en) (ve_readMeta en) (\<lambda>m. m)) \<and>
     valid_utf8_text (tm_Kind (po_TypeMeta opts)) = tm_Kind (po_TypeMeta opts) \<and>
     valid_utf8_text (tm_APIVersion (po_TypeMeta opts)) = tm_APIVersion (po_TypeMeta opts)"

lemma metadata_field:
  assumes "m = empty_meta \<or> codec 1 (\<lambda>x. x = m) w r (\<lambda>m. m)" "''metadata'' \<notin> fst ` set ms"
  shows "field r empty_meta (omitempty w empty_meta ''metadata'' m @ ms) ''metadata'' = Some m"
    and "(k, v) \<in> set (omitempty w empty_meta ''metadata'' m) \<Longrightarrow> value_text 1 v"
proof -
  have none: "member ms ''metadata'' = None" using assms(2) map_of_eq_None_iff [of "rev ms" "''metadata''"] by (simp add: member_def)
  show "field r empty_meta (omitempty w empty_meta ''metadata'' m @ ms) ''metadata'' = Some m"
    using assms(1)
  proof
    assume "codec 1 (\<lambda>x. x = m) w r (\<lambda>m. m)"
    from codec.field_here [OF this assms(2), of empty_meta empty_meta m] show ?thesis by simp
  qed (use none in \<open>simp add: omitempty_def field_def\<close>)
  show "value_text 1 v" if "(k, v) \<in> set (omitempty w empty_meta ''metadata'' m)"
    using assms(1)
  proof
    assume "codec 1 (\<lambda>x. x = m) w r (\<lambda>m. m)"
    from codec.member_values [OF this that] show ?thesis by simp
  qed (use that in \<open>simp add: omitempty_def\<close>)
qed

lemma options_decoded:
  assumes "options_encodable en opts"
  shows "Option.bind (marshalOptions en opts) (\<lambda>t. unmarshalOptions en (t @ newline)) = Some opts"
proof -
  let ?ps = "omitempty map_text Map.empty ''parameters'' (po_Parameters opts)"
  let ?ms = "omitempty json_quote [] ''kind'' (tm_Kind (po_TypeMeta opts)) @ omitempty json_quote [] ''apiVersion'' (tm_APIVersion (po_TypeMeta opts))
     @ omitempty (ve_Meta en) empty_meta ''metadata'' (po_Meta opts) @ ?ps"
  have ok: "options_ok (po_Parameters opts)" "po_Meta opts = empty_meta \<or> codec 1 (\<lambda>m. m = po_Meta opts) (ve_Meta en) (ve_readMeta en) (\<lambda>m. m)"
      "valid_utf8_text (tm_Kind (po_TypeMeta opts)) = tm_Kind (po_TypeMeta opts)" "valid_utf8_text (tm_APIVersion (po_TypeMeta opts)) = tm_APIVersion (po_TypeMeta opts)"
    using assms by (auto simp: options_encodable_def)
  have m: "marshalOptions en opts = Some (object_text ?ms)" by (simp add: marshalOptions_def)
  have no_meta: "''metadata'' \<notin> fst ` set ?ps" by (auto simp: omitempty_def split: if_splits)
  have vals: "value_text 1 v" if "(k, v) \<in> set ?ms" for k v
    using that ok(1) by (elim type_members) (auto dest: string_map.member_values metadata_field(2) [OF ok(2) no_meta])
  have "map (\<lambda>(k, v). (valid_utf8_text k, v)) ?ms = ?ms" by (simp add: keys_ascii)
  then have dm: "document_members (object_text ?ms @ newline) = Some ?ms" using document_members_text [of ?ms] vals by simp
  have "field (read_map 1) Map.empty ?ps ''parameters'' = Some (po_Parameters opts)"
    using ok(1) by (intro string_map.field_last) auto
  then show ?thesis unfolding m bind.bind_lunit unmarshalOptions_def dm
    using metadata_field(1) [OF ok(2) no_meta] by (simp add: field_simps ok del: One_nat_def)
qed

lemma processed_decoded:
  assumes "pt_VirtualMachine p = Some vm" "ve_VM en vm = Some t" "codec 1 ((=) ()) (\<lambda>u. t) (ve_readVM en) (\<lambda>u. vm')" "pt_Meta p = empty_meta"
  obtains data where "marshalProcessed en p = Some data"
    "unmarshalProcessed_v1beta1 en (data @ newline) = Some (p\<lparr>pt_TypeMeta :=
        \<lparr>tm_Kind = valid_utf8_text (tm_Kind (pt_TypeMeta p)), tm_APIVersion = valid_utf8_text (tm_APIVersion (pt_TypeMeta p))\<rparr>,
        pt_TemplateRef := map_option reference_utf8 (pt_TemplateRef p), pt_VirtualMachine := Some vm', pt_Message := valid_utf8_text (pt_Message p)\<rparr>)"
    "Interpret (data @ newline) = map_option (\<lambda>gv. WithKind gv (valid_utf8_text (tm_Kind (pt_TypeMeta p))))
        (ParseGroupVersion (valid_utf8_text (tm_APIVersion (pt_TypeMeta p))))"
proof -
  let ?ms = "omitempty json_quote [] ''kind'' (tm_Kind (pt_TypeMeta p)) @ omitempty json_quote [] ''apiVersion'' (tm_APIVersion (pt_TypeMeta p))
       @ omitempty (marshalReference \<circ> the) None ''templateRef'' (pt_TemplateRef p)
       @ (''virtualMachine'', t) # omitempty json_quote [] ''message'' (pt_Message p)"
  have tt: "value_text 1 t" "ve_readVM en t = Some vm'" "t \<noteq> ''null''"
    using codec.enc_value [OF assms(3), of "()"] codec.dec_enc [OF assms(3), of "()"] codec.enc_not_null [OF assms(3), of "()"] by simp_all
  have t': "codec 1 ((=) ()) (\<lambda>u. t) (\<lambda>v. map_option Some (ve_readVM en v)) (\<lambda>u. Some vm')"
    using tt by (intro codec.intro) simp_all
  have m: "marshalProcessed en p = Some (object_text ?ms)" by (simp add: marshalProcessed_def assms(1,2,4) omitempty_def)
  have vals: "value_text 1 v" if "(k, v) \<in> set ?ms" for k v
    using that tt(1) by (elim type_members) (auto dest: reference.member_values str.member_values)
  have "map (\<lambda>(k, v). (valid_utf8_text k, v)) ?ms = ?ms" by (simp add: keys_ascii)
  then have dm: "document_members (object_text ?ms @ newline) = Some ?ms" using document_members_text [of ?ms] vals by simp
  show thesis
  proof (rule that [OF m])
    show "unmarshalProcessed_v1beta1 en (object_text ?ms @ newline) = Some (p\<lparr>pt_TypeMeta :=
        \<lparr>tm_Kind = valid_utf8_text (tm_Kind (pt_TypeMeta p)), tm_APIVersion = valid_utf8_text (tm_APIVersion (pt_TypeMeta p))\<rparr>,
        pt_TemplateRef := map_option reference_utf8 (pt_TemplateRef p), pt_VirtualMachine := Some vm', pt_Message := valid_utf8_text (pt_Message p)\<rparr>)"
      unfolding unmarshalProcessed_v1beta1_def dm
      by (simp add: field_simps reference_field codec.field_first [OF t'] assms(4))
    show "Interpret (object_text ?ms @ newline) = map_option (\<lambda>gv. WithKind gv (valid_utf8_text (tm_Kind (pt_TypeMeta p))))
        (ParseGroupVersion (valid_utf8_text (tm_APIVersion (pt_TypeMeta p))))"
      unfolding Interpret_def dm by (simp add: field_simps split: bind_split option.split)
  qed
qed

subsection \<open>Calls\<close>

lemma Do_valid:
  assumes "base_ok (rc_base (cl_client cl))" "gv \<in> {subresourcesV1beta1, subresourcesV1alpha1}" "sub \<in> {''process'', ''create''}"
    "IsValidPathSegmentName (cl_namespace cl) = []" "IsValidPathSegmentName name = []" "cl_namespace cl \<noteq> []" "name \<noteq> []"
  shows "Do send (subresource_request cl gv sub name (Some body)) w =
    (case send (newHTTPRequest (subresource_request cl gv sub name (Some body))) w of
       (Inl err, w1) \<Rightarrow> (Inl (NotSent err), w1)
     | (Inr (statusCode, answer), w1) \<Rightarrow> (transformResponse statusCode answer, w1))"
  unfolding Do_def using assms(6)
  by (simp add: subresource_request_valid [OF assms(1-5,7)] requestPreflightCheck_def)

text \<open>The scheme of the clients does not know the types of the subresources: options are encoded, and answers decoded, as they are.\<close>

lemma client_unknown:
  assumes "client_codec = Some s" "gv \<in> {subresourcesV1beta1, subresourcesV1alpha1}" "k \<in> set (api_kinds gv)"
  shows "ObjectKinds s (api_type gv k) = None"
proof -
  obtain s' where s': "client_scheme = Some s'"
    "\<And>gv k. gv \<in> {subresourcesV1beta1, subresourcesV1alpha1} \<Longrightarrow> k \<in> set (api_kinds gv) \<Longrightarrow> ObjectKinds s' (api_type gv k) = None"
    by (rule client_scheme_kinds) blast
  have "s' = s" using s'(1) assms(1) unfolding client_codec_def by (metis option.inject)
  then show ?thesis using s'(2) [OF assms(2,3)] by simp
qed

lemma client_known:
  assumes "client_codec = Some s" "gv \<in> {coreV1beta1, coreV1alpha1}" "k \<in> set (api_kinds gv)"
  shows "ObjectKinds s (api_type gv k) = Some [WithKind gv k]"
proof -
  obtain s' where s': "client_scheme = Some s'"
    "\<And>gv k. gv \<in> {coreV1beta1, coreV1alpha1} \<Longrightarrow> k \<in> set (api_kinds gv) \<Longrightarrow> ObjectKinds s' (api_type gv k) = Some [WithKind gv k]"
    by (rule client_scheme_kinds) blast
  have "s' = s" using s'(1) assms(1) unfolding client_codec_def by (metis option.inject)
  then show ?thesis using s'(2) [OF assms(2,3)] by simp
qed

lemma subresource_kinds:
  assumes "gv \<in> {subresourcesV1beta1, subresourcesV1alpha1}" "k \<in> {''ProcessOptions'', ''ProcessedVirtualMachineTemplate''}"
  shows "k \<in> set (api_kinds gv)"
proof -
  have "\<forall>gv \<in> {subresourcesV1beta1, subresourcesV1alpha1}. \<forall>k \<in> {''ProcessOptions'', ''ProcessedVirtualMachineTemplate''}. k \<in> set (api_kinds gv)"
    by code_simp
  with assms show ?thesis by blast
qed

lemma encode_options_client:
  assumes "client_codec = Some (rc_scheme c)" "gv \<in> {subresourcesV1beta1, subresourcesV1alpha1}"
  shows "encode_options en c gv opts = map_option (\<lambda>t. t @ newline) (marshalOptions en opts)"
  using client_unknown [OF assms subresource_kinds [OF assms(2)], of "''ProcessOptions''"]
  by (simp add: encode_options_def Encode_def encoded_kind_def)

lemma into_processed_client:
  assumes "client_codec = Some (rc_scheme (cl_client cl))" "Interpret body \<noteq> None" "unmarshalProcessed_v1beta1 en body = Some p" "body \<noteq> []"
  shows "into_processed_v1beta1 others en cl (Inr (statusCode, body)) = Inr (untyped_processed p)"
proof -
  have "ObjectKinds (rc_scheme (cl_client cl)) (api_type subresourcesV1beta1 ''ProcessedVirtualMachineTemplate'') = None"
    by (rule client_unknown [OF assms(1)]) (simp_all add: subresource_kinds)
  then show ?thesis using assms(2-) by (auto simp: into_processed_v1beta1_def Into_def Decode_def)
qed

lemma server_text:
  assumes "ObjectKinds s (api_type subresourcesV1beta1 ''ProcessedVirtualMachineTemplate'') = Some [WithKind subresourcesV1beta1 ''ProcessedVirtualMachineTemplate'']"
    and "pt_VirtualMachine p = Some vm" "ve_VM en vm = Some t" "codec 1 ((=) ()) (\<lambda>u. t) (ve_readVM en) (\<lambda>u. vm)" "pt_Meta p = empty_meta"
  obtains data where "answer_text s en ax (BodyV1beta1 p) = Some data" "data \<noteq> []" "Interpret data \<noteq> None"
    "\<exists>p'. unmarshalProcessed_v1beta1 en data = Some p' \<and> untyped_processed p' = untyped_processed
      (p\<lparr>pt_TemplateRef := map_option reference_utf8 (pt_TemplateRef p), pt_Message := valid_utf8_text (pt_Message p)\<rparr>)"
proof -
  let ?tm = "type_of_kind (WithKind subresourcesV1beta1 ''ProcessedVirtualMachineTemplate'')"
  let ?p = "p\<lparr>pt_TypeMeta := ?tm\<rparr>"
  have k: "encoded_kind s subresourcesV1beta1 (api_type subresourcesV1beta1 ''ProcessedVirtualMachineTemplate'') =
      Some (WithKind subresourcesV1beta1 ''ProcessedVirtualMachineTemplate'')"
    using assms(1) by (simp add: encoded_kind_def KindForGroupVersionKinds_def)
  have vm: "pt_VirtualMachine ?p = Some vm" "pt_Meta ?p = empty_meta" using assms(2,5) by simp_all
  obtain data where d: "marshalProcessed en ?p = Some data"
    "unmarshalProcessed_v1beta1 en (data @ newline) = Some (?p\<lparr>pt_TypeMeta :=
        \<lparr>tm_Kind = valid_utf8_text (tm_Kind (pt_TypeMeta ?p)), tm_APIVersion = valid_utf8_text (tm_APIVersion (pt_TypeMeta ?p))\<rparr>,
        pt_TemplateRef := map_option reference_utf8 (pt_TemplateRef ?p), pt_VirtualMachine := Some vm, pt_Message := valid_utf8_text (pt_Message ?p)\<rparr>)"
    "Interpret (data @ newline) = map_option (\<lambda>gv. WithKind gv (valid_utf8_text (tm_Kind (pt_TypeMeta ?p))))
        (ParseGroupVersion (valid_utf8_text (tm_APIVersion (pt_TypeMeta ?p))))"
    using processed_decoded [OF vm(1) assms(3,4) vm(2)] by blast
  have "ParseGroupVersion (valid_utf8_text (tm_APIVersion ?tm)) \<noteq> None" by code_simp
  then have "Interpret (data @ newline) \<noteq> None" using d(3) by simp
  moreover have "answer_text s en ax (BodyV1beta1 p) = Some (data @ newline)"
    by (simp add: answer_text_def Encode_def k d(1))
  ultimately show thesis using that [of "data @ newline"] d(2) assms(2) by (simp add: newline_def untyped_processed_def)
qed

text \<open>A call of an expansion: the request that is sent, and the options that its body holds.\<close>

lemma subresource_call:
  assumes "client_codec = Some (rc_scheme (cl_client cl))" "rc_base (cl_client cl) = ''/''"
    "gv \<in> {subresourcesV1beta1, subresourcesV1alpha1}" "sub \<in> {''process'', ''create''}"
    "IsValidPathSegmentName (cl_namespace cl) = []" "IsValidPathSegmentName name = []" "cl_namespace cl \<noteq> []" "name \<noteq> []"
    "options_encodable en opts"
  obtains req where "unmarshalOptions en (hr_Body req) = Some opts" "hr_Body req = the (encode_options en (cl_client cl) gv opts)"
    "hr_Method req = ''POST''" "hr_Path req = abs_path (item_parts gv (cl_namespace cl) name sub)" "hr_Query req = []"
    "Do send (subresource_request cl gv sub name (encode_options en (cl_client cl) gv opts)) w =
       (case send req w of (Inl err, w1) \<Rightarrow> (Inl (NotSent err), w1) | (Inr (statusCode, answer), w1) \<Rightarrow> (transformResponse statusCode answer, w1))"
proof -
  have base: "base_ok (rc_base (cl_client cl))" "parts (rc_base (cl_client cl)) = []" by (simp_all add: base_ok_def assms(2) parts_def)
  obtain t where t: "marshalOptions en opts = Some t" by (simp add: marshalOptions_def)
  have enc: "encode_options en (cl_client cl) gv opts = Some (t @ newline)" using encode_options_client [OF assms(1,3), of en opts] t by simp
  define req where "req = newHTTPRequest (subresource_request cl gv sub name (Some (t @ newline)))"
  have req: "hr_Method req = ''POST''" "hr_Path req = abs_path (item_parts gv (cl_namespace cl) name sub)" "hr_Query req = []" "hr_Body req = t @ newline"
    using subresource_URL [OF base(1) assms(3-8), of "t @ newline"] base(2) by (simp_all add: req_def)
  have "unmarshalOptions en (hr_Body req) = Some opts" using options_decoded [OF assms(9)] t by (simp add: req(4))
  moreover have "hr_Body req = the (encode_options en (cl_client cl) gv opts)" by (simp add: enc req(4))
  moreover have "Do send (subresource_request cl gv sub name (encode_options en (cl_client cl) gv opts)) w =
       (case send req w of (Inl err, w1) \<Rightarrow> (Inl (NotSent err), w1) | (Inr (statusCode, answer), w1) \<Rightarrow> (transformResponse statusCode answer, w1))"
    unfolding enc req_def by (rule Do_valid [OF base(1) assms(3-8)])
  ultimately show thesis using req(1-3) that by blast
qed

text \<open>What the caller gets for what a v1beta1 handler answers.\<close>

definition client_view :: "gval answer_texts \<Rightarrow> 'w answer \<Rightarrow> (request_error + processed) \<times> 'w" where
  "client_view ax a =
     (case a of
        (Panics, w) \<Rightarrow> (Inl (Unsuccessful 500 (panic_text @ newline)), w)
      | (Diverges, w) \<Rightarrow> (Inl (NotSent (ax_timeout ax)), w)
      | (Returns (ws, ResponseError e), w) \<Rightarrow> (Inl (Unsuccessful (fst (ax_error ax e)) (snd (ax_error ax e))), w)
      | (Returns (ws, ResponseObject statusCode (BodyV1alpha1 q)), w) \<Rightarrow> (Inl NotDecoded, w)
      | (Returns (ws, ResponseObject statusCode (BodyV1beta1 q)), w) \<Rightarrow>
          (Inr (q\<lparr>pt_TemplateRef := map_option reference_utf8 (pt_TemplateRef q), pt_Message := valid_utf8_text (pt_Message q)\<rparr>), w))"

text \<open>An object that the handlers answer with: its VirtualMachine is encoded, and the encoding can be read.\<close>

definition answerable :: "gval vm_encodings \<Rightarrow> processed \<Rightarrow> bool" where
  "answerable en q \<longleftrightarrow> (\<exists>vm t. pt_VirtualMachine q = Some vm \<and> ve_VM en vm = Some t \<and> codec 1 ((=) ()) (\<lambda>u. t) (ve_readVM en) (\<lambda>u. vm))"

definition v1beta1_answer :: "'w answer \<Rightarrow> bool" where
  "v1beta1_answer a \<longleftrightarrow> (\<forall>ws statusCode b w. a = (Returns (ws, ResponseObject statusCode b), w) \<longrightarrow>
     statusCode = StatusOK \<and> (\<exists>q. b = BodyV1beta1 q \<and> pt_TypeMeta q = empty_type \<and> pt_Meta q = empty_meta))"

lemma answered:
  assumes "client_codec = Some (rc_scheme (cl_client cl))"
    and "ObjectKinds s (api_type subresourcesV1beta1 ''ProcessedVirtualMachineTemplate'') = Some [WithKind subresourcesV1beta1 ''ProcessedVirtualMachineTemplate'']"
    and "v1beta1_answer a" "\<forall>e. 206 < fst (ax_error ax e)"
    and "\<forall>ws q w. a = (Returns (ws, ResponseObject StatusOK (BodyV1beta1 q)), w) \<longrightarrow> answerable en q"
  shows "apfst (into_processed_v1beta1 others en cl)
      (case http_answer s en ax a of (Inl err, w1) \<Rightarrow> (Inl (NotSent err), w1) | (Inr (statusCode, answer), w1) \<Rightarrow> (transformResponse statusCode answer, w1))
    = client_view ax a"
proof (cases "\<exists>ws statusCode b w. a = (Returns (ws, ResponseObject statusCode b), w)")
  case True
  then obtain ws q w where a: "a = (Returns (ws, ResponseObject StatusOK (BodyV1beta1 q)), w)" and q: "pt_TypeMeta q = empty_type" "pt_Meta q = empty_meta"
    using assms(3) unfolding v1beta1_answer_def by blast
  then obtain vm t where vm: "pt_VirtualMachine q = Some vm" "ve_VM en vm = Some t" "codec 1 ((=) ()) (\<lambda>u. t) (ve_readVM en) (\<lambda>u. vm)"
    using assms(5) unfolding answerable_def by blast
  obtain data p' where d: "answer_text s en ax (BodyV1beta1 q) = Some data" "data \<noteq> []" "Interpret data \<noteq> None"
      "unmarshalProcessed_v1beta1 en data = Some p'" "untyped_processed p' = untyped_processed
        (q\<lparr>pt_TemplateRef := map_option reference_utf8 (pt_TemplateRef q), pt_Message := valid_utf8_text (pt_Message q)\<rparr>)"
    by (rule server_text [OF assms(2) vm q(2), of ax]) blast
  have "http_answer s en ax a = (Inr (StatusOK, data), w)" by (simp add: a http_answer_def responder_Object_def d(1))
  then show ?thesis
    using into_processed_client [OF assms(1) d(3,4,2), of others StatusOK] d(5) q(1)
    by (simp add: a client_view_def transformResponse_def StatusOK_def) (simp add: untyped_processed_def)
next
  case False
  then consider w where "a = (Panics, w)" | w where "a = (Diverges, w)" | ws e w where "a = (Returns (ws, ResponseError e), w)"
    by (metis prod.collapse response.exhaust run.exhaust)
  then show ?thesis
  proof cases
    case 3
    obtain n msg where e: "ax_error ax e = (n, msg)" by force
    then have "206 < n" using assms(4) by (metis fst_conv)
    then show ?thesis by (simp add: 3 e http_answer_def responder_Error_def client_view_def transformResponse_def into_processed_v1beta1_def Into_def)
  qed (simp_all add: http_answer_def client_view_def transformResponse_def into_processed_v1beta1_def Into_def)
qed

lemma handlers_v1beta1:
  "ConnectProcessV1beta1 iter p (Some ns) name = Inr h \<Longrightarrow> v1beta1_answer (h body w)"
  "ConnectCreateV1beta1 iter c (Some ns) name = Inr h' \<Longrightarrow> v1beta1_answer (h' body w)"
proof -
  have q: "pt_TypeMeta q = empty_type \<and> pt_Meta q = empty_meta"
    if "ProcessTemplate iter sv processor body ns name w = (Returns (ws, Inr q), w1)" for iter sv processor body ns name w ws q w1
    using that by (auto simp: ProcessTemplate_def processed_template_def split: sum.splits prod.splits dest!: process_merged_VM)
  show "ConnectProcessV1beta1 iter p (Some ns) name = Inr h \<Longrightarrow> v1beta1_answer (h body w)"
    by (auto simp: ConnectProcessV1beta1_def v1beta1_answer_def on_processed_def respond_def split: prod.splits run.splits sum.splits dest: q)
  show "ConnectCreateV1beta1 iter c (Some ns) name = Inr h' \<Longrightarrow> v1beta1_answer (h' body w)"
    by (auto simp: ConnectCreateV1beta1_def v1beta1_answer_def on_processed_def create_processed_def respond_def
        split: prod.splits run.splits sum.splits dest: q)
qed

section \<open>Properties\<close>

lemma calls_served:
  assumes "library_kinds lib" "registration lib clientgo" "registration lib virtclientgo" "registration lib cdi" "scheme_New clientgo virtclientgo cdi = Some s"
    and "api_container container"
    and "client_codec = Some (rc_scheme (cl_client cl))" "rc_base (cl_client cl) = ''/''"
    and "IsValidPathSegmentName (cl_namespace cl) = []" "IsValidPathSegmentName name = []" "cl_namespace cl \<noteq> []" "name \<noteq> []"
    and "options_encodable en opts"
    and admitted: "admit (ProcessREST ''v1beta1'') (cl_namespace cl) name = None" "admit (CreateREST ''v1beta1'') (cl_namespace cl) name = None"
    and process: "ConnectProcessV1beta1 iter p (Some (cl_namespace cl)) name = Inr process"
    and create: "ConnectCreateV1beta1 iter c (Some (cl_namespace cl)) name = Inr create"
    and codes: "\<forall>e. 206 < fst (ax_error ax e)"
    and answers: "\<forall>body ws q w1. process body w = (Returns (ws, ResponseObject StatusOK (BodyV1beta1 q)), w1) \<longrightarrow> answerable en q"
      "\<forall>body ws q w1. create body w = (Returns (ws, ResponseObject StatusOK (BodyV1beta1 q)), w1) \<longrightarrow> answerable en q"
  shows "\<exists>body. unmarshalOptions en body = Some opts \<and>
    Process_v1beta1 others en (serve reg container s iter en ax admit p c) cl name opts w = client_view ax (process body w) \<and>
    CreateVirtualMachine_v1beta1 others en (serve reg container s iter en ax admit p c) cl name opts w = client_view ax (create body w)"
proof -
  let ?gv = subresourcesV1beta1 and ?k = "''ProcessedVirtualMachineTemplate''"
  obtain s' where "scheme_New clientgo virtclientgo cdi = Some s'" "\<forall>gv. \<forall>k \<in> set (api_kinds gv). ObjectKinds s' (api_type gv k) = Some [WithKind gv k]"
    using scheme_New_kinds [OF assms(1-4)] by blast
  moreover have "?k \<in> set (api_kinds ?gv)" by (rule subresource_kinds) simp_all
  ultimately have kinds: "ObjectKinds s (api_type ?gv ?k) = Some [WithKind ?gv ?k]" using assms(5) by (metis option.inject)
  have gv: "?gv \<in> {subresourcesV1beta1, subresourcesV1alpha1}" "?gv \<in> dom apiGroups" "gv_Version ?gv = ''v1beta1''"
    by (simp_all add: api_groups(1)) (simp add: subresourcesV1beta1_def)
  have seg: "segment (cl_namespace cl)" "segment name" using assms(9-12) by (simp_all add: valid_segment)
  let ?send = "serve reg container s iter en ax admit p c"
  note call_sent = subresource_call [OF assms(7,8) gv(1) _ assms(9-13), where send = ?send and w = w]
  note served = item_served [OF assms(6) gv(2) _ seg, where reg = reg and s = s and ax = ax and w = w and admit = admit and p = p and c = c, unfolded gv(3)]
  obtain r1 where r1: "unmarshalOptions en (hr_Body r1) = Some opts" "hr_Body r1 = the (encode_options en (cl_client cl) ?gv opts)"
      "hr_Method r1 = ''POST''" "hr_Path r1 = abs_path (item_parts ?gv (cl_namespace cl) name ''process'')" "hr_Query r1 = []"
      "Do ?send (subresource_request cl ?gv ''process'' name (encode_options en (cl_client cl) ?gv opts)) w =
        (case ?send r1 w of (Inl err, w1) \<Rightarrow> (Inl (NotSent err), w1) | (Inr (statusCode, answer), w1) \<Rightarrow> (transformResponse statusCode answer, w1))"
    by (rule call_sent [of "''process''"]) auto
  obtain r2 where r2: "hr_Body r2 = the (encode_options en (cl_client cl) ?gv opts)"
      "hr_Method r2 = ''POST''" "hr_Path r2 = abs_path (item_parts ?gv (cl_namespace cl) name ''create'')" "hr_Query r2 = []"
      "Do ?send (subresource_request cl ?gv ''create'' name (encode_options en (cl_client cl) ?gv opts)) w =
        (case ?send r2 w of (Inl err, w1) \<Rightarrow> (Inl (NotSent err), w1) | (Inr (statusCode, answer), w1) \<Rightarrow> (transformResponse statusCode answer, w1))"
    by (rule call_sent [of "''create''"]) auto
  have 1: "?send r1 w = http_answer s en ax (process (hr_Body r1) w)"
    by (rule served [OF _ r1(3-5), where storage = "ProcessREST ''v1beta1''"]) (simp_all add: admitted process Connect_def)
  have "?send r2 w = http_answer s en ax (create (hr_Body r2) w)"
    by (rule served [OF _ r2(2-4), where storage = "CreateREST ''v1beta1''"]) (simp_all add: admitted create Connect_def)
  then have 2: "?send r2 w = http_answer s en ax (create (hr_Body r1) w)" by (simp add: r2(1) r1(2))
  have "Process_v1beta1 others en ?send cl name opts w = client_view ax (process (hr_Body r1) w)"
    unfolding Process_v1beta1_def r1(6) 1
    by (rule answered [OF assms(7) kinds handlers_v1beta1(1) [OF process] codes]) (use answers(1) in blast)
  moreover have "CreateVirtualMachine_v1beta1 others en ?send cl name opts w = client_view ax (create (hr_Body r1) w)"
    unfolding CreateVirtualMachine_v1beta1_def r2(5) 2
    by (rule answered [OF assms(7) kinds handlers_v1beta1(2) [OF create] codes]) (use answers(2) in blast)
  ultimately show ?thesis using r1(1) by blast
qed


lemma process_errors:
  assumes "ProcessTemplate iter sv processor body ns tid w = (Returns (ws, Inl err), w1)"
  shows "(\<exists>e. err = BadRequest e \<or> err = InternalError e) \<or> (\<exists>tpl w2. sv_Get sv ns tid w = (Inr tpl, w2) \<and>
    (\<exists>k errs. err = Conflict (group_kind (t_TypeMeta tpl)) tid k \<or> err = Invalid (group_kind (t_TypeMeta tpl)) tid errs))"
proof -
  have m: "\<exists>errs. err = Invalid (group_kind (t_TypeMeta tpl)) tid errs"
    if "process_merged iter processor ns tid tpl = Returns (ws, Inl err)" for tpl
    using that by (auto simp: process_merged_def split: run.splits if_splits sum.splits)
  show ?thesis
    using assms m [of "with_parameters _ _"] by (auto simp: ProcessTemplate_def split: sum.splits prod.splits)
qed

lemma fetched_untyped:
  assumes "Get_template others en send cl params name w = (Inr tpl, w1)"
  shows "t_TypeMeta tpl = empty_type"
  using assms by (auto simp: Get_template_def apfst_def map_prod_def Into_def untyped_template_def zero_template_def
      split: prod.splits sum.splits if_splits option.splits)

text \<open>
  C35.  The errors of the subresources do not say what they are about: a template that is fetched by a client has no type metadata, since the
  decoder of the clients clears it, so that every conflict and every invalid template is reported with an empty
  group and an empty kind.
\<close>

theorem errors_without_kind:
  assumes "\<forall>ns tid w. sv_Get sv ns tid w = apfst (map_sum render (\<lambda>tpl. tpl))
      (Get_template others en send (newVirtualMachineTemplates_v1beta1 client ns) params tid w)"
    and "ProcessTemplate iter sv processor body ns tid w = (Returns (warnings, Inl err), w1)"
  shows "case err of Conflict gk name k \<Rightarrow> gk = ([], []) | Invalid gk name errs \<Rightarrow> gk = ([], []) | _ \<Rightarrow> True"
proof -
  have none: "group_kind empty_type = ([], [])" by (simp add: group_kind_def empty_type_def parse_group_def)
  let ?get = "Get_template others en send (newVirtualMachineTemplates_v1beta1 client ns) params tid w"
  have get: "sv_Get sv ns tid w = (map_sum render (\<lambda>tpl. tpl) (fst ?get), snd ?get)" using assms(1) by (simp add: apfst_def map_prod_def split: prod.split)
  have "t_TypeMeta tpl = empty_type" if "sv_Get sv ns tid w = (Inr tpl, w1)" for tpl w1
  proof -
    have "map_sum render (\<lambda>tpl. tpl) (fst ?get) = Inr tpl" using that get by (metis fst_conv)
    then have "fst ?get = Inr tpl" by (cases "fst ?get") simp_all
    then show ?thesis using fetched_untyped by (metis prod.collapse)
  qed
  then show ?thesis using process_errors [OF assms(2)] none by (auto split: status_error.split)
qed

section \<open>Witnesses\<close>

text \<open>An API server whose store has one template, and that makes the same VirtualMachine of every template.\<close>

definition example_vm :: gval where
  "example_vm = GPtr (TStruct ''VirtualMachine'') None"

definition example_store :: "(string, unit) template_server" where
  "example_store = \<lparr>sv_Decode = (\<lambda>n b. case unmarshalOptions example_vm_encodings b of Some opts \<Rightarrow> Inr opts | None \<Rightarrow> Inl ''error''),
     sv_Get = (\<lambda>ns tid w. (Inr (example_template [example_parameter ''NAME'' ''x'']), w))\<rparr>"

definition example_process :: "(string, unit) process_rest" where
  "example_process = \<lparr>ps_client = example_store, ps_processor = (\<lambda>tpl. Returns (Inr (example_vm, ''done'')))\<rparr>"

definition example_create :: "(string, unit) create_rest" where
  "example_create = \<lparr>cs_client = example_store, cs_virtClient = \<lparr>vs_Create = (\<lambda>ns vm w. (Inr vm, w))\<rparr>,
     cs_processor = (\<lambda>tpl. Returns (Inr (example_vm, ''done'')))\<rparr>"

definition example_answers :: "gval answer_texts" where
  "example_answers = \<lparr>ax_error = (\<lambda>e. (422, ''error'')), ax_connect = (\<lambda>e. (500, e)), ax_v1alpha1 = (\<lambda>q. None), ax_encode = (500, ''error''),
     ax_plain = (\<lambda>code. ''error''), ax_other = (\<lambda>req. (404, ''not found'')), ax_timeout = ''timeout''\<rparr>"

text \<open>The container of a server that serves the two versions beside a list of its groups.\<close>

definition example_own :: "server_handler web_service list" where
  "example_own = [\<lparr>ws_RootPath = ''/apis'', ws_Routes = [], ws_DynamicRoutes = False\<rparr>]"

abbreviation both_versions :: "GroupVersion list" where
  "both_versions \<equiv> [subresourcesV1alpha1, subresourcesV1beta1]"

lemma example_container:
  obtains container where "hide_parents sorted_list_of_set apiGroups both_versions (example_own @ api_services both_versions) = Inr container"
proof -
  have "ws_RootPath ws \<noteq> version_path gv" if "ws \<in> set example_own" "gv \<in> set both_versions" for ws gv
    using that by (auto simp: example_own_def version_path_def APIGroupPrefix_def)
  then show thesis using that hide_parents_installed [of example_own both_versions sorted_list_of_set] by blast
qed

lemma example_answerable: "pt_VirtualMachine q = Some example_vm \<Longrightarrow> answerable example_vm_encodings q"
proof -
  assume "pt_VirtualMachine q = Some example_vm"
  moreover have "codec 1 ((=) ()) (\<lambda>u. ''{}'') (ve_readVM example_vm_encodings) (\<lambda>u. example_vm)"
    by (rule codec.intro) (simp_all add: example_vm_encodings_def example_vm_def empty_texts max_nesting_depth_def)
  ultimately show ?thesis by (simp add: answerable_def example_vm_encodings_def)
qed

lemma example_objects:
  assumes "ProcessTemplate iter sv (\<lambda>tpl. Returns (Inr (example_vm, ''done''))) body ns tid w = (Returns (ws, Inr q), w1)"
  shows "pt_VirtualMachine q = Some example_vm"
  using assms by (auto simp: ProcessTemplate_def processed_template_def split: sum.splits prod.splits dest!: process_merged_VM)

lemma example_handlers:
  assumes "ConnectProcessV1beta1 iter example_process (Some ns) tid = Inr h" "ConnectCreateV1beta1 iter example_create (Some ns) tid = Inr h'"
  shows "h body w = (Returns (ws, ResponseObject StatusOK (BodyV1beta1 q)), w1) \<Longrightarrow> answerable example_vm_encodings q"
    "h' body w = (Returns (ws, ResponseObject StatusOK (BodyV1beta1 q)), w1) \<Longrightarrow> answerable example_vm_encodings q"
  using assms
  by (auto simp: ConnectProcessV1beta1_def ConnectCreateV1beta1_def example_process_def example_create_def on_processed_def create_processed_def respond_def
      split: prod.splits run.splits sum.splits intro!: example_answerable dest!: example_objects)


definition example_stored :: string where
  "example_stored = concat (map (\<lambda>c. if c = CHR ''!'' then [CHR 0x22] else [c])
     ''{!kind!:!VirtualMachineTemplate!,!apiVersion!:!template.kubevirt.io/v1beta1!,!spec!:{!virtualMachine!:{}}}'')"

definition example_fetch :: "Scheme \<Rightarrow> (unit, unit) template_server" where
  "example_fetch s = \<lparr>sv_Decode = (\<lambda>n b. Inr (example_options [''A'' \<mapsto> ''x''])),
     sv_Get = (\<lambda>ns tid w. apfst (map_sum (\<lambda>e. ''error'') (\<lambda>tpl. tpl))
       (Get_template (\<lambda>t b. Some False) example_encodings (\<lambda>req w. (Inr (200, example_stored), w)) (example_client s ns) (Inr []) tid w))\<rparr>"

lemma example_fetched:
  assumes "client_codec = Some s"
  obtains tpl where "sv_Get (example_fetch s) ''ns'' ''tpl'' () = (Inr tpl, ())" "ts_Parameters (t_Spec tpl) = []"
proof -
  have names: "IsValidPathSegmentName ''ns'' = []" "IsValidPathSegmentName ''tpl'' = []" "IsValidPathSegmentName ''virtualmachinetemplates'' = []"
    by (simp_all add: valid_segment_iff)
  have r: "rq_err (get_request (example_client s ''ns'') (Inr []) ''tpl'') = None"
      "requestPreflightCheck (get_request (example_client s ''ns'') (Inr []) ''tpl'') = None"
    by (simp_all add: get_request_def example_client_def newVirtualMachineTemplates_v1beta1_def VersionedParams_def Name_def Resource_def NamespaceIfScoped_def
        Namespace_def unless_err_def Verb_def NewRequest_def requestPreflightCheck_def names)
  have k: "ObjectKinds s (api_type coreV1beta1 ''VirtualMachineTemplate'') = Some [WithKind coreV1beta1 ''VirtualMachineTemplate'']"
    by (rule client_known [OF assms]) (simp, code_simp)
  have i: "Interpret example_stored = Some (WithKind coreV1beta1 ''VirtualMachineTemplate'')" by code_simp
  have "map_option (\<lambda>tpl :: Template. ts_Parameters (t_Spec tpl)) (unmarshalTemplate example_encodings example_stored) = Some []" by code_simp
  then obtain tpl :: Template where t: "unmarshalTemplate example_encodings example_stored = Some tpl" "ts_Parameters (t_Spec tpl) = []" by auto
  have d: "gvkWithDefaults (WithKind coreV1beta1 ''VirtualMachineTemplate'') (WithKind coreV1beta1 ''VirtualMachineTemplate'') =
      WithKind coreV1beta1 ''VirtualMachineTemplate''" by code_simp
  have ne: "example_stored \<noteq> []" "gv_Version coreV1beta1 \<noteq> []" by code_simp+
  have "Decode s (api_type coreV1beta1 ''VirtualMachineTemplate'') (unmarshalTemplate example_encodings) example_stored = Some (Inl tpl)"
    by (simp add: Decode_def i k d t(1) ne Let_def)
  then have "sv_Get (example_fetch s) ''ns'' ''tpl'' () = (Inr (untyped_template tpl), ())"
    using ne(1) by (simp add: example_fetch_def Get_template_def Do_def r Into_def transformResponse_def)
      (simp add: example_client_def newVirtualMachineTemplates_v1beta1_def)
  then show thesis by (rule that) (simp add: untyped_template_def t(2))
qed

theorem errors_without_kind_witness:
  "\<exists>s. client_codec = Some s \<and> ProcessTemplate sorted_list_of_set (example_fetch s) (\<lambda>tpl. Panics) () ''ns'' ''tpl'' () =
     (Returns ([], Inl (Conflict ([], []) ''tpl'' ''A'')), ())"
proof -
  obtain s where s: "client_codec = Some s" using client_scheme_built by blast
  obtain tpl where tpl: "sv_Get (example_fetch s) ''ns'' ''tpl'' () = (Inr tpl, ())" "ts_Parameters (t_Spec tpl) = []"
    by (rule example_fetched [OF s])
  let ?gk = "group_kind (t_TypeMeta tpl)"
  have "given_values sorted_list_of_set (example_options [''A'' \<mapsto> ''x'']) = [(''A'', ''x'')]" by (simp add: given_values_def example_options_def)
  moreover have "MergeParameters [] [(''A'', ''x'')] = Inl ''A''" by code_simp
  moreover have "sv_Decode (example_fetch s) JSONBufferSize () = Inr (example_options [''A'' \<mapsto> ''x''])" by (simp add: example_fetch_def)
  ultimately have p: "ProcessTemplate sorted_list_of_set (example_fetch s) (\<lambda>tpl. Panics) () ''ns'' ''tpl'' () =
      (Returns ([], Inl (Conflict ?gk ''tpl'' ''A'')), ())"
    by (simp add: ProcessTemplate_def tpl)
  have "\<forall>ns tid w. sv_Get (example_fetch s) ns tid w = apfst (map_sum (\<lambda>e. ''error'') (\<lambda>tpl. tpl))
      (Get_template (\<lambda>t b. Some False) example_encodings (\<lambda>req w. (Inr (200, example_stored), w))
        (newVirtualMachineTemplates_v1beta1 \<lparr>tc_restClient = \<lparr>rc_base = ''/'', rc_versionedAPIPath = ''/apis/template.kubevirt.io/v1beta1'',
           rc_GroupVersion = coreV1beta1, rc_scheme = s, rc_rateLimiter = (None :: unit option), rc_Client = ()\<rparr>\<rparr> ns) (Inr []) tid w)"
    by (simp add: example_fetch_def example_client_def)
  from errors_without_kind [OF this p] have "?gk = ([], [])" by simp
  with s p show ?thesis by metis
qed

end
