(* ===== verification/Openapi.thy ===== *)
theory Openapi
  imports Openapi_Definitions Client_Calls "HOL-Library.Product_Lexorder"
begin

text \<open>
  The OpenAPI configuration of the API server, \<^verbatim>\<open>internal/apiserver/openapi/openapi.go\<close>, with the namer of the definitions of
  \<^verbatim>\<open>k8s.io/apiserver\<close>, and what the published schemas say about the documents that the API server and the clients write.

  A reference is its text.  The function that names operations is a parameter, as are the definitions of library types.
\<close>

section \<open>Names of definitions\<close>

fun strings_Split1 :: "char \<Rightarrow> string \<Rightarrow> string list" where
  "strings_Split1 sep [] = [[]]"
| "strings_Split1 sep (c # cs) =
     (if c = sep then [] # strings_Split1 sep cs
      else (case strings_Split1 sep cs of [] \<Rightarrow> [[c]] | w # ws \<Rightarrow> (c # w) # ws))"

definition ToRESTFriendlyName :: "string \<Rightarrow> string" where
  "ToRESTFriendlyName name =
     (case strings_Split1 (CHR ''/'') name of
        [] \<Rightarrow> []
      | p # ps \<Rightarrow> strings_Join ((if strings_Contains p ''.'' then strings_Join (rev (strings_Split1 (CHR ''.'') p)) ''.'' else p) # ps) ''.'')"

definition EscapeJsonPointer :: "string \<Rightarrow> string" where
  "EscapeJsonPointer p =
     (let p = concat (map (\<lambda>c. if c = CHR ''~'' then ''~0'' else [c]) p)
      in concat (map (\<lambda>c. if c = CHR ''/'' then ''~1'' else [c]) p))"

definition typeName :: "GoType \<Rightarrow> string" where
  "typeName t =
     (case strings_Index (ty_Package t) ''/vendor/'' of
        Some i \<Rightarrow> drop (i + length ''/vendor/'') (ty_Package t)
      | None \<Rightarrow> ty_Package t) @ ''.'' @ ty_Name t"

type_synonym DefinitionNamer = "string \<rightharpoonup> GroupVersionKind list"

definition gvk_key :: "GroupVersionKind \<Rightarrow> string \<times> string \<times> string" where
  "gvk_key gvk = (gvk_Group gvk, gvk_Version gvk, gvk_Kind gvk)"

definition add_kind :: "GroupVersionKind \<times> GoType \<Rightarrow> DefinitionNamer \<Rightarrow> DefinitionNamer" where
  "add_kind = (\<lambda>(gvk, t) m.
     let kinds = (case m (typeName t) of Some ks \<Rightarrow> ks | None \<Rightarrow> [])
     in if gvk \<in> set kinds then m else m(typeName t \<mapsto> kinds @ [gvk]))"

text \<open>The types are visited in the order of an iteration over the map of the scheme.\<close>

definition NewDefinitionNamer :: "(GroupVersionKind set \<Rightarrow> GroupVersionKind list) \<Rightarrow> Scheme \<Rightarrow> DefinitionNamer" where
  "NewDefinitionNamer iter s =
     (let m = fold add_kind (map (\<lambda>gvk. (gvk, the (sm_gvkToType s gvk))) (iter (dom (sm_gvkToType s)))) Map.empty
      in (\<lambda>name. map_option (sort_key gvk_key) (m name)))"

definition GetDefinitionName :: "DefinitionNamer \<Rightarrow> string \<Rightarrow> string \<times> GroupVersionKind list option" where
  "GetDefinitionName d name = (case d name of Some kinds \<Rightarrow> (ToRESTFriendlyName name, Some kinds) | None \<Rightarrow> (ToRESTFriendlyName name, None))"

section \<open>Configurations\<close>

record openapi_info =
  io_Title :: string
  io_Description :: string
  io_Contact :: "string \<times> string \<times> string"
  io_License :: "string \<times> string"

definition openapi_info :: openapi_info where
  "openapi_info = \<lparr>io_Title = ''KubeVirt Template API'', io_Description = ''This is KubeVirt Template API an add-on for Kubernetes.'',
     io_Contact = (''kubevirt-dev'', ''kubevirt-dev@googlegroups.com'', ''https://github.com/kubevirt/virt-template''),
     io_License = (''Apache 2.0'', ''https://www.apache.org/licenses/LICENSE-2.0'')\<rparr>"

definition defaultResponseDescription :: string where
  "defaultResponseDescription = ''Default Response.''"

type_synonym definitions_of = "string ReferenceCallback \<Rightarrow> (string \<times> string OpenAPIDefinition) list"

record 'o openapi_config =
  oc_ProtocolList :: "string list"
  oc_Info :: openapi_info
  oc_DefaultResponse :: string
  oc_GetOperationIDAndTags :: 'o
  oc_GetDefinitionName :: "string \<Rightarrow> string \<times> GroupVersionKind list option"
  oc_GetDefinitions :: definitions_of

definition NewConfig ::
  "definitions_of \<Rightarrow> 'o \<Rightarrow> (GroupVersionKind set \<Rightarrow> GroupVersionKind list) \<Rightarrow> Scheme \<Rightarrow> 'o openapi_config" where
  "NewConfig others operations iter s = \<lparr>oc_ProtocolList = [''https''], oc_Info = openapi_info, oc_DefaultResponse = defaultResponseDescription,
     oc_GetOperationIDAndTags = operations, oc_GetDefinitionName = GetDefinitionName (NewDefinitionNamer iter s),
     oc_GetDefinitions = GetOpenAPIDefinitions others\<rparr>"

record 'o openapi_v3_config =
  o3_Info :: openapi_info
  o3_DefaultResponse :: string
  o3_GetOperationIDAndTags :: 'o
  o3_GetDefinitionName :: "string \<Rightarrow> string \<times> GroupVersionKind list option"
  o3_GetDefinitions :: definitions_of
  o3_Definitions :: "(string \<times> string OpenAPIDefinition) list"

definition v3_ref :: "(string \<Rightarrow> string \<times> GroupVersionKind list option) \<Rightarrow> string \<Rightarrow> string" where
  "v3_ref getName name = ''#/components/schemas/'' @ EscapeJsonPointer (fst (getName name))"

definition NewV3Config ::
  "definitions_of \<Rightarrow> 'o \<Rightarrow> (GroupVersionKind set \<Rightarrow> GroupVersionKind list) \<Rightarrow> Scheme \<Rightarrow> 'o openapi_v3_config" where
  "NewV3Config others operations iter s =
     (let getName = GetDefinitionName (NewDefinitionNamer iter s)
      in \<lparr>o3_Info = openapi_info, o3_DefaultResponse = defaultResponseDescription, o3_GetOperationIDAndTags = operations,
           o3_GetDefinitionName = getName, o3_GetDefinitions = GetOpenAPIDefinitions others,
           o3_Definitions = GetOpenAPIDefinitions others (v3_ref getName)\<rparr>)"

text \<open>What a reference in the published document stands for: every definition is published under its name.\<close>

definition resolve :: "'o openapi_v3_config \<Rightarrow> string \<rightharpoonup> string schema" where
  "resolve config = map_of (map (\<lambda>(n, def). (v3_ref (o3_GetDefinitionName config) n, od_Schema def)) (o3_Definitions config))"

section \<open>Lemmas\<close>

lemma fst_GetDefinitionName [simp]: "fst (GetDefinitionName d name) = ToRESTFriendlyName name"
  by (simp add: GetDefinitionName_def split: option.split)

text \<open>The kinds of a type, in the order of the iteration before they are sorted.\<close>

lemma fold_add_kind:
  "distinct (map fst ps) \<Longrightarrow> \<forall>gvk \<in> fst ` set ps. \<forall>n. gvk \<notin> set (case m n of Some ks \<Rightarrow> ks | None \<Rightarrow> []) \<Longrightarrow>
   fold add_kind ps m n =
    (let new = map fst (filter (\<lambda>(gvk, t). typeName t = n) ps)
     in if new = [] then m n else Some ((case m n of Some ks \<Rightarrow> ks | None \<Rightarrow> []) @ new))"
proof (induction ps arbitrary: m)
  case Nil
  then show ?case by simp
next
  case (Cons p ps)
  obtain gvk t where p: "p = (gvk, t)" by fastforce
  let ?kinds = "case m (typeName t) of Some ks \<Rightarrow> ks | None \<Rightarrow> []"
  define m1 where "m1 = m(typeName t \<mapsto> ?kinds @ [gvk])"
  have "gvk \<notin> set ?kinds" using Cons.prems(2) by (auto simp: p)
  then have add: "add_kind p m = m1" by (auto simp: add_kind_def p Let_def m1_def)
  have "\<forall>g \<in> fst ` set ps. \<forall>n. g \<notin> set (case m1 n of Some ks \<Rightarrow> ks | None \<Rightarrow> [])"
    using Cons.prems by (auto simp: p m1_def)
  from Cons.IH [OF _ this] Cons.prems(1)
  have "fold add_kind (p # ps) m n =
      (let new = map fst (filter (\<lambda>(gvk, t). typeName t = n) ps)
       in if new = [] then m1 n else Some ((case m1 n of Some ks \<Rightarrow> ks | None \<Rightarrow> []) @ new))"
    by (simp add: add)
  then show ?case by (cases "typeName t = n") (simp_all add: p m1_def Let_def)
qed

lemma plain_typeName: "plain_type t \<Longrightarrow> typeName t = ty_Package t @ ''.'' @ ty_Name t"
  by (simp add: plain_type_def strings_Contains_def typeName_def)

lemma last_dot_unique:
  "a @ CHR ''.'' # x = b @ CHR ''.'' # y \<Longrightarrow> CHR ''.'' \<notin> set x \<Longrightarrow> CHR ''.'' \<notin> set y \<Longrightarrow> a = b \<and> x = y"
  by (auto simp: append_eq_append_conv2 Cons_eq_append_conv append_eq_Cons_conv)

lemma typeName_inject: "plain_type t \<Longrightarrow> plain_type u \<Longrightarrow> typeName t = typeName u \<longleftrightarrow> t = u"
  using last_dot_unique [of "ty_Package t" "ty_Name t" "ty_Package u" "ty_Name u"]
  by (auto simp: plain_typeName) (auto simp: plain_type_def)

lemma distinct_single: "distinct xs \<Longrightarrow> set xs = {x} \<Longrightarrow> xs = [x]"
  by (cases xs) (auto simp: subset_singleton_iff)

text \<open>The kinds of a type of the API.\<close>

lemma namer_api:
  assumes "map_range iter" "scheme_ok lib s" "knows s gv" "k \<in> set (api_kinds gv)"
  shows "NewDefinitionNamer iter s (typeName (api_type gv k)) = Some [WithKind gv k]"
proof -
  let ?g = "sm_gvkToType s" and ?t = "api_type gv k"
  let ?ps = "map (\<lambda>gvk. (gvk, the (?g gvk))) (iter (dom ?g))"
  note fin = scheme_okD(6) [OF assms(2)]
  have set_iter: "set (iter (dom ?g)) = dom ?g" and dist: "distinct (iter (dom ?g))"
    using map_range.iter_set [OF assms(1) fin] map_range.iter_distinct [OF assms(1) fin] by blast+
  have known: "?g (WithKind gv k) = Some ?t" using assms(3,4) by (simp add: knows_def)
  have only: "gvk = WithKind gv k" if "gvk \<in> dom ?g" "typeName (the (?g gvk)) = typeName ?t" for gvk
  proof -
    from that(1) obtain t where t: "?g gvk = Some t" by blast
    have "t = ?t" using that(2) t typeName_inject [OF scheme_okD(5) [OF assms(2) t] api_plain [OF assms(4)]] by simp
    then have "gvk \<in> set (sm_typeToGVK s ?t)" using scheme_okD(1) [OF assms(2)] t by blast
    then show ?thesis using api_type_kinds [OF assms(2,4)] by blast
  qed
  let ?f = "filter (\<lambda>gvk. typeName (the (?g gvk)) = typeName ?t) (iter (dom ?g))"
  have "map fst (filter (\<lambda>(gvk, t). typeName t = typeName ?t) ?ps) = ?f" by (simp add: filter_map o_def)
  moreover have "set ?f = {WithKind gv k}" using only known set_iter by auto
  moreover have "distinct ?f" using dist by simp
  ultimately have "map fst (filter (\<lambda>(gvk, t). typeName t = typeName ?t) ?ps) = [WithKind gv k]"
    using distinct_single by metis
  then show ?thesis
    using fold_add_kind [of ?ps Map.empty "typeName ?t"] dist by (simp add: NewDefinitionNamer_def Let_def o_def)
qed

text \<open>The names of the definitions are different.\<close>

definition own_names :: "string list" where
  "own_names = map fst (library_definitions (\<lambda>n. n)) @ map fst (api_definitions (\<lambda>n. n))"

lemma own_names_definitions: "map fst (library_definitions ref @ api_definitions ref) = own_names"
  by (simp add: own_names_def library_definitions_def api_definitions_def)

definition v3_text :: "string \<Rightarrow> string" where
  "v3_text name = ''#/components/schemas/'' @ EscapeJsonPointer (ToRESTFriendlyName name)"

lemma v3_ref_text: "v3_ref (GetDefinitionName d) = v3_text"
  by (simp add: fun_eq_iff v3_ref_def v3_text_def)

lemma own_texts_distinct: "distinct (map v3_text own_names)"
  by code_simp

lemma own_dependencies: "map (\<lambda>(n, def). (n, od_Dependencies def)) (api_definitions ref) = map (\<lambda>(n, def). (n, od_Dependencies def)) (api_definitions (\<lambda>n. n))"
  by (simp add: api_definitions_def api_schemas)

lemma api_types_defined: "k \<in> set (api_kinds gv) \<Longrightarrow> typeName (api_type gv k) \<in> fst ` set (api_definitions ref)"
proof -
  have "list_all (\<lambda>gv. list_all (\<lambda>k. typeName (api_type gv k) \<in> set (map fst (api_definitions (\<lambda>n. n)))) (api_kinds gv))
      [coreV1beta1, coreV1alpha1, subresourcesV1beta1, subresourcesV1alpha1]" by code_simp
  moreover assume k: "k \<in> set (api_kinds gv)"
  moreover from k have "gv \<in> set [coreV1beta1, coreV1alpha1, subresourcesV1beta1, subresourcesV1alpha1]"
    by (auto simp: api_kinds_def split: if_splits)
  ultimately have "typeName (api_type gv k) \<in> set (map fst (api_definitions (\<lambda>n. n)))" unfolding list_all_iff by blast
  moreover have "map fst (api_definitions (\<lambda>n. n)) = map fst (api_definitions ref)" by (simp add: api_definitions_def)
  ultimately show ?thesis by (metis list.set_map)
qed

definition own_type :: "string \<Rightarrow> bool" where
  "own_type name \<longleftrightarrow> HasPrefix name ''kubevirt.io/virt-template-api/''"

lemma dependencies_defined:
  assumes "(n, def) \<in> set (api_definitions ref)" "dep \<in> set (od_Dependencies def)" "own_type dep"
  shows "dep \<in> fst ` set (api_definitions ref)"
proof -
  let ?deps = "map (\<lambda>(n, def). (n, od_Dependencies def)) (api_definitions (\<lambda>n. n))"
  have "list_all (\<lambda>(n, deps). list_all (\<lambda>dep. own_type dep \<longrightarrow> dep \<in> set (map fst ?deps)) deps) ?deps" by code_simp
  moreover have "(n, od_Dependencies def) \<in> set ?deps" using assms(1) by (force simp flip: own_dependencies [of ref])
  ultimately have "dep \<in> set (map fst ?deps)" using assms(2,3) unfolding list_all_iff by blast
  then show ?thesis by (force simp flip: own_dependencies [of ref])
qed

text \<open>Library types do not take the names of the definitions above.\<close>

definition names_apart :: "definitions_of \<Rightarrow> bool" where
  "names_apart others \<longleftrightarrow> (\<forall>m \<in> fst ` set (others v3_text). v3_text m \<notin> v3_text ` set own_names)"

lemma NewV3Config_simps:
  "o3_GetDefinitionName (NewV3Config others operations iter s) = GetDefinitionName (NewDefinitionNamer iter s)"
  "o3_Definitions (NewV3Config others operations iter s) = others v3_text @ library_definitions v3_text @ api_definitions v3_text"
  by (simp_all add: NewV3Config_def Let_def GetOpenAPIDefinitions_def v3_ref_text)

lemma resolve_own:
  assumes "names_apart others" "(n, def) \<in> set (library_definitions v3_text @ api_definitions v3_text)"
  shows "resolve (NewV3Config others operations iter s) (v3_text n) = Some (od_Schema def)"
proof -
  let ?own = "library_definitions v3_text @ api_definitions v3_text"
  let ?entry = "\<lambda>(n, def). (v3_text n, od_Schema def)"
  have "n \<in> set own_names" using assms(2) own_names_definitions [of v3_text] by (metis fst_conv image_eqI list.set_map)
  then have "v3_text n \<notin> v3_text ` fst ` set (others v3_text)" using assms(1) unfolding names_apart_def by (metis imageE imageI)
  moreover have "fst ` set (map ?entry (others v3_text)) = v3_text ` fst ` set (others v3_text)"
    by (simp add: image_image split_def)
  ultimately have "v3_text n \<notin> fst ` set (map ?entry (others v3_text))" by simp
  then have none: "map_of (map ?entry (others v3_text)) (v3_text n) = None" by (simp add: map_of_eq_None_iff)
  have "map fst (map ?entry ?own) = map v3_text own_names"
    by (simp add: own_names_definitions [of v3_text, symmetric] split_def comp_def)
  moreover have "(v3_text n, od_Schema def) \<in> set (map ?entry ?own)" unfolding set_map by (rule image_eqI [OF _ assms(2)]) simp
  ultimately have "map_of (map ?entry ?own) (v3_text n) = Some (od_Schema def)"
    using own_texts_distinct by (metis map_of_is_SomeI)
  with none show ?thesis
    by (simp add: resolve_def NewV3Config_simps v3_ref_text map_add_def)
qed

text \<open>An order of kinds, for examples.\<close>

definition kind_order :: "GroupVersionKind set \<Rightarrow> GroupVersionKind list" where
  "kind_order S = map (\<lambda>(g, v, k). \<lparr>gvk_Group = g, gvk_Version = v, gvk_Kind = k\<rparr>) (sorted_list_of_set (gvk_key ` S))"

interpretation kind_range: map_range kind_order
proof
  fix S :: "GroupVersionKind set" assume "finite S"
  have eta: "\<lparr>gvk_Group = gvk_Group gvk, gvk_Version = gvk_Version gvk, gvk_Kind = gvk_Kind gvk\<rparr> = gvk" for gvk :: GroupVersionKind by simp
  show "set (kind_order S) = S" using \<open>finite S\<close> by (simp add: kind_order_def gvk_key_def image_image eta)
  show "distinct (kind_order S)" using \<open>finite S\<close> by (auto simp: kind_order_def gvk_key_def distinct_map inj_on_def)
qed

section \<open>Properties\<close>

text \<open>
  C37.  The published OpenAPI document knows every type that the API registers in the scheme: it has a schema under the name of the Go type, which is
  reported with exactly the group, version and kind of the type, all references of the schema are to its dependencies, and the dependencies
  among the types of this repository are published as well.  The scheme is that of the API server, to which client-go, KubeVirt and CDI add kinds
  of their own (\<open>lib\<close>), none of them a kind or a type of this program.
\<close>

theorem api_types_published:
  assumes "map_range iter" "library_kinds lib" "registration lib clientgo" "registration lib virtclientgo" "registration lib cdi"
    and "scheme_New clientgo virtclientgo cdi = Some s"
    and "names_apart others" "k \<in> set (api_kinds gv)"
  shows "\<exists>def. (typeName (api_type gv k), def) \<in> set (o3_Definitions (NewV3Config others operations iter s)) \<and>
    resolve (NewV3Config others operations iter s) (v3_text (typeName (api_type gv k))) = Some (od_Schema def) \<and>
    snd (o3_GetDefinitionName (NewV3Config others operations iter s) (typeName (api_type gv k))) = Some [WithKind gv k] \<and>
    set_schema (od_Schema def) = v3_text ` set (od_Dependencies def) \<and>
    (\<forall>dep \<in> set (od_Dependencies def). own_type dep \<longrightarrow> resolve (NewV3Config others operations iter s) (v3_text dep) \<noteq> None)"
proof -
  let ?n = "typeName (api_type gv k)"
  obtain s' where "scheme_New clientgo virtclientgo cdi = Some s'" "scheme_ok lib s'" "\<forall>gv. knows s' gv"
    using scheme_New_built [OF assms(2-5)] by blast
  then have s: "scheme_ok lib s" "knows s gv" using assms(6) by auto
  obtain def where def: "(?n, def) \<in> set (api_definitions v3_text)" using api_types_defined [OF assms(8)] by (metis imageE prod.collapse)
  have "resolve (NewV3Config others operations iter s) (v3_text dep) \<noteq> None"
    if "dep \<in> set (od_Dependencies def)" "own_type dep" for dep
  proof -
    from dependencies_defined [OF def that] obtain d where "(dep, d) \<in> set (api_definitions v3_text)"
      by (metis imageE prod.collapse)
    then show ?thesis using resolve_own [OF assms(7), of dep d operations iter s] by simp
  qed
  moreover have "snd (GetDefinitionName (NewDefinitionNamer iter s) ?n) = Some [WithKind gv k]"
    by (simp add: GetDefinitionName_def namer_api [OF assms(1) s assms(8)])
  ultimately show ?thesis
    using def resolve_own [OF assms(7), of ?n def operations iter s] api_references [OF def] by (auto simp: NewV3Config_simps)
qed

theorem api_types_published_witness:
  "\<exists>s (def :: string OpenAPIDefinition). scheme_New example_clientgo example_virtclientgo example_cdi = Some s \<and>
    resolve (NewV3Config (\<lambda>ref. []) () kind_order s) (v3_text (typeName (api_type subresourcesV1beta1 ''ProcessOptions''))) = Some (od_Schema def) \<and>
    snd (o3_GetDefinitionName (NewV3Config (\<lambda>ref. []) () kind_order s) (typeName (api_type subresourcesV1beta1 ''ProcessOptions''))) =
      Some [WithKind subresourcesV1beta1 ''ProcessOptions'']"
proof -
  obtain s where s: "scheme_New example_clientgo example_virtclientgo example_cdi = Some s"
    using scheme_New_built [OF example_library_kinds example_registrations] by blast
  have known: "''ProcessOptions'' \<in> set (api_kinds subresourcesV1beta1)" by code_simp
  have apart: "names_apart (\<lambda>ref. [])" by (simp add: names_apart_def)
  show ?thesis
    using api_types_published [OF kind_range.map_range_axioms example_library_kinds example_registrations s apart known, of "()"] s
    by blast
qed

end
