(* ===== verification/Openapi_Documents.thy ===== *)
theory Openapi_Documents
  imports Openapi
begin

text \<open>
  What the published schemas say of the documents that the clients and the API server write: the schema of a type describes the JSON text of its
  values.  A schema describes a document when the document is valid and every member of an object in it is declared.  The schemas of library types
  are parameters, and so is what they say of the texts of metadata and of VirtualMachines.
\<close>

section \<open>Documents and schemas\<close>

definition member_schema :: "'r schema \<Rightarrow> string \<Rightarrow> 'r schema option" where
  "member_schema s k = (case map_of (sp_Properties s) k of Some s' \<Rightarrow> Some s' | None \<Rightarrow> sp_AdditionalProperties s)"

inductive described :: "('r \<rightharpoonup> 'r schema) \<Rightarrow> 'r schema \<Rightarrow> json \<Rightarrow> bool" for refs where
  described_ref: "sp_Ref s = Some r \<Longrightarrow> refs r = Some s' \<Longrightarrow> described refs s' j \<Longrightarrow> described refs s j"
| described_string: "sp_Ref s = None \<Longrightarrow> sp_Type s = [''string''] \<Longrightarrow> described refs s (JStr x)"
| described_boolean: "sp_Ref s = None \<Longrightarrow> sp_Type s = [''boolean''] \<Longrightarrow> described refs s (JBool b)"
| described_number: "sp_Ref s = None \<Longrightarrow> sp_Type s \<in> {[''integer''], [''number'']} \<Longrightarrow> described refs s (JNum n)"
| described_array: "sp_Ref s = None \<Longrightarrow> sp_Type s = [''array''] \<Longrightarrow> sp_Items s = Some s' \<Longrightarrow> \<forall>j \<in> set js. described refs s' j \<Longrightarrow>
    described refs s (JArr js)"
| described_object: "sp_Ref s = None \<Longrightarrow> sp_Type s = [''object''] \<Longrightarrow> set (sp_Required s) \<subseteq> fst ` set ms \<Longrightarrow>
    \<forall>m \<in> set ms. \<exists>s'. member_schema s (fst m) = Some s' \<and> described refs s' (snd m) \<Longrightarrow> described refs s (JObj ms)"
| described_any: "sp_Ref s = None \<Longrightarrow> sp_Type s = [''object''] \<Longrightarrow> sp_Properties s = [] \<Longrightarrow> sp_AdditionalProperties s = None \<Longrightarrow>
    described refs s (JObj ms)"

inductive_simps described_ref_simps: "described refs (ref_schema r) j"

text \<open>A text that is read as one value at a depth, whatever delimiter follows, and the value.\<close>

definition read_of :: "nat \<Rightarrow> string \<Rightarrow> json" where
  "read_of d v = fst (the (json_value d v))"

definition reads :: "nat \<Rightarrow> string \<Rightarrow> bool" where
  "reads d v \<longleftrightarrow> (\<forall>t. ends_value t \<longrightarrow> json_value d (v @ t) = Some (read_of d v, t))"

definition text_described :: "('r \<rightharpoonup> 'r schema) \<Rightarrow> nat \<Rightarrow> 'r schema \<Rightarrow> string \<Rightarrow> bool" where
  "text_described refs d s v \<longleftrightarrow> reads d v \<and> described refs s (read_of d v)"

section \<open>Lemmas\<close>

declare json_value.simps [simp del] json_elems.simps [simp del] json_members.simps [simp del]

lemma readsD: "reads d v \<Longrightarrow> ends_value t \<Longrightarrow> json_value d (v @ t) = Some (read_of d v, t)"
  by (simp add: reads_def)

lemma members_json:
  assumes "ms \<noteq> []" "\<And>k v. (k, v) \<in> set ms \<Longrightarrow> reads d v"
  shows "json_members d (members_text ms @ CHR ''}'' # t) = Some (map (\<lambda>(k, v). (valid_utf8_text k, read_of d v)) ms, t)"
  using assms
proof (induction ms rule: list_nonempty_induct)
  case (single m)
  obtain k v where m: "m = (k, v)" by force
  let ?s = "members_text [m] @ CHR ''}'' # t"
  have s: "?s = CHR 0x22 # json_escape k @ [CHR 0x22] @ CHR '':'' # v @ CHR ''}'' # t"
    by (simp add: members_text_def m json_quote_def)
  show ?case
    unfolding json_members.simps [of d ?s] unfolding s
    using string_body_escape [of k "CHR '':'' # v @ CHR ''}'' # t"] readsD [of d v "CHR ''}'' # t"] single
    by (simp add: skip_ws_Cons m)
next
  case (cons m ms)
  obtain k v where m: "m = (k, v)" by force
  let ?s = "members_text (m # ms) @ CHR ''}'' # t" and ?r = "members_text ms @ CHR ''}'' # t"
  have s: "?s = CHR 0x22 # json_escape k @ [CHR 0x22] @ CHR '':'' # v @ CHR '','' # ?r"
    using cons.hyps by (cases ms) (auto simp: members_text_def m json_quote_def)
  have len: "length ?r < length ?s" unfolding s by simp
  have IH: "json_members d ?r = Some (map (\<lambda>(k, v). (valid_utf8_text k, read_of d v)) ms, t)" using cons.IH cons.prems by (metis list.set_intros(2))
  have v: "json_value d (v @ CHR '','' # ?r) = Some (read_of d v, CHR '','' # ?r)" by (rule readsD [OF cons.prems [of k v]]) (simp_all add: m)
  show ?case
    unfolding json_members.simps [of d ?s] using len unfolding s
    using string_body_escape [of k "CHR '':'' # v @ CHR '','' # ?r"] v IH
    by (simp add: skip_ws_Cons m)
qed

lemma object_json:
  assumes "\<And>k v. (k, v) \<in> set ms \<Longrightarrow> reads (d + 1) v" "d < max_nesting_depth"
  shows "json_value d (object_text ms @ t) = Some (JObj (map (\<lambda>(k, v). (valid_utf8_text k, read_of (d + 1) v)) ms), t)"
proof (cases "ms = []")
  case True
  with assms(2) show ?thesis by (simp add: json_value.simps [of d "_ # _"] object_text_def members_text_def skip_ws_Cons)
next
  case False
  with members_text_start obtain x where x: "members_text ms = CHR 0x22 # x" by blast
  from members_json [OF False, of "d + 1" t] assms(1)
  have "json_members (d + 1) (members_text ms @ CHR ''}'' # t) = Some (map (\<lambda>(k, v). (valid_utf8_text k, read_of (d + 1) v)) ms, t)" by blast
  with x assms(2) show ?thesis by (simp add: json_value.simps [of d "_ # _"] object_text_def skip_ws_Cons)
qed

lemma object_read_of:
  assumes "\<And>k v. (k, v) \<in> set ms \<Longrightarrow> reads (d + 1) v" "d < max_nesting_depth"
  shows "read_of d (object_text ms @ t) = JObj (map (\<lambda>(k, v). (valid_utf8_text k, read_of (d + 1) v)) ms)"
    "reads d (object_text ms)"
  using object_json [of ms d] object_json [of ms d "[]"] assms by (simp_all add: read_of_def reads_def)

text \<open>The rules that describe the texts of the encoders.\<close>

definition members_described :: "('r \<rightharpoonup> 'r schema) \<Rightarrow> nat \<Rightarrow> 'r schema \<Rightarrow> (string \<times> string) list \<Rightarrow> bool" where
  "members_described refs d s ms \<longleftrightarrow>
     (\<forall>(k, v) \<in> set ms. \<exists>s'. member_schema s (valid_utf8_text k) = Some s' \<and> text_described refs d s' v)"

lemma members_described_append [simp]:
  "members_described refs d s (ms @ ms') \<longleftrightarrow> members_described refs d s ms \<and> members_described refs d s ms'"
  by (simp add: members_described_def ball_Un)

lemma members_described_Nil [simp]: "members_described refs d s []"
  by (simp add: members_described_def)

lemma members_described_Cons [simp]:
  "members_described refs d s ((k, v) # ms) \<longleftrightarrow>
    (\<exists>s'. member_schema s (valid_utf8_text k) = Some s' \<and> text_described refs d s' v) \<and> members_described refs d s ms"
  by (auto simp: members_described_def)

lemma members_described_omitempty:
  "(x \<noteq> e \<Longrightarrow> \<exists>s'. member_schema s (valid_utf8_text k) = Some s' \<and> text_described refs d s' (enc x)) \<Longrightarrow>
   members_described refs d s (omitempty enc e k x)"
  by (auto simp: omitempty_def)

lemma object_described:
  assumes "sp_Ref s = None" "sp_Type s = [''object'']" "set (sp_Required s) \<subseteq> valid_utf8_text ` fst ` set ms" "members_described refs (d + 1) s ms"
    and "d < max_nesting_depth"
  shows "described refs s (read_of d (object_text ms @ t))" "text_described refs d s (object_text ms)"
proof -
  have reads: "reads (d + 1) v" if "(k, v) \<in> set ms" for k v
    using assms(4) that by (auto simp: members_described_def text_described_def)
  have keys: "fst ` set (map (\<lambda>(k, v). (valid_utf8_text k, read_of (d + 1) v)) ms) = valid_utf8_text ` fst ` set ms"
    by (force simp: image_iff)
  have all: "described refs s (JObj (map (\<lambda>(k, v). (valid_utf8_text k, read_of (d + 1) v)) ms))"
    using assms(1-3) keys
  proof (intro described_object)
    show "\<forall>m \<in> set (map (\<lambda>(k, v). (valid_utf8_text k, read_of (d + 1) v)) ms).
        \<exists>s'. member_schema s (fst m) = Some s' \<and> described refs s' (snd m)"
      using assms(4) by (fastforce simp: members_described_def text_described_def)
  qed simp_all
  then show "described refs s (read_of d (object_text ms @ t))" using object_read_of(1) [OF reads assms(5)] by simp
  show "text_described refs d s (object_text ms)"
    using all object_read_of(1) [of ms d "[]", OF reads assms(5)] object_read_of(2) [of ms d, OF reads assms(5)] by (simp add: text_described_def)
qed

lemma quote_described: "text_described refs d (typed ''string'' f) (json_quote x)"
proof -
  have "read_of d (json_quote x) = JStr (valid_utf8_text x)" using json_quote_value [of d x "[]"] by (simp add: read_of_def)
  then show ?thesis
    using json_quote_value [of d x] by (auto simp: text_described_def reads_def typed_def intro: described_string)
qed

lemma ref_described: "sp_Ref s = Some r \<Longrightarrow> refs r = Some s' \<Longrightarrow> text_described refs d s' v \<Longrightarrow> text_described refs d s v"
  by (auto simp: text_described_def intro: described_ref)

section \<open>Texts of the API types\<close>

text \<open>What is relied on of the schemas of the library: they describe the texts of metadata and of VirtualMachines in an object.\<close>

abbreviation "ObjectMeta_ref \<equiv> ref_schema (v3_text ''k8s.io/apimachinery/pkg/apis/meta/v1.ObjectMeta'')"
abbreviation "VirtualMachine_ref \<equiv> ref_schema (v3_text ''kubevirt.io/api/core/v1.VirtualMachine'')"

lemma described_by_ref: "sp_Ref s = Some r \<Longrightarrow> described refs s j \<longleftrightarrow> (\<exists>s'. refs r = Some s' \<and> described refs s' j)"
  by (subst described.simps) auto

lemma described_default: "sp_Ref s = Some r \<Longrightarrow> text_described refs d (with_default x s) v \<longleftrightarrow> text_described refs d s v"
  by (cases s) (simp add: text_described_def with_default_def described_by_ref)

lemma depth_small [simp]: "0 < max_nesting_depth" "Suc 0 < max_nesting_depth"
  by (simp_all add: max_nesting_depth_def)

lemma object_document:
  assumes "members_described refs 1 s ms" "sp_Ref s = None" "sp_Type s = [''object'']" "set (sp_Required s) \<subseteq> valid_utf8_text ` fst ` set ms"
  shows "\<exists>j. json_syntax (object_text ms @ newline) = Some j \<and> described refs s j"
proof -
  have reads: "reads (0 + 1) v" if "(k, v) \<in> set ms" for k v
    using assms(1) that by (auto simp: members_described_def text_described_def)
  have "json_syntax (object_text ms @ newline) = Some (read_of 0 (object_text ms @ newline))"
    using object_json [of ms 0 newline, OF reads] object_read_of(1) [of ms 0 newline, OF reads]
    by (simp add: json_syntax_def newline_def skip_ws_def is_ws_def)
  then show ?thesis using object_described(1) [of s ms refs 0 newline] assms by simp
qed

lemma reference_described:
  "text_described refs 1 (od_Schema (schema_k8sio_api_core_v1_ObjectReference ref)) (marshalReference r)"
  unfolding marshalReference_def
  by (rule object_described(2))
     (auto simp: schema_k8sio_api_core_v1_ObjectReference_def schema_forms member_schema_def keys_ascii
        intro!: members_described_omitempty quote_described [unfolded typed_def])

lemma map_described: "text_described refs 1 (map_schema (typed ''string'' [])) (map_text m)"
  unfolding map_text_def
  by (rule object_described(2)) (auto simp: map_schema_def member_schema_def members_described_def intro!: quote_described)

lemma processed_document:
  assumes "refs (v3_text ''k8s.io/api/core/v1.ObjectReference'') = Some (od_Schema (schema_k8sio_api_core_v1_ObjectReference v3_text))"
    and "pt_Meta p = empty_meta" "pt_VirtualMachine p = Some vm" "ve_VM en vm = Some t" "text_described refs 1 VirtualMachine_ref t"
  shows "\<exists>data j. marshalProcessed en p = Some data \<and> json_syntax (data @ newline) = Some j \<and>
    described refs (od_Schema (schema_kubevirtio_virt_template_api_core_subresourcesv1beta1_ProcessedVirtualMachineTemplate v3_text)) j"
proof -
  let ?s = "od_Schema (schema_kubevirtio_virt_template_api_core_subresourcesv1beta1_ProcessedVirtualMachineTemplate v3_text)"
  let ?ms = "omitempty json_quote [] ''kind'' (tm_Kind (pt_TypeMeta p)) @ omitempty json_quote [] ''apiVersion'' (tm_APIVersion (pt_TypeMeta p))
    @ omitempty (marshalReference \<circ> the) None ''templateRef'' (pt_TemplateRef p)
    @ (''virtualMachine'', t) # omitempty json_quote [] ''message'' (pt_Message p)"
  have schema: "member_schema ?s ''kind'' = Some (typed ''string'' [])" "member_schema ?s ''apiVersion'' = Some (typed ''string'' [])"
    "member_schema ?s ''templateRef'' = Some (ref_schema (v3_text ''k8s.io/api/core/v1.ObjectReference''))"
    "member_schema ?s ''virtualMachine'' = Some VirtualMachine_ref" "member_schema ?s ''message'' = Some (typed ''string'' [])"
    by (simp_all add: schema_kubevirtio_virt_template_api_core_subresourcesv1beta1_ProcessedVirtualMachineTemplate_def object_schema_def member_schema_def)
  have "text_described refs 1 (ref_schema (v3_text ''k8s.io/api/core/v1.ObjectReference'')) (marshalReference r)" for r
    using ref_described [of "ref_schema (v3_text ''k8s.io/api/core/v1.ObjectReference'')" _ refs _ 1 "marshalReference r"] assms(1)
      reference_described [of refs v3_text r] by (simp add: ref_schema_def)
  then have "members_described refs 1 ?s ?ms"
    using assms(5) by (auto simp: keys_ascii schema intro!: members_described_omitempty quote_described)
  moreover have "sp_Ref ?s = None" "sp_Type ?s = [''object'']" "set (sp_Required ?s) \<subseteq> valid_utf8_text ` fst ` set ?ms"
    by (simp_all add: schema_kubevirtio_virt_template_api_core_subresourcesv1beta1_ProcessedVirtualMachineTemplate_def object_schema_def keys_ascii)
  ultimately have "\<exists>j. json_syntax (object_text ?ms @ newline) = Some j \<and> described refs ?s j" by (rule object_document)
  moreover have "marshalProcessed en p = Some (object_text ?ms)" by (simp add: marshalProcessed_def assms(2-4) omitempty_def)
  ultimately show ?thesis by blast
qed

lemma options_document:
  assumes "s \<in> {od_Schema (schema_kubevirtio_virt_template_api_core_subresourcesv1beta1_ProcessOptions v3_text),
      od_Schema (schema_kubevirtio_virt_template_api_core_subresourcesv1alpha1_ProcessOptions v3_text)}"
    and "po_Meta opts \<noteq> empty_meta \<Longrightarrow> text_described refs 1 ObjectMeta_ref (ve_Meta en (po_Meta opts))"
  shows "\<exists>data j. marshalOptions en opts = Some data \<and> json_syntax (data @ newline) = Some j \<and> described refs s j"
proof -
  let ?ms = "omitempty json_quote [] ''kind'' (tm_Kind (po_TypeMeta opts)) @ omitempty json_quote [] ''apiVersion'' (tm_APIVersion (po_TypeMeta opts))
    @ omitempty (ve_Meta en) empty_meta ''metadata'' (po_Meta opts) @ omitempty map_text Map.empty ''parameters'' (po_Parameters opts)"
  have schema: "s = object_schema [(''kind'', typed ''string'' []), (''apiVersion'', typed ''string'' []),
      (''metadata'', with_default DefaultObject ObjectMeta_ref), (''parameters'', map_schema (typed ''string'' []))] []"
    using assms(1) by (auto simp: schema_kubevirtio_virt_template_api_core_subresourcesv1beta1_ProcessOptions_def
        schema_kubevirtio_virt_template_api_core_subresourcesv1alpha1_ProcessOptions_def)
  have "sp_Ref ObjectMeta_ref = Some (v3_text ''k8s.io/apimachinery/pkg/apis/meta/v1.ObjectMeta'')" by (simp add: ref_schema_def)
  note default = described_default [OF this]
  have "members_described refs 1 s ?ms"
    using assms(2) default [of refs 1] map_described [of refs]
    by (auto simp: schema object_schema_def member_schema_def keys_ascii intro!: members_described_omitempty quote_described)
  then have "\<exists>j. json_syntax (object_text ?ms @ newline) = Some j \<and> described refs s j"
    by (rule object_document) (simp_all add: schema object_schema_def)
  then show ?thesis by (simp add: marshalOptions_def)
qed

text \<open>What the handlers of version v1beta1 answer.\<close>

lemma on_processed_object:
  "on_processed r f = (Returns (warnings, ResponseObject statusCode b), w') \<Longrightarrow>
   \<exists>ws q w1. r = (Returns (ws, Inr q), w1) \<and> f ws q w1 = (Returns (warnings, ResponseObject statusCode b), w')"
  by (auto simp: on_processed_def split: run.splits sum.splits prod.splits)

lemma ProcessTemplate_object:
  "ProcessTemplate iter sv processor body ns tid w = (Returns (ws, Inr q), w1) \<Longrightarrow> \<exists>vm msg. q = processed_template ns tid vm msg"
  by (auto simp: ProcessTemplate_def dest!: process_merged_VM split: sum.splits prod.splits)

lemma create_object:
  "create_processed vs ns (\<lambda>ws q. respond (BodyV1beta1 q) ws) ws (processed_template ns tid vm msg) w = (Returns (warnings, ResponseObject statusCode b), w') \<Longrightarrow>
   \<exists>vm. b = BodyV1beta1 (processed_template ns tid vm msg)"
  by (auto simp: create_processed_def respond_def processed_template_def split: sum.splits prod.splits)

lemma answered_object:
  assumes "ConnectProcessV1beta1 iter p (Some ns) tid = Inr process" "ConnectCreateV1beta1 iter c (Some ns) tid = Inr create"
    and "handler \<in> {process, create}" "handler body w = (Returns (warnings, ResponseObject statusCode b), w')"
  shows "\<exists>vm msg. b = BodyV1beta1 (processed_template ns tid vm msg)"
proof -
  from assms(3) consider "handler = process" | "handler = create" by blast
  then show ?thesis
  proof cases
    case 1
    with assms(1,4) show ?thesis
      by (auto simp: ConnectProcessV1beta1_def respond_def dest!: on_processed_object ProcessTemplate_object) blast
  next
    case 2
    with assms(2,4) show ?thesis
      by (auto simp: ConnectCreateV1beta1_def dest!: on_processed_object ProcessTemplate_object create_object)
  qed
qed

lemma resolve_type:
  assumes "names_apart others" "gv \<in> {subresourcesV1beta1, subresourcesV1alpha1}"
  shows "resolve (NewV3Config others operations iter s) (v3_text (typeName (api_type gv ''ProcessOptions''))) =
      Some (if gv = subresourcesV1beta1 then od_Schema (schema_kubevirtio_virt_template_api_core_subresourcesv1beta1_ProcessOptions v3_text)
        else od_Schema (schema_kubevirtio_virt_template_api_core_subresourcesv1alpha1_ProcessOptions v3_text))"
    "resolve (NewV3Config others operations iter s) (v3_text (typeName (api_type subresourcesV1beta1 ''ProcessedVirtualMachineTemplate''))) =
      Some (od_Schema (schema_kubevirtio_virt_template_api_core_subresourcesv1beta1_ProcessedVirtualMachineTemplate v3_text))"
    "resolve (NewV3Config others operations iter s) (v3_text ''k8s.io/api/core/v1.ObjectReference'') =
      Some (od_Schema (schema_k8sio_api_core_v1_ObjectReference v3_text))"
proof -
  have names: "typeName (api_type subresourcesV1beta1 ''ProcessOptions'') = ''kubevirt.io/virt-template-api/core/subresourcesv1beta1.ProcessOptions''"
    "typeName (api_type subresourcesV1alpha1 ''ProcessOptions'') = ''kubevirt.io/virt-template-api/core/subresourcesv1alpha1.ProcessOptions''"
    "typeName (api_type subresourcesV1beta1 ''ProcessedVirtualMachineTemplate'') = ''kubevirt.io/virt-template-api/core/subresourcesv1beta1.ProcessedVirtualMachineTemplate''"
    and versions: "subresourcesV1alpha1 \<noteq> subresourcesV1beta1"
    by code_simp+
  note own = resolve_own [OF assms(1), of _ _ operations iter s]
  from assms(2) show "resolve (NewV3Config others operations iter s) (v3_text (typeName (api_type gv ''ProcessOptions''))) =
      Some (if gv = subresourcesV1beta1 then od_Schema (schema_kubevirtio_virt_template_api_core_subresourcesv1beta1_ProcessOptions v3_text)
        else od_Schema (schema_kubevirtio_virt_template_api_core_subresourcesv1alpha1_ProcessOptions v3_text))"
    by (elim insertE emptyE; simp only: names versions if_True if_False refl) (rule own; simp add: api_definitions_def)+
  show "resolve (NewV3Config others operations iter s) (v3_text (typeName (api_type subresourcesV1beta1 ''ProcessedVirtualMachineTemplate''))) =
      Some (od_Schema (schema_kubevirtio_virt_template_api_core_subresourcesv1beta1_ProcessedVirtualMachineTemplate v3_text))"
    unfolding names by (rule own) (simp add: api_definitions_def)
  show "resolve (NewV3Config others operations iter s) (v3_text ''k8s.io/api/core/v1.ObjectReference'') =
      Some (od_Schema (schema_k8sio_api_core_v1_ObjectReference v3_text))"
    by (rule own) (simp add: library_definitions_def)
qed

section \<open>Properties\<close>

text \<open>
  C36.  Clients and the API server keep to the published schemas: the body of a call of an expansion, of either version, is a JSON document that the
  schema of its options describes, and what the handlers of process and create of version v1beta1 answer is sent as a JSON document that the schema
  of processed templates describes, provided that the schemas of the library describe the texts of metadata and of the VirtualMachine.
\<close>

theorem documents_described:
  assumes "library_kinds lib" "registration lib clientgo" "registration lib virtclientgo" "registration lib cdi"
    and "scheme_New clientgo virtclientgo cdi = Some s" "names_apart others"
    and client: "client_codec = Some (rc_scheme cl)" "gv \<in> {subresourcesV1beta1, subresourcesV1alpha1}"
      "po_Meta opts \<noteq> empty_meta \<Longrightarrow> text_described (resolve (NewV3Config others operations iterK s)) 1 ObjectMeta_ref (ve_Meta en (po_Meta opts))"
    and server: "ConnectProcessV1beta1 iter p (Some ns) tid = Inr process" "ConnectCreateV1beta1 iter c (Some ns) tid = Inr create"
      "handler \<in> {process, create}" "handler body w = (Returns (warnings, ResponseObject statusCode b), w')"
    and vm: "\<And>q vm. b = BodyV1beta1 q \<Longrightarrow> pt_VirtualMachine q = Some vm \<Longrightarrow>
      \<exists>t. ve_VM en vm = Some t \<and> text_described (resolve (NewV3Config others operations iterK s)) 1 VirtualMachine_ref t"
  shows "(\<exists>text j. encode_options en cl gv opts = Some text \<and> json_syntax text = Some j \<and>
      described (resolve (NewV3Config others operations iterK s)) (ref_schema (v3_text (typeName (api_type gv ''ProcessOptions'')))) j) \<and>
    (\<exists>text j. http_answer s en ax (handler body w) = (Inr (statusCode, text), w') \<and> json_syntax text = Some j \<and>
      described (resolve (NewV3Config others operations iterK s))
        (ref_schema (v3_text (typeName (api_type subresourcesV1beta1 ''ProcessedVirtualMachineTemplate'')))) j)"
proof -
  let ?R = "resolve (NewV3Config others operations iterK s)"
  note types = resolve_type [OF assms(6) client(2), of operations iterK s]
  have by_ref: "described ?R (ref_schema r) j \<longleftrightarrow> (\<exists>s'. ?R r = Some s' \<and> described ?R s' j)" for r j
    by (rule described_by_ref) (simp add: ref_schema_def)
  obtain o_schema where o: "?R (v3_text (typeName (api_type gv ''ProcessOptions''))) = Some o_schema"
    "o_schema \<in> {od_Schema (schema_kubevirtio_virt_template_api_core_subresourcesv1beta1_ProcessOptions v3_text),
      od_Schema (schema_kubevirtio_virt_template_api_core_subresourcesv1alpha1_ProcessOptions v3_text)}"
    unfolding types(1) by simp
  from options_document [OF o(2) client(3)] obtain data j where d: "marshalOptions en opts = Some data" "json_syntax (data @ newline) = Some j"
    "described ?R (ref_schema (v3_text (typeName (api_type gv ''ProcessOptions'')))) j"
    unfolding by_ref o(1) by blast
  from answered_object [OF server] obtain q vm where q: "b = BodyV1beta1 q" "pt_Meta q = empty_meta" "pt_VirtualMachine q = Some vm"
    by (auto simp: processed_template_def)
  from vm [OF q(1,3)] obtain t where t: "ve_VM en vm = Some t" "text_described ?R 1 VirtualMachine_ref t" by blast
  let ?q = "q\<lparr>pt_TypeMeta := type_of_kind (WithKind subresourcesV1beta1 ''ProcessedVirtualMachineTemplate'')\<rparr>"
  obtain data' j' where d': "marshalProcessed en ?q = Some data'" "json_syntax (data' @ newline) = Some j'"
    "described ?R (ref_schema (v3_text (typeName (api_type subresourcesV1beta1 ''ProcessedVirtualMachineTemplate'')))) j'"
    using processed_document [OF types(3) _ _ t, of ?q] q(2,3) by (auto simp: by_ref types(2))
  have "ObjectKinds s (api_type subresourcesV1beta1 ''ProcessedVirtualMachineTemplate'') =
      Some [WithKind subresourcesV1beta1 ''ProcessedVirtualMachineTemplate'']"
    using scheme_New_kinds [OF assms(1-4)] assms(5) subresource_kinds by simp
  then have "answer_text s en ax (BodyV1beta1 q) = Some (data' @ newline)"
    using d'(1) by (simp add: answer_text_def Encode_def encoded_kind_def KindForGroupVersionKinds_def)
  then have "http_answer s en ax (handler body w) = (Inr (statusCode, data' @ newline), w')"
    by (simp add: server(4) q(1) http_answer_def responder_Object_def)
  then show ?thesis using d d' encode_options_client [OF client(1,2), of en opts] by auto
qed

text \<open>Schemas of the library for an example, and an API server that reads every body as empty options.\<close>

definition example_definitions :: definitions_of where
  "example_definitions ref = [(''kubevirt.io/api/core/v1.VirtualMachine'', \<lparr>od_Schema = object_schema [] [], od_Dependencies = []\<rparr>)]"

definition example_reader :: "(string, unit) process_rest" where
  "example_reader = example_process\<lparr>ps_client := example_store\<lparr>sv_Decode := (\<lambda>n b. Inr (example_options Map.empty))\<rparr>\<rparr>"

lemma example_apart: "names_apart example_definitions"
proof -
  have "v3_text ''kubevirt.io/api/core/v1.VirtualMachine'' \<notin> v3_text ` set own_names" by code_simp
  then show ?thesis by (simp add: names_apart_def example_definitions_def)
qed

lemma example_vm_described:
  "text_described (resolve (NewV3Config example_definitions operations iter s)) 1 VirtualMachine_ref ''{}''"
proof (rule ref_described)
  show "resolve (NewV3Config example_definitions operations iter s) (v3_text ''kubevirt.io/api/core/v1.VirtualMachine'') = Some (object_schema [] [])"
    by (simp add: resolve_def NewV3Config_simps v3_ref_text example_definitions_def)
  show "text_described (resolve (NewV3Config example_definitions operations iter s)) 1 (object_schema [] []) ''{}''"
    using object_described(2) [of "object_schema [] []" "[]" _ 1] by (simp add: object_schema_def object_text_def members_text_def)
qed (simp add: ref_schema_def)

theorem documents_described_witness:
  "\<exists>s sc h sent text j j'. scheme_New example_clientgo example_virtclientgo example_cdi = Some s \<and> client_codec = Some sc \<and>
    encode_options example_vm_encodings (cl_client (example_client sc ''ns'')) subresourcesV1beta1 (example_options [''A'' \<mapsto> ''x'']) = Some sent \<and>
    json_syntax sent = Some j \<and> described (resolve (NewV3Config example_definitions () kind_order s))
      (ref_schema (v3_text (typeName (api_type subresourcesV1beta1 ''ProcessOptions'')))) j \<and>
    ConnectProcessV1beta1 sorted_list_of_set example_reader (Some ''ns'') ''tpl'' = Inr h \<and>
    http_answer s example_vm_encodings example_answers (h [] ()) = (Inr (StatusOK, text), ()) \<and> json_syntax text = Some j' \<and>
    described (resolve (NewV3Config example_definitions () kind_order s))
      (ref_schema (v3_text (typeName (api_type subresourcesV1beta1 ''ProcessedVirtualMachineTemplate'')))) j'"
proof -
  obtain s where s: "scheme_New example_clientgo example_virtclientgo example_cdi = Some s" using scheme_New_kinds [OF example_library_kinds example_registrations] by blast
  obtain sc where sc: "client_codec = Some sc" using client_scheme_built by blast
  then have client: "client_codec = Some (rc_scheme (cl_client (example_client sc ''ns'')))"
    by (simp add: example_client_def newVirtualMachineTemplates_v1beta1_def)
  obtain h h' where h: "ConnectProcessV1beta1 sorted_list_of_set example_reader (Some ''ns'') ''tpl'' = Inr h"
      "ConnectCreateV1beta1 sorted_list_of_set example_create (Some ''ns'') ''tpl'' = Inr h'"
    by (simp add: ConnectProcessV1beta1_def ConnectCreateV1beta1_def)
  have "given_values sorted_list_of_set (example_options Map.empty) = []" by (simp add: given_values_def example_options_def)
  then have answer: "h [] () = (Returns ([], ResponseObject StatusOK (BodyV1beta1 (processed_template ''ns'' ''tpl'' example_vm ''done''))), ())"
    using h(1) by (auto simp: ConnectProcessV1beta1_def example_reader_def example_process_def example_store_def ProcessTemplate_def
        process_merged_def example_validated on_processed_def respond_def)
  let ?opts = "example_options [''A'' \<mapsto> ''x'']"
  have "(\<exists>text j. encode_options example_vm_encodings (cl_client (example_client sc ''ns'')) subresourcesV1beta1 ?opts = Some text \<and> json_syntax text = Some j \<and>
      described (resolve (NewV3Config example_definitions () kind_order s)) (ref_schema (v3_text (typeName (api_type subresourcesV1beta1 ''ProcessOptions'')))) j) \<and>
    (\<exists>text j. http_answer s example_vm_encodings example_answers (h [] ()) = (Inr (StatusOK, text), ()) \<and> json_syntax text = Some j \<and>
      described (resolve (NewV3Config example_definitions () kind_order s))
        (ref_schema (v3_text (typeName (api_type subresourcesV1beta1 ''ProcessedVirtualMachineTemplate'')))) j)"
  proof (rule documents_described [where lib = example_kinds and handler = h and body = "[]" and w = "()" and w' = "()"])
    show "scheme_New example_clientgo example_virtclientgo example_cdi = Some s" "names_apart example_definitions" by (fact s, fact example_apart)
    show "client_codec = Some (rc_scheme (cl_client (example_client sc ''ns'')))" by (fact client)
    show "ConnectProcessV1beta1 sorted_list_of_set example_reader (Some ''ns'') ''tpl'' = Inr h"
      "ConnectCreateV1beta1 sorted_list_of_set example_create (Some ''ns'') ''tpl'' = Inr h'" by (fact h)+
    show "h [] () = (Returns ([], ResponseObject StatusOK (BodyV1beta1 (processed_template ''ns'' ''tpl'' example_vm ''done''))), ())" by (fact answer)
    show "\<exists>t. ve_VM example_vm_encodings vm = Some t \<and>
      text_described (resolve (NewV3Config example_definitions () kind_order s)) 1 VirtualMachine_ref t" for vm
      using example_vm_described by (simp add: example_vm_encodings_def)
  qed (simp_all add: example_library_kinds example_registrations example_options_def)
  then show ?thesis using s sc h(1) by blast
qed

end
