(* ===== verification/Fake_Clients.thy ===== *)
theory Fake_Clients
  imports Clients "HOL-Library.Product_Lexorder"
begin

text \<open>
  The fake client sets, \<^verbatim>\<open>virt-template-client-go/virttemplate/fake\<close> and the packages \<^verbatim>\<open>fake\<close> of the typed clients, with the object tracker, the
  reactions and the generic fake client of client-go that they are made of.

  An object is its Go type, the namespace and the name of its metadata, and its content; the deep copies that the tracker keeps are the values
  themselves.  Patches are computed by a parameter, as is the matching of label selectors.  Watches, list metadata and the options of calls are left out.
\<close>

section \<open>Objects and actions\<close>

record GroupVersionResource =
  gvr_Group :: string
  gvr_Version :: string
  gvr_Resource :: string

definition WithResource :: "GroupVersion \<Rightarrow> string \<Rightarrow> GroupVersionResource" where
  "WithResource gv resource = \<lparr>gvr_Group = gv_Group gv, gvr_Version = gv_Version gv, gvr_Resource = resource\<rparr>"

record 'c api_object =
  ob_Type :: GoType
  ob_Namespace :: string
  ob_Name :: string
  ob_Content :: 'c

datatype 'c runtime_object = Single "'c api_object" | ListOf GoType "'c api_object list"

datatype tracker_error =
    NotFoundError "string \<times> string" string
  | AlreadyExistsError "string \<times> string" string
  | NamespaceError string string
  | NotRegisteredType GoType
  | NotRegisteredKind GroupVersionKind
  | NotListType string
  | SetListError
  | PatchError string

datatype 'c action =
    GetAction GroupVersionResource string string
  | ListAction GroupVersionResource GroupVersionKind string
  | CreateAction GroupVersionResource string string string "'c api_object"
  | UpdateAction GroupVersionResource string string "'c api_object"
  | DeleteAction GroupVersionResource string string
  | DeleteCollectionAction GroupVersionResource string
  | PatchAction GroupVersionResource string string string string string

fun GetVerb :: "'c action \<Rightarrow> string" where
  "GetVerb (GetAction gvr ns name) = ''get''"
| "GetVerb (ListAction gvr gvk ns) = ''list''"
| "GetVerb (CreateAction gvr ns subresource name obj) = ''create''"
| "GetVerb (UpdateAction gvr ns subresource obj) = ''update''"
| "GetVerb (DeleteAction gvr ns name) = ''delete''"
| "GetVerb (DeleteCollectionAction gvr ns) = ''delete-collection''"
| "GetVerb (PatchAction gvr ns name subresource pt patch) = ''patch''"

fun GetResource :: "'c action \<Rightarrow> GroupVersionResource" where
  "GetResource (GetAction gvr ns name) = gvr"
| "GetResource (ListAction gvr gvk ns) = gvr"
| "GetResource (CreateAction gvr ns subresource name obj) = gvr"
| "GetResource (UpdateAction gvr ns subresource obj) = gvr"
| "GetResource (DeleteAction gvr ns name) = gvr"
| "GetResource (DeleteCollectionAction gvr ns) = gvr"
| "GetResource (PatchAction gvr ns name subresource pt patch) = gvr"

fun GetSubresource :: "'c action \<Rightarrow> string" where
  "GetSubresource (CreateAction gvr ns subresource name obj) = subresource"
| "GetSubresource (UpdateAction gvr ns subresource obj) = subresource"
| "GetSubresource (PatchAction gvr ns name subresource pt patch) = subresource"
| "GetSubresource _ = []"

section \<open>The object tracker\<close>

record 'c tracker =
  tk_scheme :: Scheme
  tk_objects :: "GroupVersionResource \<rightharpoonup> (string \<times> string \<rightharpoonup> 'c api_object)"

definition NewObjectTracker :: "Scheme \<Rightarrow> 'c tracker" where
  "NewObjectTracker s = \<lparr>tk_scheme = s, tk_objects = Map.empty\<rparr>"

definition GroupResource :: "GroupVersionResource \<Rightarrow> string \<times> string" where
  "GroupResource gvr = (gvr_Group gvr, gvr_Resource gvr)"

definition tracker_Get :: "GroupVersionResource \<Rightarrow> string \<Rightarrow> string \<Rightarrow> 'c tracker \<Rightarrow> tracker_error + 'c api_object" where
  "tracker_Get gvr ns name t =
     (case tk_objects t gvr of
        None \<Rightarrow> Inl (NotFoundError (GroupResource gvr) name)
      | Some objs \<Rightarrow> (case objs (ns, name) of None \<Rightarrow> Inl (NotFoundError (GroupResource gvr) name) | Some obj \<Rightarrow> Inr obj))"

definition tracker_add ::
  "GroupVersionResource \<Rightarrow> 'c api_object \<Rightarrow> string \<Rightarrow> bool \<Rightarrow> 'c tracker \<Rightarrow> tracker_error option \<times> 'c tracker" where
  "tracker_add gvr obj ns replaceExisting t =
     (let obj = (if ob_Namespace obj = [] then obj\<lparr>ob_Namespace := ns\<rparr> else obj)
      in if ns \<noteq> ob_Namespace obj then (Some (NamespaceError ns (ob_Namespace obj)), t)
         else
           let objs = (case tk_objects t gvr of None \<Rightarrow> Map.empty | Some objs \<Rightarrow> objs);
               namespacedName = (ob_Namespace obj, ob_Name obj);
               touched = t\<lparr>tk_objects := (tk_objects t)(gvr \<mapsto> objs)\<rparr>;
               stored = t\<lparr>tk_objects := (tk_objects t)(gvr \<mapsto> objs(namespacedName \<mapsto> obj))\<rparr>
           in if objs namespacedName \<noteq> None
              then (if replaceExisting then (None, stored) else (Some (AlreadyExistsError (GroupResource gvr) (ob_Name obj)), touched))
              else if replaceExisting then (Some (NotFoundError (GroupResource gvr) (ob_Name obj)), touched)
              else (None, stored))"

definition tracker_Create :: "GroupVersionResource \<Rightarrow> 'c api_object \<Rightarrow> string \<Rightarrow> 'c tracker \<Rightarrow> tracker_error option \<times> 'c tracker" where
  "tracker_Create gvr obj ns = tracker_add gvr obj ns False"

definition tracker_Update :: "GroupVersionResource \<Rightarrow> 'c api_object \<Rightarrow> string \<Rightarrow> 'c tracker \<Rightarrow> tracker_error option \<times> 'c tracker" where
  "tracker_Update gvr obj ns = tracker_add gvr obj ns True"

definition tracker_Delete :: "GroupVersionResource \<Rightarrow> string \<Rightarrow> string \<Rightarrow> 'c tracker \<Rightarrow> tracker_error option \<times> 'c tracker" where
  "tracker_Delete gvr ns name t =
     (case tk_objects t gvr of
        None \<Rightarrow> (Some (NotFoundError (GroupResource gvr) name), t)
      | Some objs \<Rightarrow>
          (case objs (ns, name) of
             None \<Rightarrow> (Some (NotFoundError (GroupResource gvr) name), t)
           | Some obj \<Rightarrow> (None, t\<lparr>tk_objects := (tk_objects t)(gvr \<mapsto> objs((ns, name) := None))\<rparr>)))"

definition scheme_new_object :: "Scheme \<Rightarrow> GroupVersionKind \<Rightarrow> GoType option" where
  "scheme_new_object s gvk = (case sm_gvkToType s gvk of Some t \<Rightarrow> Some t | None \<Rightarrow> sm_unversionedKinds s (gvk_Kind gvk))"

text \<open>A list type has the name of the type of its items with a suffix.\<close>

definition list_suffix :: string where "list_suffix = ''List''"

definition item_type :: "GoType \<Rightarrow> GoType option" where
  "item_type t =
     (let n = length (ty_Name t) - length list_suffix
      in if list_suffix = drop n (ty_Name t) \<and> n > 0 then Some (t\<lparr>ty_Name := take n (ty_Name t)\<rparr>) else None)"

text \<open>The objects of a namespace, or of all, sorted by namespace and name, which are the keys of the map.\<close>

definition filterByNamespace :: "(string \<times> string \<rightharpoonup> 'c api_object) \<Rightarrow> string \<Rightarrow> 'c api_object list" where
  "filterByNamespace objs ns =
     map (\<lambda>key. the (objs key)) (filter (\<lambda>(namespace, name). ns = [] \<or> namespace = ns) (sorted_list_of_set (dom objs)))"

definition tracker_List :: "GroupVersionResource \<Rightarrow> GroupVersionKind \<Rightarrow> string \<Rightarrow> 'c tracker \<Rightarrow> tracker_error + 'c runtime_object" where
  "tracker_List gvr gvk ns t =
     (let listGVK = gvk\<lparr>gvk_Kind := gvk_Kind gvk @ ''List''\<rparr>;
          listGVK = (if gvk_Version listGVK = [] then listGVK\<lparr>gvk_Version := APIVersionInternal\<rparr> else listGVK)
      in case scheme_new_object (tk_scheme t) listGVK of
           None \<Rightarrow> Inl (NotRegisteredKind listGVK)
         | Some list \<Rightarrow>
             (case item_type list of
                None \<Rightarrow> Inl (NotListType (gvk_Kind listGVK))
              | Some item \<Rightarrow>
                  (case tk_objects t gvr of
                     None \<Rightarrow> Inr (ListOf list [])
                   | Some objs \<Rightarrow>
                       let matchingObjs = filterByNamespace objs ns
                       in if \<forall>obj \<in> set matchingObjs. ob_Type obj = item then Inr (ListOf list matchingObjs) else Inl SetListError)))"

definition unpluralizedSuffixes :: "string list" where
  "unpluralizedSuffixes = [''endpoints'']"

definition HasSuffix :: "string \<Rightarrow> string \<Rightarrow> bool" where
  "HasSuffix s x \<longleftrightarrow> HasPrefix (rev s) (rev x)"

definition UnsafeGuessKindToResource :: "GroupVersionKind \<Rightarrow> GroupVersionResource" where
  "UnsafeGuessKindToResource gvk =
     (let singularName = strings_ToLower (gvk_Kind gvk);
          plural = (\<lambda>name. \<lparr>gvr_Group = gvk_Group gvk, gvr_Version = gvk_Version gvk, gvr_Resource = name\<rparr>)
      in if gvk_Kind gvk = [] then \<lparr>gvr_Group = [], gvr_Version = [], gvr_Resource = []\<rparr>
         else if list_ex (HasSuffix singularName) unpluralizedSuffixes then plural singularName
         else if last singularName = CHR ''s'' then plural (singularName @ ''es'')
         else if last singularName = CHR ''y'' then plural (butlast singularName @ ''ies'')
         else plural (singularName @ ''s''))"

text \<open>Objects are added under the resources guessed from all kinds of their type, and the items of a list one by one.\<close>

fun add_kinds :: "GroupVersionKind list \<Rightarrow> 'c api_object \<Rightarrow> 'c tracker \<Rightarrow> tracker_error option \<times> 'c tracker" where
  "add_kinds [] obj t = (None, t)"
| "add_kinds (gvk # gvks) obj t =
     (let gvr = UnsafeGuessKindToResource gvk;
          gvr = (if gvr_Version gvr = APIVersionInternal then gvr\<lparr>gvr_Version := []\<rparr> else gvr)
      in case tracker_add gvr obj (ob_Namespace obj) False t of
           (Some err, t1) \<Rightarrow> (Some err, t1)
         | (None, t1) \<Rightarrow> add_kinds gvks obj t1)"

definition add_object :: "'c api_object \<Rightarrow> 'c tracker \<Rightarrow> tracker_error option \<times> 'c tracker" where
  "add_object obj t =
     (case ObjectKinds (tk_scheme t) (ob_Type obj) of
        None \<Rightarrow> (Some (NotRegisteredType (ob_Type obj)), t)
      | Some gvks \<Rightarrow> if gvks = [] then (Some (NotRegisteredType (ob_Type obj)), t) else add_kinds gvks obj t)"

fun add_objects :: "'c api_object list \<Rightarrow> 'c tracker \<Rightarrow> tracker_error option \<times> 'c tracker" where
  "add_objects [] t = (None, t)"
| "add_objects (obj # objs) t =
     (case add_object obj t of (Some err, t1) \<Rightarrow> (Some err, t1) | (None, t1) \<Rightarrow> add_objects objs t1)"

definition tracker_Add :: "'c runtime_object \<Rightarrow> 'c tracker \<Rightarrow> tracker_error option \<times> 'c tracker" where
  "tracker_Add obj t = (case obj of ListOf list items \<Rightarrow> add_objects items t | Single obj \<Rightarrow> add_object obj t)"

section \<open>Reactions\<close>

datatype 'c reaction = Unhandled | Handled "'c runtime_object option" "tracker_error option"

type_synonym 'c ReactionFunc = "'c action \<Rightarrow> 'c tracker \<Rightarrow> 'c reaction \<times> 'c tracker"

type_synonym 'c patcher = "string \<Rightarrow> string \<Rightarrow> 'c api_object \<Rightarrow> tracker_error + 'c api_object"

definition handled :: "tracker_error + 'c api_object \<Rightarrow> 'c reaction" where
  "handled r = (case r of Inl err \<Rightarrow> Handled None (Some err) | Inr obj \<Rightarrow> Handled (Some (Single obj)) None)"

definition ApplyPatchType :: string where "ApplyPatchType = ''application/apply-patch+yaml''"

definition react_Create :: "GroupVersionResource \<Rightarrow> string \<Rightarrow> string \<Rightarrow> 'c api_object \<Rightarrow> 'c tracker \<Rightarrow> 'c reaction \<times> 'c tracker" where
  "react_Create gvr ns subresource obj t =
     (if subresource = [] then
        (case tracker_Create gvr obj ns t of
           (Some err, t1) \<Rightarrow> (Handled None (Some err), t1)
         | (None, t1) \<Rightarrow> (handled (tracker_Get gvr ns (ob_Name obj) t1), t1))
      else
        (case tracker_Get gvr ns (ob_Name obj) t of
           Inl getOldObjErr \<Rightarrow> (Handled None (Some getOldObjErr), t)
         | Inr oldObj \<Rightarrow>
             if ob_Type oldObj = ob_Type obj then
               (case tracker_Update gvr obj ns t of
                  (Some err, t1) \<Rightarrow> (Handled None (Some err), t1)
                | (None, t1) \<Rightarrow> (handled (tracker_Get gvr ns (ob_Name obj) t1), t1))
             else (Handled (Some (Single obj)) None, t)))"

definition react_Update :: "GroupVersionResource \<Rightarrow> string \<Rightarrow> 'c api_object \<Rightarrow> 'c tracker \<Rightarrow> 'c reaction \<times> 'c tracker" where
  "react_Update gvr ns obj t =
     (case tracker_Update gvr obj ns t of
        (Some err, t1) \<Rightarrow> (Handled None (Some err), t1)
      | (None, t1) \<Rightarrow> (handled (tracker_Get gvr ns (ob_Name obj) t1), t1))"

definition react_Patch ::
  "'c patcher \<Rightarrow> GroupVersionResource \<Rightarrow> string \<Rightarrow> string \<Rightarrow> string \<Rightarrow> string \<Rightarrow> 'c tracker \<Rightarrow> 'c reaction \<times> 'c tracker" where
  "react_Patch patcher gvr ns name pt patch t =
     (case tracker_Get gvr ns name t of
        Inl err \<Rightarrow> (Handled None (Some err), t)
      | Inr old \<Rightarrow>
          (case patcher pt patch old of
             Inl err \<Rightarrow> (Handled None (Some err), t)
           | Inr obj \<Rightarrow>
               (case tracker_add gvr obj ns True t of
                  (Some err, t1) \<Rightarrow> (Handled None (Some err), t1)
                | (None, t1) \<Rightarrow> (if pt = ApplyPatchType then handled (tracker_Get gvr ns name t1) else Handled (Some (Single obj)) None, t1))))"

fun ObjectReaction :: "'c patcher \<Rightarrow> 'c ReactionFunc" where
  "ObjectReaction patcher (ListAction gvr gvk ns) t =
     (case tracker_List gvr gvk ns t of Inl err \<Rightarrow> (Handled None (Some err), t) | Inr list \<Rightarrow> (Handled (Some list) None, t))"
| "ObjectReaction patcher (GetAction gvr ns name) t = (handled (tracker_Get gvr ns name t), t)"
| "ObjectReaction patcher (CreateAction gvr ns subresource name obj) t = react_Create gvr ns subresource obj t"
| "ObjectReaction patcher (UpdateAction gvr ns subresource obj) t = react_Update gvr ns obj t"
| "ObjectReaction patcher (DeleteAction gvr ns name) t = (case tracker_Delete gvr ns name t of (err, t1) \<Rightarrow> (Handled None err, t1))"
| "ObjectReaction patcher (PatchAction gvr ns name subresource pt patch) t = react_Patch patcher gvr ns name pt patch t"
| "ObjectReaction patcher (DeleteCollectionAction gvr ns) t = (Unhandled, t)"

record 'c SimpleReactor =
  sr_Verb :: string
  sr_Resource :: string
  sr_Reaction :: "'c ReactionFunc"

definition resourceCovers :: "string \<Rightarrow> 'c action \<Rightarrow> bool" where
  "resourceCovers resource action \<longleftrightarrow>
     resource = ''*'' \<or> resource = gvr_Resource (GetResource action) \<or>
     (case strings_Index resource ''/'' of
        None \<Rightarrow> False
      | Some i \<Rightarrow> take i resource = gvr_Resource (GetResource action) \<and> drop (i + 1) resource = GetSubresource action)"

definition Handles :: "'c SimpleReactor \<Rightarrow> 'c action \<Rightarrow> bool" where
  "Handles r action \<longleftrightarrow> (sr_Verb r = ''*'' \<or> sr_Verb r = GetVerb action) \<and> resourceCovers (sr_Resource r) action"

record 'c Fake =
  fk_actions :: "'c action list"
  fk_ReactionChain :: "'c SimpleReactor list"
  fk_tracker :: "'c tracker"

definition AddReactor :: "string \<Rightarrow> string \<Rightarrow> 'c ReactionFunc \<Rightarrow> 'c Fake \<Rightarrow> 'c Fake" where
  "AddReactor verb resource reaction fk =
     fk\<lparr>fk_ReactionChain := fk_ReactionChain fk @ [\<lparr>sr_Verb = verb, sr_Resource = resource, sr_Reaction = reaction\<rparr>]\<rparr>"

fun react_chain :: "'c SimpleReactor list \<Rightarrow> 'c action \<Rightarrow> 'c tracker \<Rightarrow> 'c reaction \<times> 'c tracker" where
  "react_chain [] action t = (Unhandled, t)"
| "react_chain (r # rs) action t =
     (if \<not> Handles r action then react_chain rs action t
      else case sr_Reaction r action t of (Unhandled, t1) \<Rightarrow> react_chain rs action t1 | (Handled ret err, t1) \<Rightarrow> (Handled ret err, t1))"

definition Invokes ::
  "'c action \<Rightarrow> 'c runtime_object \<Rightarrow> 'c Fake \<Rightarrow> ('c runtime_object option \<times> tracker_error option) \<times> 'c Fake" where
  "Invokes action defaultReturnObj fk =
     (case react_chain (fk_ReactionChain fk) action (fk_tracker fk) of
        (r, t1) \<Rightarrow> (case r of Unhandled \<Rightarrow> (Some defaultReturnObj, None) | Handled ret err \<Rightarrow> (ret, err),
          fk\<lparr>fk_actions := fk_actions fk @ [action], fk_tracker := t1\<rparr>))"

section \<open>The generic fake client\<close>

record 'c FakeClient =
  fc_ns :: string
  fc_resource :: GroupVersionResource
  fc_kind :: GroupVersionKind
  fc_newObject :: "'c api_object"
  fc_newList :: GoType

definition NewFakeClientWithList :: "string \<Rightarrow> GroupVersionResource \<Rightarrow> GroupVersionKind \<Rightarrow> 'c api_object \<Rightarrow> GoType \<Rightarrow> 'c FakeClient" where
  "NewFakeClientWithList namespace resource kind newObject newList =
     \<lparr>fc_ns = namespace, fc_resource = resource, fc_kind = kind, fc_newObject = newObject, fc_newList = newList\<rparr>"

text \<open>What the methods make of a result: the empty object for none, and the type assertion, which panics for another type.\<close>

definition typed_result ::
  "'c api_object \<Rightarrow> 'c runtime_object option \<times> tracker_error option \<Rightarrow> ('c api_object \<times> tracker_error option) run" where
  "typed_result emptyResult r =
     (case r of
        (None, err) \<Rightarrow> Returns (emptyResult, err)
      | (Some (Single obj), err) \<Rightarrow> if ob_Type obj = ob_Type emptyResult then Returns (obj, err) else Panics
      | (Some (ListOf list items), err) \<Rightarrow> Panics)"

definition fake_call ::
  "'c FakeClient \<Rightarrow> 'c action \<Rightarrow> 'c Fake \<Rightarrow> ('c api_object \<times> tracker_error option) run \<times> 'c Fake" where
  "fake_call c action fk = apfst (typed_result (fc_newObject c)) (Invokes action (Single (fc_newObject c)) fk)"

definition fake_Get :: "'c FakeClient \<Rightarrow> string \<Rightarrow> 'c Fake \<Rightarrow> ('c api_object \<times> tracker_error option) run \<times> 'c Fake" where
  "fake_Get c name = fake_call c (GetAction (fc_resource c) (fc_ns c) name)"

definition fake_Create :: "'c FakeClient \<Rightarrow> 'c api_object \<Rightarrow> 'c Fake \<Rightarrow> ('c api_object \<times> tracker_error option) run \<times> 'c Fake" where
  "fake_Create c resource = fake_call c (CreateAction (fc_resource c) (fc_ns c) [] [] resource)"

definition fake_Update :: "'c FakeClient \<Rightarrow> 'c api_object \<Rightarrow> 'c Fake \<Rightarrow> ('c api_object \<times> tracker_error option) run \<times> 'c Fake" where
  "fake_Update c resource = fake_call c (UpdateAction (fc_resource c) (fc_ns c) [] resource)"

definition fake_UpdateStatus :: "'c FakeClient \<Rightarrow> 'c api_object \<Rightarrow> 'c Fake \<Rightarrow> ('c api_object \<times> tracker_error option) run \<times> 'c Fake" where
  "fake_UpdateStatus c resource = fake_call c (UpdateAction (fc_resource c) (fc_ns c) ''status'' resource)"

definition fake_Patch ::
  "'c FakeClient \<Rightarrow> string \<Rightarrow> string \<Rightarrow> string \<Rightarrow> string list \<Rightarrow> 'c Fake \<Rightarrow> ('c api_object \<times> tracker_error option) run \<times> 'c Fake" where
  "fake_Patch c name pt data subresources = fake_call c (PatchAction (fc_resource c) (fc_ns c) name (path_Join subresources) pt data)"

definition fake_Delete :: "'c FakeClient \<Rightarrow> string \<Rightarrow> 'c Fake \<Rightarrow> tracker_error option \<times> 'c Fake" where
  "fake_Delete c name fk = apfst snd (Invokes (DeleteAction (fc_resource c) (fc_ns c) name) (Single (fc_newObject c)) fk)"

definition fake_DeleteCollection :: "'c FakeClient \<Rightarrow> 'c Fake \<Rightarrow> tracker_error option \<times> 'c Fake" where
  "fake_DeleteCollection c fk = apfst snd (Invokes (DeleteCollectionAction (fc_resource c) (fc_ns c)) (ListOf (fc_newList c) []) fk)"

definition fake_List ::
  "('c api_object \<Rightarrow> bool) \<Rightarrow> 'c FakeClient \<Rightarrow> 'c Fake \<Rightarrow> ('c api_object list \<times> tracker_error option) run \<times> 'c Fake" where
  "fake_List matches c fk = apfst
     (\<lambda>(obj, err). case obj of
        None \<Rightarrow> Returns ([], err)
      | Some (ListOf list items) \<Rightarrow> if list = fc_newList c then Returns (filter matches items, err) else Panics
      | Some (Single obj) \<Rightarrow> Panics)
     (Invokes (ListAction (fc_resource c) (fc_kind c) (fc_ns c)) (ListOf (fc_newList c) []) fk)"

section \<open>The fake client set\<close>

definition new_object :: "'c \<Rightarrow> GoType \<Rightarrow> 'c api_object" where
  "new_object zero t = \<lparr>ob_Type = t, ob_Namespace = [], ob_Name = [], ob_Content = zero\<rparr>"

definition newFakeVirtualMachineTemplates_v1beta1 :: "'c \<Rightarrow> string \<Rightarrow> 'c FakeClient" where
  "newFakeVirtualMachineTemplates_v1beta1 zero namespace =
     NewFakeClientWithList namespace (WithResource coreV1beta1 ''virtualmachinetemplates'') (WithKind coreV1beta1 ''VirtualMachineTemplate'')
       (new_object zero (api_type coreV1beta1 ''VirtualMachineTemplate'')) (api_type coreV1beta1 ''VirtualMachineTemplateList'')"

definition newFakeVirtualMachineTemplateRequests_v1beta1 :: "'c \<Rightarrow> string \<Rightarrow> 'c FakeClient" where
  "newFakeVirtualMachineTemplateRequests_v1beta1 zero namespace =
     NewFakeClientWithList namespace (WithResource coreV1beta1 ''virtualmachinetemplaterequests'') (WithKind coreV1beta1 ''VirtualMachineTemplateRequest'')
       (new_object zero (api_type coreV1beta1 ''VirtualMachineTemplateRequest'')) (api_type coreV1beta1 ''VirtualMachineTemplateRequestList'')"

definition newFakeVirtualMachineTemplates_v1alpha1 :: "'c \<Rightarrow> string \<Rightarrow> 'c FakeClient" where
  "newFakeVirtualMachineTemplates_v1alpha1 zero namespace =
     NewFakeClientWithList namespace (WithResource coreV1alpha1 ''virtualmachinetemplates'') (WithKind coreV1alpha1 ''VirtualMachineTemplate'')
       (new_object zero (api_type coreV1alpha1 ''VirtualMachineTemplate'')) (api_type coreV1alpha1 ''VirtualMachineTemplateList'')"

definition newFakeVirtualMachineTemplateRequests_v1alpha1 :: "'c \<Rightarrow> string \<Rightarrow> 'c FakeClient" where
  "newFakeVirtualMachineTemplateRequests_v1alpha1 zero namespace =
     NewFakeClientWithList namespace (WithResource coreV1alpha1 ''virtualmachinetemplaterequests'') (WithKind coreV1alpha1 ''VirtualMachineTemplateRequest'')
       (new_object zero (api_type coreV1alpha1 ''VirtualMachineTemplateRequest'')) (api_type coreV1alpha1 ''VirtualMachineTemplateRequestList'')"

text \<open>Objects that the tracker does not take are a panic.\<close>

fun preset :: "'c runtime_object list \<Rightarrow> 'c tracker \<Rightarrow> 'c tracker run" where
  "preset [] t = Returns t"
| "preset (obj # objects) t = (case tracker_Add obj t of (Some err, t1) \<Rightarrow> Panics | (None, t1) \<Rightarrow> preset objects t1)"

definition tracker_fake :: "'c patcher \<Rightarrow> 'c tracker \<Rightarrow> 'c Fake" where
  "tracker_fake patcher t = AddReactor ''*'' ''*'' (ObjectReaction patcher) \<lparr>fk_actions = [], fk_ReactionChain = [], fk_tracker = t\<rparr>"

definition NewSimpleClientset :: "'c patcher \<Rightarrow> 'c runtime_object list \<Rightarrow> 'c Fake run" where
  "NewSimpleClientset patcher objects =
     (case fake_scheme of
        None \<Rightarrow> Panics
      | Some scheme \<Rightarrow>
          (case preset objects (NewObjectTracker scheme) of
             Returns t \<Rightarrow> Returns (tracker_fake patcher t)
           | Panics \<Rightarrow> Panics
           | Diverges \<Rightarrow> Diverges))"

definition virtualmachinetemplatesResource_v1beta1 :: GroupVersionResource where
  "virtualmachinetemplatesResource_v1beta1 = WithResource subresourcesV1beta1 PluralResourceName"

definition virtualmachinetemplatesResource_v1alpha1 :: GroupVersionResource where
  "virtualmachinetemplatesResource_v1alpha1 = WithResource subresourcesV1alpha1 PluralResourceName"

text \<open>The result of an expansion: nil for none, and the type assertion.\<close>

definition processed_result ::
  "GoType \<Rightarrow> 'c runtime_object option \<times> tracker_error option \<Rightarrow> ('c api_object option \<times> tracker_error option) run" where
  "processed_result t r =
     (case r of
        (None, err) \<Rightarrow> Returns (None, err)
      | (Some (Single obj), err) \<Rightarrow> if ob_Type obj = t then Returns (Some obj, err) else Panics
      | (Some (ListOf list items), err) \<Rightarrow> Panics)"

type_synonym 'c fake_expansion = "'c \<Rightarrow> 'c FakeClient \<Rightarrow> string \<Rightarrow> 'c api_object \<Rightarrow> 'c Fake \<Rightarrow> ('c api_object option \<times> tracker_error option) run \<times> 'c Fake"

definition fake_Process_v1beta1 :: "'c fake_expansion" where
  "fake_Process_v1beta1 zero f name options fk = apfst (processed_result (api_type subresourcesV1beta1 ''ProcessedVirtualMachineTemplate''))
     (Invokes (CreateAction virtualmachinetemplatesResource_v1beta1 (fc_ns f) ''process'' name (options\<lparr>ob_Type := api_type subresourcesV1beta1 ''ProcessOptions''\<rparr>))
       (Single (new_object zero (api_type subresourcesV1beta1 ''ProcessedVirtualMachineTemplate''))) fk)"

definition fake_CreateVirtualMachine_v1beta1 :: "'c fake_expansion" where
  "fake_CreateVirtualMachine_v1beta1 zero f name options fk = apfst (processed_result (api_type subresourcesV1beta1 ''ProcessedVirtualMachineTemplate''))
     (Invokes (CreateAction virtualmachinetemplatesResource_v1beta1 (fc_ns f) ''create'' name (options\<lparr>ob_Type := api_type subresourcesV1beta1 ''ProcessOptions''\<rparr>))
       (Single (new_object zero (api_type subresourcesV1beta1 ''ProcessedVirtualMachineTemplate''))) fk)"

definition fake_Process_v1alpha1 :: "'c fake_expansion" where
  "fake_Process_v1alpha1 zero f name options fk = apfst (processed_result (api_type subresourcesV1alpha1 ''ProcessedVirtualMachineTemplate''))
     (Invokes (CreateAction virtualmachinetemplatesResource_v1alpha1 (fc_ns f) ''process'' name (options\<lparr>ob_Type := api_type subresourcesV1alpha1 ''ProcessOptions''\<rparr>))
       (Single (new_object zero (api_type subresourcesV1alpha1 ''ProcessedVirtualMachineTemplate''))) fk)"

definition fake_CreateVirtualMachine_v1alpha1 :: "'c fake_expansion" where
  "fake_CreateVirtualMachine_v1alpha1 zero f name options fk = apfst (processed_result (api_type subresourcesV1alpha1 ''ProcessedVirtualMachineTemplate''))
     (Invokes (CreateAction virtualmachinetemplatesResource_v1alpha1 (fc_ns f) ''create'' name (options\<lparr>ob_Type := api_type subresourcesV1alpha1 ''ProcessOptions''\<rparr>))
       (Single (new_object zero (api_type subresourcesV1alpha1 ''ProcessedVirtualMachineTemplate''))) fk)"

section \<open>Lemmas\<close>

definition lookup :: "'c tracker \<Rightarrow> GroupVersionResource \<Rightarrow> string \<times> string \<rightharpoonup> 'c api_object" where
  "lookup t gvr = (case tk_objects t gvr of None \<Rightarrow> Map.empty | Some objs \<Rightarrow> objs)"

lemma tracker_Get_lookup:
  "tracker_Get gvr ns name t = (case lookup t gvr (ns, name) of None \<Rightarrow> Inl (NotFoundError (GroupResource gvr) name) | Some obj \<Rightarrow> Inr obj)"
  by (simp add: tracker_Get_def lookup_def split: option.split)

text \<open>Adding an object in its own namespace.\<close>

lemma lookup_update: "lookup (t\<lparr>tk_objects := (tk_objects t)(gvr \<mapsto> objs)\<rparr>) = (lookup t)(gvr := objs)"
  by (simp add: lookup_def fun_eq_iff)

lemma tracker_add_own:
  "tracker_add gvr obj (ob_Namespace obj) False t =
    (if lookup t gvr (ob_Namespace obj, ob_Name obj) = None
     then (None, t\<lparr>tk_objects := (tk_objects t)(gvr \<mapsto> (lookup t gvr)((ob_Namespace obj, ob_Name obj) \<mapsto> obj))\<rparr>)
     else (Some (AlreadyExistsError (GroupResource gvr) (ob_Name obj)), t\<lparr>tk_objects := (tk_objects t)(gvr \<mapsto> lookup t gvr)\<rparr>))"
proof -
  have own: "(if ob_Namespace obj = [] then obj\<lparr>ob_Namespace := ob_Namespace obj\<rparr> else obj) = obj" by simp
  show ?thesis unfolding tracker_add_def Let_def own by (auto simp flip: lookup_def)
qed

lemma tracker_add_new:
  assumes "tracker_add gvr obj (ob_Namespace obj) False t = (None, t1)"
  shows "lookup t gvr (ob_Namespace obj, ob_Name obj) = None"
    "lookup t1 = (lookup t)(gvr := (lookup t gvr)((ob_Namespace obj, ob_Name obj) \<mapsto> obj))" "tk_scheme t1 = tk_scheme t"
  using assms by (auto simp: tracker_add_own lookup_update split: if_splits)

text \<open>The kinds of the API that a client set stores, and the resources under which it does.\<close>

definition stored_kinds :: "(GroupVersion \<times> string) list" where
  "stored_kinds = List.product [coreV1beta1, coreV1alpha1] [''VirtualMachineTemplate'', ''VirtualMachineTemplateRequest'']"

definition kind_resource :: "GroupVersion \<times> string \<Rightarrow> GroupVersionResource" where
  "kind_resource = (\<lambda>(gv, k). UnsafeGuessKindToResource (WithKind gv k))"

lemma stored_resources:
  "map kind_resource stored_kinds =
    [WithResource coreV1beta1 ''virtualmachinetemplates'', WithResource coreV1beta1 ''virtualmachinetemplaterequests'',
     WithResource coreV1alpha1 ''virtualmachinetemplates'', WithResource coreV1alpha1 ''virtualmachinetemplaterequests'']"
  by code_simp

lemma stored_distinct: "distinct (map kind_resource stored_kinds)" "distinct (map (\<lambda>(gv, k). api_type gv k) stored_kinds)"
  by code_simp+

lemma stored_known:
  "list_all (\<lambda>(gv, k). k \<in> set (api_kinds gv) \<and> (gv = coreV1beta1 \<or> gv = coreV1alpha1) \<and> gvr_Version (kind_resource (gv, k)) \<noteq> APIVersionInternal) stored_kinds"
  by code_simp

lemma client_known_kinds:
  assumes "fake_scheme = Some s" "gv \<in> {coreV1beta1, coreV1alpha1}" "k \<in> set (api_kinds gv)"
  shows "ObjectKinds s (api_type gv k) = Some [WithKind gv k]"
proof -
  obtain s' where "client_scheme = Some s'"
    "\<And>gv k. gv \<in> {coreV1beta1, coreV1alpha1} \<Longrightarrow> k \<in> set (api_kinds gv) \<Longrightarrow> ObjectKinds s' (api_type gv k) = Some [WithKind gv k]"
    by (rule client_scheme_kinds) blast
  then show ?thesis using assms by (metis fake_scheme_same option.inject)
qed

lemma add_object_stored:
  assumes "fake_scheme = Some (tk_scheme t)" "(gv, k) \<in> set stored_kinds" "ob_Type obj = api_type gv k" "add_object obj t = (None, t1)"
  shows "lookup t (kind_resource (gv, k)) (ob_Namespace obj, ob_Name obj) = None"
    "lookup t1 = (lookup t)(kind_resource (gv, k) := (lookup t (kind_resource (gv, k)))((ob_Namespace obj, ob_Name obj) \<mapsto> obj))"
    "tk_scheme t1 = tk_scheme t"
proof -
  have k: "k \<in> set (api_kinds gv)" "gv \<in> {coreV1beta1, coreV1alpha1}" "gvr_Version (kind_resource (gv, k)) \<noteq> APIVersionInternal"
    using stored_known assms(2) by (auto simp: list_all_iff)
  have "ObjectKinds (tk_scheme t) (ob_Type obj) = Some [WithKind gv k]"
    using client_known_kinds [OF _ k(2,1)] assms(1,3) by simp
  then have "tracker_add (kind_resource (gv, k)) obj (ob_Namespace obj) False t = (None, t1)"
    using assms(4) k(3) by (auto simp: add_object_def kind_resource_def Let_def split: prod.splits option.splits)
  from tracker_add_new [OF this] show "lookup t (kind_resource (gv, k)) (ob_Namespace obj, ob_Name obj) = None"
    "lookup t1 = (lookup t)(kind_resource (gv, k) := (lookup t (kind_resource (gv, k)))((ob_Namespace obj, ob_Name obj) \<mapsto> obj))"
    "tk_scheme t1 = tk_scheme t" by simp_all
qed

text \<open>What a client set holds: the first object of a type, a namespace and a name among the objects it was made with.\<close>

definition items :: "'c runtime_object \<Rightarrow> 'c api_object list" where
  "items obj = (case obj of Single obj \<Rightarrow> [obj] | ListOf list objs \<Rightarrow> objs)"

definition held :: "GoType \<Rightarrow> string \<times> string \<Rightarrow> 'c api_object \<Rightarrow> bool" where
  "held t key obj \<longleftrightarrow> ob_Type obj = t \<and> (ob_Namespace obj, ob_Name obj) = key"

definition stored_type :: "GoType \<Rightarrow> bool" where
  "stored_type t \<longleftrightarrow> t \<in> (\<lambda>(gv, k). api_type gv k) ` set stored_kinds"

lemma add_objects_append:
  "add_objects (os @ os') t = (case add_objects os t of (Some err, t1) \<Rightarrow> (Some err, t1) | (None, t1) \<Rightarrow> add_objects os' t1)"
  by (induction os arbitrary: t) (simp_all split: prod.split option.split)

lemma preset_objects:
  "preset objects t = (case add_objects (concat (map items objects)) t of (Some err, t1) \<Rightarrow> Panics | (None, t1) \<Rightarrow> Returns t1)"
proof (induction objects arbitrary: t)
  case Nil
  then show ?case by simp
next
  case (Cons obj objects)
  have "tracker_Add obj t = add_objects (items obj) t"
    by (simp add: tracker_Add_def items_def split: runtime_object.split prod.split option.split)
  then show ?case using Cons by (simp add: add_objects_append split: prod.split option.split)
qed

definition holds :: "'c tracker \<Rightarrow> 'c api_object list \<Rightarrow> 'c tracker \<Rightarrow> bool" where
  "holds t os t1 \<longleftrightarrow>
     (\<forall>(gv, k) \<in> set stored_kinds. \<forall>key.
        (lookup t (kind_resource (gv, k)) key \<noteq> None \<longrightarrow> find (held (api_type gv k) key) os = None) \<and>
        lookup t1 (kind_resource (gv, k)) key =
          (case find (held (api_type gv k) key) os of Some obj \<Rightarrow> Some obj | None \<Rightarrow> lookup t (kind_resource (gv, k)) key)) \<and>
     (\<forall>gvr. gvr \<notin> kind_resource ` set stored_kinds \<longrightarrow> lookup t1 gvr = lookup t gvr)"

lemma holds_Cons:
  assumes "(gv', k') \<in> set stored_kinds" "ob_Type obj = api_type gv' k'" "lookup t (kind_resource (gv', k')) (ob_Namespace obj, ob_Name obj) = None"
    and "lookup t' = (lookup t)(kind_resource (gv', k') := (lookup t (kind_resource (gv', k')))((ob_Namespace obj, ob_Name obj) \<mapsto> obj))" "holds t' os t1"
  shows "holds t (obj # os) t1"
proof -
  have same: "api_type gv k = api_type gv' k' \<longleftrightarrow> (gv, k) = (gv', k')" "kind_resource (gv, k) = kind_resource (gv', k') \<longleftrightarrow> (gv, k) = (gv', k')"
    if "(gv, k) \<in> set stored_kinds" for gv k
    using stored_distinct(1,2) that assms(1) by (auto simp: distinct_map inj_on_def)
  have "(lookup t (kind_resource (gv, k)) key \<noteq> None \<longrightarrow> find (held (api_type gv k) key) (obj # os) = None) \<and>
      lookup t1 (kind_resource (gv, k)) key =
        (case find (held (api_type gv k) key) (obj # os) of Some obj \<Rightarrow> Some obj | None \<Rightarrow> lookup t (kind_resource (gv, k)) key)"
    if "(gv, k) \<in> set stored_kinds" for gv k key
  proof -
    have rest: "lookup t' (kind_resource (gv, k)) key \<noteq> None \<Longrightarrow> find (held (api_type gv k) key) os = None"
      "lookup t1 (kind_resource (gv, k)) key =
        (case find (held (api_type gv k) key) os of Some obj \<Rightarrow> Some obj | None \<Rightarrow> lookup t' (kind_resource (gv, k)) key)"
      using bspec [OF conjunct1 [OF assms(5) [unfolded holds_def]] that] by (cases key; auto)+
    show ?thesis
    proof (cases "held (api_type gv k) key obj")
      case True
      then have eq: "gv = gv'" "k = k'" "key = (ob_Namespace obj, ob_Name obj)" using same(1) [OF that] assms(2) unfolding held_def by (metis prod.inject)+
      have "lookup t' (kind_resource (gv, k)) key = Some obj" unfolding assms(4) eq by simp
      then have "lookup t1 (kind_resource (gv, k)) key = Some obj" using rest by simp
      then show ?thesis using True assms(3) by (simp add: eq)
    next
      case False
      then have "lookup t' (kind_resource (gv, k)) key = lookup t (kind_resource (gv, k)) key"
        using assms(2,4) same [OF that] by (auto simp: held_def)
      then show ?thesis using False rest by (simp split: option.split)
    qed
  qed
  moreover have "lookup t1 gvr = lookup t gvr" if "gvr \<notin> kind_resource ` set stored_kinds" for gvr
    using assms(1,4,5) that by (auto simp: holds_def)
  ultimately show ?thesis unfolding holds_def by blast
qed

lemma added_objects:
  "fake_scheme = Some (tk_scheme t) \<Longrightarrow> \<forall>obj \<in> set os. stored_type (ob_Type obj) \<Longrightarrow> add_objects os t = (None, t1) \<Longrightarrow> holds t os t1"
proof (induction os arbitrary: t)
  case Nil
  then show ?case by (simp add: holds_def)
next
  case (Cons obj os)
  obtain t' where t': "add_object obj t = (None, t')" "add_objects os t' = (None, t1)"
    using Cons.prems(3) by (auto split: prod.splits option.splits)
  obtain gv' k' where k': "(gv', k') \<in> set stored_kinds" "ob_Type obj = api_type gv' k'" using Cons.prems(2) by (auto simp: stored_type_def)
  note add = add_object_stored [OF Cons.prems(1) k' t'(1)]
  have "holds t' os t1" using Cons.IH [of t'] Cons.prems(1,2) t'(2) add(3) by simp
  then show ?case by (rule holds_Cons [OF k' add(1,2)])
qed

text \<open>The calls of a client set that has only its tracker.\<close>

lemma tracker_fake_chain: "react_chain (fk_ReactionChain (tracker_fake patcher t)) action t1 = ObjectReaction patcher action t1"
  by (auto simp: tracker_fake_def AddReactor_def Handles_def resourceCovers_def split: prod.split reaction.split)

lemma simple_clientset:
  assumes "NewSimpleClientset patcher objects = Returns fk" "\<forall>obj \<in> set (concat (map items objects)). stored_type (ob_Type obj)"
  obtains s t where "fk = tracker_fake patcher t" "holds (NewObjectTracker s) (concat (map items objects)) t"
proof -
  obtain s t where s: "fake_scheme = Some s" "preset objects (NewObjectTracker s) = Returns t" "fk = tracker_fake patcher t"
    using assms(1) by (auto simp: NewSimpleClientset_def split: option.splits run.splits)
  then have t: "add_objects (concat (map items objects)) (NewObjectTracker s) = (None, t)"
    by (auto simp: preset_objects split: prod.splits option.splits)
  have "holds (NewObjectTracker s) (concat (map items objects)) t"
    by (rule added_objects [OF _ assms(2) t]) (simp add: NewObjectTracker_def s(1))
  then show thesis using that s(3) by blast
qed

definition typed_clients :: "'c \<Rightarrow> string \<Rightarrow> 'c FakeClient list" where
  "typed_clients zero ns = [newFakeVirtualMachineTemplates_v1beta1 zero ns, newFakeVirtualMachineTemplateRequests_v1beta1 zero ns,
     newFakeVirtualMachineTemplates_v1alpha1 zero ns, newFakeVirtualMachineTemplateRequests_v1alpha1 zero ns]"

lemma typed_clients_kinds:
  assumes "c \<in> set (typed_clients zero ns)"
  obtains gv k where "(gv, k) \<in> set stored_kinds" "fc_resource c = kind_resource (gv, k)" "ob_Type (fc_newObject c) = api_type gv k" "fc_ns c = ns"
proof -
  have "list_all2 (\<lambda>c (gv, k). fc_resource c = kind_resource (gv, k) \<and> ob_Type (fc_newObject c) = api_type gv k \<and> fc_ns c = ns) (typed_clients zero ns) stored_kinds"
    using stored_resources
    by (simp add: typed_clients_def stored_kinds_def new_object_def NewFakeClientWithList_def newFakeVirtualMachineTemplates_v1beta1_def
        newFakeVirtualMachineTemplateRequests_v1beta1_def newFakeVirtualMachineTemplates_v1alpha1_def newFakeVirtualMachineTemplateRequests_v1alpha1_def)
  from list_all2_set1 [OF this] show thesis using assms that by blast
qed

text \<open>
  A fake client set finds exactly the objects that it was made with: \<^verbatim>\<open>Get\<close> of a typed client returns the object of its kind with the namespace of the
  client and the name, and otherwise the empty object and a not-found error.
\<close>

theorem fake_objects_found:
  assumes "NewSimpleClientset patcher objects = Returns fk" "\<forall>obj \<in> set (concat (map items objects)). stored_type (ob_Type obj)"
    and "c \<in> set (typed_clients zero ns)"
  shows "fst (fake_Get c name fk) = Returns
    (case find (held (ob_Type (fc_newObject c)) (ns, name)) (concat (map items objects)) of
       Some obj \<Rightarrow> (obj, None)
     | None \<Rightarrow> (fc_newObject c, Some (NotFoundError (GroupResource (fc_resource c)) name)))"
proof -
  obtain s t where t: "fk = tracker_fake patcher t" "holds (NewObjectTracker s) (concat (map items objects)) t"
    using simple_clientset [OF assms(1,2)] .
  obtain gv k where c: "(gv, k) \<in> set stored_kinds" "fc_resource c = kind_resource (gv, k)" "ob_Type (fc_newObject c) = api_type gv k" "fc_ns c = ns"
    using typed_clients_kinds [OF assms(3)] .
  have "lookup t (fc_resource c) (ns, name) = find (held (api_type gv k) (ns, name)) (concat (map items objects))"
    using bspec [OF conjunct1 [OF t(2) [unfolded holds_def]] c(1)]
    by (simp add: c(2) lookup_def NewObjectTracker_def split: option.splits)
  moreover have "held (api_type gv k) (ns, name) obj" if "find (held (api_type gv k) (ns, name)) os = Some obj" for os :: "'a api_object list" and obj
    using that by (auto simp: find_Some_iff)
  moreover have "fk_tracker fk = t" by (simp add: t(1) tracker_fake_def AddReactor_def)
  ultimately show ?thesis
    by (simp add: fake_Get_def fake_call_def Invokes_def t(1) tracker_fake_chain tracker_Get_lookup typed_result_def handled_def c(3,4) held_def
        split: option.split)
qed

lemma tracker_add_stored:
  "tracker_add gvr obj ns replace t = (None, t1) \<Longrightarrow> \<exists>stored. lookup t1 gvr (ns, ob_Name obj) = Some stored \<and> ob_Type stored = ob_Type obj"
  by (auto simp: tracker_add_def Let_def lookup_def split: if_splits)

lemma created_subresource:
  assumes "subresource \<noteq> []"
  shows "(\<exists>err. fst (react_Create gvr ns subresource obj t) = Handled None (Some err)) \<or>
    (\<exists>ret. fst (react_Create gvr ns subresource obj t) = Handled (Some (Single ret)) None \<and> ob_Type ret = ob_Type obj)"
proof -
  have "\<exists>ret. handled (tracker_Get gvr ns (ob_Name obj) t1) = Handled (Some (Single ret)) None \<and> ob_Type ret = ob_Type obj"
    if "tracker_Update gvr obj ns t = (None, t1)" for t1
    using tracker_add_stored [of gvr obj ns True t t1] that by (auto simp: tracker_Update_def tracker_Get_lookup handled_def)
  then show ?thesis
    using assms by (auto simp: react_Create_def split: sum.split prod.split option.split)
qed

text \<open>
  The expansions of a fake client set that has only its tracker never return a processed template: they return an error, or panic in the type
  assertion, since the tracker answers the creation of a subresource with the options that were submitted.
\<close>

theorem fake_expansions_need_reactor:
  assumes "fk_ReactionChain fk = fk_ReactionChain (tracker_fake patcher t)"
    and "expansion \<in> {fake_Process_v1beta1, fake_CreateVirtualMachine_v1beta1, fake_Process_v1alpha1, fake_CreateVirtualMachine_v1alpha1}"
  shows "fst (expansion zero f name options fk) = Panics \<or> (\<exists>err. fst (expansion zero f name options fk) = Returns (None, Some err))"
proof -
  have types: "api_type subresourcesV1beta1 ''ProcessOptions'' \<noteq> api_type subresourcesV1beta1 ''ProcessedVirtualMachineTemplate''"
    "api_type subresourcesV1alpha1 ''ProcessOptions'' \<noteq> api_type subresourcesV1alpha1 ''ProcessedVirtualMachineTemplate''" by code_simp+
  have never: "fst (apfst (processed_result ty) (Invokes (CreateAction gvr ns sub name obj) d fk)) = Panics \<or>
      (\<exists>err. fst (apfst (processed_result ty) (Invokes (CreateAction gvr ns sub name obj) d fk)) = Returns (None, Some err))"
    if "sub \<noteq> []" "ob_Type obj \<noteq> ty" for ty gvr ns sub name and obj :: "'a api_object" and d
    using created_subresource [OF that(1), of gvr ns obj "fk_tracker fk"] that(2)
    by (auto simp: Invokes_def assms(1) tracker_fake_chain processed_result_def split: prod.split)
  from assms(2) consider "expansion = fake_Process_v1beta1" | "expansion = fake_CreateVirtualMachine_v1beta1" | "expansion = fake_Process_v1alpha1"
    | "expansion = fake_CreateVirtualMachine_v1alpha1" by blast
  then show ?thesis
    by cases (simp only: fake_Process_v1beta1_def fake_CreateVirtualMachine_v1beta1_def fake_Process_v1alpha1_def fake_CreateVirtualMachine_v1alpha1_def, rule never, simp, simp add: types)+
qed

end
