(* ===== verification/Spec2Isabelle.thy ===== *)
theory Spec2Isabelle
  imports
    Naming Expression_Generator Processor Conditions Owner_References Request_Controller
    Template_Controller Request_Lifecycle Subresources Apiserver Manager Deep_Copy_V1alpha1
    Created_Templates Openapi_Documents Fake_Clients
begin

text \<open>
  Verification of virt-template, the KubeVirt add-on for templates of virtual machines.

  \<^bold>\<open>The program.\<close>  A \<^verbatim>\<open>VirtualMachineTemplate\<close> holds a VirtualMachine with references to parameters.  The template engine
  (\<^verbatim>\<open>staging/src/kubevirt.io/virt-template-engine\<close>) turns it into a VirtualMachine.  Two programs use it: the controller
  manager (\<^verbatim>\<open>cmd/main.go\<close>) validates templates in webhooks (\<^verbatim>\<open>internal/webhook\<close>) and runs the controllers
  (\<^verbatim>\<open>internal/controller\<close>), which mark templates as ready and make a template from an existing VirtualMachine for every
  \<^verbatim>\<open>VirtualMachineTemplateRequest\<close>, by way of a snapshot and of clones of its volumes; and the API server
  (\<^verbatim>\<open>cmd/apiserver\<close>, \<^verbatim>\<open>internal/apiserver\<close>) serves the subresources \<^verbatim>\<open>process\<close> and \<^verbatim>\<open>create\<close> of templates.

  \<^bold>\<open>Go and its library.\<close>  \<open>Prelude\<close> has strings as lists of bytes and the functions of \<^verbatim>\<open>strings\<close>, \<open>Go_Regexp\<close> the
  leftmost-first matching of \<^verbatim>\<open>regexp\<close>, \<open>Go_Values\<close> the values that \<^verbatim>\<open>reflect\<close> shows and the parser of \<^verbatim>\<open>encoding/json\<close>,
  \<open>Json_Strings\<close> and \<open>Json_Documents\<close> its printer with the round trips between the two, and \<open>Go_Heap\<close> pointers, slices and maps
  on a heap.  An error result is \<^term>\<open>Inl\<close>; a panic is an outcome of its own where the code can panic; integers are words
  where they can overflow; the order of an iteration over a map is a parameter \<open>iter\<close> with the law of the locale \<open>map_range\<close>.

  \<^bold>\<open>Types.\<close>  \<open>Api_Types\<close> and \<open>Api_V1alpha1\<close> have the structs of \<^verbatim>\<open>api/core\<close> as records, with the names of their fields.
  \<open>Deep_Copy\<close> has the generated deep copies of the v1beta1 packages on the heap: a copy reads like the original and shares no
  cell with it, which is why the other theories can treat objects as values.  \<open>Deep_Copy_V1alpha1\<close> has those of the v1alpha1 packages, with
  the list types and the request types of that version, and proves that they are the same functions.

  \<^bold>\<open>Template engine.\<close>  \<open>Expression_Generator\<close> (\<^verbatim>\<open>generator/expressionvalue.go\<close>), \<open>Visit\<close> (\<^verbatim>\<open>visit.go\<close>), \<open>Template_Engine\<close>
  (\<^verbatim>\<open>template.go\<close>) and \<open>Processor\<close> (\<^verbatim>\<open>parameters.go\<close>, \<^verbatim>\<open>processor.go\<close>) follow the files function by function.  The lemmas show
  what generation returns and when its loop ends (it may not: \<open>generate_value_may_diverge\<close>), that substitution renders every
  string of an object and nothing else, that validation reports exactly the undefined and the unused parameters, and that what
  passes validation never fails for an undefined parameter.

  \<^bold>\<open>Webhooks.\<close>  \<open>Conversion\<close> has the conversions between the two API versions through JSON, with the contract of an encoder and
  its decoder as the locale \<open>codec\<close>; \<open>Webhook\<close> the validators, with the proof that both versions give the same verdict.

  \<^bold>\<open>Controllers.\<close>  \<open>Naming\<close> (\<^verbatim>\<open>internal/apimachinery/naming.go\<close>), \<open>Conditions\<close> and \<open>Owner_References\<close> (the library functions the
  controllers call, with the locales \<open>condition_set\<close> and \<open>finalizer_set\<close>), \<open>Request_Objects\<close> (the objects that the request
  controller builds, the transformation of the VirtualMachine, the status), \<open>Kube_Client\<close> (the cluster as a record of
  functions with arbitrary answers, a state monad with the trace of the calls) and \<open>Request_Controller\<close> (\<^verbatim>\<open>Reconcile\<close> and all it
  calls).  \<open>Request_Protocol\<close> says which call a reconcile may make after which answers, and shows it by rules for the
  weakest preconditions of the steps; \<open>Request_Lifecycle\<close> draws the safety properties from it (no template before its volumes are
  ready, no deletion of a snapshot that is still needed, the finalizer as a guard), the refinement of the stored statuses to a
  machine of three phases, the invariant of all reachable requests, and that a request completes.  \<open>Template_Controller\<close> and
  \<open>Availability_Controller\<close> have the two other controllers, the watches and the configuration of the cache.

  \<^bold>\<open>API server.\<close>  \<open>Subresources\<close> has \<^verbatim>\<open>ProcessTemplate\<close> and the storages of both versions: every outcome of a request, \<^verbatim>\<open>create\<close> as
  \<^verbatim>\<open>process\<close> and one call, and what the admission of a template promises for it.  \<open>Apiserver\<close> has the discovery filter
  of a version, for requests one after the other (its fields are not synchronised, so that concurrent requests race), the API groups,
  \<^verbatim>\<open>Run\<close> and \<^verbatim>\<open>main\<close>; the aggregated discovery document, which the library fills beside the routes of the versions, is not filtered and
  not modelled.  \<open>Api_Routing\<close> translates what the libraries do with a request for a subresource: the web services that
  \<^verbatim>\<open>k8s.io/apiserver\<close> installs for the storages of a version, the choice of a route by the curly router of \<^verbatim>\<open>go-restful\<close>, the
  namespace and name from the path, the call of the connecter and its answer; the locale \<open>api_container\<close> says what the router needs of
  the installed services, and is shown of those that \<^verbatim>\<open>Run\<close> serves.  \<open>Openapi_Definitions\<close> has the
  generated schemas of the API types, \<open>Openapi\<close> the configuration that publishes them (\<^verbatim>\<open>internal/apiserver/openapi\<close>) with the library functions
  that name definitions: every registered type is published, under its own kind and with all that it refers to in this repository.

  \<^bold>\<open>Clients.\<close>  \<open>Scheme\<close> has the registry of types of the apimachinery library, the registrations of \<^verbatim>\<open>api/core\<close> and the schemes
  of the clients and of the programs (\<^verbatim>\<open>internal/scheme\<close>); the contract of a registration is the locale \<open>registration\<close>, relative to the map \<open>lib\<close> of the kinds that
  client-go, KubeVirt and CDI register themselves.  \<open>Rest_Client\<close>
  has what the clients use of \<^verbatim>\<open>client-go/rest\<close>: the building of requests, paths, and the codec.  \<open>Clients\<close> has the generated client set
  and the typed clients with their expansions \<^verbatim>\<open>Process\<close> and \<^verbatim>\<open>CreateVirtualMachine\<close> (\<^verbatim>\<open>virt-template-client-go/virttemplate\<close>).  \<open>Fake_Clients\<close> has the
  fake client set on the object tracker of client-go: it finds exactly the objects it was made with, and its expansions need a reactor.

  \<^bold>\<open>Manager.\<close>  \<open>Manager\<close> has the flags, the options derived from them and the steps of \<^verbatim>\<open>main\<close>, with a log of the calls and their results.

  \<^bold>\<open>Compositions.\<close>  \<open>Created_Templates\<close> joins the request controller, the template engine and the webhook: a template that the
  request controller creates is admitted, unless the VirtualMachine it was made from holds text that reads like a parameter
  reference.  \<open>Client_Calls\<close> joins the clients, the routes and the handlers of the API server: what a call of an expansion comes to.
  \<open>Openapi_Documents\<close> joins both with the published schemas: the bodies of calls and the answers are documents that the schemas describe.

  \<^bold>\<open>Parameters and bounds.\<close>  Parameters of the model are the random source (a stream of numbers or errors; each draw is taken
  modulo the size of the range, so every outcome is that of some stream), the typed decoder and the conversion of an unstructured
  object to a VirtualMachine, the JSON encodings of library types, the clients, the clock, the generic API server and the manager
  of controller-runtime.  What is assumed of them stands in the hypotheses of the properties, and each such property has a witness
  with concrete functions.  Loops that may not end (\<open>GenerateValue\<close>, \<open>poll_loop\<close>) are partial functions with \<^term>\<open>None\<close> for not
  returning, and the properties say when they return.  One reading of the clock stands for the few that a function of the status makes in a row.
  \<open>read_path\<close> joins the cache options that \<^verbatim>\<open>main\<close> sets with what controller-runtime documents for them.  The nesting bound of the JSON parser is the one of Go, 10000; no
  other bound or fuel is used.

  \<^bold>\<open>Not modelled.\<close>  The OpenAPI definitions of library types and all descriptions, which are literals; the log levels, which are two
  constants for the logging library; the watches of the fake clients; the methods of the typed clients but \<^verbatim>\<open>Get\<close>, which are instances of the
  generic client of client-go; the filters of the API server in front of its router (authentication, authorization, flow control); logging and metrics.
\<close>

end
